(* ===== verification/Prelude.thy ===== *)
theory Prelude
  imports "HOL-Library.Word"
begin

text \<open>
  What every component shares: the machine integer types of the build (an emscripten
  target, so \<open>int\<close>, \<open>long\<close> and pointers have 32 bits, and \<open>insn_t\<close> is \<open>uint64_t\<close>),
  the shifts of C on words, the collections of rewrite rules the component proofs use, and
  the bit-level lemmas behind the instruction formats.
\<close>

unbundle bit_operations_syntax

subsection \<open>Machine integers\<close>

text \<open>
  A C integer is a word of its width; whether it is signed shows where it is read
  (\<open>sint\<close> or \<open>uint\<close>) and where it is widened (\<open>scast\<close> or \<open>ucast\<close>).
\<close>

type_synonym byte = "8 word"
type_synonym u32 = "32 word"
type_synonym insn_t = "64 word"
type_synonym offsetT = "32 word"
type_synonym valueT = "32 word"
type_synonym bfd_vma = "32 word"

text \<open>The shifts \<open>x << n\<close> and, for unsigned \<open>x\<close>, \<open>x >> n\<close> of C.\<close>

definition shl :: "'a::len word \<Rightarrow> nat \<Rightarrow> 'a word" where
  "shl x n = push_bit n x"

definition shr :: "'a::len word \<Rightarrow> nat \<Rightarrow> 'a word" where
  "shr x n = drop_bit n x"

subsection \<open>Rewrite rule collections\<close>

named_theorems word_bits "the value of a single bit of a word expression"
named_theorems c_eval "unfolding of the model's arithmetic on ground words"

declare shl_def [c_eval] shr_def [c_eval]

lemma bit_shl [word_bits]:
  "bit (shl w m) n \<longleftrightarrow> m \<le> n \<and> n < LENGTH('a) \<and> bit w (n - m)" for w :: "'a::len word"
  unfolding shl_def by (auto simp: bit_simps)

lemma bit_shr [word_bits]: "bit (shr w m) n \<longleftrightarrow> bit w (m + n)" for w :: "'a::len word"
  unfolding shr_def by (auto simp: bit_simps)

declare bit_or_iff [word_bits] bit_and_iff [word_bits] bit_xor_iff [word_bits]
declare bit_not_iff_eq [word_bits] bit_take_bit_iff [word_bits]
declare bit_signed_take_bit_iff [word_bits] bit_unsigned_iff [word_bits]
declare bit_1_iff [word_bits] bit_mask_iff [word_bits]

subsection \<open>Equality of words, bit by bit\<close>

lemma all_less_16:
  "(\<forall>n<16. P n) \<longleftrightarrow> P 0 \<and> P 1 \<and> P 2 \<and> P 3 \<and> P 4 \<and> P 5 \<and> P 6 \<and> P 7 \<and>
     P 8 \<and> P 9 \<and> P 10 \<and> P 11 \<and> P 12 \<and> P 13 \<and> P 14 \<and> P 15" for P :: "nat \<Rightarrow> bool"
  by (simp add: numeral_eq_Suc All_less_Suc, blast)

lemma all_less_add:
  "(\<forall>n < k + m. P n) \<longleftrightarrow> (\<forall>n < k. P n) \<and> (\<forall>n < m. P (k + n))" for k m :: nat
proof
  assume *: "(\<forall>n<k. P n) \<and> (\<forall>n<m. P (k + n))"
  show "\<forall>n < k + m. P n"
  proof (intro allI impI)
    fix n assume "n < k + m"
    then consider "n < k" | j where "n = k + j" "j < m"
      by (metis add_diff_inverse_nat nat_add_left_cancel_less)
    then show "P n" using * by cases auto
  qed
qed auto

lemma all_less_32:
  "(\<forall>n<32. P n) \<longleftrightarrow> (\<forall>n<16. P n) \<and> (\<forall>n<16. P (16 + n))" for P :: "nat \<Rightarrow> bool"
  using all_less_add [of 16 16 P] by simp

lemma all_less_64:
  "(\<forall>n<64. P n) \<longleftrightarrow> (\<forall>n<32. P n) \<and> (\<forall>n<32. P (32 + n))" for P :: "nat \<Rightarrow> bool"
  using all_less_add [of 32 32 P] by simp

lemmas all_bits = all_less_64 all_less_32 all_less_16

lemma word32_eqI: "(\<forall>n<32. bit a n = bit b n) \<Longrightarrow> a = b" for a b :: "32 word"
  by (rule bit_word_eqI) simp

lemma word64_eqI: "(\<forall>n<64. bit a n = bit b n) \<Longrightarrow> a = b" for a b :: "64 word"
  by (rule bit_word_eqI) simp

lemma word32_eq_iff: "a = b \<longleftrightarrow> (\<forall>n<32. bit a n = bit b n)" for a b :: "32 word"
  using word32_eqI by blast

lemma word64_eq_iff: "a = b \<longleftrightarrow> (\<forall>n<64. bit a n = bit b n)" for a b :: "64 word"
  using word64_eqI by blast

lemma Suc_Suc_0_eq_2: "Suc (Suc 0) = 2"
  by simp

subsection \<open>Signed ranges and sign extension\<close>

text \<open>
  A word equals the sign extension of its low \<open>n + 1\<close> bits exactly if its signed value
  fits in \<open>n + 1\<close> bits of two's complement: the range lemma behind every signed
  immediate.
\<close>

lemma sint_signed_take_bit_eq:
  fixes x :: "'a::len word"
  assumes n: "n < LENGTH('a)"
  shows "sint (signed_take_bit n x) = signed_take_bit n (sint x)"
proof (rule bit_eqI)
  fix m
  have sint_bit: "bit (sint w) k \<longleftrightarrow> bit w (min k (LENGTH('a) - 1))" for w :: "'a word" and k
    by (cases "k < LENGTH('a)") (auto simp: bit_sint_iff min_def not_less dest: bit_imp_le_length)
  have in_range: "min k (LENGTH('a) - 1) < LENGTH('a)" for k
    by (simp add: min_less_iff_disj)
  show "bit (sint (signed_take_bit n x)) m = bit (signed_take_bit n (sint x)) m"
    unfolding sint_bit bit_signed_take_bit_iff
    using n in_range [of m] by (auto simp: min_def not_le)
qed

lemma signed_take_bit_eq_self_iff:
  fixes x :: "'a::len word"
  assumes "n < LENGTH('a)"
  shows "signed_take_bit n x = x \<longleftrightarrow> - (2 ^ n) \<le> sint x \<and> sint x < 2 ^ n"
proof -
  have "signed_take_bit n x = x \<longleftrightarrow> signed_take_bit n (sint x) = sint x"
    using sint_signed_take_bit_eq [OF assms, of x] by (metis signed_word_eqI)
  then show ?thesis by (simp add: signed_take_bit_int_eq_self_iff)
qed

lemma take_bit_eq_self_word_iff:
  fixes x :: "'a::len word"
  assumes "n < LENGTH('a)"
  shows "take_bit n x = x \<longleftrightarrow> uint x < 2 ^ n"
proof -
  have "take_bit n x = x \<longleftrightarrow> take_bit n (uint x) = uint x"
    by (metis unsigned_take_bit_eq word_uint_eqI)
  then show ?thesis by (simp add: take_bit_int_eq_self_iff)
qed

lemma take_bit_word_eq_0_iff_dvd_sint:
  fixes x :: "'a::len word"
  assumes "j < LENGTH('a)"
  shows "take_bit j x = 0 \<longleftrightarrow> 2 ^ j dvd sint x"
proof -
  have "take_bit j (sint x) = take_bit j (uint x)"
    using assms by (simp add: sint_uint take_bit_signed_take_bit)
  moreover have "uint (take_bit j x) = take_bit j (uint x)"
    by (rule unsigned_take_bit_eq)
  ultimately have "take_bit j x = 0 \<longleftrightarrow> take_bit j (sint x) = 0"
    by (metis uint_0_iff)
  then show ?thesis by (simp add: take_bit_eq_0_iff)
qed

text \<open>
  The shape of an immediate that survives its instruction format: the sign extension of
  the low \<open>k + 1\<close> bits, or the low \<open>k\<close> bits, with the low \<open>j\<close> bits cleared.
\<close>

lemma clear_low_eq_self_iff:
  fixes x y :: "'a::len word"
  assumes same: "\<And>n. n < j \<Longrightarrow> bit y n = bit x n"
  shows "y AND NOT (mask j) = x \<longleftrightarrow> y = x \<and> take_bit j x = 0"
proof
  assume l: "y AND NOT (mask j) = x"
  then have "take_bit j x = take_bit j (y AND NOT (mask j))" by simp
  also have "\<dots> = 0" by (rule bit_word_eqI) (auto simp: bit_simps)
  finally have z: "take_bit j x = 0" .
  have "y = x"
  proof (rule bit_word_eqI)
    fix n assume n: "n < LENGTH('a)"
    show "bit y n = bit x n"
      using arg_cong [OF l, of "\<lambda>w. bit w n"] n same by (cases "n < j") (auto simp: bit_simps)
  qed
  with z show "y = x \<and> take_bit j x = 0" by simp
next
  assume r: "y = x \<and> take_bit j x = 0"
  have "\<not> bit x n" if "n < j" for n
    using arg_cong [OF conjunct2 [OF r], of "\<lambda>w. bit w n"] that by (simp add: bit_simps)
  with r show "y AND NOT (mask j) = x"
    by (auto intro!: bit_word_eqI simp: bit_simps)
qed

lemma signed_imm_eq_iff:
  fixes x :: "'a::len word"
  assumes "j \<le> k" "k < LENGTH('a)"
  shows "signed_take_bit k x AND NOT (mask j) = x \<longleftrightarrow>
    - (2 ^ k) \<le> sint x \<and> sint x < 2 ^ k \<and> 2 ^ j dvd sint x"
proof -
  have "bit (signed_take_bit k x) n = bit x n" if "n < j" for n
    using that assms by (simp add: bit_simps)
  then show ?thesis
    using assms by (simp add: clear_low_eq_self_iff signed_take_bit_eq_self_iff
      take_bit_word_eq_0_iff_dvd_sint)
qed

lemma take_bit_eq_self_sint_iff:
  fixes x :: "'a::len word"
  assumes k: "k < LENGTH('a) - 1"
  shows "take_bit k x = x \<longleftrightarrow> 0 \<le> sint x \<and> sint x < 2 ^ k"
proof -
  have pow: "(2::int) ^ k \<le> 2 ^ (LENGTH('a) - 1)" using k by simp
  have "sint x = uint x" if "uint x < 2 ^ k"
  proof -
    from that pow have "uint x < 2 ^ (LENGTH('a) - 1)" by linarith
    moreover have "- (2 ^ (LENGTH('a) - 1)) \<le> uint x"
      by (rule order.trans [of _ 0]) simp_all
    ultimately show ?thesis by (simp add: sint_uint signed_take_bit_int_eq_self_iff)
  qed
  moreover have "uint x = sint x" if "0 \<le> sint x"
  proof -
    have "sint x < 2 ^ (LENGTH('a) - 1)" using sint_lt [of x] by simp
    also have "(2::int) ^ (LENGTH('a) - 1) \<le> 2 ^ LENGTH('a)" by simp
    finally show ?thesis using that by (simp add: uint_sint take_bit_int_eq_self)
  qed
  ultimately show ?thesis
    using k by (auto simp: take_bit_eq_self_word_iff)
qed

lemma unsigned_imm_eq_iff:
  fixes x :: "'a::len word"
  assumes "j \<le> k" "k < LENGTH('a) - 1"
  shows "take_bit k x AND NOT (mask j) = x \<longleftrightarrow>
    0 \<le> sint x \<and> sint x < 2 ^ k \<and> 2 ^ j dvd sint x"
proof -
  have "bit (take_bit k x) n = bit x n" if "n < j" for n
    using that assms by (simp add: bit_simps)
  then show ?thesis
    using assms by (simp add: clear_low_eq_self_iff take_bit_eq_self_sint_iff
      take_bit_word_eq_0_iff_dvd_sint)
qed

end
