(* ===== verification/RiscvEncoding.thy ===== *)
theory RiscvEncoding
  imports Prelude
begin

text \<open>
  The RISC-V instruction formats, from \<open>opcode/riscv.h\<close>: how an immediate is scattered
  over an instruction word (\<open>ENCODE_*\<close>), read back (\<open>EXTRACT_*\<close>) and judged
  representable (\<open>VALID_*\<close>), and how a register or function field is inserted
  (\<open>INSERT_BITS\<close>) and extracted.

  The macros of the header are typed by their argument; \<open>RV_X\<close> and the encoders are
  polymorphic in the word width for this reason. A signed argument is shifted
  arithmetically by C and logically here; the two agree because \<open>RV_X\<close> reads at most
  bit \<open>s + n - 1\<close>, which is below the width in every use.

  The locale \<open>imm_format\<close> states what a client of one format relies on; each of the
  eighteen 32-bit formats is proved to be an instance, with its exact range.
\<close>

subsection \<open>Instruction length and field access\<close>

definition riscv_insn_length :: "insn_t \<Rightarrow> nat" where
  "riscv_insn_length insn =
     (if insn AND 0x3 \<noteq> 0x3 then 2
      else if insn AND 0x1f \<noteq> 0x1f then 4
      else if insn AND 0x3f = 0x1f then 6
      else if insn AND 0x7f = 0x3f then 8
      else 2)"

abbreviation (input) RISCV_IMM_BITS :: nat where "RISCV_IMM_BITS \<equiv> 12"

definition RV_X :: "'a::len word \<Rightarrow> nat \<Rightarrow> nat \<Rightarrow> 'a word" where
  "RV_X x s n = shr x s AND (shl 1 n - 1)"

definition RV_IMM_SIGN :: "'a::len word \<Rightarrow> 'a word" where
  "RV_IMM_SIGN x = - (shr x 31 AND 1)"

lemma RV_X_take_bit: "RV_X x s n = take_bit n (drop_bit s x)"
  unfolding RV_X_def shl_def shr_def push_bit_of_1 mask_eq_exp_minus_1 [symmetric] take_bit_eq_mask ..

lemma bit_RV_X [word_bits]: "bit (RV_X x s n) i \<longleftrightarrow> i < n \<and> bit x (s + i)"
  unfolding RV_X_take_bit by (auto simp: bit_simps)

lemma bit_minus_RV_X [word_bits]:
  "bit (- RV_X (x :: 'a::len word) s (Suc 0)) i \<longleftrightarrow> i < LENGTH('a) \<and> bit x s"
proof -
  have "RV_X x s (Suc 0) = of_bool (bit x s)"
    by (rule bit_word_eqI) (auto simp: bit_RV_X bit_simps)
  then show ?thesis by (auto simp: bit_simps)
qed

lemma bit_RV_IMM_SIGN [word_bits]:
  "bit (RV_IMM_SIGN (x :: 'a::len word)) i \<longleftrightarrow> i < LENGTH('a) \<and> bit x 31"
proof -
  have "shr x 31 AND 1 = RV_X x 31 (Suc 0)"
    by (rule bit_word_eqI) (auto simp: word_bits)
  then show ?thesis by (simp add: RV_IMM_SIGN_def bit_minus_RV_X)
qed

declare RV_X_def [c_eval] RV_IMM_SIGN_def [c_eval] riscv_insn_length_def [c_eval]

subsection \<open>Encoders and extractors\<close>

definition EXTRACT_ITYPE_IMM :: "'a::len word \<Rightarrow> 'a word" where
  "EXTRACT_ITYPE_IMM x =
     RV_X x 20 12 OR shl (RV_IMM_SIGN x) 12"

definition EXTRACT_STYPE_IMM :: "'a::len word \<Rightarrow> 'a word" where
  "EXTRACT_STYPE_IMM x =
     RV_X x 7 5 OR shl (RV_X x 25 7) 5 OR shl (RV_IMM_SIGN x) 12"

definition EXTRACT_SBTYPE_IMM :: "'a::len word \<Rightarrow> 'a word" where
  "EXTRACT_SBTYPE_IMM x =
     shl (RV_X x 8 4) 1 OR shl (RV_X x 25 6) 5 OR shl (RV_X x 7 1) 11 OR
     shl (RV_IMM_SIGN x) 12"

definition EXTRACT_UTYPE_IMM :: "64 word \<Rightarrow> 64 word" where
  "EXTRACT_UTYPE_IMM x =
     shl (RV_X x 12 20) 12 OR shl (RV_IMM_SIGN x) 32"

definition EXTRACT_UJTYPE_IMM :: "'a::len word \<Rightarrow> 'a word" where
  "EXTRACT_UJTYPE_IMM x =
     shl (RV_X x 21 10) 1 OR shl (RV_X x 20 1) 11 OR shl (RV_X x 12 8) 12 OR
     shl (RV_IMM_SIGN x) 20"

definition EXTRACT_RVC_IMM :: "'a::len word \<Rightarrow> 'a word" where
  "EXTRACT_RVC_IMM x =
     RV_X x 2 5 OR shl (- (RV_X x 12 1)) 5"

definition EXTRACT_RVC_LUI_IMM :: "'a::len word \<Rightarrow> 'a word" where
  "EXTRACT_RVC_LUI_IMM x =
     shl (EXTRACT_RVC_IMM x) RISCV_IMM_BITS"

definition EXTRACT_RVC_SIMM3 :: "'a::len word \<Rightarrow> 'a word" where
  "EXTRACT_RVC_SIMM3 x =
     RV_X x 10 2 OR shl (- (RV_X x 12 1)) 2"

definition EXTRACT_RVC_UIMM8 :: "'a::len word \<Rightarrow> 'a word" where
  "EXTRACT_RVC_UIMM8 x =
     RV_X x 5 8"

definition EXTRACT_RVC_ADDI4SPN_IMM :: "'a::len word \<Rightarrow> 'a word" where
  "EXTRACT_RVC_ADDI4SPN_IMM x =
     shl (RV_X x 6 1) 2 OR shl (RV_X x 5 1) 3 OR shl (RV_X x 11 2) 4 OR
     shl (RV_X x 7 4) 6"

definition EXTRACT_RVC_ADDI16SP_IMM :: "'a::len word \<Rightarrow> 'a word" where
  "EXTRACT_RVC_ADDI16SP_IMM x =
     shl (RV_X x 6 1) 4 OR shl (RV_X x 2 1) 5 OR shl (RV_X x 5 1) 6 OR
     shl (RV_X x 3 2) 7 OR shl (- (RV_X x 12 1)) 9"

definition EXTRACT_RVC_LW_IMM :: "'a::len word \<Rightarrow> 'a word" where
  "EXTRACT_RVC_LW_IMM x =
     shl (RV_X x 6 1) 2 OR shl (RV_X x 10 3) 3 OR shl (RV_X x 5 1) 6"

definition EXTRACT_RVC_LD_IMM :: "'a::len word \<Rightarrow> 'a word" where
  "EXTRACT_RVC_LD_IMM x =
     shl (RV_X x 10 3) 3 OR shl (RV_X x 5 2) 6"

definition EXTRACT_RVC_LWSP_IMM :: "'a::len word \<Rightarrow> 'a word" where
  "EXTRACT_RVC_LWSP_IMM x =
     shl (RV_X x 4 3) 2 OR shl (RV_X x 12 1) 5 OR shl (RV_X x 2 2) 6"

definition EXTRACT_RVC_LDSP_IMM :: "'a::len word \<Rightarrow> 'a word" where
  "EXTRACT_RVC_LDSP_IMM x =
     shl (RV_X x 5 2) 3 OR shl (RV_X x 12 1) 5 OR shl (RV_X x 2 3) 6"

definition EXTRACT_RVC_SWSP_IMM :: "'a::len word \<Rightarrow> 'a word" where
  "EXTRACT_RVC_SWSP_IMM x =
     shl (RV_X x 9 4) 2 OR shl (RV_X x 7 2) 6"

definition EXTRACT_RVC_SDSP_IMM :: "'a::len word \<Rightarrow> 'a word" where
  "EXTRACT_RVC_SDSP_IMM x =
     shl (RV_X x 10 3) 3 OR shl (RV_X x 7 3) 6"

definition EXTRACT_RVC_B_IMM :: "'a::len word \<Rightarrow> 'a word" where
  "EXTRACT_RVC_B_IMM x =
     shl (RV_X x 3 2) 1 OR shl (RV_X x 10 2) 3 OR shl (RV_X x 2 1) 5 OR
     shl (RV_X x 5 2) 6 OR shl (- (RV_X x 12 1)) 8"

definition EXTRACT_RVC_J_IMM :: "'a::len word \<Rightarrow> 'a word" where
  "EXTRACT_RVC_J_IMM x =
     shl (RV_X x 3 3) 1 OR shl (RV_X x 11 1) 4 OR shl (RV_X x 2 1) 5 OR
     shl (RV_X x 7 1) 6 OR shl (RV_X x 6 1) 7 OR shl (RV_X x 9 2) 8 OR
     shl (RV_X x 8 1) 10 OR shl (- (RV_X x 12 1)) 11"

definition ENCODE_ITYPE_IMM :: "'a::len word \<Rightarrow> 'a word" where
  "ENCODE_ITYPE_IMM x =
     shl (RV_X x 0 12) 20"

definition ENCODE_STYPE_IMM :: "'a::len word \<Rightarrow> 'a word" where
  "ENCODE_STYPE_IMM x =
     shl (RV_X x 0 5) 7 OR shl (RV_X x 5 7) 25"

definition ENCODE_SBTYPE_IMM :: "'a::len word \<Rightarrow> 'a word" where
  "ENCODE_SBTYPE_IMM x =
     shl (RV_X x 1 4) 8 OR shl (RV_X x 5 6) 25 OR shl (RV_X x 11 1) 7 OR
     shl (RV_X x 12 1) 31"

definition ENCODE_UTYPE_IMM :: "'a::len word \<Rightarrow> 'a word" where
  "ENCODE_UTYPE_IMM x =
     shl (RV_X x 12 20) 12"

definition ENCODE_UJTYPE_IMM :: "'a::len word \<Rightarrow> 'a word" where
  "ENCODE_UJTYPE_IMM x =
     shl (RV_X x 1 10) 21 OR shl (RV_X x 11 1) 20 OR shl (RV_X x 12 8) 12 OR
     shl (RV_X x 20 1) 31"

definition ENCODE_RVC_IMM :: "'a::len word \<Rightarrow> 'a word" where
  "ENCODE_RVC_IMM x =
     shl (RV_X x 0 5) 2 OR shl (RV_X x 5 1) 12"

definition ENCODE_RVC_LUI_IMM :: "'a::len word \<Rightarrow> 'a word" where
  "ENCODE_RVC_LUI_IMM x =
     ENCODE_RVC_IMM (shr x RISCV_IMM_BITS)"

definition ENCODE_RVC_SIMM3 :: "'a::len word \<Rightarrow> 'a word" where
  "ENCODE_RVC_SIMM3 x =
     shl (RV_X x 0 3) 10"

definition ENCODE_RVC_UIMM8 :: "'a::len word \<Rightarrow> 'a word" where
  "ENCODE_RVC_UIMM8 x =
     shl (RV_X x 0 8) 5"

definition ENCODE_RVC_ADDI4SPN_IMM :: "'a::len word \<Rightarrow> 'a word" where
  "ENCODE_RVC_ADDI4SPN_IMM x =
     shl (RV_X x 2 1) 6 OR shl (RV_X x 3 1) 5 OR shl (RV_X x 4 2) 11 OR
     shl (RV_X x 6 4) 7"

definition ENCODE_RVC_ADDI16SP_IMM :: "'a::len word \<Rightarrow> 'a word" where
  "ENCODE_RVC_ADDI16SP_IMM x =
     shl (RV_X x 4 1) 6 OR shl (RV_X x 5 1) 2 OR shl (RV_X x 6 1) 5 OR
     shl (RV_X x 7 2) 3 OR shl (RV_X x 9 1) 12"

definition ENCODE_RVC_LW_IMM :: "'a::len word \<Rightarrow> 'a word" where
  "ENCODE_RVC_LW_IMM x =
     shl (RV_X x 2 1) 6 OR shl (RV_X x 3 3) 10 OR shl (RV_X x 6 1) 5"

definition ENCODE_RVC_LD_IMM :: "'a::len word \<Rightarrow> 'a word" where
  "ENCODE_RVC_LD_IMM x =
     shl (RV_X x 3 3) 10 OR shl (RV_X x 6 2) 5"

definition ENCODE_RVC_LWSP_IMM :: "'a::len word \<Rightarrow> 'a word" where
  "ENCODE_RVC_LWSP_IMM x =
     shl (RV_X x 2 3) 4 OR shl (RV_X x 5 1) 12 OR shl (RV_X x 6 2) 2"

definition ENCODE_RVC_LDSP_IMM :: "'a::len word \<Rightarrow> 'a word" where
  "ENCODE_RVC_LDSP_IMM x =
     shl (RV_X x 3 2) 5 OR shl (RV_X x 5 1) 12 OR shl (RV_X x 6 3) 2"

definition ENCODE_RVC_SWSP_IMM :: "'a::len word \<Rightarrow> 'a word" where
  "ENCODE_RVC_SWSP_IMM x =
     shl (RV_X x 2 4) 9 OR shl (RV_X x 6 2) 7"

definition ENCODE_RVC_SDSP_IMM :: "'a::len word \<Rightarrow> 'a word" where
  "ENCODE_RVC_SDSP_IMM x =
     shl (RV_X x 3 3) 10 OR shl (RV_X x 6 3) 7"

definition ENCODE_RVC_B_IMM :: "'a::len word \<Rightarrow> 'a word" where
  "ENCODE_RVC_B_IMM x =
     shl (RV_X x 1 2) 3 OR shl (RV_X x 3 2) 10 OR shl (RV_X x 5 1) 2 OR
     shl (RV_X x 6 2) 5 OR shl (RV_X x 8 1) 12"

definition ENCODE_RVC_J_IMM :: "'a::len word \<Rightarrow> 'a word" where
  "ENCODE_RVC_J_IMM x =
     shl (RV_X x 1 3) 3 OR shl (RV_X x 4 1) 11 OR shl (RV_X x 5 1) 2 OR
     shl (RV_X x 6 1) 7 OR shl (RV_X x 7 1) 6 OR shl (RV_X x 8 2) 9 OR
     shl (RV_X x 10 1) 8 OR shl (RV_X x 11 1) 12"

subsection \<open>Representable immediates\<close>

definition VALID_ITYPE_IMM :: "offsetT \<Rightarrow> bool" where
  "VALID_ITYPE_IMM x \<longleftrightarrow> EXTRACT_ITYPE_IMM (ENCODE_ITYPE_IMM x) = x"

definition VALID_STYPE_IMM :: "offsetT \<Rightarrow> bool" where
  "VALID_STYPE_IMM x \<longleftrightarrow> EXTRACT_STYPE_IMM (ENCODE_STYPE_IMM x) = x"

definition VALID_SBTYPE_IMM :: "offsetT \<Rightarrow> bool" where
  "VALID_SBTYPE_IMM x \<longleftrightarrow> EXTRACT_SBTYPE_IMM (ENCODE_SBTYPE_IMM x) = x"

definition VALID_UTYPE_IMM :: "64 word \<Rightarrow> bool" where
  "VALID_UTYPE_IMM x \<longleftrightarrow> EXTRACT_UTYPE_IMM (ENCODE_UTYPE_IMM x) = x"

definition VALID_UJTYPE_IMM :: "offsetT \<Rightarrow> bool" where
  "VALID_UJTYPE_IMM x \<longleftrightarrow> EXTRACT_UJTYPE_IMM (ENCODE_UJTYPE_IMM x) = x"

definition VALID_RVC_IMM :: "offsetT \<Rightarrow> bool" where
  "VALID_RVC_IMM x \<longleftrightarrow> EXTRACT_RVC_IMM (ENCODE_RVC_IMM x) = x"

definition VALID_RVC_LUI_IMM :: "offsetT \<Rightarrow> bool" where
  "VALID_RVC_LUI_IMM x \<longleftrightarrow> ENCODE_RVC_LUI_IMM x \<noteq> 0 \<and> EXTRACT_RVC_LUI_IMM (ENCODE_RVC_LUI_IMM x) = x"

definition VALID_RVC_SIMM3 :: "offsetT \<Rightarrow> bool" where
  "VALID_RVC_SIMM3 x \<longleftrightarrow> EXTRACT_RVC_SIMM3 (ENCODE_RVC_SIMM3 x) = x"

definition VALID_RVC_UIMM8 :: "offsetT \<Rightarrow> bool" where
  "VALID_RVC_UIMM8 x \<longleftrightarrow> EXTRACT_RVC_UIMM8 (ENCODE_RVC_UIMM8 x) = x"

definition VALID_RVC_ADDI4SPN_IMM :: "offsetT \<Rightarrow> bool" where
  "VALID_RVC_ADDI4SPN_IMM x \<longleftrightarrow> EXTRACT_RVC_ADDI4SPN_IMM (ENCODE_RVC_ADDI4SPN_IMM x) = x"

definition VALID_RVC_ADDI16SP_IMM :: "offsetT \<Rightarrow> bool" where
  "VALID_RVC_ADDI16SP_IMM x \<longleftrightarrow> EXTRACT_RVC_ADDI16SP_IMM (ENCODE_RVC_ADDI16SP_IMM x) = x"

definition VALID_RVC_LW_IMM :: "offsetT \<Rightarrow> bool" where
  "VALID_RVC_LW_IMM x \<longleftrightarrow> EXTRACT_RVC_LW_IMM (ENCODE_RVC_LW_IMM x) = x"

definition VALID_RVC_LD_IMM :: "offsetT \<Rightarrow> bool" where
  "VALID_RVC_LD_IMM x \<longleftrightarrow> EXTRACT_RVC_LD_IMM (ENCODE_RVC_LD_IMM x) = x"

definition VALID_RVC_LWSP_IMM :: "offsetT \<Rightarrow> bool" where
  "VALID_RVC_LWSP_IMM x \<longleftrightarrow> EXTRACT_RVC_LWSP_IMM (ENCODE_RVC_LWSP_IMM x) = x"

definition VALID_RVC_LDSP_IMM :: "offsetT \<Rightarrow> bool" where
  "VALID_RVC_LDSP_IMM x \<longleftrightarrow> EXTRACT_RVC_LDSP_IMM (ENCODE_RVC_LDSP_IMM x) = x"

definition VALID_RVC_SWSP_IMM :: "offsetT \<Rightarrow> bool" where
  "VALID_RVC_SWSP_IMM x \<longleftrightarrow> EXTRACT_RVC_SWSP_IMM (ENCODE_RVC_SWSP_IMM x) = x"

definition VALID_RVC_SDSP_IMM :: "offsetT \<Rightarrow> bool" where
  "VALID_RVC_SDSP_IMM x \<longleftrightarrow> EXTRACT_RVC_SDSP_IMM (ENCODE_RVC_SDSP_IMM x) = x"

definition VALID_RVC_B_IMM :: "offsetT \<Rightarrow> bool" where
  "VALID_RVC_B_IMM x \<longleftrightarrow> EXTRACT_RVC_B_IMM (ENCODE_RVC_B_IMM x) = x"

definition VALID_RVC_J_IMM :: "offsetT \<Rightarrow> bool" where
  "VALID_RVC_J_IMM x \<longleftrightarrow> EXTRACT_RVC_J_IMM (ENCODE_RVC_J_IMM x) = x"

subsection \<open>Upper and lower parts of a constant\<close>

text \<open>
  \<open>RISCV_IMM_REACH\<close> is \<open>1LL << 12\<close>, so the two parts are computed in 64 bits
  whatever the width of \<open>VALUE\<close>.
\<close>

definition RISCV_IMM_REACH :: "64 word" where "RISCV_IMM_REACH = shl 1 12"

definition RISCV_BIGIMM_REACH :: "64 word" where "RISCV_BIGIMM_REACH = shl 1 20"

definition RISCV_CONST_HIGH_PART :: "64 word \<Rightarrow> 64 word" where
  "RISCV_CONST_HIGH_PART v = (v + shr RISCV_IMM_REACH 1) AND NOT (RISCV_IMM_REACH - 1)"

definition RISCV_CONST_LOW_PART :: "64 word \<Rightarrow> 64 word" where
  "RISCV_CONST_LOW_PART v = v - RISCV_CONST_HIGH_PART v"

definition RISCV_PCREL_HIGH_PART :: "64 word \<Rightarrow> 64 word \<Rightarrow> 64 word" where
  "RISCV_PCREL_HIGH_PART v pc = RISCV_CONST_HIGH_PART (v - pc)"

definition RISCV_PCREL_LOW_PART :: "64 word \<Rightarrow> 64 word \<Rightarrow> 64 word" where
  "RISCV_PCREL_LOW_PART v pc = RISCV_CONST_LOW_PART (v - pc)"

abbreviation (input) RISCV_BRANCH_REACH :: "64 word" where "RISCV_BRANCH_REACH \<equiv> 0x2000"
abbreviation (input) RISCV_JUMP_REACH :: "64 word" where "RISCV_JUMP_REACH \<equiv> 0x200000"
abbreviation (input) RVC_BRANCH_REACH :: "64 word" where "RVC_BRANCH_REACH \<equiv> 0x200"
abbreviation (input) RVC_JUMP_REACH :: "64 word" where "RVC_JUMP_REACH \<equiv> 0x1000"

subsection \<open>Operand fields\<close>

text \<open>
  The header builds the mask and the shift of a field by token pasting
  (\<open>OP_MASK_##FIELD\<close>, \<open>OP_SH_##FIELD\<close>); here the field is a value.
\<close>

datatype op_field = F_OP | F_RS2 | F_RS1 | F_RS3 | F_RD | F_SHAMT | F_SHAMTW | F_RM
  | F_PRED | F_SUCC | F_AQ | F_RL | F_CUSTOM_IMM | F_CSR | F_FUNCT3 | F_FUNCT7 | F_FUNCT2
  | F_OP2 | F_CRS2 | F_CRS1S | F_CRS2S | F_CFUNCT4 | F_CFUNCT3

fun OP_MASK :: "op_field \<Rightarrow> u32" where
  "OP_MASK F_OP = 0x7f" | "OP_MASK F_RS2 = 0x1f" | "OP_MASK F_RS1 = 0x1f"
| "OP_MASK F_RS3 = 0x1f" | "OP_MASK F_RD = 0x1f" | "OP_MASK F_SHAMT = 0x3f"
| "OP_MASK F_SHAMTW = 0x1f" | "OP_MASK F_RM = 0x7" | "OP_MASK F_PRED = 0xf"
| "OP_MASK F_SUCC = 0xf" | "OP_MASK F_AQ = 0x1" | "OP_MASK F_RL = 0x1"
| "OP_MASK F_CUSTOM_IMM = 0x7f" | "OP_MASK F_CSR = 0xfff" | "OP_MASK F_FUNCT3 = 0x7"
| "OP_MASK F_FUNCT7 = 0x7f" | "OP_MASK F_FUNCT2 = 0x3" | "OP_MASK F_OP2 = 0x3"
| "OP_MASK F_CRS2 = 0x1f" | "OP_MASK F_CRS1S = 0x7" | "OP_MASK F_CRS2S = 0x7"
| "OP_MASK F_CFUNCT4 = 0xf" | "OP_MASK F_CFUNCT3 = 0x7"

fun OP_SH :: "op_field \<Rightarrow> nat" where
  "OP_SH F_OP = 0" | "OP_SH F_RS2 = 20" | "OP_SH F_RS1 = 15" | "OP_SH F_RS3 = 27"
| "OP_SH F_RD = 7" | "OP_SH F_SHAMT = 20" | "OP_SH F_SHAMTW = 20" | "OP_SH F_RM = 12"
| "OP_SH F_PRED = 24" | "OP_SH F_SUCC = 20" | "OP_SH F_AQ = 26" | "OP_SH F_RL = 25"
| "OP_SH F_CUSTOM_IMM = 25" | "OP_SH F_CSR = 20" | "OP_SH F_FUNCT3 = 12"
| "OP_SH F_FUNCT7 = 25" | "OP_SH F_FUNCT2 = 25" | "OP_SH F_OP2 = 0" | "OP_SH F_CRS2 = 2"
| "OP_SH F_CRS1S = 7" | "OP_SH F_CRS2S = 2" | "OP_SH F_CFUNCT4 = 12" | "OP_SH F_CFUNCT3 = 13"

text \<open>The bits an operand field occupies, \<open>(insn_t) MASK << SHIFT\<close>.\<close>

definition field_bits :: "op_field \<Rightarrow> insn_t" where
  "field_bits f = shl (ucast (OP_MASK f)) (OP_SH f)"

definition INSERT_BITS :: "insn_t \<Rightarrow> u32 \<Rightarrow> u32 \<Rightarrow> nat \<Rightarrow> insn_t" where
  "INSERT_BITS s v m sh = (s AND NOT (shl (ucast m) sh)) OR shl (ucast (v AND m)) sh"

definition EXTRACT_BITS :: "insn_t \<Rightarrow> u32 \<Rightarrow> nat \<Rightarrow> insn_t" where
  "EXTRACT_BITS s m sh = shr s sh AND ucast m"

definition EXTRACT_OPERAND :: "op_field \<Rightarrow> insn_t \<Rightarrow> insn_t" where
  "EXTRACT_OPERAND f insn = EXTRACT_BITS insn (OP_MASK f) (OP_SH f)"

definition INSERT_OPERAND :: "op_field \<Rightarrow> insn_t \<Rightarrow> u32 \<Rightarrow> insn_t" where
  "INSERT_OPERAND f insn v = INSERT_BITS insn v (OP_MASK f) (OP_SH f)"

declare field_bits_def [c_eval] INSERT_BITS_def [c_eval] EXTRACT_BITS_def [c_eval]
declare EXTRACT_OPERAND_def [c_eval] INSERT_OPERAND_def [c_eval]

subsection \<open>What a client of an instruction format relies on\<close>

definition imm_range :: "int \<Rightarrow> int \<Rightarrow> int \<Rightarrow> u32 \<Rightarrow> bool" where
  "imm_range lo hi align x \<longleftrightarrow> lo \<le> sint x \<and> sint x < hi \<and> align dvd sint x"

text \<open>
  \<open>enc\<close> places an immediate, \<open>ext\<close> reads it, \<open>ok\<close> is the set of
  immediates the format represents. The provider promises the exact round trip, that the
  encoder writes only the field's own bits \<open>enc (- 1)\<close>, and that the extractor reads
  only them.
\<close>

locale imm_format =
  fixes enc :: "u32 \<Rightarrow> u32" and ext :: "u32 \<Rightarrow> u32" and ok :: "u32 \<Rightarrow> bool"
  assumes roundtrip: "ext (enc x) = x \<longleftrightarrow> ok x"
    and enc_confined: "enc x AND NOT (enc (- 1)) = 0"
    and ext_local: "ext (w AND enc (- 1)) = ext w"
begin

lemma enc_within: "enc x AND enc (- 1) = enc x"
proof -
  have "enc x = enc x AND (enc (- 1) OR NOT (enc (- 1)))" by simp
  also have "\<dots> = (enc x AND enc (- 1)) OR (enc x AND NOT (enc (- 1)))"
    by (rule bit.conj_disj_distrib)
  finally show ?thesis by (simp add: enc_confined)
qed

text \<open>An immediate put into a word whose field is clear is the one read back.\<close>

lemma insert_extract:
  assumes "w AND enc (- 1) = 0" and "ok x"
  shows "ext (w OR enc x) = x"
proof -
  have "ext (w OR enc x) = ext ((w OR enc x) AND enc (- 1))" by (simp add: ext_local)
  also have "(w OR enc x) AND enc (- 1) = enc x"
    using assms(1) by (simp add: bit.conj_disj_distrib2 enc_within)
  finally show ?thesis using assms(2) by (simp add: roundtrip)
qed

lemma insert_frame: "(w OR enc x) AND NOT (enc (- 1)) = w AND NOT (enc (- 1))"
  by (simp add: bit.conj_disj_distrib2 enc_confined)

lemma enc_inject: "ok x \<Longrightarrow> ok y \<Longrightarrow> enc x = enc y \<longleftrightarrow> x = y"
  using roundtrip by metis

end

lemmas imm_bits = word_bits Suc_Suc_0_eq_2

text \<open>
  The two shapes of a format: sign-extending from bit \<open>k\<close>, or zero-extending from \<open>k\<close>
  bits, with the low \<open>j\<close> bits not stored.
\<close>

lemma signed_formatI:
  assumes "j \<le> k" and "k < 32" and "\<And>x. ext (enc x) = signed_take_bit k x AND NOT (mask j)"
    and "\<And>x. enc x AND NOT (enc (- 1)) = 0" and "\<And>w. ext (w AND enc (- 1)) = ext w"
  shows "imm_format enc ext (imm_range (- (2 ^ k)) (2 ^ k) (2 ^ j))"
  using assms by unfold_locales (simp_all add: signed_imm_eq_iff imm_range_def)

lemma unsigned_formatI:
  assumes "j \<le> k" and "k < 31" and "\<And>x. ext (enc x) = take_bit k x AND NOT (mask j)"
    and "\<And>x. enc x AND NOT (enc (- 1)) = 0" and "\<And>w. ext (w AND enc (- 1)) = ext w"
  shows "imm_format enc ext (imm_range 0 (2 ^ k) (2 ^ j))"
  using assms by unfold_locales (simp_all add: unsigned_imm_eq_iff imm_range_def)

subsection \<open>The formats are instances\<close>

lemmas format_defs = EXTRACT_ITYPE_IMM_def ENCODE_ITYPE_IMM_def EXTRACT_STYPE_IMM_def
  ENCODE_STYPE_IMM_def EXTRACT_SBTYPE_IMM_def ENCODE_SBTYPE_IMM_def
  EXTRACT_UJTYPE_IMM_def ENCODE_UJTYPE_IMM_def EXTRACT_RVC_IMM_def
  ENCODE_RVC_IMM_def EXTRACT_RVC_LUI_IMM_def ENCODE_RVC_LUI_IMM_def
  EXTRACT_RVC_SIMM3_def ENCODE_RVC_SIMM3_def EXTRACT_RVC_UIMM8_def
  ENCODE_RVC_UIMM8_def EXTRACT_RVC_ADDI4SPN_IMM_def ENCODE_RVC_ADDI4SPN_IMM_def
  EXTRACT_RVC_ADDI16SP_IMM_def ENCODE_RVC_ADDI16SP_IMM_def EXTRACT_RVC_LW_IMM_def
  ENCODE_RVC_LW_IMM_def EXTRACT_RVC_LD_IMM_def ENCODE_RVC_LD_IMM_def
  EXTRACT_RVC_LWSP_IMM_def ENCODE_RVC_LWSP_IMM_def EXTRACT_RVC_LDSP_IMM_def
  ENCODE_RVC_LDSP_IMM_def EXTRACT_RVC_SWSP_IMM_def ENCODE_RVC_SWSP_IMM_def
  EXTRACT_RVC_SDSP_IMM_def ENCODE_RVC_SDSP_IMM_def EXTRACT_RVC_B_IMM_def
  ENCODE_RVC_B_IMM_def EXTRACT_RVC_J_IMM_def ENCODE_RVC_J_IMM_def

lemmas format_bits = word32_eq_iff all_bits format_defs imm_bits

interpretation itype: imm_format ENCODE_ITYPE_IMM EXTRACT_ITYPE_IMM "imm_range (- 2048) 2048 1"
  by (rule signed_formatI [of 0 11, simplified]) (simp_all add: format_bits)

interpretation stype: imm_format ENCODE_STYPE_IMM EXTRACT_STYPE_IMM "imm_range (- 2048) 2048 1"
  by (rule signed_formatI [of 0 11, simplified]) (simp_all add: format_bits)

interpretation sbtype: imm_format ENCODE_SBTYPE_IMM EXTRACT_SBTYPE_IMM "imm_range (- 4096) 4096 2"
  by (rule signed_formatI [of 1 12, simplified]) (simp_all add: format_bits)

interpretation ujtype: imm_format ENCODE_UJTYPE_IMM EXTRACT_UJTYPE_IMM "imm_range (- 1048576) 1048576 2"
  by (rule signed_formatI [of 1 20, simplified]) (simp_all add: format_bits)

interpretation rvc: imm_format ENCODE_RVC_IMM EXTRACT_RVC_IMM "imm_range (- 32) 32 1"
  by (rule signed_formatI [of 0 5, simplified]) (simp_all add: format_bits)

interpretation rvc_lui: imm_format ENCODE_RVC_LUI_IMM EXTRACT_RVC_LUI_IMM "imm_range (- 131072) 131072 4096"
  by (rule signed_formatI [of 12 17, simplified]) (simp_all add: format_bits)

lemma rvc_lui_valid: "VALID_RVC_LUI_IMM x \<longleftrightarrow> x \<noteq> 0 \<and> imm_range (- 131072) 131072 4096 x"
proof -
  have "ENCODE_RVC_LUI_IMM 0 = (0 :: u32)" and "imm_range (- 131072) 131072 4096 0"
    by (simp_all add: ENCODE_RVC_LUI_IMM_def ENCODE_RVC_IMM_def RV_X_take_bit shl_def shr_def imm_range_def)
  then have "imm_range (- 131072) 131072 4096 x \<Longrightarrow> ENCODE_RVC_LUI_IMM x = 0 \<longleftrightarrow> x = 0"
    using rvc_lui.enc_inject [of x 0] by simp
  then show ?thesis unfolding VALID_RVC_LUI_IMM_def rvc_lui.roundtrip by blast
qed

interpretation rvc_simm3: imm_format ENCODE_RVC_SIMM3 EXTRACT_RVC_SIMM3 "imm_range (- 4) 4 1"
  by (rule signed_formatI [of 0 2, simplified]) (simp_all add: format_bits)

interpretation rvc_uimm8: imm_format ENCODE_RVC_UIMM8 EXTRACT_RVC_UIMM8 "imm_range 0 256 1"
  by (rule unsigned_formatI [of 0 8, simplified]) (simp_all add: format_bits)

interpretation rvc_addi4spn: imm_format ENCODE_RVC_ADDI4SPN_IMM EXTRACT_RVC_ADDI4SPN_IMM "imm_range 0 1024 4"
  by (rule unsigned_formatI [of 2 10, simplified]) (simp_all add: format_bits)

interpretation rvc_addi16sp: imm_format ENCODE_RVC_ADDI16SP_IMM EXTRACT_RVC_ADDI16SP_IMM "imm_range (- 512) 512 16"
  by (rule signed_formatI [of 4 9, simplified]) (simp_all add: format_bits)

interpretation rvc_lw: imm_format ENCODE_RVC_LW_IMM EXTRACT_RVC_LW_IMM "imm_range 0 128 4"
  by (rule unsigned_formatI [of 2 7, simplified]) (simp_all add: format_bits)

interpretation rvc_ld: imm_format ENCODE_RVC_LD_IMM EXTRACT_RVC_LD_IMM "imm_range 0 256 8"
  by (rule unsigned_formatI [of 3 8, simplified]) (simp_all add: format_bits)

interpretation rvc_lwsp: imm_format ENCODE_RVC_LWSP_IMM EXTRACT_RVC_LWSP_IMM "imm_range 0 256 4"
  by (rule unsigned_formatI [of 2 8, simplified]) (simp_all add: format_bits)

interpretation rvc_ldsp: imm_format ENCODE_RVC_LDSP_IMM EXTRACT_RVC_LDSP_IMM "imm_range 0 512 8"
  by (rule unsigned_formatI [of 3 9, simplified]) (simp_all add: format_bits)

interpretation rvc_swsp: imm_format ENCODE_RVC_SWSP_IMM EXTRACT_RVC_SWSP_IMM "imm_range 0 256 4"
  by (rule unsigned_formatI [of 2 8, simplified]) (simp_all add: format_bits)

interpretation rvc_sdsp: imm_format ENCODE_RVC_SDSP_IMM EXTRACT_RVC_SDSP_IMM "imm_range 0 512 8"
  by (rule unsigned_formatI [of 3 9, simplified]) (simp_all add: format_bits)

interpretation rvc_b: imm_format ENCODE_RVC_B_IMM EXTRACT_RVC_B_IMM "imm_range (- 256) 256 2"
  by (rule signed_formatI [of 1 8, simplified]) (simp_all add: format_bits)

interpretation rvc_j: imm_format ENCODE_RVC_J_IMM EXTRACT_RVC_J_IMM "imm_range (- 2048) 2048 2"
  by (rule signed_formatI [of 1 11, simplified]) (simp_all add: format_bits)

text \<open>The bits each format occupies.\<close>

lemma encode_all_ones:
  "ENCODE_ITYPE_IMM (- 1) = (0xfff00000 :: u32)"
  "ENCODE_STYPE_IMM (- 1) = (0xfe000f80 :: u32)"
  "ENCODE_SBTYPE_IMM (- 1) = (0xfe000f80 :: u32)"
  "ENCODE_UJTYPE_IMM (- 1) = (0xfffff000 :: u32)"
  "ENCODE_RVC_IMM (- 1) = (0x107c :: u32)"
  "ENCODE_RVC_SIMM3 (- 1) = (0x1c00 :: u32)"
  "ENCODE_RVC_UIMM8 (- 1) = (0x1fe0 :: u32)"
  "ENCODE_RVC_ADDI4SPN_IMM (- 1) = (0x1fe0 :: u32)"
  "ENCODE_RVC_ADDI16SP_IMM (- 1) = (0x107c :: u32)"
  "ENCODE_RVC_LW_IMM (- 1) = (0x1c60 :: u32)"
  "ENCODE_RVC_LD_IMM (- 1) = (0x1c60 :: u32)"
  "ENCODE_RVC_LWSP_IMM (- 1) = (0x107c :: u32)"
  "ENCODE_RVC_LDSP_IMM (- 1) = (0x107c :: u32)"
  "ENCODE_RVC_SWSP_IMM (- 1) = (0x1f80 :: u32)"
  "ENCODE_RVC_SDSP_IMM (- 1) = (0x1f80 :: u32)"
  "ENCODE_RVC_B_IMM (- 1) = (0x1c7c :: u32)"
  "ENCODE_RVC_J_IMM (- 1) = (0x1ffc :: u32)"
  by (simp_all add: format_defs c_eval mask_numeral)

lemma encode_utype_all_ones: "ENCODE_UTYPE_IMM (- 1) = (0xfffff000 :: u32)"
  by (simp add: ENCODE_UTYPE_IMM_def c_eval mask_numeral)

end
