(* ===== verification/RiscvOpcConst.thy ===== *)
theory RiscvOpcConst
  imports Prelude
begin

text \<open>
  The match and mask constants of the instructions the opcode table names, with the value
  the generated header \<open>opcode/riscv-opc.h\<close> gives each, as 32-bit patterns.
\<close>

abbreviation (input) MATCH_FRFLAGS :: u32 where "MATCH_FRFLAGS \<equiv> 0x102073"
abbreviation (input) MASK_FRFLAGS :: u32 where "MASK_FRFLAGS \<equiv> 0xfffff07f"
abbreviation (input) MATCH_FSFLAGS :: u32 where "MATCH_FSFLAGS \<equiv> 0x101073"
abbreviation (input) MASK_FSFLAGS :: u32 where "MASK_FSFLAGS \<equiv> 0xfff0707f"
abbreviation (input) MATCH_FSFLAGSI :: u32 where "MATCH_FSFLAGSI \<equiv> 0x105073"
abbreviation (input) MASK_FSFLAGSI :: u32 where "MASK_FSFLAGSI \<equiv> 0xfff0707f"
abbreviation (input) MATCH_FRRM :: u32 where "MATCH_FRRM \<equiv> 0x202073"
abbreviation (input) MASK_FRRM :: u32 where "MASK_FRRM \<equiv> 0xfffff07f"
abbreviation (input) MATCH_FSRM :: u32 where "MATCH_FSRM \<equiv> 0x201073"
abbreviation (input) MASK_FSRM :: u32 where "MASK_FSRM \<equiv> 0xfff0707f"
abbreviation (input) MATCH_FSRMI :: u32 where "MATCH_FSRMI \<equiv> 0x205073"
abbreviation (input) MASK_FSRMI :: u32 where "MASK_FSRMI \<equiv> 0xfff0707f"
abbreviation (input) MATCH_FSCSR :: u32 where "MATCH_FSCSR \<equiv> 0x301073"
abbreviation (input) MASK_FSCSR :: u32 where "MASK_FSCSR \<equiv> 0xfff0707f"
abbreviation (input) MATCH_FRCSR :: u32 where "MATCH_FRCSR \<equiv> 0x302073"
abbreviation (input) MASK_FRCSR :: u32 where "MASK_FRCSR \<equiv> 0xfffff07f"
abbreviation (input) MATCH_RDCYCLE :: u32 where "MATCH_RDCYCLE \<equiv> 0xc0002073"
abbreviation (input) MASK_RDCYCLE :: u32 where "MASK_RDCYCLE \<equiv> 0xfffff07f"
abbreviation (input) MATCH_RDTIME :: u32 where "MATCH_RDTIME \<equiv> 0xc0102073"
abbreviation (input) MASK_RDTIME :: u32 where "MASK_RDTIME \<equiv> 0xfffff07f"
abbreviation (input) MATCH_RDINSTRET :: u32 where "MATCH_RDINSTRET \<equiv> 0xc0202073"
abbreviation (input) MASK_RDINSTRET :: u32 where "MASK_RDINSTRET \<equiv> 0xfffff07f"
abbreviation (input) MATCH_RDCYCLEH :: u32 where "MATCH_RDCYCLEH \<equiv> 0xc8002073"
abbreviation (input) MASK_RDCYCLEH :: u32 where "MASK_RDCYCLEH \<equiv> 0xfffff07f"
abbreviation (input) MATCH_RDTIMEH :: u32 where "MATCH_RDTIMEH \<equiv> 0xc8102073"
abbreviation (input) MASK_RDTIMEH :: u32 where "MASK_RDTIMEH \<equiv> 0xfffff07f"
abbreviation (input) MATCH_RDINSTRETH :: u32 where "MATCH_RDINSTRETH \<equiv> 0xc8202073"
abbreviation (input) MASK_RDINSTRETH :: u32 where "MASK_RDINSTRETH \<equiv> 0xfffff07f"
abbreviation (input) MATCH_SCALL :: u32 where "MATCH_SCALL \<equiv> 0x73"
abbreviation (input) MASK_SCALL :: u32 where "MASK_SCALL \<equiv> 0xffffffff"
abbreviation (input) MATCH_BEQ :: u32 where "MATCH_BEQ \<equiv> 0x63"
abbreviation (input) MASK_BEQ :: u32 where "MASK_BEQ \<equiv> 0x707f"
abbreviation (input) MATCH_BNE :: u32 where "MATCH_BNE \<equiv> 0x1063"
abbreviation (input) MASK_BNE :: u32 where "MASK_BNE \<equiv> 0x707f"
abbreviation (input) MATCH_BLT :: u32 where "MATCH_BLT \<equiv> 0x4063"
abbreviation (input) MASK_BLT :: u32 where "MASK_BLT \<equiv> 0x707f"
abbreviation (input) MATCH_BGE :: u32 where "MATCH_BGE \<equiv> 0x5063"
abbreviation (input) MASK_BGE :: u32 where "MASK_BGE \<equiv> 0x707f"
abbreviation (input) MATCH_BLTU :: u32 where "MATCH_BLTU \<equiv> 0x6063"
abbreviation (input) MASK_BLTU :: u32 where "MASK_BLTU \<equiv> 0x707f"
abbreviation (input) MATCH_BGEU :: u32 where "MATCH_BGEU \<equiv> 0x7063"
abbreviation (input) MASK_BGEU :: u32 where "MASK_BGEU \<equiv> 0x707f"
abbreviation (input) MATCH_JALR :: u32 where "MATCH_JALR \<equiv> 0x67"
abbreviation (input) MASK_JALR :: u32 where "MASK_JALR \<equiv> 0x707f"
abbreviation (input) MATCH_JAL :: u32 where "MATCH_JAL \<equiv> 0x6f"
abbreviation (input) MASK_JAL :: u32 where "MASK_JAL \<equiv> 0x7f"
abbreviation (input) MATCH_LUI :: u32 where "MATCH_LUI \<equiv> 0x37"
abbreviation (input) MASK_LUI :: u32 where "MASK_LUI \<equiv> 0x7f"
abbreviation (input) MATCH_AUIPC :: u32 where "MATCH_AUIPC \<equiv> 0x17"
abbreviation (input) MASK_AUIPC :: u32 where "MASK_AUIPC \<equiv> 0x7f"
abbreviation (input) MATCH_ADDI :: u32 where "MATCH_ADDI \<equiv> 0x13"
abbreviation (input) MASK_ADDI :: u32 where "MASK_ADDI \<equiv> 0x707f"
abbreviation (input) MATCH_SLLI :: u32 where "MATCH_SLLI \<equiv> 0x1013"
abbreviation (input) MASK_SLLI :: u32 where "MASK_SLLI \<equiv> 0xfc00707f"
abbreviation (input) MATCH_SLTI :: u32 where "MATCH_SLTI \<equiv> 0x2013"
abbreviation (input) MASK_SLTI :: u32 where "MASK_SLTI \<equiv> 0x707f"
abbreviation (input) MATCH_SLTIU :: u32 where "MATCH_SLTIU \<equiv> 0x3013"
abbreviation (input) MASK_SLTIU :: u32 where "MASK_SLTIU \<equiv> 0x707f"
abbreviation (input) MATCH_XORI :: u32 where "MATCH_XORI \<equiv> 0x4013"
abbreviation (input) MASK_XORI :: u32 where "MASK_XORI \<equiv> 0x707f"
abbreviation (input) MATCH_SRLI :: u32 where "MATCH_SRLI \<equiv> 0x5013"
abbreviation (input) MASK_SRLI :: u32 where "MASK_SRLI \<equiv> 0xfc00707f"
abbreviation (input) MATCH_SRAI :: u32 where "MATCH_SRAI \<equiv> 0x40005013"
abbreviation (input) MASK_SRAI :: u32 where "MASK_SRAI \<equiv> 0xfc00707f"
abbreviation (input) MATCH_ORI :: u32 where "MATCH_ORI \<equiv> 0x6013"
abbreviation (input) MASK_ORI :: u32 where "MASK_ORI \<equiv> 0x707f"
abbreviation (input) MATCH_ANDI :: u32 where "MATCH_ANDI \<equiv> 0x7013"
abbreviation (input) MASK_ANDI :: u32 where "MASK_ANDI \<equiv> 0x707f"
abbreviation (input) MATCH_ADD :: u32 where "MATCH_ADD \<equiv> 0x33"
abbreviation (input) MASK_ADD :: u32 where "MASK_ADD \<equiv> 0xfe00707f"
abbreviation (input) MATCH_SUB :: u32 where "MATCH_SUB \<equiv> 0x40000033"
abbreviation (input) MASK_SUB :: u32 where "MASK_SUB \<equiv> 0xfe00707f"
abbreviation (input) MATCH_SLL :: u32 where "MATCH_SLL \<equiv> 0x1033"
abbreviation (input) MASK_SLL :: u32 where "MASK_SLL \<equiv> 0xfe00707f"
abbreviation (input) MATCH_SLT :: u32 where "MATCH_SLT \<equiv> 0x2033"
abbreviation (input) MASK_SLT :: u32 where "MASK_SLT \<equiv> 0xfe00707f"
abbreviation (input) MATCH_SLTU :: u32 where "MATCH_SLTU \<equiv> 0x3033"
abbreviation (input) MASK_SLTU :: u32 where "MASK_SLTU \<equiv> 0xfe00707f"
abbreviation (input) MATCH_XOR :: u32 where "MATCH_XOR \<equiv> 0x4033"
abbreviation (input) MASK_XOR :: u32 where "MASK_XOR \<equiv> 0xfe00707f"
abbreviation (input) MATCH_SRL :: u32 where "MATCH_SRL \<equiv> 0x5033"
abbreviation (input) MASK_SRL :: u32 where "MASK_SRL \<equiv> 0xfe00707f"
abbreviation (input) MATCH_SRA :: u32 where "MATCH_SRA \<equiv> 0x40005033"
abbreviation (input) MASK_SRA :: u32 where "MASK_SRA \<equiv> 0xfe00707f"
abbreviation (input) MATCH_OR :: u32 where "MATCH_OR \<equiv> 0x6033"
abbreviation (input) MASK_OR :: u32 where "MASK_OR \<equiv> 0xfe00707f"
abbreviation (input) MATCH_AND :: u32 where "MATCH_AND \<equiv> 0x7033"
abbreviation (input) MASK_AND :: u32 where "MASK_AND \<equiv> 0xfe00707f"
abbreviation (input) MATCH_ADDIW :: u32 where "MATCH_ADDIW \<equiv> 0x1b"
abbreviation (input) MASK_ADDIW :: u32 where "MASK_ADDIW \<equiv> 0x707f"
abbreviation (input) MATCH_SLLIW :: u32 where "MATCH_SLLIW \<equiv> 0x101b"
abbreviation (input) MASK_SLLIW :: u32 where "MASK_SLLIW \<equiv> 0xfe00707f"
abbreviation (input) MATCH_SRLIW :: u32 where "MATCH_SRLIW \<equiv> 0x501b"
abbreviation (input) MASK_SRLIW :: u32 where "MASK_SRLIW \<equiv> 0xfe00707f"
abbreviation (input) MATCH_SRAIW :: u32 where "MATCH_SRAIW \<equiv> 0x4000501b"
abbreviation (input) MASK_SRAIW :: u32 where "MASK_SRAIW \<equiv> 0xfe00707f"
abbreviation (input) MATCH_ADDW :: u32 where "MATCH_ADDW \<equiv> 0x3b"
abbreviation (input) MASK_ADDW :: u32 where "MASK_ADDW \<equiv> 0xfe00707f"
abbreviation (input) MATCH_SUBW :: u32 where "MATCH_SUBW \<equiv> 0x4000003b"
abbreviation (input) MASK_SUBW :: u32 where "MASK_SUBW \<equiv> 0xfe00707f"
abbreviation (input) MATCH_SLLW :: u32 where "MATCH_SLLW \<equiv> 0x103b"
abbreviation (input) MASK_SLLW :: u32 where "MASK_SLLW \<equiv> 0xfe00707f"
abbreviation (input) MATCH_SRLW :: u32 where "MATCH_SRLW \<equiv> 0x503b"
abbreviation (input) MASK_SRLW :: u32 where "MASK_SRLW \<equiv> 0xfe00707f"
abbreviation (input) MATCH_SRAW :: u32 where "MATCH_SRAW \<equiv> 0x4000503b"
abbreviation (input) MASK_SRAW :: u32 where "MASK_SRAW \<equiv> 0xfe00707f"
abbreviation (input) MATCH_LB :: u32 where "MATCH_LB \<equiv> 0x3"
abbreviation (input) MASK_LB :: u32 where "MASK_LB \<equiv> 0x707f"
abbreviation (input) MATCH_LH :: u32 where "MATCH_LH \<equiv> 0x1003"
abbreviation (input) MASK_LH :: u32 where "MASK_LH \<equiv> 0x707f"
abbreviation (input) MATCH_LW :: u32 where "MATCH_LW \<equiv> 0x2003"
abbreviation (input) MASK_LW :: u32 where "MASK_LW \<equiv> 0x707f"
abbreviation (input) MATCH_LD :: u32 where "MATCH_LD \<equiv> 0x3003"
abbreviation (input) MASK_LD :: u32 where "MASK_LD \<equiv> 0x707f"
abbreviation (input) MATCH_LBU :: u32 where "MATCH_LBU \<equiv> 0x4003"
abbreviation (input) MASK_LBU :: u32 where "MASK_LBU \<equiv> 0x707f"
abbreviation (input) MATCH_LHU :: u32 where "MATCH_LHU \<equiv> 0x5003"
abbreviation (input) MASK_LHU :: u32 where "MASK_LHU \<equiv> 0x707f"
abbreviation (input) MATCH_LWU :: u32 where "MATCH_LWU \<equiv> 0x6003"
abbreviation (input) MASK_LWU :: u32 where "MASK_LWU \<equiv> 0x707f"
abbreviation (input) MATCH_SB :: u32 where "MATCH_SB \<equiv> 0x23"
abbreviation (input) MASK_SB :: u32 where "MASK_SB \<equiv> 0x707f"
abbreviation (input) MATCH_SH :: u32 where "MATCH_SH \<equiv> 0x1023"
abbreviation (input) MASK_SH :: u32 where "MASK_SH \<equiv> 0x707f"
abbreviation (input) MATCH_SW :: u32 where "MATCH_SW \<equiv> 0x2023"
abbreviation (input) MASK_SW :: u32 where "MASK_SW \<equiv> 0x707f"
abbreviation (input) MATCH_SD :: u32 where "MATCH_SD \<equiv> 0x3023"
abbreviation (input) MASK_SD :: u32 where "MASK_SD \<equiv> 0x707f"
abbreviation (input) MATCH_FENCE :: u32 where "MATCH_FENCE \<equiv> 0xf"
abbreviation (input) MASK_FENCE :: u32 where "MASK_FENCE \<equiv> 0x707f"
abbreviation (input) MATCH_FENCE_I :: u32 where "MATCH_FENCE_I \<equiv> 0x100f"
abbreviation (input) MATCH_MUL :: u32 where "MATCH_MUL \<equiv> 0x2000033"
abbreviation (input) MASK_MUL :: u32 where "MASK_MUL \<equiv> 0xfe00707f"
abbreviation (input) MATCH_MULH :: u32 where "MATCH_MULH \<equiv> 0x2001033"
abbreviation (input) MASK_MULH :: u32 where "MASK_MULH \<equiv> 0xfe00707f"
abbreviation (input) MATCH_MULHSU :: u32 where "MATCH_MULHSU \<equiv> 0x2002033"
abbreviation (input) MASK_MULHSU :: u32 where "MASK_MULHSU \<equiv> 0xfe00707f"
abbreviation (input) MATCH_MULHU :: u32 where "MATCH_MULHU \<equiv> 0x2003033"
abbreviation (input) MASK_MULHU :: u32 where "MASK_MULHU \<equiv> 0xfe00707f"
abbreviation (input) MATCH_DIV :: u32 where "MATCH_DIV \<equiv> 0x2004033"
abbreviation (input) MASK_DIV :: u32 where "MASK_DIV \<equiv> 0xfe00707f"
abbreviation (input) MATCH_DIVU :: u32 where "MATCH_DIVU \<equiv> 0x2005033"
abbreviation (input) MASK_DIVU :: u32 where "MASK_DIVU \<equiv> 0xfe00707f"
abbreviation (input) MATCH_REM :: u32 where "MATCH_REM \<equiv> 0x2006033"
abbreviation (input) MASK_REM :: u32 where "MASK_REM \<equiv> 0xfe00707f"
abbreviation (input) MATCH_REMU :: u32 where "MATCH_REMU \<equiv> 0x2007033"
abbreviation (input) MASK_REMU :: u32 where "MASK_REMU \<equiv> 0xfe00707f"
abbreviation (input) MATCH_MULW :: u32 where "MATCH_MULW \<equiv> 0x200003b"
abbreviation (input) MASK_MULW :: u32 where "MASK_MULW \<equiv> 0xfe00707f"
abbreviation (input) MATCH_DIVW :: u32 where "MATCH_DIVW \<equiv> 0x200403b"
abbreviation (input) MASK_DIVW :: u32 where "MASK_DIVW \<equiv> 0xfe00707f"
abbreviation (input) MATCH_DIVUW :: u32 where "MATCH_DIVUW \<equiv> 0x200503b"
abbreviation (input) MASK_DIVUW :: u32 where "MASK_DIVUW \<equiv> 0xfe00707f"
abbreviation (input) MATCH_REMW :: u32 where "MATCH_REMW \<equiv> 0x200603b"
abbreviation (input) MASK_REMW :: u32 where "MASK_REMW \<equiv> 0xfe00707f"
abbreviation (input) MATCH_REMUW :: u32 where "MATCH_REMUW \<equiv> 0x200703b"
abbreviation (input) MASK_REMUW :: u32 where "MASK_REMUW \<equiv> 0xfe00707f"
abbreviation (input) MATCH_AMOADD_W :: u32 where "MATCH_AMOADD_W \<equiv> 0x202f"
abbreviation (input) MASK_AMOADD_W :: u32 where "MASK_AMOADD_W \<equiv> 0xf800707f"
abbreviation (input) MATCH_AMOXOR_W :: u32 where "MATCH_AMOXOR_W \<equiv> 0x2000202f"
abbreviation (input) MASK_AMOXOR_W :: u32 where "MASK_AMOXOR_W \<equiv> 0xf800707f"
abbreviation (input) MATCH_AMOOR_W :: u32 where "MATCH_AMOOR_W \<equiv> 0x4000202f"
abbreviation (input) MASK_AMOOR_W :: u32 where "MASK_AMOOR_W \<equiv> 0xf800707f"
abbreviation (input) MATCH_AMOAND_W :: u32 where "MATCH_AMOAND_W \<equiv> 0x6000202f"
abbreviation (input) MASK_AMOAND_W :: u32 where "MASK_AMOAND_W \<equiv> 0xf800707f"
abbreviation (input) MATCH_AMOMIN_W :: u32 where "MATCH_AMOMIN_W \<equiv> 0x8000202f"
abbreviation (input) MASK_AMOMIN_W :: u32 where "MASK_AMOMIN_W \<equiv> 0xf800707f"
abbreviation (input) MATCH_AMOMAX_W :: u32 where "MATCH_AMOMAX_W \<equiv> 0xa000202f"
abbreviation (input) MASK_AMOMAX_W :: u32 where "MASK_AMOMAX_W \<equiv> 0xf800707f"
abbreviation (input) MATCH_AMOMINU_W :: u32 where "MATCH_AMOMINU_W \<equiv> 0xc000202f"
abbreviation (input) MASK_AMOMINU_W :: u32 where "MASK_AMOMINU_W \<equiv> 0xf800707f"
abbreviation (input) MATCH_AMOMAXU_W :: u32 where "MATCH_AMOMAXU_W \<equiv> 0xe000202f"
abbreviation (input) MASK_AMOMAXU_W :: u32 where "MASK_AMOMAXU_W \<equiv> 0xf800707f"
abbreviation (input) MATCH_AMOSWAP_W :: u32 where "MATCH_AMOSWAP_W \<equiv> 0x800202f"
abbreviation (input) MASK_AMOSWAP_W :: u32 where "MASK_AMOSWAP_W \<equiv> 0xf800707f"
abbreviation (input) MATCH_LR_W :: u32 where "MATCH_LR_W \<equiv> 0x1000202f"
abbreviation (input) MASK_LR_W :: u32 where "MASK_LR_W \<equiv> 0xf9f0707f"
abbreviation (input) MATCH_SC_W :: u32 where "MATCH_SC_W \<equiv> 0x1800202f"
abbreviation (input) MASK_SC_W :: u32 where "MASK_SC_W \<equiv> 0xf800707f"
abbreviation (input) MATCH_AMOADD_D :: u32 where "MATCH_AMOADD_D \<equiv> 0x302f"
abbreviation (input) MASK_AMOADD_D :: u32 where "MASK_AMOADD_D \<equiv> 0xf800707f"
abbreviation (input) MATCH_AMOXOR_D :: u32 where "MATCH_AMOXOR_D \<equiv> 0x2000302f"
abbreviation (input) MASK_AMOXOR_D :: u32 where "MASK_AMOXOR_D \<equiv> 0xf800707f"
abbreviation (input) MATCH_AMOOR_D :: u32 where "MATCH_AMOOR_D \<equiv> 0x4000302f"
abbreviation (input) MASK_AMOOR_D :: u32 where "MASK_AMOOR_D \<equiv> 0xf800707f"
abbreviation (input) MATCH_AMOAND_D :: u32 where "MATCH_AMOAND_D \<equiv> 0x6000302f"
abbreviation (input) MASK_AMOAND_D :: u32 where "MASK_AMOAND_D \<equiv> 0xf800707f"
abbreviation (input) MATCH_AMOMIN_D :: u32 where "MATCH_AMOMIN_D \<equiv> 0x8000302f"
abbreviation (input) MASK_AMOMIN_D :: u32 where "MASK_AMOMIN_D \<equiv> 0xf800707f"
abbreviation (input) MATCH_AMOMAX_D :: u32 where "MATCH_AMOMAX_D \<equiv> 0xa000302f"
abbreviation (input) MASK_AMOMAX_D :: u32 where "MASK_AMOMAX_D \<equiv> 0xf800707f"
abbreviation (input) MATCH_AMOMINU_D :: u32 where "MATCH_AMOMINU_D \<equiv> 0xc000302f"
abbreviation (input) MASK_AMOMINU_D :: u32 where "MASK_AMOMINU_D \<equiv> 0xf800707f"
abbreviation (input) MATCH_AMOMAXU_D :: u32 where "MATCH_AMOMAXU_D \<equiv> 0xe000302f"
abbreviation (input) MASK_AMOMAXU_D :: u32 where "MASK_AMOMAXU_D \<equiv> 0xf800707f"
abbreviation (input) MATCH_AMOSWAP_D :: u32 where "MATCH_AMOSWAP_D \<equiv> 0x800302f"
abbreviation (input) MASK_AMOSWAP_D :: u32 where "MASK_AMOSWAP_D \<equiv> 0xf800707f"
abbreviation (input) MATCH_LR_D :: u32 where "MATCH_LR_D \<equiv> 0x1000302f"
abbreviation (input) MASK_LR_D :: u32 where "MASK_LR_D \<equiv> 0xf9f0707f"
abbreviation (input) MATCH_SC_D :: u32 where "MATCH_SC_D \<equiv> 0x1800302f"
abbreviation (input) MASK_SC_D :: u32 where "MASK_SC_D \<equiv> 0xf800707f"
abbreviation (input) MATCH_EBREAK :: u32 where "MATCH_EBREAK \<equiv> 0x100073"
abbreviation (input) MASK_EBREAK :: u32 where "MASK_EBREAK \<equiv> 0xffffffff"
abbreviation (input) MATCH_URET :: u32 where "MATCH_URET \<equiv> 0x200073"
abbreviation (input) MASK_URET :: u32 where "MASK_URET \<equiv> 0xffffffff"
abbreviation (input) MATCH_SRET :: u32 where "MATCH_SRET \<equiv> 0x10200073"
abbreviation (input) MASK_SRET :: u32 where "MASK_SRET \<equiv> 0xffffffff"
abbreviation (input) MATCH_HRET :: u32 where "MATCH_HRET \<equiv> 0x20200073"
abbreviation (input) MASK_HRET :: u32 where "MASK_HRET \<equiv> 0xffffffff"
abbreviation (input) MATCH_MRET :: u32 where "MATCH_MRET \<equiv> 0x30200073"
abbreviation (input) MASK_MRET :: u32 where "MASK_MRET \<equiv> 0xffffffff"
abbreviation (input) MATCH_DRET :: u32 where "MATCH_DRET \<equiv> 0x7b200073"
abbreviation (input) MASK_DRET :: u32 where "MASK_DRET \<equiv> 0xffffffff"
abbreviation (input) MATCH_SFENCE_VM :: u32 where "MATCH_SFENCE_VM \<equiv> 0x10400073"
abbreviation (input) MASK_SFENCE_VM :: u32 where "MASK_SFENCE_VM \<equiv> 0xfff07fff"
abbreviation (input) MATCH_SFENCE_VMA :: u32 where "MATCH_SFENCE_VMA \<equiv> 0x12000073"
abbreviation (input) MASK_SFENCE_VMA :: u32 where "MASK_SFENCE_VMA \<equiv> 0xfe007fff"
abbreviation (input) MATCH_WFI :: u32 where "MATCH_WFI \<equiv> 0x10500073"
abbreviation (input) MASK_WFI :: u32 where "MASK_WFI \<equiv> 0xffffffff"
abbreviation (input) MATCH_CSRRW :: u32 where "MATCH_CSRRW \<equiv> 0x1073"
abbreviation (input) MASK_CSRRW :: u32 where "MASK_CSRRW \<equiv> 0x707f"
abbreviation (input) MATCH_CSRRS :: u32 where "MATCH_CSRRS \<equiv> 0x2073"
abbreviation (input) MASK_CSRRS :: u32 where "MASK_CSRRS \<equiv> 0x707f"
abbreviation (input) MATCH_CSRRC :: u32 where "MATCH_CSRRC \<equiv> 0x3073"
abbreviation (input) MASK_CSRRC :: u32 where "MASK_CSRRC \<equiv> 0x707f"
abbreviation (input) MATCH_CSRRWI :: u32 where "MATCH_CSRRWI \<equiv> 0x5073"
abbreviation (input) MASK_CSRRWI :: u32 where "MASK_CSRRWI \<equiv> 0x707f"
abbreviation (input) MATCH_CSRRSI :: u32 where "MATCH_CSRRSI \<equiv> 0x6073"
abbreviation (input) MASK_CSRRSI :: u32 where "MASK_CSRRSI \<equiv> 0x707f"
abbreviation (input) MATCH_CSRRCI :: u32 where "MATCH_CSRRCI \<equiv> 0x7073"
abbreviation (input) MASK_CSRRCI :: u32 where "MASK_CSRRCI \<equiv> 0x707f"
abbreviation (input) MATCH_FADD_S :: u32 where "MATCH_FADD_S \<equiv> 0x53"
abbreviation (input) MASK_FADD_S :: u32 where "MASK_FADD_S \<equiv> 0xfe00007f"
abbreviation (input) MATCH_FSUB_S :: u32 where "MATCH_FSUB_S \<equiv> 0x8000053"
abbreviation (input) MASK_FSUB_S :: u32 where "MASK_FSUB_S \<equiv> 0xfe00007f"
abbreviation (input) MATCH_FMUL_S :: u32 where "MATCH_FMUL_S \<equiv> 0x10000053"
abbreviation (input) MASK_FMUL_S :: u32 where "MASK_FMUL_S \<equiv> 0xfe00007f"
abbreviation (input) MATCH_FDIV_S :: u32 where "MATCH_FDIV_S \<equiv> 0x18000053"
abbreviation (input) MASK_FDIV_S :: u32 where "MASK_FDIV_S \<equiv> 0xfe00007f"
abbreviation (input) MATCH_FSGNJ_S :: u32 where "MATCH_FSGNJ_S \<equiv> 0x20000053"
abbreviation (input) MASK_FSGNJ_S :: u32 where "MASK_FSGNJ_S \<equiv> 0xfe00707f"
abbreviation (input) MATCH_FSGNJN_S :: u32 where "MATCH_FSGNJN_S \<equiv> 0x20001053"
abbreviation (input) MASK_FSGNJN_S :: u32 where "MASK_FSGNJN_S \<equiv> 0xfe00707f"
abbreviation (input) MATCH_FSGNJX_S :: u32 where "MATCH_FSGNJX_S \<equiv> 0x20002053"
abbreviation (input) MASK_FSGNJX_S :: u32 where "MASK_FSGNJX_S \<equiv> 0xfe00707f"
abbreviation (input) MATCH_FMIN_S :: u32 where "MATCH_FMIN_S \<equiv> 0x28000053"
abbreviation (input) MASK_FMIN_S :: u32 where "MASK_FMIN_S \<equiv> 0xfe00707f"
abbreviation (input) MATCH_FMAX_S :: u32 where "MATCH_FMAX_S \<equiv> 0x28001053"
abbreviation (input) MASK_FMAX_S :: u32 where "MASK_FMAX_S \<equiv> 0xfe00707f"
abbreviation (input) MATCH_FSQRT_S :: u32 where "MATCH_FSQRT_S \<equiv> 0x58000053"
abbreviation (input) MASK_FSQRT_S :: u32 where "MASK_FSQRT_S \<equiv> 0xfff0007f"
abbreviation (input) MATCH_FADD_D :: u32 where "MATCH_FADD_D \<equiv> 0x2000053"
abbreviation (input) MASK_FADD_D :: u32 where "MASK_FADD_D \<equiv> 0xfe00007f"
abbreviation (input) MATCH_FSUB_D :: u32 where "MATCH_FSUB_D \<equiv> 0xa000053"
abbreviation (input) MASK_FSUB_D :: u32 where "MASK_FSUB_D \<equiv> 0xfe00007f"
abbreviation (input) MATCH_FMUL_D :: u32 where "MATCH_FMUL_D \<equiv> 0x12000053"
abbreviation (input) MASK_FMUL_D :: u32 where "MASK_FMUL_D \<equiv> 0xfe00007f"
abbreviation (input) MATCH_FDIV_D :: u32 where "MATCH_FDIV_D \<equiv> 0x1a000053"
abbreviation (input) MASK_FDIV_D :: u32 where "MASK_FDIV_D \<equiv> 0xfe00007f"
abbreviation (input) MATCH_FSGNJ_D :: u32 where "MATCH_FSGNJ_D \<equiv> 0x22000053"
abbreviation (input) MASK_FSGNJ_D :: u32 where "MASK_FSGNJ_D \<equiv> 0xfe00707f"
abbreviation (input) MATCH_FSGNJN_D :: u32 where "MATCH_FSGNJN_D \<equiv> 0x22001053"
abbreviation (input) MASK_FSGNJN_D :: u32 where "MASK_FSGNJN_D \<equiv> 0xfe00707f"
abbreviation (input) MATCH_FSGNJX_D :: u32 where "MATCH_FSGNJX_D \<equiv> 0x22002053"
abbreviation (input) MASK_FSGNJX_D :: u32 where "MASK_FSGNJX_D \<equiv> 0xfe00707f"
abbreviation (input) MATCH_FMIN_D :: u32 where "MATCH_FMIN_D \<equiv> 0x2a000053"
abbreviation (input) MASK_FMIN_D :: u32 where "MASK_FMIN_D \<equiv> 0xfe00707f"
abbreviation (input) MATCH_FMAX_D :: u32 where "MATCH_FMAX_D \<equiv> 0x2a001053"
abbreviation (input) MASK_FMAX_D :: u32 where "MASK_FMAX_D \<equiv> 0xfe00707f"
abbreviation (input) MATCH_FCVT_S_D :: u32 where "MATCH_FCVT_S_D \<equiv> 0x40100053"
abbreviation (input) MASK_FCVT_S_D :: u32 where "MASK_FCVT_S_D \<equiv> 0xfff0007f"
abbreviation (input) MATCH_FCVT_D_S :: u32 where "MATCH_FCVT_D_S \<equiv> 0x42000053"
abbreviation (input) MASK_FCVT_D_S :: u32 where "MASK_FCVT_D_S \<equiv> 0xfff0007f"
abbreviation (input) MATCH_FSQRT_D :: u32 where "MATCH_FSQRT_D \<equiv> 0x5a000053"
abbreviation (input) MASK_FSQRT_D :: u32 where "MASK_FSQRT_D \<equiv> 0xfff0007f"
abbreviation (input) MATCH_FADD_Q :: u32 where "MATCH_FADD_Q \<equiv> 0x6000053"
abbreviation (input) MASK_FADD_Q :: u32 where "MASK_FADD_Q \<equiv> 0xfe00007f"
abbreviation (input) MATCH_FSUB_Q :: u32 where "MATCH_FSUB_Q \<equiv> 0xe000053"
abbreviation (input) MASK_FSUB_Q :: u32 where "MASK_FSUB_Q \<equiv> 0xfe00007f"
abbreviation (input) MATCH_FMUL_Q :: u32 where "MATCH_FMUL_Q \<equiv> 0x16000053"
abbreviation (input) MASK_FMUL_Q :: u32 where "MASK_FMUL_Q \<equiv> 0xfe00007f"
abbreviation (input) MATCH_FDIV_Q :: u32 where "MATCH_FDIV_Q \<equiv> 0x1e000053"
abbreviation (input) MASK_FDIV_Q :: u32 where "MASK_FDIV_Q \<equiv> 0xfe00007f"
abbreviation (input) MATCH_FSGNJ_Q :: u32 where "MATCH_FSGNJ_Q \<equiv> 0x26000053"
abbreviation (input) MASK_FSGNJ_Q :: u32 where "MASK_FSGNJ_Q \<equiv> 0xfe00707f"
abbreviation (input) MATCH_FSGNJN_Q :: u32 where "MATCH_FSGNJN_Q \<equiv> 0x26001053"
abbreviation (input) MASK_FSGNJN_Q :: u32 where "MASK_FSGNJN_Q \<equiv> 0xfe00707f"
abbreviation (input) MATCH_FSGNJX_Q :: u32 where "MATCH_FSGNJX_Q \<equiv> 0x26002053"
abbreviation (input) MASK_FSGNJX_Q :: u32 where "MASK_FSGNJX_Q \<equiv> 0xfe00707f"
abbreviation (input) MATCH_FMIN_Q :: u32 where "MATCH_FMIN_Q \<equiv> 0x2e000053"
abbreviation (input) MASK_FMIN_Q :: u32 where "MASK_FMIN_Q \<equiv> 0xfe00707f"
abbreviation (input) MATCH_FMAX_Q :: u32 where "MATCH_FMAX_Q \<equiv> 0x2e001053"
abbreviation (input) MASK_FMAX_Q :: u32 where "MASK_FMAX_Q \<equiv> 0xfe00707f"
abbreviation (input) MATCH_FCVT_S_Q :: u32 where "MATCH_FCVT_S_Q \<equiv> 0x40300053"
abbreviation (input) MASK_FCVT_S_Q :: u32 where "MASK_FCVT_S_Q \<equiv> 0xfff0007f"
abbreviation (input) MATCH_FCVT_Q_S :: u32 where "MATCH_FCVT_Q_S \<equiv> 0x46000053"
abbreviation (input) MASK_FCVT_Q_S :: u32 where "MASK_FCVT_Q_S \<equiv> 0xfff0007f"
abbreviation (input) MATCH_FCVT_D_Q :: u32 where "MATCH_FCVT_D_Q \<equiv> 0x42300053"
abbreviation (input) MASK_FCVT_D_Q :: u32 where "MASK_FCVT_D_Q \<equiv> 0xfff0007f"
abbreviation (input) MATCH_FCVT_Q_D :: u32 where "MATCH_FCVT_Q_D \<equiv> 0x46100053"
abbreviation (input) MASK_FCVT_Q_D :: u32 where "MASK_FCVT_Q_D \<equiv> 0xfff0007f"
abbreviation (input) MATCH_FSQRT_Q :: u32 where "MATCH_FSQRT_Q \<equiv> 0x5e000053"
abbreviation (input) MASK_FSQRT_Q :: u32 where "MASK_FSQRT_Q \<equiv> 0xfff0007f"
abbreviation (input) MATCH_FLE_S :: u32 where "MATCH_FLE_S \<equiv> 0xa0000053"
abbreviation (input) MASK_FLE_S :: u32 where "MASK_FLE_S \<equiv> 0xfe00707f"
abbreviation (input) MATCH_FLT_S :: u32 where "MATCH_FLT_S \<equiv> 0xa0001053"
abbreviation (input) MASK_FLT_S :: u32 where "MASK_FLT_S \<equiv> 0xfe00707f"
abbreviation (input) MATCH_FEQ_S :: u32 where "MATCH_FEQ_S \<equiv> 0xa0002053"
abbreviation (input) MASK_FEQ_S :: u32 where "MASK_FEQ_S \<equiv> 0xfe00707f"
abbreviation (input) MATCH_FLE_D :: u32 where "MATCH_FLE_D \<equiv> 0xa2000053"
abbreviation (input) MASK_FLE_D :: u32 where "MASK_FLE_D \<equiv> 0xfe00707f"
abbreviation (input) MATCH_FLT_D :: u32 where "MATCH_FLT_D \<equiv> 0xa2001053"
abbreviation (input) MASK_FLT_D :: u32 where "MASK_FLT_D \<equiv> 0xfe00707f"
abbreviation (input) MATCH_FEQ_D :: u32 where "MATCH_FEQ_D \<equiv> 0xa2002053"
abbreviation (input) MASK_FEQ_D :: u32 where "MASK_FEQ_D \<equiv> 0xfe00707f"
abbreviation (input) MATCH_FLE_Q :: u32 where "MATCH_FLE_Q \<equiv> 0xa6000053"
abbreviation (input) MASK_FLE_Q :: u32 where "MASK_FLE_Q \<equiv> 0xfe00707f"
abbreviation (input) MATCH_FLT_Q :: u32 where "MATCH_FLT_Q \<equiv> 0xa6001053"
abbreviation (input) MASK_FLT_Q :: u32 where "MASK_FLT_Q \<equiv> 0xfe00707f"
abbreviation (input) MATCH_FEQ_Q :: u32 where "MATCH_FEQ_Q \<equiv> 0xa6002053"
abbreviation (input) MASK_FEQ_Q :: u32 where "MASK_FEQ_Q \<equiv> 0xfe00707f"
abbreviation (input) MATCH_FCVT_W_S :: u32 where "MATCH_FCVT_W_S \<equiv> 0xc0000053"
abbreviation (input) MASK_FCVT_W_S :: u32 where "MASK_FCVT_W_S \<equiv> 0xfff0007f"
abbreviation (input) MATCH_FCVT_WU_S :: u32 where "MATCH_FCVT_WU_S \<equiv> 0xc0100053"
abbreviation (input) MASK_FCVT_WU_S :: u32 where "MASK_FCVT_WU_S \<equiv> 0xfff0007f"
abbreviation (input) MATCH_FCVT_L_S :: u32 where "MATCH_FCVT_L_S \<equiv> 0xc0200053"
abbreviation (input) MASK_FCVT_L_S :: u32 where "MASK_FCVT_L_S \<equiv> 0xfff0007f"
abbreviation (input) MATCH_FCVT_LU_S :: u32 where "MATCH_FCVT_LU_S \<equiv> 0xc0300053"
abbreviation (input) MASK_FCVT_LU_S :: u32 where "MASK_FCVT_LU_S \<equiv> 0xfff0007f"
abbreviation (input) MATCH_FMV_X_S :: u32 where "MATCH_FMV_X_S \<equiv> 0xe0000053"
abbreviation (input) MASK_FMV_X_S :: u32 where "MASK_FMV_X_S \<equiv> 0xfff0707f"
abbreviation (input) MATCH_FCLASS_S :: u32 where "MATCH_FCLASS_S \<equiv> 0xe0001053"
abbreviation (input) MASK_FCLASS_S :: u32 where "MASK_FCLASS_S \<equiv> 0xfff0707f"
abbreviation (input) MATCH_FCVT_W_D :: u32 where "MATCH_FCVT_W_D \<equiv> 0xc2000053"
abbreviation (input) MASK_FCVT_W_D :: u32 where "MASK_FCVT_W_D \<equiv> 0xfff0007f"
abbreviation (input) MATCH_FCVT_WU_D :: u32 where "MATCH_FCVT_WU_D \<equiv> 0xc2100053"
abbreviation (input) MASK_FCVT_WU_D :: u32 where "MASK_FCVT_WU_D \<equiv> 0xfff0007f"
abbreviation (input) MATCH_FCVT_L_D :: u32 where "MATCH_FCVT_L_D \<equiv> 0xc2200053"
abbreviation (input) MASK_FCVT_L_D :: u32 where "MASK_FCVT_L_D \<equiv> 0xfff0007f"
abbreviation (input) MATCH_FCVT_LU_D :: u32 where "MATCH_FCVT_LU_D \<equiv> 0xc2300053"
abbreviation (input) MASK_FCVT_LU_D :: u32 where "MASK_FCVT_LU_D \<equiv> 0xfff0007f"
abbreviation (input) MATCH_FMV_X_D :: u32 where "MATCH_FMV_X_D \<equiv> 0xe2000053"
abbreviation (input) MASK_FMV_X_D :: u32 where "MASK_FMV_X_D \<equiv> 0xfff0707f"
abbreviation (input) MATCH_FCLASS_D :: u32 where "MATCH_FCLASS_D \<equiv> 0xe2001053"
abbreviation (input) MASK_FCLASS_D :: u32 where "MASK_FCLASS_D \<equiv> 0xfff0707f"
abbreviation (input) MATCH_FCVT_W_Q :: u32 where "MATCH_FCVT_W_Q \<equiv> 0xc6000053"
abbreviation (input) MASK_FCVT_W_Q :: u32 where "MASK_FCVT_W_Q \<equiv> 0xfff0007f"
abbreviation (input) MATCH_FCVT_WU_Q :: u32 where "MATCH_FCVT_WU_Q \<equiv> 0xc6100053"
abbreviation (input) MASK_FCVT_WU_Q :: u32 where "MASK_FCVT_WU_Q \<equiv> 0xfff0007f"
abbreviation (input) MATCH_FCVT_L_Q :: u32 where "MATCH_FCVT_L_Q \<equiv> 0xc6200053"
abbreviation (input) MASK_FCVT_L_Q :: u32 where "MASK_FCVT_L_Q \<equiv> 0xfff0007f"
abbreviation (input) MATCH_FCVT_LU_Q :: u32 where "MATCH_FCVT_LU_Q \<equiv> 0xc6300053"
abbreviation (input) MASK_FCVT_LU_Q :: u32 where "MASK_FCVT_LU_Q \<equiv> 0xfff0007f"
abbreviation (input) MATCH_FMV_X_Q :: u32 where "MATCH_FMV_X_Q \<equiv> 0xe6000053"
abbreviation (input) MASK_FMV_X_Q :: u32 where "MASK_FMV_X_Q \<equiv> 0xfff0707f"
abbreviation (input) MATCH_FCLASS_Q :: u32 where "MATCH_FCLASS_Q \<equiv> 0xe6001053"
abbreviation (input) MASK_FCLASS_Q :: u32 where "MASK_FCLASS_Q \<equiv> 0xfff0707f"
abbreviation (input) MATCH_FCVT_S_W :: u32 where "MATCH_FCVT_S_W \<equiv> 0xd0000053"
abbreviation (input) MASK_FCVT_S_W :: u32 where "MASK_FCVT_S_W \<equiv> 0xfff0007f"
abbreviation (input) MATCH_FCVT_S_WU :: u32 where "MATCH_FCVT_S_WU \<equiv> 0xd0100053"
abbreviation (input) MASK_FCVT_S_WU :: u32 where "MASK_FCVT_S_WU \<equiv> 0xfff0007f"
abbreviation (input) MATCH_FCVT_S_L :: u32 where "MATCH_FCVT_S_L \<equiv> 0xd0200053"
abbreviation (input) MASK_FCVT_S_L :: u32 where "MASK_FCVT_S_L \<equiv> 0xfff0007f"
abbreviation (input) MATCH_FCVT_S_LU :: u32 where "MATCH_FCVT_S_LU \<equiv> 0xd0300053"
abbreviation (input) MASK_FCVT_S_LU :: u32 where "MASK_FCVT_S_LU \<equiv> 0xfff0007f"
abbreviation (input) MATCH_FMV_S_X :: u32 where "MATCH_FMV_S_X \<equiv> 0xf0000053"
abbreviation (input) MASK_FMV_S_X :: u32 where "MASK_FMV_S_X \<equiv> 0xfff0707f"
abbreviation (input) MATCH_FCVT_D_W :: u32 where "MATCH_FCVT_D_W \<equiv> 0xd2000053"
abbreviation (input) MASK_FCVT_D_W :: u32 where "MASK_FCVT_D_W \<equiv> 0xfff0007f"
abbreviation (input) MATCH_FCVT_D_WU :: u32 where "MATCH_FCVT_D_WU \<equiv> 0xd2100053"
abbreviation (input) MASK_FCVT_D_WU :: u32 where "MASK_FCVT_D_WU \<equiv> 0xfff0007f"
abbreviation (input) MATCH_FCVT_D_L :: u32 where "MATCH_FCVT_D_L \<equiv> 0xd2200053"
abbreviation (input) MASK_FCVT_D_L :: u32 where "MASK_FCVT_D_L \<equiv> 0xfff0007f"
abbreviation (input) MATCH_FCVT_D_LU :: u32 where "MATCH_FCVT_D_LU \<equiv> 0xd2300053"
abbreviation (input) MASK_FCVT_D_LU :: u32 where "MASK_FCVT_D_LU \<equiv> 0xfff0007f"
abbreviation (input) MATCH_FMV_D_X :: u32 where "MATCH_FMV_D_X \<equiv> 0xf2000053"
abbreviation (input) MASK_FMV_D_X :: u32 where "MASK_FMV_D_X \<equiv> 0xfff0707f"
abbreviation (input) MATCH_FCVT_Q_W :: u32 where "MATCH_FCVT_Q_W \<equiv> 0xd6000053"
abbreviation (input) MASK_FCVT_Q_W :: u32 where "MASK_FCVT_Q_W \<equiv> 0xfff0007f"
abbreviation (input) MATCH_FCVT_Q_WU :: u32 where "MATCH_FCVT_Q_WU \<equiv> 0xd6100053"
abbreviation (input) MASK_FCVT_Q_WU :: u32 where "MASK_FCVT_Q_WU \<equiv> 0xfff0007f"
abbreviation (input) MATCH_FCVT_Q_L :: u32 where "MATCH_FCVT_Q_L \<equiv> 0xd6200053"
abbreviation (input) MASK_FCVT_Q_L :: u32 where "MASK_FCVT_Q_L \<equiv> 0xfff0007f"
abbreviation (input) MATCH_FCVT_Q_LU :: u32 where "MATCH_FCVT_Q_LU \<equiv> 0xd6300053"
abbreviation (input) MASK_FCVT_Q_LU :: u32 where "MASK_FCVT_Q_LU \<equiv> 0xfff0007f"
abbreviation (input) MATCH_FMV_Q_X :: u32 where "MATCH_FMV_Q_X \<equiv> 0xf6000053"
abbreviation (input) MASK_FMV_Q_X :: u32 where "MASK_FMV_Q_X \<equiv> 0xfff0707f"
abbreviation (input) MATCH_FLW :: u32 where "MATCH_FLW \<equiv> 0x2007"
abbreviation (input) MASK_FLW :: u32 where "MASK_FLW \<equiv> 0x707f"
abbreviation (input) MATCH_FLD :: u32 where "MATCH_FLD \<equiv> 0x3007"
abbreviation (input) MASK_FLD :: u32 where "MASK_FLD \<equiv> 0x707f"
abbreviation (input) MATCH_FLQ :: u32 where "MATCH_FLQ \<equiv> 0x4007"
abbreviation (input) MASK_FLQ :: u32 where "MASK_FLQ \<equiv> 0x707f"
abbreviation (input) MATCH_FSW :: u32 where "MATCH_FSW \<equiv> 0x2027"
abbreviation (input) MASK_FSW :: u32 where "MASK_FSW \<equiv> 0x707f"
abbreviation (input) MATCH_FSD :: u32 where "MATCH_FSD \<equiv> 0x3027"
abbreviation (input) MASK_FSD :: u32 where "MASK_FSD \<equiv> 0x707f"
abbreviation (input) MATCH_FSQ :: u32 where "MATCH_FSQ \<equiv> 0x4027"
abbreviation (input) MASK_FSQ :: u32 where "MASK_FSQ \<equiv> 0x707f"
abbreviation (input) MATCH_FMADD_S :: u32 where "MATCH_FMADD_S \<equiv> 0x43"
abbreviation (input) MASK_FMADD_S :: u32 where "MASK_FMADD_S \<equiv> 0x600007f"
abbreviation (input) MATCH_FMSUB_S :: u32 where "MATCH_FMSUB_S \<equiv> 0x47"
abbreviation (input) MASK_FMSUB_S :: u32 where "MASK_FMSUB_S \<equiv> 0x600007f"
abbreviation (input) MATCH_FNMSUB_S :: u32 where "MATCH_FNMSUB_S \<equiv> 0x4b"
abbreviation (input) MASK_FNMSUB_S :: u32 where "MASK_FNMSUB_S \<equiv> 0x600007f"
abbreviation (input) MATCH_FNMADD_S :: u32 where "MATCH_FNMADD_S \<equiv> 0x4f"
abbreviation (input) MASK_FNMADD_S :: u32 where "MASK_FNMADD_S \<equiv> 0x600007f"
abbreviation (input) MATCH_FMADD_D :: u32 where "MATCH_FMADD_D \<equiv> 0x2000043"
abbreviation (input) MASK_FMADD_D :: u32 where "MASK_FMADD_D \<equiv> 0x600007f"
abbreviation (input) MATCH_FMSUB_D :: u32 where "MATCH_FMSUB_D \<equiv> 0x2000047"
abbreviation (input) MASK_FMSUB_D :: u32 where "MASK_FMSUB_D \<equiv> 0x600007f"
abbreviation (input) MATCH_FNMSUB_D :: u32 where "MATCH_FNMSUB_D \<equiv> 0x200004b"
abbreviation (input) MASK_FNMSUB_D :: u32 where "MASK_FNMSUB_D \<equiv> 0x600007f"
abbreviation (input) MATCH_FNMADD_D :: u32 where "MATCH_FNMADD_D \<equiv> 0x200004f"
abbreviation (input) MASK_FNMADD_D :: u32 where "MASK_FNMADD_D \<equiv> 0x600007f"
abbreviation (input) MATCH_FMADD_Q :: u32 where "MATCH_FMADD_Q \<equiv> 0x6000043"
abbreviation (input) MASK_FMADD_Q :: u32 where "MASK_FMADD_Q \<equiv> 0x600007f"
abbreviation (input) MATCH_FMSUB_Q :: u32 where "MATCH_FMSUB_Q \<equiv> 0x6000047"
abbreviation (input) MASK_FMSUB_Q :: u32 where "MASK_FMSUB_Q \<equiv> 0x600007f"
abbreviation (input) MATCH_FNMSUB_Q :: u32 where "MATCH_FNMSUB_Q \<equiv> 0x600004b"
abbreviation (input) MASK_FNMSUB_Q :: u32 where "MASK_FNMSUB_Q \<equiv> 0x600007f"
abbreviation (input) MATCH_FNMADD_Q :: u32 where "MATCH_FNMADD_Q \<equiv> 0x600004f"
abbreviation (input) MASK_FNMADD_Q :: u32 where "MASK_FNMADD_Q \<equiv> 0x600007f"
abbreviation (input) MATCH_C_ADDI4SPN :: u32 where "MATCH_C_ADDI4SPN \<equiv> 0x0"
abbreviation (input) MASK_C_ADDI4SPN :: u32 where "MASK_C_ADDI4SPN \<equiv> 0xe003"
abbreviation (input) MATCH_C_FLD :: u32 where "MATCH_C_FLD \<equiv> 0x2000"
abbreviation (input) MASK_C_FLD :: u32 where "MASK_C_FLD \<equiv> 0xe003"
abbreviation (input) MATCH_C_LW :: u32 where "MATCH_C_LW \<equiv> 0x4000"
abbreviation (input) MASK_C_LW :: u32 where "MASK_C_LW \<equiv> 0xe003"
abbreviation (input) MATCH_C_FLW :: u32 where "MATCH_C_FLW \<equiv> 0x6000"
abbreviation (input) MASK_C_FLW :: u32 where "MASK_C_FLW \<equiv> 0xe003"
abbreviation (input) MATCH_C_FSD :: u32 where "MATCH_C_FSD \<equiv> 0xa000"
abbreviation (input) MASK_C_FSD :: u32 where "MASK_C_FSD \<equiv> 0xe003"
abbreviation (input) MATCH_C_SW :: u32 where "MATCH_C_SW \<equiv> 0xc000"
abbreviation (input) MASK_C_SW :: u32 where "MASK_C_SW \<equiv> 0xe003"
abbreviation (input) MATCH_C_FSW :: u32 where "MATCH_C_FSW \<equiv> 0xe000"
abbreviation (input) MASK_C_FSW :: u32 where "MASK_C_FSW \<equiv> 0xe003"
abbreviation (input) MATCH_C_ADDI :: u32 where "MATCH_C_ADDI \<equiv> 0x1"
abbreviation (input) MASK_C_ADDI :: u32 where "MASK_C_ADDI \<equiv> 0xe003"
abbreviation (input) MATCH_C_JAL :: u32 where "MATCH_C_JAL \<equiv> 0x2001"
abbreviation (input) MASK_C_JAL :: u32 where "MASK_C_JAL \<equiv> 0xe003"
abbreviation (input) MATCH_C_LI :: u32 where "MATCH_C_LI \<equiv> 0x4001"
abbreviation (input) MASK_C_LI :: u32 where "MASK_C_LI \<equiv> 0xe003"
abbreviation (input) MATCH_C_LUI :: u32 where "MATCH_C_LUI \<equiv> 0x6001"
abbreviation (input) MASK_C_LUI :: u32 where "MASK_C_LUI \<equiv> 0xe003"
abbreviation (input) MATCH_C_SRLI :: u32 where "MATCH_C_SRLI \<equiv> 0x8001"
abbreviation (input) MASK_C_SRLI :: u32 where "MASK_C_SRLI \<equiv> 0xec03"
abbreviation (input) MATCH_C_SRLI64 :: u32 where "MATCH_C_SRLI64 \<equiv> 0x8001"
abbreviation (input) MASK_C_SRLI64 :: u32 where "MASK_C_SRLI64 \<equiv> 0xfc7f"
abbreviation (input) MATCH_C_SRAI :: u32 where "MATCH_C_SRAI \<equiv> 0x8401"
abbreviation (input) MASK_C_SRAI :: u32 where "MASK_C_SRAI \<equiv> 0xec03"
abbreviation (input) MATCH_C_SRAI64 :: u32 where "MATCH_C_SRAI64 \<equiv> 0x8401"
abbreviation (input) MASK_C_SRAI64 :: u32 where "MASK_C_SRAI64 \<equiv> 0xfc7f"
abbreviation (input) MATCH_C_ANDI :: u32 where "MATCH_C_ANDI \<equiv> 0x8801"
abbreviation (input) MASK_C_ANDI :: u32 where "MASK_C_ANDI \<equiv> 0xec03"
abbreviation (input) MATCH_C_SUB :: u32 where "MATCH_C_SUB \<equiv> 0x8c01"
abbreviation (input) MASK_C_SUB :: u32 where "MASK_C_SUB \<equiv> 0xfc63"
abbreviation (input) MATCH_C_XOR :: u32 where "MATCH_C_XOR \<equiv> 0x8c21"
abbreviation (input) MASK_C_XOR :: u32 where "MASK_C_XOR \<equiv> 0xfc63"
abbreviation (input) MATCH_C_OR :: u32 where "MATCH_C_OR \<equiv> 0x8c41"
abbreviation (input) MASK_C_OR :: u32 where "MASK_C_OR \<equiv> 0xfc63"
abbreviation (input) MATCH_C_AND :: u32 where "MATCH_C_AND \<equiv> 0x8c61"
abbreviation (input) MASK_C_AND :: u32 where "MASK_C_AND \<equiv> 0xfc63"
abbreviation (input) MATCH_C_SUBW :: u32 where "MATCH_C_SUBW \<equiv> 0x9c01"
abbreviation (input) MASK_C_SUBW :: u32 where "MASK_C_SUBW \<equiv> 0xfc63"
abbreviation (input) MATCH_C_ADDW :: u32 where "MATCH_C_ADDW \<equiv> 0x9c21"
abbreviation (input) MASK_C_ADDW :: u32 where "MASK_C_ADDW \<equiv> 0xfc63"
abbreviation (input) MATCH_C_J :: u32 where "MATCH_C_J \<equiv> 0xa001"
abbreviation (input) MASK_C_J :: u32 where "MASK_C_J \<equiv> 0xe003"
abbreviation (input) MATCH_C_BEQZ :: u32 where "MATCH_C_BEQZ \<equiv> 0xc001"
abbreviation (input) MASK_C_BEQZ :: u32 where "MASK_C_BEQZ \<equiv> 0xe003"
abbreviation (input) MATCH_C_BNEZ :: u32 where "MATCH_C_BNEZ \<equiv> 0xe001"
abbreviation (input) MASK_C_BNEZ :: u32 where "MASK_C_BNEZ \<equiv> 0xe003"
abbreviation (input) MATCH_C_SLLI :: u32 where "MATCH_C_SLLI \<equiv> 0x2"
abbreviation (input) MASK_C_SLLI :: u32 where "MASK_C_SLLI \<equiv> 0xe003"
abbreviation (input) MATCH_C_SLLI64 :: u32 where "MATCH_C_SLLI64 \<equiv> 0x2"
abbreviation (input) MASK_C_SLLI64 :: u32 where "MASK_C_SLLI64 \<equiv> 0xf07f"
abbreviation (input) MATCH_C_FLDSP :: u32 where "MATCH_C_FLDSP \<equiv> 0x2002"
abbreviation (input) MASK_C_FLDSP :: u32 where "MASK_C_FLDSP \<equiv> 0xe003"
abbreviation (input) MATCH_C_LWSP :: u32 where "MATCH_C_LWSP \<equiv> 0x4002"
abbreviation (input) MASK_C_LWSP :: u32 where "MASK_C_LWSP \<equiv> 0xe003"
abbreviation (input) MATCH_C_FLWSP :: u32 where "MATCH_C_FLWSP \<equiv> 0x6002"
abbreviation (input) MASK_C_FLWSP :: u32 where "MASK_C_FLWSP \<equiv> 0xe003"
abbreviation (input) MATCH_C_MV :: u32 where "MATCH_C_MV \<equiv> 0x8002"
abbreviation (input) MASK_C_MV :: u32 where "MASK_C_MV \<equiv> 0xf003"
abbreviation (input) MATCH_C_ADD :: u32 where "MATCH_C_ADD \<equiv> 0x9002"
abbreviation (input) MASK_C_ADD :: u32 where "MASK_C_ADD \<equiv> 0xf003"
abbreviation (input) MATCH_C_FSDSP :: u32 where "MATCH_C_FSDSP \<equiv> 0xa002"
abbreviation (input) MASK_C_FSDSP :: u32 where "MASK_C_FSDSP \<equiv> 0xe003"
abbreviation (input) MATCH_C_SWSP :: u32 where "MATCH_C_SWSP \<equiv> 0xc002"
abbreviation (input) MASK_C_SWSP :: u32 where "MASK_C_SWSP \<equiv> 0xe003"
abbreviation (input) MATCH_C_FSWSP :: u32 where "MATCH_C_FSWSP \<equiv> 0xe002"
abbreviation (input) MASK_C_FSWSP :: u32 where "MASK_C_FSWSP \<equiv> 0xe003"
abbreviation (input) MATCH_C_NOP :: u32 where "MATCH_C_NOP \<equiv> 0x1"
abbreviation (input) MATCH_C_ADDI16SP :: u32 where "MATCH_C_ADDI16SP \<equiv> 0x6101"
abbreviation (input) MASK_C_ADDI16SP :: u32 where "MASK_C_ADDI16SP \<equiv> 0xef83"
abbreviation (input) MATCH_C_JR :: u32 where "MATCH_C_JR \<equiv> 0x8002"
abbreviation (input) MASK_C_JR :: u32 where "MASK_C_JR \<equiv> 0xf07f"
abbreviation (input) MATCH_C_JALR :: u32 where "MATCH_C_JALR \<equiv> 0x9002"
abbreviation (input) MASK_C_JALR :: u32 where "MASK_C_JALR \<equiv> 0xf07f"
abbreviation (input) MATCH_C_EBREAK :: u32 where "MATCH_C_EBREAK \<equiv> 0x9002"
abbreviation (input) MASK_C_EBREAK :: u32 where "MASK_C_EBREAK \<equiv> 0xffff"
abbreviation (input) MATCH_C_LD :: u32 where "MATCH_C_LD \<equiv> 0x6000"
abbreviation (input) MASK_C_LD :: u32 where "MASK_C_LD \<equiv> 0xe003"
abbreviation (input) MATCH_C_SD :: u32 where "MATCH_C_SD \<equiv> 0xe000"
abbreviation (input) MASK_C_SD :: u32 where "MASK_C_SD \<equiv> 0xe003"
abbreviation (input) MATCH_C_ADDIW :: u32 where "MATCH_C_ADDIW \<equiv> 0x2001"
abbreviation (input) MASK_C_ADDIW :: u32 where "MASK_C_ADDIW \<equiv> 0xe003"
abbreviation (input) MATCH_C_LDSP :: u32 where "MATCH_C_LDSP \<equiv> 0x6002"
abbreviation (input) MASK_C_LDSP :: u32 where "MASK_C_LDSP \<equiv> 0xe003"
abbreviation (input) MATCH_C_SDSP :: u32 where "MATCH_C_SDSP \<equiv> 0xe002"
abbreviation (input) MASK_C_SDSP :: u32 where "MASK_C_SDSP \<equiv> 0xe003"
abbreviation (input) CSR_CYCLE :: u32 where "CSR_CYCLE \<equiv> 0xc00"

end
