(* ===== verification/RiscvOpc.thy ===== *)
theory RiscvOpc
  imports RiscvEncoding RiscvOpcConst
begin

text \<open>
  The opcode table of the RISC-V assembler, from \<open>opcodes/riscv-opc.c\<close>: the register
  names, the match functions and the two tables \<open>riscv_opcodes\<close> and
  \<open>riscv_insn_types\<close>, entry for entry and in the order of the source (the order decides
  which encoding an overloaded mnemonic gets).

  Every constant expression is kept as the source writes it. Its C type decides how it is
  widened to \<open>insn_t\<close>: an \<open>int\<close> is sign-extended (\<open>c_int\<close>), an
  \<open>unsigned\<close> is zero-extended (\<open>c_uint\<close>). A literal above \<open>0x7fffffff\<close> is
  unsigned, and so is an expression with an unsigned operand.
\<close>

subsection \<open>Register names\<close>

definition riscv_gpr_names_numeric :: "string list" where
  "riscv_gpr_names_numeric = [
    ''x0'', ''x1'', ''x2'', ''x3'', ''x4'', ''x5'', ''x6'', ''x7'',
    ''x8'', ''x9'', ''x10'', ''x11'', ''x12'', ''x13'', ''x14'', ''x15'',
    ''x16'', ''x17'', ''x18'', ''x19'', ''x20'', ''x21'', ''x22'', ''x23'',
    ''x24'', ''x25'', ''x26'', ''x27'', ''x28'', ''x29'', ''x30'', ''x31'']"

definition riscv_gpr_names_abi :: "string list" where
  "riscv_gpr_names_abi = [
    ''zero'', ''ra'', ''sp'', ''gp'', ''tp'', ''t0'', ''t1'', ''t2'',
    ''s0'', ''s1'', ''a0'', ''a1'', ''a2'', ''a3'', ''a4'', ''a5'',
    ''a6'', ''a7'', ''s2'', ''s3'', ''s4'', ''s5'', ''s6'', ''s7'',
    ''s8'', ''s9'', ''s10'', ''s11'', ''t3'', ''t4'', ''t5'', ''t6'']"

definition riscv_fpr_names_numeric :: "string list" where
  "riscv_fpr_names_numeric = [
    ''f0'', ''f1'', ''f2'', ''f3'', ''f4'', ''f5'', ''f6'', ''f7'',
    ''f8'', ''f9'', ''f10'', ''f11'', ''f12'', ''f13'', ''f14'', ''f15'',
    ''f16'', ''f17'', ''f18'', ''f19'', ''f20'', ''f21'', ''f22'', ''f23'',
    ''f24'', ''f25'', ''f26'', ''f27'', ''f28'', ''f29'', ''f30'', ''f31'']"

definition riscv_fpr_names_abi :: "string list" where
  "riscv_fpr_names_abi = [
    ''ft0'', ''ft1'', ''ft2'', ''ft3'', ''ft4'', ''ft5'', ''ft6'', ''ft7'',
    ''fs0'', ''fs1'', ''fa0'', ''fa1'', ''fa2'', ''fa3'', ''fa4'', ''fa5'',
    ''fa6'', ''fa7'', ''fs2'', ''fs3'', ''fs4'', ''fs5'', ''fs6'', ''fs7'',
    ''fs8'', ''fs9'', ''fs10'', ''fs11'', ''ft8'', ''ft9'', ''ft10'', ''ft11'']"

subsection \<open>Entries\<close>

text \<open>The function pointer of an entry is the name of one of the functions below.\<close>

datatype match_fn = Match_opcode | Match_never | Match_rs1_eq_rs2 | Match_rd_nonzero
  | Match_c_add | Match_c_add_with_hint | Match_c_nop | Match_c_addi16sp | Match_c_lui
  | Match_c_lui_with_hint | Match_c_addi4spn | Match_c_slli | Match_slli_as_c_slli
  | Match_c_slli64 | Match_srxi_as_c_srxi

record riscv_opcode =
  op_name :: string
  op_subset :: string
  op_args :: string
  op_match :: insn_t
  op_mask :: insn_t
  op_match_func :: match_fn
  op_pinfo :: u32

abbreviation (input) OPC ::
  "string \<Rightarrow> string \<Rightarrow> string \<Rightarrow> insn_t \<Rightarrow> insn_t \<Rightarrow> match_fn \<Rightarrow> u32 \<Rightarrow> riscv_opcode" where
  "OPC n s a m k f p \<equiv> \<lparr>op_name = n, op_subset = s, op_args = a, op_match = m, op_mask = k,
     op_match_func = f, op_pinfo = p\<rparr>"

definition c_int :: "u32 \<Rightarrow> insn_t" where "c_int = scast"
definition c_uint :: "u32 \<Rightarrow> insn_t" where "c_uint = ucast"

declare c_int_def [c_eval] c_uint_def [c_eval]

abbreviation (input) INSN_ALIAS :: u32 where "INSN_ALIAS \<equiv> 0x00000001"
abbreviation (input) INSN_MACRO :: u32 where "INSN_MACRO \<equiv> 0xffffffff"

abbreviation (input) M_LA :: insn_t where "M_LA \<equiv> 0"
abbreviation (input) M_LLA :: insn_t where "M_LLA \<equiv> 1"
abbreviation (input) M_LA_TLS_GD :: insn_t where "M_LA_TLS_GD \<equiv> 2"
abbreviation (input) M_LA_TLS_IE :: insn_t where "M_LA_TLS_IE \<equiv> 3"
abbreviation (input) M_LB :: insn_t where "M_LB \<equiv> 4"
abbreviation (input) M_LBU :: insn_t where "M_LBU \<equiv> 5"
abbreviation (input) M_LH :: insn_t where "M_LH \<equiv> 6"
abbreviation (input) M_LHU :: insn_t where "M_LHU \<equiv> 7"
abbreviation (input) M_LW :: insn_t where "M_LW \<equiv> 8"
abbreviation (input) M_LWU :: insn_t where "M_LWU \<equiv> 9"
abbreviation (input) M_LD :: insn_t where "M_LD \<equiv> 10"
abbreviation (input) M_SB :: insn_t where "M_SB \<equiv> 11"
abbreviation (input) M_SH :: insn_t where "M_SH \<equiv> 12"
abbreviation (input) M_SW :: insn_t where "M_SW \<equiv> 13"
abbreviation (input) M_SD :: insn_t where "M_SD \<equiv> 14"
abbreviation (input) M_FLW :: insn_t where "M_FLW \<equiv> 15"
abbreviation (input) M_FLD :: insn_t where "M_FLD \<equiv> 16"
abbreviation (input) M_FLQ :: insn_t where "M_FLQ \<equiv> 17"
abbreviation (input) M_FSW :: insn_t where "M_FSW \<equiv> 18"
abbreviation (input) M_FSD :: insn_t where "M_FSD \<equiv> 19"
abbreviation (input) M_FSQ :: insn_t where "M_FSQ \<equiv> 20"
abbreviation (input) M_CALL :: insn_t where "M_CALL \<equiv> 21"
abbreviation (input) M_J :: insn_t where "M_J \<equiv> 22"
abbreviation (input) M_LI :: insn_t where "M_LI \<equiv> 23"

abbreviation (input) X_RA :: u32 where "X_RA \<equiv> 1"
abbreviation (input) X_SP :: u32 where "X_SP \<equiv> 2"
abbreviation (input) X_T1 :: u32 where "X_T1 \<equiv> 6"

abbreviation (input) OP_SH_RS1 :: nat where "OP_SH_RS1 \<equiv> 15"
abbreviation (input) OP_SH_RD :: nat where "OP_SH_RD \<equiv> 7"
abbreviation (input) OP_SH_CSR :: nat where "OP_SH_CSR \<equiv> 20"

subsection \<open>Masks and match functions\<close>

definition MASK_RS1 :: u32 where "MASK_RS1 = shl (OP_MASK F_RS1) (OP_SH F_RS1)"
definition MASK_RS2 :: u32 where "MASK_RS2 = shl (OP_MASK F_RS2) (OP_SH F_RS2)"
definition MASK_RD :: u32 where "MASK_RD = shl (OP_MASK F_RD) (OP_SH F_RD)"
definition MASK_CRS2 :: u32 where "MASK_CRS2 = shl (OP_MASK F_CRS2) (OP_SH F_CRS2)"
definition MASK_IMM :: u32 where "MASK_IMM = ENCODE_ITYPE_IMM (- 1)"
definition MASK_RVC_IMM :: u32 where "MASK_RVC_IMM = ENCODE_RVC_IMM (- 1)"
definition MASK_UIMM :: u32 where "MASK_UIMM = ENCODE_UTYPE_IMM (- 1)"
definition MASK_RM :: u32 where "MASK_RM = shl (OP_MASK F_RM) (OP_SH F_RM)"
definition MASK_PRED :: u32 where "MASK_PRED = shl (OP_MASK F_PRED) (OP_SH F_PRED)"
definition MASK_SUCC :: u32 where "MASK_SUCC = shl (OP_MASK F_SUCC) (OP_SH F_SUCC)"
definition MASK_AQ :: u32 where "MASK_AQ = shl (OP_MASK F_AQ) (OP_SH F_AQ)"
definition MASK_RL :: u32 where "MASK_RL = shl (OP_MASK F_RL) (OP_SH F_RL)"
definition MASK_AQRL :: u32 where "MASK_AQRL = MASK_AQ OR MASK_RL"

lemmas op_masks = MASK_RS1_def MASK_RS2_def MASK_RD_def MASK_CRS2_def MASK_IMM_def
  MASK_RVC_IMM_def MASK_UIMM_def MASK_RM_def MASK_PRED_def MASK_SUCC_def MASK_AQ_def
  MASK_RL_def MASK_AQRL_def

declare op_masks [c_eval]

definition match_opcode :: "riscv_opcode \<Rightarrow> insn_t \<Rightarrow> bool" where
  "match_opcode op insn \<longleftrightarrow> (insn XOR op_match op) AND op_mask op = 0"

definition match_never :: "riscv_opcode \<Rightarrow> insn_t \<Rightarrow> bool" where
  "match_never op insn \<longleftrightarrow> False"

definition match_rs1_eq_rs2 :: "riscv_opcode \<Rightarrow> insn_t \<Rightarrow> bool" where
  "match_rs1_eq_rs2 op insn \<longleftrightarrow>
     (let rs1 = shr (insn AND c_int MASK_RS1) 15;
          rs2 = shr (insn AND c_int MASK_RS2) 20
      in match_opcode op insn \<and> rs1 = rs2)"

definition match_rd_nonzero :: "riscv_opcode \<Rightarrow> insn_t \<Rightarrow> bool" where
  "match_rd_nonzero op insn \<longleftrightarrow> match_opcode op insn \<and> insn AND c_int MASK_RD \<noteq> 0"

definition match_c_add :: "riscv_opcode \<Rightarrow> insn_t \<Rightarrow> bool" where
  "match_c_add op insn \<longleftrightarrow> match_rd_nonzero op insn \<and> insn AND c_int MASK_CRS2 \<noteq> 0"

definition match_c_add_with_hint :: "riscv_opcode \<Rightarrow> insn_t \<Rightarrow> bool" where
  "match_c_add_with_hint op insn \<longleftrightarrow> match_opcode op insn \<and> insn AND c_int MASK_CRS2 \<noteq> 0"

definition match_c_nop :: "riscv_opcode \<Rightarrow> insn_t \<Rightarrow> bool" where
  "match_c_nop op insn \<longleftrightarrow> match_opcode op insn \<and> shr (insn AND c_int MASK_RD) 7 = 0"

definition match_c_addi16sp :: "riscv_opcode \<Rightarrow> insn_t \<Rightarrow> bool" where
  "match_c_addi16sp op insn \<longleftrightarrow> match_opcode op insn \<and>
     shr (insn AND c_int MASK_RD) 7 = 2 \<and> EXTRACT_RVC_ADDI16SP_IMM insn \<noteq> 0"

definition match_c_lui :: "riscv_opcode \<Rightarrow> insn_t \<Rightarrow> bool" where
  "match_c_lui op insn \<longleftrightarrow> match_rd_nonzero op insn \<and>
     shr (insn AND c_int MASK_RD) 7 \<noteq> 2 \<and> EXTRACT_RVC_LUI_IMM insn \<noteq> 0"

definition match_c_lui_with_hint :: "riscv_opcode \<Rightarrow> insn_t \<Rightarrow> bool" where
  "match_c_lui_with_hint op insn \<longleftrightarrow> match_opcode op insn \<and>
     shr (insn AND c_int MASK_RD) 7 \<noteq> 2 \<and> EXTRACT_RVC_LUI_IMM insn \<noteq> 0"

definition match_c_addi4spn :: "riscv_opcode \<Rightarrow> insn_t \<Rightarrow> bool" where
  "match_c_addi4spn op insn \<longleftrightarrow> match_opcode op insn \<and> EXTRACT_RVC_ADDI4SPN_IMM insn \<noteq> 0"

definition match_c_slli :: "riscv_opcode \<Rightarrow> insn_t \<Rightarrow> bool" where
  "match_c_slli op insn \<longleftrightarrow> match_opcode op insn \<and> EXTRACT_RVC_IMM insn \<noteq> 0"

definition match_slli_as_c_slli :: "riscv_opcode \<Rightarrow> insn_t \<Rightarrow> bool" where
  "match_slli_as_c_slli op insn \<longleftrightarrow> match_rd_nonzero op insn \<and> EXTRACT_RVC_IMM insn \<noteq> 0"

definition match_c_slli64 :: "riscv_opcode \<Rightarrow> insn_t \<Rightarrow> bool" where
  "match_c_slli64 op insn \<longleftrightarrow> match_opcode op insn \<and> EXTRACT_RVC_IMM insn = 0"

definition match_srxi_as_c_srxi :: "riscv_opcode \<Rightarrow> insn_t \<Rightarrow> bool" where
  "match_srxi_as_c_srxi op insn \<longleftrightarrow> match_opcode op insn \<and> EXTRACT_RVC_IMM insn \<noteq> 0"

text \<open>The call \<open>insn->match_func (insn, word)\<close>.\<close>

definition match_func :: "riscv_opcode \<Rightarrow> insn_t \<Rightarrow> bool" where
  "match_func op insn = (case op_match_func op of
     Match_opcode \<Rightarrow> match_opcode op insn
   | Match_never \<Rightarrow> match_never op insn
   | Match_rs1_eq_rs2 \<Rightarrow> match_rs1_eq_rs2 op insn
   | Match_rd_nonzero \<Rightarrow> match_rd_nonzero op insn
   | Match_c_add \<Rightarrow> match_c_add op insn
   | Match_c_add_with_hint \<Rightarrow> match_c_add_with_hint op insn
   | Match_c_nop \<Rightarrow> match_c_nop op insn
   | Match_c_addi16sp \<Rightarrow> match_c_addi16sp op insn
   | Match_c_lui \<Rightarrow> match_c_lui op insn
   | Match_c_lui_with_hint \<Rightarrow> match_c_lui_with_hint op insn
   | Match_c_addi4spn \<Rightarrow> match_c_addi4spn op insn
   | Match_c_slli \<Rightarrow> match_c_slli op insn
   | Match_slli_as_c_slli \<Rightarrow> match_slli_as_c_slli op insn
   | Match_c_slli64 \<Rightarrow> match_c_slli64 op insn
   | Match_srxi_as_c_srxi \<Rightarrow> match_srxi_as_c_srxi op insn)"

lemmas match_defs = match_opcode_def match_never_def match_rs1_eq_rs2_def match_rd_nonzero_def
  match_c_add_def match_c_add_with_hint_def match_c_nop_def match_c_addi16sp_def match_c_lui_def
  match_c_lui_with_hint_def match_c_addi4spn_def match_c_slli_def match_slli_as_c_slli_def
  match_c_slli64_def match_srxi_as_c_srxi_def

text \<open>Every match function but \<open>match_never\<close> refines the comparison of the fixed bits.\<close>

lemma match_func_fixed_bits: "match_func op insn \<Longrightarrow> match_opcode op insn"
  by (auto simp: match_func_def match_defs Let_def split: match_fn.splits)

subsection \<open>The instruction table\<close>

text \<open>RV32I and RV64I with their aliases and compressed forms, up to the shifts.\<close>

definition riscv_opcodes_base :: "riscv_opcode list" where
  "riscv_opcodes_base = [
    OPC ''unimp'' ''C'' '''' 0 (c_uint 0xffff) Match_opcode 0,
    OPC ''unimp'' ''I'' '''' (c_int (MATCH_CSRRW OR shl CSR_CYCLE OP_SH_CSR)) (c_uint 0xffffffff) Match_opcode 0,
    OPC ''ebreak'' ''C'' '''' (c_int MATCH_C_EBREAK) (c_int MASK_C_EBREAK) Match_opcode INSN_ALIAS,
    OPC ''ebreak'' ''I'' '''' (c_int MATCH_EBREAK) (c_uint MASK_EBREAK) Match_opcode 0,
    OPC ''sbreak'' ''C'' '''' (c_int MATCH_C_EBREAK) (c_int MASK_C_EBREAK) Match_opcode INSN_ALIAS,
    OPC ''sbreak'' ''I'' '''' (c_int MATCH_EBREAK) (c_uint MASK_EBREAK) Match_opcode INSN_ALIAS,
    OPC ''ret'' ''C'' '''' (c_int (MATCH_C_JR OR shl X_RA OP_SH_RD)) (c_int (MASK_C_JR OR MASK_RD)) Match_opcode INSN_ALIAS,
    OPC ''ret'' ''I'' '''' (c_int (MATCH_JALR OR shl X_RA OP_SH_RS1)) (c_uint (MASK_JALR OR MASK_RD OR MASK_RS1 OR MASK_IMM)) Match_opcode INSN_ALIAS,
    OPC ''jr'' ''C'' ''d'' (c_int MATCH_C_JR) (c_int MASK_C_JR) Match_rd_nonzero INSN_ALIAS,
    OPC ''jr'' ''I'' ''s'' (c_int MATCH_JALR) (c_uint (MASK_JALR OR MASK_RD OR MASK_IMM)) Match_opcode INSN_ALIAS,
    OPC ''jr'' ''I'' ''o(s)'' (c_int MATCH_JALR) (c_int (MASK_JALR OR MASK_RD)) Match_opcode INSN_ALIAS,
    OPC ''jr'' ''I'' ''s,j'' (c_int MATCH_JALR) (c_int (MASK_JALR OR MASK_RD)) Match_opcode INSN_ALIAS,
    OPC ''jalr'' ''C'' ''d'' (c_int MATCH_C_JALR) (c_int MASK_C_JALR) Match_rd_nonzero INSN_ALIAS,
    OPC ''jalr'' ''I'' ''s'' (c_int (MATCH_JALR OR shl X_RA OP_SH_RD)) (c_uint (MASK_JALR OR MASK_RD OR MASK_IMM)) Match_opcode INSN_ALIAS,
    OPC ''jalr'' ''I'' ''o(s)'' (c_int (MATCH_JALR OR shl X_RA OP_SH_RD)) (c_int (MASK_JALR OR MASK_RD)) Match_opcode INSN_ALIAS,
    OPC ''jalr'' ''I'' ''s,j'' (c_int (MATCH_JALR OR shl X_RA OP_SH_RD)) (c_int (MASK_JALR OR MASK_RD)) Match_opcode INSN_ALIAS,
    OPC ''jalr'' ''I'' ''d,s'' (c_int MATCH_JALR) (c_uint (MASK_JALR OR MASK_IMM)) Match_opcode INSN_ALIAS,
    OPC ''jalr'' ''I'' ''d,o(s)'' (c_int MATCH_JALR) (c_int MASK_JALR) Match_opcode 0,
    OPC ''jalr'' ''I'' ''d,s,j'' (c_int MATCH_JALR) (c_int MASK_JALR) Match_opcode 0,
    OPC ''j'' ''C'' ''Ca'' (c_int MATCH_C_J) (c_int MASK_C_J) Match_opcode INSN_ALIAS,
    OPC ''j'' ''I'' ''a'' (c_int MATCH_JAL) (c_int (MASK_JAL OR MASK_RD)) Match_opcode INSN_ALIAS,
    OPC ''jal'' ''I'' ''d,a'' (c_int MATCH_JAL) (c_int MASK_JAL) Match_opcode 0,
    OPC ''jal'' ''32C'' ''Ca'' (c_int MATCH_C_JAL) (c_int MASK_C_JAL) Match_opcode INSN_ALIAS,
    OPC ''jal'' ''I'' ''a'' (c_int (MATCH_JAL OR shl X_RA OP_SH_RD)) (c_int (MASK_JAL OR MASK_RD)) Match_opcode INSN_ALIAS,
    OPC ''call'' ''I'' ''d,c'' (c_int (shl X_T1 OP_SH_RS1)) M_CALL Match_never INSN_MACRO,
    OPC ''call'' ''I'' ''c'' (c_int (shl X_RA OP_SH_RS1 OR shl X_RA OP_SH_RD)) M_CALL Match_never INSN_MACRO,
    OPC ''tail'' ''I'' ''c'' (c_int (shl X_T1 OP_SH_RS1)) M_CALL Match_never INSN_MACRO,
    OPC ''jump'' ''I'' ''c,s'' 0 M_CALL Match_never INSN_MACRO,
    OPC ''nop'' ''C'' '''' (c_int MATCH_C_ADDI) (c_int 0xffff) Match_opcode INSN_ALIAS,
    OPC ''nop'' ''I'' '''' (c_int MATCH_ADDI) (c_uint (MASK_ADDI OR MASK_RD OR MASK_RS1 OR MASK_IMM)) Match_opcode INSN_ALIAS,
    OPC ''lui'' ''C'' ''d,Cu'' (c_int MATCH_C_LUI) (c_int MASK_C_LUI) Match_c_lui INSN_ALIAS,
    OPC ''lui'' ''I'' ''d,u'' (c_int MATCH_LUI) (c_int MASK_LUI) Match_opcode 0,
    OPC ''li'' ''C'' ''d,Cv'' (c_int MATCH_C_LUI) (c_int MASK_C_LUI) Match_c_lui INSN_ALIAS,
    OPC ''li'' ''C'' ''d,Co'' (c_int MATCH_C_LI) (c_int MASK_C_LI) Match_rd_nonzero INSN_ALIAS,
    OPC ''li'' ''I'' ''d,j'' (c_int MATCH_ADDI) (c_int (MASK_ADDI OR MASK_RS1)) Match_opcode INSN_ALIAS,
    OPC ''li'' ''I'' ''d,I'' 0 M_LI Match_never INSN_MACRO,
    OPC ''mv'' ''C'' ''d,CV'' (c_int MATCH_C_MV) (c_int MASK_C_MV) Match_c_add INSN_ALIAS,
    OPC ''mv'' ''I'' ''d,s'' (c_int MATCH_ADDI) (c_uint (MASK_ADDI OR MASK_IMM)) Match_opcode INSN_ALIAS,
    OPC ''move'' ''C'' ''d,CV'' (c_int MATCH_C_MV) (c_int MASK_C_MV) Match_c_add INSN_ALIAS,
    OPC ''move'' ''I'' ''d,s'' (c_int MATCH_ADDI) (c_uint (MASK_ADDI OR MASK_IMM)) Match_opcode INSN_ALIAS,
    OPC ''andi'' ''C'' ''Cs,Cw,Co'' (c_int MATCH_C_ANDI) (c_int MASK_C_ANDI) Match_opcode INSN_ALIAS,
    OPC ''andi'' ''I'' ''d,s,j'' (c_int MATCH_ANDI) (c_int MASK_ANDI) Match_opcode 0,
    OPC ''and'' ''C'' ''Cs,Cw,Ct'' (c_int MATCH_C_AND) (c_int MASK_C_AND) Match_opcode INSN_ALIAS,
    OPC ''and'' ''C'' ''Cs,Ct,Cw'' (c_int MATCH_C_AND) (c_int MASK_C_AND) Match_opcode INSN_ALIAS,
    OPC ''and'' ''C'' ''Cs,Cw,Co'' (c_int MATCH_C_ANDI) (c_int MASK_C_ANDI) Match_opcode INSN_ALIAS,
    OPC ''and'' ''I'' ''d,s,t'' (c_int MATCH_AND) (c_uint MASK_AND) Match_opcode 0,
    OPC ''and'' ''I'' ''d,s,j'' (c_int MATCH_ANDI) (c_int MASK_ANDI) Match_opcode INSN_ALIAS,
    OPC ''beqz'' ''C'' ''Cs,Cp'' (c_int MATCH_C_BEQZ) (c_int MASK_C_BEQZ) Match_opcode INSN_ALIAS,
    OPC ''beqz'' ''I'' ''s,p'' (c_int MATCH_BEQ) (c_int (MASK_BEQ OR MASK_RS2)) Match_opcode INSN_ALIAS,
    OPC ''beq'' ''I'' ''s,t,p'' (c_int MATCH_BEQ) (c_int MASK_BEQ) Match_opcode 0,
    OPC ''blez'' ''I'' ''t,p'' (c_int MATCH_BGE) (c_int (MASK_BGE OR MASK_RS1)) Match_opcode INSN_ALIAS,
    OPC ''bgez'' ''I'' ''s,p'' (c_int MATCH_BGE) (c_int (MASK_BGE OR MASK_RS2)) Match_opcode INSN_ALIAS,
    OPC ''ble'' ''I'' ''t,s,p'' (c_int MATCH_BGE) (c_int MASK_BGE) Match_opcode INSN_ALIAS,
    OPC ''bleu'' ''I'' ''t,s,p'' (c_int MATCH_BGEU) (c_int MASK_BGEU) Match_opcode INSN_ALIAS,
    OPC ''bge'' ''I'' ''s,t,p'' (c_int MATCH_BGE) (c_int MASK_BGE) Match_opcode 0,
    OPC ''bgeu'' ''I'' ''s,t,p'' (c_int MATCH_BGEU) (c_int MASK_BGEU) Match_opcode 0,
    OPC ''bltz'' ''I'' ''s,p'' (c_int MATCH_BLT) (c_int (MASK_BLT OR MASK_RS2)) Match_opcode INSN_ALIAS,
    OPC ''bgtz'' ''I'' ''t,p'' (c_int MATCH_BLT) (c_int (MASK_BLT OR MASK_RS1)) Match_opcode INSN_ALIAS,
    OPC ''blt'' ''I'' ''s,t,p'' (c_int MATCH_BLT) (c_int MASK_BLT) Match_opcode 0,
    OPC ''bltu'' ''I'' ''s,t,p'' (c_int MATCH_BLTU) (c_int MASK_BLTU) Match_opcode 0,
    OPC ''bgt'' ''I'' ''t,s,p'' (c_int MATCH_BLT) (c_int MASK_BLT) Match_opcode INSN_ALIAS,
    OPC ''bgtu'' ''I'' ''t,s,p'' (c_int MATCH_BLTU) (c_int MASK_BLTU) Match_opcode INSN_ALIAS,
    OPC ''bnez'' ''C'' ''Cs,Cp'' (c_int MATCH_C_BNEZ) (c_int MASK_C_BNEZ) Match_opcode INSN_ALIAS,
    OPC ''bnez'' ''I'' ''s,p'' (c_int MATCH_BNE) (c_int (MASK_BNE OR MASK_RS2)) Match_opcode INSN_ALIAS,
    OPC ''bne'' ''I'' ''s,t,p'' (c_int MATCH_BNE) (c_int MASK_BNE) Match_opcode 0,
    OPC ''addi'' ''C'' ''Ct,Cc,CK'' (c_int MATCH_C_ADDI4SPN) (c_int MASK_C_ADDI4SPN) Match_c_addi4spn INSN_ALIAS,
    OPC ''addi'' ''C'' ''d,CU,Cj'' (c_int MATCH_C_ADDI) (c_int MASK_C_ADDI) Match_rd_nonzero INSN_ALIAS,
    OPC ''addi'' ''C'' ''d,CU,z'' (c_int MATCH_C_NOP) (c_uint (MASK_C_ADDI OR MASK_RVC_IMM)) Match_c_nop INSN_ALIAS,
    OPC ''addi'' ''C'' ''Cc,Cc,CL'' (c_int MATCH_C_ADDI16SP) (c_int MASK_C_ADDI16SP) Match_c_addi16sp INSN_ALIAS,
    OPC ''addi'' ''I'' ''d,s,j'' (c_int MATCH_ADDI) (c_int MASK_ADDI) Match_opcode 0,
    OPC ''add'' ''C'' ''d,CU,CV'' (c_int MATCH_C_ADD) (c_int MASK_C_ADD) Match_c_add INSN_ALIAS,
    OPC ''add'' ''C'' ''d,CV,CU'' (c_int MATCH_C_ADD) (c_int MASK_C_ADD) Match_c_add INSN_ALIAS,
    OPC ''add'' ''C'' ''d,CU,Co'' (c_int MATCH_C_ADDI) (c_int MASK_C_ADDI) Match_rd_nonzero INSN_ALIAS,
    OPC ''add'' ''C'' ''Ct,Cc,CK'' (c_int MATCH_C_ADDI4SPN) (c_int MASK_C_ADDI4SPN) Match_c_addi4spn INSN_ALIAS,
    OPC ''add'' ''C'' ''Cc,Cc,CL'' (c_int MATCH_C_ADDI16SP) (c_int MASK_C_ADDI16SP) Match_c_addi16sp INSN_ALIAS,
    OPC ''add'' ''I'' ''d,s,t'' (c_int MATCH_ADD) (c_uint MASK_ADD) Match_opcode 0,
    OPC ''add'' ''I'' ''d,s,t,0'' (c_int MATCH_ADD) (c_uint MASK_ADD) Match_opcode 0,
    OPC ''add'' ''I'' ''d,s,j'' (c_int MATCH_ADDI) (c_int MASK_ADDI) Match_opcode INSN_ALIAS,
    OPC ''la'' ''I'' ''d,B'' 0 M_LA Match_never INSN_MACRO,
    OPC ''lla'' ''I'' ''d,B'' 0 M_LLA Match_never INSN_MACRO,
    OPC ''la.tls.gd'' ''I'' ''d,A'' 0 M_LA_TLS_GD Match_never INSN_MACRO,
    OPC ''la.tls.ie'' ''I'' ''d,A'' 0 M_LA_TLS_IE Match_never INSN_MACRO,
    OPC ''neg'' ''I'' ''d,t'' (c_int MATCH_SUB) (c_uint (MASK_SUB OR MASK_RS1)) Match_opcode INSN_ALIAS,
    OPC ''slli'' ''C'' ''d,CU,C>'' (c_int MATCH_C_SLLI) (c_int MASK_C_SLLI) Match_slli_as_c_slli INSN_ALIAS,
    OPC ''slli'' ''I'' ''d,s,>'' (c_int MATCH_SLLI) (c_uint MASK_SLLI) Match_opcode 0,
    OPC ''sll'' ''C'' ''d,CU,C>'' (c_int MATCH_C_SLLI) (c_int MASK_C_SLLI) Match_slli_as_c_slli INSN_ALIAS,
    OPC ''sll'' ''I'' ''d,s,t'' (c_int MATCH_SLL) (c_uint MASK_SLL) Match_opcode 0,
    OPC ''sll'' ''I'' ''d,s,>'' (c_int MATCH_SLLI) (c_uint MASK_SLLI) Match_opcode INSN_ALIAS,
    OPC ''srli'' ''C'' ''Cs,Cw,C>'' (c_int MATCH_C_SRLI) (c_int MASK_C_SRLI) Match_srxi_as_c_srxi INSN_ALIAS,
    OPC ''srli'' ''I'' ''d,s,>'' (c_int MATCH_SRLI) (c_uint MASK_SRLI) Match_opcode 0,
    OPC ''srl'' ''C'' ''Cs,Cw,C>'' (c_int MATCH_C_SRLI) (c_int MASK_C_SRLI) Match_srxi_as_c_srxi INSN_ALIAS,
    OPC ''srl'' ''I'' ''d,s,t'' (c_int MATCH_SRL) (c_uint MASK_SRL) Match_opcode 0,
    OPC ''srl'' ''I'' ''d,s,>'' (c_int MATCH_SRLI) (c_uint MASK_SRLI) Match_opcode INSN_ALIAS,
    OPC ''srai'' ''C'' ''Cs,Cw,C>'' (c_int MATCH_C_SRAI) (c_int MASK_C_SRAI) Match_srxi_as_c_srxi INSN_ALIAS,
    OPC ''srai'' ''I'' ''d,s,>'' (c_int MATCH_SRAI) (c_uint MASK_SRAI) Match_opcode 0,
    OPC ''sra'' ''C'' ''Cs,Cw,C>'' (c_int MATCH_C_SRAI) (c_int MASK_C_SRAI) Match_srxi_as_c_srxi INSN_ALIAS,
    OPC ''sra'' ''I'' ''d,s,t'' (c_int MATCH_SRA) (c_uint MASK_SRA) Match_opcode 0,
    OPC ''sra'' ''I'' ''d,s,>'' (c_int MATCH_SRAI) (c_uint MASK_SRAI) Match_opcode INSN_ALIAS]"

text \<open>Loads, stores, logic, comparison, fences and the RV64 word forms.\<close>

definition riscv_opcodes_base_mem :: "riscv_opcode list" where
  "riscv_opcodes_base_mem = [
    OPC ''sub'' ''C'' ''Cs,Cw,Ct'' (c_int MATCH_C_SUB) (c_int MASK_C_SUB) Match_opcode INSN_ALIAS,
    OPC ''sub'' ''I'' ''d,s,t'' (c_int MATCH_SUB) (c_uint MASK_SUB) Match_opcode 0,
    OPC ''lb'' ''I'' ''d,o(s)'' (c_int MATCH_LB) (c_int MASK_LB) Match_opcode 0,
    OPC ''lb'' ''I'' ''d,A'' 0 M_LB Match_never INSN_MACRO,
    OPC ''lbu'' ''I'' ''d,o(s)'' (c_int MATCH_LBU) (c_int MASK_LBU) Match_opcode 0,
    OPC ''lbu'' ''I'' ''d,A'' 0 M_LBU Match_never INSN_MACRO,
    OPC ''lh'' ''I'' ''d,o(s)'' (c_int MATCH_LH) (c_int MASK_LH) Match_opcode 0,
    OPC ''lh'' ''I'' ''d,A'' 0 M_LH Match_never INSN_MACRO,
    OPC ''lhu'' ''I'' ''d,o(s)'' (c_int MATCH_LHU) (c_int MASK_LHU) Match_opcode 0,
    OPC ''lhu'' ''I'' ''d,A'' 0 M_LHU Match_never INSN_MACRO,
    OPC ''lw'' ''C'' ''d,Cm(Cc)'' (c_int MATCH_C_LWSP) (c_int MASK_C_LWSP) Match_rd_nonzero INSN_ALIAS,
    OPC ''lw'' ''C'' ''Ct,Ck(Cs)'' (c_int MATCH_C_LW) (c_int MASK_C_LW) Match_opcode INSN_ALIAS,
    OPC ''lw'' ''I'' ''d,o(s)'' (c_int MATCH_LW) (c_int MASK_LW) Match_opcode 0,
    OPC ''lw'' ''I'' ''d,A'' 0 M_LW Match_never INSN_MACRO,
    OPC ''not'' ''I'' ''d,s'' (c_uint (MATCH_XORI OR MASK_IMM)) (c_uint (MASK_XORI OR MASK_IMM)) Match_opcode INSN_ALIAS,
    OPC ''ori'' ''I'' ''d,s,j'' (c_int MATCH_ORI) (c_int MASK_ORI) Match_opcode 0,
    OPC ''or'' ''C'' ''Cs,Cw,Ct'' (c_int MATCH_C_OR) (c_int MASK_C_OR) Match_opcode INSN_ALIAS,
    OPC ''or'' ''C'' ''Cs,Ct,Cw'' (c_int MATCH_C_OR) (c_int MASK_C_OR) Match_opcode INSN_ALIAS,
    OPC ''or'' ''I'' ''d,s,t'' (c_int MATCH_OR) (c_uint MASK_OR) Match_opcode 0,
    OPC ''or'' ''I'' ''d,s,j'' (c_int MATCH_ORI) (c_int MASK_ORI) Match_opcode INSN_ALIAS,
    OPC ''auipc'' ''I'' ''d,u'' (c_int MATCH_AUIPC) (c_int MASK_AUIPC) Match_opcode 0,
    OPC ''seqz'' ''I'' ''d,s'' (c_int (MATCH_SLTIU OR ENCODE_ITYPE_IMM 1)) (c_uint (MASK_SLTIU OR MASK_IMM)) Match_opcode INSN_ALIAS,
    OPC ''snez'' ''I'' ''d,t'' (c_int MATCH_SLTU) (c_uint (MASK_SLTU OR MASK_RS1)) Match_opcode INSN_ALIAS,
    OPC ''sltz'' ''I'' ''d,s'' (c_int MATCH_SLT) (c_uint (MASK_SLT OR MASK_RS2)) Match_opcode INSN_ALIAS,
    OPC ''sgtz'' ''I'' ''d,t'' (c_int MATCH_SLT) (c_uint (MASK_SLT OR MASK_RS1)) Match_opcode INSN_ALIAS,
    OPC ''slti'' ''I'' ''d,s,j'' (c_int MATCH_SLTI) (c_int MASK_SLTI) Match_opcode 0,
    OPC ''slt'' ''I'' ''d,s,t'' (c_int MATCH_SLT) (c_uint MASK_SLT) Match_opcode 0,
    OPC ''slt'' ''I'' ''d,s,j'' (c_int MATCH_SLTI) (c_int MASK_SLTI) Match_opcode INSN_ALIAS,
    OPC ''sltiu'' ''I'' ''d,s,j'' (c_int MATCH_SLTIU) (c_int MASK_SLTIU) Match_opcode 0,
    OPC ''sltu'' ''I'' ''d,s,t'' (c_int MATCH_SLTU) (c_uint MASK_SLTU) Match_opcode 0,
    OPC ''sltu'' ''I'' ''d,s,j'' (c_int MATCH_SLTIU) (c_int MASK_SLTIU) Match_opcode INSN_ALIAS,
    OPC ''sgt'' ''I'' ''d,t,s'' (c_int MATCH_SLT) (c_uint MASK_SLT) Match_opcode INSN_ALIAS,
    OPC ''sgtu'' ''I'' ''d,t,s'' (c_int MATCH_SLTU) (c_uint MASK_SLTU) Match_opcode INSN_ALIAS,
    OPC ''sb'' ''I'' ''t,q(s)'' (c_int MATCH_SB) (c_int MASK_SB) Match_opcode 0,
    OPC ''sb'' ''I'' ''t,A,s'' 0 M_SB Match_never INSN_MACRO,
    OPC ''sh'' ''I'' ''t,q(s)'' (c_int MATCH_SH) (c_int MASK_SH) Match_opcode 0,
    OPC ''sh'' ''I'' ''t,A,s'' 0 M_SH Match_never INSN_MACRO,
    OPC ''sw'' ''C'' ''CV,CM(Cc)'' (c_int MATCH_C_SWSP) (c_int MASK_C_SWSP) Match_opcode INSN_ALIAS,
    OPC ''sw'' ''C'' ''Ct,Ck(Cs)'' (c_int MATCH_C_SW) (c_int MASK_C_SW) Match_opcode INSN_ALIAS,
    OPC ''sw'' ''I'' ''t,q(s)'' (c_int MATCH_SW) (c_int MASK_SW) Match_opcode 0,
    OPC ''sw'' ''I'' ''t,A,s'' 0 M_SW Match_never INSN_MACRO,
    OPC ''fence'' ''I'' '''' (c_int (MATCH_FENCE OR MASK_PRED OR MASK_SUCC)) (c_uint (MASK_FENCE OR MASK_RD OR MASK_RS1 OR MASK_IMM)) Match_opcode INSN_ALIAS,
    OPC ''fence'' ''I'' ''P,Q'' (c_int MATCH_FENCE) (c_uint (MASK_FENCE OR MASK_RD OR MASK_RS1 OR (MASK_IMM AND (NOT MASK_PRED) AND (NOT MASK_SUCC)))) Match_opcode 0,
    OPC ''fence.i'' ''I'' '''' (c_int MATCH_FENCE_I) (c_uint (MASK_FENCE OR MASK_RD OR MASK_RS1 OR MASK_IMM)) Match_opcode 0,
    OPC ''rdcycle'' ''I'' ''d'' (c_uint MATCH_RDCYCLE) (c_uint MASK_RDCYCLE) Match_opcode INSN_ALIAS,
    OPC ''rdinstret'' ''I'' ''d'' (c_uint MATCH_RDINSTRET) (c_uint MASK_RDINSTRET) Match_opcode INSN_ALIAS,
    OPC ''rdtime'' ''I'' ''d'' (c_uint MATCH_RDTIME) (c_uint MASK_RDTIME) Match_opcode INSN_ALIAS,
    OPC ''rdcycleh'' ''32I'' ''d'' (c_uint MATCH_RDCYCLEH) (c_uint MASK_RDCYCLEH) Match_opcode INSN_ALIAS,
    OPC ''rdinstreth'' ''32I'' ''d'' (c_uint MATCH_RDINSTRETH) (c_uint MASK_RDINSTRETH) Match_opcode INSN_ALIAS,
    OPC ''rdtimeh'' ''32I'' ''d'' (c_uint MATCH_RDTIMEH) (c_uint MASK_RDTIMEH) Match_opcode INSN_ALIAS,
    OPC ''ecall'' ''I'' '''' (c_int MATCH_SCALL) (c_uint MASK_SCALL) Match_opcode 0,
    OPC ''scall'' ''I'' '''' (c_int MATCH_SCALL) (c_uint MASK_SCALL) Match_opcode 0,
    OPC ''xori'' ''I'' ''d,s,j'' (c_int MATCH_XORI) (c_int MASK_XORI) Match_opcode 0,
    OPC ''xor'' ''C'' ''Cs,Cw,Ct'' (c_int MATCH_C_XOR) (c_int MASK_C_XOR) Match_opcode INSN_ALIAS,
    OPC ''xor'' ''C'' ''Cs,Ct,Cw'' (c_int MATCH_C_XOR) (c_int MASK_C_XOR) Match_opcode INSN_ALIAS,
    OPC ''xor'' ''I'' ''d,s,t'' (c_int MATCH_XOR) (c_uint MASK_XOR) Match_opcode 0,
    OPC ''xor'' ''I'' ''d,s,j'' (c_int MATCH_XORI) (c_int MASK_XORI) Match_opcode INSN_ALIAS,
    OPC ''lwu'' ''64I'' ''d,o(s)'' (c_int MATCH_LWU) (c_int MASK_LWU) Match_opcode 0,
    OPC ''lwu'' ''64I'' ''d,A'' 0 M_LWU Match_never INSN_MACRO,
    OPC ''ld'' ''64C'' ''d,Cn(Cc)'' (c_int MATCH_C_LDSP) (c_int MASK_C_LDSP) Match_rd_nonzero INSN_ALIAS,
    OPC ''ld'' ''64C'' ''Ct,Cl(Cs)'' (c_int MATCH_C_LD) (c_int MASK_C_LD) Match_opcode INSN_ALIAS,
    OPC ''ld'' ''64I'' ''d,o(s)'' (c_int MATCH_LD) (c_int MASK_LD) Match_opcode 0,
    OPC ''ld'' ''64I'' ''d,A'' 0 M_LD Match_never INSN_MACRO,
    OPC ''sd'' ''64C'' ''CV,CN(Cc)'' (c_int MATCH_C_SDSP) (c_int MASK_C_SDSP) Match_opcode INSN_ALIAS,
    OPC ''sd'' ''64C'' ''Ct,Cl(Cs)'' (c_int MATCH_C_SD) (c_int MASK_C_SD) Match_opcode INSN_ALIAS,
    OPC ''sd'' ''64I'' ''t,q(s)'' (c_int MATCH_SD) (c_int MASK_SD) Match_opcode 0,
    OPC ''sd'' ''64I'' ''t,A,s'' 0 M_SD Match_never INSN_MACRO,
    OPC ''sext.w'' ''64C'' ''d,CU'' (c_int MATCH_C_ADDIW) (c_uint (MASK_C_ADDIW OR MASK_RVC_IMM)) Match_rd_nonzero INSN_ALIAS,
    OPC ''sext.w'' ''64I'' ''d,s'' (c_int MATCH_ADDIW) (c_uint (MASK_ADDIW OR MASK_IMM)) Match_opcode INSN_ALIAS,
    OPC ''addiw'' ''64C'' ''d,CU,Co'' (c_int MATCH_C_ADDIW) (c_int MASK_C_ADDIW) Match_rd_nonzero INSN_ALIAS,
    OPC ''addiw'' ''64I'' ''d,s,j'' (c_int MATCH_ADDIW) (c_int MASK_ADDIW) Match_opcode 0,
    OPC ''addw'' ''64C'' ''Cs,Cw,Ct'' (c_int MATCH_C_ADDW) (c_int MASK_C_ADDW) Match_opcode INSN_ALIAS,
    OPC ''addw'' ''64C'' ''Cs,Ct,Cw'' (c_int MATCH_C_ADDW) (c_int MASK_C_ADDW) Match_opcode INSN_ALIAS,
    OPC ''addw'' ''64C'' ''d,CU,Co'' (c_int MATCH_C_ADDIW) (c_int MASK_C_ADDIW) Match_rd_nonzero INSN_ALIAS,
    OPC ''addw'' ''64I'' ''d,s,t'' (c_int MATCH_ADDW) (c_uint MASK_ADDW) Match_opcode 0,
    OPC ''addw'' ''64I'' ''d,s,j'' (c_int MATCH_ADDIW) (c_int MASK_ADDIW) Match_opcode INSN_ALIAS,
    OPC ''negw'' ''64I'' ''d,t'' (c_int MATCH_SUBW) (c_uint (MASK_SUBW OR MASK_RS1)) Match_opcode INSN_ALIAS,
    OPC ''slliw'' ''64I'' ''d,s,<'' (c_int MATCH_SLLIW) (c_uint MASK_SLLIW) Match_opcode 0,
    OPC ''sllw'' ''64I'' ''d,s,t'' (c_int MATCH_SLLW) (c_uint MASK_SLLW) Match_opcode 0,
    OPC ''sllw'' ''64I'' ''d,s,<'' (c_int MATCH_SLLIW) (c_uint MASK_SLLIW) Match_opcode INSN_ALIAS,
    OPC ''srliw'' ''64I'' ''d,s,<'' (c_int MATCH_SRLIW) (c_uint MASK_SRLIW) Match_opcode 0,
    OPC ''srlw'' ''64I'' ''d,s,t'' (c_int MATCH_SRLW) (c_uint MASK_SRLW) Match_opcode 0,
    OPC ''srlw'' ''64I'' ''d,s,<'' (c_int MATCH_SRLIW) (c_uint MASK_SRLIW) Match_opcode INSN_ALIAS,
    OPC ''sraiw'' ''64I'' ''d,s,<'' (c_int MATCH_SRAIW) (c_uint MASK_SRAIW) Match_opcode 0,
    OPC ''sraw'' ''64I'' ''d,s,t'' (c_int MATCH_SRAW) (c_uint MASK_SRAW) Match_opcode 0,
    OPC ''sraw'' ''64I'' ''d,s,<'' (c_int MATCH_SRAIW) (c_uint MASK_SRAIW) Match_opcode INSN_ALIAS,
    OPC ''subw'' ''64C'' ''Cs,Cw,Ct'' (c_int MATCH_C_SUBW) (c_int MASK_C_SUBW) Match_opcode INSN_ALIAS,
    OPC ''subw'' ''64I'' ''d,s,t'' (c_int MATCH_SUBW) (c_uint MASK_SUBW) Match_opcode 0]"

text \<open>Atomic memory operations.\<close>

definition riscv_opcodes_a :: "riscv_opcode list" where
  "riscv_opcodes_a = [
    OPC ''lr.w'' ''A'' ''d,0(s)'' (c_int MATCH_LR_W) (c_uint (MASK_LR_W OR MASK_AQRL)) Match_opcode 0,
    OPC ''sc.w'' ''A'' ''d,t,0(s)'' (c_int MATCH_SC_W) (c_uint (MASK_SC_W OR MASK_AQRL)) Match_opcode 0,
    OPC ''amoadd.w'' ''A'' ''d,t,0(s)'' (c_int MATCH_AMOADD_W) (c_uint (MASK_AMOADD_W OR MASK_AQRL)) Match_opcode 0,
    OPC ''amoswap.w'' ''A'' ''d,t,0(s)'' (c_int MATCH_AMOSWAP_W) (c_uint (MASK_AMOSWAP_W OR MASK_AQRL)) Match_opcode 0,
    OPC ''amoand.w'' ''A'' ''d,t,0(s)'' (c_int MATCH_AMOAND_W) (c_uint (MASK_AMOAND_W OR MASK_AQRL)) Match_opcode 0,
    OPC ''amoor.w'' ''A'' ''d,t,0(s)'' (c_int MATCH_AMOOR_W) (c_uint (MASK_AMOOR_W OR MASK_AQRL)) Match_opcode 0,
    OPC ''amoxor.w'' ''A'' ''d,t,0(s)'' (c_int MATCH_AMOXOR_W) (c_uint (MASK_AMOXOR_W OR MASK_AQRL)) Match_opcode 0,
    OPC ''amomax.w'' ''A'' ''d,t,0(s)'' (c_uint MATCH_AMOMAX_W) (c_uint (MASK_AMOMAX_W OR MASK_AQRL)) Match_opcode 0,
    OPC ''amomaxu.w'' ''A'' ''d,t,0(s)'' (c_uint MATCH_AMOMAXU_W) (c_uint (MASK_AMOMAXU_W OR MASK_AQRL)) Match_opcode 0,
    OPC ''amomin.w'' ''A'' ''d,t,0(s)'' (c_uint MATCH_AMOMIN_W) (c_uint (MASK_AMOMIN_W OR MASK_AQRL)) Match_opcode 0,
    OPC ''amominu.w'' ''A'' ''d,t,0(s)'' (c_uint MATCH_AMOMINU_W) (c_uint (MASK_AMOMINU_W OR MASK_AQRL)) Match_opcode 0,
    OPC ''lr.w.aq'' ''A'' ''d,0(s)'' (c_int (MATCH_LR_W OR MASK_AQ)) (c_uint (MASK_LR_W OR MASK_AQRL)) Match_opcode 0,
    OPC ''sc.w.aq'' ''A'' ''d,t,0(s)'' (c_int (MATCH_SC_W OR MASK_AQ)) (c_uint (MASK_SC_W OR MASK_AQRL)) Match_opcode 0,
    OPC ''amoadd.w.aq'' ''A'' ''d,t,0(s)'' (c_int (MATCH_AMOADD_W OR MASK_AQ)) (c_uint (MASK_AMOADD_W OR MASK_AQRL)) Match_opcode 0,
    OPC ''amoswap.w.aq'' ''A'' ''d,t,0(s)'' (c_int (MATCH_AMOSWAP_W OR MASK_AQ)) (c_uint (MASK_AMOSWAP_W OR MASK_AQRL)) Match_opcode 0,
    OPC ''amoand.w.aq'' ''A'' ''d,t,0(s)'' (c_int (MATCH_AMOAND_W OR MASK_AQ)) (c_uint (MASK_AMOAND_W OR MASK_AQRL)) Match_opcode 0,
    OPC ''amoor.w.aq'' ''A'' ''d,t,0(s)'' (c_int (MATCH_AMOOR_W OR MASK_AQ)) (c_uint (MASK_AMOOR_W OR MASK_AQRL)) Match_opcode 0,
    OPC ''amoxor.w.aq'' ''A'' ''d,t,0(s)'' (c_int (MATCH_AMOXOR_W OR MASK_AQ)) (c_uint (MASK_AMOXOR_W OR MASK_AQRL)) Match_opcode 0,
    OPC ''amomax.w.aq'' ''A'' ''d,t,0(s)'' (c_uint (MATCH_AMOMAX_W OR MASK_AQ)) (c_uint (MASK_AMOMAX_W OR MASK_AQRL)) Match_opcode 0,
    OPC ''amomaxu.w.aq'' ''A'' ''d,t,0(s)'' (c_uint (MATCH_AMOMAXU_W OR MASK_AQ)) (c_uint (MASK_AMOMAXU_W OR MASK_AQRL)) Match_opcode 0,
    OPC ''amomin.w.aq'' ''A'' ''d,t,0(s)'' (c_uint (MATCH_AMOMIN_W OR MASK_AQ)) (c_uint (MASK_AMOMIN_W OR MASK_AQRL)) Match_opcode 0,
    OPC ''amominu.w.aq'' ''A'' ''d,t,0(s)'' (c_uint (MATCH_AMOMINU_W OR MASK_AQ)) (c_uint (MASK_AMOMINU_W OR MASK_AQRL)) Match_opcode 0,
    OPC ''lr.w.rl'' ''A'' ''d,0(s)'' (c_int (MATCH_LR_W OR MASK_RL)) (c_uint (MASK_LR_W OR MASK_AQRL)) Match_opcode 0,
    OPC ''sc.w.rl'' ''A'' ''d,t,0(s)'' (c_int (MATCH_SC_W OR MASK_RL)) (c_uint (MASK_SC_W OR MASK_AQRL)) Match_opcode 0,
    OPC ''amoadd.w.rl'' ''A'' ''d,t,0(s)'' (c_int (MATCH_AMOADD_W OR MASK_RL)) (c_uint (MASK_AMOADD_W OR MASK_AQRL)) Match_opcode 0,
    OPC ''amoswap.w.rl'' ''A'' ''d,t,0(s)'' (c_int (MATCH_AMOSWAP_W OR MASK_RL)) (c_uint (MASK_AMOSWAP_W OR MASK_AQRL)) Match_opcode 0,
    OPC ''amoand.w.rl'' ''A'' ''d,t,0(s)'' (c_int (MATCH_AMOAND_W OR MASK_RL)) (c_uint (MASK_AMOAND_W OR MASK_AQRL)) Match_opcode 0,
    OPC ''amoor.w.rl'' ''A'' ''d,t,0(s)'' (c_int (MATCH_AMOOR_W OR MASK_RL)) (c_uint (MASK_AMOOR_W OR MASK_AQRL)) Match_opcode 0,
    OPC ''amoxor.w.rl'' ''A'' ''d,t,0(s)'' (c_int (MATCH_AMOXOR_W OR MASK_RL)) (c_uint (MASK_AMOXOR_W OR MASK_AQRL)) Match_opcode 0,
    OPC ''amomax.w.rl'' ''A'' ''d,t,0(s)'' (c_uint (MATCH_AMOMAX_W OR MASK_RL)) (c_uint (MASK_AMOMAX_W OR MASK_AQRL)) Match_opcode 0,
    OPC ''amomaxu.w.rl'' ''A'' ''d,t,0(s)'' (c_uint (MATCH_AMOMAXU_W OR MASK_RL)) (c_uint (MASK_AMOMAXU_W OR MASK_AQRL)) Match_opcode 0,
    OPC ''amomin.w.rl'' ''A'' ''d,t,0(s)'' (c_uint (MATCH_AMOMIN_W OR MASK_RL)) (c_uint (MASK_AMOMIN_W OR MASK_AQRL)) Match_opcode 0,
    OPC ''amominu.w.rl'' ''A'' ''d,t,0(s)'' (c_uint (MATCH_AMOMINU_W OR MASK_RL)) (c_uint (MASK_AMOMINU_W OR MASK_AQRL)) Match_opcode 0,
    OPC ''lr.w.aqrl'' ''A'' ''d,0(s)'' (c_int (MATCH_LR_W OR MASK_AQRL)) (c_uint (MASK_LR_W OR MASK_AQRL)) Match_opcode 0,
    OPC ''sc.w.aqrl'' ''A'' ''d,t,0(s)'' (c_int (MATCH_SC_W OR MASK_AQRL)) (c_uint (MASK_SC_W OR MASK_AQRL)) Match_opcode 0,
    OPC ''amoadd.w.aqrl'' ''A'' ''d,t,0(s)'' (c_int (MATCH_AMOADD_W OR MASK_AQRL)) (c_uint (MASK_AMOADD_W OR MASK_AQRL)) Match_opcode 0,
    OPC ''amoswap.w.aqrl'' ''A'' ''d,t,0(s)'' (c_int (MATCH_AMOSWAP_W OR MASK_AQRL)) (c_uint (MASK_AMOSWAP_W OR MASK_AQRL)) Match_opcode 0,
    OPC ''amoand.w.aqrl'' ''A'' ''d,t,0(s)'' (c_int (MATCH_AMOAND_W OR MASK_AQRL)) (c_uint (MASK_AMOAND_W OR MASK_AQRL)) Match_opcode 0,
    OPC ''amoor.w.aqrl'' ''A'' ''d,t,0(s)'' (c_int (MATCH_AMOOR_W OR MASK_AQRL)) (c_uint (MASK_AMOOR_W OR MASK_AQRL)) Match_opcode 0,
    OPC ''amoxor.w.aqrl'' ''A'' ''d,t,0(s)'' (c_int (MATCH_AMOXOR_W OR MASK_AQRL)) (c_uint (MASK_AMOXOR_W OR MASK_AQRL)) Match_opcode 0,
    OPC ''amomax.w.aqrl'' ''A'' ''d,t,0(s)'' (c_uint (MATCH_AMOMAX_W OR MASK_AQRL)) (c_uint (MASK_AMOMAX_W OR MASK_AQRL)) Match_opcode 0,
    OPC ''amomaxu.w.aqrl'' ''A'' ''d,t,0(s)'' (c_uint (MATCH_AMOMAXU_W OR MASK_AQRL)) (c_uint (MASK_AMOMAXU_W OR MASK_AQRL)) Match_opcode 0,
    OPC ''amomin.w.aqrl'' ''A'' ''d,t,0(s)'' (c_uint (MATCH_AMOMIN_W OR MASK_AQRL)) (c_uint (MASK_AMOMIN_W OR MASK_AQRL)) Match_opcode 0,
    OPC ''amominu.w.aqrl'' ''A'' ''d,t,0(s)'' (c_uint (MATCH_AMOMINU_W OR MASK_AQRL)) (c_uint (MASK_AMOMINU_W OR MASK_AQRL)) Match_opcode 0,
    OPC ''lr.d'' ''64A'' ''d,0(s)'' (c_int MATCH_LR_D) (c_uint (MASK_LR_D OR MASK_AQRL)) Match_opcode 0,
    OPC ''sc.d'' ''64A'' ''d,t,0(s)'' (c_int MATCH_SC_D) (c_uint (MASK_SC_D OR MASK_AQRL)) Match_opcode 0,
    OPC ''amoadd.d'' ''64A'' ''d,t,0(s)'' (c_int MATCH_AMOADD_D) (c_uint (MASK_AMOADD_D OR MASK_AQRL)) Match_opcode 0,
    OPC ''amoswap.d'' ''64A'' ''d,t,0(s)'' (c_int MATCH_AMOSWAP_D) (c_uint (MASK_AMOSWAP_D OR MASK_AQRL)) Match_opcode 0,
    OPC ''amoand.d'' ''64A'' ''d,t,0(s)'' (c_int MATCH_AMOAND_D) (c_uint (MASK_AMOAND_D OR MASK_AQRL)) Match_opcode 0,
    OPC ''amoor.d'' ''64A'' ''d,t,0(s)'' (c_int MATCH_AMOOR_D) (c_uint (MASK_AMOOR_D OR MASK_AQRL)) Match_opcode 0,
    OPC ''amoxor.d'' ''64A'' ''d,t,0(s)'' (c_int MATCH_AMOXOR_D) (c_uint (MASK_AMOXOR_D OR MASK_AQRL)) Match_opcode 0,
    OPC ''amomax.d'' ''64A'' ''d,t,0(s)'' (c_uint MATCH_AMOMAX_D) (c_uint (MASK_AMOMAX_D OR MASK_AQRL)) Match_opcode 0,
    OPC ''amomaxu.d'' ''64A'' ''d,t,0(s)'' (c_uint MATCH_AMOMAXU_D) (c_uint (MASK_AMOMAXU_D OR MASK_AQRL)) Match_opcode 0,
    OPC ''amomin.d'' ''64A'' ''d,t,0(s)'' (c_uint MATCH_AMOMIN_D) (c_uint (MASK_AMOMIN_D OR MASK_AQRL)) Match_opcode 0,
    OPC ''amominu.d'' ''64A'' ''d,t,0(s)'' (c_uint MATCH_AMOMINU_D) (c_uint (MASK_AMOMINU_D OR MASK_AQRL)) Match_opcode 0,
    OPC ''lr.d.aq'' ''64A'' ''d,0(s)'' (c_int (MATCH_LR_D OR MASK_AQ)) (c_uint (MASK_LR_D OR MASK_AQRL)) Match_opcode 0,
    OPC ''sc.d.aq'' ''64A'' ''d,t,0(s)'' (c_int (MATCH_SC_D OR MASK_AQ)) (c_uint (MASK_SC_D OR MASK_AQRL)) Match_opcode 0,
    OPC ''amoadd.d.aq'' ''64A'' ''d,t,0(s)'' (c_int (MATCH_AMOADD_D OR MASK_AQ)) (c_uint (MASK_AMOADD_D OR MASK_AQRL)) Match_opcode 0,
    OPC ''amoswap.d.aq'' ''64A'' ''d,t,0(s)'' (c_int (MATCH_AMOSWAP_D OR MASK_AQ)) (c_uint (MASK_AMOSWAP_D OR MASK_AQRL)) Match_opcode 0,
    OPC ''amoand.d.aq'' ''64A'' ''d,t,0(s)'' (c_int (MATCH_AMOAND_D OR MASK_AQ)) (c_uint (MASK_AMOAND_D OR MASK_AQRL)) Match_opcode 0,
    OPC ''amoor.d.aq'' ''64A'' ''d,t,0(s)'' (c_int (MATCH_AMOOR_D OR MASK_AQ)) (c_uint (MASK_AMOOR_D OR MASK_AQRL)) Match_opcode 0,
    OPC ''amoxor.d.aq'' ''64A'' ''d,t,0(s)'' (c_int (MATCH_AMOXOR_D OR MASK_AQ)) (c_uint (MASK_AMOXOR_D OR MASK_AQRL)) Match_opcode 0,
    OPC ''amomax.d.aq'' ''64A'' ''d,t,0(s)'' (c_uint (MATCH_AMOMAX_D OR MASK_AQ)) (c_uint (MASK_AMOMAX_D OR MASK_AQRL)) Match_opcode 0,
    OPC ''amomaxu.d.aq'' ''64A'' ''d,t,0(s)'' (c_uint (MATCH_AMOMAXU_D OR MASK_AQ)) (c_uint (MASK_AMOMAXU_D OR MASK_AQRL)) Match_opcode 0,
    OPC ''amomin.d.aq'' ''64A'' ''d,t,0(s)'' (c_uint (MATCH_AMOMIN_D OR MASK_AQ)) (c_uint (MASK_AMOMIN_D OR MASK_AQRL)) Match_opcode 0,
    OPC ''amominu.d.aq'' ''64A'' ''d,t,0(s)'' (c_uint (MATCH_AMOMINU_D OR MASK_AQ)) (c_uint (MASK_AMOMINU_D OR MASK_AQRL)) Match_opcode 0,
    OPC ''lr.d.rl'' ''64A'' ''d,0(s)'' (c_int (MATCH_LR_D OR MASK_RL)) (c_uint (MASK_LR_D OR MASK_AQRL)) Match_opcode 0,
    OPC ''sc.d.rl'' ''64A'' ''d,t,0(s)'' (c_int (MATCH_SC_D OR MASK_RL)) (c_uint (MASK_SC_D OR MASK_AQRL)) Match_opcode 0,
    OPC ''amoadd.d.rl'' ''64A'' ''d,t,0(s)'' (c_int (MATCH_AMOADD_D OR MASK_RL)) (c_uint (MASK_AMOADD_D OR MASK_AQRL)) Match_opcode 0,
    OPC ''amoswap.d.rl'' ''64A'' ''d,t,0(s)'' (c_int (MATCH_AMOSWAP_D OR MASK_RL)) (c_uint (MASK_AMOSWAP_D OR MASK_AQRL)) Match_opcode 0,
    OPC ''amoand.d.rl'' ''64A'' ''d,t,0(s)'' (c_int (MATCH_AMOAND_D OR MASK_RL)) (c_uint (MASK_AMOAND_D OR MASK_AQRL)) Match_opcode 0,
    OPC ''amoor.d.rl'' ''64A'' ''d,t,0(s)'' (c_int (MATCH_AMOOR_D OR MASK_RL)) (c_uint (MASK_AMOOR_D OR MASK_AQRL)) Match_opcode 0,
    OPC ''amoxor.d.rl'' ''64A'' ''d,t,0(s)'' (c_int (MATCH_AMOXOR_D OR MASK_RL)) (c_uint (MASK_AMOXOR_D OR MASK_AQRL)) Match_opcode 0,
    OPC ''amomax.d.rl'' ''64A'' ''d,t,0(s)'' (c_uint (MATCH_AMOMAX_D OR MASK_RL)) (c_uint (MASK_AMOMAX_D OR MASK_AQRL)) Match_opcode 0,
    OPC ''amomaxu.d.rl'' ''64A'' ''d,t,0(s)'' (c_uint (MATCH_AMOMAXU_D OR MASK_RL)) (c_uint (MASK_AMOMAXU_D OR MASK_AQRL)) Match_opcode 0,
    OPC ''amomin.d.rl'' ''64A'' ''d,t,0(s)'' (c_uint (MATCH_AMOMIN_D OR MASK_RL)) (c_uint (MASK_AMOMIN_D OR MASK_AQRL)) Match_opcode 0,
    OPC ''amominu.d.rl'' ''64A'' ''d,t,0(s)'' (c_uint (MATCH_AMOMINU_D OR MASK_RL)) (c_uint (MASK_AMOMINU_D OR MASK_AQRL)) Match_opcode 0,
    OPC ''lr.d.aqrl'' ''64A'' ''d,0(s)'' (c_int (MATCH_LR_D OR MASK_AQRL)) (c_uint (MASK_LR_D OR MASK_AQRL)) Match_opcode 0,
    OPC ''sc.d.aqrl'' ''64A'' ''d,t,0(s)'' (c_int (MATCH_SC_D OR MASK_AQRL)) (c_uint (MASK_SC_D OR MASK_AQRL)) Match_opcode 0,
    OPC ''amoadd.d.aqrl'' ''64A'' ''d,t,0(s)'' (c_int (MATCH_AMOADD_D OR MASK_AQRL)) (c_uint (MASK_AMOADD_D OR MASK_AQRL)) Match_opcode 0,
    OPC ''amoswap.d.aqrl'' ''64A'' ''d,t,0(s)'' (c_int (MATCH_AMOSWAP_D OR MASK_AQRL)) (c_uint (MASK_AMOSWAP_D OR MASK_AQRL)) Match_opcode 0,
    OPC ''amoand.d.aqrl'' ''64A'' ''d,t,0(s)'' (c_int (MATCH_AMOAND_D OR MASK_AQRL)) (c_uint (MASK_AMOAND_D OR MASK_AQRL)) Match_opcode 0,
    OPC ''amoor.d.aqrl'' ''64A'' ''d,t,0(s)'' (c_int (MATCH_AMOOR_D OR MASK_AQRL)) (c_uint (MASK_AMOOR_D OR MASK_AQRL)) Match_opcode 0,
    OPC ''amoxor.d.aqrl'' ''64A'' ''d,t,0(s)'' (c_int (MATCH_AMOXOR_D OR MASK_AQRL)) (c_uint (MASK_AMOXOR_D OR MASK_AQRL)) Match_opcode 0,
    OPC ''amomax.d.aqrl'' ''64A'' ''d,t,0(s)'' (c_uint (MATCH_AMOMAX_D OR MASK_AQRL)) (c_uint (MASK_AMOMAX_D OR MASK_AQRL)) Match_opcode 0,
    OPC ''amomaxu.d.aqrl'' ''64A'' ''d,t,0(s)'' (c_uint (MATCH_AMOMAXU_D OR MASK_AQRL)) (c_uint (MASK_AMOMAXU_D OR MASK_AQRL)) Match_opcode 0,
    OPC ''amomin.d.aqrl'' ''64A'' ''d,t,0(s)'' (c_uint (MATCH_AMOMIN_D OR MASK_AQRL)) (c_uint (MASK_AMOMIN_D OR MASK_AQRL)) Match_opcode 0,
    OPC ''amominu.d.aqrl'' ''64A'' ''d,t,0(s)'' (c_uint (MATCH_AMOMINU_D OR MASK_AQRL)) (c_uint (MASK_AMOMINU_D OR MASK_AQRL)) Match_opcode 0]"

text \<open>Multiply and divide.\<close>

definition riscv_opcodes_m :: "riscv_opcode list" where
  "riscv_opcodes_m = [
    OPC ''mul'' ''M'' ''d,s,t'' (c_int MATCH_MUL) (c_uint MASK_MUL) Match_opcode 0,
    OPC ''mulh'' ''M'' ''d,s,t'' (c_int MATCH_MULH) (c_uint MASK_MULH) Match_opcode 0,
    OPC ''mulhu'' ''M'' ''d,s,t'' (c_int MATCH_MULHU) (c_uint MASK_MULHU) Match_opcode 0,
    OPC ''mulhsu'' ''M'' ''d,s,t'' (c_int MATCH_MULHSU) (c_uint MASK_MULHSU) Match_opcode 0,
    OPC ''div'' ''M'' ''d,s,t'' (c_int MATCH_DIV) (c_uint MASK_DIV) Match_opcode 0,
    OPC ''divu'' ''M'' ''d,s,t'' (c_int MATCH_DIVU) (c_uint MASK_DIVU) Match_opcode 0,
    OPC ''rem'' ''M'' ''d,s,t'' (c_int MATCH_REM) (c_uint MASK_REM) Match_opcode 0,
    OPC ''remu'' ''M'' ''d,s,t'' (c_int MATCH_REMU) (c_uint MASK_REMU) Match_opcode 0,
    OPC ''mulw'' ''64M'' ''d,s,t'' (c_int MATCH_MULW) (c_uint MASK_MULW) Match_opcode 0,
    OPC ''divw'' ''64M'' ''d,s,t'' (c_int MATCH_DIVW) (c_uint MASK_DIVW) Match_opcode 0,
    OPC ''divuw'' ''64M'' ''d,s,t'' (c_int MATCH_DIVUW) (c_uint MASK_DIVUW) Match_opcode 0,
    OPC ''remw'' ''64M'' ''d,s,t'' (c_int MATCH_REMW) (c_uint MASK_REMW) Match_opcode 0,
    OPC ''remuw'' ''64M'' ''d,s,t'' (c_int MATCH_REMUW) (c_uint MASK_REMUW) Match_opcode 0]"

text \<open>Single-precision floating point.\<close>

definition riscv_opcodes_f :: "riscv_opcode list" where
  "riscv_opcodes_f = [
    OPC ''frsr'' ''F'' ''d'' (c_int MATCH_FRCSR) (c_uint MASK_FRCSR) Match_opcode 0,
    OPC ''fssr'' ''F'' ''s'' (c_int MATCH_FSCSR) (c_uint (MASK_FSCSR OR MASK_RD)) Match_opcode 0,
    OPC ''fssr'' ''F'' ''d,s'' (c_int MATCH_FSCSR) (c_uint MASK_FSCSR) Match_opcode 0,
    OPC ''frcsr'' ''F'' ''d'' (c_int MATCH_FRCSR) (c_uint MASK_FRCSR) Match_opcode 0,
    OPC ''fscsr'' ''F'' ''s'' (c_int MATCH_FSCSR) (c_uint (MASK_FSCSR OR MASK_RD)) Match_opcode 0,
    OPC ''fscsr'' ''F'' ''d,s'' (c_int MATCH_FSCSR) (c_uint MASK_FSCSR) Match_opcode 0,
    OPC ''frrm'' ''F'' ''d'' (c_int MATCH_FRRM) (c_uint MASK_FRRM) Match_opcode 0,
    OPC ''fsrm'' ''F'' ''s'' (c_int MATCH_FSRM) (c_uint (MASK_FSRM OR MASK_RD)) Match_opcode 0,
    OPC ''fsrm'' ''F'' ''d,s'' (c_int MATCH_FSRM) (c_uint MASK_FSRM) Match_opcode 0,
    OPC ''fsrmi'' ''F'' ''d,Z'' (c_int MATCH_FSRMI) (c_uint MASK_FSRMI) Match_opcode 0,
    OPC ''fsrmi'' ''F'' ''Z'' (c_int MATCH_FSRMI) (c_uint (MASK_FSRMI OR MASK_RD)) Match_opcode 0,
    OPC ''frflags'' ''F'' ''d'' (c_int MATCH_FRFLAGS) (c_uint MASK_FRFLAGS) Match_opcode 0,
    OPC ''fsflags'' ''F'' ''s'' (c_int MATCH_FSFLAGS) (c_uint (MASK_FSFLAGS OR MASK_RD)) Match_opcode 0,
    OPC ''fsflags'' ''F'' ''d,s'' (c_int MATCH_FSFLAGS) (c_uint MASK_FSFLAGS) Match_opcode 0,
    OPC ''fsflagsi'' ''F'' ''d,Z'' (c_int MATCH_FSFLAGSI) (c_uint MASK_FSFLAGSI) Match_opcode 0,
    OPC ''fsflagsi'' ''F'' ''Z'' (c_int MATCH_FSFLAGSI) (c_uint (MASK_FSFLAGSI OR MASK_RD)) Match_opcode 0,
    OPC ''flw'' ''32C'' ''D,Cm(Cc)'' (c_int MATCH_C_FLWSP) (c_int MASK_C_FLWSP) Match_opcode INSN_ALIAS,
    OPC ''flw'' ''32C'' ''CD,Ck(Cs)'' (c_int MATCH_C_FLW) (c_int MASK_C_FLW) Match_opcode INSN_ALIAS,
    OPC ''flw'' ''F'' ''D,o(s)'' (c_int MATCH_FLW) (c_int MASK_FLW) Match_opcode 0,
    OPC ''flw'' ''F'' ''D,A,s'' 0 M_FLW Match_never INSN_MACRO,
    OPC ''fsw'' ''32C'' ''CT,CM(Cc)'' (c_int MATCH_C_FSWSP) (c_int MASK_C_FSWSP) Match_opcode INSN_ALIAS,
    OPC ''fsw'' ''32C'' ''CD,Ck(Cs)'' (c_int MATCH_C_FSW) (c_int MASK_C_FSW) Match_opcode INSN_ALIAS,
    OPC ''fsw'' ''F'' ''T,q(s)'' (c_int MATCH_FSW) (c_int MASK_FSW) Match_opcode 0,
    OPC ''fsw'' ''F'' ''T,A,s'' 0 M_FSW Match_never INSN_MACRO,
    OPC ''fmv.x.w'' ''F'' ''d,S'' (c_uint MATCH_FMV_X_S) (c_uint MASK_FMV_X_S) Match_opcode 0,
    OPC ''fmv.w.x'' ''F'' ''D,s'' (c_uint MATCH_FMV_S_X) (c_uint MASK_FMV_S_X) Match_opcode 0,
    OPC ''fmv.x.s'' ''F'' ''d,S'' (c_uint MATCH_FMV_X_S) (c_uint MASK_FMV_X_S) Match_opcode 0,
    OPC ''fmv.s.x'' ''F'' ''D,s'' (c_uint MATCH_FMV_S_X) (c_uint MASK_FMV_S_X) Match_opcode 0,
    OPC ''fmv.s'' ''F'' ''D,U'' (c_int MATCH_FSGNJ_S) (c_uint MASK_FSGNJ_S) Match_rs1_eq_rs2 INSN_ALIAS,
    OPC ''fneg.s'' ''F'' ''D,U'' (c_int MATCH_FSGNJN_S) (c_uint MASK_FSGNJN_S) Match_rs1_eq_rs2 INSN_ALIAS,
    OPC ''fabs.s'' ''F'' ''D,U'' (c_int MATCH_FSGNJX_S) (c_uint MASK_FSGNJX_S) Match_rs1_eq_rs2 INSN_ALIAS,
    OPC ''fsgnj.s'' ''F'' ''D,S,T'' (c_int MATCH_FSGNJ_S) (c_uint MASK_FSGNJ_S) Match_opcode 0,
    OPC ''fsgnjn.s'' ''F'' ''D,S,T'' (c_int MATCH_FSGNJN_S) (c_uint MASK_FSGNJN_S) Match_opcode 0,
    OPC ''fsgnjx.s'' ''F'' ''D,S,T'' (c_int MATCH_FSGNJX_S) (c_uint MASK_FSGNJX_S) Match_opcode 0,
    OPC ''fadd.s'' ''F'' ''D,S,T'' (c_int (MATCH_FADD_S OR MASK_RM)) (c_uint (MASK_FADD_S OR MASK_RM)) Match_opcode 0,
    OPC ''fadd.s'' ''F'' ''D,S,T,m'' (c_int MATCH_FADD_S) (c_uint MASK_FADD_S) Match_opcode 0,
    OPC ''fsub.s'' ''F'' ''D,S,T'' (c_int (MATCH_FSUB_S OR MASK_RM)) (c_uint (MASK_FSUB_S OR MASK_RM)) Match_opcode 0,
    OPC ''fsub.s'' ''F'' ''D,S,T,m'' (c_int MATCH_FSUB_S) (c_uint MASK_FSUB_S) Match_opcode 0,
    OPC ''fmul.s'' ''F'' ''D,S,T'' (c_int (MATCH_FMUL_S OR MASK_RM)) (c_uint (MASK_FMUL_S OR MASK_RM)) Match_opcode 0,
    OPC ''fmul.s'' ''F'' ''D,S,T,m'' (c_int MATCH_FMUL_S) (c_uint MASK_FMUL_S) Match_opcode 0,
    OPC ''fdiv.s'' ''F'' ''D,S,T'' (c_int (MATCH_FDIV_S OR MASK_RM)) (c_uint (MASK_FDIV_S OR MASK_RM)) Match_opcode 0,
    OPC ''fdiv.s'' ''F'' ''D,S,T,m'' (c_int MATCH_FDIV_S) (c_uint MASK_FDIV_S) Match_opcode 0,
    OPC ''fsqrt.s'' ''F'' ''D,S'' (c_int (MATCH_FSQRT_S OR MASK_RM)) (c_uint (MASK_FSQRT_S OR MASK_RM)) Match_opcode 0,
    OPC ''fsqrt.s'' ''F'' ''D,S,m'' (c_int MATCH_FSQRT_S) (c_uint MASK_FSQRT_S) Match_opcode 0,
    OPC ''fmin.s'' ''F'' ''D,S,T'' (c_int MATCH_FMIN_S) (c_uint MASK_FMIN_S) Match_opcode 0,
    OPC ''fmax.s'' ''F'' ''D,S,T'' (c_int MATCH_FMAX_S) (c_uint MASK_FMAX_S) Match_opcode 0,
    OPC ''fmadd.s'' ''F'' ''D,S,T,R'' (c_int (MATCH_FMADD_S OR MASK_RM)) (c_int (MASK_FMADD_S OR MASK_RM)) Match_opcode 0,
    OPC ''fmadd.s'' ''F'' ''D,S,T,R,m'' (c_int MATCH_FMADD_S) (c_int MASK_FMADD_S) Match_opcode 0,
    OPC ''fnmadd.s'' ''F'' ''D,S,T,R'' (c_int (MATCH_FNMADD_S OR MASK_RM)) (c_int (MASK_FNMADD_S OR MASK_RM)) Match_opcode 0,
    OPC ''fnmadd.s'' ''F'' ''D,S,T,R,m'' (c_int MATCH_FNMADD_S) (c_int MASK_FNMADD_S) Match_opcode 0,
    OPC ''fmsub.s'' ''F'' ''D,S,T,R'' (c_int (MATCH_FMSUB_S OR MASK_RM)) (c_int (MASK_FMSUB_S OR MASK_RM)) Match_opcode 0,
    OPC ''fmsub.s'' ''F'' ''D,S,T,R,m'' (c_int MATCH_FMSUB_S) (c_int MASK_FMSUB_S) Match_opcode 0,
    OPC ''fnmsub.s'' ''F'' ''D,S,T,R'' (c_int (MATCH_FNMSUB_S OR MASK_RM)) (c_int (MASK_FNMSUB_S OR MASK_RM)) Match_opcode 0,
    OPC ''fnmsub.s'' ''F'' ''D,S,T,R,m'' (c_int MATCH_FNMSUB_S) (c_int MASK_FNMSUB_S) Match_opcode 0,
    OPC ''fcvt.w.s'' ''F'' ''d,S'' (c_uint (MATCH_FCVT_W_S OR MASK_RM)) (c_uint (MASK_FCVT_W_S OR MASK_RM)) Match_opcode 0,
    OPC ''fcvt.w.s'' ''F'' ''d,S,m'' (c_uint MATCH_FCVT_W_S) (c_uint MASK_FCVT_W_S) Match_opcode 0,
    OPC ''fcvt.wu.s'' ''F'' ''d,S'' (c_uint (MATCH_FCVT_WU_S OR MASK_RM)) (c_uint (MASK_FCVT_WU_S OR MASK_RM)) Match_opcode 0,
    OPC ''fcvt.wu.s'' ''F'' ''d,S,m'' (c_uint MATCH_FCVT_WU_S) (c_uint MASK_FCVT_WU_S) Match_opcode 0,
    OPC ''fcvt.s.w'' ''F'' ''D,s'' (c_uint (MATCH_FCVT_S_W OR MASK_RM)) (c_uint (MASK_FCVT_S_W OR MASK_RM)) Match_opcode 0,
    OPC ''fcvt.s.w'' ''F'' ''D,s,m'' (c_uint MATCH_FCVT_S_W) (c_uint MASK_FCVT_S_W) Match_opcode 0,
    OPC ''fcvt.s.wu'' ''F'' ''D,s'' (c_uint (MATCH_FCVT_S_WU OR MASK_RM)) (c_uint (MASK_FCVT_S_W OR MASK_RM)) Match_opcode 0,
    OPC ''fcvt.s.wu'' ''F'' ''D,s,m'' (c_uint MATCH_FCVT_S_WU) (c_uint MASK_FCVT_S_WU) Match_opcode 0,
    OPC ''fclass.s'' ''F'' ''d,S'' (c_uint MATCH_FCLASS_S) (c_uint MASK_FCLASS_S) Match_opcode 0,
    OPC ''feq.s'' ''F'' ''d,S,T'' (c_uint MATCH_FEQ_S) (c_uint MASK_FEQ_S) Match_opcode 0,
    OPC ''flt.s'' ''F'' ''d,S,T'' (c_uint MATCH_FLT_S) (c_uint MASK_FLT_S) Match_opcode 0,
    OPC ''fle.s'' ''F'' ''d,S,T'' (c_uint MATCH_FLE_S) (c_uint MASK_FLE_S) Match_opcode 0,
    OPC ''fgt.s'' ''F'' ''d,T,S'' (c_uint MATCH_FLT_S) (c_uint MASK_FLT_S) Match_opcode 0,
    OPC ''fge.s'' ''F'' ''d,T,S'' (c_uint MATCH_FLE_S) (c_uint MASK_FLE_S) Match_opcode 0,
    OPC ''fcvt.l.s'' ''64F'' ''d,S'' (c_uint (MATCH_FCVT_L_S OR MASK_RM)) (c_uint (MASK_FCVT_L_S OR MASK_RM)) Match_opcode 0,
    OPC ''fcvt.l.s'' ''64F'' ''d,S,m'' (c_uint MATCH_FCVT_L_S) (c_uint MASK_FCVT_L_S) Match_opcode 0,
    OPC ''fcvt.lu.s'' ''64F'' ''d,S'' (c_uint (MATCH_FCVT_LU_S OR MASK_RM)) (c_uint (MASK_FCVT_LU_S OR MASK_RM)) Match_opcode 0,
    OPC ''fcvt.lu.s'' ''64F'' ''d,S,m'' (c_uint MATCH_FCVT_LU_S) (c_uint MASK_FCVT_LU_S) Match_opcode 0,
    OPC ''fcvt.s.l'' ''64F'' ''D,s'' (c_uint (MATCH_FCVT_S_L OR MASK_RM)) (c_uint (MASK_FCVT_S_L OR MASK_RM)) Match_opcode 0,
    OPC ''fcvt.s.l'' ''64F'' ''D,s,m'' (c_uint MATCH_FCVT_S_L) (c_uint MASK_FCVT_S_L) Match_opcode 0,
    OPC ''fcvt.s.lu'' ''64F'' ''D,s'' (c_uint (MATCH_FCVT_S_LU OR MASK_RM)) (c_uint (MASK_FCVT_S_L OR MASK_RM)) Match_opcode 0,
    OPC ''fcvt.s.lu'' ''64F'' ''D,s,m'' (c_uint MATCH_FCVT_S_LU) (c_uint MASK_FCVT_S_LU) Match_opcode 0]"

text \<open>Double-precision floating point.\<close>

definition riscv_opcodes_d :: "riscv_opcode list" where
  "riscv_opcodes_d = [
    OPC ''fld'' ''C'' ''D,Cn(Cc)'' (c_int MATCH_C_FLDSP) (c_int MASK_C_FLDSP) Match_opcode INSN_ALIAS,
    OPC ''fld'' ''C'' ''CD,Cl(Cs)'' (c_int MATCH_C_FLD) (c_int MASK_C_FLD) Match_opcode INSN_ALIAS,
    OPC ''fld'' ''D'' ''D,o(s)'' (c_int MATCH_FLD) (c_int MASK_FLD) Match_opcode 0,
    OPC ''fld'' ''D'' ''D,A,s'' 0 M_FLD Match_never INSN_MACRO,
    OPC ''fsd'' ''C'' ''CT,CN(Cc)'' (c_int MATCH_C_FSDSP) (c_int MASK_C_FSDSP) Match_opcode INSN_ALIAS,
    OPC ''fsd'' ''C'' ''CD,Cl(Cs)'' (c_int MATCH_C_FSD) (c_int MASK_C_FSD) Match_opcode INSN_ALIAS,
    OPC ''fsd'' ''D'' ''T,q(s)'' (c_int MATCH_FSD) (c_int MASK_FSD) Match_opcode 0,
    OPC ''fsd'' ''D'' ''T,A,s'' 0 M_FSD Match_never INSN_MACRO,
    OPC ''fmv.d'' ''D'' ''D,U'' (c_int MATCH_FSGNJ_D) (c_uint MASK_FSGNJ_D) Match_rs1_eq_rs2 INSN_ALIAS,
    OPC ''fneg.d'' ''D'' ''D,U'' (c_int MATCH_FSGNJN_D) (c_uint MASK_FSGNJN_D) Match_rs1_eq_rs2 INSN_ALIAS,
    OPC ''fabs.d'' ''D'' ''D,U'' (c_int MATCH_FSGNJX_D) (c_uint MASK_FSGNJX_D) Match_rs1_eq_rs2 INSN_ALIAS,
    OPC ''fsgnj.d'' ''D'' ''D,S,T'' (c_int MATCH_FSGNJ_D) (c_uint MASK_FSGNJ_D) Match_opcode 0,
    OPC ''fsgnjn.d'' ''D'' ''D,S,T'' (c_int MATCH_FSGNJN_D) (c_uint MASK_FSGNJN_D) Match_opcode 0,
    OPC ''fsgnjx.d'' ''D'' ''D,S,T'' (c_int MATCH_FSGNJX_D) (c_uint MASK_FSGNJX_D) Match_opcode 0,
    OPC ''fadd.d'' ''D'' ''D,S,T'' (c_int (MATCH_FADD_D OR MASK_RM)) (c_uint (MASK_FADD_D OR MASK_RM)) Match_opcode 0,
    OPC ''fadd.d'' ''D'' ''D,S,T,m'' (c_int MATCH_FADD_D) (c_uint MASK_FADD_D) Match_opcode 0,
    OPC ''fsub.d'' ''D'' ''D,S,T'' (c_int (MATCH_FSUB_D OR MASK_RM)) (c_uint (MASK_FSUB_D OR MASK_RM)) Match_opcode 0,
    OPC ''fsub.d'' ''D'' ''D,S,T,m'' (c_int MATCH_FSUB_D) (c_uint MASK_FSUB_D) Match_opcode 0,
    OPC ''fmul.d'' ''D'' ''D,S,T'' (c_int (MATCH_FMUL_D OR MASK_RM)) (c_uint (MASK_FMUL_D OR MASK_RM)) Match_opcode 0,
    OPC ''fmul.d'' ''D'' ''D,S,T,m'' (c_int MATCH_FMUL_D) (c_uint MASK_FMUL_D) Match_opcode 0,
    OPC ''fdiv.d'' ''D'' ''D,S,T'' (c_int (MATCH_FDIV_D OR MASK_RM)) (c_uint (MASK_FDIV_D OR MASK_RM)) Match_opcode 0,
    OPC ''fdiv.d'' ''D'' ''D,S,T,m'' (c_int MATCH_FDIV_D) (c_uint MASK_FDIV_D) Match_opcode 0,
    OPC ''fsqrt.d'' ''D'' ''D,S'' (c_int (MATCH_FSQRT_D OR MASK_RM)) (c_uint (MASK_FSQRT_D OR MASK_RM)) Match_opcode 0,
    OPC ''fsqrt.d'' ''D'' ''D,S,m'' (c_int MATCH_FSQRT_D) (c_uint MASK_FSQRT_D) Match_opcode 0,
    OPC ''fmin.d'' ''D'' ''D,S,T'' (c_int MATCH_FMIN_D) (c_uint MASK_FMIN_D) Match_opcode 0,
    OPC ''fmax.d'' ''D'' ''D,S,T'' (c_int MATCH_FMAX_D) (c_uint MASK_FMAX_D) Match_opcode 0,
    OPC ''fmadd.d'' ''D'' ''D,S,T,R'' (c_int (MATCH_FMADD_D OR MASK_RM)) (c_int (MASK_FMADD_D OR MASK_RM)) Match_opcode 0,
    OPC ''fmadd.d'' ''D'' ''D,S,T,R,m'' (c_int MATCH_FMADD_D) (c_int MASK_FMADD_D) Match_opcode 0,
    OPC ''fnmadd.d'' ''D'' ''D,S,T,R'' (c_int (MATCH_FNMADD_D OR MASK_RM)) (c_int (MASK_FNMADD_D OR MASK_RM)) Match_opcode 0,
    OPC ''fnmadd.d'' ''D'' ''D,S,T,R,m'' (c_int MATCH_FNMADD_D) (c_int MASK_FNMADD_D) Match_opcode 0,
    OPC ''fmsub.d'' ''D'' ''D,S,T,R'' (c_int (MATCH_FMSUB_D OR MASK_RM)) (c_int (MASK_FMSUB_D OR MASK_RM)) Match_opcode 0,
    OPC ''fmsub.d'' ''D'' ''D,S,T,R,m'' (c_int MATCH_FMSUB_D) (c_int MASK_FMSUB_D) Match_opcode 0,
    OPC ''fnmsub.d'' ''D'' ''D,S,T,R'' (c_int (MATCH_FNMSUB_D OR MASK_RM)) (c_int (MASK_FNMSUB_D OR MASK_RM)) Match_opcode 0,
    OPC ''fnmsub.d'' ''D'' ''D,S,T,R,m'' (c_int MATCH_FNMSUB_D) (c_int MASK_FNMSUB_D) Match_opcode 0,
    OPC ''fcvt.w.d'' ''D'' ''d,S'' (c_uint (MATCH_FCVT_W_D OR MASK_RM)) (c_uint (MASK_FCVT_W_D OR MASK_RM)) Match_opcode 0,
    OPC ''fcvt.w.d'' ''D'' ''d,S,m'' (c_uint MATCH_FCVT_W_D) (c_uint MASK_FCVT_W_D) Match_opcode 0,
    OPC ''fcvt.wu.d'' ''D'' ''d,S'' (c_uint (MATCH_FCVT_WU_D OR MASK_RM)) (c_uint (MASK_FCVT_WU_D OR MASK_RM)) Match_opcode 0,
    OPC ''fcvt.wu.d'' ''D'' ''d,S,m'' (c_uint MATCH_FCVT_WU_D) (c_uint MASK_FCVT_WU_D) Match_opcode 0,
    OPC ''fcvt.d.w'' ''D'' ''D,s'' (c_uint MATCH_FCVT_D_W) (c_uint (MASK_FCVT_D_W OR MASK_RM)) Match_opcode 0,
    OPC ''fcvt.d.wu'' ''D'' ''D,s'' (c_uint MATCH_FCVT_D_WU) (c_uint (MASK_FCVT_D_WU OR MASK_RM)) Match_opcode 0,
    OPC ''fcvt.d.s'' ''D'' ''D,S'' (c_int MATCH_FCVT_D_S) (c_uint (MASK_FCVT_D_S OR MASK_RM)) Match_opcode 0,
    OPC ''fcvt.s.d'' ''D'' ''D,S'' (c_int (MATCH_FCVT_S_D OR MASK_RM)) (c_uint (MASK_FCVT_S_D OR MASK_RM)) Match_opcode 0,
    OPC ''fcvt.s.d'' ''D'' ''D,S,m'' (c_int MATCH_FCVT_S_D) (c_uint MASK_FCVT_S_D) Match_opcode 0,
    OPC ''fclass.d'' ''D'' ''d,S'' (c_uint MATCH_FCLASS_D) (c_uint MASK_FCLASS_D) Match_opcode 0,
    OPC ''feq.d'' ''D'' ''d,S,T'' (c_uint MATCH_FEQ_D) (c_uint MASK_FEQ_D) Match_opcode 0,
    OPC ''flt.d'' ''D'' ''d,S,T'' (c_uint MATCH_FLT_D) (c_uint MASK_FLT_D) Match_opcode 0,
    OPC ''fle.d'' ''D'' ''d,S,T'' (c_uint MATCH_FLE_D) (c_uint MASK_FLE_D) Match_opcode 0,
    OPC ''fgt.d'' ''D'' ''d,T,S'' (c_uint MATCH_FLT_D) (c_uint MASK_FLT_D) Match_opcode 0,
    OPC ''fge.d'' ''D'' ''d,T,S'' (c_uint MATCH_FLE_D) (c_uint MASK_FLE_D) Match_opcode 0,
    OPC ''fmv.x.d'' ''64D'' ''d,S'' (c_uint MATCH_FMV_X_D) (c_uint MASK_FMV_X_D) Match_opcode 0,
    OPC ''fmv.d.x'' ''64D'' ''D,s'' (c_uint MATCH_FMV_D_X) (c_uint MASK_FMV_D_X) Match_opcode 0,
    OPC ''fcvt.l.d'' ''64D'' ''d,S'' (c_uint (MATCH_FCVT_L_D OR MASK_RM)) (c_uint (MASK_FCVT_L_D OR MASK_RM)) Match_opcode 0,
    OPC ''fcvt.l.d'' ''64D'' ''d,S,m'' (c_uint MATCH_FCVT_L_D) (c_uint MASK_FCVT_L_D) Match_opcode 0,
    OPC ''fcvt.lu.d'' ''64D'' ''d,S'' (c_uint (MATCH_FCVT_LU_D OR MASK_RM)) (c_uint (MASK_FCVT_LU_D OR MASK_RM)) Match_opcode 0,
    OPC ''fcvt.lu.d'' ''64D'' ''d,S,m'' (c_uint MATCH_FCVT_LU_D) (c_uint MASK_FCVT_LU_D) Match_opcode 0,
    OPC ''fcvt.d.l'' ''64D'' ''D,s'' (c_uint (MATCH_FCVT_D_L OR MASK_RM)) (c_uint (MASK_FCVT_D_L OR MASK_RM)) Match_opcode 0,
    OPC ''fcvt.d.l'' ''64D'' ''D,s,m'' (c_uint MATCH_FCVT_D_L) (c_uint MASK_FCVT_D_L) Match_opcode 0,
    OPC ''fcvt.d.lu'' ''64D'' ''D,s'' (c_uint (MATCH_FCVT_D_LU OR MASK_RM)) (c_uint (MASK_FCVT_D_L OR MASK_RM)) Match_opcode 0,
    OPC ''fcvt.d.lu'' ''64D'' ''D,s,m'' (c_uint MATCH_FCVT_D_LU) (c_uint MASK_FCVT_D_LU) Match_opcode 0]"

text \<open>Quad-precision floating point.\<close>

definition riscv_opcodes_q :: "riscv_opcode list" where
  "riscv_opcodes_q = [
    OPC ''flq'' ''Q'' ''D,o(s)'' (c_int MATCH_FLQ) (c_int MASK_FLQ) Match_opcode 0,
    OPC ''flq'' ''Q'' ''D,A,s'' 0 M_FLQ Match_never INSN_MACRO,
    OPC ''fsq'' ''Q'' ''T,q(s)'' (c_int MATCH_FSQ) (c_int MASK_FSQ) Match_opcode 0,
    OPC ''fsq'' ''Q'' ''T,A,s'' 0 M_FSQ Match_never INSN_MACRO,
    OPC ''fmv.q'' ''Q'' ''D,U'' (c_int MATCH_FSGNJ_Q) (c_uint MASK_FSGNJ_Q) Match_rs1_eq_rs2 INSN_ALIAS,
    OPC ''fneg.q'' ''Q'' ''D,U'' (c_int MATCH_FSGNJN_Q) (c_uint MASK_FSGNJN_Q) Match_rs1_eq_rs2 INSN_ALIAS,
    OPC ''fabs.q'' ''Q'' ''D,U'' (c_int MATCH_FSGNJX_Q) (c_uint MASK_FSGNJX_Q) Match_rs1_eq_rs2 INSN_ALIAS,
    OPC ''fsgnj.q'' ''Q'' ''D,S,T'' (c_int MATCH_FSGNJ_Q) (c_uint MASK_FSGNJ_Q) Match_opcode 0,
    OPC ''fsgnjn.q'' ''Q'' ''D,S,T'' (c_int MATCH_FSGNJN_Q) (c_uint MASK_FSGNJN_Q) Match_opcode 0,
    OPC ''fsgnjx.q'' ''Q'' ''D,S,T'' (c_int MATCH_FSGNJX_Q) (c_uint MASK_FSGNJX_Q) Match_opcode 0,
    OPC ''fadd.q'' ''Q'' ''D,S,T'' (c_int (MATCH_FADD_Q OR MASK_RM)) (c_uint (MASK_FADD_Q OR MASK_RM)) Match_opcode 0,
    OPC ''fadd.q'' ''Q'' ''D,S,T,m'' (c_int MATCH_FADD_Q) (c_uint MASK_FADD_Q) Match_opcode 0,
    OPC ''fsub.q'' ''Q'' ''D,S,T'' (c_int (MATCH_FSUB_Q OR MASK_RM)) (c_uint (MASK_FSUB_Q OR MASK_RM)) Match_opcode 0,
    OPC ''fsub.q'' ''Q'' ''D,S,T,m'' (c_int MATCH_FSUB_Q) (c_uint MASK_FSUB_Q) Match_opcode 0,
    OPC ''fmul.q'' ''Q'' ''D,S,T'' (c_int (MATCH_FMUL_Q OR MASK_RM)) (c_uint (MASK_FMUL_Q OR MASK_RM)) Match_opcode 0,
    OPC ''fmul.q'' ''Q'' ''D,S,T,m'' (c_int MATCH_FMUL_Q) (c_uint MASK_FMUL_Q) Match_opcode 0,
    OPC ''fdiv.q'' ''Q'' ''D,S,T'' (c_int (MATCH_FDIV_Q OR MASK_RM)) (c_uint (MASK_FDIV_Q OR MASK_RM)) Match_opcode 0,
    OPC ''fdiv.q'' ''Q'' ''D,S,T,m'' (c_int MATCH_FDIV_Q) (c_uint MASK_FDIV_Q) Match_opcode 0,
    OPC ''fsqrt.q'' ''Q'' ''D,S'' (c_int (MATCH_FSQRT_Q OR MASK_RM)) (c_uint (MASK_FSQRT_Q OR MASK_RM)) Match_opcode 0,
    OPC ''fsqrt.q'' ''Q'' ''D,S,m'' (c_int MATCH_FSQRT_Q) (c_uint MASK_FSQRT_Q) Match_opcode 0,
    OPC ''fmin.q'' ''Q'' ''D,S,T'' (c_int MATCH_FMIN_Q) (c_uint MASK_FMIN_Q) Match_opcode 0,
    OPC ''fmax.q'' ''Q'' ''D,S,T'' (c_int MATCH_FMAX_Q) (c_uint MASK_FMAX_Q) Match_opcode 0,
    OPC ''fmadd.q'' ''Q'' ''D,S,T,R'' (c_int (MATCH_FMADD_Q OR MASK_RM)) (c_int (MASK_FMADD_Q OR MASK_RM)) Match_opcode 0,
    OPC ''fmadd.q'' ''Q'' ''D,S,T,R,m'' (c_int MATCH_FMADD_Q) (c_int MASK_FMADD_Q) Match_opcode 0,
    OPC ''fnmadd.q'' ''Q'' ''D,S,T,R'' (c_int (MATCH_FNMADD_Q OR MASK_RM)) (c_int (MASK_FNMADD_Q OR MASK_RM)) Match_opcode 0,
    OPC ''fnmadd.q'' ''Q'' ''D,S,T,R,m'' (c_int MATCH_FNMADD_Q) (c_int MASK_FNMADD_Q) Match_opcode 0,
    OPC ''fmsub.q'' ''Q'' ''D,S,T,R'' (c_int (MATCH_FMSUB_Q OR MASK_RM)) (c_int (MASK_FMSUB_Q OR MASK_RM)) Match_opcode 0,
    OPC ''fmsub.q'' ''Q'' ''D,S,T,R,m'' (c_int MATCH_FMSUB_Q) (c_int MASK_FMSUB_Q) Match_opcode 0,
    OPC ''fnmsub.q'' ''Q'' ''D,S,T,R'' (c_int (MATCH_FNMSUB_Q OR MASK_RM)) (c_int (MASK_FNMSUB_Q OR MASK_RM)) Match_opcode 0,
    OPC ''fnmsub.q'' ''Q'' ''D,S,T,R,m'' (c_int MATCH_FNMSUB_Q) (c_int MASK_FNMSUB_Q) Match_opcode 0,
    OPC ''fcvt.w.q'' ''Q'' ''d,S'' (c_uint (MATCH_FCVT_W_Q OR MASK_RM)) (c_uint (MASK_FCVT_W_Q OR MASK_RM)) Match_opcode 0,
    OPC ''fcvt.w.q'' ''Q'' ''d,S,m'' (c_uint MATCH_FCVT_W_Q) (c_uint MASK_FCVT_W_Q) Match_opcode 0,
    OPC ''fcvt.wu.q'' ''Q'' ''d,S'' (c_uint (MATCH_FCVT_WU_Q OR MASK_RM)) (c_uint (MASK_FCVT_WU_Q OR MASK_RM)) Match_opcode 0,
    OPC ''fcvt.wu.q'' ''Q'' ''d,S,m'' (c_uint MATCH_FCVT_WU_Q) (c_uint MASK_FCVT_WU_Q) Match_opcode 0,
    OPC ''fcvt.q.w'' ''Q'' ''D,s'' (c_uint MATCH_FCVT_Q_W) (c_uint (MASK_FCVT_Q_W OR MASK_RM)) Match_opcode 0,
    OPC ''fcvt.q.wu'' ''Q'' ''D,s'' (c_uint MATCH_FCVT_Q_WU) (c_uint (MASK_FCVT_Q_WU OR MASK_RM)) Match_opcode 0,
    OPC ''fcvt.q.s'' ''Q'' ''D,S'' (c_int MATCH_FCVT_Q_S) (c_uint (MASK_FCVT_Q_S OR MASK_RM)) Match_opcode 0,
    OPC ''fcvt.q.d'' ''Q'' ''D,S'' (c_int MATCH_FCVT_Q_D) (c_uint (MASK_FCVT_Q_D OR MASK_RM)) Match_opcode 0,
    OPC ''fcvt.s.q'' ''Q'' ''D,S'' (c_int (MATCH_FCVT_S_Q OR MASK_RM)) (c_uint (MASK_FCVT_S_Q OR MASK_RM)) Match_opcode 0,
    OPC ''fcvt.s.q'' ''Q'' ''D,S,m'' (c_int MATCH_FCVT_S_Q) (c_uint MASK_FCVT_S_Q) Match_opcode 0,
    OPC ''fcvt.d.q'' ''Q'' ''D,S'' (c_int (MATCH_FCVT_D_Q OR MASK_RM)) (c_uint (MASK_FCVT_D_Q OR MASK_RM)) Match_opcode 0,
    OPC ''fcvt.d.q'' ''Q'' ''D,S,m'' (c_int MATCH_FCVT_D_Q) (c_uint MASK_FCVT_D_Q) Match_opcode 0,
    OPC ''fclass.q'' ''Q'' ''d,S'' (c_uint MATCH_FCLASS_Q) (c_uint MASK_FCLASS_Q) Match_opcode 0,
    OPC ''feq.q'' ''Q'' ''d,S,T'' (c_uint MATCH_FEQ_Q) (c_uint MASK_FEQ_Q) Match_opcode 0,
    OPC ''flt.q'' ''Q'' ''d,S,T'' (c_uint MATCH_FLT_Q) (c_uint MASK_FLT_Q) Match_opcode 0,
    OPC ''fle.q'' ''Q'' ''d,S,T'' (c_uint MATCH_FLE_Q) (c_uint MASK_FLE_Q) Match_opcode 0,
    OPC ''fgt.q'' ''Q'' ''d,T,S'' (c_uint MATCH_FLT_Q) (c_uint MASK_FLT_Q) Match_opcode 0,
    OPC ''fge.q'' ''Q'' ''d,T,S'' (c_uint MATCH_FLE_Q) (c_uint MASK_FLE_Q) Match_opcode 0,
    OPC ''fmv.x.q'' ''64Q'' ''d,S'' (c_uint MATCH_FMV_X_Q) (c_uint MASK_FMV_X_Q) Match_opcode 0,
    OPC ''fmv.q.x'' ''64Q'' ''D,s'' (c_uint MATCH_FMV_Q_X) (c_uint MASK_FMV_Q_X) Match_opcode 0,
    OPC ''fcvt.l.q'' ''64Q'' ''d,S'' (c_uint (MATCH_FCVT_L_Q OR MASK_RM)) (c_uint (MASK_FCVT_L_Q OR MASK_RM)) Match_opcode 0,
    OPC ''fcvt.l.q'' ''64Q'' ''d,S,m'' (c_uint MATCH_FCVT_L_Q) (c_uint MASK_FCVT_L_Q) Match_opcode 0,
    OPC ''fcvt.lu.q'' ''64Q'' ''d,S'' (c_uint (MATCH_FCVT_LU_Q OR MASK_RM)) (c_uint (MASK_FCVT_LU_Q OR MASK_RM)) Match_opcode 0,
    OPC ''fcvt.lu.q'' ''64Q'' ''d,S,m'' (c_uint MATCH_FCVT_LU_Q) (c_uint MASK_FCVT_LU_Q) Match_opcode 0,
    OPC ''fcvt.q.l'' ''64Q'' ''D,s'' (c_uint (MATCH_FCVT_Q_L OR MASK_RM)) (c_uint (MASK_FCVT_Q_L OR MASK_RM)) Match_opcode 0,
    OPC ''fcvt.q.l'' ''64Q'' ''D,s,m'' (c_uint MATCH_FCVT_Q_L) (c_uint MASK_FCVT_Q_L) Match_opcode 0,
    OPC ''fcvt.q.lu'' ''64Q'' ''D,s'' (c_uint (MATCH_FCVT_Q_LU OR MASK_RM)) (c_uint (MASK_FCVT_Q_L OR MASK_RM)) Match_opcode 0,
    OPC ''fcvt.q.lu'' ''64Q'' ''D,s,m'' (c_uint MATCH_FCVT_Q_LU) (c_uint MASK_FCVT_Q_LU) Match_opcode 0]"

text \<open>Compressed instructions by their own names.\<close>

definition riscv_opcodes_c :: "riscv_opcode list" where
  "riscv_opcodes_c = [
    OPC ''c.ebreak'' ''C'' '''' (c_int MATCH_C_EBREAK) (c_int MASK_C_EBREAK) Match_opcode 0,
    OPC ''c.jr'' ''C'' ''d'' (c_int MATCH_C_JR) (c_int MASK_C_JR) Match_rd_nonzero 0,
    OPC ''c.jalr'' ''C'' ''d'' (c_int MATCH_C_JALR) (c_int MASK_C_JALR) Match_rd_nonzero 0,
    OPC ''c.j'' ''C'' ''Ca'' (c_int MATCH_C_J) (c_int MASK_C_J) Match_opcode 0,
    OPC ''c.jal'' ''32C'' ''Ca'' (c_int MATCH_C_JAL) (c_int MASK_C_JAL) Match_opcode 0,
    OPC ''c.beqz'' ''C'' ''Cs,Cp'' (c_int MATCH_C_BEQZ) (c_int MASK_C_BEQZ) Match_opcode 0,
    OPC ''c.bnez'' ''C'' ''Cs,Cp'' (c_int MATCH_C_BNEZ) (c_int MASK_C_BNEZ) Match_opcode 0,
    OPC ''c.lwsp'' ''C'' ''d,Cm(Cc)'' (c_int MATCH_C_LWSP) (c_int MASK_C_LWSP) Match_rd_nonzero 0,
    OPC ''c.lw'' ''C'' ''Ct,Ck(Cs)'' (c_int MATCH_C_LW) (c_int MASK_C_LW) Match_opcode 0,
    OPC ''c.swsp'' ''C'' ''CV,CM(Cc)'' (c_int MATCH_C_SWSP) (c_int MASK_C_SWSP) Match_opcode 0,
    OPC ''c.sw'' ''C'' ''Ct,Ck(Cs)'' (c_int MATCH_C_SW) (c_int MASK_C_SW) Match_opcode 0,
    OPC ''c.nop'' ''C'' '''' (c_int MATCH_C_ADDI) (c_int 0xffff) Match_opcode INSN_ALIAS,
    OPC ''c.nop'' ''C'' ''Cj'' (c_int MATCH_C_ADDI) (c_int (MASK_C_ADDI OR MASK_RD)) Match_opcode INSN_ALIAS,
    OPC ''c.mv'' ''C'' ''d,CV'' (c_int MATCH_C_MV) (c_int MASK_C_MV) Match_c_add_with_hint 0,
    OPC ''c.lui'' ''C'' ''d,Cu'' (c_int MATCH_C_LUI) (c_int MASK_C_LUI) Match_c_lui_with_hint 0,
    OPC ''c.li'' ''C'' ''d,Co'' (c_int MATCH_C_LI) (c_int MASK_C_LI) Match_opcode 0,
    OPC ''c.addi4spn'' ''C'' ''Ct,Cc,CK'' (c_int MATCH_C_ADDI4SPN) (c_int MASK_C_ADDI4SPN) Match_c_addi4spn 0,
    OPC ''c.addi16sp'' ''C'' ''Cc,CL'' (c_int MATCH_C_ADDI16SP) (c_int MASK_C_ADDI16SP) Match_c_addi16sp 0,
    OPC ''c.addi'' ''C'' ''d,Co'' (c_int MATCH_C_ADDI) (c_int MASK_C_ADDI) Match_opcode 0,
    OPC ''c.add'' ''C'' ''d,CV'' (c_int MATCH_C_ADD) (c_int MASK_C_ADD) Match_c_add_with_hint 0,
    OPC ''c.sub'' ''C'' ''Cs,Ct'' (c_int MATCH_C_SUB) (c_int MASK_C_SUB) Match_opcode 0,
    OPC ''c.and'' ''C'' ''Cs,Ct'' (c_int MATCH_C_AND) (c_int MASK_C_AND) Match_opcode 0,
    OPC ''c.or'' ''C'' ''Cs,Ct'' (c_int MATCH_C_OR) (c_int MASK_C_OR) Match_opcode 0,
    OPC ''c.xor'' ''C'' ''Cs,Ct'' (c_int MATCH_C_XOR) (c_int MASK_C_XOR) Match_opcode 0,
    OPC ''c.slli'' ''C'' ''d,C>'' (c_int MATCH_C_SLLI) (c_int MASK_C_SLLI) Match_c_slli 0,
    OPC ''c.srli'' ''C'' ''Cs,C>'' (c_int MATCH_C_SRLI) (c_int MASK_C_SRLI) Match_c_slli 0,
    OPC ''c.srai'' ''C'' ''Cs,C>'' (c_int MATCH_C_SRAI) (c_int MASK_C_SRAI) Match_c_slli 0,
    OPC ''c.slli64'' ''C'' ''d'' (c_int MATCH_C_SLLI64) (c_int MASK_C_SLLI64) Match_c_slli64 0,
    OPC ''c.srli64'' ''C'' ''Cs'' (c_int MATCH_C_SRLI64) (c_int MASK_C_SRLI64) Match_c_slli64 0,
    OPC ''c.srai64'' ''C'' ''Cs'' (c_int MATCH_C_SRAI64) (c_int MASK_C_SRAI64) Match_c_slli64 0,
    OPC ''c.andi'' ''C'' ''Cs,Co'' (c_int MATCH_C_ANDI) (c_int MASK_C_ANDI) Match_opcode 0,
    OPC ''c.addiw'' ''64C'' ''d,Co'' (c_int MATCH_C_ADDIW) (c_int MASK_C_ADDIW) Match_rd_nonzero 0,
    OPC ''c.addw'' ''64C'' ''Cs,Ct'' (c_int MATCH_C_ADDW) (c_int MASK_C_ADDW) Match_opcode 0,
    OPC ''c.subw'' ''64C'' ''Cs,Ct'' (c_int MATCH_C_SUBW) (c_int MASK_C_SUBW) Match_opcode 0,
    OPC ''c.ldsp'' ''64C'' ''d,Cn(Cc)'' (c_int MATCH_C_LDSP) (c_int MASK_C_LDSP) Match_rd_nonzero 0,
    OPC ''c.ld'' ''64C'' ''Ct,Cl(Cs)'' (c_int MATCH_C_LD) (c_int MASK_C_LD) Match_opcode 0,
    OPC ''c.sdsp'' ''64C'' ''CV,CN(Cc)'' (c_int MATCH_C_SDSP) (c_int MASK_C_SDSP) Match_opcode 0,
    OPC ''c.sd'' ''64C'' ''Ct,Cl(Cs)'' (c_int MATCH_C_SD) (c_int MASK_C_SD) Match_opcode 0,
    OPC ''c.fldsp'' ''C'' ''D,Cn(Cc)'' (c_int MATCH_C_FLDSP) (c_int MASK_C_FLDSP) Match_opcode 0,
    OPC ''c.fld'' ''C'' ''CD,Cl(Cs)'' (c_int MATCH_C_FLD) (c_int MASK_C_FLD) Match_opcode 0,
    OPC ''c.fsdsp'' ''C'' ''CT,CN(Cc)'' (c_int MATCH_C_FSDSP) (c_int MASK_C_FSDSP) Match_opcode 0,
    OPC ''c.fsd'' ''C'' ''CD,Cl(Cs)'' (c_int MATCH_C_FSD) (c_int MASK_C_FSD) Match_opcode 0,
    OPC ''c.flwsp'' ''32C'' ''D,Cm(Cc)'' (c_int MATCH_C_FLWSP) (c_int MASK_C_FLWSP) Match_opcode 0,
    OPC ''c.flw'' ''32C'' ''CD,Ck(Cs)'' (c_int MATCH_C_FLW) (c_int MASK_C_FLW) Match_opcode 0,
    OPC ''c.fswsp'' ''32C'' ''CT,CM(Cc)'' (c_int MATCH_C_FSWSP) (c_int MASK_C_FSWSP) Match_opcode 0,
    OPC ''c.fsw'' ''32C'' ''CD,Ck(Cs)'' (c_int MATCH_C_FSW) (c_int MASK_C_FSW) Match_opcode 0]"

text \<open>Supervisor instructions.\<close>

definition riscv_opcodes_s :: "riscv_opcode list" where
  "riscv_opcodes_s = [
    OPC ''csrr'' ''I'' ''d,E'' (c_int MATCH_CSRRS) (c_int (MASK_CSRRS OR MASK_RS1)) Match_opcode INSN_ALIAS,
    OPC ''csrwi'' ''I'' ''E,Z'' (c_int MATCH_CSRRWI) (c_int (MASK_CSRRWI OR MASK_RD)) Match_opcode INSN_ALIAS,
    OPC ''csrsi'' ''I'' ''E,Z'' (c_int MATCH_CSRRSI) (c_int (MASK_CSRRSI OR MASK_RD)) Match_opcode INSN_ALIAS,
    OPC ''csrci'' ''I'' ''E,Z'' (c_int MATCH_CSRRCI) (c_int (MASK_CSRRCI OR MASK_RD)) Match_opcode INSN_ALIAS,
    OPC ''csrw'' ''I'' ''E,s'' (c_int MATCH_CSRRW) (c_int (MASK_CSRRW OR MASK_RD)) Match_opcode INSN_ALIAS,
    OPC ''csrw'' ''I'' ''E,Z'' (c_int MATCH_CSRRWI) (c_int (MASK_CSRRWI OR MASK_RD)) Match_opcode INSN_ALIAS,
    OPC ''csrs'' ''I'' ''E,s'' (c_int MATCH_CSRRS) (c_int (MASK_CSRRS OR MASK_RD)) Match_opcode INSN_ALIAS,
    OPC ''csrs'' ''I'' ''E,Z'' (c_int MATCH_CSRRSI) (c_int (MASK_CSRRSI OR MASK_RD)) Match_opcode INSN_ALIAS,
    OPC ''csrc'' ''I'' ''E,s'' (c_int MATCH_CSRRC) (c_int (MASK_CSRRC OR MASK_RD)) Match_opcode INSN_ALIAS,
    OPC ''csrc'' ''I'' ''E,Z'' (c_int MATCH_CSRRCI) (c_int (MASK_CSRRCI OR MASK_RD)) Match_opcode INSN_ALIAS,
    OPC ''csrrwi'' ''I'' ''d,E,Z'' (c_int MATCH_CSRRWI) (c_int MASK_CSRRWI) Match_opcode 0,
    OPC ''csrrsi'' ''I'' ''d,E,Z'' (c_int MATCH_CSRRSI) (c_int MASK_CSRRSI) Match_opcode 0,
    OPC ''csrrci'' ''I'' ''d,E,Z'' (c_int MATCH_CSRRCI) (c_int MASK_CSRRCI) Match_opcode 0,
    OPC ''csrrw'' ''I'' ''d,E,s'' (c_int MATCH_CSRRW) (c_int MASK_CSRRW) Match_opcode 0,
    OPC ''csrrw'' ''I'' ''d,E,Z'' (c_int MATCH_CSRRWI) (c_int MASK_CSRRWI) Match_opcode INSN_ALIAS,
    OPC ''csrrs'' ''I'' ''d,E,s'' (c_int MATCH_CSRRS) (c_int MASK_CSRRS) Match_opcode 0,
    OPC ''csrrs'' ''I'' ''d,E,Z'' (c_int MATCH_CSRRSI) (c_int MASK_CSRRSI) Match_opcode INSN_ALIAS,
    OPC ''csrrc'' ''I'' ''d,E,s'' (c_int MATCH_CSRRC) (c_int MASK_CSRRC) Match_opcode 0,
    OPC ''csrrc'' ''I'' ''d,E,Z'' (c_int MATCH_CSRRCI) (c_int MASK_CSRRCI) Match_opcode INSN_ALIAS,
    OPC ''uret'' ''I'' '''' (c_int MATCH_URET) (c_uint MASK_URET) Match_opcode 0,
    OPC ''sret'' ''I'' '''' (c_int MATCH_SRET) (c_uint MASK_SRET) Match_opcode 0,
    OPC ''hret'' ''I'' '''' (c_int MATCH_HRET) (c_uint MASK_HRET) Match_opcode 0,
    OPC ''mret'' ''I'' '''' (c_int MATCH_MRET) (c_uint MASK_MRET) Match_opcode 0,
    OPC ''dret'' ''I'' '''' (c_int MATCH_DRET) (c_uint MASK_DRET) Match_opcode 0,
    OPC ''sfence.vm'' ''I'' '''' (c_int MATCH_SFENCE_VM) (c_uint (MASK_SFENCE_VM OR MASK_RS1)) Match_opcode 0,
    OPC ''sfence.vm'' ''I'' ''s'' (c_int MATCH_SFENCE_VM) (c_uint MASK_SFENCE_VM) Match_opcode 0,
    OPC ''sfence.vma'' ''I'' '''' (c_int MATCH_SFENCE_VMA) (c_uint (MASK_SFENCE_VMA OR MASK_RS1 OR MASK_RS2)) Match_opcode INSN_ALIAS,
    OPC ''sfence.vma'' ''I'' ''s'' (c_int MATCH_SFENCE_VMA) (c_uint (MASK_SFENCE_VMA OR MASK_RS2)) Match_opcode INSN_ALIAS,
    OPC ''sfence.vma'' ''I'' ''s,t'' (c_int MATCH_SFENCE_VMA) (c_uint MASK_SFENCE_VMA) Match_opcode 0,
    OPC ''wfi'' ''I'' '''' (c_int MATCH_WFI) (c_uint MASK_WFI) Match_opcode 0]"

definition riscv_opcodes :: "riscv_opcode list" where
  "riscv_opcodes = riscv_opcodes_base @ riscv_opcodes_base_mem @ riscv_opcodes_a @
     riscv_opcodes_m @ riscv_opcodes_f @ riscv_opcodes_d @ riscv_opcodes_q @ riscv_opcodes_c @
     riscv_opcodes_s"

lemmas riscv_opcodes_sections = riscv_opcodes_base_def riscv_opcodes_base_mem_def
  riscv_opcodes_a_def riscv_opcodes_m_def riscv_opcodes_f_def riscv_opcodes_d_def
  riscv_opcodes_q_def riscv_opcodes_c_def riscv_opcodes_s_def

subsection \<open>The formats of the .insn directive\<close>

definition riscv_insn_types :: "riscv_opcode list" where
  "riscv_insn_types = [
    OPC ''r'' ''I'' ''O4,F3,F7,d,s,t'' 0 0 Match_opcode 0,
    OPC ''r'' ''I'' ''O4,F3,F7,D,s,t'' 0 0 Match_opcode 0,
    OPC ''r'' ''I'' ''O4,F3,F7,d,S,t'' 0 0 Match_opcode 0,
    OPC ''r'' ''I'' ''O4,F3,F7,D,S,t'' 0 0 Match_opcode 0,
    OPC ''r'' ''I'' ''O4,F3,F7,d,s,T'' 0 0 Match_opcode 0,
    OPC ''r'' ''I'' ''O4,F3,F7,D,s,T'' 0 0 Match_opcode 0,
    OPC ''r'' ''I'' ''O4,F3,F7,d,S,T'' 0 0 Match_opcode 0,
    OPC ''r'' ''I'' ''O4,F3,F7,D,S,T'' 0 0 Match_opcode 0,
    OPC ''r'' ''I'' ''O4,F3,F2,d,s,t,r'' 0 0 Match_opcode 0,
    OPC ''r'' ''I'' ''O4,F3,F2,D,s,t,r'' 0 0 Match_opcode 0,
    OPC ''r'' ''I'' ''O4,F3,F2,d,S,t,r'' 0 0 Match_opcode 0,
    OPC ''r'' ''I'' ''O4,F3,F2,D,S,t,r'' 0 0 Match_opcode 0,
    OPC ''r'' ''I'' ''O4,F3,F2,d,s,T,r'' 0 0 Match_opcode 0,
    OPC ''r'' ''I'' ''O4,F3,F2,D,s,T,r'' 0 0 Match_opcode 0,
    OPC ''r'' ''I'' ''O4,F3,F2,d,S,T,r'' 0 0 Match_opcode 0,
    OPC ''r'' ''I'' ''O4,F3,F2,D,S,T,r'' 0 0 Match_opcode 0,
    OPC ''r'' ''I'' ''O4,F3,F2,d,s,t,R'' 0 0 Match_opcode 0,
    OPC ''r'' ''I'' ''O4,F3,F2,D,s,t,R'' 0 0 Match_opcode 0,
    OPC ''r'' ''I'' ''O4,F3,F2,d,S,t,R'' 0 0 Match_opcode 0,
    OPC ''r'' ''I'' ''O4,F3,F2,D,S,t,R'' 0 0 Match_opcode 0,
    OPC ''r'' ''I'' ''O4,F3,F2,d,s,T,R'' 0 0 Match_opcode 0,
    OPC ''r'' ''I'' ''O4,F3,F2,D,s,T,R'' 0 0 Match_opcode 0,
    OPC ''r'' ''I'' ''O4,F3,F2,d,S,T,R'' 0 0 Match_opcode 0,
    OPC ''r'' ''I'' ''O4,F3,F2,D,S,T,R'' 0 0 Match_opcode 0,
    OPC ''i'' ''I'' ''O4,F3,d,s,j'' 0 0 Match_opcode 0,
    OPC ''i'' ''I'' ''O4,F3,D,s,j'' 0 0 Match_opcode 0,
    OPC ''i'' ''I'' ''O4,F3,d,S,j'' 0 0 Match_opcode 0,
    OPC ''i'' ''I'' ''O4,F3,D,S,j'' 0 0 Match_opcode 0,
    OPC ''i'' ''I'' ''O4,F3,d,o(s)'' 0 0 Match_opcode 0,
    OPC ''i'' ''I'' ''O4,F3,D,o(s)'' 0 0 Match_opcode 0,
    OPC ''s'' ''I'' ''O4,F3,d,o(s)'' 0 0 Match_opcode 0,
    OPC ''s'' ''I'' ''O4,F3,D,o(s)'' 0 0 Match_opcode 0,
    OPC ''sb'' ''I'' ''O4,F3,s,t,p'' 0 0 Match_opcode 0,
    OPC ''sb'' ''I'' ''O4,F3,S,t,p'' 0 0 Match_opcode 0,
    OPC ''sb'' ''I'' ''O4,F3,s,T,p'' 0 0 Match_opcode 0,
    OPC ''sb'' ''I'' ''O4,F3,S,T,p'' 0 0 Match_opcode 0,
    OPC ''sb'' ''I'' ''O4,F3,t,q(s)'' 0 0 Match_opcode 0,
    OPC ''sb'' ''I'' ''O4,F3,T,q(s)'' 0 0 Match_opcode 0,
    OPC ''u'' ''I'' ''O4,d,u'' 0 0 Match_opcode 0,
    OPC ''u'' ''I'' ''O4,D,u'' 0 0 Match_opcode 0,
    OPC ''uj'' ''I'' ''O4,d,a'' 0 0 Match_opcode 0,
    OPC ''uj'' ''I'' ''O4,D,a'' 0 0 Match_opcode 0,
    OPC ''cr'' ''C'' ''O2,CF4,d,CV'' 0 0 Match_opcode 0,
    OPC ''cr'' ''C'' ''O2,CF4,D,CV'' 0 0 Match_opcode 0,
    OPC ''cr'' ''C'' ''O2,CF4,d,CT'' 0 0 Match_opcode 0,
    OPC ''cr'' ''C'' ''O2,CF4,D,CT'' 0 0 Match_opcode 0,
    OPC ''ci'' ''C'' ''O2,CF3,d,Co'' 0 0 Match_opcode 0,
    OPC ''ci'' ''C'' ''O2,CF3,D,Co'' 0 0 Match_opcode 0,
    OPC ''ciw'' ''C'' ''O2,CF3,Ct,C8'' 0 0 Match_opcode 0,
    OPC ''ciw'' ''C'' ''O2,CF3,CD,C8'' 0 0 Match_opcode 0,
    OPC ''cb'' ''C'' ''O2,CF3,Cs,Cp'' 0 0 Match_opcode 0,
    OPC ''cb'' ''C'' ''O2,CF3,CS,Cp'' 0 0 Match_opcode 0,
    OPC ''cj'' ''C'' ''O2,CF3,Ca'' 0 0 Match_opcode 0]"

end
