(* ===== verification/GasHash.thy ===== *)
theory GasHash
  imports Prelude
begin

text \<open>
  The assembler's hash table, from \<open>gas/hash.c\<close>: an array of chains searched with
  move-to-front. A chain (the \<open>next\<close> pointers) is a list, the array a function from
  slot numbers, and a call that reorders or extends the table returns the new one. Keys are
  NUL-free, as C strings are. The locale \<open>string_table\<close> is what the rest of the
  assembler relies on; the tables of \<open>hash.c\<close> are proved to be an instance.
\<close>

subsection \<open>State\<close>

record 'a hash_entry =
  he_string :: string
  he_hash :: u32
  he_data :: 'a

record 'a hash_control =
  ht_table :: "nat \<Rightarrow> 'a hash_entry list"
  ht_size :: u32

subsection \<open>Operations\<close>

text \<open>\<open>c = key[n]\<close> widens a (signed) \<open>char\<close> to \<open>unsigned int\<close>.\<close>

definition char_to_uint :: "char \<Rightarrow> u32" where
  "char_to_uint c = scast (of_char c :: byte)"

fun hash_chars :: "string \<Rightarrow> u32 \<Rightarrow> u32" where
  "hash_chars [] hash = hash"
| "hash_chars (k # key) hash =
     (let c = char_to_uint k; hash = hash + (c + shl c 17)
      in hash_chars key (hash XOR shr hash 2))"

definition hash_code :: "string \<Rightarrow> u32" where
  "hash_code key =
     (let len = word_of_nat (length key); hash = hash_chars key 0 + (len + shl len 17)
      in hash XOR shr hash 2)"

definition hash_new_sized :: "u32 \<Rightarrow> 'a hash_control" where
  "hash_new_sized sz = \<lparr>ht_table = (\<lambda>_. []), ht_size = sz\<rparr>"

definition gas_hash_table_size :: u32 where "gas_hash_table_size = 65537"

definition hash_new :: "'a hash_control" where
  "hash_new = hash_new_sized gas_hash_table_size"

definition hash_slot :: "'a hash_control \<Rightarrow> u32 \<Rightarrow> nat" where
  "hash_slot t hash = unat (hash mod ht_size t)"

text \<open>
  The loop of \<open>hash_lookup\<close> over one chain; \<open>pre\<close> holds the entries already
  passed, the last one first. A match behind the head is moved to the front.
\<close>

fun chain_search :: "u32 \<Rightarrow> string \<Rightarrow> 'a hash_entry list \<Rightarrow> 'a hash_entry list \<Rightarrow>
    ('a hash_entry \<times> 'a hash_entry list) option" where
  "chain_search hash key pre [] = None"
| "chain_search hash key pre (p # ps) =
     (if he_hash p = hash \<and> he_string p = key then Some (p, p # rev pre @ ps)
      else chain_search hash key (p # pre) ps)"

definition hash_lookup ::
  "'a hash_control \<Rightarrow> string \<Rightarrow> nat \<Rightarrow> 'a hash_entry option \<times> 'a hash_control \<times> nat \<times> u32" where
  "hash_lookup t key len =
     (let key = take len key; hash = hash_code key; slot = hash_slot t hash
      in case chain_search hash key [] (ht_table t slot) of
           None \<Rightarrow> (None, t, slot, hash)
         | Some (p, chain) \<Rightarrow> (Some p, t\<lparr>ht_table := (ht_table t)(slot := chain)\<rparr>, slot, hash))"

definition push_entry :: "'a hash_control \<Rightarrow> nat \<Rightarrow> 'a hash_entry \<Rightarrow> 'a hash_control" where
  "push_entry t slot p = t\<lparr>ht_table := (ht_table t)(slot := p # ht_table t slot)\<rparr>"

text \<open>\<open>p->data = val\<close> for the entry a lookup has just moved to the front.\<close>

definition set_front_data :: "'a hash_control \<Rightarrow> nat \<Rightarrow> 'a \<Rightarrow> 'a hash_control" where
  "set_front_data t slot val =
     t\<lparr>ht_table := (ht_table t)(slot := (case ht_table t slot of [] \<Rightarrow> []
        | p # ps \<Rightarrow> p\<lparr>he_data := val\<rparr> # ps))\<rparr>"

definition hash_insert :: "'a hash_control \<Rightarrow> string \<Rightarrow> 'a \<Rightarrow> string option \<times> 'a hash_control" where
  "hash_insert t key val =
     (case hash_lookup t key (length key) of
        (Some p, t', slot, hash) \<Rightarrow> (Some ''exists'', t')
      | (None, t', slot, hash) \<Rightarrow>
          (None, push_entry t' slot \<lparr>he_string = key, he_hash = hash, he_data = val\<rparr>))"

definition hash_jam :: "'a hash_control \<Rightarrow> string \<Rightarrow> 'a \<Rightarrow> string option \<times> 'a hash_control" where
  "hash_jam t key val =
     (case hash_lookup t key (length key) of
        (Some p, t', slot, hash) \<Rightarrow> (None, set_front_data t' slot val)
      | (None, t', slot, hash) \<Rightarrow>
          (None, push_entry t' slot \<lparr>he_string = key, he_hash = hash, he_data = val\<rparr>))"

definition hash_replace :: "'a hash_control \<Rightarrow> string \<Rightarrow> 'a \<Rightarrow> 'a option \<times> 'a hash_control" where
  "hash_replace t key val =
     (case hash_lookup t key (length key) of
        (None, t', slot, hash) \<Rightarrow> (None, t')
      | (Some p, t', slot, hash) \<Rightarrow> (Some (he_data p), set_front_data t' slot val))"

definition hash_find :: "'a hash_control \<Rightarrow> string \<Rightarrow> 'a option \<times> 'a hash_control" where
  "hash_find t key =
     (case hash_lookup t key (length key) of (p, t', slot, hash) \<Rightarrow> (map_option he_data p, t'))"

definition hash_find_n :: "'a hash_control \<Rightarrow> string \<Rightarrow> nat \<Rightarrow> 'a option \<times> 'a hash_control" where
  "hash_find_n t key len =
     (case hash_lookup t key len of (p, t', slot, hash) \<Rightarrow> (map_option he_data p, t'))"

text \<open>\<open>hash_delete\<close> calls \<open>abort\<close> (\<open>Inl ()\<close>) if the entry is not at the front.\<close>

definition hash_delete :: "'a hash_control \<Rightarrow> string \<Rightarrow> unit + 'a option \<times> 'a hash_control" where
  "hash_delete t key =
     (case hash_lookup t key (length key) of
        (None, t', slot, hash) \<Rightarrow> Inr (None, t')
      | (Some p, t', slot, hash) \<Rightarrow>
          (case ht_table t' slot of
             [] \<Rightarrow> Inl ()
           | q # qs \<Rightarrow>
               if p \<noteq> q then Inl ()
               else Inr (Some (he_data p), t'\<lparr>ht_table := (ht_table t')(slot := qs)\<rparr>)))"

definition hash_traverse :: "'a hash_control \<Rightarrow> (string \<Rightarrow> 'a \<Rightarrow> 's \<Rightarrow> 's) \<Rightarrow> 's \<Rightarrow> 's" where
  "hash_traverse t pfn = fold (\<lambda>i. fold (\<lambda>p. pfn (he_string p) (he_data p)) (ht_table t i))
     [0..<unat (ht_size t)]"

subsection \<open>Invariant and abstraction\<close>

definition chain_ok :: "u32 \<Rightarrow> nat \<Rightarrow> 'a hash_entry list \<Rightarrow> bool" where
  "chain_ok sz slot ps \<longleftrightarrow> distinct (map he_string ps) \<and>
     (\<forall>p \<in> set ps. he_hash p = hash_code (he_string p) \<and> unat (hash_code (he_string p) mod sz) = slot)"

definition hash_inv :: "'a hash_control \<Rightarrow> bool" where
  "hash_inv t \<longleftrightarrow> ht_size t \<noteq> 0 \<and> (\<forall>slot. chain_ok (ht_size t) slot (ht_table t slot))"

definition chain_map :: "'a hash_entry list \<Rightarrow> string \<Rightarrow> 'a option" where
  "chain_map ps = map_of (map (\<lambda>p. (he_string p, he_data p)) ps)"

definition hash_abs :: "'a hash_control \<Rightarrow> string \<Rightarrow> 'a option" where
  "hash_abs t key = chain_map (ht_table t (hash_slot t (hash_code key))) key"

lemma chain_map_simps [simp]:
  "chain_map [] key = None"
  "chain_map (p # ps) key = (if he_string p = key then Some (he_data p) else chain_map ps key)"
  by (auto simp: chain_map_def)

lemma chain_map_append:
  "chain_map (ps @ qs) key = (case chain_map ps key of None \<Rightarrow> chain_map qs key | Some v \<Rightarrow> Some v)"
  by (auto simp: chain_map_def map_add_def split: option.splits)

lemma chain_map_None: "chain_map ps key = None \<longleftrightarrow> key \<notin> he_string ` set ps"
  by (induction ps) auto

text \<open>A search of a well-formed chain finds exactly what the chain's map holds.\<close>

lemma chain_search_None:
  assumes "\<forall>p \<in> set ps. he_hash p = hash_code (he_string p)"
  shows "chain_search (hash_code key) key pre ps = None \<longleftrightarrow> chain_map ps key = None"
  using assms by (induction ps arbitrary: pre) auto

lemma chain_search_Some:
  assumes "chain_search hash key pre ps = Some (p, chain)"
  shows "\<exists>xs ys. ps = xs @ p # ys \<and> chain = p # rev pre @ xs @ ys \<and> he_string p = key"
  using assms
proof (induction ps arbitrary: pre)
  case (Cons q qs)
  show ?case
  proof (cases "he_hash q = hash \<and> he_string q = key")
    case True
    with Cons.prems show ?thesis by (intro exI [of _ "[]"] exI [of _ qs]) auto
  next
    case False
    with Cons.prems have "chain_search hash key (q # pre) qs = Some (p, chain)" by auto
    from Cons.IH [OF this] obtain xs ys where "qs = xs @ p # ys"
      "chain = p # rev (q # pre) @ xs @ ys" "he_string p = key" by blast
    then show ?thesis by (intro exI [of _ "q # xs"] exI [of _ ys]) auto
  qed
qed simp

lemma chain_ok_reorder:
  assumes "chain_ok sz slot (xs @ p # ys)"
  shows "chain_ok sz slot (p # xs @ ys)" and "chain_map (p # xs @ ys) = chain_map (xs @ p # ys)"
proof -
  from assms show "chain_ok sz slot (p # xs @ ys)" unfolding chain_ok_def by auto
  from assms have "chain_map xs (he_string p) = None"
    unfolding chain_map_None by (auto simp: chain_ok_def)
  then show "chain_map (p # xs @ ys) = chain_map (xs @ p # ys)"
    by (auto simp: chain_map_append fun_eq_iff split: option.splits)
qed

lemma hash_inv_chain: "hash_inv t \<Longrightarrow> chain_ok (ht_size t) slot (ht_table t slot)"
  by (simp add: hash_inv_def)

text \<open>
  Replacing one chain of a well-formed table by a well-formed chain keeps the invariant,
  and changes the abstract map on the keys of that slot only.
\<close>

lemma hash_inv_update:
  assumes "hash_inv t" and "chain_ok (ht_size t) slot ps"
  shows "hash_inv (t\<lparr>ht_table := (ht_table t)(slot := ps)\<rparr>)"
  using assms by (simp add: hash_inv_def)

lemma hash_abs_update:
  "hash_abs (t\<lparr>ht_table := (ht_table t)(slot := ps)\<rparr>) key =
     (if hash_slot t (hash_code key) = slot then chain_map ps key else hash_abs t key)"
  by (simp add: hash_abs_def hash_slot_def)

text \<open>
  The contract of a lookup: it answers from the abstract map, keeps the invariant and the
  map, and leaves a found entry at the front of its chain.
\<close>

lemma hash_lookup_spec:
  assumes inv: "hash_inv t" and lk: "hash_lookup t key (length key) = (res, t', slot, hash)"
  shows "hash = hash_code key" and "slot = hash_slot t hash" and "ht_size t' = ht_size t"
    and "hash_inv t'" and "hash_abs t' = hash_abs t" and "map_option he_data res = hash_abs t key"
    and "res = Some p \<Longrightarrow> he_string p = key \<and> (\<exists>ps. ht_table t' slot = p # ps)"
    and "res = None \<Longrightarrow> t' = t"
proof -
  show h: "hash = hash_code key" and s: "slot = hash_slot t hash"
    using lk by (auto simp: hash_lookup_def Let_def split: option.splits)
  let ?ps = "ht_table t slot"
  have ok: "chain_ok (ht_size t) slot ?ps" by (rule hash_inv_chain [OF inv])
  then have hashes: "\<forall>q \<in> set ?ps. he_hash q = hash_code (he_string q)" by (simp add: chain_ok_def)
  have main: "ht_size t' = ht_size t \<and> hash_inv t' \<and> hash_abs t' = hash_abs t \<and>
    map_option he_data res = hash_abs t key \<and>
    (res = Some p \<longrightarrow> he_string p = key \<and> (\<exists>ps. ht_table t' slot = p # ps)) \<and>
    (res = None \<longrightarrow> t' = t)" for p
  proof (cases "chain_search hash key [] ?ps")
    case None
    with lk h s have r: "res = None" "t' = t" by (auto simp: hash_lookup_def Let_def)
    from None h hashes have "chain_map ?ps key = None" by (simp add: chain_search_None)
    with r inv h s show ?thesis by (simp add: hash_abs_def)
  next
    case (Some qc)
    obtain q chain where qc: "qc = (q, chain)" by (cases qc)
    with Some lk h s have r: "res = Some q" "t' = t\<lparr>ht_table := (ht_table t)(slot := chain)\<rparr>"
      by (auto simp: hash_lookup_def Let_def)
    from chain_search_Some [OF Some [unfolded qc]] obtain xs ys where
      c: "?ps = xs @ q # ys" "chain = q # xs @ ys" "he_string q = key" by auto
    note re = chain_ok_reorder [OF ok [unfolded c(1)]]
    have "chain_map chain = chain_map ?ps" using re(2) c by simp
    then have "hash_abs t' = hash_abs t" using r s h by (auto simp: fun_eq_iff hash_abs_update) (simp add: hash_abs_def)
    moreover have "hash_abs t key = Some (he_data q)"
      using c s h re(2) by (simp add: hash_abs_def flip: re(2))
    ultimately show ?thesis
      using r c re(1) inv by (auto intro: hash_inv_update)
  qed
  then show "ht_size t' = ht_size t" "hash_inv t'" "hash_abs t' = hash_abs t"
    "map_option he_data res = hash_abs t key"
    "res = Some p \<Longrightarrow> he_string p = key \<and> (\<exists>ps. ht_table t' slot = p # ps)"
    "res = None \<Longrightarrow> t' = t"
    by blast+
qed

lemma hash_new_sized_inv: "sz \<noteq> 0 \<Longrightarrow> hash_inv (hash_new_sized sz)"
  by (simp add: hash_inv_def hash_new_sized_def chain_ok_def)

lemma hash_new_inv: "hash_inv hash_new"
  by (simp add: hash_new_def gas_hash_table_size_def hash_new_sized_inv)

lemma hash_new_abs: "hash_abs hash_new = Map.empty"
  by (simp add: fun_eq_iff hash_abs_def hash_new_def hash_new_sized_def)

text \<open>Adding a new entry, and overwriting the entry at the front.\<close>

lemma push_entry_spec:
  assumes inv: "hash_inv t" and new: "hash_abs t (he_string p) = None"
    and h: "he_hash p = hash_code (he_string p)" and s: "slot = hash_slot t (he_hash p)"
  shows "hash_inv (push_entry t slot p)"
    and "hash_abs (push_entry t slot p) = (hash_abs t)(he_string p \<mapsto> he_data p)"
proof -
  have "he_string p \<notin> he_string ` set (ht_table t slot)"
    using new h s by (simp add: hash_abs_def chain_map_None)
  then have "chain_ok (ht_size t) slot (p # ht_table t slot)"
    using hash_inv_chain [OF inv, of slot] h s by (simp add: chain_ok_def hash_slot_def)
  with inv show "hash_inv (push_entry t slot p)"
    by (simp add: push_entry_def hash_inv_update)
  show "hash_abs (push_entry t slot p) = (hash_abs t)(he_string p \<mapsto> he_data p)"
    using h s by (auto simp: push_entry_def hash_abs_update fun_eq_iff)
      (simp add: hash_abs_def)
qed

lemma set_front_data_spec:
  assumes inv: "hash_inv t" and front: "ht_table t slot = p # ps" and key: "he_string p = key"
    and s: "slot = hash_slot t (hash_code key)"
  shows "hash_inv (set_front_data t slot val)"
    and "hash_abs (set_front_data t slot val) = (hash_abs t)(key \<mapsto> val)"
proof -
  have "chain_ok (ht_size t) slot (p\<lparr>he_data := val\<rparr> # ps)"
    using hash_inv_chain [OF inv, of slot] front by (simp add: chain_ok_def)
  with inv front show "hash_inv (set_front_data t slot val)"
    by (simp add: set_front_data_def hash_inv_update)
  show "hash_abs (set_front_data t slot val) = (hash_abs t)(key \<mapsto> val)"
    using key s front by (auto simp: set_front_data_def hash_abs_update fun_eq_iff)
      (simp add: hash_abs_def)
qed


subsection \<open>The interface\<close>

text \<open>
  What a client of the table relies on: a private invariant, the abstract map, and how each
  operation acts on it. The lemmas below are the client's: filling a table from a list of
  names succeeds exactly if the names are fresh and distinct, and then every name is found.
\<close>

locale string_table =
  fixes insert :: "'t \<Rightarrow> string \<Rightarrow> 'v \<Rightarrow> string option \<times> 't"
    and find :: "'t \<Rightarrow> string \<Rightarrow> 'v option \<times> 't"
    and inv :: "'t \<Rightarrow> bool" and abs :: "'t \<Rightarrow> string \<Rightarrow> 'v option"
  assumes insert_inv: "inv t \<Longrightarrow> inv (snd (insert t key val))"
    and insert_result: "inv t \<Longrightarrow> fst (insert t key val) = None \<longleftrightarrow> abs t key = None"
    and insert_abs: "inv t \<Longrightarrow> abs (snd (insert t key val)) =
      (case abs t key of None \<Rightarrow> (abs t)(key \<mapsto> val) | Some _ \<Rightarrow> abs t)"
    and find_inv: "inv t \<Longrightarrow> inv (snd (find t key))"
    and find_result: "inv t \<Longrightarrow> fst (find t key) = abs t key"
    and find_abs: "inv t \<Longrightarrow> abs (snd (find t key)) = abs t"
begin

text \<open>A value is found after its insertion, and a lookup does not disturb the next.\<close>

lemma find_after_insert:
  "inv t \<Longrightarrow> abs t key = None \<Longrightarrow> fst (find (snd (insert t key val)) k) =
    (if k = key then Some val else abs t k)"
  by (simp add: find_result insert_inv insert_abs)

lemma find_twice: "inv t \<Longrightarrow> fst (find (snd (find t k)) key) = fst (find t key)"
  by (simp add: find_result find_inv find_abs)

text \<open>Inserting the pairs of a list one by one, giving up at the first failure.\<close>

fun insert_all :: "(string \<times> 'v) list \<Rightarrow> 't \<Rightarrow> string + 't" where
  "insert_all [] t = Inr t"
| "insert_all ((k, v) # kvs) t =
     (case insert t k v of (Some e, t') \<Rightarrow> Inl k | (None, t') \<Rightarrow> insert_all kvs t')"

lemma insert_all_ok:
  assumes "inv t" and "distinct (map fst kvs)" and "\<forall>k \<in> set (map fst kvs). abs t k = None"
  shows "\<exists>t'. insert_all kvs t = Inr t' \<and> inv t' \<and> abs t' = abs t ++ map_of kvs"
  using assms
proof (induction kvs arbitrary: t)
  case (Cons kv kvs)
  obtain k v where kv: "kv = (k, v)" by (cases kv)
  obtain r t1 where ins: "insert t k v = (r, t1)" by (cases "insert t k v")
  have fresh: "abs t k = None" using Cons.prems kv by simp
  have r: "r = None" using insert_result [OF Cons.prems(1), of k v] fresh ins by simp
  have t1: "inv t1" "abs t1 = (abs t)(k \<mapsto> v)"
    using insert_inv [OF Cons.prems(1), of k v] insert_abs [OF Cons.prems(1), of k v] fresh ins
    by simp_all
  have "\<forall>k' \<in> set (map fst kvs). abs t1 k' = None"
    using Cons.prems kv t1(2) by (auto simp: rev_image_eqI)
  then obtain t' where t': "insert_all kvs t1 = Inr t'" "inv t'" "abs t' = abs t1 ++ map_of kvs"
    using Cons.IH [OF t1(1)] Cons.prems(2) kv by auto
  have "(abs t)(k \<mapsto> v) ++ map_of kvs = abs t ++ map_of (kv # kvs)"
    using Cons.prems(2) kv by (simp add: dom_map_of_conv_image_fst map_add_upd_left)
  with t' t1(2) have "abs t' = abs t ++ map_of (kv # kvs)" by simp
  moreover have "insert_all (kv # kvs) t = Inr t'" using kv ins r t'(1) by simp
  ultimately show ?case using t'(2) by blast
qed simp

lemma insert_all_inv: "inv t \<Longrightarrow> insert_all kvs t = Inr t' \<Longrightarrow> inv t'"
proof (induction kvs arbitrary: t)
  case (Cons kv kvs)
  then show ?case
    using insert_inv [OF Cons.prems(1), of "fst kv" "snd kv"]
    by (cases kv) (auto split: option.splits prod.splits)
qed simp

end

lemma hash_insert_cases:
  assumes inv: "hash_inv t"
  shows "hash_inv (snd (hash_insert t key val))"
    and "fst (hash_insert t key val) = (if hash_abs t key = None then None else Some ''exists'')"
    and "hash_abs (snd (hash_insert t key val)) =
      (case hash_abs t key of None \<Rightarrow> (hash_abs t)(key \<mapsto> val) | Some _ \<Rightarrow> hash_abs t)"
proof -
  obtain res t' slot hash where lk: "hash_lookup t key (length key) = (res, t', slot, hash)"
    by (metis prod_cases4)
  note spec = hash_lookup_spec [OF inv lk]
  let ?p = "\<lparr>he_string = key, he_hash = hash, he_data = val\<rparr>"
  have *: "hash_inv (snd (hash_insert t key val)) \<and>
    fst (hash_insert t key val) = (if hash_abs t key = None then None else Some ''exists'') \<and>
    hash_abs (snd (hash_insert t key val)) =
      (case hash_abs t key of None \<Rightarrow> (hash_abs t)(key \<mapsto> val) | Some _ \<Rightarrow> hash_abs t)"
  proof (cases res)
    case None
    with spec(6) have new: "hash_abs t (he_string ?p) = None" by simp
    have "t' = t" using spec(8) None by simp
    with push_entry_spec [OF inv new] spec(1,2) None new lk show ?thesis
      by (simp add: hash_insert_def)
  next
    case (Some p)
    with spec(6) have "hash_abs t key = Some (he_data p)" by simp
    with Some spec(4,5) lk show ?thesis by (simp add: hash_insert_def)
  qed
  from * show "hash_inv (snd (hash_insert t key val))"
    "fst (hash_insert t key val) = (if hash_abs t key = None then None else Some ''exists'')"
    "hash_abs (snd (hash_insert t key val)) =
      (case hash_abs t key of None \<Rightarrow> (hash_abs t)(key \<mapsto> val) | Some _ \<Rightarrow> hash_abs t)"
    by blast+
qed

lemma hash_find_cases:
  assumes inv: "hash_inv t"
  shows "hash_inv (snd (hash_find t key))" and "fst (hash_find t key) = hash_abs t key"
    and "hash_abs (snd (hash_find t key)) = hash_abs t"
proof -
  obtain res t' slot hash where lk: "hash_lookup t key (length key) = (res, t', slot, hash)"
    by (metis prod_cases4)
  note spec = hash_lookup_spec [OF inv lk]
  show "hash_inv (snd (hash_find t key))" "fst (hash_find t key) = hash_abs t key"
    "hash_abs (snd (hash_find t key)) = hash_abs t"
    using spec(4-6) lk by (simp_all add: hash_find_def)
qed

interpretation gas_table: string_table hash_insert hash_find hash_inv hash_abs
  by unfold_locales (simp_all add: hash_insert_cases hash_find_cases)

lemma hash_jam_spec:
  assumes inv: "hash_inv t"
  shows "hash_inv (snd (hash_jam t key val)) \<and> fst (hash_jam t key val) = None \<and>
    hash_abs (snd (hash_jam t key val)) = (hash_abs t)(key \<mapsto> val)"
proof -
  obtain res t' slot hash where lk: "hash_lookup t key (length key) = (res, t', slot, hash)"
    by (metis prod_cases4)
  note spec = hash_lookup_spec [OF inv lk]
  let ?p = "\<lparr>he_string = key, he_hash = hash, he_data = val\<rparr>"
  show ?thesis
  proof (cases res)
    case None
    with spec(6) have new: "hash_abs t (he_string ?p) = None" by simp
    have "t' = t" using spec(8) None by simp
    with push_entry_spec [OF inv new] spec(1,2) None lk show ?thesis by (simp add: hash_jam_def)
  next
    case (Some p)
    from spec(7) [OF Some] obtain ps where front: "ht_table t' slot = p # ps" "he_string p = key"
      by blast
    have "slot = hash_slot t' (hash_code key)" using spec(1-3) by (simp add: hash_slot_def)
    with set_front_data_spec [OF spec(4) front] spec(5) Some lk show ?thesis
      by (simp add: hash_jam_def)
  qed
qed

lemma hash_delete_spec:
  assumes inv: "hash_inv t"
  shows "\<exists>t'. hash_delete t key = Inr (hash_abs t key, t') \<and> hash_inv t' \<and>
    hash_abs t' = (hash_abs t)(key := None)"
proof -
  obtain res t' slot hash where lk: "hash_lookup t key (length key) = (res, t', slot, hash)"
    by (metis prod_cases4)
  note spec = hash_lookup_spec [OF inv lk]
  show ?thesis
  proof (cases res)
    case None
    with spec(6,8) lk inv show ?thesis by (auto simp: hash_delete_def fun_eq_iff)
  next
    case (Some p)
    from spec(7) [OF Some] obtain ps where front: "ht_table t' slot = p # ps" "he_string p = key"
      by blast
    have slot: "slot = hash_slot t' (hash_code key)" using spec(1-3) by (simp add: hash_slot_def)
    have ok: "chain_ok (ht_size t') slot (p # ps)"
      using hash_inv_chain [OF spec(4), of slot] front by simp
    then have "chain_ok (ht_size t') slot ps" and "chain_map ps key = None"
      using front(2) by (auto simp: chain_ok_def chain_map_None)
    then have "hash_inv (t'\<lparr>ht_table := (ht_table t')(slot := ps)\<rparr>)"
      and "hash_abs (t'\<lparr>ht_table := (ht_table t')(slot := ps)\<rparr>) = (hash_abs t')(key := None)"
      using spec(4) slot front
      by (auto simp: hash_inv_update hash_abs_update fun_eq_iff) (simp add: hash_abs_def)
    with Some lk front spec(5,6) show ?thesis by (simp add: hash_delete_def)
  qed
qed

end
