(* ===== verification/GasDiag.thy ===== *)
theory GasDiag
  imports Prelude
begin

text \<open>
  The diagnostics of the assembler as values. \<open>as_bad\<close> records an error and lets the
  assembly go on; \<open>as_fatal\<close>, \<open>abort\<close> and a failed \<open>gas_assert\<close> end
  it. \<open>Out_of_fuel\<close> is no outcome of the program: it is what a recursion of the model gives
  whose fuel was too little. A message is the format string of the call with the arguments it prints.
\<close>

datatype msg_arg = Str string | Num u32 | Chr char

datatype diag = Diag string "msg_arg list"

datatype fatal = As_fatal diag | Abort | Assert_failed | Out_of_fuel

text \<open>A computation that may end the assembly.\<close>

type_synonym 'a res = "fatal + 'a"

text \<open>
  Sequencing of such computations: the rest runs on the value of the first, if it has one.
\<close>

definition and_then :: "'e + 'a \<Rightarrow> ('a \<Rightarrow> 'e + 'b) \<Rightarrow> 'e + 'b" where
  "and_then r f = (case r of Inl e \<Rightarrow> Inl e | Inr a \<Rightarrow> f a)"

lemma and_then_simps [simp]:
  "and_then (Inl e) f = Inl e"
  "and_then (Inr a) f = f a"
  by (simp_all add: and_then_def)

lemma and_then_Inr_iff: "and_then r f = Inr b \<longleftrightarrow> (\<exists>a. r = Inr a \<and> f a = Inr b)"
  by (cases r) auto

lemma and_then_Inl_iff: "and_then r f = Inl e \<longleftrightarrow> r = Inl e \<or> (\<exists>a. r = Inr a \<and> f a = Inl e)"
  by (cases r) auto

text \<open>A computation that has fuel enough.\<close>

definition fueled :: "'a res \<Rightarrow> bool" where
  "fueled r \<longleftrightarrow> r \<noteq> Inl Out_of_fuel"

lemma fueled_simps [simp]: "fueled (Inr a)" "fueled (Inl e) \<longleftrightarrow> e \<noteq> Out_of_fuel"
  by (simp_all add: fueled_def)

lemma fueled_and_then:
  "fueled r \<Longrightarrow> (\<And>a. r = Inr a \<Longrightarrow> fueled (f a)) \<Longrightarrow> fueled (and_then r f)"
  by (cases r) simp_all

lemma and_then_cong:
  "r = r' \<Longrightarrow> (\<And>a. r' = Inr a \<Longrightarrow> f a = f' a) \<Longrightarrow> and_then r f = and_then r' f'"
  by (cases r') simp_all

definition gas_assert :: "bool \<Rightarrow> unit res" where
  "gas_assert b = (if b then Inr () else Inl Assert_failed)"

lemma gas_assert_simps [simp]:
  "gas_assert True = Inr ()" "gas_assert False = Inl Assert_failed"
  "gas_assert b = Inr u \<longleftrightarrow> b" "fueled (gas_assert b)"
  by (simp_all add: gas_assert_def)

end
