(* ===== verification/CString.thy ===== *)
theory CString
  imports Prelude
begin

text \<open>
  The functions of the C library the assembler uses on strings. A C string is a list of
  non-NUL characters, a pointer into it the rest of the list; reading at the end yields NUL.
\<close>

definition c_char :: "string \<Rightarrow> char" where
  "c_char p = (case p of [] \<Rightarrow> CHR 0x00 | c # _ \<Rightarrow> c)"

lemma c_char_simps [simp]: "c_char [] = CHR 0x00" "c_char (c # p) = c"
  by (simp_all add: c_char_def)

text \<open>\<open>tolower\<close> and \<open>isspace\<close> in the C locale, \<open>strcasecmp\<close>, \<open>strtoul\<close> base 10.\<close>

definition tolower :: "char \<Rightarrow> char" where
  "tolower c = (let n = of_char c :: nat in if 65 \<le> n \<and> n \<le> 90 then char_of (n + 32) else c)"

definition isspace :: "char \<Rightarrow> bool" where
  "isspace c \<longleftrightarrow> c = CHR '' '' \<or> (9 \<le> (of_char c :: nat) \<and> (of_char c :: nat) \<le> 13)"

definition isdigit :: "char \<Rightarrow> bool" where
  "isdigit c \<longleftrightarrow> 48 \<le> (of_char c :: nat) \<and> (of_char c :: nat) \<le> 57"

definition strcaseeq :: "string \<Rightarrow> string \<Rightarrow> bool" where
  "strcaseeq s t \<longleftrightarrow> map tolower s = map tolower t"

definition digits_value :: "string \<Rightarrow> nat" where
  "digits_value ds = foldl (\<lambda>n c. 10 * n + (of_char c - 48)) 0 ds"

definition strtoul :: "string \<Rightarrow> u32 \<times> string" where
  "strtoul s =
     (let t = dropWhile isspace s;
          neg = (t \<noteq> [] \<and> hd t = CHR ''-'');
          u = (if t \<noteq> [] \<and> (hd t = CHR ''-'' \<or> hd t = CHR ''+'') then tl t else t);
          ds = takeWhile isdigit u; v = digits_value ds
      in if ds = [] then (0, s)
         else ((if v < 2 ^ 32 then (if neg then - word_of_nat v else word_of_nat v) else - 1),
               dropWhile isdigit u))"

text \<open>\<open>strchr\<close>: the rest of the string from the first occurrence of \<open>c\<close> on.\<close>

definition strchr :: "string \<Rightarrow> char \<Rightarrow> string option" where
  "strchr s c = (case dropWhile (\<lambda>d. d \<noteq> c) s of [] \<Rightarrow> None | t \<Rightarrow> Some t)"

subsection \<open>Evaluation on literals\<close>

lemma tolower_upper [simp]:
  "tolower CHR ''A'' = CHR ''a''"
  "tolower CHR ''B'' = CHR ''b''"
  "tolower CHR ''C'' = CHR ''c''"
  "tolower CHR ''D'' = CHR ''d''"
  "tolower CHR ''E'' = CHR ''e''"
  "tolower CHR ''F'' = CHR ''f''"
  "tolower CHR ''G'' = CHR ''g''"
  "tolower CHR ''H'' = CHR ''h''"
  "tolower CHR ''I'' = CHR ''i''"
  "tolower CHR ''J'' = CHR ''j''"
  "tolower CHR ''K'' = CHR ''k''"
  "tolower CHR ''L'' = CHR ''l''"
  "tolower CHR ''M'' = CHR ''m''"
  "tolower CHR ''N'' = CHR ''n''"
  "tolower CHR ''O'' = CHR ''o''"
  "tolower CHR ''P'' = CHR ''p''"
  "tolower CHR ''Q'' = CHR ''q''"
  "tolower CHR ''R'' = CHR ''r''"
  "tolower CHR ''S'' = CHR ''s''"
  "tolower CHR ''T'' = CHR ''t''"
  "tolower CHR ''U'' = CHR ''u''"
  "tolower CHR ''V'' = CHR ''v''"
  "tolower CHR ''W'' = CHR ''w''"
  "tolower CHR ''X'' = CHR ''x''"
  "tolower CHR ''Y'' = CHR ''y''"
  "tolower CHR ''Z'' = CHR ''z''"
  by (simp_all add: tolower_def char_of_def bit_0)

lemma tolower_fixed [simp]: "\<not> (65 \<le> (of_char c :: nat) \<and> (of_char c :: nat) \<le> 90) \<Longrightarrow> tolower c = c"
  by (auto simp: tolower_def)

lemma tolower_idem [simp]: "tolower (tolower c) = tolower c"
  by (auto simp: tolower_def Let_def)

lemma strcaseeq_refl [simp]: "strcaseeq s s"
  by (simp add: strcaseeq_def)

lemma strcaseeq_sym: "strcaseeq s t \<Longrightarrow> strcaseeq t s"
  by (simp add: strcaseeq_def)

lemma strcaseeq_trans: "strcaseeq s t \<Longrightarrow> strcaseeq t u \<Longrightarrow> strcaseeq s u"
  by (simp add: strcaseeq_def)

lemma strchr_Some: "strchr s c = Some t \<longleftrightarrow> (\<exists>pre. s = pre @ t \<and> c \<notin> set pre \<and> t \<noteq> [] \<and> hd t = c)"
proof
  assume "strchr s c = Some t"
  then have t: "t = dropWhile (\<lambda>d. d \<noteq> c) s" "t \<noteq> []" by (auto simp: strchr_def split: list.splits)
  then have "hd t = c" using hd_dropWhile [of "\<lambda>d. d \<noteq> c" s] by auto
  moreover have "s = takeWhile (\<lambda>d. d \<noteq> c) s @ t" using t(1) by simp
  ultimately show "\<exists>pre. s = pre @ t \<and> c \<notin> set pre \<and> t \<noteq> [] \<and> hd t = c"
    using t(2) by (metis (mono_tags, lifting) set_takeWhileD)
next
  assume "\<exists>pre. s = pre @ t \<and> c \<notin> set pre \<and> t \<noteq> [] \<and> hd t = c"
  then obtain pre where s: "s = pre @ t" "c \<notin> set pre" "t \<noteq> []" "hd t = c" by blast
  then have "dropWhile (\<lambda>d. d \<noteq> c) s = t"
    by (induction pre arbitrary: s) (cases t, auto)
  then show "strchr s c = Some t" using s(3) by (simp add: strchr_def split: list.splits)
qed

lemma strchr_None: "strchr s c = None \<longleftrightarrow> c \<notin> set s"
  by (induction s) (auto simp: strchr_def)

subsection \<open>Distinct names\<close>

text \<open>
  Distinctness of a long list of names is proved through a numeric key that happens to
  separate them: comparing two numerals takes a few steps, comparing two strings many.
\<close>

definition name_key :: "string \<Rightarrow> nat" where
  "name_key s = foldl (\<lambda>k c. 13 * k + of_char c) 0 s"

lemma distinct_by_key: "distinct (map name_key names) \<Longrightarrow> distinct names"
  by (simp add: distinct_map)

end
