(* ===== verification/TcValidate.thy ===== *)
theory TcValidate
  imports RiscvOpc GasHash GasDiag CString
begin

text \<open>
  The start-up check of the opcode tables, from \<open>gas/config/tc-riscv.c\<close>:
  \<open>validate_riscv_insn\<close> wants every bit of an instruction to be given by the entry's
  mask or by one of its operands, and \<open>init_opcode_hash\<close> enters the first entry of
  every mnemonic into a hash table while it validates all of them.
\<close>

subsection \<open>Validation of one entry\<close>

text \<open>\<open>used_bits |= (insn_t)(mask) << (shift)\<close> for an operand field.\<close>

abbreviation use_field :: "op_field \<Rightarrow> insn_t option" where
  "use_field f \<equiv> Some (field_bits f)"

text \<open>The \<open>case 'C'\<close> operands, without \<open>CF\<close>; \<open>-1U\<close> is a 32-bit word.\<close>

definition rvc_operand_bits :: "char \<Rightarrow> insn_t option" where
  "rvc_operand_bits c =
     (if c = CHR ''a'' then Some (c_uint (ENCODE_RVC_J_IMM (- 1)))
      else if c = CHR ''c'' then Some 0
      else if c = CHR ''i'' then Some (c_uint (ENCODE_RVC_SIMM3 (- 1)))
      else if c = CHR ''j'' then Some (c_uint (ENCODE_RVC_IMM (- 1)))
      else if c = CHR ''o'' then Some (c_uint (ENCODE_RVC_IMM (- 1)))
      else if c = CHR ''k'' then Some (c_uint (ENCODE_RVC_LW_IMM (- 1)))
      else if c = CHR ''l'' then Some (c_uint (ENCODE_RVC_LD_IMM (- 1)))
      else if c = CHR ''m'' then Some (c_uint (ENCODE_RVC_LWSP_IMM (- 1)))
      else if c = CHR ''n'' then Some (c_uint (ENCODE_RVC_LDSP_IMM (- 1)))
      else if c = CHR ''p'' then Some (c_uint (ENCODE_RVC_B_IMM (- 1)))
      else if c = CHR ''s'' then use_field F_CRS1S
      else if c = CHR ''t'' then use_field F_CRS2S
      else if c = CHR ''u'' then Some (c_uint (ENCODE_RVC_IMM (- 1)))
      else if c = CHR ''v'' then Some (c_uint (ENCODE_RVC_IMM (- 1)))
      else if c = CHR ''w'' then Some 0
      else if c = CHR ''x'' then Some 0
      else if c = CHR ''K'' then Some (c_uint (ENCODE_RVC_ADDI4SPN_IMM (- 1)))
      else if c = CHR ''L'' then Some (c_uint (ENCODE_RVC_ADDI16SP_IMM (- 1)))
      else if c = CHR ''M'' then Some (c_uint (ENCODE_RVC_SWSP_IMM (- 1)))
      else if c = CHR ''N'' then Some (c_uint (ENCODE_RVC_SDSP_IMM (- 1)))
      else if c = CHR ''U'' then Some 0
      else if c = CHR ''V'' then use_field F_CRS2
      else if c = CHR ''<'' then Some (c_uint (ENCODE_RVC_IMM (- 1)))
      else if c = CHR ''>'' then Some (c_uint (ENCODE_RVC_IMM (- 1)))
      else if c = CHR ''8'' then Some (c_uint (ENCODE_RVC_UIMM8 (- 1)))
      else if c = CHR ''S'' then use_field F_CRS1S
      else if c = CHR ''T'' then use_field F_CRS2
      else if c = CHR ''D'' then use_field F_CRS2S
      else None)"

text \<open>The operands of one letter.\<close>

definition operand_bits :: "char \<Rightarrow> insn_t option" where
  "operand_bits c =
     (if c = CHR '','' then Some 0
      else if c = CHR ''('' then Some 0
      else if c = CHR '')'' then Some 0
      else if c = CHR ''<'' then use_field F_SHAMTW
      else if c = CHR ''>'' then use_field F_SHAMT
      else if c = CHR ''A'' then Some 0
      else if c = CHR ''D'' then use_field F_RD
      else if c = CHR ''Z'' then use_field F_RS1
      else if c = CHR ''E'' then use_field F_CSR
      else if c = CHR ''I'' then Some 0
      else if c = CHR ''R'' then use_field F_RS3
      else if c = CHR ''S'' then use_field F_RS1
      else if c = CHR ''U'' then Some (field_bits F_RS1 OR field_bits F_RS2)
      else if c = CHR ''T'' then use_field F_RS2
      else if c = CHR ''d'' then use_field F_RD
      else if c = CHR ''m'' then use_field F_RM
      else if c = CHR ''s'' then use_field F_RS1
      else if c = CHR ''t'' then use_field F_RS2
      else if c = CHR ''r'' then use_field F_RS3
      else if c = CHR ''P'' then use_field F_PRED
      else if c = CHR ''Q'' then use_field F_SUCC
      else if c = CHR ''o'' \<or> c = CHR ''j'' then Some (c_uint (ENCODE_ITYPE_IMM (- 1)))
      else if c = CHR ''a'' then Some (c_uint (ENCODE_UJTYPE_IMM (- 1)))
      else if c = CHR ''p'' then Some (c_uint (ENCODE_SBTYPE_IMM (- 1)))
      else if c = CHR ''q'' then Some (c_uint (ENCODE_STYPE_IMM (- 1)))
      else if c = CHR ''u'' then Some (c_uint (ENCODE_UTYPE_IMM (- 1)))
      else if c = CHR ''z'' then Some 0
      else if c = CHR ''['' then Some 0
      else if c = CHR '']'' then Some 0
      else if c = CHR ''0'' then Some 0
      else None)"

text \<open>
  The sub-switches of \<open>CF\<close>, \<open>F\<close> and \<open>O\<close>, each with the letter its message
  prints: the one for \<open>O\<close> says \<open>F%c\<close> too.
\<close>

definition cfunct_bits :: "char \<Rightarrow> insn_t option" where
  "cfunct_bits c = (if c = CHR ''4'' then use_field F_CFUNCT4
     else if c = CHR ''3'' then use_field F_CFUNCT3 else None)"

definition funct_bits :: "char \<Rightarrow> insn_t option" where
  "funct_bits c = (if c = CHR ''7'' then use_field F_FUNCT7
     else if c = CHR ''3'' then use_field F_FUNCT3
     else if c = CHR ''2'' then use_field F_FUNCT2 else None)"

definition opcode_bits :: "char \<Rightarrow> insn_t option" where
  "opcode_bits c = (if c = CHR ''4'' then use_field F_OP
     else if c = CHR ''2'' then use_field F_OP2 else None)"

text \<open>
  The loop over the operand string; \<open>Inl\<close> is the unknown operand type as the message
  prints it. Reading \<open>*p++\<close> at the end of the string yields NUL.
\<close>

definition operand_step :: "char \<Rightarrow> string \<Rightarrow> string + insn_t \<times> string" where
  "operand_step c p =
     (let found = (\<lambda>msg bits rest. case bits of None \<Rightarrow> Inl msg | Some b \<Rightarrow> Inr (b, rest))
      in if c = CHR ''C'' then
           (if c_char p = CHR ''F''
            then found (''CF'' @ [c_char (tl p)]) (cfunct_bits (c_char (tl p))) (tl (tl p))
            else found (''C'' @ [c_char p]) (rvc_operand_bits (c_char p)) (tl p))
         else if c = CHR ''F'' then found (''F'' @ [c_char p]) (funct_bits (c_char p)) (tl p)
         else if c = CHR ''O'' then found (''F'' @ [c_char p]) (opcode_bits (c_char p)) (tl p)
         else found [c] (operand_bits c) p)"

lemma operand_step_shorter: "operand_step c p = Inr (b, rest) \<Longrightarrow> length rest \<le> length p"
  by (auto simp: operand_step_def Let_def split: if_splits option.splits)

function used_operand_bits :: "string \<Rightarrow> insn_t \<Rightarrow> string + insn_t" where
  "used_operand_bits [] used = Inr used"
| "used_operand_bits (c # p) used =
     (case operand_step c p of
        Inl msg \<Rightarrow> Inl msg
      | Inr (b, rest) \<Rightarrow> used_operand_bits rest (used OR b))"
  by pat_completeness auto
termination
  by (relation "measure (\<lambda>(p, used). length p)") (auto dest: operand_step_shorter)

text \<open>
  \<open>None\<close> is \<open>TRUE\<close>; \<open>Some\<close> is the message of \<open>as_bad\<close> before
  \<open>return FALSE\<close>. A \<open>length\<close> of 0 lets the entry's own bits decide.
\<close>

definition bad_opcode_mask :: "riscv_opcode \<Rightarrow> diag" where
  "bad_opcode_mask opc = Diag ''internal: bad RISC-V opcode (mask error): %s %s''
     [Str (op_name opc), Str (op_args opc)]"

definition bad_operand_type :: "string \<Rightarrow> riscv_opcode \<Rightarrow> diag" where
  "bad_operand_type c opc = Diag (''internal: bad RISC-V opcode (unknown operand type `'' @ c @
     CHR 0x27 # ''): %s %s'')
     [Str (op_name opc), Str (op_args opc)]"

definition bad_opcode_bits :: "insn_t \<Rightarrow> riscv_opcode \<Rightarrow> diag" where
  "bad_opcode_bits bits opc = Diag ''internal: bad RISC-V opcode (bits 0x%lx undefined): %s %s''
     [Num (NOT (ucast bits)), Str (op_name opc), Str (op_args opc)]"

definition validate_riscv_insn :: "riscv_opcode \<Rightarrow> nat \<Rightarrow> diag option" where
  "validate_riscv_insn opc len =
     (let insn_width = (if len = 0 then 8 * riscv_insn_length (op_match opc) else 8 * len);
          required_bits = shr (- 1) (64 - insn_width) :: insn_t
      in if op_mask opc AND op_match opc \<noteq> op_match opc AND required_bits
         then Some (bad_opcode_mask opc)
         else case used_operand_bits (op_args opc) (op_mask opc) of
                Inl c \<Rightarrow> Some (bad_operand_type c opc)
              | Inr used_bits \<Rightarrow>
                  if used_bits \<noteq> required_bits
                  then Some (bad_opcode_bits (used_bits AND required_bits) opc)
                  else None)"

subsection \<open>Values of the fields\<close>

lemma mask_values:
  "MASK_RS1 = 0xf8000"
  "MASK_RS2 = 0x1f00000"
  "MASK_RD = 0xf80"
  "MASK_CRS2 = 0x7c"
  "MASK_IMM = 0xfff00000"
  "MASK_RVC_IMM = 0x107c"
  "MASK_UIMM = 0xfffff000"
  "MASK_RM = 0x7000"
  "MASK_PRED = 0xf000000"
  "MASK_SUCC = 0xf00000"
  "MASK_AQ = 0x4000000"
  "MASK_RL = 0x2000000"
  "MASK_AQRL = 0x6000000"
  by (simp_all add: op_masks ENCODE_ITYPE_IMM_def ENCODE_RVC_IMM_def ENCODE_UTYPE_IMM_def c_eval
    mask_numeral)

lemma field_bits_values:
  "field_bits F_SHAMTW = 0x1f00000"
  "field_bits F_SHAMT = 0x3f00000"
  "field_bits F_RD = 0xf80"
  "field_bits F_RS1 = 0xf8000"
  "field_bits F_CSR = 0xfff00000"
  "field_bits F_RS3 = 0xf8000000"
  "field_bits F_RS2 = 0x1f00000"
  "field_bits F_RM = 0x7000"
  "field_bits F_PRED = 0xf000000"
  "field_bits F_SUCC = 0xf00000"
  "field_bits F_CRS1S = 0x380"
  "field_bits F_CRS2S = 0x1c"
  "field_bits F_CRS2 = 0x7c"
  "field_bits F_CFUNCT4 = 0xf000"
  "field_bits F_CFUNCT3 = 0xe000"
  "field_bits F_FUNCT7 = 0xfe000000"
  "field_bits F_FUNCT3 = 0x7000"
  "field_bits F_FUNCT2 = 0x6000000"
  "field_bits F_OP = 0x7f"
  "field_bits F_OP2 = 0x3"
  by (simp_all add: c_eval mask_numeral)

lemma rvc_operand_bits_values:
  "rvc_operand_bits CHR ''a'' = Some 0x1ffc"
  "rvc_operand_bits CHR ''c'' = Some 0"
  "rvc_operand_bits CHR ''i'' = Some 0x1c00"
  "rvc_operand_bits CHR ''j'' = Some 0x107c"
  "rvc_operand_bits CHR ''o'' = Some 0x107c"
  "rvc_operand_bits CHR ''k'' = Some 0x1c60"
  "rvc_operand_bits CHR ''l'' = Some 0x1c60"
  "rvc_operand_bits CHR ''m'' = Some 0x107c"
  "rvc_operand_bits CHR ''n'' = Some 0x107c"
  "rvc_operand_bits CHR ''p'' = Some 0x1c7c"
  "rvc_operand_bits CHR ''s'' = Some 0x380"
  "rvc_operand_bits CHR ''t'' = Some 0x1c"
  "rvc_operand_bits CHR ''u'' = Some 0x107c"
  "rvc_operand_bits CHR ''v'' = Some 0x107c"
  "rvc_operand_bits CHR ''w'' = Some 0"
  "rvc_operand_bits CHR ''x'' = Some 0"
  "rvc_operand_bits CHR ''K'' = Some 0x1fe0"
  "rvc_operand_bits CHR ''L'' = Some 0x107c"
  "rvc_operand_bits CHR ''M'' = Some 0x1f80"
  "rvc_operand_bits CHR ''N'' = Some 0x1f80"
  "rvc_operand_bits CHR ''U'' = Some 0"
  "rvc_operand_bits CHR ''V'' = Some 0x7c"
  "rvc_operand_bits CHR ''<'' = Some 0x107c"
  "rvc_operand_bits CHR ''>'' = Some 0x107c"
  "rvc_operand_bits CHR ''8'' = Some 0x1fe0"
  "rvc_operand_bits CHR ''S'' = Some 0x380"
  "rvc_operand_bits CHR ''T'' = Some 0x7c"
  "rvc_operand_bits CHR ''D'' = Some 0x1c"
  by (simp_all add: rvc_operand_bits_def encode_all_ones encode_utype_all_ones field_bits_values c_uint_def)

lemma operand_bits_values:
  "operand_bits CHR '','' = Some 0"
  "operand_bits CHR ''('' = Some 0"
  "operand_bits CHR '')'' = Some 0"
  "operand_bits CHR ''<'' = Some 0x1f00000"
  "operand_bits CHR ''>'' = Some 0x3f00000"
  "operand_bits CHR ''A'' = Some 0"
  "operand_bits CHR ''D'' = Some 0xf80"
  "operand_bits CHR ''Z'' = Some 0xf8000"
  "operand_bits CHR ''E'' = Some 0xfff00000"
  "operand_bits CHR ''I'' = Some 0"
  "operand_bits CHR ''R'' = Some 0xf8000000"
  "operand_bits CHR ''S'' = Some 0xf8000"
  "operand_bits CHR ''U'' = Some 0x1ff8000"
  "operand_bits CHR ''T'' = Some 0x1f00000"
  "operand_bits CHR ''d'' = Some 0xf80"
  "operand_bits CHR ''m'' = Some 0x7000"
  "operand_bits CHR ''s'' = Some 0xf8000"
  "operand_bits CHR ''t'' = Some 0x1f00000"
  "operand_bits CHR ''r'' = Some 0xf8000000"
  "operand_bits CHR ''P'' = Some 0xf000000"
  "operand_bits CHR ''Q'' = Some 0xf00000"
  "operand_bits CHR ''o'' = Some 0xfff00000"
  "operand_bits CHR ''j'' = Some 0xfff00000"
  "operand_bits CHR ''a'' = Some 0xfffff000"
  "operand_bits CHR ''p'' = Some 0xfe000f80"
  "operand_bits CHR ''q'' = Some 0xfe000f80"
  "operand_bits CHR ''u'' = Some 0xfffff000"
  "operand_bits CHR ''z'' = Some 0"
  "operand_bits CHR ''['' = Some 0"
  "operand_bits CHR '']'' = Some 0"
  "operand_bits CHR ''0'' = Some 0"
  by (simp_all add: operand_bits_def encode_all_ones encode_utype_all_ones field_bits_values c_uint_def)

lemmas operand_values = mask_values operand_bits_values rvc_operand_bits_values cfunct_bits_def
  funct_bits_def opcode_bits_def field_bits_values

subsection \<open>Filling the opcode table\<close>

definition broken_assembler :: fatal where
  "broken_assembler = As_fatal (Diag ''Broken assembler.  No assembly attempted.'' [])"

text \<open>
  A pointer into the table, \<open>&opcodes[i]\<close>, is the rest of the table from entry \<open>i\<close>
  on: that is what a later \<open>++insn\<close> walks over, and the sentinel is its end. The
  inner do-while loop takes the entries that share the name; a failure carries the message
  \<open>as_bad\<close> has printed.
\<close>

fun validate_group :: "bool \<Rightarrow> string \<Rightarrow> riscv_opcode list \<Rightarrow>
    (diag list \<times> fatal) + riscv_opcode list" where
  "validate_group insn_directive_p name [] = Inr []"
| "validate_group insn_directive_p name (opc # opcodes) =
     (if op_name opc \<noteq> name then Inr (opc # opcodes)
      else if op_pinfo opc \<noteq> INSN_MACRO then
        (let len = (if insn_directive_p then (if c_char name = CHR ''c'' then 2 else 4) else 0)
         in case validate_riscv_insn opc len of
              Some msg \<Rightarrow> Inl ([msg], broken_assembler)
            | None \<Rightarrow> validate_group insn_directive_p name opcodes)
      else if insn_directive_p then Inl ([], Assert_failed)
      else validate_group insn_directive_p name opcodes)"

lemma validate_group_shorter:
  "validate_group p name ops = Inr rest \<Longrightarrow> length rest \<le> length ops"
  by (induction p name ops rule: validate_group.induct)
    (auto simp: Let_def split: if_splits option.splits)

lemma validate_group_head_shorter:
  "validate_group p (op_name opc) (opc # ops) = Inr rest \<Longrightarrow> length rest < Suc (length ops)"
  by (auto simp: Let_def less_Suc_eq_le split: if_splits option.splits
      dest: validate_group_shorter)

function init_opcode_loop :: "bool \<Rightarrow> riscv_opcode list \<Rightarrow> riscv_opcode list hash_control \<Rightarrow>
    (diag list \<times> fatal) + riscv_opcode list hash_control" where
  "init_opcode_loop insn_directive_p [] hash = Inr hash"
| "init_opcode_loop insn_directive_p (opc # opcodes) hash =
     (case hash_insert hash (op_name opc) (opc # opcodes) of
        (Some hash_error, hash') \<Rightarrow>
          Inl ([Diag (''internal error: can'' @ CHR 0x27 # ''t hash `%s'' @ CHR 0x27 # '': %s'') [Str (op_name opc), Str hash_error]],
               broken_assembler)
      | (None, hash') \<Rightarrow>
          (case validate_group insn_directive_p (op_name opc) (opc # opcodes) of
             Inl e \<Rightarrow> Inl e
           | Inr rest \<Rightarrow> init_opcode_loop insn_directive_p rest hash'))"
  by pat_completeness auto
termination
  by (relation "measure (\<lambda>(p, ops, hash). length ops)")
    (auto simp del: validate_group.simps dest: validate_group_head_shorter)

definition init_opcode_hash :: "riscv_opcode list \<Rightarrow> bool \<Rightarrow>
    (diag list \<times> fatal) + riscv_opcode list hash_control" where
  "init_opcode_hash opcodes insn_directive_p = init_opcode_loop insn_directive_p opcodes hash_new"

subsection \<open>What a filled table holds\<close>

text \<open>The first entry of a name, with everything behind it.\<close>

definition first_entry :: "riscv_opcode list \<Rightarrow> string \<Rightarrow> riscv_opcode list option" where
  "first_entry ops name = (case dropWhile (\<lambda>opc. op_name opc \<noteq> name) ops of
     [] \<Rightarrow> None | opc # rest \<Rightarrow> Some (opc # rest))"

text \<open>An entry the start-up check accepts, in the given table.\<close>

definition entry_valid :: "bool \<Rightarrow> riscv_opcode \<Rightarrow> bool" where
  "entry_valid insn_directive_p opc =
     (if op_pinfo opc \<noteq> INSN_MACRO
      then validate_riscv_insn opc
        (if insn_directive_p then (if c_char (op_name opc) = CHR ''c'' then 2 else 4) else 0) = None
      else \<not> insn_directive_p)"

lemma validate_group_ok:
  assumes "list_all (entry_valid p) ops"
  shows "validate_group p name ops = Inr (dropWhile (\<lambda>opc. op_name opc = name) ops)"
  using assms by (induction ops) (auto simp: entry_valid_def Let_def split: if_splits)

lemma first_entry_Cons:
  "first_entry (opc # ops) name = (if op_name opc = name then Some (opc # ops) else first_entry ops name)"
  by (simp add: first_entry_def)

lemma first_entry_None: "first_entry ops name = None \<longleftrightarrow> name \<notin> op_name ` set ops"
  by (induction ops) (auto simp: first_entry_Cons, simp add: first_entry_def)

lemma first_entry_Some:
  "first_entry ops name = Some es \<Longrightarrow> \<exists>opc rest. es = opc # rest \<and> op_name opc = name \<and> set es \<subseteq> set ops"
  by (induction ops) (auto simp: first_entry_Cons first_entry_def split: if_splits)

lemma first_entry_dropWhile:
  "name \<noteq> n \<Longrightarrow> first_entry (dropWhile (\<lambda>opc. op_name opc = n) ops) name = first_entry ops name"
  by (induction ops) (auto simp: first_entry_Cons)

lemma remdups_adj_dropWhile:
  "remdups_adj (n # xs) = n # remdups_adj (dropWhile (\<lambda>x. x = n) xs)"
  by (induction xs) auto

lemma remdups_adj_names:
  "remdups_adj (map op_name (opc # ops)) =
     op_name opc # remdups_adj (map op_name (dropWhile (\<lambda>x. op_name x = op_name opc) ops))"
  by (simp add: remdups_adj_dropWhile dropWhile_map o_def)

text \<open>
  A table whose entries pass the check and whose equal names are adjacent is entered without
  an error, and then a name finds its first entry.
\<close>

lemma init_opcode_loop_ok:
  assumes "list_all (entry_valid p) ops" and "distinct (remdups_adj (map op_name ops))"
    and "hash_inv h" and "\<forall>n \<in> op_name ` set ops. hash_abs h n = None"
  shows "\<exists>h'. init_opcode_loop p ops h = Inr h' \<and> hash_inv h' \<and>
    hash_abs h' = hash_abs h ++ first_entry ops"
  using assms
proof (induction p ops h rule: init_opcode_loop.induct)
  case (1 p h)
  then show ?case by (simp add: fun_eq_iff map_add_def first_entry_def)
next
  case (2 p opc ops h)
  let ?n = "op_name opc" and ?rest = "dropWhile (\<lambda>x. op_name x = op_name opc) ops"
  obtain r h1 where ins: "hash_insert h ?n (opc # ops) = (r, h1)"
    by (cases "hash_insert h ?n (opc # ops)")
  have fresh: "hash_abs h ?n = None" using "2.prems"(4) by simp
  note hc = hash_insert_cases [OF "2.prems"(3), of ?n "opc # ops"]
  have r: "r = None" and h1: "hash_inv h1" "hash_abs h1 = (hash_abs h)(?n \<mapsto> opc # ops)"
    using hc fresh ins by simp_all
  have grp: "validate_group p ?n (opc # ops) = Inr ?rest"
    using validate_group_ok [OF "2.prems"(1), of ?n] by simp
  have rest_sub: "set ?rest \<subseteq> set ops" by (auto dest: set_dropWhileD)
  have dist: "distinct (?n # remdups_adj (map op_name ?rest))"
    using "2.prems"(2) unfolding remdups_adj_names .
  then have notin: "?n \<notin> op_name ` set ?rest" by simp
  have "\<exists>h'. init_opcode_loop p ?rest h1 = Inr h' \<and> hash_inv h' \<and>
    hash_abs h' = hash_abs h1 ++ first_entry ?rest"
  proof (rule "2.IH" [OF ins [unfolded r, symmetric] _ grp])
    show "list_all (entry_valid p) ?rest"
      using "2.prems"(1) rest_sub by (auto simp: list_all_iff)
    show "\<forall>n \<in> op_name ` set ?rest. hash_abs h1 n = None"
    proof
      fix n assume n: "n \<in> op_name ` set ?rest"
      with rest_sub have "hash_abs h n = None" using "2.prems"(4) by auto
      moreover from n notin have "n \<noteq> ?n" by metis
      ultimately show "hash_abs h1 n = None" using h1(2) by simp
    qed
  qed (use dist h1 in auto)
  then obtain h' where h': "init_opcode_loop p ?rest h1 = Inr h'" "hash_inv h'"
    "hash_abs h' = hash_abs h1 ++ first_entry ?rest" by blast
  have "(hash_abs h1 ++ first_entry ?rest) k = (hash_abs h ++ first_entry (opc # ops)) k" for k
    using notin by (cases "k = ?n")
      (auto simp: h1(2) map_add_def first_entry_Cons first_entry_dropWhile
        first_entry_None [THEN iffD2] split: option.split)
  with h' ins r grp show ?case by (auto simp del: validate_group.simps)
qed

lemma init_opcode_hash_ok:
  assumes "list_all (entry_valid p) ops" and "distinct (remdups_adj (map op_name ops))"
  shows "\<exists>h. init_opcode_hash ops p = Inr h \<and> hash_inv h \<and> hash_abs h = first_entry ops"
  using init_opcode_loop_ok [OF assms hash_new_inv]
  by (simp add: init_opcode_hash_def hash_new_abs)

end
