(* ===== verification/TcTables.thy ===== *)
theory TcTables
  imports TcValidate
begin

text \<open>
  The two tables of \<open>opcodes/riscv-opc.c\<close> pass the start-up check of
  \<open>gas/config/tc-riscv.c\<close>, so \<open>md_begin\<close> fills both hash tables and every
  mnemonic is found with its first entry. The check evaluates the model on all 609 entries,
  one section at a time.
\<close>

subsection \<open>Every entry is valid\<close>

lemmas validation_eval = entry_valid_def validate_riscv_insn_def operand_values operand_step_def
  c_char_def c_int_def c_uint_def riscv_insn_length_def Let_def shr_def shl_def mask_numeral
  ENCODE_ITYPE_IMM_def RV_X_def

lemma riscv_opcodes_base_valid: "list_all (entry_valid False) riscv_opcodes_base"
  by (simp add: riscv_opcodes_base_def validation_eval)

lemma riscv_opcodes_base_mem_valid: "list_all (entry_valid False) riscv_opcodes_base_mem"
  by (simp add: riscv_opcodes_base_mem_def validation_eval)

lemma riscv_opcodes_a_valid: "list_all (entry_valid False) riscv_opcodes_a"
  by (simp add: riscv_opcodes_a_def validation_eval)

lemma riscv_opcodes_m_valid: "list_all (entry_valid False) riscv_opcodes_m"
  by (simp add: riscv_opcodes_m_def validation_eval)

lemma riscv_opcodes_f_valid: "list_all (entry_valid False) riscv_opcodes_f"
  by (simp add: riscv_opcodes_f_def validation_eval)

lemma riscv_opcodes_d_valid: "list_all (entry_valid False) riscv_opcodes_d"
  by (simp add: riscv_opcodes_d_def validation_eval)

lemma riscv_opcodes_q_valid: "list_all (entry_valid False) riscv_opcodes_q"
  by (simp add: riscv_opcodes_q_def validation_eval)

lemma riscv_opcodes_c_valid: "list_all (entry_valid False) riscv_opcodes_c"
  by (simp add: riscv_opcodes_c_def validation_eval)

lemma riscv_opcodes_s_valid: "list_all (entry_valid False) riscv_opcodes_s"
  by (simp add: riscv_opcodes_s_def validation_eval)

lemma riscv_opcodes_valid: "list_all (entry_valid False) riscv_opcodes"
  by (simp only: riscv_opcodes_def list_all_append riscv_opcodes_base_valid riscv_opcodes_base_mem_valid
    riscv_opcodes_a_valid riscv_opcodes_m_valid riscv_opcodes_f_valid riscv_opcodes_d_valid
    riscv_opcodes_q_valid riscv_opcodes_c_valid riscv_opcodes_s_valid simp_thms)

lemma riscv_insn_types_valid: "list_all (entry_valid True) riscv_insn_types"
  by (simp add: riscv_insn_types_def validation_eval)

subsection \<open>Equal names are adjacent\<close>

text \<open>Runs of equal names in a list put together from sections.\<close>

lemma remdups_adj_appendI:
  assumes "remdups_adj xs = as" and "remdups_adj ys = bs"
    and "as \<noteq> []" and "bs \<noteq> []" and "last as \<noteq> hd bs"
  shows "remdups_adj (xs @ ys) = as @ bs"
proof -
  have "xs \<noteq> []" "ys \<noteq> []" using assms by auto
  moreover have "last xs \<noteq> hd ys"
    using assms by (metis hd_remdups_adj last_remdups_adj)
  ultimately show ?thesis using assms by (simp add: remdups_adj_append')
qed

lemma riscv_opcodes_base_names:
  "remdups_adj (map op_name riscv_opcodes_base) =
     [''unimp'', ''ebreak'', ''sbreak'', ''ret'', ''jr'', ''jalr'', ''j'', ''jal'', ''call'',
     ''tail'', ''jump'', ''nop'', ''lui'', ''li'', ''mv'', ''move'', ''andi'', ''and'',
     ''beqz'', ''beq'', ''blez'', ''bgez'', ''ble'', ''bleu'', ''bge'', ''bgeu'', ''bltz'',
     ''bgtz'', ''blt'', ''bltu'', ''bgt'', ''bgtu'', ''bnez'', ''bne'', ''addi'', ''add'',
     ''la'', ''lla'', ''la.tls.gd'', ''la.tls.ie'', ''neg'', ''slli'', ''sll'', ''srli'',
     ''srl'', ''srai'', ''sra'']"
  by (simp add: riscv_opcodes_base_def)

lemma riscv_opcodes_base_mem_names:
  "remdups_adj (map op_name riscv_opcodes_base_mem) =
     [''sub'', ''lb'', ''lbu'', ''lh'', ''lhu'', ''lw'', ''not'', ''ori'', ''or'', ''auipc'',
     ''seqz'', ''snez'', ''sltz'', ''sgtz'', ''slti'', ''slt'', ''sltiu'', ''sltu'', ''sgt'',
     ''sgtu'', ''sb'', ''sh'', ''sw'', ''fence'', ''fence.i'', ''rdcycle'', ''rdinstret'',
     ''rdtime'', ''rdcycleh'', ''rdinstreth'', ''rdtimeh'', ''ecall'', ''scall'', ''xori'',
     ''xor'', ''lwu'', ''ld'', ''sd'', ''sext.w'', ''addiw'', ''addw'', ''negw'', ''slliw'',
     ''sllw'', ''srliw'', ''srlw'', ''sraiw'', ''sraw'', ''subw'']"
  by (simp add: riscv_opcodes_base_mem_def)

lemma riscv_opcodes_a_names:
  "remdups_adj (map op_name riscv_opcodes_a) =
     [''lr.w'', ''sc.w'', ''amoadd.w'', ''amoswap.w'', ''amoand.w'', ''amoor.w'',
     ''amoxor.w'', ''amomax.w'', ''amomaxu.w'', ''amomin.w'', ''amominu.w'', ''lr.w.aq'',
     ''sc.w.aq'', ''amoadd.w.aq'', ''amoswap.w.aq'', ''amoand.w.aq'', ''amoor.w.aq'',
     ''amoxor.w.aq'', ''amomax.w.aq'', ''amomaxu.w.aq'', ''amomin.w.aq'', ''amominu.w.aq'',
     ''lr.w.rl'', ''sc.w.rl'', ''amoadd.w.rl'', ''amoswap.w.rl'', ''amoand.w.rl'',
     ''amoor.w.rl'', ''amoxor.w.rl'', ''amomax.w.rl'', ''amomaxu.w.rl'', ''amomin.w.rl'',
     ''amominu.w.rl'', ''lr.w.aqrl'', ''sc.w.aqrl'', ''amoadd.w.aqrl'', ''amoswap.w.aqrl'',
     ''amoand.w.aqrl'', ''amoor.w.aqrl'', ''amoxor.w.aqrl'', ''amomax.w.aqrl'',
     ''amomaxu.w.aqrl'', ''amomin.w.aqrl'', ''amominu.w.aqrl'', ''lr.d'', ''sc.d'',
     ''amoadd.d'', ''amoswap.d'', ''amoand.d'', ''amoor.d'', ''amoxor.d'', ''amomax.d'',
     ''amomaxu.d'', ''amomin.d'', ''amominu.d'', ''lr.d.aq'', ''sc.d.aq'', ''amoadd.d.aq'',
     ''amoswap.d.aq'', ''amoand.d.aq'', ''amoor.d.aq'', ''amoxor.d.aq'', ''amomax.d.aq'',
     ''amomaxu.d.aq'', ''amomin.d.aq'', ''amominu.d.aq'', ''lr.d.rl'', ''sc.d.rl'',
     ''amoadd.d.rl'', ''amoswap.d.rl'', ''amoand.d.rl'', ''amoor.d.rl'', ''amoxor.d.rl'',
     ''amomax.d.rl'', ''amomaxu.d.rl'', ''amomin.d.rl'', ''amominu.d.rl'', ''lr.d.aqrl'',
     ''sc.d.aqrl'', ''amoadd.d.aqrl'', ''amoswap.d.aqrl'', ''amoand.d.aqrl'',
     ''amoor.d.aqrl'', ''amoxor.d.aqrl'', ''amomax.d.aqrl'', ''amomaxu.d.aqrl'',
     ''amomin.d.aqrl'', ''amominu.d.aqrl'']"
  by (simp add: riscv_opcodes_a_def)

lemma riscv_opcodes_m_names:
  "remdups_adj (map op_name riscv_opcodes_m) =
     [''mul'', ''mulh'', ''mulhu'', ''mulhsu'', ''div'', ''divu'', ''rem'', ''remu'',
     ''mulw'', ''divw'', ''divuw'', ''remw'', ''remuw'']"
  by (simp add: riscv_opcodes_m_def)

lemma riscv_opcodes_f_names:
  "remdups_adj (map op_name riscv_opcodes_f) =
     [''frsr'', ''fssr'', ''frcsr'', ''fscsr'', ''frrm'', ''fsrm'', ''fsrmi'', ''frflags'',
     ''fsflags'', ''fsflagsi'', ''flw'', ''fsw'', ''fmv.x.w'', ''fmv.w.x'', ''fmv.x.s'',
     ''fmv.s.x'', ''fmv.s'', ''fneg.s'', ''fabs.s'', ''fsgnj.s'', ''fsgnjn.s'', ''fsgnjx.s'',
     ''fadd.s'', ''fsub.s'', ''fmul.s'', ''fdiv.s'', ''fsqrt.s'', ''fmin.s'', ''fmax.s'',
     ''fmadd.s'', ''fnmadd.s'', ''fmsub.s'', ''fnmsub.s'', ''fcvt.w.s'', ''fcvt.wu.s'',
     ''fcvt.s.w'', ''fcvt.s.wu'', ''fclass.s'', ''feq.s'', ''flt.s'', ''fle.s'', ''fgt.s'',
     ''fge.s'', ''fcvt.l.s'', ''fcvt.lu.s'', ''fcvt.s.l'', ''fcvt.s.lu'']"
  by (simp add: riscv_opcodes_f_def)

lemma riscv_opcodes_d_names:
  "remdups_adj (map op_name riscv_opcodes_d) =
     [''fld'', ''fsd'', ''fmv.d'', ''fneg.d'', ''fabs.d'', ''fsgnj.d'', ''fsgnjn.d'',
     ''fsgnjx.d'', ''fadd.d'', ''fsub.d'', ''fmul.d'', ''fdiv.d'', ''fsqrt.d'', ''fmin.d'',
     ''fmax.d'', ''fmadd.d'', ''fnmadd.d'', ''fmsub.d'', ''fnmsub.d'', ''fcvt.w.d'',
     ''fcvt.wu.d'', ''fcvt.d.w'', ''fcvt.d.wu'', ''fcvt.d.s'', ''fcvt.s.d'', ''fclass.d'',
     ''feq.d'', ''flt.d'', ''fle.d'', ''fgt.d'', ''fge.d'', ''fmv.x.d'', ''fmv.d.x'',
     ''fcvt.l.d'', ''fcvt.lu.d'', ''fcvt.d.l'', ''fcvt.d.lu'']"
  by (simp add: riscv_opcodes_d_def)

lemma riscv_opcodes_q_names:
  "remdups_adj (map op_name riscv_opcodes_q) =
     [''flq'', ''fsq'', ''fmv.q'', ''fneg.q'', ''fabs.q'', ''fsgnj.q'', ''fsgnjn.q'',
     ''fsgnjx.q'', ''fadd.q'', ''fsub.q'', ''fmul.q'', ''fdiv.q'', ''fsqrt.q'', ''fmin.q'',
     ''fmax.q'', ''fmadd.q'', ''fnmadd.q'', ''fmsub.q'', ''fnmsub.q'', ''fcvt.w.q'',
     ''fcvt.wu.q'', ''fcvt.q.w'', ''fcvt.q.wu'', ''fcvt.q.s'', ''fcvt.q.d'', ''fcvt.s.q'',
     ''fcvt.d.q'', ''fclass.q'', ''feq.q'', ''flt.q'', ''fle.q'', ''fgt.q'', ''fge.q'',
     ''fmv.x.q'', ''fmv.q.x'', ''fcvt.l.q'', ''fcvt.lu.q'', ''fcvt.q.l'', ''fcvt.q.lu'']"
  by (simp add: riscv_opcodes_q_def)

lemma riscv_opcodes_c_names:
  "remdups_adj (map op_name riscv_opcodes_c) =
     [''c.ebreak'', ''c.jr'', ''c.jalr'', ''c.j'', ''c.jal'', ''c.beqz'', ''c.bnez'',
     ''c.lwsp'', ''c.lw'', ''c.swsp'', ''c.sw'', ''c.nop'', ''c.mv'', ''c.lui'', ''c.li'',
     ''c.addi4spn'', ''c.addi16sp'', ''c.addi'', ''c.add'', ''c.sub'', ''c.and'', ''c.or'',
     ''c.xor'', ''c.slli'', ''c.srli'', ''c.srai'', ''c.slli64'', ''c.srli64'', ''c.srai64'',
     ''c.andi'', ''c.addiw'', ''c.addw'', ''c.subw'', ''c.ldsp'', ''c.ld'', ''c.sdsp'',
     ''c.sd'', ''c.fldsp'', ''c.fld'', ''c.fsdsp'', ''c.fsd'', ''c.flwsp'', ''c.flw'',
     ''c.fswsp'', ''c.fsw'']"
  by (simp add: riscv_opcodes_c_def)

lemma riscv_opcodes_s_names:
  "remdups_adj (map op_name riscv_opcodes_s) =
     [''csrr'', ''csrwi'', ''csrsi'', ''csrci'', ''csrw'', ''csrs'', ''csrc'', ''csrrwi'',
     ''csrrsi'', ''csrrci'', ''csrrw'', ''csrrs'', ''csrrc'', ''uret'', ''sret'', ''hret'',
     ''mret'', ''dret'', ''sfence.vm'', ''sfence.vma'', ''wfi'']"
  by (simp add: riscv_opcodes_s_def)

text \<open>No section ends with the name the next one starts with.\<close>

lemma riscv_opcodes_keys_distinct:
  "distinct (map name_key (remdups_adj (map op_name riscv_opcodes)))"
  unfolding riscv_opcodes_def map_append
  by (subst remdups_adj_appendI [OF riscv_opcodes_base_names remdups_adj_appendI
        [OF riscv_opcodes_base_mem_names remdups_adj_appendI
        [OF riscv_opcodes_a_names remdups_adj_appendI [OF riscv_opcodes_m_names remdups_adj_appendI
        [OF riscv_opcodes_f_names remdups_adj_appendI [OF riscv_opcodes_d_names remdups_adj_appendI
        [OF riscv_opcodes_q_names remdups_adj_appendI
        [OF riscv_opcodes_c_names riscv_opcodes_s_names]]]]]]]])
    (simp_all add: name_key_def)

lemma riscv_opcodes_names_distinct: "distinct (remdups_adj (map op_name riscv_opcodes))"
  by (rule distinct_by_key [OF riscv_opcodes_keys_distinct])

lemma riscv_insn_types_names_distinct: "distinct (remdups_adj (map op_name riscv_insn_types))"
  by (simp add: riscv_insn_types_def)

subsection \<open>The start-up of the tables\<close>

end
