(* ===== verification/TcArch.thy ===== *)
theory TcArch
  imports GasDiag CString GasHash RiscvOpc "HOL-Library.Sublist"
begin

text \<open>
  The target options of the assembler, from \<open>gas/config/tc-riscv.c\<close>: the static
  variables of that file as a record, the instruction set subsets named by \<open>-march\<close>, the
  options of the command line and of the \<open>.option\<close> directive with its stack, and the
  choice of the ABI once the command line is read.
\<close>

subsection \<open>State\<close>

record riscv_set_options =
  opt_pic :: bool
  opt_rvc :: bool
  opt_rve :: bool
  opt_relax :: bool

datatype float_abi = FLOAT_ABI_DEFAULT | FLOAT_ABI_SOFT | FLOAT_ABI_SINGLE | FLOAT_ABI_DOUBLE
  | FLOAT_ABI_QUAD

text \<open>
  The static variables of the file, and the errors and warnings reported so far. A hash table
  pointer is \<open>None\<close> before \<open>md_begin\<close>. \<open>op_hash\<close> maps a mnemonic to its entries;
  \<open>opcode_names_hash\<close> a name to its value; \<open>reg_names_hash\<close> a name to the code of
  \<open>ENCODE_REG_HASH\<close>.
\<close>

record tc_state =
  tc_xlen :: u32
  tc_abi_xlen :: u32
  tc_rve_abi :: bool
  tc_elf_flags :: u32
  tc_opts :: riscv_set_options
  tc_subsets :: "string list"
  tc_opts_stack :: "riscv_set_options list"
  tc_float_abi :: float_abi
  tc_op_hash :: "riscv_opcode list hash_control option"
  tc_insn_type_hash :: "riscv_opcode list hash_control option"
  tc_reg_names_hash :: "u32 hash_control option"
  tc_opcode_names_hash :: "u32 hash_control option"
  tc_errors :: "diag list"
  tc_warnings :: "diag list"

definition initial_options :: riscv_set_options where
  "initial_options = \<lparr>opt_pic = False, opt_rvc = False, opt_rve = False, opt_relax = True\<rparr>"

definition initial_tc :: tc_state where
  "initial_tc = \<lparr>tc_xlen = 0, tc_abi_xlen = 0, tc_rve_abi = False, tc_elf_flags = 0,
     tc_opts = initial_options, tc_subsets = [], tc_opts_stack = [],
     tc_float_abi = FLOAT_ABI_DEFAULT, tc_op_hash = None, tc_insn_type_hash = None,
     tc_reg_names_hash = None, tc_opcode_names_hash = None, tc_errors = [], tc_warnings = []\<rparr>"

definition as_bad :: "diag \<Rightarrow> tc_state \<Rightarrow> tc_state" where
  "as_bad d st = st\<lparr>tc_errors := tc_errors st @ [d]\<rparr>"

definition as_warn :: "diag \<Rightarrow> tc_state \<Rightarrow> tc_state" where
  "as_warn d st = st\<lparr>tc_warnings := tc_warnings st @ [d]\<rparr>"

text \<open>The fields of \<open>e_flags\<close>.\<close>

abbreviation (input) EF_RISCV_RVC :: u32 where "EF_RISCV_RVC \<equiv> 0x0001"
abbreviation (input) EF_RISCV_FLOAT_ABI :: u32 where "EF_RISCV_FLOAT_ABI \<equiv> 0x0006"
abbreviation (input) EF_RISCV_RVE :: u32 where "EF_RISCV_RVE \<equiv> 0x0008"

definition riscv_set_rvc :: "bool \<Rightarrow> tc_state \<Rightarrow> tc_state" where
  "riscv_set_rvc rvc_value st =
     (let st = (if rvc_value then st\<lparr>tc_elf_flags := tc_elf_flags st OR EF_RISCV_RVC\<rparr> else st)
      in st\<lparr>tc_opts := (tc_opts st)\<lparr>opt_rvc := rvc_value\<rparr>\<rparr>)"

definition riscv_set_rve :: "bool \<Rightarrow> tc_state \<Rightarrow> tc_state" where
  "riscv_set_rve rve_value st = st\<lparr>tc_opts := (tc_opts st)\<lparr>opt_rve := rve_value\<rparr>\<rparr>"

subsection \<open>Instruction set subsets\<close>

definition subset_supports :: "u32 \<Rightarrow> string list \<Rightarrow> string \<Rightarrow> bool" where
  "subset_supports xlen subsets feature =
     (let (xlen_required, p) = strtoul feature
      in if xlen_required \<noteq> 0 \<and> xlen \<noteq> xlen_required then False
         else list_ex (\<lambda>name. strcaseeq name p) subsets)"

definition riscv_subset_supports :: "tc_state \<Rightarrow> string \<Rightarrow> bool" where
  "riscv_subset_supports st = subset_supports (tc_xlen st) (tc_subsets st)"

definition riscv_clear_subsets :: "tc_state \<Rightarrow> tc_state" where
  "riscv_clear_subsets st = st\<lparr>tc_subsets := []\<rparr>"

definition riscv_add_subset :: "string \<Rightarrow> tc_state \<Rightarrow> tc_state" where
  "riscv_add_subset sub st = st\<lparr>tc_subsets := sub # tc_subsets st\<rparr>"

definition march_fatal :: "string \<Rightarrow> msg_arg list \<Rightarrow> fatal" where
  "march_fatal text args = As_fatal (Diag (''-march=%s: '' @ text) args)"

text \<open>
  The loop over the extensions: \<open>all_subsets\<close> is what is left of the canonical order,
  \<open>extension\<close> the non-standard extension seen.
\<close>

function arch_loop :: "string \<Rightarrow> string \<Rightarrow> string \<Rightarrow> string option \<Rightarrow> tc_state \<Rightarrow> tc_state res" where
  "arch_loop s [] all_subsets extension st = Inr st"
| "arch_loop s (c # p) all_subsets extension st =
     (if c = CHR ''x'' then
        (let sub = c # takeWhile (\<lambda>d. d \<noteq> CHR ''_'') p
         in case extension of
              Some ext \<Rightarrow> Inl (march_fatal (''only one non-standard extension is supported'' @
                '' (found `%s'' @ CHR 0x27 # '' and `%s'' @ CHR 0x27 # '')'')
                [Str s, Str ext, Str sub])
            | None \<Rightarrow> arch_loop s (dropWhile (\<lambda>d. d \<noteq> CHR ''_'') p) all_subsets (Some sub)
                (riscv_add_subset sub st))
      else if c = CHR ''_'' then arch_loop s p all_subsets extension st
      else case strchr all_subsets c of
             Some rest \<Rightarrow> arch_loop s p (tl rest) extension (riscv_add_subset [c] st)
           | None \<Rightarrow> Inl (march_fatal (''unsupported ISA subset `%c'' @ [CHR 0x27]) [Str s, Chr c]))"
  by pat_completeness auto
termination
  by (relation "measure (\<lambda>(s, p, all, ext, st). length p)") (auto simp: less_Suc_eq_le length_dropWhile_le)

text \<open>The base: \<open>Inr (p, all_subsets, state)\<close> is where the loop goes on.\<close>

definition arch_base :: "string \<Rightarrow> string \<Rightarrow> tc_state \<Rightarrow> (string \<times> string \<times> tc_state) res" where
  "arch_base s p st =
     (let all_subsets = ''imafdqc''; c = (case p of [] \<Rightarrow> CHR 0x00 | c # _ \<Rightarrow> c)
      in if c = CHR ''i'' then Inr (p, all_subsets, st)
         else if c = CHR ''e'' then
           (let st = riscv_add_subset ''i'' (riscv_add_subset ''e'' st)
            in if tc_xlen st > 32
               then Inl (march_fatal ''rv%de is not a valid base ISA'' [Str s, Num (tc_xlen st)])
               else Inr (tl p, all_subsets, st))
         else if c = CHR ''g'' then
           Inr (tl p, dropWhile (\<lambda>c. c \<noteq> CHR ''q'') all_subsets,
             fold (\<lambda>c. riscv_add_subset [c]) (takeWhile (\<lambda>c. c \<noteq> CHR ''q'') all_subsets) st)
         else Inl (march_fatal (''first ISA subset must be `e'' @ CHR 0x27 # '', `i'' @ CHR 0x27 #
           '' or `g'' @ [CHR 0x27]) [Str s]))"

text \<open>The checks on the finished list.\<close>

definition arch_checks :: "string \<Rightarrow> tc_state \<Rightarrow> tc_state res" where
  "arch_checks s st =
     (let supports = riscv_subset_supports st
      in if supports ''e'' \<and> supports ''f''
         then Inl (march_fatal (''rv32e does not support the `f'' @ CHR 0x27 # '' extension'') [Str s])
         else if supports ''d'' \<and> \<not> supports ''f''
         then Inl (march_fatal (''`d'' @ CHR 0x27 # '' extension requires `f'' @ CHR 0x27 # '' extension'') [Str s])
         else if supports ''q'' \<and> \<not> supports ''d''
         then Inl (march_fatal (''`q'' @ CHR 0x27 # '' extension requires `d'' @ CHR 0x27 # '' extension'') [Str s])
         else if supports ''q'' \<and> tc_xlen st < 64
         then Inl (march_fatal (''rv32 does not support the `q'' @ CHR 0x27 # '' extension'') [Str s])
         else Inr st)"

definition riscv_set_arch :: "string \<Rightarrow> tc_state \<Rightarrow> tc_state res" where
  "riscv_set_arch s st =
     (let st = riscv_clear_subsets st;
          base = (if take 4 s = ''rv32'' then Inr (drop 4 s, st\<lparr>tc_xlen := 32\<rparr>)
            else if take 4 s = ''rv64'' then Inr (drop 4 s, st\<lparr>tc_xlen := 64\<rparr>)
            else Inl (march_fatal ''ISA string must begin with rv32 or rv64'' [Str s]))
      in and_then base (\<lambda>(p, st).
         and_then (arch_base s p st) (\<lambda>(p, all_subsets, st).
         and_then (arch_loop s p all_subsets None st) (arch_checks s))))"

subsection \<open>Command line options\<close>

datatype md_option = OPTION_MARCH | OPTION_PIC | OPTION_NO_PIC | OPTION_MABI | OPTION_RELAX
  | OPTION_NO_RELAX | OPTION_OTHER int

definition riscv_set_abi :: "u32 \<Rightarrow> float_abi \<Rightarrow> bool \<Rightarrow> tc_state \<Rightarrow> tc_state" where
  "riscv_set_abi new_xlen new_float_abi rve st =
     st\<lparr>tc_abi_xlen := new_xlen, tc_float_abi := new_float_abi, tc_rve_abi := rve\<rparr>"

definition abi_of_name :: "string \<Rightarrow> (u32 \<times> float_abi \<times> bool) option" where
  "abi_of_name arg =
     (if arg = ''ilp32'' then Some (32, FLOAT_ABI_SOFT, False)
      else if arg = ''ilp32e'' then Some (32, FLOAT_ABI_SOFT, True)
      else if arg = ''ilp32f'' then Some (32, FLOAT_ABI_SINGLE, False)
      else if arg = ''ilp32d'' then Some (32, FLOAT_ABI_DOUBLE, False)
      else if arg = ''ilp32q'' then Some (32, FLOAT_ABI_QUAD, False)
      else if arg = ''lp64'' then Some (64, FLOAT_ABI_SOFT, False)
      else if arg = ''lp64f'' then Some (64, FLOAT_ABI_SINGLE, False)
      else if arg = ''lp64d'' then Some (64, FLOAT_ABI_DOUBLE, False)
      else if arg = ''lp64q'' then Some (64, FLOAT_ABI_QUAD, False)
      else None)"

text \<open>The Boolean is the return value: whether the option was recognised.\<close>

definition md_parse_option :: "md_option \<Rightarrow> string \<Rightarrow> tc_state \<Rightarrow> (bool \<times> tc_state) res" where
  "md_parse_option c arg st = (case c of
     OPTION_MARCH \<Rightarrow> and_then (riscv_set_arch arg st) (\<lambda>st. Inr (True, st))
   | OPTION_NO_PIC \<Rightarrow> Inr (True, st\<lparr>tc_opts := (tc_opts st)\<lparr>opt_pic := False\<rparr>\<rparr>)
   | OPTION_PIC \<Rightarrow> Inr (True, st\<lparr>tc_opts := (tc_opts st)\<lparr>opt_pic := True\<rparr>\<rparr>)
   | OPTION_MABI \<Rightarrow> (case abi_of_name arg of
        Some (new_xlen, new_float_abi, rve) \<Rightarrow> Inr (True, riscv_set_abi new_xlen new_float_abi rve st)
      | None \<Rightarrow> Inr (False, st))
   | OPTION_RELAX \<Rightarrow> Inr (True, st\<lparr>tc_opts := (tc_opts st)\<lparr>opt_relax := True\<rparr>\<rparr>)
   | OPTION_NO_RELAX \<Rightarrow> Inr (True, st\<lparr>tc_opts := (tc_opts st)\<lparr>opt_relax := False\<rparr>\<rparr>)
   | OPTION_OTHER _ \<Rightarrow> Inr (False, st))"

text \<open>
  The value of the enumeration as it enters \<open>elf_flags\<close>. \<open>DEFAULT_ARCH\<close> is the empty
  string in the configuration of this build.
\<close>

fun float_abi_value :: "float_abi \<Rightarrow> u32" where
  "float_abi_value FLOAT_ABI_DEFAULT = - 1"
| "float_abi_value FLOAT_ABI_SOFT = 0"
| "float_abi_value FLOAT_ABI_SINGLE = 1"
| "float_abi_value FLOAT_ABI_DOUBLE = 2"
| "float_abi_value FLOAT_ABI_QUAD = 3"

definition default_arch :: string where "default_arch = ''''"

definition default_xlen :: "tc_state \<Rightarrow> tc_state" where
  "default_xlen st =
     (if tc_xlen st = 0 then
        (if default_arch = ''riscv32'' then st\<lparr>tc_xlen := 32\<rparr>
         else if default_arch = ''riscv64'' then st\<lparr>tc_xlen := 64\<rparr>
         else as_bad (Diag (''unknown default architecture `%s'' @ [CHR 0x27]) [Str default_arch]) st)
      else st)"

definition infer_float_abi :: "string list \<Rightarrow> float_abi" where
  "infer_float_abi subsets = fold (\<lambda>name abi.
     (let abi = (if strcaseeq name ''D'' then FLOAT_ABI_DOUBLE else abi)
      in if strcaseeq name ''Q'' then FLOAT_ABI_QUAD else abi)) subsets FLOAT_ABI_SOFT"

definition check_abi_xlen :: "tc_state \<Rightarrow> tc_state" where
  "check_abi_xlen st =
     (if tc_abi_xlen st = 0 then st\<lparr>tc_abi_xlen := tc_xlen st\<rparr>
      else if tc_abi_xlen st > tc_xlen st
      then as_bad (Diag (''can'' @ CHR 0x27 # ''t have %d-bit ABI on %d-bit ISA'')
             [Num (tc_abi_xlen st), Num (tc_xlen st)]) st
      else if tc_abi_xlen st < tc_xlen st
      then as_bad (Diag ''%d-bit ABI not yet supported on %d-bit ISA''
             [Num (tc_abi_xlen st), Num (tc_xlen st)]) st
      else st)"

definition riscv_after_parse_args :: "tc_state \<Rightarrow> tc_state res" where
  "riscv_after_parse_args st =
     (let st = default_xlen st
      in and_then (if tc_subsets st = []
                   then riscv_set_arch (if tc_xlen st = 64 then ''rv64g'' else ''rv32g'') st
                   else Inr st) (\<lambda>st.
         let st = riscv_set_rvc False st;
             st = (if riscv_subset_supports st ''c'' then riscv_set_rvc True st
                   else riscv_add_subset ''c'' st);
             st = riscv_set_rve False st;
             st = (if riscv_subset_supports st ''e'' then riscv_set_rve True st else st);
             st = check_abi_xlen st;
             st = (if tc_float_abi st = FLOAT_ABI_DEFAULT
                   then st\<lparr>tc_float_abi := infer_float_abi (tc_subsets st)\<rparr> else st);
             st = (if tc_rve_abi st then st\<lparr>tc_elf_flags := tc_elf_flags st OR EF_RISCV_RVE\<rparr> else st)
         in Inr (st\<lparr>tc_elf_flags := tc_elf_flags st OR
              float_abi_value (tc_float_abi st) * (EF_RISCV_FLOAT_ABI AND NOT (shl EF_RISCV_FLOAT_ABI 1))\<rparr>)))"

text \<open>The flags of the ELF header, and the name of the output format.\<close>

definition riscv_elf_final_processing :: "tc_state \<Rightarrow> u32 \<Rightarrow> u32" where
  "riscv_elf_final_processing st e_flags = e_flags OR tc_elf_flags st"

definition riscv_target_format :: "tc_state \<Rightarrow> string" where
  "riscv_target_format st =
     (if tc_xlen st = 64 then ''elf64-littleriscv'' else ''elf32-littleriscv'')"

subsection \<open>The .option directive\<close>

text \<open>\<open>name\<close> is the rest of the line; the stack is a linked list, its top first.\<close>

definition s_riscv_option :: "string \<Rightarrow> tc_state \<Rightarrow> tc_state" where
  "s_riscv_option name st =
     (if name = ''rvc'' then riscv_set_rvc True st
      else if name = ''norvc'' then riscv_set_rvc False st
      else if name = ''pic'' then st\<lparr>tc_opts := (tc_opts st)\<lparr>opt_pic := True\<rparr>\<rparr>
      else if name = ''nopic'' then st\<lparr>tc_opts := (tc_opts st)\<lparr>opt_pic := False\<rparr>\<rparr>
      else if name = ''relax'' then st\<lparr>tc_opts := (tc_opts st)\<lparr>opt_relax := True\<rparr>\<rparr>
      else if name = ''norelax'' then st\<lparr>tc_opts := (tc_opts st)\<lparr>opt_relax := False\<rparr>\<rparr>
      else if name = ''push'' then st\<lparr>tc_opts_stack := tc_opts st # tc_opts_stack st\<rparr>
      else if name = ''pop'' then
        (case tc_opts_stack st of
           [] \<Rightarrow> as_bad (Diag ''.option pop with no .option push'' []) st
         | s # rest \<Rightarrow> st\<lparr>tc_opts := s, tc_opts_stack := rest\<rparr>)
      else as_warn (Diag (''Unrecognized .option directive: %s'' @ [CHR 0x0A]) [Str name]) st)"

definition initialize_tc_riscv :: "tc_state \<Rightarrow> tc_state" where
  "initialize_tc_riscv st = st\<lparr>tc_subsets := [], tc_op_hash := None, tc_insn_type_hash := None,
     tc_opcode_names_hash := None, tc_reg_names_hash := None, tc_opts_stack := []\<rparr>"

subsection \<open>Accepted instruction sets\<close>

lemmas arch_eval = strtoul_def isspace_def isdigit_def digits_value_def strcaseeq_def
  subset_supports_def riscv_subset_supports_def riscv_add_subset_def riscv_clear_subsets_def

lemma arch_checks_Inr: "arch_checks s st = Inr st' \<longleftrightarrow> st' = st \<and>
    \<not> (riscv_subset_supports st ''e'' \<and> riscv_subset_supports st ''f'') \<and>
    (riscv_subset_supports st ''d'' \<longrightarrow> riscv_subset_supports st ''f'') \<and>
    (riscv_subset_supports st ''q'' \<longrightarrow> riscv_subset_supports st ''d'' \<and> 64 \<le> tc_xlen st)"
  by (auto simp: arch_checks_def Let_def not_less split: if_splits)

text \<open>
  The extensions after the base come in the canonical order: a string of standard letters is
  accepted by the loop exactly if it is a subsequence of what is left of that order, and then
  every letter is entered.
\<close>

lemma strchr_subseq:
  "strchr all c = Some t \<Longrightarrow> subseq (c # p) all \<longleftrightarrow> subseq p (tl t)"
  "strchr all c = None \<Longrightarrow> \<not> subseq (c # p) all"
proof -
  show "subseq (c # p) all \<longleftrightarrow> subseq p (tl t)" if "strchr all c = Some t"
    using that
  proof (induction all)
    case (Cons d all)
    then show ?case by (cases "d = c") (auto simp: strchr_def subseq_Cons2_neq)
  qed (simp add: strchr_def)
  show "\<not> subseq (c # p) all" if "strchr all c = None"
    using that by (metis list.set_intros(1) strchr_None subseq_order.order_trans subseq_singleton_left
        subseq_Cons' list_emb_Nil subseq_Cons2_iff)
qed

lemma arch_loop_standard:
  assumes "CHR ''x'' \<notin> set p" and "CHR ''_'' \<notin> set p"
  shows "(\<exists>st'. arch_loop s p all ext st = Inr st') \<longleftrightarrow> subseq p all"
    and "arch_loop s p all ext st = Inr st' \<Longrightarrow>
      st' = st\<lparr>tc_subsets := rev (map (\<lambda>c. [c]) p) @ tc_subsets st\<rparr>"
proof -
  have "((\<exists>st'. arch_loop s p all ext st = Inr st') \<longleftrightarrow> subseq p all) \<and>
    (\<forall>st'. arch_loop s p all ext st = Inr st' \<longrightarrow>
      st' = st\<lparr>tc_subsets := rev (map (\<lambda>c. [c]) p) @ tc_subsets st\<rparr>)"
    using assms
  proof (induction p arbitrary: all st)
    case (Cons c p)
    from Cons.prems have c: "c \<noteq> CHR ''x''" "c \<noteq> CHR ''_''" "CHR ''x'' \<notin> set p" "CHR ''_'' \<notin> set p"
      by auto
    show ?case
    proof (cases "strchr all c")
      case None
      with c show ?thesis by (simp add: strchr_subseq)
    next
      case (Some t)
      with c Cons.IH [of "tl t" "riscv_add_subset [c] st"] show ?thesis
        by (simp add: strchr_subseq riscv_add_subset_def)
    qed
  qed simp
  then show "(\<exists>st'. arch_loop s p all ext st = Inr st') \<longleftrightarrow> subseq p all"
    and "arch_loop s p all ext st = Inr st' \<Longrightarrow>
      st' = st\<lparr>tc_subsets := rev (map (\<lambda>c. [c]) p) @ tc_subsets st\<rparr>" by auto
qed


text \<open>What the command line of the application, \<open>-march=rv32imc\<close>, leaves behind.\<close>

lemma riscv_set_arch_rv32imc:
  "riscv_set_arch ''rv32imc'' initial_tc =
     Inr (initial_tc\<lparr>tc_xlen := 32, tc_subsets := [''c'', ''m'', ''i'']\<rparr>)"
  by (simp add: riscv_set_arch_def arch_base_def arch_checks_def strchr_def arch_eval initial_tc_def)

lemma riscv_after_parse_args_rv32imc:
  "riscv_after_parse_args (initial_tc\<lparr>tc_xlen := 32, tc_subsets := [''c'', ''m'', ''i'']\<rparr>) =
     Inr (initial_tc\<lparr>tc_xlen := 32, tc_abi_xlen := 32, tc_subsets := [''c'', ''m'', ''i''],
       tc_opts := initial_options\<lparr>opt_rvc := True\<rparr>, tc_elf_flags := EF_RISCV_RVC,
       tc_float_abi := FLOAT_ABI_SOFT\<rparr>)"
  by (simp add: riscv_after_parse_args_def default_xlen_def riscv_set_rvc_def riscv_set_rve_def
      check_abi_xlen_def infer_float_abi_def arch_eval initial_tc_def initial_options_def Let_def)

subsection \<open>Nesting of .option\<close>

text \<open>
  Option lines whose pushes and pops match. Whatever options are set in between, a matched
  \<open>push\<close> and \<open>pop\<close> leave the options and the stack as they were.
\<close>

inductive option_block :: "string list \<Rightarrow> bool" where
  block_Nil: "option_block []"
| block_nested: "option_block xs \<Longrightarrow> option_block ys \<Longrightarrow> option_block (''push'' # xs @ ''pop'' # ys)"
| block_plain: "option_block ys \<Longrightarrow> name \<noteq> ''push'' \<Longrightarrow> name \<noteq> ''pop'' \<Longrightarrow> option_block (name # ys)"

code_pred option_block .

lemma s_riscv_option_stack:
  "tc_opts_stack (s_riscv_option name st) =
    (if name = ''push'' then tc_opts st # tc_opts_stack st
     else if name = ''pop'' then tl (tc_opts_stack st) else tc_opts_stack st)"
  by (auto simp: s_riscv_option_def riscv_set_rvc_def as_bad_def as_warn_def Let_def split: list.splits)

lemma s_riscv_option_pop:
  "tc_opts_stack st = s # rest \<Longrightarrow> s_riscv_option ''pop'' st = st\<lparr>tc_opts := s, tc_opts_stack := rest\<rparr>"
  by (simp add: s_riscv_option_def)

lemma option_block_stack:
  "option_block xs \<Longrightarrow> tc_opts_stack (fold s_riscv_option xs st) = tc_opts_stack st"
  by (induction arbitrary: st rule: option_block.induct) (simp_all add: s_riscv_option_stack)

lemma option_push_pop:
  assumes "option_block xs"
  shows "tc_opts (fold s_riscv_option (''push'' # xs @ [''pop'']) st) = tc_opts st"
    and "tc_opts_stack (fold s_riscv_option (''push'' # xs @ [''pop'']) st) = tc_opts_stack st"
proof -
  have "tc_opts_stack (fold s_riscv_option xs (s_riscv_option ''push'' st)) = tc_opts st # tc_opts_stack st"
    using option_block_stack [OF assms] by (simp add: s_riscv_option_stack)
  then show "tc_opts (fold s_riscv_option (''push'' # xs @ [''pop'']) st) = tc_opts st"
    and "tc_opts_stack (fold s_riscv_option (''push'' # xs @ [''pop'']) st) = tc_opts_stack st"
    by (simp_all add: s_riscv_option_pop)
qed

end
