(* ===== verification/TcRegs.thy ===== *)
theory TcRegs
  imports TcTables TcArch RiscvCsr
begin

text \<open>
  Names of registers, opcodes and enumerated operands, from \<open>gas/config/tc-riscv.c\<close>, and
  \<open>md_begin\<close>, which fills the four hash tables of the assembler. A lookup uses the value
  \<open>hash_find\<close> returns and drops the reordered table: by \<open>gas_table.find_twice\<close> the
  reordering has no effect on any later answer.
\<close>

subsection \<open>Tokens\<close>

text \<open>
  The character classes of \<open>read.h\<close> with the table \<open>lex_type\<close> of \<open>read.c\<close>; every
  \<open>LEX_*\<close> class of the configuration is 0 but \<open>LEX_DOLLAR\<close>, which is 3.
\<close>

definition lex_type :: "char \<Rightarrow> nat" where
  "lex_type c =
     (let n = of_char c :: nat
      in if c = CHR ''$'' \<or> c = CHR ''.'' \<or> c = CHR ''_'' then 3
         else if 48 \<le> n \<and> n \<le> 57 then 1
         else if 65 \<le> n \<and> n \<le> 90 then 3
         else if 97 \<le> n \<and> n \<le> 122 then 3
         else if 128 \<le> n then 3
         else 0)"

definition is_name_beginner :: "char \<Rightarrow> bool" where
  "is_name_beginner c \<longleftrightarrow> lex_type c AND 2 \<noteq> 0"

definition is_part_of_name :: "char \<Rightarrow> bool" where
  "is_part_of_name c \<longleftrightarrow> lex_type c AND 1 \<noteq> 0"

text \<open>The table \<open>is_end_of_line\<close> has NUL, newline and the separator \<open>;\<close> of the target.\<close>

definition is_end_of_line :: "char \<Rightarrow> bool" where
  "is_end_of_line c \<longleftrightarrow> c = CHR 0x00 \<or> c = CHR 0x0a \<or> c = CHR '';''"

text \<open>The name at the start of the string, and what follows it.\<close>

definition split_name :: "string \<Rightarrow> string \<times> string" where
  "split_name s =
     (case s of
        c # cs \<Rightarrow> if is_name_beginner c
                  then (c # takeWhile is_part_of_name cs, dropWhile is_part_of_name cs)
                  else (takeWhile is_part_of_name s, dropWhile is_part_of_name s)
      | [] \<Rightarrow> ([], []))"

lemma split_name_append: "split_name s = (name, rest) \<Longrightarrow> name @ rest = s"
  by (auto simp: split_name_def split: list.splits if_splits)

subsection \<open>Opcode names\<close>

definition opcode_name_list :: "(string \<times> u32) list" where
  "opcode_name_list = [
    (''C0'', 0x0), (''C1'', 0x1), (''C2'', 0x2),
    (''LOAD'', 0x03), (''LOAD_FP'', 0x07), (''CUSTOM_0'', 0x0b), (''MISC_MEM'', 0x0f),
    (''OP_IMM'', 0x13), (''AUIPC'', 0x17), (''OP_IMM_32'', 0x1b),
    (''STORE'', 0x23), (''STORE_FP'', 0x27), (''CUSTOM_1'', 0x2b), (''AMO'', 0x2f),
    (''OP'', 0x33), (''LUI'', 0x37), (''OP_32'', 0x3b),
    (''MADD'', 0x43), (''MSUB'', 0x47), (''NMADD'', 0x4f), (''NMSUB'', 0x4b),
    (''OP_FP'', 0x53), (''CUSTOM_2'', 0x5b),
    (''BRANCH'', 0x63), (''JALR'', 0x67), (''JAL'', 0x6f), (''SYSTEM'', 0x73),
    (''CUSTOM_3'', 0x7b)]"

definition cant_hash :: "string \<Rightarrow> string \<Rightarrow> fatal" where
  "cant_hash name retval = As_fatal (Diag (''internal error: can'' @ CHR 0x27 # ''t hash `%s'' @
     CHR 0x27 # '': %s'') [Str name, Str retval])"

text \<open>Entering the names of a list, as \<open>init_opcode_names_hash\<close> and \<open>hash_reg_names\<close> do.\<close>

fun hash_names :: "(string \<times> u32) list \<Rightarrow> u32 hash_control \<Rightarrow> u32 hash_control res" where
  "hash_names [] h = Inr h"
| "hash_names ((name, val) # rest) h =
     (case hash_insert h name val of
        (Some retval, h') \<Rightarrow> Inl (cant_hash name retval)
      | (None, h') \<Rightarrow> hash_names rest h')"

definition init_opcode_names_hash :: "u32 hash_control \<Rightarrow> u32 hash_control res" where
  "init_opcode_names_hash = hash_names opcode_name_list"

text \<open>
  The value found, the position after the token if one was recognised, and \<open>expr_end\<close>.
\<close>

definition opcode_name_lookup :: "u32 hash_control \<Rightarrow> string \<Rightarrow> u32 option \<times> string \<times> string" where
  "opcode_name_lookup h s =
     (let (name, e) = split_name s; ov = fst (hash_find h name)
      in (ov, (case ov of Some _ \<Rightarrow> e | None \<Rightarrow> s), e))"

subsection \<open>Registers\<close>

datatype reg_class = RCLASS_GPR | RCLASS_FPR | RCLASS_CSR

fun reg_class_num :: "reg_class \<Rightarrow> u32" where
  "reg_class_num RCLASS_GPR = 0"
| "reg_class_num RCLASS_FPR = 1"
| "reg_class_num RCLASS_CSR = 2"

abbreviation (input) RCLASS_MAX :: u32 where "RCLASS_MAX \<equiv> 3"

definition ENCODE_REG_HASH :: "reg_class \<Rightarrow> u32 \<Rightarrow> u32" where
  "ENCODE_REG_HASH cls n = n * RCLASS_MAX + reg_class_num cls + 1"

definition DECODE_REG_CLASS :: "u32 \<Rightarrow> u32" where
  "DECODE_REG_CLASS hash = (hash - 1) mod RCLASS_MAX"

definition DECODE_REG_NUM :: "u32 \<Rightarrow> u32" where
  "DECODE_REG_NUM hash = (hash - 1) div RCLASS_MAX"

definition hash_reg_name :: "reg_class \<Rightarrow> string \<Rightarrow> u32 \<Rightarrow> u32 hash_control \<Rightarrow> u32 hash_control res" where
  "hash_reg_name cls name n = hash_names [(name, ENCODE_REG_HASH cls n)]"

definition hash_reg_names :: "reg_class \<Rightarrow> string list \<Rightarrow> nat \<Rightarrow> u32 hash_control \<Rightarrow> u32 hash_control res" where
  "hash_reg_names cls names n =
     hash_names (map (\<lambda>i. (names ! i, ENCODE_REG_HASH cls (word_of_nat i))) [0..<n])"

text \<open>\<open>None\<close> stands for the return value \<open>-1\<close>.\<close>

definition reg_lookup_internal :: "tc_state \<Rightarrow> string \<Rightarrow> reg_class \<Rightarrow> u32 option" where
  "reg_lookup_internal st s cls =
     (case tc_reg_names_hash st of None \<Rightarrow> None
      | Some h \<Rightarrow>
          (case fst (hash_find h s) of None \<Rightarrow> None
           | Some r \<Rightarrow>
               if DECODE_REG_CLASS r \<noteq> reg_class_num cls then None
               else if opt_rve (tc_opts st) \<and> cls = RCLASS_GPR \<and> DECODE_REG_NUM r > 15 then None
               else Some (DECODE_REG_NUM r)))"

definition reg_lookup :: "tc_state \<Rightarrow> string \<Rightarrow> reg_class \<Rightarrow> (u32 \<times> string) option" where
  "reg_lookup st s cls =
     (let (name, e) = split_name s
      in map_option (\<lambda>reg. (reg, e)) (reg_lookup_internal st name cls))"

definition tc_riscv_regname_to_dw2regnum :: "tc_state \<Rightarrow> string \<Rightarrow> u32 + diag" where
  "tc_riscv_regname_to_dw2regnum st regname =
     (case reg_lookup_internal st regname RCLASS_GPR of
        Some reg \<Rightarrow> Inl reg
      | None \<Rightarrow>
          (case reg_lookup_internal st regname RCLASS_FPR of
             Some reg \<Rightarrow> Inl (reg + 32)
           | None \<Rightarrow> Inr (Diag (''unknown register `%s'' @ [CHR 0x27]) [Str regname])))"

subsection \<open>Enumerated operands\<close>

definition riscv_rm :: "string option list" where
  "riscv_rm = [Some ''rne'', Some ''rtz'', Some ''rdn'', Some ''rup'', Some ''rmm'', None, None,
     Some ''dyn'']"

definition riscv_pred_succ :: "string option list" where
  "riscv_pred_succ = [None, Some ''w'', Some ''r'', Some ''rw'', Some ''o'', Some ''ow'', Some ''or'',
     Some ''orw'', Some ''i'', Some ''iw'', Some ''ir'', Some ''irw'', Some ''io'', Some ''iow'',
     Some ''ior'', Some ''iorw'']"

text \<open>\<open>strncmp (a, s, len) == 0\<close>, for \<open>len\<close> not beyond the end of \<open>s\<close>.\<close>

definition strneq :: "string \<Rightarrow> string \<Rightarrow> nat \<Rightarrow> bool" where
  "strneq a s len \<longleftrightarrow> take len a = take len s"

fun arg_lookup_from :: "nat \<Rightarrow> string option list \<Rightarrow> string \<Rightarrow> nat \<Rightarrow> (u32 \<times> string) option" where
  "arg_lookup_from i [] s len = None"
| "arg_lookup_from i (x # xs) s len =
     (case x of
        Some a \<Rightarrow> if strneq a s len then Some (word_of_nat i, drop len s)
                  else arg_lookup_from (Suc i) xs s len
      | None \<Rightarrow> arg_lookup_from (Suc i) xs s len)"

definition arg_lookup :: "string \<Rightarrow> string option list \<Rightarrow> (u32 \<times> string) option" where
  "arg_lookup s xs = arg_lookup_from 0 xs s (length (takeWhile (\<lambda>c. c \<noteq> CHR '','') s))"

subsection \<open>Start-up of the target\<close>

text \<open>
  \<open>bfd_set_arch_mach\<close> belongs to the object file library; its result is the parameter
  \<open>arch_ok\<close>. The second result is the alignment recorded for the text section.
\<close>

definition md_begin :: "bool \<Rightarrow> tc_state \<Rightarrow> (tc_state \<times> nat) res" where
  "md_begin arch_ok st =
     (let st = (if \<not> arch_ok then as_warn (Diag ''Could not set architecture and machine'' []) st else st);
          drop_bad = (\<lambda>r. case r of Inl (msgs, e) \<Rightarrow> Inl e | Inr h \<Rightarrow> Inr h)
      in and_then (drop_bad (init_opcode_hash riscv_opcodes False)) (\<lambda>op_hash.
         and_then (drop_bad (init_opcode_hash riscv_insn_types True)) (\<lambda>insn_type_hash.
         and_then (hash_reg_names RCLASS_GPR riscv_gpr_names_numeric 32 hash_new) (\<lambda>regs.
         and_then (hash_reg_names RCLASS_GPR riscv_gpr_names_abi 32 regs) (\<lambda>regs.
         and_then (hash_reg_names RCLASS_FPR riscv_fpr_names_numeric 32 regs) (\<lambda>regs.
         and_then (hash_reg_names RCLASS_FPR riscv_fpr_names_abi 32 regs) (\<lambda>regs.
         and_then (init_opcode_names_hash hash_new) (\<lambda>names.
         and_then (hash_names (map (\<lambda>(name, num). (name, ENCODE_REG_HASH RCLASS_CSR num))
                     csr_declarations) regs) (\<lambda>regs.
         Inr (st\<lparr>tc_op_hash := Some op_hash, tc_insn_type_hash := Some insn_type_hash,
                tc_reg_names_hash := Some regs, tc_opcode_names_hash := Some names\<rparr>,
              if opt_rvc (tc_opts st) then 1 else 2))))))))))"

subsection \<open>Filling a table from names\<close>

lemma hash_names_insert_all:
  "hash_names kvs h = Inr h' \<longleftrightarrow> gas_table.insert_all kvs h = Inr h'"
  by (induction kvs arbitrary: h) (auto split: option.splits prod.splits)

text \<open>The contract of the table carries over: distinct fresh names are all entered.\<close>

lemma hash_names_ok:
  assumes "hash_inv h" and "distinct (map fst kvs)" and "\<forall>k \<in> set (map fst kvs). hash_abs h k = None"
  shows "\<exists>h'. hash_names kvs h = Inr h' \<and> hash_inv h' \<and> hash_abs h' = hash_abs h ++ map_of kvs"
  using gas_table.insert_all_ok [OF assms] unfolding hash_names_insert_all .

lemma hash_names_append:
  "hash_names (xs @ ys) h = and_then (hash_names xs h) (hash_names ys)"
  by (induction xs arbitrary: h) (auto split: option.splits prod.splits)

end
