(* ===== verification/TcBegin.thy ===== *)
theory TcBegin
  imports TcRegs
begin

text \<open>
  What \<open>md_begin\<close> establishes: it never fails, a mnemonic finds the first of its entries in
  both opcode tables, and a register name finds its number in its own class only.
\<close>

subsection \<open>The register names\<close>

text \<open>The names \<open>md_begin\<close> enters, with class and number, in its order.\<close>

definition register_names :: "(string \<times> reg_class \<times> u32) list" where
  "register_names =
     map (\<lambda>i. (riscv_gpr_names_numeric ! i, RCLASS_GPR, word_of_nat i)) [0..<32] @
     map (\<lambda>i. (riscv_gpr_names_abi ! i, RCLASS_GPR, word_of_nat i)) [0..<32] @
     map (\<lambda>i. (riscv_fpr_names_numeric ! i, RCLASS_FPR, word_of_nat i)) [0..<32] @
     map (\<lambda>i. (riscv_fpr_names_abi ! i, RCLASS_FPR, word_of_nat i)) [0..<32] @
     map (\<lambda>(name, num). (name, RCLASS_CSR, num)) csr_declarations"

definition reg_hash_pairs :: "(string \<times> u32) list" where
  "reg_hash_pairs = map (\<lambda>(name, cls, n). (name, ENCODE_REG_HASH cls n)) register_names"

lemma register_names_distinct: "distinct (map fst register_names)"
proof (rule distinct_by_key)
  show "distinct (map name_key (map fst register_names))"
    unfolding register_names_def csr_declarations_def csr_declarations_low_def
      csr_declarations_high_def riscv_gpr_names_numeric_def riscv_gpr_names_abi_def
      riscv_fpr_names_numeric_def riscv_fpr_names_abi_def
    by (simp add: upt_rec name_key_def)
qed

lemma hash_reg_names_pairs:
  "hash_reg_names cls names n =
     hash_names (map (\<lambda>(name, c, i). (name, ENCODE_REG_HASH c i))
       (map (\<lambda>i. (names ! i, cls, word_of_nat i)) [0..<n]))"
  by (simp add: hash_reg_names_def o_def)

lemma and_then_assoc: "and_then (and_then r f) g = and_then r (\<lambda>a. and_then (f a) g)"
  by (cases r) simp_all

lemma hash_names_append_fun:
  "hash_names (xs @ ys) = (\<lambda>h. and_then (hash_names xs h) (hash_names ys))"
  by (rule ext) (rule hash_names_append)

text \<open>The five loops over the names are one loop over all of them.\<close>

lemma md_begin_registers:
  "and_then (hash_reg_names RCLASS_GPR riscv_gpr_names_numeric 32 hash_new) (\<lambda>regs.
   and_then (hash_reg_names RCLASS_GPR riscv_gpr_names_abi 32 regs) (\<lambda>regs.
   and_then (hash_reg_names RCLASS_FPR riscv_fpr_names_numeric 32 regs) (\<lambda>regs.
   and_then (hash_reg_names RCLASS_FPR riscv_fpr_names_abi 32 regs) (\<lambda>regs.
   hash_names (map (\<lambda>(name, num). (name, ENCODE_REG_HASH RCLASS_CSR num)) csr_declarations) regs)))) =
   hash_names reg_hash_pairs hash_new"
  unfolding reg_hash_pairs_def register_names_def hash_reg_names_pairs
  by (simp add: hash_names_append_fun o_def case_prod_unfold)

lemma reg_hash_ok: "\<exists>regs. hash_names reg_hash_pairs hash_new = Inr regs \<and> hash_inv regs \<and>
    hash_abs regs = map_of reg_hash_pairs"
proof -
  have "map fst reg_hash_pairs = map fst register_names"
    by (simp add: reg_hash_pairs_def case_prod_unfold o_def)
  with hash_names_ok [OF hash_new_inv, of reg_hash_pairs] register_names_distinct
  show ?thesis by (simp add: hash_new_abs)
qed

lemma opcode_name_list_distinct: "distinct (map fst opcode_name_list)"
  by (simp add: opcode_name_list_def)

lemma opcode_names_ok: "\<exists>h. init_opcode_names_hash hash_new = Inr h \<and> hash_inv h \<and>
    hash_abs h = map_of opcode_name_list"
  using hash_names_ok [OF hash_new_inv, of opcode_name_list] opcode_name_list_distinct
  by (simp add: hash_new_abs init_opcode_names_hash_def)

lemma op_hash_ok: "\<exists>h. init_opcode_hash riscv_opcodes False = Inr h \<and> hash_inv h \<and>
    hash_abs h = first_entry riscv_opcodes"
  by (rule init_opcode_hash_ok [OF riscv_opcodes_valid riscv_opcodes_names_distinct])

lemma insn_type_hash_ok: "\<exists>h. init_opcode_hash riscv_insn_types True = Inr h \<and> hash_inv h \<and>
    hash_abs h = first_entry riscv_insn_types"
  by (rule init_opcode_hash_ok [OF riscv_insn_types_valid riscv_insn_types_names_distinct])

subsection \<open>The started target\<close>

text \<open>The invariant on the state that holds from \<open>md_begin\<close> on.\<close>

definition tc_started :: "tc_state \<Rightarrow> bool" where
  "tc_started st \<longleftrightarrow> (\<exists>ops types regs names.
     tc_op_hash st = Some ops \<and> hash_inv ops \<and> hash_abs ops = first_entry riscv_opcodes \<and>
     tc_insn_type_hash st = Some types \<and> hash_inv types \<and> hash_abs types = first_entry riscv_insn_types \<and>
     tc_reg_names_hash st = Some regs \<and> hash_inv regs \<and> hash_abs regs = map_of reg_hash_pairs \<and>
     tc_opcode_names_hash st = Some names \<and> hash_inv names \<and> hash_abs names = map_of opcode_name_list)"

lemma md_begin_ok:
  "\<exists>st' align. md_begin arch_ok st = Inr (st', align) \<and> tc_started st' \<and>
     align = (if opt_rvc (tc_opts st) then 1 else 2) \<and> tc_opts st' = tc_opts st \<and>
     tc_xlen st' = tc_xlen st \<and> tc_subsets st' = tc_subsets st"
proof -
  obtain ops where ops: "init_opcode_hash riscv_opcodes False = Inr ops" "hash_inv ops"
    "hash_abs ops = first_entry riscv_opcodes" using op_hash_ok by blast
  obtain types where types: "init_opcode_hash riscv_insn_types True = Inr types" "hash_inv types"
    "hash_abs types = first_entry riscv_insn_types" using insn_type_hash_ok by blast
  obtain names where names: "init_opcode_names_hash hash_new = Inr names" "hash_inv names"
    "hash_abs names = map_of opcode_name_list" using opcode_names_ok by blast
  obtain regs where regs: "hash_names reg_hash_pairs hash_new = Inr regs" "hash_inv regs"
    "hash_abs regs = map_of reg_hash_pairs" using reg_hash_ok by blast
  have "and_then (hash_reg_names RCLASS_GPR riscv_gpr_names_numeric 32 hash_new) (\<lambda>r.
    and_then (hash_reg_names RCLASS_GPR riscv_gpr_names_abi 32 r) (\<lambda>r.
    and_then (hash_reg_names RCLASS_FPR riscv_fpr_names_numeric 32 r) (\<lambda>r.
    and_then (hash_reg_names RCLASS_FPR riscv_fpr_names_abi 32 r) (\<lambda>r.
    and_then (hash_names (map (\<lambda>(name, num). (name, ENCODE_REG_HASH RCLASS_CSR num)) csr_declarations) r)
      F)))) = F regs" for F :: "u32 hash_control \<Rightarrow> (tc_state \<times> nat) res"
    using md_begin_registers [THEN arg_cong, of "\<lambda>r. and_then r F"] regs(1)
    by (simp add: and_then_assoc)
  then show ?thesis
    using ops types names regs
    by (simp add: md_begin_def tc_started_def as_warn_def)
qed

text \<open>A class and number are recovered from their code.\<close>

lemma decode_reg_hash:
  assumes "n < 0x10000"
  shows "DECODE_REG_CLASS (ENCODE_REG_HASH cls n) = reg_class_num cls"
    and "DECODE_REG_NUM (ENCODE_REG_HASH cls n) = n"
proof -
  have c: "unat (reg_class_num cls) < 3" by (cases cls) simp_all
  have n: "unat n < 0x10000" using assms by (simp add: word_less_nat_alt)
  have u: "unat (n * 3 + reg_class_num cls) = unat n * 3 + unat (reg_class_num cls)"
    using c n by (simp add: unat_word_ariths)
  have "(n * 3 + reg_class_num cls) mod 3 = reg_class_num cls \<and>
    (n * 3 + reg_class_num cls) div 3 = n"
    using c by (simp add: word_unat_eq_iff unat_mod_distrib unat_div_distrib u)
  then show "DECODE_REG_CLASS (ENCODE_REG_HASH cls n) = reg_class_num cls"
    "DECODE_REG_NUM (ENCODE_REG_HASH cls n) = n"
    by (simp_all add: DECODE_REG_CLASS_def DECODE_REG_NUM_def ENCODE_REG_HASH_def)
qed

lemma register_names_small: "\<forall>(name, cls, n) \<in> set register_names. n < 0x10000"
proof -
  have "list_all (\<lambda>(name, n). n < 0x10000) csr_declarations"
    by (simp add: csr_declarations_def csr_declarations_low_def csr_declarations_high_def)
  then have "\<forall>(name, n) \<in> set csr_declarations. n < 0x10000" by (simp add: list_all_iff)
  moreover have "word_of_nat i < (0x10000 :: u32)" if "i < 32" for i
    using that by (simp add: word_less_nat_alt unat_of_nat take_bit_nat_eq_self)
  ultimately show ?thesis unfolding register_names_def by fastforce
qed

lemma reg_class_num_eq_iff: "reg_class_num c = reg_class_num d \<longleftrightarrow> c = d"
  by (cases c; cases d) simp_all

text \<open>A lookup of a register name, as a table lookup.\<close>

lemma map_of_map_snd:
  "map_of (map (\<lambda>(k, v). (k, f v)) xs) k = map_option f (map_of xs k)"
  by (induction xs) auto

lemma reg_lookup_internal_started:
  assumes "tc_started st"
  shows "reg_lookup_internal st s cls =
    (case map_of register_names s of
       Some (c, n) \<Rightarrow> if c = cls \<and> \<not> (opt_rve (tc_opts st) \<and> cls = RCLASS_GPR \<and> n > 15)
                      then Some n else None
     | None \<Rightarrow> None)"
proof -
  obtain regs where regs: "tc_reg_names_hash st = Some regs" "hash_inv regs"
    "hash_abs regs = map_of reg_hash_pairs" using assms by (auto simp: tc_started_def)
  have look: "fst (hash_find regs s) =
    map_option (\<lambda>(c, n). ENCODE_REG_HASH c n) (map_of register_names s)"
    using regs(2,3) map_of_map_snd [of "\<lambda>(c, n). ENCODE_REG_HASH c n" register_names s]
    by (simp add: hash_find_cases reg_hash_pairs_def case_prod_unfold)
  show ?thesis
  proof (cases "map_of register_names s")
    case None
    with look regs(1) show ?thesis by (simp add: reg_lookup_internal_def)
  next
    case (Some cn)
    obtain c n where cn: "cn = (c, n)" by (cases cn)
    with Some have "n < 0x10000" using register_names_small map_of_SomeD by fastforce
    with Some cn look regs(1) show ?thesis
      by (auto simp: reg_lookup_internal_def decode_reg_hash reg_class_num_eq_iff)
  qed
qed

end
