(* ===== verification/BfdBytes.thy ===== *)
theory BfdBytes
  imports GasDiag
begin

text \<open>
  Reading and writing integers in a byte buffer, from \<open>bfd/libbfd.c\<close>, and
  \<open>number_to_chars_littleendian\<close> of \<open>gas/write.c\<close>. A buffer is a list of bytes; a
  pointer into it is an index. The locale \<open>byte_access\<close> states what a pair of a reader
  and a writer promises; the accessors of both byte orders are proved to be instances.
\<close>

subsection \<open>Accessors\<close>

definition COERCE16 :: "bfd_vma \<Rightarrow> bfd_vma" where
  "COERCE16 x = (x XOR 0x8000) - 0x8000"

definition COERCE32 :: "bfd_vma \<Rightarrow> bfd_vma" where
  "COERCE32 x = (x XOR 0x80000000) - 0x80000000"

text \<open>\<open>data & 0xff\<close> stored into a byte, and a byte widened.\<close>

definition low_byte :: "'a::len word \<Rightarrow> byte" where
  "low_byte x = ucast (x AND 0xff)"

abbreviation (input) widen :: "byte \<Rightarrow> bfd_vma" where "widen b \<equiv> ucast b"

definition bfd_getb16 :: "byte list \<Rightarrow> nat \<Rightarrow> bfd_vma" where
  "bfd_getb16 buf p = shl (widen (buf ! p)) 8 OR widen (buf ! (p + 1))"

definition bfd_getl16 :: "byte list \<Rightarrow> nat \<Rightarrow> bfd_vma" where
  "bfd_getl16 buf p = shl (widen (buf ! (p + 1))) 8 OR widen (buf ! p)"

definition bfd_getb_signed_16 :: "byte list \<Rightarrow> nat \<Rightarrow> bfd_vma" where
  "bfd_getb_signed_16 buf p = COERCE16 (shl (widen (buf ! p)) 8 OR widen (buf ! (p + 1)))"

definition bfd_getl_signed_16 :: "byte list \<Rightarrow> nat \<Rightarrow> bfd_vma" where
  "bfd_getl_signed_16 buf p = COERCE16 (shl (widen (buf ! (p + 1))) 8 OR widen (buf ! p))"

definition bfd_putb16 :: "bfd_vma \<Rightarrow> byte list \<Rightarrow> nat \<Rightarrow> byte list" where
  "bfd_putb16 data buf p = buf[p := low_byte (shr data 8), p + 1 := low_byte data]"

definition bfd_putl16 :: "bfd_vma \<Rightarrow> byte list \<Rightarrow> nat \<Rightarrow> byte list" where
  "bfd_putl16 data buf p = buf[p := low_byte data, p + 1 := low_byte (shr data 8)]"

definition bfd_putb24 :: "bfd_vma \<Rightarrow> byte list \<Rightarrow> nat \<Rightarrow> byte list" where
  "bfd_putb24 data buf p = buf[p := low_byte (shr data 16), p + 1 := low_byte (shr data 8),
     p + 2 := low_byte data]"

definition bfd_putl24 :: "bfd_vma \<Rightarrow> byte list \<Rightarrow> nat \<Rightarrow> byte list" where
  "bfd_putl24 data buf p = buf[p := low_byte data, p + 1 := low_byte (shr data 8),
     p + 2 := low_byte (shr data 16)]"

definition bfd_getb32 :: "byte list \<Rightarrow> nat \<Rightarrow> bfd_vma" where
  "bfd_getb32 buf p = shl (widen (buf ! p)) 24 OR shl (widen (buf ! (p + 1))) 16 OR
     shl (widen (buf ! (p + 2))) 8 OR widen (buf ! (p + 3))"

definition bfd_getl32 :: "byte list \<Rightarrow> nat \<Rightarrow> bfd_vma" where
  "bfd_getl32 buf p = widen (buf ! p) OR shl (widen (buf ! (p + 1))) 8 OR
     shl (widen (buf ! (p + 2))) 16 OR shl (widen (buf ! (p + 3))) 24"

definition bfd_getb_signed_32 :: "byte list \<Rightarrow> nat \<Rightarrow> bfd_vma" where
  "bfd_getb_signed_32 buf p = COERCE32 (bfd_getb32 buf p)"

definition bfd_getl_signed_32 :: "byte list \<Rightarrow> nat \<Rightarrow> bfd_vma" where
  "bfd_getl_signed_32 buf p = COERCE32 (bfd_getl32 buf p)"

definition bfd_putb32 :: "bfd_vma \<Rightarrow> byte list \<Rightarrow> nat \<Rightarrow> byte list" where
  "bfd_putb32 data buf p = buf[p := low_byte (shr data 24), p + 1 := low_byte (shr data 16),
     p + 2 := low_byte (shr data 8), p + 3 := low_byte data]"

definition bfd_putl32 :: "bfd_vma \<Rightarrow> byte list \<Rightarrow> nat \<Rightarrow> byte list" where
  "bfd_putl32 data buf p = buf[p := low_byte data, p + 1 := low_byte (shr data 8),
     p + 2 := low_byte (shr data 16), p + 3 := low_byte (shr data 24)]"

text \<open>
  The loops of \<open>bfd_put_bits\<close> and \<open>bfd_get_bits\<close> from iteration \<open>i\<close> on; a number
  of bits that is not a multiple of 8 aborts.
\<close>

fun put_bytes :: "nat \<Rightarrow> nat \<Rightarrow> nat \<Rightarrow> bool \<Rightarrow> 64 word \<Rightarrow> byte list \<Rightarrow> nat \<Rightarrow> byte list" where
  "put_bytes 0 i bytes big_p data buf p = buf"
| "put_bytes (Suc n) i bytes big_p data buf p =
     (let addr_index = (if big_p then bytes - i - 1 else i)
      in put_bytes n (Suc i) bytes big_p (shr data 8) (buf[p + addr_index := low_byte data]) p)"

fun get_bytes :: "nat \<Rightarrow> nat \<Rightarrow> nat \<Rightarrow> bool \<Rightarrow> 64 word \<Rightarrow> byte list \<Rightarrow> nat \<Rightarrow> 64 word" where
  "get_bytes 0 i bytes big_p data buf p = data"
| "get_bytes (Suc n) i bytes big_p data buf p =
     (let addr_index = (if big_p then i else bytes - i - 1)
      in get_bytes n (Suc i) bytes big_p (shl data 8 OR ucast (buf ! (p + addr_index))) buf p)"

definition bfd_put_bits :: "64 word \<Rightarrow> byte list \<Rightarrow> nat \<Rightarrow> nat \<Rightarrow> bool \<Rightarrow> byte list res" where
  "bfd_put_bits data buf p bits big_p =
     (if bits mod 8 \<noteq> 0 then Inl Abort
      else Inr (put_bytes (bits div 8) 0 (bits div 8) big_p data buf p))"

definition bfd_get_bits :: "byte list \<Rightarrow> nat \<Rightarrow> nat \<Rightarrow> bool \<Rightarrow> 64 word res" where
  "bfd_get_bits buf p bits big_p =
     (if bits mod 8 \<noteq> 0 then Inl Abort
      else Inr (get_bytes (bits div 8) 0 (bits div 8) big_p 0 buf p))"

definition bfd_putl64 :: "64 word \<Rightarrow> byte list \<Rightarrow> nat \<Rightarrow> byte list" where
  "bfd_putl64 data buf p = buf[p + 7 := low_byte (shr data (7 * 8)), p + 6 := low_byte (shr data (6 * 8)),
     p + 5 := low_byte (shr data (5 * 8)), p + 4 := low_byte (shr data (4 * 8)),
     p + 3 := low_byte (shr data (3 * 8)), p + 2 := low_byte (shr data (2 * 8)),
     p + 1 := low_byte (shr data (1 * 8)), p := low_byte (shr data (0 * 8))]"

definition bfd_getl64 :: "byte list \<Rightarrow> nat \<Rightarrow> 64 word" where
  "bfd_getl64 buf p =
     (let b = (\<lambda>i. ucast (buf ! (p + i)) :: 64 word); v = b 7;
          v = shl v 8 OR b 6; v = shl v 8 OR b 5; v = shl v 8 OR b 4; v = shl v 8 OR b 3;
          v = shl v 8 OR b 2; v = shl v 8 OR b 1
      in shl v 8 OR b 0)"

text \<open>\<open>val\<close> is a 32-bit \<open>valueT\<close>; a longer number is padded with zero bytes.\<close>

fun le_bytes :: "valueT \<Rightarrow> nat \<Rightarrow> byte list" where
  "le_bytes val 0 = []"
| "le_bytes val (Suc n) = low_byte val # le_bytes (shr val 8) n"

text \<open>Storing a run of bytes at an index.\<close>

definition store_bytes :: "byte list \<Rightarrow> nat \<Rightarrow> byte list \<Rightarrow> byte list" where
  "store_bytes bs p buf = take p buf @ take (length buf - p) bs @ drop (p + length bs) buf"

definition number_to_chars_littleendian :: "byte list \<Rightarrow> nat \<Rightarrow> valueT \<Rightarrow> nat \<Rightarrow> byte list res" where
  "number_to_chars_littleendian buf p val n =
     (if n = 0 then Inl Abort else Inr (store_bytes (le_bytes val n) p buf))"

subsection \<open>The interface\<close>

text \<open>
  A writer of \<open>n\<close> bytes and its reader: what is written is read back up to the width, and
  nothing else changes. The lemmas of the client follow for read-modify-write.
\<close>

locale byte_access =
  fixes n :: nat
    and get :: "byte list \<Rightarrow> nat \<Rightarrow> 'a::len word"
    and put :: "'a::len word \<Rightarrow> byte list \<Rightarrow> nat \<Rightarrow> byte list"
  assumes get_put: "p + n \<le> length buf \<Longrightarrow> get (put v buf p) p = take_bit (8 * n) v"
    and put_length: "length (put v buf p) = length buf"
    and put_frame: "i < p \<or> p + n \<le> i \<Longrightarrow> put v buf p ! i = buf ! i"
    and get_local: "(\<And>i. p \<le> i \<Longrightarrow> i < p + n \<Longrightarrow> b ! i = c ! i) \<Longrightarrow> get b p = get c p"
    and get_range: "take_bit (8 * n) (get buf p) = get buf p"
begin

text \<open>Reading beside a write.\<close>

lemma get_put_disjoint:
  "q + n \<le> p \<or> p + n \<le> q \<Longrightarrow> get (put v buf p) q = get buf q"
  by (rule get_local) (auto intro: put_frame)

text \<open>Setting bits of a stored integer and reading the result.\<close>

lemma get_put_or: "p + n \<le> length buf \<Longrightarrow>
    get (put (get buf p OR v) buf p) p = get buf p OR take_bit (8 * n) v"
  by (simp add: get_put get_range take_bit_or)

lemma put_put_get: "p + n \<le> length buf \<Longrightarrow> get (put v (put w buf p) p) p = take_bit (8 * n) v"
  by (simp add: get_put put_length)

end

subsection \<open>The instances\<close>

lemma low_byte_eq: "low_byte x = ucast x"
proof -
  have m: "(0xff :: 'b::len word) = mask 8" by (simp add: mask_numeral)
  show ?thesis
    unfolding low_byte_def m by (rule bit_word_eqI) (auto simp: bit_simps dest: bit_imp_le_length)
qed

lemma bit_low_byte [word_bits]: "bit (low_byte x) i \<longleftrightarrow> i < 8 \<and> bit x i"
  by (auto simp: low_byte_eq bit_simps)

lemma bit_byte_high: "8 \<le> i \<Longrightarrow> \<not> bit (b :: byte) i"
  using bit_imp_le_length [of b i] by auto

lemmas access_defs = bfd_getb16_def bfd_getl16_def bfd_putb16_def bfd_putl16_def bfd_getb32_def
  bfd_getl32_def bfd_putb32_def bfd_putl32_def

lemmas access_bits = access_defs word_bits nth_list_update all_bits bit_byte_high

interpretation l16: byte_access 2 bfd_getl16 bfd_putl16
  by unfold_locales (simp_all add: word32_eq_iff access_bits, auto)

interpretation b16: byte_access 2 bfd_getb16 bfd_putb16
  by unfold_locales (simp_all add: word32_eq_iff access_bits, auto)

interpretation l32: byte_access 4 bfd_getl32 bfd_putl32
  by unfold_locales (simp_all add: word32_eq_iff access_bits, auto)

interpretation b32: byte_access 4 bfd_getb32 bfd_putb32
  by unfold_locales (simp_all add: word32_eq_iff access_bits, auto)


lemma shr_0 [simp]: "shr x 0 = x"
  by (simp add: shr_def)

lemma shl_0 [simp]: "shl x 0 = x"
  by (simp add: shl_def)

text \<open>Storing a run of bytes.\<close>

lemma length_le_bytes [simp]: "length (le_bytes val n) = n"
  by (induction n arbitrary: val) simp_all

lemma nth_le_bytes: "i < n \<Longrightarrow> le_bytes val n ! i = low_byte (shr val (8 * i))"
proof (induction n arbitrary: val i)
  case (Suc n)
  have "shr (shr val 8) (8 * j) = shr val (8 + 8 * j)" for j
    by (rule bit_word_eqI) (simp add: word_bits algebra_simps)
  moreover have "shr val 0 = val" by (rule bit_word_eqI) (simp add: word_bits)
  ultimately show ?case using Suc by (cases i) simp_all
qed simp

lemma length_store_bytes [simp]: "length (store_bytes bs p buf) = length buf"
  by (auto simp: store_bytes_def min_def)

lemma nth_store_bytes:
  "i < length buf \<Longrightarrow> store_bytes bs p buf ! i =
    (if p \<le> i \<and> i < p + length bs then bs ! (i - p) else buf ! i)"
  by (auto simp: store_bytes_def nth_append min_def)

text \<open>The little-endian writers agree with \<open>number_to_chars_littleendian\<close>.\<close>

lemma shr_shr [simp]: "shr (shr x a) b = shr x (a + b)"
  by (rule bit_word_eqI) (simp add: word_bits algebra_simps)

lemma le_bytes_2: "le_bytes v 2 = [low_byte v, low_byte (shr v 8)]"
  by (simp add: numeral_2_eq_2)

lemma le_bytes_4:
  "le_bytes v 4 = [low_byte v, low_byte (shr v 8), low_byte (shr v 16), low_byte (shr v 24)]"
proof -
  have "(4::nat) = Suc (Suc (Suc (Suc 0)))" by simp
  then show ?thesis by (simp only: le_bytes.simps) simp
qed

lemma number_to_chars_2:
  "p + 2 \<le> length buf \<Longrightarrow> number_to_chars_littleendian buf p v 2 = Inr (bfd_putl16 v buf p)"
  by (auto simp: number_to_chars_littleendian_def bfd_putl16_def nth_store_bytes le_bytes_2
      nth_list_update nth_Cons' intro!: nth_equalityI)

lemma number_to_chars_4:
  "p + 4 \<le> length buf \<Longrightarrow> number_to_chars_littleendian buf p v 4 = Inr (bfd_putl32 v buf p)"
  by (auto simp: number_to_chars_littleendian_def bfd_putl32_def nth_store_bytes le_bytes_4
      nth_list_update nth_Cons' intro!: nth_equalityI)

end
