(* ===== verification/RiscvHowto.thy ===== *)
theory RiscvHowto
  imports RiscvEncoding CString BfdBytes
begin

text \<open>
  The relocation types of the target, from \<open>bfd/elfxx-riscv.c\<close>: the table
  \<open>howto_table\<close>, indexed by the ELF relocation number, the map \<open>riscv_reloc_map\<close> from
  the codes the assembler uses, the three lookups, and the handler
  \<open>riscv_elf_add_sub_reloc\<close> of the ADD and SUB relocations.
\<close>

subsection \<open>Relocation codes and numbers\<close>

text \<open>
  The codes of \<open>bfd_reloc_code_real_type\<close> that the target names; every other code of the
  library is \<open>BFD_RELOC_OTHER\<close> of its number. \<open>BFD_RELOC_UNUSED\<close> is no
  relocation.
\<close>

datatype (plugins only: ) bfd_reloc = BFD_RELOC_UNUSED | BFD_RELOC_CTOR | BFD_RELOC_NONE | BFD_RELOC_32 | BFD_RELOC_64 | BFD_RELOC_RISCV_ADD8 | BFD_RELOC_RISCV_ADD16
  | BFD_RELOC_RISCV_ADD32 | BFD_RELOC_RISCV_ADD64 | BFD_RELOC_RISCV_SUB8 |
  BFD_RELOC_RISCV_SUB16 | BFD_RELOC_RISCV_SUB32 | BFD_RELOC_RISCV_SUB64 | BFD_RELOC_12_PCREL |
  BFD_RELOC_RISCV_HI20 | BFD_RELOC_RISCV_LO12_I | BFD_RELOC_RISCV_LO12_S |
  BFD_RELOC_RISCV_PCREL_LO12_I | BFD_RELOC_RISCV_PCREL_LO12_S | BFD_RELOC_RISCV_CALL |
  BFD_RELOC_RISCV_CALL_PLT | BFD_RELOC_RISCV_PCREL_HI20 | BFD_RELOC_RISCV_JMP |
  BFD_RELOC_RISCV_GOT_HI20 | BFD_RELOC_RISCV_TLS_DTPMOD32 | BFD_RELOC_RISCV_TLS_DTPREL32 |
  BFD_RELOC_RISCV_TLS_DTPMOD64 | BFD_RELOC_RISCV_TLS_DTPREL64 | BFD_RELOC_RISCV_TLS_TPREL32 |
  BFD_RELOC_RISCV_TLS_TPREL64 | BFD_RELOC_RISCV_TPREL_HI20 | BFD_RELOC_RISCV_TPREL_ADD |
  BFD_RELOC_RISCV_TPREL_LO12_S | BFD_RELOC_RISCV_TPREL_LO12_I | BFD_RELOC_RISCV_TLS_GOT_HI20 |
  BFD_RELOC_RISCV_TLS_GD_HI20 | BFD_RELOC_RISCV_ALIGN | BFD_RELOC_RISCV_RVC_BRANCH |
  BFD_RELOC_RISCV_RVC_JUMP | BFD_RELOC_RISCV_RVC_LUI | BFD_RELOC_RISCV_GPREL_I |
  BFD_RELOC_RISCV_GPREL_S | BFD_RELOC_RISCV_TPREL_I | BFD_RELOC_RISCV_TPREL_S |
  BFD_RELOC_RISCV_RELAX | BFD_RELOC_RISCV_SUB6 | BFD_RELOC_RISCV_SET6 | BFD_RELOC_RISCV_SET8 |
  BFD_RELOC_RISCV_SET16 | BFD_RELOC_RISCV_SET32 | BFD_RELOC_RISCV_32_PCREL | BFD_RELOC_16 |
  BFD_RELOC_8 | BFD_RELOC_RISCV_CFA | BFD_RELOC_RVA |
  BFD_RELOC_OTHER nat

text \<open>The numbers of \<open>elf/riscv.h\<close>.\<close>

abbreviation (input) R_RISCV_NONE :: nat where "R_RISCV_NONE \<equiv> 0"
abbreviation (input) R_RISCV_32 :: nat where "R_RISCV_32 \<equiv> 1"
abbreviation (input) R_RISCV_64 :: nat where "R_RISCV_64 \<equiv> 2"
abbreviation (input) R_RISCV_RELATIVE :: nat where "R_RISCV_RELATIVE \<equiv> 3"
abbreviation (input) R_RISCV_COPY :: nat where "R_RISCV_COPY \<equiv> 4"
abbreviation (input) R_RISCV_JUMP_SLOT :: nat where "R_RISCV_JUMP_SLOT \<equiv> 5"
abbreviation (input) R_RISCV_TLS_DTPMOD32 :: nat where "R_RISCV_TLS_DTPMOD32 \<equiv> 6"
abbreviation (input) R_RISCV_TLS_DTPMOD64 :: nat where "R_RISCV_TLS_DTPMOD64 \<equiv> 7"
abbreviation (input) R_RISCV_TLS_DTPREL32 :: nat where "R_RISCV_TLS_DTPREL32 \<equiv> 8"
abbreviation (input) R_RISCV_TLS_DTPREL64 :: nat where "R_RISCV_TLS_DTPREL64 \<equiv> 9"
abbreviation (input) R_RISCV_TLS_TPREL32 :: nat where "R_RISCV_TLS_TPREL32 \<equiv> 10"
abbreviation (input) R_RISCV_TLS_TPREL64 :: nat where "R_RISCV_TLS_TPREL64 \<equiv> 11"
abbreviation (input) R_RISCV_BRANCH :: nat where "R_RISCV_BRANCH \<equiv> 16"
abbreviation (input) R_RISCV_JAL :: nat where "R_RISCV_JAL \<equiv> 17"
abbreviation (input) R_RISCV_CALL :: nat where "R_RISCV_CALL \<equiv> 18"
abbreviation (input) R_RISCV_CALL_PLT :: nat where "R_RISCV_CALL_PLT \<equiv> 19"
abbreviation (input) R_RISCV_GOT_HI20 :: nat where "R_RISCV_GOT_HI20 \<equiv> 20"
abbreviation (input) R_RISCV_TLS_GOT_HI20 :: nat where "R_RISCV_TLS_GOT_HI20 \<equiv> 21"
abbreviation (input) R_RISCV_TLS_GD_HI20 :: nat where "R_RISCV_TLS_GD_HI20 \<equiv> 22"
abbreviation (input) R_RISCV_PCREL_HI20 :: nat where "R_RISCV_PCREL_HI20 \<equiv> 23"
abbreviation (input) R_RISCV_PCREL_LO12_I :: nat where "R_RISCV_PCREL_LO12_I \<equiv> 24"
abbreviation (input) R_RISCV_PCREL_LO12_S :: nat where "R_RISCV_PCREL_LO12_S \<equiv> 25"
abbreviation (input) R_RISCV_HI20 :: nat where "R_RISCV_HI20 \<equiv> 26"
abbreviation (input) R_RISCV_LO12_I :: nat where "R_RISCV_LO12_I \<equiv> 27"
abbreviation (input) R_RISCV_LO12_S :: nat where "R_RISCV_LO12_S \<equiv> 28"
abbreviation (input) R_RISCV_TPREL_HI20 :: nat where "R_RISCV_TPREL_HI20 \<equiv> 29"
abbreviation (input) R_RISCV_TPREL_LO12_I :: nat where "R_RISCV_TPREL_LO12_I \<equiv> 30"
abbreviation (input) R_RISCV_TPREL_LO12_S :: nat where "R_RISCV_TPREL_LO12_S \<equiv> 31"
abbreviation (input) R_RISCV_TPREL_ADD :: nat where "R_RISCV_TPREL_ADD \<equiv> 32"
abbreviation (input) R_RISCV_ADD8 :: nat where "R_RISCV_ADD8 \<equiv> 33"
abbreviation (input) R_RISCV_ADD16 :: nat where "R_RISCV_ADD16 \<equiv> 34"
abbreviation (input) R_RISCV_ADD32 :: nat where "R_RISCV_ADD32 \<equiv> 35"
abbreviation (input) R_RISCV_ADD64 :: nat where "R_RISCV_ADD64 \<equiv> 36"
abbreviation (input) R_RISCV_SUB8 :: nat where "R_RISCV_SUB8 \<equiv> 37"
abbreviation (input) R_RISCV_SUB16 :: nat where "R_RISCV_SUB16 \<equiv> 38"
abbreviation (input) R_RISCV_SUB32 :: nat where "R_RISCV_SUB32 \<equiv> 39"
abbreviation (input) R_RISCV_SUB64 :: nat where "R_RISCV_SUB64 \<equiv> 40"
abbreviation (input) R_RISCV_GNU_VTINHERIT :: nat where "R_RISCV_GNU_VTINHERIT \<equiv> 41"
abbreviation (input) R_RISCV_GNU_VTENTRY :: nat where "R_RISCV_GNU_VTENTRY \<equiv> 42"
abbreviation (input) R_RISCV_ALIGN :: nat where "R_RISCV_ALIGN \<equiv> 43"
abbreviation (input) R_RISCV_RVC_BRANCH :: nat where "R_RISCV_RVC_BRANCH \<equiv> 44"
abbreviation (input) R_RISCV_RVC_JUMP :: nat where "R_RISCV_RVC_JUMP \<equiv> 45"
abbreviation (input) R_RISCV_RVC_LUI :: nat where "R_RISCV_RVC_LUI \<equiv> 46"
abbreviation (input) R_RISCV_GPREL_I :: nat where "R_RISCV_GPREL_I \<equiv> 47"
abbreviation (input) R_RISCV_GPREL_S :: nat where "R_RISCV_GPREL_S \<equiv> 48"
abbreviation (input) R_RISCV_TPREL_I :: nat where "R_RISCV_TPREL_I \<equiv> 49"
abbreviation (input) R_RISCV_TPREL_S :: nat where "R_RISCV_TPREL_S \<equiv> 50"
abbreviation (input) R_RISCV_RELAX :: nat where "R_RISCV_RELAX \<equiv> 51"
abbreviation (input) R_RISCV_SUB6 :: nat where "R_RISCV_SUB6 \<equiv> 52"
abbreviation (input) R_RISCV_SET6 :: nat where "R_RISCV_SET6 \<equiv> 53"
abbreviation (input) R_RISCV_SET8 :: nat where "R_RISCV_SET8 \<equiv> 54"
abbreviation (input) R_RISCV_SET16 :: nat where "R_RISCV_SET16 \<equiv> 55"
abbreviation (input) R_RISCV_SET32 :: nat where "R_RISCV_SET32 \<equiv> 56"
abbreviation (input) R_RISCV_32_PCREL :: nat where "R_RISCV_32_PCREL \<equiv> 57"

subsection \<open>The table\<close>

datatype special_function = No_special | Bfd_elf_generic_reloc | Bfd_elf_rel_vtable_reloc_fn
  | Riscv_elf_add_sub_reloc

datatype complain_overflow = Complain_dont | Complain_bitfield | Complain_signed

record reloc_howto =
  ho_type :: nat
  ho_rightshift :: nat
  ho_size :: int
  ho_bitsize :: nat
  ho_pc_relative :: bool
  ho_bitpos :: nat
  ho_complain :: complain_overflow
  ho_special :: special_function
  ho_name :: "string option"
  ho_partial_inplace :: bool
  ho_src_mask :: bfd_vma
  ho_dst_mask :: bfd_vma
  ho_pcrel_offset :: bool

abbreviation "HOWTO ty rs sz bs pcrel bp co sf nm inpl src dst pcoff \<equiv>
  \<lparr>ho_type = ty, ho_rightshift = rs, ho_size = sz, ho_bitsize = bs, ho_pc_relative = pcrel,
   ho_bitpos = bp, ho_complain = co, ho_special = sf, ho_name = nm, ho_partial_inplace = inpl,
   ho_src_mask = src, ho_dst_mask = dst, ho_pcrel_offset = pcoff\<rparr>"

abbreviation "EMPTY_HOWTO ty \<equiv>
  HOWTO ty 0 0 0 False 0 Complain_dont No_special None False 0 0 False"

abbreviation (input) MINUS_ONE :: bfd_vma where "MINUS_ONE \<equiv> - 1"

definition howto_table_0 :: "reloc_howto list" where
  "howto_table_0 = [
    HOWTO 0 0 3 0 False 0 Complain_dont Bfd_elf_generic_reloc (Some ''R_RISCV_NONE'') False 0 0 False,
    HOWTO 1 0 2 32 False 0 Complain_dont Bfd_elf_generic_reloc (Some ''R_RISCV_32'') False 0 MINUS_ONE False,
    HOWTO 2 0 4 64 False 0 Complain_dont Bfd_elf_generic_reloc (Some ''R_RISCV_64'') False 0 MINUS_ONE False,
    HOWTO 3 0 2 32 False 0 Complain_dont Bfd_elf_generic_reloc (Some ''R_RISCV_RELATIVE'') False 0 MINUS_ONE False,
    HOWTO 4 0 0 0 False 0 Complain_bitfield Bfd_elf_generic_reloc (Some ''R_RISCV_COPY'') False 0 0 False,
    HOWTO 5 0 4 64 False 0 Complain_bitfield Bfd_elf_generic_reloc (Some ''R_RISCV_JUMP_SLOT'') False 0 0 False,
    HOWTO 6 0 4 32 False 0 Complain_dont Bfd_elf_generic_reloc (Some ''R_RISCV_TLS_DTPMOD32'') False 0 MINUS_ONE False,
    HOWTO 7 0 4 64 False 0 Complain_dont Bfd_elf_generic_reloc (Some ''R_RISCV_TLS_DTPMOD64'') False 0 MINUS_ONE False,
    HOWTO 8 0 4 32 False 0 Complain_dont Bfd_elf_generic_reloc (Some ''R_RISCV_TLS_DTPREL32'') True 0 MINUS_ONE False,
    HOWTO 9 0 4 64 False 0 Complain_dont Bfd_elf_generic_reloc (Some ''R_RISCV_TLS_DTPREL64'') True 0 MINUS_ONE False]"

definition howto_table_1 :: "reloc_howto list" where
  "howto_table_1 = [
    HOWTO 10 0 2 32 False 0 Complain_dont Bfd_elf_generic_reloc (Some ''R_RISCV_TLS_TPREL32'') False 0 MINUS_ONE False,
    HOWTO 11 0 4 64 False 0 Complain_dont Bfd_elf_generic_reloc (Some ''R_RISCV_TLS_TPREL64'') False 0 MINUS_ONE False,
    EMPTY_HOWTO 12,
    EMPTY_HOWTO 13,
    EMPTY_HOWTO 14,
    EMPTY_HOWTO 15,
    HOWTO 16 0 2 32 True 0 Complain_signed Bfd_elf_generic_reloc (Some ''R_RISCV_BRANCH'') False 0 (ENCODE_SBTYPE_IMM (- 1)) True,
    HOWTO 17 0 2 32 True 0 Complain_dont Bfd_elf_generic_reloc (Some ''R_RISCV_JAL'') False 0 (ENCODE_UJTYPE_IMM (- 1)) True,
    HOWTO 18 0 2 64 True 0 Complain_dont Bfd_elf_generic_reloc (Some ''R_RISCV_CALL'') False 0 (ENCODE_UTYPE_IMM (- 1) OR shl (ENCODE_ITYPE_IMM (- 1)) 32) True,
    HOWTO 19 0 2 64 True 0 Complain_dont Bfd_elf_generic_reloc (Some ''R_RISCV_CALL_PLT'') False 0 (ENCODE_UTYPE_IMM (- 1) OR shl (ENCODE_ITYPE_IMM (- 1)) 32) True,
    HOWTO 20 0 2 32 True 0 Complain_dont Bfd_elf_generic_reloc (Some ''R_RISCV_GOT_HI20'') False 0 (ENCODE_UTYPE_IMM (- 1)) False,
    HOWTO 21 0 2 32 True 0 Complain_dont Bfd_elf_generic_reloc (Some ''R_RISCV_TLS_GOT_HI20'') False 0 (ENCODE_UTYPE_IMM (- 1)) False,
    HOWTO 22 0 2 32 True 0 Complain_dont Bfd_elf_generic_reloc (Some ''R_RISCV_TLS_GD_HI20'') False 0 (ENCODE_UTYPE_IMM (- 1)) False]"

definition howto_table_2 :: "reloc_howto list" where
  "howto_table_2 = [
    HOWTO 23 0 2 32 True 0 Complain_dont Bfd_elf_generic_reloc (Some ''R_RISCV_PCREL_HI20'') False 0 (ENCODE_UTYPE_IMM (- 1)) True,
    HOWTO 24 0 2 32 False 0 Complain_dont Bfd_elf_generic_reloc (Some ''R_RISCV_PCREL_LO12_I'') False 0 (ENCODE_ITYPE_IMM (- 1)) False,
    HOWTO 25 0 2 32 False 0 Complain_dont Bfd_elf_generic_reloc (Some ''R_RISCV_PCREL_LO12_S'') False 0 (ENCODE_STYPE_IMM (- 1)) False,
    HOWTO 26 0 2 32 False 0 Complain_dont Bfd_elf_generic_reloc (Some ''R_RISCV_HI20'') False 0 (ENCODE_UTYPE_IMM (- 1)) False,
    HOWTO 27 0 2 32 False 0 Complain_dont Bfd_elf_generic_reloc (Some ''R_RISCV_LO12_I'') False 0 (ENCODE_ITYPE_IMM (- 1)) False,
    HOWTO 28 0 2 32 False 0 Complain_dont Bfd_elf_generic_reloc (Some ''R_RISCV_LO12_S'') False 0 (ENCODE_STYPE_IMM (- 1)) False,
    HOWTO 29 0 2 32 False 0 Complain_signed Bfd_elf_generic_reloc (Some ''R_RISCV_TPREL_HI20'') True 0 (ENCODE_UTYPE_IMM (- 1)) False,
    HOWTO 30 0 2 32 False 0 Complain_signed Bfd_elf_generic_reloc (Some ''R_RISCV_TPREL_LO12_I'') False 0 (ENCODE_ITYPE_IMM (- 1)) False,
    HOWTO 31 0 2 32 False 0 Complain_signed Bfd_elf_generic_reloc (Some ''R_RISCV_TPREL_LO12_S'') False 0 (ENCODE_STYPE_IMM (- 1)) False,
    HOWTO 32 0 2 32 False 0 Complain_dont Bfd_elf_generic_reloc (Some ''R_RISCV_TPREL_ADD'') True 0 0 False]"

definition howto_table_3 :: "reloc_howto list" where
  "howto_table_3 = [
    HOWTO 33 0 0 8 False 0 Complain_dont Riscv_elf_add_sub_reloc (Some ''R_RISCV_ADD8'') False 0 MINUS_ONE False,
    HOWTO 34 0 1 16 False 0 Complain_dont Riscv_elf_add_sub_reloc (Some ''R_RISCV_ADD16'') False 0 MINUS_ONE False,
    HOWTO 35 0 2 32 False 0 Complain_dont Riscv_elf_add_sub_reloc (Some ''R_RISCV_ADD32'') False 0 MINUS_ONE False,
    HOWTO 36 0 4 64 False 0 Complain_dont Riscv_elf_add_sub_reloc (Some ''R_RISCV_ADD64'') False 0 MINUS_ONE False,
    HOWTO 37 0 0 8 False 0 Complain_dont Riscv_elf_add_sub_reloc (Some ''R_RISCV_SUB8'') False 0 MINUS_ONE False,
    HOWTO 38 0 1 16 False 0 Complain_dont Riscv_elf_add_sub_reloc (Some ''R_RISCV_SUB16'') False 0 MINUS_ONE False,
    HOWTO 39 0 2 32 False 0 Complain_dont Riscv_elf_add_sub_reloc (Some ''R_RISCV_SUB32'') False 0 MINUS_ONE False,
    HOWTO 40 0 4 64 False 0 Complain_dont Riscv_elf_add_sub_reloc (Some ''R_RISCV_SUB64'') False 0 MINUS_ONE False,
    HOWTO 41 0 4 0 False 0 Complain_dont No_special (Some ''R_RISCV_GNU_VTINHERIT'') False 0 0 False,
    HOWTO 42 0 4 0 False 0 Complain_dont Bfd_elf_rel_vtable_reloc_fn (Some ''R_RISCV_GNU_VTENTRY'') False 0 0 False]"

definition howto_table_4 :: "reloc_howto list" where
  "howto_table_4 = [
    HOWTO 43 0 2 0 False 0 Complain_dont Bfd_elf_generic_reloc (Some ''R_RISCV_ALIGN'') False 0 0 True,
    HOWTO 44 0 2 32 True 0 Complain_signed Bfd_elf_generic_reloc (Some ''R_RISCV_RVC_BRANCH'') False 0 (ENCODE_RVC_B_IMM (- 1)) True,
    HOWTO 45 0 2 32 True 0 Complain_dont Bfd_elf_generic_reloc (Some ''R_RISCV_RVC_JUMP'') False 0 (ENCODE_RVC_J_IMM (- 1)) True,
    HOWTO 46 0 2 32 False 0 Complain_dont Bfd_elf_generic_reloc (Some ''R_RISCV_RVC_LUI'') False 0 (ENCODE_RVC_IMM (- 1)) False,
    HOWTO 47 0 2 32 False 0 Complain_dont Bfd_elf_generic_reloc (Some ''R_RISCV_GPREL_I'') False 0 (ENCODE_ITYPE_IMM (- 1)) False,
    HOWTO 48 0 2 32 False 0 Complain_dont Bfd_elf_generic_reloc (Some ''R_RISCV_GPREL_S'') False 0 (ENCODE_STYPE_IMM (- 1)) False,
    HOWTO 49 0 2 32 False 0 Complain_signed Bfd_elf_generic_reloc (Some ''R_RISCV_TPREL_I'') False 0 (ENCODE_ITYPE_IMM (- 1)) False,
    HOWTO 50 0 2 32 False 0 Complain_signed Bfd_elf_generic_reloc (Some ''R_RISCV_TPREL_S'') False 0 (ENCODE_STYPE_IMM (- 1)) False,
    HOWTO 51 0 3 0 False 0 Complain_dont Bfd_elf_generic_reloc (Some ''R_RISCV_RELAX'') False 0 0 False,
    HOWTO 52 0 0 8 False 0 Complain_dont Riscv_elf_add_sub_reloc (Some ''R_RISCV_SUB6'') False 0 0x3f False]"

definition howto_table_5 :: "reloc_howto list" where
  "howto_table_5 = [
    HOWTO 53 0 0 8 False 0 Complain_dont Bfd_elf_generic_reloc (Some ''R_RISCV_SET6'') False 0 0x3f False,
    HOWTO 54 0 0 8 False 0 Complain_dont Bfd_elf_generic_reloc (Some ''R_RISCV_SET8'') False 0 MINUS_ONE False,
    HOWTO 55 0 1 16 False 0 Complain_dont Bfd_elf_generic_reloc (Some ''R_RISCV_SET16'') False 0 MINUS_ONE False,
    HOWTO 56 0 2 32 False 0 Complain_dont Bfd_elf_generic_reloc (Some ''R_RISCV_SET32'') False 0 MINUS_ONE False,
    HOWTO 57 0 2 32 True 0 Complain_dont Bfd_elf_generic_reloc (Some ''R_RISCV_32_PCREL'') False 0 MINUS_ONE False]"

definition howto_table :: "reloc_howto list" where
  "howto_table = howto_table_0 @ howto_table_1 @ howto_table_2 @ howto_table_3 @ howto_table_4 @ howto_table_5"

lemmas howto_tables = howto_table_def howto_table_0_def howto_table_1_def howto_table_2_def howto_table_3_def howto_table_4_def howto_table_5_def

definition riscv_reloc_map :: "(bfd_reloc \<times> nat) list" where
  "riscv_reloc_map = [
    (BFD_RELOC_NONE, R_RISCV_NONE),
    (BFD_RELOC_32, R_RISCV_32),
    (BFD_RELOC_64, R_RISCV_64),
    (BFD_RELOC_RISCV_ADD8, R_RISCV_ADD8),
    (BFD_RELOC_RISCV_ADD16, R_RISCV_ADD16),
    (BFD_RELOC_RISCV_ADD32, R_RISCV_ADD32),
    (BFD_RELOC_RISCV_ADD64, R_RISCV_ADD64),
    (BFD_RELOC_RISCV_SUB8, R_RISCV_SUB8),
    (BFD_RELOC_RISCV_SUB16, R_RISCV_SUB16),
    (BFD_RELOC_RISCV_SUB32, R_RISCV_SUB32),
    (BFD_RELOC_RISCV_SUB64, R_RISCV_SUB64),
    (BFD_RELOC_CTOR, R_RISCV_64),
    (BFD_RELOC_12_PCREL, R_RISCV_BRANCH),
    (BFD_RELOC_RISCV_HI20, R_RISCV_HI20),
    (BFD_RELOC_RISCV_LO12_I, R_RISCV_LO12_I),
    (BFD_RELOC_RISCV_LO12_S, R_RISCV_LO12_S),
    (BFD_RELOC_RISCV_PCREL_LO12_I, R_RISCV_PCREL_LO12_I),
    (BFD_RELOC_RISCV_PCREL_LO12_S, R_RISCV_PCREL_LO12_S),
    (BFD_RELOC_RISCV_CALL, R_RISCV_CALL),
    (BFD_RELOC_RISCV_CALL_PLT, R_RISCV_CALL_PLT),
    (BFD_RELOC_RISCV_PCREL_HI20, R_RISCV_PCREL_HI20),
    (BFD_RELOC_RISCV_JMP, R_RISCV_JAL),
    (BFD_RELOC_RISCV_GOT_HI20, R_RISCV_GOT_HI20),
    (BFD_RELOC_RISCV_TLS_DTPMOD32, R_RISCV_TLS_DTPMOD32),
    (BFD_RELOC_RISCV_TLS_DTPREL32, R_RISCV_TLS_DTPREL32),
    (BFD_RELOC_RISCV_TLS_DTPMOD64, R_RISCV_TLS_DTPMOD64),
    (BFD_RELOC_RISCV_TLS_DTPREL64, R_RISCV_TLS_DTPREL64),
    (BFD_RELOC_RISCV_TLS_TPREL32, R_RISCV_TLS_TPREL32),
    (BFD_RELOC_RISCV_TLS_TPREL64, R_RISCV_TLS_TPREL64),
    (BFD_RELOC_RISCV_TPREL_HI20, R_RISCV_TPREL_HI20),
    (BFD_RELOC_RISCV_TPREL_ADD, R_RISCV_TPREL_ADD),
    (BFD_RELOC_RISCV_TPREL_LO12_S, R_RISCV_TPREL_LO12_S),
    (BFD_RELOC_RISCV_TPREL_LO12_I, R_RISCV_TPREL_LO12_I),
    (BFD_RELOC_RISCV_TLS_GOT_HI20, R_RISCV_TLS_GOT_HI20),
    (BFD_RELOC_RISCV_TLS_GD_HI20, R_RISCV_TLS_GD_HI20),
    (BFD_RELOC_RISCV_ALIGN, R_RISCV_ALIGN),
    (BFD_RELOC_RISCV_RVC_BRANCH, R_RISCV_RVC_BRANCH),
    (BFD_RELOC_RISCV_RVC_JUMP, R_RISCV_RVC_JUMP),
    (BFD_RELOC_RISCV_RVC_LUI, R_RISCV_RVC_LUI),
    (BFD_RELOC_RISCV_GPREL_I, R_RISCV_GPREL_I),
    (BFD_RELOC_RISCV_GPREL_S, R_RISCV_GPREL_S),
    (BFD_RELOC_RISCV_TPREL_I, R_RISCV_TPREL_I),
    (BFD_RELOC_RISCV_TPREL_S, R_RISCV_TPREL_S),
    (BFD_RELOC_RISCV_RELAX, R_RISCV_RELAX),
    (BFD_RELOC_RISCV_SUB6, R_RISCV_SUB6),
    (BFD_RELOC_RISCV_SET6, R_RISCV_SET6),
    (BFD_RELOC_RISCV_SET8, R_RISCV_SET8),
    (BFD_RELOC_RISCV_SET16, R_RISCV_SET16),
    (BFD_RELOC_RISCV_SET32, R_RISCV_SET32),
    (BFD_RELOC_RISCV_32_PCREL, R_RISCV_32_PCREL)]"

subsection \<open>Lookups\<close>

text \<open>\<open>&howto_table[i]\<close> is the entry itself; a \<open>NULL\<close> result is \<open>None\<close>.\<close>

definition riscv_reloc_type_lookup :: "bfd_reloc \<Rightarrow> reloc_howto option" where
  "riscv_reloc_type_lookup code =
     map_option (\<lambda>elf_val. howto_table ! elf_val) (map_of riscv_reloc_map code)"

definition riscv_reloc_name_lookup :: "string \<Rightarrow> reloc_howto option" where
  "riscv_reloc_name_lookup r_name =
     find (\<lambda>h. case ho_name h of None \<Rightarrow> False | Some name \<Rightarrow> strcaseeq name r_name) howto_table"

definition riscv_elf_rtype_to_howto :: "nat \<Rightarrow> reloc_howto option" where
  "riscv_elf_rtype_to_howto r_type =
     (if r_type \<ge> length howto_table then None else Some (howto_table ! r_type))"

text \<open>\<open>bfd_get_reloc_size\<close> of \<open>bfd/reloc.c\<close>; \<open>None\<close> is its \<open>abort\<close>.\<close>

definition bfd_get_reloc_size :: "reloc_howto \<Rightarrow> nat option" where
  "bfd_get_reloc_size howto =
     (if ho_size howto = 5 then Some 3
      else if ho_size howto = 0 then Some 1
      else if ho_size howto = 1 then Some 2
      else if ho_size howto = 2 then Some 4
      else if ho_size howto = 3 then Some 0
      else if ho_size howto = 4 then Some 8
      else if ho_size howto = 8 then Some 16
      else if ho_size howto = -1 then Some 2
      else if ho_size howto = -2 then Some 4
      else None)"

subsection \<open>The handler of ADD and SUB\<close>

text \<open>
  \<open>bfd_get\<close> and \<open>bfd_put\<close> of \<open>bfd.h\<close> for a little-endian object; the value is a
  \<open>bfd_vma\<close> of 32 bits, zero-extended when 64 bits are stored.
\<close>

definition bfd_get :: "nat \<Rightarrow> byte list \<Rightarrow> nat \<Rightarrow> bfd_vma res" where
  "bfd_get bits buf p =
     (if bits = 8 then Inr (ucast (buf ! p))
      else if bits = 16 then Inr (bfd_getl16 buf p)
      else if bits = 32 then Inr (bfd_getl32 buf p)
      else if bits = 64 then Inr (ucast (bfd_getl64 buf p))
      else Inl Abort)"

definition bfd_put :: "nat \<Rightarrow> bfd_vma \<Rightarrow> byte list \<Rightarrow> nat \<Rightarrow> byte list res" where
  "bfd_put bits v buf p =
     (if bits = 8 then Inr (buf[p := low_byte v])
      else if bits = 16 then Inr (bfd_putl16 v buf p)
      else if bits = 32 then Inr (bfd_putl32 v buf p)
      else if bits = 64 then Inr (bfd_putl64 (ucast v) buf p)
      else Inl Abort)"

record arelent =
  rel_address :: u32
  rel_addend :: bfd_vma
  rel_howto :: reloc_howto

record reloc_symbol =
  rsym_section_sym :: bool \<comment> \<open>\<open>flags & BSF_SECTION_SYM\<close>\<close>
  rsym_value :: bfd_vma
  rsym_output_vma :: bfd_vma \<comment> \<open>\<open>section->output_section->vma\<close>\<close>
  rsym_output_offset :: bfd_vma

datatype reloc_status = Bfd_reloc_ok | Bfd_reloc_continue

text \<open>
  \<open>output_bfd\<close> tells whether the call has an output file; the entry and the data are
  returned as the call leaves them.
\<close>

definition riscv_elf_add_sub_reloc :: "arelent \<Rightarrow> reloc_symbol \<Rightarrow> byte list \<Rightarrow> u32 \<Rightarrow> bool \<Rightarrow>
    (reloc_status \<times> arelent \<times> byte list) res" where
  "riscv_elf_add_sub_reloc reloc_entry symbol data input_offset output_bfd =
     (let howto = rel_howto reloc_entry
      in if output_bfd \<and> \<not> rsym_section_sym symbol
            \<and> (\<not> ho_partial_inplace howto \<or> rel_addend reloc_entry = 0)
         then Inr (Bfd_reloc_ok,
                reloc_entry\<lparr>rel_address := rel_address reloc_entry + input_offset\<rparr>, data)
         else if output_bfd then Inr (Bfd_reloc_continue, reloc_entry, data)
         else
           (let relocation = rsym_value symbol + rsym_output_vma symbol
                  + rsym_output_offset symbol + rel_addend reloc_entry;
                p = unat (rel_address reloc_entry)
            in and_then (bfd_get (ho_bitsize howto) data p) (\<lambda>old_value.
               let relocation =
                 (if ho_type howto \<in> {R_RISCV_ADD8, R_RISCV_ADD16, R_RISCV_ADD32, R_RISCV_ADD64}
                  then old_value + relocation
                  else if ho_type howto \<in> {R_RISCV_SUB6, R_RISCV_SUB8, R_RISCV_SUB16, R_RISCV_SUB32, R_RISCV_SUB64}
                  then old_value - relocation
                  else relocation)
               in and_then (bfd_put (ho_bitsize howto) relocation data p) (\<lambda>data.
                  Inr (Bfd_reloc_ok, reloc_entry, data)))))"

subsection \<open>Consistency of the table\<close>

lemma howto_table_length: "length howto_table = 58"
  by (simp add: howto_tables)

text \<open>Every entry stands at the index of its type.\<close>

lemma howto_table_types: "map ho_type howto_table = [0..<58]"
  by (simp add: howto_tables upt_rec)

lemma howto_table_type_nth: "i < 58 \<Longrightarrow> ho_type (howto_table ! i) = i"
  using arg_cong [OF howto_table_types, of "\<lambda>xs. xs ! i"] by (simp add: howto_table_length)

lemma riscv_reloc_map_in_table: "list_all (\<lambda>(c, n). n < 58) riscv_reloc_map"
  by (simp add: riscv_reloc_map_def)

lemma riscv_reloc_type_lookup_type:
  "riscv_reloc_type_lookup code = Some h \<Longrightarrow> map_of riscv_reloc_map code = Some (ho_type h)"
  using riscv_reloc_map_in_table
  by (fastforce simp: riscv_reloc_type_lookup_def list_all_iff howto_table_type_nth dest: map_of_SomeD)

end
