(* ===== verification/Frags.thy ===== *)
theory Frags
  imports BfdBytes
begin

text \<open>
  Code fragments, from \<open>gas/frags.c\<close>. A chain is a list of fragments whose last element
  is \<open>frag_now\<close>, and a pointer to a fragment is its index. The bytes of \<open>frag_now\<close>
  grow on an obstack: \<open>fc_growth\<close> is the size of the growing object (what
  \<open>obstack_next_free\<close> points behind) and \<open>fc_room\<close> what \<open>obstack_room\<close> returns.
  The allocator itself is the parameter \<open>fc_alloc\<close>: the room left once the header of a
  fragment is taken from an obstack with the given room and chunk size.
\<close>

subsection \<open>State\<close>

datatype relax_state = Rs_dummy | Rs_fill | Rs_align | Rs_align_code | Rs_align_test | Rs_org
  | Rs_machine_dependent | Rs_space | Rs_space_nop | Rs_fill_nop | Rs_leb128 | Rs_cfa | Rs_dwarf2dbg

record frag =
  fr_address :: u32
  fr_fix :: u32
  fr_var :: u32
  fr_offset :: u32
  fr_symbol :: "nat option"
  fr_opcode :: "nat option"
  fr_type :: relax_state
  fr_subtype :: u32
  fr_literal :: "byte list"

record frchain =
  fc_frags :: "frag list"
  fc_growth :: nat
  fc_room :: nat
  fc_chunk_size :: nat
  fc_frag_size :: nat \<comment> \<open>\<open>SIZEOF_STRUCT_FRAG\<close>\<close>
  fc_alloc :: "nat \<Rightarrow> nat \<Rightarrow> nat"
  fc_total :: nat
  fc_absolute :: bool \<comment> \<open>\<open>now_seg == absolute_section\<close>\<close>
  fc_abs_offset :: u32

text \<open>A fragment as \<open>memset\<close> leaves it.\<close>

definition zero_frag :: frag where
  "zero_frag = \<lparr>fr_address = 0, fr_fix = 0, fr_var = 0, fr_offset = 0, fr_symbol = None,
     fr_opcode = None, fr_type = Rs_dummy, fr_subtype = 0, fr_literal = []\<rparr>"

definition frag_now :: "frchain \<Rightarrow> nat" where
  "frag_now fc = length (fc_frags fc) - 1"

definition update_frag :: "nat \<Rightarrow> (frag \<Rightarrow> frag) \<Rightarrow> frchain \<Rightarrow> frchain" where
  "update_frag i f fc = fc\<lparr>fc_frags := (fc_frags fc)[i := f (fc_frags fc ! i)]\<rparr>"

text \<open>
  Memory behind the header of a fragment: bytes not written yet read as 0 in the model.
\<close>

definition ensure_length :: "nat \<Rightarrow> byte list \<Rightarrow> byte list" where
  "ensure_length n bs = bs @ replicate (n - length bs) 0"

definition write_literal :: "nat \<Rightarrow> nat \<Rightarrow> byte list \<Rightarrow> frchain \<Rightarrow> frchain" where
  "write_literal i p bs = update_frag i (\<lambda>f. f\<lparr>fr_literal :=
     store_bytes bs p (ensure_length (p + length bs) (fr_literal f))\<rparr>)"

subsection \<open>Operations\<close>

definition frag_now_fix_octets :: "frchain \<Rightarrow> u32" where
  "frag_now_fix_octets fc =
     (if fc_absolute fc then fc_abs_offset fc else word_of_nat (fc_growth fc))"

definition frag_now_fix :: "frchain \<Rightarrow> u32" where
  "frag_now_fix fc = frag_now_fix_octets fc"

definition frag_wane_now :: "frchain \<Rightarrow> frchain" where
  "frag_wane_now fc =
     update_frag (frag_now fc) (\<lambda>f. f\<lparr>fr_type := Rs_fill, fr_offset := 0, fr_var := 0\<rparr>) fc"

text \<open>\<open>obstack_finish\<close> and \<open>frag_alloc\<close>: the new, empty \<open>frag_now\<close>.\<close>

definition frag_alloc :: "frchain \<Rightarrow> frchain" where
  "frag_alloc fc = fc\<lparr>fc_frags := fc_frags fc @ [zero_frag], fc_growth := 0,
     fc_room := fc_alloc fc (fc_room fc) (fc_chunk_size fc), fc_total := fc_total fc + 1\<rparr>"

definition frag_new :: "nat \<Rightarrow> frchain \<Rightarrow> frchain res" where
  "frag_new old_frags_var_max_size fc =
     (let fix = frag_now_fix_octets fc - word_of_nat old_frags_var_max_size;
          fc = update_frag (frag_now fc) (\<lambda>f. f\<lparr>fr_fix := fix,
                 fr_literal := ensure_length (fc_growth fc) (fr_literal f)\<rparr>) fc
      in and_then (gas_assert (fr_type (fc_frags fc ! frag_now fc) \<noteq> Rs_dummy))
           (\<lambda>_. Inr (frag_alloc fc)))"

text \<open>
  The loop of \<open>frag_grow\<close>; the fuel bounds the number of fragments it closes. In
  \<open>frag_grow\<close> itself the sizes are 32-bit numbers and the chunk size is raised for the
  time of the loop.
\<close>

fun grow_loop :: "nat \<Rightarrow> nat \<Rightarrow> frchain \<Rightarrow> frchain res" where
  "grow_loop 0 nchars fc = Inr fc"
| "grow_loop (Suc fuel) nchars fc =
     (if fc_room fc < nchars
      then and_then (frag_new 0 (frag_wane_now fc)) (grow_loop fuel nchars)
      else Inr fc)"

definition cant_extend_frag :: "nat \<Rightarrow> fatal" where
  "cant_extend_frag nchars = As_fatal (Diag (if nchars = 1 then ''can'' @ CHR 0x27 # ''t extend frag %lu char''
     else ''can'' @ CHR 0x27 # ''t extend frag %lu chars'') [Num (word_of_nat nchars)])"

definition frag_grow :: "nat \<Rightarrow> frchain \<Rightarrow> frchain res" where
  "frag_grow nchars fc =
     (if fc_room fc < nchars then
        (let newc = ((if nchars < 0x10000 then 2 * nchars else nchars + 0x10000)
                       + fc_frag_size fc) mod 2 ^ 32;
             oldc = fc_chunk_size fc
         in if newc < nchars then Inl (cant_extend_frag nchars)
            else and_then (grow_loop (fc_room fc + 2) nchars (fc\<lparr>fc_chunk_size := max newc oldc\<rparr>))
                   (\<lambda>fc. Inr (fc\<lparr>fc_chunk_size := oldc\<rparr>)))
      else Inr fc)"

text \<open>\<open>obstack_blank_fast\<close>.\<close>

definition obstack_blank_fast :: "nat \<Rightarrow> frchain \<Rightarrow> frchain" where
  "obstack_blank_fast n fc = fc\<lparr>fc_growth := fc_growth fc + n, fc_room := fc_room fc - n\<rparr>"

text \<open>The offset in \<open>frag_now\<close> of the reserved bytes, in place of their address.\<close>

definition frag_more :: "nat \<Rightarrow> frchain \<Rightarrow> (nat \<times> frchain) res" where
  "frag_more nchars fc =
     and_then (frag_grow nchars fc) (\<lambda>fc. Inr (fc_growth fc, obstack_blank_fast nchars fc))"

definition frag_var_init :: "relax_state \<Rightarrow> nat \<Rightarrow> u32 \<Rightarrow> u32 \<Rightarrow> nat option \<Rightarrow> u32 \<Rightarrow> nat option \<Rightarrow>
    frchain \<Rightarrow> frchain res" where
  "frag_var_init type max_chars var subtype symbol offset opcode fc =
     frag_new max_chars (update_frag (frag_now fc) (\<lambda>f. f\<lparr>fr_var := var, fr_type := type,
       fr_subtype := subtype, fr_symbol := symbol, fr_offset := offset, fr_opcode := opcode\<rparr>) fc)"

definition frag_var :: "relax_state \<Rightarrow> nat \<Rightarrow> u32 \<Rightarrow> u32 \<Rightarrow> nat option \<Rightarrow> u32 \<Rightarrow> nat option \<Rightarrow>
    frchain \<Rightarrow> ((nat \<times> nat) \<times> frchain) res" where
  "frag_var type max_chars var subtype symbol offset opcode fc =
     and_then (frag_grow max_chars fc) (\<lambda>fc.
       let retval = (frag_now fc, fc_growth fc)
       in and_then (frag_var_init type max_chars var subtype symbol offset opcode
                      (obstack_blank_fast max_chars fc))
            (\<lambda>fc. Inr (retval, fc)))"

definition frag_variant :: "relax_state \<Rightarrow> nat \<Rightarrow> u32 \<Rightarrow> u32 \<Rightarrow> nat option \<Rightarrow> u32 \<Rightarrow> nat option \<Rightarrow>
    frchain \<Rightarrow> ((nat \<times> nat) \<times> frchain) res" where
  "frag_variant type max_chars var subtype symbol offset opcode fc =
     (let retval = (frag_now fc, fc_growth fc)
      in and_then (frag_var_init type max_chars var subtype symbol offset opcode fc)
           (\<lambda>fc. Inr (retval, fc)))"

definition frag_align :: "nat \<Rightarrow> u32 \<Rightarrow> u32 \<Rightarrow> frchain \<Rightarrow> frchain res" where
  "frag_align alignment fill_character max_skip fc =
     (if fc_absolute fc then
        (let mask = shl (- 1) alignment;
             new_off = (fc_abs_offset fc + NOT mask) AND mask
         in Inr (if max_skip = 0 \<or> new_off - fc_abs_offset fc \<le> max_skip
                 then fc\<lparr>fc_abs_offset := new_off\<rparr> else fc))
      else and_then (frag_var Rs_align 1 1 max_skip None (word_of_nat alignment) None fc)
             (\<lambda>((i, p), fc). Inr (write_literal i p [ucast fill_character] fc)))"

definition frag_align_pattern :: "nat \<Rightarrow> byte list \<Rightarrow> u32 \<Rightarrow> frchain \<Rightarrow> frchain res" where
  "frag_align_pattern alignment fill_pattern max_skip fc =
     and_then (frag_var Rs_align (length fill_pattern) (word_of_nat (length fill_pattern)) max_skip None
                 (word_of_nat alignment) None fc)
       (\<lambda>((i, p), fc). Inr (write_literal i p fill_pattern fc))"

text \<open>\<open>MAX_MEM_FOR_RS_ALIGN_CODE\<close> is \<open>3 + 4\<close> for the target, \<open>NOP_OPCODE\<close> 0.\<close>

definition frag_align_code :: "nat \<Rightarrow> u32 \<Rightarrow> frchain \<Rightarrow> frchain res" where
  "frag_align_code alignment max_skip fc =
     and_then (frag_var Rs_align_code (3 + 4) 1 max_skip None (word_of_nat alignment) None fc)
       (\<lambda>((i, p), fc). Inr (write_literal i p [0x00] fc))"

definition frag_append_1_char :: "byte \<Rightarrow> frchain \<Rightarrow> frchain res" where
  "frag_append_1_char datum fc =
     and_then (if fc_room fc \<le> 1 then frag_new 0 (frag_wane_now fc) else Inr fc) (\<lambda>fc.
       Inr (obstack_blank_fast 1 (write_literal (frag_now fc) (fc_growth fc) [datum] fc)))"

text \<open>
  \<open>frag_offset_fixed_p\<close>: the walk from one fragment forward to the other over fragments of
  type \<open>rs_fill\<close>; \<open>sign\<close> is the direction the sizes count in.
\<close>

definition fixed_size :: "frag \<Rightarrow> u32" where
  "fixed_size f = fr_fix f + fr_offset f * fr_var f"

function offset_walk :: "frag list \<Rightarrow> nat \<Rightarrow> nat \<Rightarrow> (u32 \<Rightarrow> u32 \<Rightarrow> u32) \<Rightarrow> u32 \<Rightarrow> u32 option" where
  "offset_walk frags i target sign off =
     (if i \<ge> length frags \<or> fr_type (frags ! i) \<noteq> Rs_fill then None
      else (let off = sign off (fixed_size (frags ! i)); i = Suc i
            in if i \<ge> length frags then None
               else if i = target then Some off
               else offset_walk frags i target sign off))"
  by pat_completeness auto
termination
  by (relation "measure (\<lambda>(frags, i, target, sign, off). length frags - i)") auto

definition frag_offset_fixed_p :: "frag list \<Rightarrow> nat \<Rightarrow> nat \<Rightarrow> u32 option" where
  "frag_offset_fixed_p frags frag1 frag2 =
     (let off = fr_address (frags ! frag1) - fr_address (frags ! frag2)
      in if frag1 = frag2 then Some off
         else case offset_walk frags frag1 frag2 (+) off of
                Some off \<Rightarrow> Some off
              | None \<Rightarrow> offset_walk frags frag2 frag1 (-) off)"

declare offset_walk.simps [simp del]

subsection \<open>The bytes of a chain\<close>

text \<open>
  What a chain emits, apart from the variable parts: the fixed bytes of the closed fragments
  and the bytes of the object that grows. The operations of this file move bytes between
  fragments but never lose or change one.
\<close>

definition closed_bytes :: "frag \<Rightarrow> byte list" where
  "closed_bytes f = take (unat (fr_fix f)) (fr_literal f)"

definition open_bytes :: "frchain \<Rightarrow> byte list" where
  "open_bytes fc = take (fc_growth fc) (ensure_length (fc_growth fc) (fr_literal (last (fc_frags fc))))"

definition chain_base :: "frchain \<Rightarrow> nat" where
  "chain_base fc = length (concat (map closed_bytes (butlast (fc_frags fc))))"

definition image :: "frchain \<Rightarrow> byte list" where
  "image fc = concat (map closed_bytes (butlast (fc_frags fc))) @ open_bytes fc"

definition frchain_inv :: "frchain \<Rightarrow> bool" where
  "frchain_inv fc \<longleftrightarrow> fc_frags fc \<noteq> [] \<and> \<not> fc_absolute fc \<and> fc_growth fc < 2 ^ 32"

lemma length_ensure_length [simp]: "length (ensure_length n bs) = max n (length bs)"
  by (simp add: ensure_length_def)

lemma length_open_bytes [simp]: "length (open_bytes fc) = fc_growth fc"
  by (simp add: open_bytes_def)

lemma length_image: "length (image fc) = chain_base fc + fc_growth fc"
  by (simp add: image_def chain_base_def)

lemma nth_ensure_length:
  "i < n \<Longrightarrow> ensure_length n bs ! i = (if i < length bs then bs ! i else 0)"
  by (simp add: ensure_length_def nth_append)

lemma nth_ensure_length_old: "i < length bs \<Longrightarrow> ensure_length n bs ! i = bs ! i"
  by (simp add: ensure_length_def nth_append)

lemma update_frag_now:
  "fc_frags fc \<noteq> [] \<Longrightarrow> fc_frags (update_frag (frag_now fc) f fc) =
    butlast (fc_frags fc) @ [f (last (fc_frags fc))]"
  by (cases "fc_frags fc" rule: rev_cases) (simp_all add: update_frag_def frag_now_def)

lemma update_frag_fields [simp]:
  "fc_growth (update_frag i f fc) = fc_growth fc" "fc_room (update_frag i f fc) = fc_room fc"
  "fc_absolute (update_frag i f fc) = fc_absolute fc" "fc_total (update_frag i f fc) = fc_total fc"
  "fc_alloc (update_frag i f fc) = fc_alloc fc" "fc_chunk_size (update_frag i f fc) = fc_chunk_size fc"
  "fc_frag_size (update_frag i f fc) = fc_frag_size fc"
  "length (fc_frags (update_frag i f fc)) = length (fc_frags fc)"
  by (simp_all add: update_frag_def)

lemma frag_now_update [simp]: "frag_now (update_frag i f fc) = frag_now fc"
  by (simp add: frag_now_def)

text \<open>Closing \<open>frag_now\<close> with a variable part of \<open>v\<close> bytes drops these from the image.\<close>

lemma frag_new_image:
  assumes inv: "frchain_inv fc" and v: "v \<le> fc_growth fc" and new: "frag_new v fc = Inr fc'"
  shows "frchain_inv fc'" and "image fc' = take (length (image fc) - v) (image fc)"
    and "fc_growth fc' = 0" and "chain_base fc' = chain_base fc + fc_growth fc - v"
    and "fc_room fc' = fc_alloc fc (fc_room fc) (fc_chunk_size fc)"
    and "fc_chunk_size fc' = fc_chunk_size fc" and "fc_alloc fc' = fc_alloc fc"
    and "length (fc_frags fc') = length (fc_frags fc) + 1"
proof -
  let ?g = "fc_growth fc"
  have ne: "fc_frags fc \<noteq> []" and abs: "\<not> fc_absolute fc" and g: "?g < 2 ^ 32"
    using inv by (simp_all add: frchain_inv_def)
  have fx: "unat (frag_now_fix_octets fc - word_of_nat v) = ?g - v"
    using abs g v by (simp add: frag_now_fix_octets_def unat_sub word_le_nat_alt unat_of_nat
        take_bit_nat_eq_self)
  have fc': "fc' = frag_alloc (update_frag (frag_now fc) (\<lambda>f. f\<lparr>fr_fix := frag_now_fix_octets fc - word_of_nat v,
      fr_literal := ensure_length ?g (fr_literal f)\<rparr>) fc)"
    using new by (auto simp: frag_new_def Let_def and_then_Inr_iff)
  have cl: "closed_bytes (last (fc_frags fc)\<lparr>fr_fix := frag_now_fix_octets fc - word_of_nat v,
      fr_literal := ensure_length ?g (fr_literal (last (fc_frags fc)))\<rparr>) = take (?g - v) (open_bytes fc)"
    by (simp add: closed_bytes_def open_bytes_def fx)
  show "frchain_inv fc'" using abs by (simp add: fc' frchain_inv_def frag_alloc_def)
  show "image fc' = take (length (image fc) - v) (image fc)"
    using ne v by (simp add: fc' image_def frag_alloc_def update_frag_now cl butlast_append
        open_bytes_def [of "_\<lparr>fc_frags := _, fc_growth := 0, fc_room := _, fc_total := _\<rparr>"])
  show "fc_growth fc' = 0" "fc_room fc' = fc_alloc fc (fc_room fc) (fc_chunk_size fc)"
    "fc_chunk_size fc' = fc_chunk_size fc" "fc_alloc fc' = fc_alloc fc"
    "length (fc_frags fc') = length (fc_frags fc) + 1"
    by (simp_all add: fc' frag_alloc_def)
  show "chain_base fc' = chain_base fc + ?g - v"
    using ne v by (simp add: fc' chain_base_def frag_alloc_def update_frag_now cl butlast_append)
qed

lemma frag_wane_now_image:
  assumes "frchain_inv fc"
  shows "frchain_inv (frag_wane_now fc)" and "image (frag_wane_now fc) = image fc"
    and "chain_base (frag_wane_now fc) = chain_base fc" and "fc_growth (frag_wane_now fc) = fc_growth fc"
    and "fc_room (frag_wane_now fc) = fc_room fc"
    and "fc_chunk_size (frag_wane_now fc) = fc_chunk_size fc" and "fc_alloc (frag_wane_now fc) = fc_alloc fc"
    and "\<exists>fc'. frag_new 0 (frag_wane_now fc) = Inr fc'"
proof -
  have ne: "fc_frags fc \<noteq> []" using assms by (simp add: frchain_inv_def)
  show "frchain_inv (frag_wane_now fc)"
    using assms ne update_frag_now [OF ne] by (auto simp: frchain_inv_def frag_wane_now_def)
  show "image (frag_wane_now fc) = image fc" "chain_base (frag_wane_now fc) = chain_base fc"
    by (simp_all add: image_def chain_base_def open_bytes_def frag_wane_now_def update_frag_now [OF ne])
  show "fc_growth (frag_wane_now fc) = fc_growth fc" "fc_room (frag_wane_now fc) = fc_room fc"
    "fc_chunk_size (frag_wane_now fc) = fc_chunk_size fc" "fc_alloc (frag_wane_now fc) = fc_alloc fc"
    by (simp_all add: frag_wane_now_def)
  have "frag_now fc < length (fc_frags fc)" using ne by (simp add: frag_now_def)
  then show "\<exists>fc'. frag_new 0 (frag_wane_now fc) = Inr fc'"
    by (auto simp: frag_new_def Let_def frag_wane_now_def update_frag_def frag_now_def and_then_Inr_iff)
qed

text \<open>Closing \<open>frag_now\<close> as a fill fragment never fails and keeps every byte.\<close>

lemma frag_close_image:
  assumes inv: "frchain_inv fc"
  shows "\<exists>fc'. frag_new 0 (frag_wane_now fc) = Inr fc' \<and> frchain_inv fc' \<and> image fc' = image fc \<and>
    fc_growth fc' = 0 \<and> chain_base fc' = length (image fc) \<and>
    fc_room fc' = fc_alloc fc (fc_room fc) (fc_chunk_size fc) \<and>
    fc_chunk_size fc' = fc_chunk_size fc \<and> fc_alloc fc' = fc_alloc fc"
proof -
  note w = frag_wane_now_image [OF inv]
  from w(8) obtain fc' where new: "frag_new 0 (frag_wane_now fc) = Inr fc'" by blast
  from frag_new_image [OF w(1) _ new] w show ?thesis
    by (auto simp: new length_image)
qed

lemma grow_loop_image:
  assumes "frchain_inv fc"
  shows "\<exists>fc'. grow_loop fuel n fc = Inr fc' \<and> frchain_inv fc' \<and> image fc' = image fc \<and>
    fc_chunk_size fc' = fc_chunk_size fc \<and> fc_alloc fc' = fc_alloc fc"
  using assms
proof (induction fuel n fc rule: grow_loop.induct)
  case (2 fuel n fc)
  show ?case
  proof (cases "fc_room fc < n")
    case True
    from frag_close_image [OF "2.prems"] obtain fc1 where
      fc1: "frag_new 0 (frag_wane_now fc) = Inr fc1" "frchain_inv fc1" "image fc1 = image fc"
        "fc_chunk_size fc1 = fc_chunk_size fc" "fc_alloc fc1 = fc_alloc fc" by blast
    from "2.IH" [OF True fc1(2)] fc1 True show ?thesis by auto
  qed (use "2.prems" in auto)
qed auto


lemma frag_grow_image:
  assumes "frchain_inv fc" and "frag_grow n fc = Inr fc'"
  shows "frchain_inv fc'" and "image fc' = image fc"
proof -
  have "frchain_inv fc' \<and> image fc' = image fc"
  proof (cases "fc_room fc < n")
    case True
    define fc0 where "fc0 = fc\<lparr>fc_chunk_size := max (((if n < 0x10000 then 2 * n else n + 0x10000)
      + fc_frag_size fc) mod 2 ^ 32) (fc_chunk_size fc)\<rparr>"
    have "frchain_inv fc0" "image fc0 = image fc"
      using assms(1) by (simp_all add: fc0_def frchain_inv_def image_def open_bytes_def)
    moreover from calculation(1) obtain fc1 where "grow_loop (fc_room fc + 2) n fc0 = Inr fc1"
      "frchain_inv fc1" "image fc1 = image fc0" using grow_loop_image by blast
    ultimately show ?thesis
      using assms(2) True
      by (auto simp: frag_grow_def Let_def frchain_inv_def image_def open_bytes_def fc0_def
          split: if_splits)
  qed (use assms in \<open>auto simp: frag_grow_def\<close>)
  then show "frchain_inv fc'" "image fc' = image fc" by auto
qed

text \<open>
  \<open>frag_more\<close> appends: every byte emitted so far stays where it is, and the new ones are
  at offset \<open>p\<close> of \<open>frag_now\<close>, the end of the old image.
\<close>

lemma frag_more_image:
  assumes inv: "frchain_inv fc" and more: "frag_more n fc = Inr (p, fc')"
    and small: "length (image fc) + n < 2 ^ 32"
  shows "frchain_inv fc'" and "take (length (image fc)) (image fc') = image fc"
    and "length (image fc') = length (image fc) + n" and "chain_base fc' + p = length (image fc)"
    and "fc_growth fc' = p + n"
proof -
  from more obtain fc1 where grow: "frag_grow n fc = Inr fc1" and p: "p = fc_growth fc1"
    and fc': "fc' = obstack_blank_fast n fc1" by (auto simp: frag_more_def and_then_Inr_iff)
  note g = frag_grow_image [OF inv grow]
  have len: "chain_base fc1 + fc_growth fc1 = length (image fc)" using g(2) length_image [of fc1] by simp
  have base: "chain_base fc' = chain_base fc1" by (simp add: fc' obstack_blank_fast_def chain_base_def)
  show gr: "fc_growth fc' = p + n" by (simp add: fc' p obstack_blank_fast_def)
  show "frchain_inv fc'"
    using g(1) small len by (simp add: fc' frchain_inv_def obstack_blank_fast_def)
  show "length (image fc') = length (image fc) + n"
    using len by (simp add: length_image base gr p)
  show "chain_base fc' + p = length (image fc)" using len by (simp add: base p)
  have "take (fc_growth fc1) (open_bytes fc') = open_bytes fc1"
    by (simp add: open_bytes_def fc' obstack_blank_fast_def ensure_length_def min_def take_Cons'
        not_le)
  then show "take (length (image fc)) (image fc') = image fc"
    using len by (simp add: image_def [of fc'] g(2) [symmetric])
      (simp add: image_def fc' obstack_blank_fast_def chain_base_def)
qed

text \<open>Writing into the growing object changes those bytes of the image only.\<close>

lemma write_literal_image:
  assumes inv: "frchain_inv fc" and room: "p + length bs \<le> fc_growth fc"
  shows "frchain_inv (write_literal (frag_now fc) p bs fc)"
    and "image (write_literal (frag_now fc) p bs fc) = store_bytes bs (chain_base fc + p) (image fc)"
    and "fc_growth (write_literal (frag_now fc) p bs fc) = fc_growth fc"
    and "chain_base (write_literal (frag_now fc) p bs fc) = chain_base fc"
proof -
  have ne: "fc_frags fc \<noteq> []" using inv by (simp add: frchain_inv_def)
  show "frchain_inv (write_literal (frag_now fc) p bs fc)"
    using inv update_frag_now [OF ne] by (auto simp: frchain_inv_def write_literal_def)
  show "fc_growth (write_literal (frag_now fc) p bs fc) = fc_growth fc"
    by (simp add: write_literal_def)
  show base: "chain_base (write_literal (frag_now fc) p bs fc) = chain_base fc"
    by (simp add: chain_base_def write_literal_def update_frag_now [OF ne])
  show "image (write_literal (frag_now fc) p bs fc) = store_bytes bs (chain_base fc + p) (image fc)"
  proof (rule nth_equalityI)
    show "length (image (write_literal (frag_now fc) p bs fc)) =
      length (store_bytes bs (chain_base fc + p) (image fc))"
      by (simp add: length_image base) (simp add: write_literal_def)
    fix i assume "i < length (image (write_literal (frag_now fc) p bs fc))"
    then show "image (write_literal (frag_now fc) p bs fc) ! i =
      store_bytes bs (chain_base fc + p) (image fc) ! i"
      using room
      by (auto simp: length_image base nth_store_bytes image_def nth_append open_bytes_def
          write_literal_def update_frag_now [OF ne] nth_ensure_length nth_ensure_length_old chain_base_def)
  qed
qed


subsection \<open>Enough room\<close>

text \<open>
  What \<open>obstack.c\<close> does: it takes the header from the chunk if that has the room, and
  else from a new chunk, whose size is at least the chunk size and 64 bytes of which it needs
  itself.
\<close>

definition obstack_policy :: "nat \<Rightarrow> (nat \<Rightarrow> nat) \<Rightarrow> (nat \<Rightarrow> nat \<Rightarrow> nat) \<Rightarrow> bool" where
  "obstack_policy hdr fresh alloc \<longleftrightarrow> 0 < hdr \<and>
     alloc = (\<lambda>room chunk. if hdr \<le> room then room - hdr else fresh chunk) \<and>
     (\<forall>chunk. chunk \<le> fresh chunk + hdr + 64)"

text \<open>The loop ends with the room asked for, within the fuel \<open>frag_grow\<close> gives it.\<close>

lemma grow_loop_room:
  assumes "obstack_policy hdr fresh (fc_alloc fc)" and "n + hdr + 64 \<le> fc_chunk_size fc"
    and "fc_room fc + 2 \<le> fuel" and "frchain_inv fc" and "grow_loop fuel n fc = Inr fc'"
  shows "n \<le> fc_room fc'"
  using assms
proof (induction fuel n fc rule: grow_loop.induct)
  case (2 fuel n fc)
  show ?case
  proof (cases "fc_room fc < n")
    case True
    from frag_close_image [OF "2.prems"(4)] obtain fc1 where
      fc1: "frag_new 0 (frag_wane_now fc) = Inr fc1" "frchain_inv fc1"
        "fc_room fc1 = fc_alloc fc (fc_room fc) (fc_chunk_size fc)"
        "fc_chunk_size fc1 = fc_chunk_size fc" "fc_alloc fc1 = fc_alloc fc" by blast
    have loop: "grow_loop fuel n fc1 = Inr fc'" using "2.prems"(5) True fc1(1) by simp
    show ?thesis
    proof (cases "hdr \<le> fc_room fc")
      case True
      with fc1(3) "2.prems"(1) have "fc_room fc1 = fc_room fc - hdr" "0 < hdr"
        by (simp_all add: obstack_policy_def)
      with True "2.prems"(3) have "fc_room fc1 + 2 \<le> fuel" by linarith
      with "2.IH" [OF \<open>fc_room fc < n\<close>, of fc1] fc1 "2.prems"(1,2) loop show ?thesis by simp
    next
      case False
      with fc1(3) "2.prems"(1) have "fc_room fc1 = fresh (fc_chunk_size fc)"
        by (simp add: obstack_policy_def)
      moreover have "fc_chunk_size fc \<le> fresh (fc_chunk_size fc) + hdr + 64"
        using "2.prems"(1) by (simp add: obstack_policy_def)
      ultimately have "n \<le> fc_room fc1" using "2.prems"(2) by linarith
      moreover from this loop have "fc' = fc1" by (cases fuel) auto
      ultimately show ?thesis by simp
    qed
  qed (use "2.prems" in auto)
qed auto

lemma frag_grow_room:
  assumes "obstack_policy (fc_frag_size fc) fresh (fc_alloc fc)" and "frchain_inv fc"
    and "n + fc_frag_size fc + 64 \<le> fc_chunk_size fc" and "n < 0x10000" and "fc_frag_size fc < 2 ^ 16"
  shows "\<exists>fc'. frag_grow n fc = Inr fc' \<and> n \<le> fc_room fc' \<and> fc_chunk_size fc' = fc_chunk_size fc"
proof (cases "fc_room fc < n")
  case True
  let ?fc0 = "fc\<lparr>fc_chunk_size := max ((2 * n + fc_frag_size fc) mod 2 ^ 32) (fc_chunk_size fc)\<rparr>"
  have inv0: "frchain_inv ?fc0" using assms(2) by (simp add: frchain_inv_def)
  from grow_loop_image [OF inv0] obtain fc1 where fc1: "grow_loop (fc_room fc + 2) n ?fc0 = Inr fc1" by blast
  have "n \<le> fc_room fc1"
    using grow_loop_room [OF _ _ _ inv0 fc1, of "fc_frag_size fc"] assms(1,3) by simp
  with True assms(4,5) fc1 show ?thesis by (auto simp: frag_grow_def Let_def)
qed (auto simp: frag_grow_def)


end
