(* ===== verification/LocalLabels.thy ===== *)
theory LocalLabels
  imports CString "HOL-Library.Signed_Division"
begin

text \<open>
  The local labels of \<open>gas/symbols.c\<close>: \<open>n:\<close> with its references \<open>nb\<close> and \<open>nf\<close>, and
  \<open>n$\<close>. An instance counter per number turns each use into the name of an ordinary symbol.
  The arrays that grow are lists, and a \<open>long\<close> has 32 bits. From \<open>bfd/elf.c\<close> the test for
  names of local symbols.
\<close>

subsection \<open>Names\<close>

abbreviation (input) LOCAL_LABEL_PREFIX :: char where "LOCAL_LABEL_PREFIX \<equiv> CHR ''.''"
abbreviation (input) DOLLAR_LABEL_CHAR :: char where "DOLLAR_LABEL_CHAR \<equiv> CHR 0x01"
abbreviation (input) LOCAL_LABEL_CHAR :: char where "LOCAL_LABEL_CHAR \<equiv> CHR 0x02"

text \<open>
  The loop that writes a number backwards, and the one that copies it: no digit at all for 0.
  A negative number, whose remainders are negative, gives characters before \<open>0\<close>.
\<close>

function label_digits :: "int \<Rightarrow> string" where
  "label_digits i = (if i = 0 then [] else label_digits (i sdiv 10) @ [char_of (i smod 10 + 48)])"
  by pat_completeness auto
termination
proof (relation "measure (nat \<circ> abs)")
  fix i :: int assume "i \<noteq> 0"
  have "\<bar>i sdiv 10\<bar> = \<bar>i\<bar> div 10" using \<open>i \<noteq> 0\<close> by (simp add: signed_divide_int_def abs_mult)
  moreover have "\<bar>i\<bar> div 10 < \<bar>i\<bar>" using \<open>i \<noteq> 0\<close> by simp
  ultimately show "(i sdiv 10, i) \<in> measure (nat \<circ> abs)" by simp
qed simp

declare label_digits.simps [simp del]

definition local_label_name :: "char \<Rightarrow> u32 \<Rightarrow> u32 \<Rightarrow> string" where
  "local_label_name sep n instance_number =
     LOCAL_LABEL_PREFIX # CHR ''L'' # label_digits (sint n) @ sep # label_digits (sint instance_number)"

subsection \<open>Dollar labels\<close>

text \<open>The number, its instance, and whether it is defined.\<close>

type_synonym dollar_labels = "(u32 \<times> u32 \<times> bool) list"

fun dollar_label_defined :: "dollar_labels \<Rightarrow> u32 \<Rightarrow> bool" where
  "dollar_label_defined [] label = False"
| "dollar_label_defined ((l, inst, def) # ls) label =
     (if l = label then def else dollar_label_defined ls label)"

fun dollar_label_instance :: "dollar_labels \<Rightarrow> u32 \<Rightarrow> u32" where
  "dollar_label_instance [] label = 0"
| "dollar_label_instance ((l, inst, def) # ls) label =
     (if l = label then inst else dollar_label_instance ls label)"

definition dollar_label_clear :: "dollar_labels \<Rightarrow> dollar_labels" where
  "dollar_label_clear = map (\<lambda>(l, inst, def). (l, inst, False))"

fun define_dollar_label :: "u32 \<Rightarrow> dollar_labels \<Rightarrow> dollar_labels" where
  "define_dollar_label label [] = [(label, 1, True)]"
| "define_dollar_label label ((l, inst, def) # ls) =
     (if l = label then (l, inst + 1, True) # ls else (l, inst, def) # define_dollar_label label ls)"

definition dollar_label_name :: "dollar_labels \<Rightarrow> u32 \<Rightarrow> u32 \<Rightarrow> string" where
  "dollar_label_name ls n augend = local_label_name DOLLAR_LABEL_CHAR n (dollar_label_instance ls n + augend)"

subsection \<open>Forward and backward labels\<close>

text \<open>The first ten numbers have counters of their own.\<close>

abbreviation (input) FB_LABEL_SPECIAL :: nat where "FB_LABEL_SPECIAL \<equiv> 10"

record fb_labels =
  fb_low_counter :: "u32 list"
  fb_others :: "(u32 \<times> u32) list"

definition fb_label_init :: fb_labels where
  "fb_label_init = \<lparr>fb_low_counter = replicate FB_LABEL_SPECIAL 0, fb_others = []\<rparr>"

fun fb_others_inc :: "u32 \<Rightarrow> (u32 \<times> u32) list \<Rightarrow> (u32 \<times> u32) list" where
  "fb_others_inc label [] = [(label, 1)]"
| "fb_others_inc label ((l, inst) # ls) =
     (if l = label then (l, inst + 1) # ls else (l, inst) # fb_others_inc label ls)"

definition fb_label_instance_inc :: "u32 \<Rightarrow> fb_labels \<Rightarrow> fb_labels" where
  "fb_label_instance_inc label fb =
     (if unat label < FB_LABEL_SPECIAL
      then fb\<lparr>fb_low_counter := (fb_low_counter fb)[unat label := fb_low_counter fb ! unat label + 1]\<rparr>
      else fb\<lparr>fb_others := fb_others_inc label (fb_others fb)\<rparr>)"

fun fb_others_instance :: "(u32 \<times> u32) list \<Rightarrow> u32 \<Rightarrow> u32" where
  "fb_others_instance [] label = 0"
| "fb_others_instance ((l, inst) # ls) label = (if l = label then inst else fb_others_instance ls label)"

definition fb_label_instance :: "fb_labels \<Rightarrow> u32 \<Rightarrow> u32" where
  "fb_label_instance fb label =
     (if unat label < FB_LABEL_SPECIAL then fb_low_counter fb ! unat label
      else fb_others_instance (fb_others fb) label)"

definition fb_label_name :: "fb_labels \<Rightarrow> u32 \<Rightarrow> u32 \<Rightarrow> string" where
  "fb_label_name fb n augend = local_label_name LOCAL_LABEL_CHAR n (fb_label_instance fb n + augend)"

subsection \<open>Decoding a name\<close>

text \<open>
  The number, the instance and the kind a message shows for the name of a local label;
  \<open>None\<close> if the name is returned unaltered.
\<close>

definition read_number :: "string \<Rightarrow> u32" where
  "read_number ds = foldl (\<lambda>n c. 10 * n + (of_char c - 48)) 0 ds"

definition decode_local_label_name :: "string \<Rightarrow> (u32 \<times> u32 \<times> string) option" where
  "decode_local_label_name s =
     (let s = (if c_char s = LOCAL_LABEL_PREFIX then tl s else s)
      in if c_char s \<noteq> CHR ''L'' then None
         else let label_number = read_number (takeWhile isdigit (tl s)); p = dropWhile isdigit (tl s);
                  type = (if c_char p = DOLLAR_LABEL_CHAR then Some ''dollar''
                          else if c_char p = LOCAL_LABEL_CHAR then Some ''fb'' else None)
              in map_option (\<lambda>type. (label_number, read_number (takeWhile isdigit (tl p)), type)) type)"

subsection \<open>Names of local symbols\<close>

text \<open>The loop over the rest of a name that starts with \<open>L\<close> and a digit.\<close>

fun local_name_loop :: "bool \<Rightarrow> string \<Rightarrow> bool \<Rightarrow> bool" where
  "local_name_loop at_start [] ret = ret"
| "local_name_loop at_start (c # p) ret =
     (if c = CHR 0x01 \<and> at_start then True
      else let ret = (if c = CHR 0x01 \<or> c = CHR 0x02 then True else ret)
           in if \<not> isdigit c then False else local_name_loop False p ret)"

definition bfd_elf_is_local_label_name :: "string \<Rightarrow> bool" where
  "bfd_elf_is_local_label_name name =
     (if take 2 name = ''.L'' \<or> take 2 name = ''..'' \<or> take 4 name = ''_.L_'' then True
      else if c_char name = CHR ''L'' \<and> isdigit (c_char (tl name))
      then local_name_loop True (tl (tl name)) False
      else False)"

subsection \<open>Every instance has a name of its own\<close>

lemma label_digits_0 [simp]: "label_digits 0 = []"
  by (simp add: label_digits.simps)

lemma label_digits_nat:
  "label_digits (int n) = (if n = 0 then [] else label_digits (int (n div 10)) @ [char_of (n mod 10 + 48)])"
proof -
  have q: "int n sdiv 10 = int (n div 10)" by (cases n) (simp_all add: signed_divide_int_def zdiv_int)
  have r: "int n smod 10 = int (n mod 10)"
    by (cases n) (simp_all add: signed_modulo_int_def zmod_int)
  have "(char_of (int (n mod 10) + 48) :: char) = char_of (n mod 10 + 48)"
    using char_of_nat [of "n mod 10 + 48"] by simp
  then show ?thesis unfolding label_digits.simps [of "int n"] q r by simp
qed

lemma of_char_digit: "(of_char (char_of (n mod 10 + 48)) :: nat) = n mod 10 + 48"
proof -
  have "n mod 10 < 10" by simp
  then have "n mod 10 + 48 < 256" by linarith
  then show ?thesis by (simp only: of_char_of mod_less)
qed

lemma label_digits_isdigit: "list_all isdigit (label_digits (int n))"
proof (induction n rule: less_induct)
  case (less n)
  have "n mod 10 < 10" by simp
  then have "isdigit (char_of (n mod 10 + 48))" unfolding isdigit_def of_char_digit by linarith
  with less show ?case by (cases "n = 0") (simp_all add: label_digits_nat [of n])
qed

lemma digits_value_snoc: "digits_value (ds @ [c]) = 10 * digits_value ds + (of_char c - 48)"
  by (simp add: digits_value_def)

lemma digits_value_label: "digits_value (label_digits (int n)) = n"
proof (induction n rule: less_induct)
  case (less n)
  show ?case
  proof (cases "n = 0")
    case True
    then show ?thesis by (simp add: digits_value_def)
  next
    case False
    then have "digits_value (label_digits (int (n div 10))) = n div 10" by (intro less.IH) simp
    with False show ?thesis by (simp add: label_digits_nat [of n] digits_value_snoc of_char_digit)
  qed
qed

lemma read_number_value: "read_number ds = word_of_nat (digits_value ds)" if "list_all isdigit ds"
  using that
proof (induction ds rule: rev_induct)
  case (snoc c ds)
  then have "48 \<le> (of_char c :: nat)" by (simp add: isdigit_def)
  then have "(of_char c :: u32) - 48 = word_of_nat (of_char c - 48)"
    by (simp add: of_nat_diff of_nat_of_char)
  with snoc show ?case by (simp add: digits_value_snoc) (simp add: read_number_def)
qed (simp add: read_number_def digits_value_def)

text \<open>A number and an instance below \<open>2 ^ 31\<close>, as the program uses them, are read back from the name.\<close>

lemma sint_small: "n < 2 ^ 31 \<Longrightarrow> sint (word_of_nat n :: u32) = int n"
  by (simp add: sint_uint unsigned_of_nat take_bit_nat_eq_self of_nat_take_bit signed_take_bit_int_eq_self take_bit_int_eq_self)

lemma separator_not_digit: "sep \<in> {DOLLAR_LABEL_CHAR, LOCAL_LABEL_CHAR} \<Longrightarrow> \<not> isdigit sep"
  by (auto simp: isdigit_def)

theorem local_label_name_roundtrip:
  assumes n: "n < 2 ^ 31" and m: "m < 2 ^ 31" and sep: "sep \<in> {DOLLAR_LABEL_CHAR, LOCAL_LABEL_CHAR}"
  shows "decode_local_label_name (local_label_name sep (word_of_nat n) (word_of_nat m)) =
    Some (word_of_nat n, word_of_nat m, if sep = DOLLAR_LABEL_CHAR then ''dollar'' else ''fb'')"
proof -
  let ?d = "label_digits (int n)" and ?e = "label_digits (int m)"
  have d: "\<forall>c \<in> set ?d. isdigit c" "\<forall>c \<in> set ?e. isdigit c"
    using label_digits_isdigit [of n] label_digits_isdigit [of m] by (auto simp: list_all_iff)
  have ns: "\<not> isdigit sep" using separator_not_digit [OF sep] .
  have t: "takeWhile isdigit (?d @ sep # ?e) = ?d" "dropWhile isdigit (?d @ sep # ?e) = sep # ?e"
    "takeWhile isdigit ?e = ?e"
    using d ns by (simp_all add: takeWhile_append2 dropWhile_append2)
  have v: "read_number ?d = word_of_nat n" "read_number ?e = word_of_nat m"
    by (simp_all add: read_number_value label_digits_isdigit digits_value_label)
  show ?thesis
    using sep by (auto simp: local_label_name_def sint_small [OF n] sint_small [OF m] decode_local_label_name_def Let_def t v)
qed

text \<open>What the references of a label mean: the counters seen as a map from numbers to instances.\<close>

definition fb_ok :: "fb_labels \<Rightarrow> bool" where
  "fb_ok fb \<longleftrightarrow> length (fb_low_counter fb) = FB_LABEL_SPECIAL"

lemma fb_others_inc_instance:
  "fb_others_instance (fb_others_inc label ls) k =
    (if k = label then fb_others_instance ls k + 1 else fb_others_instance ls k)"
  by (induction ls) auto

lemma fb_label_init_ok: "fb_ok fb_label_init" "fb_label_instance fb_label_init k = 0"
  by (simp_all add: fb_ok_def fb_label_init_def fb_label_instance_def)

theorem fb_label_instance_inc_spec:
  assumes "fb_ok fb"
  shows "fb_ok (fb_label_instance_inc label fb)"
    and "fb_label_instance (fb_label_instance_inc label fb) =
      (fb_label_instance fb)(label := fb_label_instance fb label + 1)"
  using assms
  by (auto simp: fb_ok_def fb_label_instance_inc_def fb_label_instance_def fb_others_inc_instance
      nth_list_update fun_eq_iff word_unat_eq_iff [symmetric])

text \<open>
  A forward reference names the label that the next definition of the number makes, and from
  then on a backward reference names it.
\<close>

theorem fb_forward_reference:
  assumes "fb_ok fb"
  shows "fb_label_name fb n 1 = fb_label_name (fb_label_instance_inc n fb) n 0"
  using fb_label_instance_inc_spec(2) [OF assms, of n] by (simp add: fb_label_name_def)

lemma dollar_instance_define:
  "dollar_label_instance (define_dollar_label label ls) k =
    (if k = label then dollar_label_instance ls k + 1 else dollar_label_instance ls k)"
  "dollar_label_defined (define_dollar_label label ls) k \<longleftrightarrow> k = label \<or> dollar_label_defined ls k"
  by (induction label ls rule: define_dollar_label.induct) auto

lemma dollar_label_clear_spec:
  "\<not> dollar_label_defined (dollar_label_clear ls) k"
  "dollar_label_instance (dollar_label_clear ls) k = dollar_label_instance ls k"
  by (induction ls k rule: dollar_label_defined.induct) (auto simp: dollar_label_clear_def)

text \<open>
  The names of local labels without the prefix, which the comment of the loop promises to
  treat as local, never are: the character that sets the answer is not a digit, and ends the
  loop with the other answer.
\<close>

lemma local_name_loop_False: "c \<in> set p \<Longrightarrow> \<not> isdigit c \<Longrightarrow> \<not> local_name_loop False p ret"
  by (induction p arbitrary: ret) (auto simp: Let_def)

theorem fb_name_without_prefix_not_local:
  assumes "list_all isdigit ds" and "ds \<noteq> []"
  shows "\<not> bfd_elf_is_local_label_name (CHR ''L'' # ds @ LOCAL_LABEL_CHAR # inst)"
proof -
  obtain d es where ds: "ds = d # es" "isdigit d" "list_all isdigit es" using assms by (cases ds) auto
  have "\<not> local_name_loop True (es @ LOCAL_LABEL_CHAR # inst) False"
    using local_name_loop_False [of LOCAL_LABEL_CHAR] ds(3)
    by (cases es) (auto simp: Let_def isdigit_def)
  then show ?thesis using ds(1,2) by (auto simp: bfd_elf_is_local_label_name_def isdigit_def)
qed

end
