(* ===== verification/GasState.thy ===== *)
theory GasState
  imports TcBegin RiscvHowto Frags LocalLabels
begin

text \<open>
  The assembler's state around the target code: expressions (\<open>gas/expr.h\<close>), symbols,
  fixups (\<open>gas/write.c\<close>) and one section's fragments. Pointers to symbols, fragments and
  fixups are indices into lists that only grow.

  A symbol is a label (a section, a fragment and an offset in it) or stands for an expression;
  of \<open>gas/symbols.c\<close> only what the target code reads is modelled.
\<close>

subsection \<open>Expressions\<close>

datatype (plugins only: ) operatorT = O_illegal | O_absent | O_constant | O_symbol | O_symbol_rva
  | O_register | O_big | O_uminus | O_bit_not | O_logical_not | O_multiply | O_divide | O_modulus
  | O_left_shift | O_right_shift | O_bit_inclusive_or | O_bit_or_not | O_bit_exclusive_or
  | O_bit_and | O_add | O_subtract | O_eq | O_ne | O_lt | O_le | O_ge | O_gt | O_logical_and
  | O_logical_or | O_index

record expressionS =
  X_op :: operatorT
  X_add_symbol :: "nat option"
  X_op_symbol :: "nat option"
  X_add_number :: offsetT
  X_unsigned :: bool
  X_extrabit :: bool

subsection \<open>Symbols and fixups\<close>

datatype segT = Undefined_section | Absolute_section | Reg_section | Expr_section | Common_section
  | Section nat

text \<open>
  A \<open>struct symbol\<close> with the flags of its \<open>bsym\<close>, or a \<open>struct local_symbol\<close>
  (\<open>sy_local\<close>), whose value is a constant and which names the real symbol it has been converted
  to. The flags for \<open>.eqv\<close>, \<open>.weakref\<close> and MRI common sections are never set by the code
  modelled and are left out.
\<close>

record symbolS =
  sy_name :: string
  sy_segment :: segT
  sy_value :: expressionS
  sy_frag :: "nat option" \<comment> \<open>\<open>None\<close> is \<open>zero_address_frag\<close>\<close>
  sy_weak :: bool
  sy_global :: bool
  sy_ifunc :: bool
  sy_thread_local :: bool
  sy_resolved :: bool
  sy_resolving :: bool
  sy_used :: bool
  sy_from_expr :: bool \<comment> \<open>\<open>expr_symbol_where\<close> finds it\<close>
  sy_shadow :: bool \<comment> \<open>its \<open>sy_next\<close> is itself: a copy or a copied one, not in the chain\<close>
  sy_local :: bool
  sy_real :: "nat option" \<comment> \<open>\<open>local_symbol_get_real_symbol\<close>\<close>

text \<open>\<open>FLONUM_TYPE\<close>: the littlenums of the number, its exponent and its sign.\<close>

record flonum =
  fl_littlenums :: "16 word list"
  fl_exponent :: int
  fl_sign :: char

record fixS =
  fx_frag :: "nat option"
  fx_where :: nat
  fx_size :: nat
  fx_addsy :: "nat option"
  fx_subsy :: "nat option"
  fx_offset :: offsetT
  fx_pcrel :: bool
  fx_r_type :: bfd_reloc
  fx_addnumber :: valueT
  fx_tcbit :: bool
  fx_done :: bool

record gas_state =
  gs_tc :: tc_state
  gs_seg :: segT \<comment> \<open>\<open>now_seg\<close>\<close>
  gs_chain :: frchain \<comment> \<open>\<open>frchain_now\<close>\<close>
  gs_fixes :: "fixS list"
  gs_symbols :: "symbolS list"
  gs_symbol_list :: "nat list" \<comment> \<open>the chain from \<open>symbol_rootP\<close>\<close>
  gs_dot_symbol :: nat
  gs_sy_hash :: "nat hash_control"
  gs_local_hash :: "nat option hash_control" \<comment> \<open>\<open>None\<close> is the \<open>NULL\<close> of a converted symbol\<close>
  gs_fb :: fb_labels
  gs_dollar :: dollar_labels
  gs_bignum :: "16 word list" \<comment> \<open>\<open>generic_bignum\<close>\<close>
  gs_flonum :: flonum \<comment> \<open>\<open>generic_floating_point_number\<close>\<close>
  gs_dot :: "nat \<times> u32" \<comment> \<open>\<open>dot_frag\<close> and \<open>dot_value\<close>\<close>
  gs_finalize_syms :: bool

definition gs_bad :: "diag \<Rightarrow> gas_state \<Rightarrow> gas_state" where
  "gs_bad d gs = gs\<lparr>gs_tc := as_bad d (gs_tc gs)\<rparr>"

definition gs_warn :: "diag \<Rightarrow> gas_state \<Rightarrow> gas_state" where
  "gs_warn d gs = gs\<lparr>gs_tc := as_warn d (gs_tc gs)\<rparr>"

definition gs_frags :: "gas_state \<Rightarrow> frag list" where
  "gs_frags gs = fc_frags (gs_chain gs)"

text \<open>An operation on the chain, run on the whole state.\<close>

definition on_chain :: "(frchain \<Rightarrow> frchain res) \<Rightarrow> gas_state \<Rightarrow> gas_state res" where
  "on_chain f gs = and_then (f (gs_chain gs)) (\<lambda>fc. Inr (gs\<lparr>gs_chain := fc\<rparr>))"

definition S_IS_DEFINED :: "symbolS \<Rightarrow> bool" where
  "S_IS_DEFINED s \<longleftrightarrow> sy_segment s \<noteq> Undefined_section"

text \<open>
  The value of a label that is not resolved yet: its offset and the address of its fragment.
\<close>

definition label_value :: "frag list \<Rightarrow> symbolS \<Rightarrow> valueT" where
  "label_value frags s =
     X_add_number (sy_value s) + (case sy_frag s of None \<Rightarrow> 0 | Some i \<Rightarrow> fr_address (frags ! i))"

definition FAKE_LABEL_NAME :: string where "FAKE_LABEL_NAME = ''.L0 ''"

definition new_symbol :: "symbolS \<Rightarrow> gas_state \<Rightarrow> nat \<times> gas_state" where
  "new_symbol s gs = (length (gs_symbols gs), gs\<lparr>gs_symbols := gs_symbols gs @ [s]\<rparr>)"

text \<open>
  Symbols with a bare value; a local symbol is entered into its hash table when it is made.
\<close>

abbreviation (input) constant_value :: "valueT \<Rightarrow> expressionS" where
  "constant_value v \<equiv> \<lparr>X_op = O_constant, X_add_symbol = None, X_op_symbol = None, X_add_number = v,
     X_unsigned = False, X_extrabit = False\<rparr>"

definition blank_symbol :: "string \<Rightarrow> segT \<Rightarrow> expressionS \<Rightarrow> nat option \<Rightarrow> bool \<Rightarrow> symbolS" where
  "blank_symbol name seg e frag local = \<lparr>sy_name = name, sy_segment = seg, sy_value = e, sy_frag = frag,
     sy_weak = False, sy_global = False, sy_ifunc = False, sy_thread_local = False, sy_resolved = False,
     sy_resolving = False, sy_used = False, sy_from_expr = False, sy_shadow = False, sy_local = local, sy_real = None\<rparr>"

abbreviation (input) plain_symbol :: "string \<Rightarrow> segT \<Rightarrow> valueT \<Rightarrow> nat option \<Rightarrow> bool \<Rightarrow> symbolS" where
  "plain_symbol name seg val frag local \<equiv> blank_symbol name seg (constant_value val) frag local"

definition local_symbol_make :: "string \<Rightarrow> segT \<Rightarrow> valueT \<Rightarrow> nat option \<Rightarrow> gas_state \<Rightarrow> nat \<times> gas_state" where
  "local_symbol_make name seg val frag gs =
     (let (i, gs) = new_symbol (plain_symbol name seg val frag True) gs
      in (i, gs\<lparr>gs_local_hash := snd (hash_jam (gs_local_hash gs) name (Some i))\<rparr>))"

text \<open>
  A constant goes into the absolute section, where its value is resolved as it is; the final
  pass stores it as a signed number and marks the symbol as resolved.
\<close>

definition make_expr_symbol :: "expressionS \<Rightarrow> gas_state \<Rightarrow> nat option \<times> gas_state" where
  "make_expr_symbol e gs =
     (if X_op e = O_symbol \<and> X_add_number e = 0 then (X_add_symbol e, gs)
      else
        let (e, gs) = (if X_op e = O_big
              then (constant_value 0, gs_bad (Diag (if 0 <s X_add_number e then ''bignum invalid''
                                  else ''floating point number invalid'') []) gs)
              else (e, gs));
            seg = (if X_op e = O_constant then Absolute_section
                   else if X_op e = O_register then Reg_section else Expr_section);
            final = (X_op e = O_constant \<and> gs_finalize_syms gs);
            (i, gs) = new_symbol ((blank_symbol FAKE_LABEL_NAME seg (if final then e\<lparr>X_unsigned := False\<rparr> else e) None False)
              \<lparr>sy_from_expr := True, sy_resolved := final\<rparr>) gs
        in (Some i, gs))"

text \<open>
  A new fixup goes to the end of the section's list; the result is its index. The size has to
  fit into an \<open>unsigned char\<close>.
\<close>

definition fix_new_internal :: "nat option \<Rightarrow> nat \<Rightarrow> nat \<Rightarrow> nat option \<Rightarrow> nat option \<Rightarrow> offsetT \<Rightarrow> bool \<Rightarrow>
    bfd_reloc \<Rightarrow> gas_state \<Rightarrow> (nat \<times> gas_state) res" where
  "fix_new_internal frag whr sz add_symbol sub_symbol offset pcrel r_type gs =
     (if sz \<ge> 256 then Inl Abort
      else Inr (length (gs_fixes gs), gs\<lparr>gs_fixes := gs_fixes gs @
        [\<lparr>fx_frag = frag, fx_where = whr, fx_size = sz, fx_addsy = add_symbol,
          fx_subsy = sub_symbol, fx_offset = offset, fx_pcrel = pcrel, fx_r_type = r_type,
          fx_addnumber = 0, fx_tcbit = False, fx_done = False\<rparr>]\<rparr>))"

text \<open>
  The cases of \<open>fix_new_exp\<close>, as added symbol, subtracted symbol, offset and relocation;
  an \<open>O_add\<close> is replaced by a symbol for it, and the call made again.
\<close>

definition fix_operands :: "expressionS \<Rightarrow> bfd_reloc \<Rightarrow> gas_state \<Rightarrow>
    (nat option \<times> nat option \<times> offsetT \<times> bfd_reloc) \<times> gas_state" where
  "fix_operands e r_type gs =
     (if X_op e = O_absent then ((None, None, 0, r_type), gs)
      else if X_op e = O_register
      then ((None, None, 0, r_type), gs_bad (Diag ''register value used as expression'' []) gs)
      else if X_op e = O_add
      then (let (stmp, gs) = make_expr_symbol e gs in ((stmp, None, 0, r_type), gs))
      else if X_op e = O_symbol_rva then ((X_add_symbol e, None, X_add_number e, BFD_RELOC_RVA), gs)
      else if X_op e = O_uminus then ((None, X_add_symbol e, X_add_number e, r_type), gs)
      else if X_op e = O_subtract then ((X_add_symbol e, X_op_symbol e, X_add_number e, r_type), gs)
      else if X_op e = O_symbol then ((X_add_symbol e, None, X_add_number e, r_type), gs)
      else if X_op e = O_constant then ((None, None, X_add_number e, r_type), gs)
      else (let (s, gs) = make_expr_symbol e gs in ((s, None, 0, r_type), gs)))"

definition fix_new_exp :: "nat option \<Rightarrow> nat \<Rightarrow> nat \<Rightarrow> expressionS \<Rightarrow> bool \<Rightarrow> bfd_reloc \<Rightarrow> gas_state \<Rightarrow>
    (nat \<times> gas_state) res" where
  "fix_new_exp frag whr sz e pcrel r_type gs =
     (let ((add, sub, off, r_type), gs) = fix_operands e r_type gs
      in fix_new_internal frag whr sz add sub off pcrel r_type gs)"

definition update_fix :: "nat \<Rightarrow> (fixS \<Rightarrow> fixS) \<Rightarrow> gas_state \<Rightarrow> gas_state" where
  "update_fix i f gs = gs\<lparr>gs_fixes := (gs_fixes gs)[i := f (gs_fixes gs ! i)]\<rparr>"

lemma fix_new_exp_constant:
  "X_op e = O_constant \<Longrightarrow> sz < 256 \<Longrightarrow> fix_new_exp frag whr sz e pcrel r gs =
    Inr (length (gs_fixes gs), gs\<lparr>gs_fixes := gs_fixes gs @
        [\<lparr>fx_frag = frag, fx_where = whr, fx_size = sz, fx_addsy = None,
          fx_subsy = None, fx_offset = X_add_number e, fx_pcrel = pcrel, fx_r_type = r,
          fx_addnumber = 0, fx_tcbit = False, fx_done = False\<rparr>]\<rparr>)"
  by (simp add: fix_new_exp_def fix_operands_def fix_new_internal_def)

lemma fix_new_exp_symbol:
  "X_op e = O_symbol \<Longrightarrow> sz < 256 \<Longrightarrow> fix_new_exp frag whr sz e pcrel r gs =
    Inr (length (gs_fixes gs), gs\<lparr>gs_fixes := gs_fixes gs @
        [\<lparr>fx_frag = frag, fx_where = whr, fx_size = sz, fx_addsy = X_add_symbol e,
          fx_subsy = None, fx_offset = X_add_number e, fx_pcrel = pcrel, fx_r_type = r,
          fx_addnumber = 0, fx_tcbit = False, fx_done = False\<rparr>]\<rparr>)"
  by (simp add: fix_new_exp_def fix_operands_def fix_new_internal_def)

end
