(* ===== verification/TcRelax.thy ===== *)
theory TcRelax
  imports GasState
begin

text \<open>
  Relaxation of branches and code alignment, from \<open>gas/config/tc-riscv.c\<close>: the state
  packed into \<open>fr_subtype\<close>, the length a branch to a known target needs, the expansion of
  a far branch once its length is final, and the NOP sequences that fill an alignment.
\<close>

subsection \<open>The relaxation state\<close>

definition RELAX_BRANCH_ENCODE :: "bool \<Rightarrow> bool \<Rightarrow> u32 \<Rightarrow> u32" where
  "RELAX_BRANCH_ENCODE uncond rvc len =
     0xc0000000 OR (if uncond then 1 else 0) OR (if rvc then 2 else 0) OR shl len 2"

definition RELAX_BRANCH_P :: "u32 \<Rightarrow> bool" where
  "RELAX_BRANCH_P i \<longleftrightarrow> i AND 0xf0000000 = 0xc0000000"

definition RELAX_BRANCH_LENGTH :: "u32 \<Rightarrow> u32" where
  "RELAX_BRANCH_LENGTH i = shr i 2 AND 0xF"

definition RELAX_BRANCH_RVC :: "u32 \<Rightarrow> bool" where
  "RELAX_BRANCH_RVC i \<longleftrightarrow> i AND 2 \<noteq> 0"

definition RELAX_BRANCH_UNCOND :: "u32 \<Rightarrow> bool" where
  "RELAX_BRANCH_UNCOND i \<longleftrightarrow> i AND 1 \<noteq> 0"

text \<open>
  \<open>relaxed_branch_length\<close> with a fragment; with \<open>NULL\<close> it returns the worst case.
  The \<open>REACH\<close> constants are 64 bits wide, but the sums are cut to a \<open>bfd_vma\<close>.
\<close>

definition worst_case_branch_length :: u32 where "worst_case_branch_length = 8"

definition branch_target :: "frag list \<Rightarrow> symbolS list \<Rightarrow> segT \<Rightarrow> frag \<Rightarrow> symbolS option" where
  "branch_target frags symbols sec fragp =
     (case fr_symbol fragp of None \<Rightarrow> None
      | Some i \<Rightarrow> if S_IS_DEFINED (symbols ! i) \<and> \<not> sy_weak (symbols ! i)
                     \<and> sec = sy_segment (symbols ! i)
                  then Some (symbols ! i) else None)"

definition branch_distance :: "frag list \<Rightarrow> symbolS \<Rightarrow> frag \<Rightarrow> offsetT" where
  "branch_distance frags lab fragp =
     label_value frags lab + fr_offset fragp - (fr_address fragp + fr_fix fragp)"

definition relaxed_branch_length ::
  "frag list \<Rightarrow> symbolS list \<Rightarrow> segT \<Rightarrow> bool \<Rightarrow> frag \<Rightarrow> u32 \<times> frag" where
  "relaxed_branch_length frags symbols sec update fragp =
     (let jump = RELAX_BRANCH_UNCOND (fr_subtype fragp);
          rvc = RELAX_BRANCH_RVC (fr_subtype fragp);
          len = (if jump then 4 else 8);
          len = (case branch_target frags symbols sec fragp of
              None \<Rightarrow> len
            | Some lab \<Rightarrow>
                let val = branch_distance frags lab fragp;
                    rvc_range = (if jump then ucast RVC_JUMP_REACH else ucast RVC_BRANCH_REACH) :: bfd_vma
                in if rvc \<and> val + rvc_range div 2 < rvc_range then 2
                   else if val + ucast (RISCV_BRANCH_REACH div 2) < (ucast RISCV_BRANCH_REACH :: bfd_vma)
                   then 4
                   else if \<not> jump \<and> rvc then 6
                   else len)
      in (len, if update then fragp\<lparr>fr_subtype := RELAX_BRANCH_ENCODE jump rvc len\<rparr> else fragp))"

definition update_gs_frag :: "nat \<Rightarrow> (frag \<Rightarrow> frag) \<Rightarrow> gas_state \<Rightarrow> gas_state" where
  "update_gs_frag i f gs = gs\<lparr>gs_chain := update_frag i f (gs_chain gs)\<rparr>"

definition md_estimate_size_before_relax :: "nat \<Rightarrow> segT \<Rightarrow> gas_state \<Rightarrow> u32 \<times> gas_state" where
  "md_estimate_size_before_relax i sec gs =
     (let (len, fragp) = relaxed_branch_length (gs_frags gs) (gs_symbols gs) sec False (gs_frags gs ! i)
      in (len, update_gs_frag i (\<lambda>_. fragp\<lparr>fr_var := len\<rparr>) gs))"

definition riscv_relax_frag :: "segT \<Rightarrow> nat \<Rightarrow> gas_state \<Rightarrow> u32 \<times> gas_state" where
  "riscv_relax_frag sec i gs =
     (let fragp = gs_frags gs ! i
      in if RELAX_BRANCH_P (fr_subtype fragp)
         then (let old_var = fr_var fragp;
                   (len, fragp) = relaxed_branch_length (gs_frags gs) (gs_symbols gs) sec True fragp
               in (len - old_var, update_gs_frag i (\<lambda>_. fragp\<lparr>fr_var := len\<rparr>) gs))
         else (0, gs))"

subsection \<open>Expansion of a branch\<close>

definition OPCODE_MATCHES :: "insn_t \<Rightarrow> u32 \<Rightarrow> u32 \<Rightarrow> bool" where
  "OPCODE_MATCHES insn msk match \<longleftrightarrow> insn AND c_int msk = c_int match"

text \<open>
  The uncompressed form of a compressed branch or jump; \<open>None\<close> is the call of
  \<open>abort\<close>.
\<close>

definition expand_rvc_branch :: "insn_t \<Rightarrow> insn_t option" where
  "expand_rvc_branch insn =
     (let rs1 = 8 + (shr insn (OP_SH F_CRS1S) AND ucast (OP_MASK F_CRS1S))
      in if OPCODE_MATCHES insn MASK_C_J MATCH_C_J then Some (c_int MATCH_JAL)
         else if OPCODE_MATCHES insn MASK_C_JAL MATCH_C_JAL
         then Some (c_int (MATCH_JAL OR shl X_RA (OP_SH F_RD)))
         else if OPCODE_MATCHES insn MASK_C_BEQZ MATCH_C_BEQZ
         then Some (c_int MATCH_BEQ OR shl rs1 (OP_SH F_RS1))
         else if OPCODE_MATCHES insn MASK_C_BNEZ MATCH_C_BNEZ
         then Some (c_int MATCH_BNE OR shl rs1 (OP_SH F_RS1))
         else None)"

text \<open>The inverted branch over a jump, of a compressed branch and of an uncompressed one.\<close>

definition invert_rvc_branch :: "insn_t \<Rightarrow> insn_t" where
  "invert_rvc_branch insn =
     (insn XOR (c_int MATCH_C_BEQZ XOR c_int MATCH_C_BNEZ)) OR ENCODE_RVC_B_IMM 6"

definition invert_branch :: "insn_t \<Rightarrow> insn_t" where
  "invert_branch insn =
     (insn XOR (c_int MATCH_BEQ XOR c_int MATCH_BNE)) OR ENCODE_SBTYPE_IMM 8"

text \<open>
  The plan of \<open>md_convert_frag_branch\<close> for a fragment with the given state and bytes
  \<open>buf\<close> from \<open>fr_fix\<close> on: the new bytes, and where and with which size and
  relocation the fixup goes.
\<close>

definition convert_branch :: "u32 \<Rightarrow> byte list \<Rightarrow> (byte list \<times> nat \<times> nat \<times> bfd_reloc) res" where
  "convert_branch subtype buf =
     (let len = RELAX_BRANCH_LENGTH subtype; uncond = RELAX_BRANCH_UNCOND subtype;
          long_form = (\<lambda>buf.
            if len = 8 then
              and_then (gas_assert (\<not> uncond)) (\<lambda>_.
                let insn = invert_branch (ucast (bfd_getl32 buf 0));
                    buf = bfd_putl32 (ucast insn) buf 0
                in Inr (bfd_putl32 MATCH_JAL buf 4, 4, 4, BFD_RELOC_RISCV_JMP))
            else if len = 4 then
              Inr (buf, 0, 4, if uncond then BFD_RELOC_RISCV_JMP else BFD_RELOC_12_PCREL)
            else Inl Abort)
      in if RELAX_BRANCH_RVC subtype then
           (if len = 8 \<or> len = 4 then
              (case expand_rvc_branch (ucast (bfd_getl16 buf 0)) of
                 None \<Rightarrow> Inl Abort
               | Some insn \<Rightarrow> long_form (bfd_putl32 (ucast insn) buf 0))
            else if len = 6 then
              (let insn = invert_rvc_branch (ucast (bfd_getl16 buf 0));
                   buf = bfd_putl16 (ucast insn) buf 0
               in Inr (bfd_putl32 MATCH_JAL buf 2, 2, 4, BFD_RELOC_RISCV_JMP))
            else if len = 2 then
              Inr (buf, 0, 2, if uncond then BFD_RELOC_RISCV_RVC_JUMP else BFD_RELOC_RISCV_RVC_BRANCH)
            else Inl Abort)
         else long_form buf)"

definition md_convert_frag_branch :: "nat \<Rightarrow> gas_state \<Rightarrow> gas_state res" where
  "md_convert_frag_branch i gs =
     (let fragp = gs_frags gs ! i; p = unat (fr_fix fragp);
          e = \<lparr>X_op = O_symbol, X_add_symbol = fr_symbol fragp, X_op_symbol = None,
               X_add_number = fr_offset fragp, X_unsigned = False, X_extrabit = False\<rparr>
      in and_then (gas_assert (fr_var fragp = RELAX_BRANCH_LENGTH (fr_subtype fragp))) (\<lambda>_.
         and_then (convert_branch (fr_subtype fragp) (drop p (fr_literal fragp))) (\<lambda>(buf, at, sz, reloc).
         and_then (fix_new_exp (Some i) (p + at) sz e False reloc gs) (\<lambda>(_, gs).
         Inr (update_gs_frag i (\<lambda>f. f\<lparr>fr_literal := take p (fr_literal f) @ buf,
                fr_fix := fr_fix f + fr_var f\<rparr>) gs)))))"

definition md_convert_frag :: "nat \<Rightarrow> gas_state \<Rightarrow> gas_state res" where
  "md_convert_frag i gs =
     and_then (gas_assert (RELAX_BRANCH_P (fr_subtype (gs_frags gs ! i))))
       (\<lambda>_. md_convert_frag_branch i gs)"

subsection \<open>Alignment\<close>

abbreviation (input) RVC_NOP :: u32 where "RVC_NOP \<equiv> MATCH_C_ADDI"
abbreviation (input) RISCV_NOP :: u32 where "RISCV_NOP \<equiv> MATCH_ADDI"

text \<open>The bytes \<open>riscv_make_nops\<close> writes; its loop steps by 4 while \<open>i < bytes\<close>.\<close>

function nops_from :: "nat \<Rightarrow> nat \<Rightarrow> byte list" where
  "nops_from i bytes = (if i < bytes then le_bytes RISCV_NOP 4 @ nops_from (i + 4) bytes else [])"
  by pat_completeness auto
termination by (relation "measure (\<lambda>(i, bytes). bytes - i)") auto

declare nops_from.simps [simp del]

definition riscv_make_nops :: "nat \<Rightarrow> byte list" where
  "riscv_make_nops bytes =
     (let odd_part = (if bytes mod 2 = 1 then [0x00] else []); i = length odd_part;
          rvc_part = (if (bytes - i) mod 4 = 2 then le_bytes RVC_NOP 2 else [])
      in odd_part @ rvc_part @ nops_from (i + length rvc_part) bytes)"

text \<open>The result tells whether the alignment is done.\<close>

definition riscv_frag_align_code :: "nat \<Rightarrow> gas_state \<Rightarrow> (bool \<times> gas_state) res" where
  "riscv_frag_align_code n gs =
     (let bytes = shl 1 n :: bfd_vma;
          insn_alignment = (if opt_rvc (tc_opts (gs_tc gs)) then 2 else 4);
          worst_case_bytes = bytes - insn_alignment
      in if bytes \<le> insn_alignment then Inr (True, gs)
         else if \<not> opt_relax (tc_opts (gs_tc gs)) then Inr (False, gs)
         else and_then (frag_more (unat worst_case_bytes) (gs_chain gs)) (\<lambda>(p, fc).
              let e = \<lparr>X_op = O_constant, X_add_symbol = None, X_op_symbol = None,
                       X_add_number = worst_case_bytes, X_unsigned = False, X_extrabit = False\<rparr>;
                  fc = write_literal (frag_now fc) p (riscv_make_nops (unat worst_case_bytes)) fc
              in and_then (fix_new_exp (Some (frag_now fc)) p 0 e False BFD_RELOC_RISCV_ALIGN
                             (gs\<lparr>gs_chain := fc\<rparr>))
                   (\<lambda>(_, gs). Inr (True, gs))))"

text \<open>\<open>next_address\<close> is \<open>fragP->fr_next->fr_address\<close>; \<open>%\<close> of C truncates.\<close>

definition riscv_handle_align :: "bool \<Rightarrow> u32 \<Rightarrow> frag \<Rightarrow> frag" where
  "riscv_handle_align relax next_address fragP =
     (if fr_type fragP = Rs_align_code \<and> \<not> relax then
        (let bytes = sint (next_address - fr_address fragP - fr_fix fragP);
             p = unat (fr_fix fragP)
         in if bytes \<le> 0 then fragP
            else
              let excess = nat (bytes mod 4);
                  lit = ensure_length (p + excess + 4) (fr_literal fragP);
                  lit = (if excess \<noteq> 0 then store_bytes (riscv_make_nops excess) p lit else lit);
                  lit = store_bytes (riscv_make_nops 4) (p + excess) lit
              in fragP\<lparr>fr_literal := lit, fr_fix := fr_fix fragP + word_of_nat excess, fr_var := 4\<rparr>)
      else fragP)"

end
