(* ===== verification/TcFix.thy ===== *)
theory TcFix
  imports TcRelax
begin

text \<open>
  Fixups, from \<open>gas/config/tc-riscv.c\<close>: \<open>md_apply_fix\<close> writes what is known of a
  value into the code and prepares the relocation, \<open>tc_gen_reloc\<close> makes the relocation
  entry, and \<open>riscv_pre_output_hook\<close> adds the fixups of the call frame information.
\<close>

subsection \<open>Constants\<close>

text \<open>\<open>bfd_vma\<close> is unsigned, so \<open>RISCV_CONST_HIGH_PART\<close> widens it with zeros.\<close>

definition riscv_apply_const_reloc :: "bfd_reloc \<Rightarrow> bfd_vma \<Rightarrow> insn_t res" where
  "riscv_apply_const_reloc reloc_type value =
     (case reloc_type of
        BFD_RELOC_32 \<Rightarrow> Inr (ucast value)
      | BFD_RELOC_RISCV_HI20 \<Rightarrow> Inr (ENCODE_UTYPE_IMM (RISCV_CONST_HIGH_PART (ucast value)))
      | BFD_RELOC_RISCV_LO12_S \<Rightarrow> Inr (ucast (ENCODE_STYPE_IMM value))
      | BFD_RELOC_RISCV_LO12_I \<Rightarrow> Inr (ucast (ENCODE_ITYPE_IMM value))
      | _ \<Rightarrow> Inl Abort)"

subsection \<open>Access to the fixup and its bytes\<close>

definition fix_frag :: "gas_state \<Rightarrow> fixS \<Rightarrow> nat" where
  "fix_frag gs f = (case fx_frag f of None \<Rightarrow> 0 | Some i \<Rightarrow> i)"

definition md_pcrel_from :: "gas_state \<Rightarrow> fixS \<Rightarrow> u32" where
  "md_pcrel_from gs f = word_of_nat (fx_where f) + fr_address (gs_frags gs ! fix_frag gs f)"

text \<open>Rewriting the bytes of a fragment.\<close>

definition patch_frag :: "nat \<Rightarrow> (byte list \<Rightarrow> byte list) \<Rightarrow> gas_state \<Rightarrow> gas_state" where
  "patch_frag i f = update_gs_frag i (\<lambda>fr. fr\<lparr>fr_literal := f (fr_literal fr)\<rparr>)"

text \<open>\<open>fixP->fx_next = xmemdup (fixP, ...)\<close>, with the changes made to the copy.\<close>

definition insert_after :: "nat \<Rightarrow> fixS \<Rightarrow> gas_state \<Rightarrow> gas_state" where
  "insert_after i f gs = gs\<lparr>gs_fixes := take (Suc i) (gs_fixes gs) @ f # drop (Suc i) (gs_fixes gs)\<rparr>"

definition S_SET_THREAD_LOCAL :: "nat \<Rightarrow> gas_state \<Rightarrow> gas_state" where
  "S_SET_THREAD_LOCAL s gs = gs\<lparr>gs_symbols := (gs_symbols gs)[s := (gs_symbols gs ! s)\<lparr>sy_thread_local := True\<rparr>]\<rparr>"

subsection \<open>Data and call frame information\<close>

abbreviation (input) DW_CFA_advance_loc :: byte where "DW_CFA_advance_loc \<equiv> 0x40"
abbreviation (input) DW_CFA_advance_loc1 :: byte where "DW_CFA_advance_loc1 \<equiv> 0x02"
abbreviation (input) DW_CFA_advance_loc2 :: byte where "DW_CFA_advance_loc2 \<equiv> 0x03"
abbreviation (input) DW_CFA_advance_loc4 :: byte where "DW_CFA_advance_loc4 \<equiv> 0x04"

text \<open>
  The inner switch for a difference of two symbols: the fixup of the added and the one of the
  subtracted symbol, from the two copies with the symbols distributed.
\<close>

definition split_cfa :: "gas_state \<Rightarrow> fixS \<Rightarrow> fixS \<Rightarrow> (fixS \<times> fixS) res" where
  "split_cfa gs f nxt =
     (let fr = gs_frags gs ! fix_frag gs f;
          opf = (case fr_opcode fr of None \<Rightarrow> 0 | Some j \<Rightarrow> j);
          subtype = fr_literal (gs_frags gs ! opf) ! fx_where f;
          loc = unat (fr_fix fr - ucast (subtype AND 7))
      in if subtype = DW_CFA_advance_loc1 then
           Inr (f\<lparr>fx_where := loc + 1, fx_r_type := BFD_RELOC_RISCV_SET8\<rparr>,
                nxt\<lparr>fx_where := loc + 1, fx_r_type := BFD_RELOC_RISCV_SUB8\<rparr>)
         else if subtype = DW_CFA_advance_loc2 then
           Inr (f\<lparr>fx_size := 2, fx_where := loc + 1, fx_r_type := BFD_RELOC_RISCV_SET16\<rparr>,
                nxt\<lparr>fx_size := 2, fx_where := loc + 1, fx_r_type := BFD_RELOC_RISCV_SUB16\<rparr>)
         else if subtype = DW_CFA_advance_loc4 then
           Inr (f\<lparr>fx_size := 4, fx_where := loc, fx_r_type := BFD_RELOC_RISCV_SET32\<rparr>,
                nxt\<lparr>fx_size := 4, fx_where := loc, fx_r_type := BFD_RELOC_RISCV_SUB32\<rparr>)
         else if subtype < 0x80 \<and> subtype AND 0x40 \<noteq> 0 then
           Inr (f\<lparr>fx_frag := fr_opcode fr, fx_r_type := BFD_RELOC_RISCV_SET6\<rparr>,
                nxt\<lparr>fx_frag := fr_opcode fr, fx_r_type := BFD_RELOC_RISCV_SUB6\<rparr>)
         else Inl (As_fatal (Diag ''internal error: bad CFA value #%d'' [Num (ucast subtype)])))"

definition split_difference :: "gas_state \<Rightarrow> fixS \<Rightarrow> (fixS \<times> fixS) res" where
  "split_difference gs f =
     (let nxt = f\<lparr>fx_addsy := fx_subsy f, fx_subsy := None, fx_offset := 0\<rparr>;
          f = f\<lparr>fx_subsy := None\<rparr>
      in case fx_r_type f of
           BFD_RELOC_64 \<Rightarrow> Inr (f\<lparr>fx_r_type := BFD_RELOC_RISCV_ADD64\<rparr>, nxt\<lparr>fx_r_type := BFD_RELOC_RISCV_SUB64\<rparr>)
         | BFD_RELOC_32 \<Rightarrow> Inr (f\<lparr>fx_r_type := BFD_RELOC_RISCV_ADD32\<rparr>, nxt\<lparr>fx_r_type := BFD_RELOC_RISCV_SUB32\<rparr>)
         | BFD_RELOC_16 \<Rightarrow> Inr (f\<lparr>fx_r_type := BFD_RELOC_RISCV_ADD16\<rparr>, nxt\<lparr>fx_r_type := BFD_RELOC_RISCV_SUB16\<rparr>)
         | BFD_RELOC_8 \<Rightarrow> Inr (f\<lparr>fx_r_type := BFD_RELOC_RISCV_ADD8\<rparr>, nxt\<lparr>fx_r_type := BFD_RELOC_RISCV_SUB8\<rparr>)
         | BFD_RELOC_RISCV_CFA \<Rightarrow> split_cfa gs f nxt
         | _ \<Rightarrow> Inl Abort)"

text \<open>\<open>case BFD_RELOC_RVA\<close>, where the data cases end too.\<close>

definition fill_in_value :: "nat \<Rightarrow> nat \<Rightarrow> nat \<Rightarrow> valueT \<Rightarrow> gas_state \<Rightarrow> gas_state res" where
  "fill_in_value i fr p val gs =
     (let f = gs_fixes gs ! i
      in if fx_addsy f = None then
           and_then (gas_assert (fx_size f \<le> 4)) (\<lambda>_.
           and_then (number_to_chars_littleendian (fr_literal (gs_frags gs ! fr)) p val (fx_size f))
             (\<lambda>bs. Inr (update_fix i (\<lambda>f. f\<lparr>fx_done := True\<rparr>) (patch_frag fr (\<lambda>_. bs) gs))))
         else Inr gs)"

definition eh_frame_difference :: "(nat \<Rightarrow> string) \<Rightarrow> gas_state \<Rightarrow> fixS \<Rightarrow> bool" where
  "eh_frame_difference section_name gs f =
     (case (fx_addsy f, fx_subsy f) of
        (Some _, Some sub) \<Rightarrow>
          (case sy_segment (gs_symbols gs ! sub) of Section n \<Rightarrow> section_name n = ''.eh_frame'' | _ \<Rightarrow> False)
          \<and> label_value (gs_frags gs) (gs_symbols gs ! sub) =
              fr_address (gs_frags gs ! fix_frag gs f) + word_of_nat (fx_where f)
      | _ \<Rightarrow> False)"

definition apply_data_fix :: "(nat \<Rightarrow> string) \<Rightarrow> nat \<Rightarrow> valueT \<Rightarrow> gas_state \<Rightarrow> gas_state res" where
  "apply_data_fix section_name i val gs =
     (let f = gs_fixes gs ! i; fr = fix_frag gs f; p = fx_where f
      in if fx_r_type f = BFD_RELOC_32 \<and> eh_frame_difference section_name gs f
         then Inr (update_fix i (\<lambda>f. f\<lparr>fx_r_type := BFD_RELOC_RISCV_32_PCREL, fx_subsy := None\<rparr>) gs)
         else
           and_then (if fx_addsy f \<noteq> None \<and> fx_subsy f \<noteq> None
                     then and_then (split_difference gs f) (\<lambda>(f, nxt).
                            Inr (insert_after i nxt (update_fix i (\<lambda>_. f) gs)))
                     else Inr gs)
             (fill_in_value i fr p val))"

subsection \<open>Branches and jumps\<close>

text \<open>The tentative value of a pc-relative fixup, put into 4 bytes or 2.\<close>

definition fix_delta :: "gas_state \<Rightarrow> fixS \<Rightarrow> nat \<Rightarrow> valueT \<Rightarrow> bfd_vma" where
  "fix_delta gs f s val = label_value (gs_frags gs) (gs_symbols gs ! s) + val - md_pcrel_from gs f"

definition apply_pcrel32 :: "(bfd_vma \<Rightarrow> bfd_vma) \<Rightarrow> fixS \<Rightarrow> valueT \<Rightarrow> gas_state \<Rightarrow> gas_state" where
  "apply_pcrel32 enc f val gs =
     (case fx_addsy f of None \<Rightarrow> gs
      | Some s \<Rightarrow>
          patch_frag (fix_frag gs f) (\<lambda>buf. bfd_putl32 (bfd_getl32 buf (fx_where f) OR
            enc (fix_delta gs f s val)) buf (fx_where f)) gs)"

definition apply_pcrel16 :: "(bfd_vma \<Rightarrow> bfd_vma) \<Rightarrow> fixS \<Rightarrow> valueT \<Rightarrow> gas_state \<Rightarrow> gas_state" where
  "apply_pcrel16 enc f val gs =
     (case fx_addsy f of None \<Rightarrow> gs
      | Some s \<Rightarrow>
          patch_frag (fix_frag gs f) (\<lambda>buf. bfd_putl16 (bfd_getl16 buf (fx_where f) OR
            enc (fix_delta gs f s val)) buf (fx_where f)) gs)"

subsection \<open>Applying a fixup\<close>

definition apply_tls :: "nat \<Rightarrow> gas_state \<Rightarrow> gas_state" where
  "apply_tls i gs =
     (case fx_addsy (gs_fixes gs ! i) of
        Some s \<Rightarrow> S_SET_THREAD_LOCAL s gs
      | None \<Rightarrow> gs_bad (Diag ''TLS relocation against a constant'' []) gs)"

text \<open>The switch on the relocation; the Boolean is \<open>relaxable\<close>.\<close>

definition apply_fix_case :: "(nat \<Rightarrow> string) \<Rightarrow> nat \<Rightarrow> valueT \<Rightarrow> gas_state \<Rightarrow> (bool \<times> gas_state) res" where
  "apply_fix_case section_name i val gs =
     (let f = gs_fixes gs ! i; r = fx_r_type f
      in if r \<in> {BFD_RELOC_RISCV_HI20, BFD_RELOC_RISCV_LO12_I, BFD_RELOC_RISCV_LO12_S} then
           and_then (riscv_apply_const_reloc r val) (\<lambda>bits.
           let gs = patch_frag (fix_frag gs f) (\<lambda>buf. bfd_putl32
                 (ucast (bits OR ucast (bfd_getl32 buf (fx_where f)))) buf (fx_where f)) gs
           in Inr (True, if fx_addsy f = None then update_fix i (\<lambda>f. f\<lparr>fx_done := True\<rparr>) gs else gs))
         else if r \<in> {BFD_RELOC_RISCV_GOT_HI20, BFD_RELOC_RISCV_ADD8, BFD_RELOC_RISCV_ADD16,
                 BFD_RELOC_RISCV_ADD32, BFD_RELOC_RISCV_ADD64, BFD_RELOC_RISCV_SUB6,
                 BFD_RELOC_RISCV_SUB8, BFD_RELOC_RISCV_SUB16, BFD_RELOC_RISCV_SUB32,
                 BFD_RELOC_RISCV_SUB64, BFD_RELOC_RISCV_RELAX} then Inr (False, gs)
         else if r \<in> {BFD_RELOC_RISCV_TPREL_HI20, BFD_RELOC_RISCV_TPREL_LO12_I,
                 BFD_RELOC_RISCV_TPREL_LO12_S, BFD_RELOC_RISCV_TPREL_ADD} then Inr (True, apply_tls i gs)
         else if r \<in> {BFD_RELOC_RISCV_TLS_GOT_HI20, BFD_RELOC_RISCV_TLS_GD_HI20,
                 BFD_RELOC_RISCV_TLS_DTPREL32, BFD_RELOC_RISCV_TLS_DTPREL64} then Inr (False, apply_tls i gs)
         else if r \<in> {BFD_RELOC_32, BFD_RELOC_64, BFD_RELOC_16, BFD_RELOC_8, BFD_RELOC_RISCV_CFA} then
           and_then (apply_data_fix section_name i val gs) (\<lambda>gs. Inr (False, gs))
         else if r = BFD_RELOC_RVA then
           and_then (fill_in_value i (fix_frag gs f) (fx_where f) val gs) (\<lambda>gs. Inr (False, gs))
         else if r = BFD_RELOC_RISCV_JMP then Inr (False, apply_pcrel32 ENCODE_UJTYPE_IMM f val gs)
         else if r = BFD_RELOC_12_PCREL then Inr (False, apply_pcrel32 ENCODE_SBTYPE_IMM f val gs)
         else if r = BFD_RELOC_RISCV_RVC_BRANCH then Inr (False, apply_pcrel16 ENCODE_RVC_B_IMM f val gs)
         else if r = BFD_RELOC_RISCV_RVC_JUMP then Inr (False, apply_pcrel16 ENCODE_RVC_J_IMM f val gs)
         else if r \<in> {BFD_RELOC_RISCV_CALL, BFD_RELOC_RISCV_CALL_PLT} then Inr (True, gs)
         else if r \<in> {BFD_RELOC_RISCV_PCREL_HI20, BFD_RELOC_RISCV_PCREL_LO12_S,
                 BFD_RELOC_RISCV_PCREL_LO12_I} then Inr (opt_relax (tc_opts (gs_tc gs)), gs)
         else if r = BFD_RELOC_RISCV_ALIGN then Inr (False, gs)
         else case riscv_reloc_type_lookup r of
                Some _ \<Rightarrow> Inl (As_fatal (Diag ''internal error: bad relocation #%d'' []))
              | None \<Rightarrow> Inr (False, gs))"

definition md_apply_fix :: "(nat \<Rightarrow> string) \<Rightarrow> nat \<Rightarrow> valueT \<Rightarrow> gas_state \<Rightarrow> gas_state res" where
  "md_apply_fix section_name i val gs =
     (let gs = update_fix i (\<lambda>f. f\<lparr>fx_addnumber := val\<rparr>) gs
      in and_then (apply_fix_case section_name i val gs) (\<lambda>(relaxable, gs).
         let gs = (if fx_subsy (gs_fixes gs ! i) \<noteq> None
                   then gs_bad (Diag ''unsupported symbol subtraction'' []) gs else gs);
             f = gs_fixes gs ! i
         in Inr (if relaxable \<and> fx_tcbit f \<and> fx_addsy f \<noteq> None
                 then insert_after i (f\<lparr>fx_addsy := None, fx_subsy := None,
                        fx_r_type := BFD_RELOC_RISCV_RELAX\<rparr>) gs
                 else gs)))"

subsection \<open>Relocation entries\<close>

record gen_reloc =
  gr_symbol :: "nat option"
  gr_address :: u32
  gr_addend :: u32
  gr_howto :: "reloc_howto option"

text \<open>\<open>Inr (None, _)\<close> is the result \<open>NULL\<close> after an error.\<close>

definition tc_gen_reloc :: "nat \<Rightarrow> gas_state \<Rightarrow> gen_reloc option \<times> gas_state" where
  "tc_gen_reloc i gs =
     (let f = gs_fixes gs ! i;
          reloc = \<lparr>gr_symbol = fx_addsy f,
            gr_address = fr_address (gs_frags gs ! fix_frag gs f) + word_of_nat (fx_where f),
            gr_addend = fx_addnumber f, gr_howto = riscv_reloc_type_lookup (fx_r_type f)\<rparr>
      in if gr_howto reloc = None then
           (if fx_r_type f \<in> {BFD_RELOC_16, BFD_RELOC_8} \<and> fx_addsy f \<noteq> None \<and> fx_subsy f \<noteq> None
            then (Some reloc, gs)
            else (None, gs_bad (Diag ''cannot represent %s relocation in object file'' []) gs))
         else (Some reloc, gs))"

text \<open>The fragments of call frame information, in the order of the chain.\<close>

definition cfa_fix :: "nat \<Rightarrow> gas_state \<Rightarrow> gas_state res" where
  "cfa_fix i gs =
     (let fr = gs_frags gs ! i;
          e = (case fr_symbol fr of None \<Rightarrow> None | Some s \<Rightarrow> Some (sy_value (gs_symbols gs ! s)))
      in if fr_type fr = Rs_cfa then
           (case e of None \<Rightarrow> Inl Abort
            | Some e \<Rightarrow>
                and_then (fix_new_exp (Some i) (unat (fr_offset fr)) 1
                   \<lparr>X_op = O_subtract, X_add_symbol = X_add_symbol e, X_op_symbol = X_op_symbol e,
                    X_add_number = 0, X_unsigned = False, X_extrabit = False\<rparr> False BFD_RELOC_RISCV_CFA gs) (\<lambda>(_, gs). Inr gs))
         else Inr gs)"

definition riscv_pre_output_hook :: "gas_state \<Rightarrow> gas_state res" where
  "riscv_pre_output_hook gs =
     foldl (\<lambda>r i. and_then r (cfa_fix i)) (Inr gs) [0..<length (gs_frags gs)]"

end
