(* ===== verification/TcMacro.thy ===== *)
theory TcMacro
  imports TcFix
begin

text \<open>
  Emitting instructions and expanding macros, from \<open>gas/config/tc-riscv.c\<close>:
  \<open>append_insn\<close> puts an instruction and its fixup into the current fragment,
  \<open>macro_build\<close> makes one from a name, a format and its arguments, and \<open>macro\<close>
  expands the macro instructions of the table with them. Debug line information
  (\<open>dwarf2_emit_insn\<close>) is not modelled.
\<close>

subsection \<open>Instructions\<close>

record riscv_cl_insn =
  insn_mo :: riscv_opcode
  insn_opcode :: insn_t
  insn_frag :: "nat option"
  insn_where :: nat
  insn_fixp :: "nat option"

definition insn_length :: "riscv_cl_insn \<Rightarrow> nat" where
  "insn_length insn = riscv_insn_length (insn_opcode insn)"

definition create_insn :: "riscv_opcode \<Rightarrow> riscv_cl_insn" where
  "create_insn mo = \<lparr>insn_mo = mo, insn_opcode = op_match mo, insn_frag = None, insn_where = 0,
     insn_fixp = None\<rparr>"

text \<open>\<open>md_number_to_chars\<close> takes a 32-bit \<open>valueT\<close>, so an opcode is cut to that.\<close>

definition insn_bytes :: "riscv_cl_insn \<Rightarrow> byte list" where
  "insn_bytes insn = le_bytes (ucast (insn_opcode insn)) (insn_length insn)"

definition install_insn :: "riscv_cl_insn \<Rightarrow> gas_state \<Rightarrow> gas_state" where
  "install_insn insn gs = (case insn_frag insn of None \<Rightarrow> gs
     | Some i \<Rightarrow> gs\<lparr>gs_chain := write_literal i (insn_where insn) (insn_bytes insn) (gs_chain gs)\<rparr>)"

definition move_insn :: "riscv_cl_insn \<Rightarrow> nat \<Rightarrow> nat \<Rightarrow> gas_state \<Rightarrow> riscv_cl_insn \<times> gas_state" where
  "move_insn insn frag whr gs =
     (let insn = insn\<lparr>insn_frag := Some frag, insn_where := whr\<rparr>;
          gs = (case insn_fixp insn of None \<Rightarrow> gs
                | Some i \<Rightarrow> update_fix i (\<lambda>f. f\<lparr>fx_frag := Some frag, fx_where := whr\<rparr>) gs)
      in (insn, install_insn insn gs))"

definition add_fixed_insn :: "riscv_cl_insn \<Rightarrow> gas_state \<Rightarrow> (riscv_cl_insn \<times> gas_state) res" where
  "add_fixed_insn insn gs =
     and_then (frag_more (insn_length insn) (gs_chain gs)) (\<lambda>(p, fc).
       Inr (move_insn insn (frag_now fc) p (gs\<lparr>gs_chain := fc\<rparr>)))"

definition add_relaxed_insn :: "riscv_cl_insn \<Rightarrow> nat \<Rightarrow> u32 \<Rightarrow> u32 \<Rightarrow> nat option \<Rightarrow> offsetT \<Rightarrow>
    gas_state \<Rightarrow> gas_state res" where
  "add_relaxed_insn insn max_chars var subtype symbol offset gs =
     and_then (frag_grow max_chars (gs_chain gs)) (\<lambda>fc.
     and_then (frag_more 0 fc) (\<lambda>(p, fc).
       let (_, gs) = move_insn insn (frag_now fc) p (gs\<lparr>gs_chain := fc\<rparr>)
       in and_then (frag_var Rs_machine_dependent max_chars var subtype symbol offset None (gs_chain gs))
            (\<lambda>(_, fc). Inr (gs\<lparr>gs_chain := fc\<rparr>))))"

subsection \<open>Emitting an instruction\<close>

text \<open>
  The relocations after which a new fragment starts, because the linker may change the size
  of the instruction.
\<close>

definition starts_new_frag :: "bfd_reloc \<Rightarrow> bool" where
  "starts_new_frag r \<longleftrightarrow> r \<in> {BFD_RELOC_RISCV_CALL, BFD_RELOC_RISCV_CALL_PLT, BFD_RELOC_RISCV_HI20,
     BFD_RELOC_RISCV_PCREL_HI20, BFD_RELOC_RISCV_TPREL_HI20, BFD_RELOC_RISCV_TPREL_ADD}"

text \<open>
  The fixup of an instruction. A relocation without howto is reported, and then the null
  pointer is read; this ends as \<open>Abort\<close>.
\<close>

definition add_insn_fix :: "riscv_cl_insn \<Rightarrow> expressionS \<Rightarrow> bfd_reloc \<Rightarrow> gas_state \<Rightarrow>
    (riscv_cl_insn \<times> gas_state) res" where
  "add_insn_fix ip address_expr reloc_type gs =
     (case riscv_reloc_type_lookup reloc_type of
        None \<Rightarrow> Inl Abort
      | Some howto \<Rightarrow>
          (case bfd_get_reloc_size howto of
             None \<Rightarrow> Inl Abort
           | Some sz \<Rightarrow>
               and_then (fix_new_exp (insn_frag ip) (insn_where ip) sz address_expr False reloc_type gs)
                 (\<lambda>(i, gs). Inr (ip\<lparr>insn_fixp := Some i\<rparr>,
                   update_fix i (\<lambda>f. f\<lparr>fx_tcbit := opt_relax (tc_opts (gs_tc gs))\<rparr>) gs))))"

definition append_fixed :: "riscv_cl_insn \<Rightarrow> bfd_reloc \<Rightarrow> gas_state \<Rightarrow> gas_state res" where
  "append_fixed ip reloc_type gs =
     and_then (add_fixed_insn ip gs) (\<lambda>(ip, gs).
       let gs = install_insn ip gs
       in if starts_new_frag reloc_type then on_chain (\<lambda>fc. frag_new 0 (frag_wane_now fc)) gs
          else Inr gs)"

definition append_insn :: "riscv_cl_insn \<Rightarrow> expressionS option \<Rightarrow> bfd_reloc \<Rightarrow> gas_state \<Rightarrow> gas_state res" where
  "append_insn ip address_expr reloc_type gs =
     (if reloc_type \<noteq> BFD_RELOC_UNUSED then
        (case address_expr of
           None \<Rightarrow> Inl Assert_failed
         | Some e \<Rightarrow>
             if reloc_type = BFD_RELOC_12_PCREL \<or> reloc_type = BFD_RELOC_RISCV_JMP then
               (let j = (reloc_type = BFD_RELOC_RISCV_JMP);
                    best_case = riscv_insn_length (insn_opcode ip);
                    worst_case = worst_case_branch_length
                in add_relaxed_insn ip (unat worst_case) (word_of_nat best_case)
                     (RELAX_BRANCH_ENCODE j (best_case = 2) worst_case)
                     (X_add_symbol e) (X_add_number e) gs)
             else and_then (add_insn_fix ip e reloc_type gs)
                    (\<lambda>(ip, gs). append_fixed ip reloc_type gs))
      else append_fixed ip reloc_type gs)"

subsection \<open>Building an instruction from a format\<close>

text \<open>The variable arguments: a register or shift amount, or a relocation.\<close>

datatype macro_arg = Int_arg u32 | Reloc_arg bfd_reloc

definition invalid_macro :: fatal where
  "invalid_macro = As_fatal (Diag ''internal error: invalid macro'' [])"

text \<open>
  The loop over the format: one character, then the rest. Reading an argument of the wrong
  kind, or one that was not passed, is undefined in C and ends as \<open>Abort\<close>.
\<close>

definition format_field :: "char \<Rightarrow> op_field option" where
  "format_field c = (if c = CHR ''d'' then Some F_RD else if c = CHR ''s'' then Some F_RS1
     else if c = CHR ''t'' then Some F_RS2 else if c = CHR ''>'' then Some F_SHAMT else None)"

definition format_step :: "bool \<Rightarrow> char \<Rightarrow> macro_arg list \<times> insn_t \<times> bfd_reloc \<Rightarrow>
    (macro_arg list \<times> insn_t \<times> bfd_reloc) res" where
  "format_step has_ep c = (\<lambda>(args, insn, r).
     (if c = CHR '','' then Inr (args, insn, r)
      else case format_field c of
             Some f \<Rightarrow> (case args of Int_arg v # args \<Rightarrow> Inr (args, INSERT_OPERAND f insn v, r) | _ \<Rightarrow> Inl Abort)
           | None \<Rightarrow>
               if c = CHR ''j'' \<or> c = CHR ''u'' \<or> c = CHR ''q''
               then and_then (gas_assert has_ep) (\<lambda>_.
                      case args of Reloc_arg r # args \<Rightarrow> Inr (args, insn, r) | _ \<Rightarrow> Inl Abort)
               else Inl invalid_macro))"

primrec macro_format :: "bool \<Rightarrow> string \<Rightarrow> macro_arg list \<times> insn_t \<times> bfd_reloc \<Rightarrow>
    (macro_arg list \<times> insn_t \<times> bfd_reloc) res" where
  "macro_format has_ep [] s = Inr s"
| "macro_format has_ep (c # fmt) s = and_then (format_step has_ep c s) (macro_format has_ep fmt)"

text \<open>
  The entry \<open>macro_build\<close> uses: the first one of the name that is not compressed. It walks
  the table behind the entry found, so it may leave the name, which the assertion then sees.
\<close>

fun find_noncompressed :: "riscv_opcode list \<Rightarrow> riscv_opcode option" where
  "find_noncompressed [] = None"
| "find_noncompressed (mo # rest) =
     (if riscv_insn_length (op_match mo) < 4 then find_noncompressed rest else Some mo)"

definition op_hash_find :: "gas_state \<Rightarrow> string \<Rightarrow> riscv_opcode list option" where
  "op_hash_find gs name =
     (case tc_op_hash (gs_tc gs) of None \<Rightarrow> None | Some h \<Rightarrow> fst (hash_find h name))"

definition macro_build :: "expressionS option \<Rightarrow> string \<Rightarrow> string \<Rightarrow> macro_arg list \<Rightarrow> gas_state \<Rightarrow>
    gas_state res" where
  "macro_build ep name fmt args gs =
     (case op_hash_find gs name of
        None \<Rightarrow> Inl Assert_failed
      | Some mos \<Rightarrow>
          (case find_noncompressed mos of
             None \<Rightarrow> Inl Abort
           | Some mo \<Rightarrow>
               and_then (gas_assert (name = op_name mo)) (\<lambda>_.
               let insn = create_insn mo
               in and_then (macro_format (ep \<noteq> None) fmt (args, insn_opcode insn, BFD_RELOC_UNUSED))
                    (\<lambda>(_, bits, r).
                  and_then (gas_assert (if r = BFD_RELOC_UNUSED then ep = None else ep \<noteq> None)) (\<lambda>_.
                  append_insn (insn\<lparr>insn_opcode := bits\<rparr>) ep r gs)))))"

subsection \<open>Constants\<close>

definition IS_SEXT_32BIT_NUM :: "offsetT \<Rightarrow> bool" where
  "IS_SEXT_32BIT_NUM x \<longleftrightarrow> x AND NOT 0x7fffffff = 0 \<or> x AND NOT 0x7fffffff = NOT 0x7fffffff"

definition IS_ZEXT_32BIT_NUM :: "offsetT \<Rightarrow> bool" where
  "IS_ZEXT_32BIT_NUM x \<longleftrightarrow> x AND NOT 0xffffffff = 0 \<or> x AND NOT 0xffffffff = NOT 0xffffffff"

definition normalize_constant_expr :: "tc_state \<Rightarrow> expressionS \<Rightarrow> expressionS" where
  "normalize_constant_expr st ex =
     (if tc_xlen st > 32 then ex
      else if (X_op ex = O_constant \<or> X_op ex = O_symbol) \<and> IS_ZEXT_32BIT_NUM (X_add_number ex)
      then ex\<lparr>X_add_number := ((X_add_number ex AND 0xffffffff) XOR 0x80000000) - 0x80000000\<rparr>
      else ex)"

definition check_absolute_expr :: "riscv_opcode \<Rightarrow> expressionS \<Rightarrow> bool \<Rightarrow> gas_state \<Rightarrow> expressionS \<times> gas_state" where
  "check_absolute_expr mo ex maybe_csr gs =
     (let gs = (if X_op ex = O_big then gs_bad (Diag ''unsupported large constant'' []) gs
           else if maybe_csr \<and> X_op ex = O_symbol
           then gs_bad (Diag (''unknown CSR `%s'' @ [CHR 0x27])
                  [Str (case X_add_symbol ex of None \<Rightarrow> [] | Some s \<Rightarrow> sy_name (gs_symbols gs ! s))]) gs
           else if X_op ex \<noteq> O_constant
           then gs_bad (Diag ''Instruction %s requires absolute expression'' [Str (op_name mo)]) gs
           else gs)
      in (normalize_constant_expr (gs_tc gs) ex, gs))"

definition LOAD_ADDRESS_INSN :: "tc_state \<Rightarrow> string" where
  "LOAD_ADDRESS_INSN st = (if tc_abi_xlen st = 64 then ''ld'' else ''lw'')"

definition ADD32_INSN :: "tc_state \<Rightarrow> string" where
  "ADD32_INSN st = (if tc_xlen st = 64 then ''addiw'' else ''addi'')"

text \<open>
  \<open>(int32_t) x << (32 - shift) >> (32 - shift)\<close> for \<open>shift\<close> 12 sign-extends the low 12
  bits. \<open>offsetT\<close> has 32 bits here, so every constant is sign-extended already and the
  recursion for longer ones is never entered (lemma \<open>IS_SEXT_32BIT_NUM_always\<close>).
\<close>

lemma IS_SEXT_32BIT_NUM_always: "IS_SEXT_32BIT_NUM x"
  by (simp add: IS_SEXT_32BIT_NUM_def word32_eq_iff all_bits word_bits)

definition load_const :: "u32 \<Rightarrow> expressionS \<Rightarrow> gas_state \<Rightarrow> gas_state res" where
  "load_const reg ep gs =
     (let lower = signed_take_bit 11 (X_add_number ep);
          upper = X_add_number ep - lower
      in if X_op ep \<noteq> O_constant then Inr (gs_bad (Diag ''unsupported large constant'' []) gs)
         else if tc_xlen (gs_tc gs) > 32 \<and> \<not> IS_SEXT_32BIT_NUM (X_add_number ep) then Inl Abort
         else
           and_then (if upper \<noteq> 0
                     then macro_build (Some ep) ''lui'' ''d,u'' [Int_arg reg, Reloc_arg BFD_RELOC_RISCV_HI20] gs
                     else Inr gs) (\<lambda>gs.
           let hi_reg = (if upper \<noteq> 0 then reg else 0)
           in if lower \<noteq> 0 \<or> hi_reg = 0
              then macro_build (Some ep) (ADD32_INSN (gs_tc gs)) ''d,s,j''
                     [Int_arg reg, Int_arg hi_reg, Reloc_arg BFD_RELOC_RISCV_LO12_I] gs
              else Inr gs))"

subsection \<open>Addresses and calls\<close>

definition make_internal_label :: "gas_state \<Rightarrow> nat \<times> gas_state" where
  "make_internal_label gs = local_symbol_make FAKE_LABEL_NAME (gs_seg gs) (frag_now_fix (gs_chain gs))
     (Some (frag_now (gs_chain gs))) gs"

definition pcrel_access :: "u32 \<Rightarrow> u32 \<Rightarrow> expressionS \<Rightarrow> string \<Rightarrow> string \<Rightarrow> bfd_reloc \<Rightarrow> bfd_reloc \<Rightarrow>
    gas_state \<Rightarrow> gas_state res" where
  "pcrel_access destreg tempreg ep lo_insn lo_pattern hi_reloc lo_reloc gs =
     (let (label, gs) = make_internal_label gs;
          ep2 = \<lparr>X_op = O_symbol, X_add_symbol = Some label, X_op_symbol = None, X_add_number = 0,
            X_unsigned = False, X_extrabit = False\<rparr>
      in and_then (macro_build (Some ep) ''auipc'' ''d,u'' [Int_arg tempreg, Reloc_arg hi_reloc] gs)
           (macro_build (Some ep2) lo_insn lo_pattern
              [Int_arg destreg, Int_arg tempreg, Reloc_arg lo_reloc]))"

definition pcrel_load :: "u32 \<Rightarrow> u32 \<Rightarrow> expressionS \<Rightarrow> string \<Rightarrow> bfd_reloc \<Rightarrow> bfd_reloc \<Rightarrow>
    gas_state \<Rightarrow> gas_state res" where
  "pcrel_load destreg tempreg ep lo_insn = pcrel_access destreg tempreg ep lo_insn ''d,s,j''"

definition pcrel_store :: "u32 \<Rightarrow> u32 \<Rightarrow> expressionS \<Rightarrow> string \<Rightarrow> bfd_reloc \<Rightarrow> bfd_reloc \<Rightarrow>
    gas_state \<Rightarrow> gas_state res" where
  "pcrel_store srcreg tempreg ep lo_insn = pcrel_access srcreg tempreg ep lo_insn ''t,s,q''"

definition riscv_call :: "u32 \<Rightarrow> u32 \<Rightarrow> expressionS \<Rightarrow> bfd_reloc \<Rightarrow> gas_state \<Rightarrow> gas_state res" where
  "riscv_call destreg tempreg ep reloc gs =
     and_then (macro_build (Some ep) ''auipc'' ''d,u'' [Int_arg tempreg, Reloc_arg reloc] gs)
       (macro_build None ''jalr'' ''d,s'' [Int_arg destreg, Int_arg tempreg])"

subsection \<open>The macros\<close>

definition macro_load :: "insn_t \<Rightarrow> string option" where
  "macro_load m =
     (if m = M_LB then Some ''lb'' else if m = M_LBU then Some ''lbu''
      else if m = M_LH then Some ''lh'' else if m = M_LHU then Some ''lhu''
      else if m = M_LW then Some ''lw'' else if m = M_LWU then Some ''lwu''
      else if m = M_LD then Some ''ld'' else None)"

definition macro_fp_load :: "insn_t \<Rightarrow> string option" where
  "macro_fp_load m = (if m = M_FLW then Some ''flw'' else if m = M_FLD then Some ''fld'' else None)"

definition macro_store :: "insn_t \<Rightarrow> string option" where
  "macro_store m =
     (if m = M_SB then Some ''sb'' else if m = M_SH then Some ''sh''
      else if m = M_SW then Some ''sw'' else if m = M_SD then Some ''sd''
      else if m = M_FSW then Some ''fsw'' else if m = M_FSD then Some ''fsd'' else None)"

definition macro :: "riscv_cl_insn \<Rightarrow> expressionS \<Rightarrow> bfd_reloc \<Rightarrow> gas_state \<Rightarrow> gas_state res" where
  "macro ip imm_expr imm_reloc gs =
     (let rd = ucast (EXTRACT_OPERAND F_RD (insn_opcode ip));
          rs1 = ucast (EXTRACT_OPERAND F_RS1 (insn_opcode ip));
          rs2 = ucast (EXTRACT_OPERAND F_RS2 (insn_opcode ip));
          m = op_mask (insn_mo ip)
      in if m = M_LI then load_const rd imm_expr gs
         else if m = M_LA \<or> m = M_LLA then
           (let gs = (if \<not> IS_SEXT_32BIT_NUM (X_add_number imm_expr)
                      then gs_bad (Diag ''offset too large'' []) gs else gs)
            in if X_op imm_expr = O_constant then load_const rd imm_expr gs
               else if opt_pic (tc_opts (gs_tc gs)) \<and> m = M_LA
               then pcrel_load rd rd imm_expr (LOAD_ADDRESS_INSN (gs_tc gs))
                      BFD_RELOC_RISCV_GOT_HI20 BFD_RELOC_RISCV_PCREL_LO12_I gs
               else pcrel_load rd rd imm_expr ''addi''
                      BFD_RELOC_RISCV_PCREL_HI20 BFD_RELOC_RISCV_PCREL_LO12_I gs)
         else if m = M_LA_TLS_GD then
           pcrel_load rd rd imm_expr ''addi'' BFD_RELOC_RISCV_TLS_GD_HI20 BFD_RELOC_RISCV_PCREL_LO12_I gs
         else if m = M_LA_TLS_IE then
           pcrel_load rd rd imm_expr (LOAD_ADDRESS_INSN (gs_tc gs))
             BFD_RELOC_RISCV_TLS_GOT_HI20 BFD_RELOC_RISCV_PCREL_LO12_I gs
         else if m = M_CALL then riscv_call rd rs1 imm_expr imm_reloc gs
         else case macro_load m of
             Some name \<Rightarrow> pcrel_load rd rd imm_expr name
               BFD_RELOC_RISCV_PCREL_HI20 BFD_RELOC_RISCV_PCREL_LO12_I gs
           | None \<Rightarrow>
           case macro_fp_load m of
             Some name \<Rightarrow> pcrel_load rd rs1 imm_expr name
               BFD_RELOC_RISCV_PCREL_HI20 BFD_RELOC_RISCV_PCREL_LO12_I gs
           | None \<Rightarrow>
           case macro_store m of
             Some name \<Rightarrow> pcrel_store rs2 rs1 imm_expr name
               BFD_RELOC_RISCV_PCREL_HI20 BFD_RELOC_RISCV_PCREL_LO12_S gs
           | None \<Rightarrow> Inr (gs_bad (Diag ''Macro %s not implemented'' [Str (op_name (insn_mo ip))]) gs))"

end
