(* ===== verification/FragPlaces.thy ===== *)
theory FragPlaces
  imports Frags
begin

text \<open>
  Where the bytes of a chain are: the places fixups refer to, their position in the emitted
  bytes, and the operations of the chain seen from them. A supplement to the model of
  \<open>gas/frags.c\<close> that contains lemmas only.
\<close>

subsection \<open>Places\<close>

text \<open>
  A place is a fragment and an offset in it, as a fixup keeps it. A place with \<open>n\<close> bytes
  stays valid, at the same position of the image, however the chain grows.
\<close>

definition place_ok :: "frchain \<Rightarrow> nat \<Rightarrow> nat \<Rightarrow> nat \<Rightarrow> bool" where
  "place_ok fc i p n \<longleftrightarrow> i < length (fc_frags fc) \<and> p + n \<le> length (fr_literal (fc_frags fc ! i)) \<and>
     p + n \<le> (if i = frag_now fc then fc_growth fc else unat (fr_fix (fc_frags fc ! i)))"

definition place_pos :: "frchain \<Rightarrow> nat \<Rightarrow> nat \<Rightarrow> nat" where
  "place_pos fc i p = length (concat (map closed_bytes (take i (fc_frags fc)))) + p"

definition frag_bytes :: "frchain \<Rightarrow> nat \<Rightarrow> byte list" where
  "frag_bytes fc i = (if i = frag_now fc then open_bytes fc else closed_bytes (fc_frags fc ! i))"

lemma image_split:
  assumes "fc_frags fc \<noteq> []" and "i < length (fc_frags fc)"
  shows "\<exists>rest. image fc = concat (map closed_bytes (take i (fc_frags fc))) @ frag_bytes fc i @ rest"
proof (cases "i = frag_now fc")
  case True
  then show ?thesis by (simp add: image_def frag_bytes_def frag_now_def butlast_conv_take)
next
  case False
  with assms have i: "i < length (butlast (fc_frags fc))" by (simp add: frag_now_def)
  then have "take i (butlast (fc_frags fc)) = take i (fc_frags fc)"
    by (simp add: butlast_conv_take)
  moreover have "butlast (fc_frags fc) ! i = fc_frags fc ! i" using i by (simp add: nth_butlast)
  ultimately show ?thesis
    using id_take_nth_drop [OF i] False
    by (metis (no_types, lifting) append.assoc concat.simps(2) concat_append frag_bytes_def image_def
        list.simps(9) map_append)
qed

lemma place_ok_frag_bytes:
  assumes "fc_frags fc \<noteq> []" and "place_ok fc i p n" and "k < n"
  shows "p + k < length (frag_bytes fc i)" and "frag_bytes fc i ! (p + k) = fr_literal (fc_frags fc ! i) ! (p + k)"
proof -
  have "i = frag_now fc \<Longrightarrow> fc_frags fc ! i = last (fc_frags fc)"
    using assms(1) by (simp add: frag_now_def last_conv_nth)
  with assms show "p + k < length (frag_bytes fc i)"
    "frag_bytes fc i ! (p + k) = fr_literal (fc_frags fc ! i) ! (p + k)"
    by (auto simp: place_ok_def frag_bytes_def closed_bytes_def open_bytes_def nth_ensure_length_old)
qed

lemma image_nth_place:
  assumes "fc_frags fc \<noteq> []" and "place_ok fc i p n" and "k < n"
  shows "image fc ! (place_pos fc i p + k) = fr_literal (fc_frags fc ! i) ! (p + k)"
    and "place_pos fc i p + k < length (image fc)"
proof -
  obtain rest where "image fc = concat (map closed_bytes (take i (fc_frags fc))) @ frag_bytes fc i @ rest"
    using image_split [OF assms(1), of i] assms(2) by (auto simp: place_ok_def)
  with place_ok_frag_bytes [OF assms] show
    "image fc ! (place_pos fc i p + k) = fr_literal (fc_frags fc ! i) ! (p + k)"
    "place_pos fc i p + k < length (image fc)"
    by (simp_all add: place_pos_def nth_append add.assoc)
qed

text \<open>Growth of a chain that keeps all its places.\<close>

definition chain_extends :: "frchain \<Rightarrow> frchain \<Rightarrow> bool" where
  "chain_extends fc fc' \<longleftrightarrow> fc_frags fc \<noteq> [] \<and> length (fc_frags fc) \<le> length (fc_frags fc') \<and>
     (\<forall>i < frag_now fc. fc_frags fc' ! i = fc_frags fc ! i) \<and>
     (\<forall>k < length (fr_literal (fc_frags fc ! frag_now fc)). k < fc_growth fc \<longrightarrow>
        k < length (fr_literal (fc_frags fc' ! frag_now fc)) \<and>
        fr_literal (fc_frags fc' ! frag_now fc) ! k = fr_literal (fc_frags fc ! frag_now fc) ! k) \<and>
     fc_growth fc \<le> (if frag_now fc = frag_now fc' then fc_growth fc'
       else unat (fr_fix (fc_frags fc' ! frag_now fc)))"

lemma chain_extends_refl: "fc_frags fc \<noteq> [] \<Longrightarrow> chain_extends fc fc"
  by (simp add: chain_extends_def)

lemma chain_extends_trans:
  assumes a: "chain_extends fc1 fc2" and b: "chain_extends fc2 fc3"
  shows "chain_extends fc1 fc3"
proof (cases "frag_now fc1 = frag_now fc2")
  case True
  with a b show ?thesis by (auto simp: chain_extends_def)
next
  case False
  have "length (fc_frags fc1) \<le> length (fc_frags fc2)" using a by (simp add: chain_extends_def)
  with False have lt: "frag_now fc1 < frag_now fc2" by (auto simp: frag_now_def)
  then have "fc_frags fc3 ! frag_now fc1 = fc_frags fc2 ! frag_now fc1"
    using b by (simp add: chain_extends_def)
  moreover have "frag_now fc2 \<le> frag_now fc3" using b by (auto simp: chain_extends_def frag_now_def)
  ultimately show ?thesis using a b lt by (auto simp: chain_extends_def)
qed

lemma chain_extends_place:
  assumes "chain_extends fc fc'" and ok: "place_ok fc i p n" and "0 < n"
  shows "place_ok fc' i p n" and "place_pos fc' i p = place_pos fc i p"
    and "k < n \<Longrightarrow> fr_literal (fc_frags fc' ! i) ! (p + k) = fr_literal (fc_frags fc ! i) ! (p + k)"
proof -
  have le: "i \<le> frag_now fc" using ok by (auto simp: place_ok_def frag_now_def)
  have now: "frag_now fc \<le> frag_now fc'" using assms(1) by (auto simp: chain_extends_def frag_now_def)
  have len: "i < length (fc_frags fc')" using assms(1) ok by (auto simp: chain_extends_def place_ok_def)
  show "place_ok fc' i p n"
  proof (cases "i = frag_now fc")
    case True
    have "p + n - 1 < length (fr_literal (fc_frags fc' ! i))"
      using assms ok True by (auto simp: chain_extends_def place_ok_def)
    with assms ok True len show ?thesis
      by (auto simp: chain_extends_def place_ok_def split: if_splits)
  next
    case False
    with le now assms(1) ok len show ?thesis by (auto simp: chain_extends_def place_ok_def)
  qed
  have "take i (fc_frags fc') = take i (fc_frags fc)"
    using assms(1) le len by (intro nth_equalityI) (auto simp: chain_extends_def place_ok_def frag_now_def)
  then show "place_pos fc' i p = place_pos fc i p" by (simp add: place_pos_def)
  show "k < n \<Longrightarrow> fr_literal (fc_frags fc' ! i) ! (p + k) = fr_literal (fc_frags fc ! i) ! (p + k)"
    using assms(1) ok le by (cases "i = frag_now fc") (auto simp: chain_extends_def place_ok_def)
qed

subsection \<open>The operations keep the places\<close>

lemma frag_close_frags:
  assumes "frag_new 0 (frag_wane_now fc) = Inr fc'" and "fc_frags fc \<noteq> []"
  shows "fc_frags fc' = butlast (fc_frags fc) @ [last (fc_frags fc)\<lparr>fr_type := Rs_fill, fr_offset := 0,
    fr_var := 0, fr_fix := frag_now_fix_octets fc,
    fr_literal := ensure_length (fc_growth fc) (fr_literal (last (fc_frags fc)))\<rparr>, zero_frag]"
proof -
  have ne: "fc_frags (frag_wane_now fc) \<noteq> []"
    using assms(2) by (simp add: frag_wane_now_def update_frag_now)
  have oct: "frag_now_fix_octets (frag_wane_now fc) = frag_now_fix_octets fc"
    by (simp add: frag_now_fix_octets_def frag_wane_now_def) (simp add: update_frag_def)
  have "fc' = frag_alloc (update_frag (frag_now (frag_wane_now fc)) (\<lambda>f. f\<lparr>fr_fix := frag_now_fix_octets fc,
      fr_literal := ensure_length (fc_growth fc) (fr_literal f)\<rparr>) (frag_wane_now fc))"
    using assms(1) oct by (auto simp: frag_new_def Let_def and_then_Inr_iff frag_wane_now_def)
  then show ?thesis
    by (simp add: frag_alloc_def update_frag_now [OF ne])
      (simp add: frag_wane_now_def update_frag_now [OF assms(2)])
qed

lemma frag_close_extends:
  assumes inv: "frchain_inv fc" and new: "frag_new 0 (frag_wane_now fc) = Inr fc'"
  shows "chain_extends fc fc'"
proof -
  have ne: "fc_frags fc \<noteq> []" and abs: "\<not> fc_absolute fc" and g: "fc_growth fc < 2 ^ 32"
    using inv by (simp_all add: frchain_inv_def)
  note fr = frag_close_frags [OF new ne]
  have last: "fc_frags fc ! frag_now fc = last (fc_frags fc)"
    using ne by (simp add: frag_now_def last_conv_nth)
  have now: "frag_now fc < frag_now fc'" using ne by (simp add: frag_now_def fr)
  have at: "fc_frags fc' ! frag_now fc = last (fc_frags fc)\<lparr>fr_type := Rs_fill, fr_offset := 0,
      fr_var := 0, fr_fix := frag_now_fix_octets fc,
      fr_literal := ensure_length (fc_growth fc) (fr_literal (last (fc_frags fc)))\<rparr>"
    by (simp add: fr frag_now_def nth_append)
  have u: "unat (frag_now_fix_octets fc) = fc_growth fc"
    using abs g by (simp add: frag_now_fix_octets_def unat_of_nat take_bit_nat_eq_self)
  have below: "\<forall>i < frag_now fc. fc_frags fc' ! i = fc_frags fc ! i"
    by (simp add: fr frag_now_def nth_append nth_butlast)
  have len: "length (fc_frags fc) \<le> length (fc_frags fc')" using ne by (simp add: fr)
  have neq: "frag_now fc \<noteq> frag_now fc'" using now by simp
  show ?thesis
    unfolding chain_extends_def last at using ne below len neq u
    by (simp add: nth_ensure_length_old less_max_iff_disj)
qed

lemma obstack_blank_extends: "fc_frags fc \<noteq> [] \<Longrightarrow> chain_extends fc (obstack_blank_fast n fc)"
  by (simp add: chain_extends_def obstack_blank_fast_def frag_now_def)

lemma grow_loop_extends:
  "frchain_inv fc \<Longrightarrow> grow_loop fuel n fc = Inr fc' \<Longrightarrow> chain_extends fc fc'"
proof (induction fuel n fc rule: grow_loop.induct)
  case (1 n fc)
  then show ?case by (simp add: chain_extends_refl frchain_inv_def)
next
  case (2 fuel n fc)
  show ?case
  proof (cases "fc_room fc < n")
    case True
    from frag_close_image [OF "2.prems"(1)] obtain fc1 where
      fc1: "frag_new 0 (frag_wane_now fc) = Inr fc1" "frchain_inv fc1" by blast
    with "2.prems"(2) True have "grow_loop fuel n fc1 = Inr fc'" by simp
    with "2.IH" [OF True, of fc1] fc1 have "chain_extends fc1 fc'" by simp
    with frag_close_extends [OF "2.prems"(1) fc1(1)] show ?thesis by (rule chain_extends_trans)
  next
    case False
    with "2.prems" show ?thesis by (simp add: chain_extends_refl frchain_inv_def)
  qed
qed

lemma chain_extends_chunk [simp]:
  "chain_extends (fc\<lparr>fc_chunk_size := c\<rparr>) fc' \<longleftrightarrow> chain_extends fc fc'"
  "chain_extends fc (fc'\<lparr>fc_chunk_size := c\<rparr>) \<longleftrightarrow> chain_extends fc fc'"
  by (simp_all add: chain_extends_def frag_now_def)

lemma frag_grow_extends:
  assumes inv: "frchain_inv fc" and grow: "frag_grow n fc = Inr fc'"
  shows "chain_extends fc fc'"
proof (cases "fc_room fc < n")
  case True
  define c where "c = max (((if n < 0x10000 then 2 * n else n + 0x10000) + fc_frag_size fc) mod 2 ^ 32)
    (fc_chunk_size fc)"
  have "frchain_inv (fc\<lparr>fc_chunk_size := c\<rparr>)" using inv by (simp add: frchain_inv_def)
  moreover obtain fc1 where "grow_loop (fc_room fc + 2) n (fc\<lparr>fc_chunk_size := c\<rparr>) = Inr fc1"
    "fc' = fc1\<lparr>fc_chunk_size := fc_chunk_size fc\<rparr>"
    using grow True by (auto simp: frag_grow_def Let_def and_then_Inr_iff c_def split: if_splits)
  ultimately show ?thesis using grow_loop_extends by fastforce
qed (use assms in \<open>auto simp: frag_grow_def chain_extends_refl frchain_inv_def\<close>)

text \<open>Writing behind the bytes a smaller chain had.\<close>

lemma write_literal_extends:
  assumes "chain_extends fc0 fc" and inv: "fc_frags fc \<noteq> []"
    and new: "frag_now fc0 = frag_now fc \<Longrightarrow> fc_growth fc0 \<le> p"
  shows "chain_extends fc0 (write_literal (frag_now fc) p bs fc)"
proof -
  let ?w = "write_literal (frag_now fc) p bs fc"
  have now: "frag_now fc < length (fc_frags fc)" using inv by (simp add: frag_now_def)
  have nth: "fc_frags ?w ! i = (if i = frag_now fc then (fc_frags fc ! i)\<lparr>fr_literal := store_bytes bs p
      (ensure_length (p + length bs) (fr_literal (fc_frags fc ! i)))\<rparr> else fc_frags fc ! i)" for i
    using now by (auto simp: write_literal_def update_frag_def nth_list_update)
  have le: "frag_now fc0 \<le> frag_now fc" using assms(1) by (auto simp: chain_extends_def frag_now_def)
  have w: "frag_now ?w = frag_now fc" "fc_growth ?w = fc_growth fc" "length (fc_frags ?w) = length (fc_frags fc)"
    by (simp_all add: write_literal_def)
  show ?thesis
  proof (cases "frag_now fc0 = frag_now fc")
    case True
    with assms(1) new le show ?thesis
      unfolding chain_extends_def w nth
      by (auto simp: nth_store_bytes nth_ensure_length_old)
  next
    case False
    with assms(1) le show ?thesis unfolding chain_extends_def w nth by auto
  qed
qed

text \<open>
  Reserving \<open>n\<close> bytes and writing them: the image grows by exactly these bytes, and the
  place returned holds them.
\<close>

lemma frag_more_write:
  assumes inv: "frchain_inv fc" and more: "frag_more (length bs) fc = Inr (p, fc1)"
    and fc': "fc' = write_literal (frag_now fc1) p bs fc1"
    and small: "length (image fc) + length bs < 2 ^ 32"
  shows "frchain_inv fc'" and "image fc' = image fc @ bs" and "chain_extends fc fc'"
    and "place_ok fc' (frag_now fc1) p (length bs)" and "place_pos fc' (frag_now fc1) p = length (image fc)"
    and "frag_now fc' = frag_now fc1"
proof -
  note m = frag_more_image [OF inv more small]
  have w: "p + length bs \<le> fc_growth fc1" using m(5) by simp
  note wl = write_literal_image [OF m(1) w]
  show "frchain_inv fc'" using wl(1) fc' by simp
  show "frag_now fc' = frag_now fc1" by (simp add: fc' write_literal_def)
  have len: "length (image fc1) = length (image fc) + length bs" by (rule m(3))
  have "image fc' = store_bytes bs (length (image fc)) (image fc1)" using wl(2) m(4) fc' by simp
  also have "\<dots> = take (length (image fc)) (image fc1) @ bs" by (simp add: store_bytes_def len)
  finally show "image fc' = image fc @ bs" by (simp add: m(2))
  obtain fc0 where grow: "frag_grow (length bs) fc = Inr fc0" and fc1: "fc1 = obstack_blank_fast (length bs) fc0"
    and p: "p = fc_growth fc0" using more by (auto simp: frag_more_def and_then_Inr_iff)
  have ne0: "fc_frags fc0 \<noteq> []" and ne1: "fc_frags fc1 \<noteq> []"
    using frag_grow_image(1) [OF inv grow] m(1) by (simp_all add: frchain_inv_def)
  have e0: "chain_extends fc fc0" by (rule frag_grow_extends [OF inv grow])
  have e1: "chain_extends fc fc1"
    unfolding fc1 by (rule chain_extends_trans [OF e0 obstack_blank_extends [OF ne0]])
  have "fc_growth fc \<le> p" if "frag_now fc = frag_now fc1"
    using e0 that by (simp add: chain_extends_def p fc1 obstack_blank_fast_def frag_now_def)
  with e1 ne1 show "chain_extends fc fc'" unfolding fc' by (intro write_literal_extends)
  have lt: "frag_now fc1 < length (fc_frags fc1)" using ne1 by (simp add: frag_now_def)
  show "place_ok fc' (frag_now fc1) p (length bs)"
    using w lt by (simp add: place_ok_def fc' write_literal_def) (simp add: update_frag_def)
  have "take (frag_now fc1) (fc_frags fc') = butlast (fc_frags fc1)"
    using lt by (simp add: fc' write_literal_def update_frag_def butlast_conv_take frag_now_def)
  then show "place_pos fc' (frag_now fc1) p = length (image fc)"
    using m(4) by (simp add: place_pos_def chain_base_def)
qed

subsection \<open>Reserving succeeds\<close>

lemma frag_new_frag_size: "frag_new v fc = Inr fc' \<Longrightarrow> fc_frag_size fc' = fc_frag_size fc"
  by (auto simp: frag_new_def Let_def and_then_Inr_iff frag_alloc_def)

lemma frag_wane_frag_size: "fc_frag_size (frag_wane_now fc) = fc_frag_size fc"
  by (simp add: frag_wane_now_def update_frag_def)

lemma grow_loop_frag_size: "grow_loop fuel n fc = Inr fc' \<Longrightarrow> fc_frag_size fc' = fc_frag_size fc"
proof (induction fuel n fc rule: grow_loop.induct)
  case (2 fuel n fc)
  then show ?case
    by (auto simp: and_then_Inr_iff frag_wane_frag_size dest: frag_new_frag_size split: if_splits)
qed simp

lemma frag_more_returns:
  assumes "frchain_inv fc" and "fc_frag_size fc < 2 ^ 16" and "n < 0x10000"
  shows "\<exists>p fc'. frag_more n fc = Inr (p, fc') \<and> fc_frag_size fc' = fc_frag_size fc"
proof -
  have "\<exists>fc'. frag_grow n fc = Inr fc' \<and> fc_frag_size fc' = fc_frag_size fc"
  proof (cases "fc_room fc < n")
    case True
    let ?fc = "fc\<lparr>fc_chunk_size := max ((2 * n + fc_frag_size fc) mod 2 ^ 32) (fc_chunk_size fc)\<rparr>"
    have "frchain_inv ?fc" using assms(1) by (simp add: frchain_inv_def)
    then obtain fc1 where fc1: "grow_loop (fc_room fc + 2) n ?fc = Inr fc1" using grow_loop_image by blast
    with True assms(2,3) grow_loop_frag_size [OF fc1] show ?thesis by (auto simp: frag_grow_def Let_def)
  qed (auto simp: frag_grow_def)
  then show ?thesis by (auto simp: frag_more_def obstack_blank_fast_def)
qed

lemma write_literal_frag_size: "fc_frag_size (write_literal i p bs fc) = fc_frag_size fc"
  by (simp add: write_literal_def update_frag_def)

end
