(* ===== verification/RvSemantics.thy ===== *)
theory RvSemantics
  imports RiscvEncoding BfdBytes
begin

text \<open>
  What the processor does with the code the assembler writes: a specification, taken from the
  RISC-V manual and not from the program, of the instructions the target code synthesises
  (constants, branches, jumps, their compressed forms and NOPs), executing from a list of
  bytes. The properties that say what relaxation and macro expansion mean are stated with it.
  Opcodes are numbers here and not the \<open>MATCH\<close> constants of the assembler, so that a
  wrong constant shows.
\<close>

subsection \<open>Machine state\<close>

record rv_state =
  rv_pc :: u32
  rv_x :: "u32 \<Rightarrow> u32"

definition rv_get :: "u32 \<Rightarrow> rv_state \<Rightarrow> u32" where
  "rv_get r s = (if r = 0 then 0 else rv_x s r)"

definition rv_set :: "u32 \<Rightarrow> u32 \<Rightarrow> rv_state \<Rightarrow> rv_state" where
  "rv_set r v s = (if r = 0 then s else s\<lparr>rv_x := (rv_x s)(r := v)\<rparr>)"

definition rv_advance :: "u32 \<Rightarrow> rv_state \<Rightarrow> rv_state" where
  "rv_advance n s = s\<lparr>rv_pc := rv_pc s + n\<rparr>"

definition rv_jump :: "u32 \<Rightarrow> rv_state \<Rightarrow> rv_state" where
  "rv_jump target s = s\<lparr>rv_pc := target\<rparr>"

subsection \<open>Fields\<close>

definition w_opcode :: "u32 \<Rightarrow> u32" where "w_opcode w = w AND 0x7f"
definition w_rd :: "u32 \<Rightarrow> u32" where "w_rd w = shr w 7 AND 0x1f"
definition w_funct3 :: "u32 \<Rightarrow> u32" where "w_funct3 w = shr w 12 AND 0x7"
definition w_rs1 :: "u32 \<Rightarrow> u32" where "w_rs1 w = shr w 15 AND 0x1f"
definition w_rs2 :: "u32 \<Rightarrow> u32" where "w_rs2 w = shr w 20 AND 0x1f"

lemmas w_fields = w_opcode_def w_rd_def w_funct3_def w_rs1_def w_rs2_def

lemma opcode_low_bits: "w_opcode w AND 3 = v \<Longrightarrow> w AND 3 = v"
  by (simp add: w_opcode_def and.assoc)

text \<open>The condition of a branch; \<open>None\<close> for the two reserved codes.\<close>

definition rv_taken :: "u32 \<Rightarrow> u32 \<Rightarrow> u32 \<Rightarrow> bool option" where
  "rv_taken funct3 a b =
     (if funct3 = 0 then Some (a = b) else if funct3 = 1 then Some (a \<noteq> b)
      else if funct3 = 4 then Some (a <s b) else if funct3 = 5 then Some (b \<le>s a)
      else if funct3 = 6 then Some (a < b) else if funct3 = 7 then Some (b \<le> a) else None)"

subsection \<open>One instruction\<close>

definition rv_step32 :: "u32 \<Rightarrow> rv_state \<Rightarrow> rv_state option" where
  "rv_step32 w s =
     (let op = w_opcode w; rd = w_rd w; a = rv_get (w_rs1 w) s; b = rv_get (w_rs2 w) s; pc = rv_pc s
      in if op = 0x37 then Some (rv_advance 4 (rv_set rd (w AND 0xfffff000) s))
         else if op = 0x17 then Some (rv_advance 4 (rv_set rd (pc + (w AND 0xfffff000)) s))
         else if op = 0x13 \<and> w_funct3 w = 0
         then Some (rv_advance 4 (rv_set rd (a + EXTRACT_ITYPE_IMM w) s))
         else if op = 0x6f then Some (rv_jump (pc + EXTRACT_UJTYPE_IMM w) (rv_set rd (pc + 4) s))
         else if op = 0x67 \<and> w_funct3 w = 0
         then Some (rv_jump ((a + EXTRACT_ITYPE_IMM w) AND NOT 1) (rv_set rd (pc + 4) s))
         else if op = 0x63 then
           (case rv_taken (w_funct3 w) a b of
              Some True \<Rightarrow> Some (rv_jump (pc + EXTRACT_SBTYPE_IMM w) s)
            | Some False \<Rightarrow> Some (rv_advance 4 s)
            | None \<Rightarrow> None)
         else None)"

text \<open>The compressed instructions, in the low half of \<open>h\<close>.\<close>

definition h_rs1 :: "u32 \<Rightarrow> u32" where "h_rs1 h = 8 + (shr h 7 AND 0x7)"

definition rv_step16 :: "u32 \<Rightarrow> rv_state \<Rightarrow> rv_state option" where
  "rv_step16 h s =
     (let op = h AND 0xe003; pc = rv_pc s
      in if op = 0xa001 then Some (rv_jump (pc + EXTRACT_RVC_J_IMM h) s)
         else if op = 0x2001 then Some (rv_jump (pc + EXTRACT_RVC_J_IMM h) (rv_set 1 (pc + 2) s))
         else if op = 0xc001 then
           Some (if rv_get (h_rs1 h) s = 0 then rv_jump (pc + EXTRACT_RVC_B_IMM h) s else rv_advance 2 s)
         else if op = 0xe001 then
           Some (if rv_get (h_rs1 h) s \<noteq> 0 then rv_jump (pc + EXTRACT_RVC_B_IMM h) s else rv_advance 2 s)
         else if op = 0x0001 then
           Some (rv_advance 2 (rv_set (w_rd h) (rv_get (w_rd h) s + EXTRACT_RVC_IMM h) s))
         else None)"

text \<open>
  The instruction at the program counter, in the bytes \<open>code\<close> loaded at \<open>base\<close>. Its two
  low bits tell the length.
\<close>

definition rv_step :: "u32 \<Rightarrow> byte list \<Rightarrow> rv_state \<Rightarrow> rv_state option" where
  "rv_step base code s =
     (let p = unat (rv_pc s - base)
      in if length code < p + 2 then None
         else let h = bfd_getl16 code p
              in if h AND 3 \<noteq> 3 then rv_step16 h s
                 else if length code < p + 4 then None
                 else rv_step32 (bfd_getl32 code p) s)"

fun rv_run :: "nat \<Rightarrow> u32 \<Rightarrow> byte list \<Rightarrow> rv_state \<Rightarrow> rv_state option" where
  "rv_run 0 base code s = Some s"
| "rv_run (Suc n) base code s =
     (case rv_step base code s of None \<Rightarrow> None | Some s' \<Rightarrow> rv_run n base code s')"

lemma rv_run_add:
  "rv_run (m + n) base code s =
     (case rv_run m base code s of None \<Rightarrow> None | Some s' \<Rightarrow> rv_run n base code s')"
  by (induction m arbitrary: s) (auto split: option.splits)

lemma rv_state_simps [simp]:
  "rv_pc (rv_set r v s) = rv_pc s" "rv_pc (rv_advance n s) = rv_pc s + n" "rv_pc (rv_jump t s) = t"
  "rv_get r (rv_advance n s) = rv_get r s" "rv_get r (rv_jump t s) = rv_get r s"
  "rv_get 0 s = 0" "rv_set 0 v s = s"
  "rv_get q (rv_set r v s) = (if q = r \<and> r \<noteq> 0 then v else rv_get q s)"
  by (auto simp: rv_get_def rv_set_def rv_advance_def rv_jump_def)

lemma rv_state_ops:
  "rv_advance m (rv_advance n s) = rv_advance (n + m) s"
  "rv_jump t (rv_advance n s) = rv_jump t s" "rv_jump t (rv_jump u s) = rv_jump t s"
  "rv_set r v (rv_advance n s) = rv_advance n (rv_set r v s)"
  "rv_set r v (rv_jump t s) = rv_jump t (rv_set r v s)"
  "rv_set r v (rv_set r u s) = rv_set r v s"
  "rv_jump (rv_pc s + n) s = rv_advance n s"
  by (simp_all add: rv_set_def rv_advance_def rv_jump_def algebra_simps)

subsection \<open>Fields of a word with an immediate put in\<close>

text \<open>Bits outside the mask \<open>m\<close> of a field do not change it.\<close>

lemma field_frame:
  fixes w :: "'a::len word"
  assumes "e AND m = e" and "m AND shl f k = 0"
  shows "shr (w OR e) k AND f = shr w k AND f"
proof (rule bit_word_eqI)
  fix i assume i: "i < LENGTH('a)"
  have "\<not> bit e (k + i)" if "bit f i"
  proof
    assume b: "bit e (k + i)"
    then have "bit m (k + i)" using arg_cong [OF assms(1), of "\<lambda>x. bit x (k + i)"] by (simp add: bit_and_iff)
    moreover have "bit (shl f k) (k + i)" using b that bit_imp_le_length by (fastforce simp: word_bits)
    ultimately have "bit (m AND shl f k) (k + i)" by (simp add: bit_and_iff)
    then show False by (simp add: assms(2))
  qed
  then show "bit (shr (w OR e) k AND f) i = bit (shr w k AND f) i" by (auto simp: word_bits)
qed

lemmas sbtype_field = field_frame [OF sbtype.enc_within, unfolded encode_all_ones]
lemmas ujtype_field = field_frame [OF ujtype.enc_within, unfolded encode_all_ones]
lemmas itype_field = field_frame [OF itype.enc_within, unfolded encode_all_ones]

lemma fields_sbtype:
  "w_opcode (w OR ENCODE_SBTYPE_IMM x) = w_opcode w" "w_funct3 (w OR ENCODE_SBTYPE_IMM x) = w_funct3 w"
  "w_rs1 (w OR ENCODE_SBTYPE_IMM x) = w_rs1 w" "w_rs2 (w OR ENCODE_SBTYPE_IMM x) = w_rs2 w"
  using sbtype_field [of "0x7f" 0 w x] sbtype_field [of 7 12 w x] sbtype_field [of 31 15 w x]
    sbtype_field [of 31 20 w x]
  by (simp_all add: w_fields c_eval)

lemma fields_ujtype:
  "w_opcode (w OR ENCODE_UJTYPE_IMM x) = w_opcode w" "w_rd (w OR ENCODE_UJTYPE_IMM x) = w_rd w"
  using ujtype_field [of "0x7f" 0 w x] ujtype_field [of 31 7 w x] by (simp_all add: w_fields c_eval)

lemma fields_itype:
  "w_opcode (w OR ENCODE_ITYPE_IMM x) = w_opcode w" "w_rd (w OR ENCODE_ITYPE_IMM x) = w_rd w"
  "w_funct3 (w OR ENCODE_ITYPE_IMM x) = w_funct3 w" "w_rs1 (w OR ENCODE_ITYPE_IMM x) = w_rs1 w"
  using itype_field [of "0x7f" 0 w x] itype_field [of 31 7 w x] itype_field [of 7 12 w x]
    itype_field [of 31 15 w x]
  by (simp_all add: w_fields c_eval)

end
