(* ===== verification/FixImage.thy ===== *)
theory FixImage
  imports TcFix FragPlaces RvSemantics
begin

text \<open>
  Fixups seen from the emitted bytes: rewriting bytes of a fragment at the place of a fixup
  rewrites the same bytes of the chain's image, and nothing else.
\<close>

subsection \<open>Rewriting a fragment\<close>

lemma image_update_literal:
  assumes "fc_frags fc \<noteq> []" and "i < length (fc_frags fc)"
    and fc': "fc' = update_frag i (\<lambda>f. f\<lparr>fr_literal := g (fr_literal f)\<rparr>) fc"
  shows "\<exists>rest. image fc = concat (map closed_bytes (take i (fc_frags fc))) @ frag_bytes fc i @ rest \<and>
    image fc' = concat (map closed_bytes (take i (fc_frags fc))) @ frag_bytes fc' i @ rest"
proof (cases "i = frag_now fc")
  case True
  with assms show ?thesis
    by (simp add: image_def frag_bytes_def frag_now_def butlast_conv_take update_frag_def)
next
  case False
  with assms have i: "i < length (butlast (fc_frags fc))" by (simp add: frag_now_def)
  let ?f = "\<lambda>f. f\<lparr>fr_literal := g (fr_literal f)\<rparr>"
  have u: "fc_frags fc' = (fc_frags fc)[i := ?f (fc_frags fc ! i)]" by (simp add: fc' update_frag_def)
  have nth: "butlast (fc_frags fc) ! i = fc_frags fc ! i" using i by (simp add: nth_butlast)
  have b': "butlast (fc_frags fc') = (butlast (fc_frags fc))[i := ?f (fc_frags fc ! i)]"
    using i assms(1) by (simp add: u butlast_list_update)
  have t: "take i (butlast (fc_frags fc)) = take i (fc_frags fc)" using i by (simp add: butlast_conv_take)
  have "last (fc_frags fc') = last (fc_frags fc)"
    using False assms(1) by (simp add: u last_list_update frag_now_def)
  then have open_same: "open_bytes fc' = open_bytes fc" by (simp add: open_bytes_def fc')
  have now: "frag_now fc' = frag_now fc" by (simp add: fc')
  have fb: "frag_bytes fc i = closed_bytes (fc_frags fc ! i)" "frag_bytes fc' i = closed_bytes (?f (fc_frags fc ! i))"
    using False assms(2) by (simp_all add: frag_bytes_def u now)
  let ?B = "butlast (fc_frags fc)" and ?cb = "\<lambda>xs. concat (map closed_bytes xs)"
  have "?cb ?B = ?cb (take i (fc_frags fc)) @ closed_bytes (fc_frags fc ! i) @ ?cb (drop (Suc i) ?B)"
    using arg_cong [OF id_take_nth_drop [OF i], of ?cb] by (simp add: nth t)
  moreover have "?cb (?B[i := a]) = ?cb (take i (fc_frags fc)) @ closed_bytes a @ ?cb (drop (Suc i) ?B)" for a
    using i by (simp add: upd_conv_take_nth_drop t)
  ultimately show ?thesis
    unfolding image_def b' open_same fb by (intro exI [of _ "?cb (drop (Suc i) ?B) @ open_bytes fc"]) simp
qed

lemma putl32_append:
  "p + 4 \<le> length m \<Longrightarrow>
    bfd_putl32 v (pre @ m @ rest) (length pre + p) = pre @ bfd_putl32 v m p @ rest"
  by (simp add: bfd_putl32_def list_update_append)

lemma take_ensure_putl32:
  "p + 4 \<le> length buf \<Longrightarrow> p + 4 \<le> n \<Longrightarrow>
    take n (ensure_length n (bfd_putl32 v buf p)) = bfd_putl32 v (take n (ensure_length n buf)) p"
  by (simp add: bfd_putl32_def ensure_length_def list_update_append take_update_swap)

lemma take_putl32: "take n (bfd_putl32 v buf p) = bfd_putl32 v (take n buf) p"
  by (simp add: bfd_putl32_def take_update_swap)

lemma open_bytes_putl32:
  assumes "fc_frags fc \<noteq> []" and "p + 4 \<le> fc_growth fc" and "p + 4 \<le> length (fr_literal (last (fc_frags fc)))"
  shows "open_bytes (update_frag (frag_now fc) (\<lambda>f. f\<lparr>fr_literal := bfd_putl32 v (fr_literal f) p\<rparr>) fc) =
    bfd_putl32 v (open_bytes fc) p"
  using assms by (simp add: open_bytes_def update_frag_now take_ensure_putl32)

text \<open>A 32-bit word written at a place.\<close>

lemma image_putl32:
  assumes ne: "fc_frags fc \<noteq> []" and ok: "place_ok fc i p 4"
  shows "image (update_frag i (\<lambda>f. f\<lparr>fr_literal := bfd_putl32 v (fr_literal f) p\<rparr>) fc) =
      bfd_putl32 v (image fc) (place_pos fc i p)"
    and "bfd_getl32 (fr_literal (fc_frags fc ! i)) p = bfd_getl32 (image fc) (place_pos fc i p)"
proof -
  let ?fc = "update_frag i (\<lambda>f. f\<lparr>fr_literal := bfd_putl32 v (fr_literal f) p\<rparr>) fc"
  let ?pre = "concat (map closed_bytes (take i (fc_frags fc)))"
  have i: "i < length (fc_frags fc)" and lit: "p + 4 \<le> length (fr_literal (fc_frags fc ! i))"
    using ok by (simp_all add: place_ok_def)
  obtain rest where r: "image fc = ?pre @ frag_bytes fc i @ rest" "image ?fc = ?pre @ frag_bytes ?fc i @ rest"
    using image_update_literal [OF ne i, of ?fc "\<lambda>buf. bfd_putl32 v buf p"] by auto
  have last: "i = frag_now fc \<Longrightarrow> last (fc_frags fc) = fc_frags fc ! i"
    using ne by (simp add: frag_now_def last_conv_nth)
  have "frag_bytes ?fc i = bfd_putl32 v (frag_bytes fc i) p"
  proof (cases "i = frag_now fc")
    case True
    then have "p + 4 \<le> fc_growth fc" using ok by (simp add: place_ok_def)
    with True show ?thesis
      using open_bytes_putl32 [OF ne, of p v] lit last [OF True] by (simp add: frag_bytes_def)
  next
    case False
    then have "frag_bytes ?fc i = closed_bytes (fc_frags ?fc ! i)" "frag_bytes fc i = closed_bytes (fc_frags fc ! i)"
      by (simp_all add: frag_bytes_def)
    with i show ?thesis by (simp add: closed_bytes_def update_frag_def take_putl32)
  qed
  moreover have "p + 4 \<le> length (frag_bytes fc i)"
    using place_ok_frag_bytes(1) [OF ne ok, of 3] by simp
  ultimately show "image ?fc = bfd_putl32 v (image fc) (place_pos fc i p)"
    using putl32_append [of p "frag_bytes fc i" v ?pre rest]
    unfolding r place_pos_def by simp
  show "bfd_getl32 (fr_literal (fc_frags fc ! i)) p = bfd_getl32 (image fc) (place_pos fc i p)"
    using image_nth_place [OF ne ok, of 0] image_nth_place [OF ne ok, of 1]
      image_nth_place [OF ne ok, of 2] image_nth_place [OF ne ok, of 3]
    by (simp add: bfd_getl32_def)
qed

text \<open>The places stay where they are.\<close>

lemma places_update_literal:
  assumes "\<And>buf. length (g buf) = length buf"
    and fc': "fc' = update_frag i (\<lambda>f. f\<lparr>fr_literal := g (fr_literal f)\<rparr>) fc"
  shows "place_ok fc' j p n \<longleftrightarrow> place_ok fc j p n" and "place_pos fc' j p = place_pos fc j p"
proof -
  let ?f = "\<lambda>f. f\<lparr>fr_literal := g (fr_literal f)\<rparr>"
  have u: "fc_frags fc' = (fc_frags fc)[i := ?f (fc_frags fc ! i)]" by (simp add: fc' update_frag_def)
  have len: "length (closed_bytes (?f f)) = length (closed_bytes f)" for f
    by (simp add: closed_bytes_def assms(1))
  show "place_ok fc' j p n \<longleftrightarrow> place_ok fc j p n"
    using assms(1) by (cases "i = j") (auto simp: place_ok_def u, simp_all add: fc')
  have "map (length \<circ> closed_bytes) (fc_frags fc') = map (length \<circ> closed_bytes) (fc_frags fc)"
    by (cases "i < length (fc_frags fc)")
      (simp_all add: u map_update len list_update_same_conv not_less list_update_beyond)
  then have "map (length \<circ> closed_bytes) (take j (fc_frags fc')) = map (length \<circ> closed_bytes) (take j (fc_frags fc))"
    by (simp flip: take_map)
  then show "place_pos fc' j p = place_pos fc j p" by (simp add: place_pos_def length_concat)
qed

end
