(* ===== verification/MacroCode.thy ===== *)
theory MacroCode
  imports TcMacro FixImage
begin

text \<open>
  What the macros of constants mean: the bytes \<open>append_insn\<close> adds to the image, the place of
  its fixup, the effect of \<open>md_apply_fix\<close> on the image, and the theorem that the code
  \<open>load_const\<close> emits loads the constant.
\<close>

subsection \<open>Emitting an instruction\<close>

text \<open>
  \<open>emits gs bs gs'\<close>: the bytes are added at the end of the image, the places in it
  stay, and nothing of the target state or the symbols changes. \<open>fix_at gs k pos n\<close>: the fixup
  \<open>k\<close> is about the \<open>n\<close> bytes of the image from \<open>pos\<close>.
\<close>

definition emits :: "gas_state \<Rightarrow> byte list \<Rightarrow> gas_state \<Rightarrow> bool" where
  "emits gs bs gs' \<longleftrightarrow> frchain_inv (gs_chain gs') \<and> image (gs_chain gs') = image (gs_chain gs) @ bs \<and>
     chain_extends (gs_chain gs) (gs_chain gs') \<and> gs_tc gs' = gs_tc gs \<and> gs_symbols gs' = gs_symbols gs \<and>
     gs_seg gs' = gs_seg gs"

definition fix_at :: "gas_state \<Rightarrow> nat \<Rightarrow> nat \<Rightarrow> nat \<Rightarrow> bool" where
  "fix_at gs k pos n \<longleftrightarrow> k < length (gs_fixes gs) \<and> (\<exists>i. fx_frag (gs_fixes gs ! k) = Some i \<and>
     place_ok (gs_chain gs) i (fx_where (gs_fixes gs ! k)) n \<and>
     place_pos (gs_chain gs) i (fx_where (gs_fixes gs ! k)) = pos)"

lemma emits_trans: "emits a bs b \<Longrightarrow> emits b cs c \<Longrightarrow> emits a (bs @ cs) c"
  by (auto simp: emits_def intro: chain_extends_trans)

lemma emits_fix_at:
  "emits a bs b \<Longrightarrow> fix_at a k pos n \<Longrightarrow> gs_fixes b = gs_fixes a @ fs \<Longrightarrow> 0 < n \<Longrightarrow> fix_at b k pos n"
  using chain_extends_place(1,2) by (fastforce simp: emits_def fix_at_def nth_append)

lemma store_bytes_same: "store_bytes bs p (store_bytes bs p buf) = store_bytes bs p buf"
  by (rule nth_equalityI) (simp_all add: nth_store_bytes)

lemma ensure_length_enough: "n \<le> length buf \<Longrightarrow> ensure_length n buf = buf"
  by (simp add: ensure_length_def)

lemma write_literal_same: "write_literal i p bs (write_literal i p bs fc) = write_literal i p bs fc"
  by (cases "i < length (fc_frags fc)")
    (simp_all add: write_literal_def update_frag_def ensure_length_enough store_bytes_same not_less list_update_beyond)

lemma length_insn_bytes: "length (insn_bytes ip) = insn_length ip"
  by (simp add: insn_bytes_def)

lemma reloc_sizes:
  "list_all (\<lambda>r. map_option bfd_get_reloc_size (riscv_reloc_type_lookup r) = Some (Some 4))
     [BFD_RELOC_RISCV_HI20, BFD_RELOC_RISCV_LO12_I, BFD_RELOC_RISCV_LO12_S]"
  by (simp add: riscv_reloc_type_lookup_def riscv_reloc_map_def howto_tables bfd_get_reloc_size_def)

lemma append_fixed_emits:
  assumes inv: "frchain_inv (gs_chain gs)" and res: "append_fixed ip r gs = Inr gs'"
    and small: "length (image (gs_chain gs)) + insn_length ip < 2 ^ 32" and pos: "0 < insn_length ip"
  shows "emits gs (insn_bytes ip) gs'"
    and "\<exists>i p. gs_fixes gs' = (case insn_fixp ip of None \<Rightarrow> gs_fixes gs
        | Some k \<Rightarrow> (gs_fixes gs)[k := (gs_fixes gs ! k)\<lparr>fx_frag := Some i, fx_where := p\<rparr>]) \<and>
      place_ok (gs_chain gs') i p (insn_length ip) \<and> place_pos (gs_chain gs') i p = length (image (gs_chain gs))"
proof -
  let ?bs = "insn_bytes ip"
  obtain p fc where more: "frag_more (length ?bs) (gs_chain gs) = Inr (p, fc)"
    using res by (auto simp: append_fixed_def add_fixed_insn_def and_then_Inr_iff length_insn_bytes)
  define fc1 where "fc1 = write_literal (frag_now fc) p ?bs fc"
  note w = frag_more_write [OF inv more fc1_def, unfolded length_insn_bytes, OF small]
  define gs1 where "gs1 = (case insn_fixp ip of None \<Rightarrow> gs
      | Some k \<Rightarrow> update_fix k (\<lambda>f. f\<lparr>fx_frag := Some (frag_now fc), fx_where := p\<rparr>) gs)\<lparr>gs_chain := fc1\<rparr>"
  have b: "insn_bytes (ip\<lparr>insn_frag := Some j, insn_where := q\<rparr>) = ?bs" for j q
    by (simp add: insn_bytes_def insn_length_def)
  have step: "append_fixed ip r gs =
      (if starts_new_frag r then on_chain (\<lambda>fc. frag_new 0 (frag_wane_now fc)) gs1 else Inr gs1)"
    using more unfolding length_insn_bytes append_fixed_def add_fixed_insn_def
    by (simp add: move_insn_def Let_def install_insn_def b write_literal_same fc1_def gs1_def update_fix_def
        split: option.split)
  have fixes1: "gs_fixes gs1 = (case insn_fixp ip of None \<Rightarrow> gs_fixes gs
        | Some k \<Rightarrow> (gs_fixes gs)[k := (gs_fixes gs ! k)\<lparr>fx_frag := Some (frag_now fc), fx_where := p\<rparr>])"
    by (simp add: gs1_def update_fix_def split: option.split)
  have e1: "emits gs ?bs gs1" using w(1-3) by (simp add: emits_def gs1_def update_fix_def split: option.split)
  have "emits gs ?bs gs' \<and> gs_fixes gs' = gs_fixes gs1 \<and> chain_extends fc1 (gs_chain gs')"
  proof (cases "starts_new_frag r")
    case True
    obtain fc2 where fc2: "frag_new 0 (frag_wane_now fc1) = Inr fc2" "frchain_inv fc2" "image fc2 = image fc1"
      using frag_close_image [OF w(1)] by blast
    then have gs': "gs' = gs1\<lparr>gs_chain := fc2\<rparr>" using res step True by (simp add: on_chain_def gs1_def)
    have "chain_extends fc1 fc2" by (rule frag_close_extends [OF w(1) fc2(1)])
    with fc2 e1 show ?thesis using chain_extends_trans [OF w(3)] by (simp add: gs' emits_def gs1_def)
  next
    case False
    then have "gs' = gs1" using res step by simp
    moreover have "gs_chain gs1 = fc1" by (simp add: gs1_def)
    ultimately show ?thesis using e1 w(1) by (simp add: chain_extends_refl frchain_inv_def)
  qed
  with chain_extends_place(1,2) [OF _ w(4) pos] w(5,6) fixes1
  show "emits gs ?bs gs'" "\<exists>i p. gs_fixes gs' = (case insn_fixp ip of None \<Rightarrow> gs_fixes gs
        | Some k \<Rightarrow> (gs_fixes gs)[k := (gs_fixes gs ! k)\<lparr>fx_frag := Some i, fx_where := p\<rparr>]) \<and>
      place_ok (gs_chain gs') i p (insn_length ip) \<and> place_pos (gs_chain gs') i p = length (image (gs_chain gs))"
    by fastforce+
qed

lemma append_insn_const:
  assumes inv: "frchain_inv (gs_chain gs)" and len: "insn_length ip = 4" and e: "X_op e = O_constant"
    and r: "r \<in> {BFD_RELOC_RISCV_HI20, BFD_RELOC_RISCV_LO12_I, BFD_RELOC_RISCV_LO12_S}"
    and res: "append_insn ip (Some e) r gs = Inr gs'"
    and small: "length (image (gs_chain gs)) + 4 < 2 ^ 32"
  shows "emits gs (insn_bytes ip) gs'" and "fix_at gs' (length (gs_fixes gs)) (length (image (gs_chain gs))) 4"
    and "\<exists>f. gs_fixes gs' = gs_fixes gs @ [f] \<and> fx_r_type f = r \<and> fx_addsy f = None \<and> fx_subsy f = None \<and>
      fx_offset f = X_add_number e"
proof -
  obtain howto where look: "riscv_reloc_type_lookup r = Some howto" "bfd_get_reloc_size howto = Some 4"
    using r reloc_sizes by (auto simp: map_option_case split: option.splits)
  let ?k = "length (gs_fixes gs)"
  let ?f = "\<lparr>fx_frag = insn_frag ip, fx_where = insn_where ip, fx_size = 4, fx_addsy = None,
          fx_subsy = None, fx_offset = X_add_number e, fx_pcrel = False, fx_r_type = r,
          fx_addnumber = 0, fx_tcbit = opt_relax (tc_opts (gs_tc gs)), fx_done = False\<rparr>"
  let ?gs = "gs\<lparr>gs_fixes := gs_fixes gs @ [?f]\<rparr>" and ?ip = "ip\<lparr>insn_fixp := Some ?k\<rparr>"
  have app: "append_fixed ?ip r ?gs = Inr gs'"
    using res r e look by (auto simp: append_insn_def add_insn_fix_def fix_new_exp_constant update_fix_def)
  have b: "insn_bytes ?ip = insn_bytes ip" "insn_length ?ip = 4"
    using len by (simp_all add: insn_bytes_def insn_length_def)
  note a = append_fixed_emits [of ?gs ?ip r gs', unfolded b, OF _ app]
  show "emits gs (insn_bytes ip) gs'" using a(1) inv small by (simp add: emits_def)
  obtain i p where ip: "gs_fixes gs' = gs_fixes gs @ [?f\<lparr>fx_frag := Some i, fx_where := p\<rparr>]"
    "place_ok (gs_chain gs') i p 4" "place_pos (gs_chain gs') i p = length (image (gs_chain gs))"
    using a(2) inv small by auto
  then show "fix_at gs' (length (gs_fixes gs)) (length (image (gs_chain gs))) 4"
    by (simp add: fix_at_def)
  from ip(1) show "\<exists>f. gs_fixes gs' = gs_fixes gs @ [f] \<and> fx_r_type f = r \<and> fx_addsy f = None \<and>
      fx_subsy f = None \<and> fx_offset f = X_add_number e" by simp
qed

text \<open>The entries of the synthesised instructions.\<close>

lemma first_entry_append:
  "first_entry (xs @ ys) name = (case first_entry xs name of
     Some es \<Rightarrow> Some (es @ ys) | None \<Rightarrow> first_entry ys name)"
  by (induction xs) (auto simp: first_entry_def split: list.splits)

lemma find_noncompressed_append:
  "find_noncompressed (xs @ ys) = (case find_noncompressed xs of
     Some mo \<Rightarrow> Some mo | None \<Rightarrow> find_noncompressed ys)"
  by (induction xs) auto

definition entry_of :: "string \<Rightarrow> riscv_opcode option" where
  "entry_of name = Option.bind (first_entry riscv_opcodes name) find_noncompressed"

lemma entry_lui: "map_option (\<lambda>mo. (op_name mo, op_match mo)) (entry_of ''lui'') = Some (''lui'', 0x37)"
  by (simp add: entry_of_def riscv_opcodes_def first_entry_append riscv_opcodes_base_def 
      first_entry_def c_eval riscv_insn_length_def)

lemma entry_addi: "map_option (\<lambda>mo. (op_name mo, op_match mo)) (entry_of ''addi'') = Some (''addi'', 0x13)"
  by (simp add: entry_of_def riscv_opcodes_def first_entry_append riscv_opcodes_base_def 
      first_entry_def c_eval riscv_insn_length_def)

subsection \<open>Synthesised instructions\<close>

lemma op_hash_find_started: "tc_started (gs_tc gs) \<Longrightarrow> op_hash_find gs name = first_entry riscv_opcodes name"
  by (auto simp: tc_started_def op_hash_find_def hash_find_cases)

lemma macro_build_insn:
  assumes "tc_started (gs_tc gs)" and "entry_of name = Some mo" and "op_name mo = name"
    and "macro_format (ep \<noteq> None) fmt (args, op_match mo, BFD_RELOC_UNUSED) = Inr (rest, bits, r)"
    and "r = BFD_RELOC_UNUSED \<longleftrightarrow> ep = None"
  shows "macro_build ep name fmt args gs = append_insn ((create_insn mo)\<lparr>insn_opcode := bits\<rparr>) ep r gs"
  using assms
  by (auto simp: macro_build_def op_hash_find_started entry_of_def gas_assert_def create_insn_def Let_def
      split: Option.bind_splits)

lemma ucast_insn_u32: "ucast (ucast w :: insn_t) = w" for w :: u32
  by (simp add: word32_eq_iff bit_simps)

text \<open>A constant operand: the fixup's bits go to its place in the image.\<close>

definition const_bits :: "bfd_reloc \<Rightarrow> valueT \<Rightarrow> u32" where
  "const_bits r val = (if r = BFD_RELOC_RISCV_HI20 then ucast (ENCODE_UTYPE_IMM (RISCV_CONST_HIGH_PART (ucast val)))
     else if r = BFD_RELOC_RISCV_LO12_I then ENCODE_ITYPE_IMM val else ENCODE_STYPE_IMM val)"

lemma md_apply_fix_const:
  assumes ok: "fix_at gs k pos 4" and ne: "frchain_inv (gs_chain gs)"
    and r: "fx_r_type (gs_fixes gs ! k) \<in> {BFD_RELOC_RISCV_HI20, BFD_RELOC_RISCV_LO12_I, BFD_RELOC_RISCV_LO12_S}"
    and s: "fx_addsy (gs_fixes gs ! k) = None" "fx_subsy (gs_fixes gs ! k) = None"
  shows "\<exists>gs'. md_apply_fix names k val gs = Inr gs' \<and> frchain_inv (gs_chain gs') \<and>
    image (gs_chain gs') = bfd_putl32 (bfd_getl32 (image (gs_chain gs)) pos OR
      const_bits (fx_r_type (gs_fixes gs ! k)) val) (image (gs_chain gs)) pos \<and>
    gs_fixes gs' = (gs_fixes gs)[k := (gs_fixes gs ! k)\<lparr>fx_addnumber := val, fx_done := True\<rparr>] \<and>
    (\<forall>j q n. fix_at gs j q n \<longrightarrow> fix_at gs' j q n)"
proof -
  let ?f = "gs_fixes gs ! k"
  obtain i where k: "k < length (gs_fixes gs)" and i: "fx_frag ?f = Some i"
    and place: "place_ok (gs_chain gs) i (fx_where ?f) 4" and pos: "place_pos (gs_chain gs) i (fx_where ?f) = pos"
    using ok by (auto simp: fix_at_def)
  have frags: "fc_frags (gs_chain gs) \<noteq> []" using ne by (simp add: frchain_inv_def)
  let ?w = "bfd_getl32 (fr_literal (fc_frags (gs_chain gs) ! i)) (fx_where ?f) OR const_bits (fx_r_type ?f) val"
  let ?patch = "\<lambda>buf. bfd_putl32 ?w buf (fx_where ?f)"
  let ?gs = "update_gs_frag i (\<lambda>f. f\<lparr>fr_literal := bfd_putl32 ?w (fr_literal f) (fx_where ?f)\<rparr>)
    (gs\<lparr>gs_fixes := (gs_fixes gs)[k := ?f\<lparr>fx_addnumber := val, fx_done := True\<rparr>]\<rparr>)"
  have "md_apply_fix names k val gs = Inr ?gs"
    using r s k by (auto simp: md_apply_fix_def apply_fix_case_def update_fix_def Let_def fix_frag_def i
        riscv_apply_const_reloc_def const_bits_def patch_frag_def update_gs_frag_def update_frag_def gs_frags_def unsigned_or_eq or.commute ucast_insn_u32)
  moreover have "frchain_inv (gs_chain ?gs)"
    using ne by (simp add: frchain_inv_def update_gs_frag_def) (simp add: update_frag_def)
  moreover have "image (gs_chain ?gs) = bfd_putl32 (bfd_getl32 (image (gs_chain gs)) pos OR
      const_bits (fx_r_type ?f) val) (image (gs_chain gs)) pos"
    using image_putl32 [OF frags place] by (simp add: update_gs_frag_def pos)
  moreover have "fix_at ?gs j q n" if "fix_at gs j q n" for j q n
    using that k places_update_literal [of "\<lambda>buf. bfd_putl32 ?w buf (fx_where ?f)", OF l32.put_length refl]
    by (cases "j = k") (simp_all add: fix_at_def update_gs_frag_def)
  moreover have "gs_fixes ?gs = (gs_fixes gs)[k := ?f\<lparr>fx_addnumber := val, fx_done := True\<rparr>]"
    by (simp add: update_gs_frag_def)
  ultimately show ?thesis by blast
qed

subsection \<open>Words\<close>

lemma take_bit_add_wide: "m \<le> n \<Longrightarrow> take_bit m (take_bit n a + b) = take_bit m (a + b)" for a b :: int
  by (metis (no_types) min.absorb1 take_bit_add take_bit_take_bit)

lemma ucast_add_32: "ucast (a + b) = (ucast a + ucast b :: u32)" for a b :: "64 word"
proof -
  have "take_bit 32 (take_bit 64 a + take_bit 64 b) = take_bit 32 (a + b)" for a b :: int
    using take_bit_add_wide [of 32 64 a "take_bit 64 b"] take_bit_add_wide [of 32 64 b a]
    by (simp add: add.commute)
  then show ?thesis by transfer simp
qed

lemma signed_low_12: "signed_take_bit 11 v = take_bit 12 (v + 0x800) - 0x800" for v :: u32
  by transfer (simp add: signed_take_bit_eq_take_bit_shift take_bit_add_wide)

lemma and_not_low: "x AND NOT (mask n) = x - take_bit n x" for x :: "'a::len word"
proof -
  have "x - take_bit n x = x AND NOT (take_bit n x)" by (rule disjunctive_diff) (simp add: bit_take_bit_iff)
  also have "\<dots> = x AND NOT (mask n)" by (rule bit_word_eqI) (auto simp: bit_simps)
  finally show ?thesis by simp
qed

lemma high_part_32: "(v + 0x800) AND NOT 0xfff = v - signed_take_bit 11 v" for v :: u32
  using and_not_low [of "v + 0x800" 12] by (simp add: signed_low_12 mask_numeral)

text \<open>The two parts of a constant, in the 64 bits the macros compute them in.\<close>

lemma signed_low_12_long: "signed_take_bit 11 v = take_bit 12 (v + 0x800) - 0x800" for v :: "64 word"
  by transfer (simp add: signed_take_bit_eq_take_bit_shift take_bit_add_wide)

lemma const_high_part: "RISCV_CONST_HIGH_PART v = v - signed_take_bit 11 v"
  using and_not_low [of "v + 0x800" 12]
  by (simp add: RISCV_CONST_HIGH_PART_def RISCV_IMM_REACH_def c_eval signed_low_12_long mask_numeral)

lemma const_parts:
  "RISCV_CONST_HIGH_PART v + RISCV_CONST_LOW_PART v = v"
  "- 2048 \<le> sint (RISCV_CONST_LOW_PART v)" "sint (RISCV_CONST_LOW_PART v) < 2048"
  "RISCV_CONST_HIGH_PART v AND 0xfff = 0"
proof -
  have low: "RISCV_CONST_LOW_PART v = signed_take_bit 11 v"
    by (simp add: RISCV_CONST_LOW_PART_def const_high_part)
  have "sint (signed_take_bit 11 v) = signed_take_bit 11 (sint v)"
    by transfer (simp add: signed_take_bit_signed_take_bit signed_take_bit_take_bit)
  then show "- 2048 \<le> sint (RISCV_CONST_LOW_PART v)" "sint (RISCV_CONST_LOW_PART v) < 2048"
    using signed_take_bit_int_greater_eq_minus_exp [of 11 "sint v"] signed_take_bit_int_less_exp [of 11 "sint v"]
    by (simp_all add: low)
  show "RISCV_CONST_HIGH_PART v + RISCV_CONST_LOW_PART v = v" by (simp add: RISCV_CONST_LOW_PART_def)
  show "RISCV_CONST_HIGH_PART v AND 0xfff = 0"
    by (simp add: RISCV_CONST_HIGH_PART_def RISCV_IMM_REACH_def c_eval and.assoc)
qed

subsection \<open>The words of the two instructions\<close>

lemma page_mask: "(NOT 0xfff :: u32) = 0xfffff000"
  by (simp add: word32_eq_iff all_bits word_bits)

lemma const_bits_HI20: "const_bits BFD_RELOC_RISCV_HI20 v = v - signed_take_bit 11 v"
proof -
  have "const_bits BFD_RELOC_RISCV_HI20 v = ucast (ucast v + (0x800 :: insn_t)) AND 0xfffff000"
    by (simp add: const_bits_def RISCV_CONST_HIGH_PART_def RISCV_IMM_REACH_def ENCODE_UTYPE_IMM_def
        word32_eq_iff all_bits c_eval bit_simps word_bits Suc_Suc_0_eq_2)
  also have "\<dots> = (v + 0x800) AND NOT 0xfff" unfolding page_mask by (simp add: ucast_add_32 ucast_insn_u32)
  also have "\<dots> = v - signed_take_bit 11 v" by (rule high_part_32)
  finally show ?thesis .
qed

lemma EXTRACT_ITYPE_const:
  assumes "w AND 0xfff00000 = 0"
  shows "EXTRACT_ITYPE_IMM (w OR const_bits BFD_RELOC_RISCV_LO12_I v) = signed_take_bit 11 v"
proof -
  have "EXTRACT_ITYPE_IMM (w OR ENCODE_ITYPE_IMM v) = EXTRACT_ITYPE_IMM ((w OR ENCODE_ITYPE_IMM v) AND ENCODE_ITYPE_IMM (- 1))"
    by (simp add: itype.ext_local)
  also have "(w OR ENCODE_ITYPE_IMM v) AND ENCODE_ITYPE_IMM (- 1) = ENCODE_ITYPE_IMM v"
    using assms by (simp add: bit.conj_disj_distrib2 itype.enc_within) (simp add: encode_all_ones)
  also have "EXTRACT_ITYPE_IMM (ENCODE_ITYPE_IMM v) = signed_take_bit 11 v"
    by (simp add: format_bits)
  finally show ?thesis by (simp add: const_bits_def)
qed

definition lui_word :: "u32 \<Rightarrow> u32" where "lui_word rd = 0x37 OR shl (rd AND 0x1f) 7"
definition addi_word :: "u32 \<Rightarrow> u32 \<Rightarrow> u32" where
  "addi_word rd rs = 0x13 OR shl (rd AND 0x1f) 7 OR shl (rs AND 0x1f) 15"

lemma insn_words:
  "ucast (INSERT_OPERAND F_RD 0x37 rd) = lui_word rd"
  "ucast (INSERT_OPERAND F_RS1 (INSERT_OPERAND F_RD 0x13 rd) rs) = addi_word rd rs"
  by (simp_all add: INSERT_OPERAND_def INSERT_BITS_def lui_word_def addi_word_def word32_eq_iff all_bits
      bit_simps word_bits Suc_Suc_0_eq_2)

lemma step_lui:
  assumes "rd < 32"
  shows "(lui_word rd OR const_bits BFD_RELOC_RISCV_HI20 v) AND 3 = 3"
    and "rv_step32 (lui_word rd OR const_bits BFD_RELOC_RISCV_HI20 v) s =
      Some (rv_advance 4 (rv_set rd (v - signed_take_bit 11 v) s))"
proof -
  let ?c = "const_bits BFD_RELOC_RISCV_HI20 v"
  have rd: "rd AND 0x1f = rd" using assms take_bit_eq_self_word_iff [of 5 rd]
    by (simp add: word_less_def take_bit_eq_mask mask_numeral)
  have hi: "?c AND 0xfffff000 = ?c"
    unfolding const_bits_HI20 high_part_32 [symmetric] page_mask by (simp add: and.assoc)
  have lo: "lui_word rd AND 0xfffff000 = 0" "w_opcode (lui_word rd) = 0x37" "w_rd (lui_word rd) = rd AND 0x1f"
    by (simp_all add: lui_word_def w_fields word32_eq_iff all_bits word_bits Suc_Suc_0_eq_2)
  have f: "w_opcode (lui_word rd OR ?c) = 0x37" "w_rd (lui_word rd OR ?c) = rd AND 0x1f"
    "(lui_word rd OR ?c) AND 0xfffff000 = ?c"
    using field_frame [OF hi, of "0x7f" 0 "lui_word rd"] field_frame [OF hi, of 31 7 "lui_word rd"] lo hi
    by (simp_all add: w_fields c_eval bit.conj_disj_distrib2)
  show "(lui_word rd OR ?c) AND 3 = 3" by (rule opcode_low_bits) (simp add: f)
  show "rv_step32 (lui_word rd OR ?c) s = Some (rv_advance 4 (rv_set rd (v - signed_take_bit 11 v) s))"
    using f rd by (simp add: rv_step32_def const_bits_HI20)
qed

lemma step_addi:
  assumes "rd < 32" "rs < 32"
  shows "(addi_word rd rs OR const_bits BFD_RELOC_RISCV_LO12_I v) AND 3 = 3"
    and "rv_step32 (addi_word rd rs OR const_bits BFD_RELOC_RISCV_LO12_I v) s =
      Some (rv_advance 4 (rv_set rd (rv_get rs s + signed_take_bit 11 v) s))"
proof -
  let ?w = "addi_word rd rs"
  have reg: "r AND 0x1f = r" if "r < 32" for r :: u32
    using that take_bit_eq_self_word_iff [of 5 r] by (simp add: word_less_def take_bit_eq_mask mask_numeral)
  have w: "w_opcode ?w = 0x13" "w_rd ?w = rd AND 0x1f" "w_funct3 ?w = 0" "w_rs1 ?w = rs AND 0x1f"
    "?w AND 0xfff00000 = 0"
    by (simp_all add: addi_word_def w_fields word32_eq_iff all_bits word_bits Suc_Suc_0_eq_2)
  have c: "const_bits BFD_RELOC_RISCV_LO12_I v = ENCODE_ITYPE_IMM v" by (simp add: const_bits_def)
  note imm = EXTRACT_ITYPE_const [OF w(5), of v]
  show "(?w OR const_bits BFD_RELOC_RISCV_LO12_I v) AND 3 = 3"
    by (rule opcode_low_bits) (simp add: c fields_itype w)
  show "rv_step32 (?w OR const_bits BFD_RELOC_RISCV_LO12_I v) s =
      Some (rv_advance 4 (rv_set rd (rv_get rs s + signed_take_bit 11 v) s))"
    using w imm reg assms by (simp add: rv_step32_def c fields_itype)
qed

subsection \<open>Words in a list of bytes\<close>

lemma getl32_at [simp]: "bfd_getl32 (pre @ le_bytes w 4 @ post) (length pre) = w"
  by (simp add: bfd_getl32_def le_bytes_4 nth_append low_byte_def word32_eq_iff all_bits word_bits bit_simps
      Suc_Suc_0_eq_2)

lemma putl32_at [simp]: "bfd_putl32 v (pre @ le_bytes w 4 @ post) (length pre) = pre @ le_bytes v 4 @ post"
  by (simp add: bfd_putl32_def le_bytes_4 list_update_append)

lemma getl16_at: "bfd_getl16 (pre @ le_bytes w 4 @ post) (length pre) AND 3 = w AND 3"
  by (simp add: bfd_getl16_def le_bytes_4 nth_append low_byte_def word32_eq_iff all_bits word_bits bit_simps
      Suc_Suc_0_eq_2)

lemma step_at:
  assumes "unat (rv_pc s - base) = length pre" and "w AND 3 = 3"
  shows "rv_step base (pre @ le_bytes w 4 @ post) s = rv_step32 w s"
  using assms by (simp add: rv_step_def getl16_at)

lemma run_one_word:
  assumes "w AND 3 = 3" and "rv_step32 w s = Some s'"
  shows "rv_run 1 (rv_pc s) (le_bytes w 4) s = Some s'"
  using step_at [of s "rv_pc s" "[]" w "[]"] assms by simp

lemma run_two_words:
  assumes "w1 AND 3 = 3" "rv_step32 w1 s = Some s'" "rv_pc s' = rv_pc s + 4" "w2 AND 3 = 3"
  shows "rv_run 2 (rv_pc s) (le_bytes w1 4 @ le_bytes w2 4) s = rv_step32 w2 s'"
proof -
  have "rv_step (rv_pc s) (le_bytes w1 4 @ le_bytes w2 4) s = Some s'"
    using step_at [of s "rv_pc s" "[]" w1 "le_bytes w2 4"] assms by simp
  moreover have "rv_step (rv_pc s) (le_bytes w1 4 @ le_bytes w2 4) s' = rv_step32 w2 s'"
    using step_at [of s' "rv_pc s" "le_bytes w1 4" w2 "[]"] assms by simp
  ultimately have "rv_run (Suc (Suc 0)) (rv_pc s) (le_bytes w1 4 @ le_bytes w2 4) s = rv_step32 w2 s'"
    by (cases "rv_step32 w2 s'") simp_all
  then show ?thesis by (simp add: numeral_2_eq_2)
qed

subsection \<open>The instructions of a constant\<close>

text \<open>A word and its fixup are put at the end of the image.\<close>

definition adds_word :: "gas_state \<Rightarrow> bfd_reloc \<Rightarrow> u32 \<Rightarrow> u32 \<Rightarrow> gas_state \<Rightarrow> bool" where
  "adds_word gs r w v gs' \<longleftrightarrow> emits gs (le_bytes w 4) gs' \<and>
     fix_at gs' (length (gs_fixes gs)) (length (image (gs_chain gs))) 4 \<and>
     (\<exists>f. gs_fixes gs' = gs_fixes gs @ [f] \<and> fx_r_type f = r \<and> fx_addsy f = None \<and> fx_subsy f = None \<and>
        fx_offset f = v)"

lemma build_word:
  assumes "tc_started (gs_tc gs)" "entry_of name = Some mo" "op_name mo = name"
    and "macro_format True fmt (args, op_match mo, BFD_RELOC_UNUSED) = Inr ([], bits, r)"
    and w: "ucast bits = w" "riscv_insn_length bits = 4"
    and inv: "frchain_inv (gs_chain gs)" and e: "X_op e = O_constant"
    and r: "r \<in> {BFD_RELOC_RISCV_HI20, BFD_RELOC_RISCV_LO12_I, BFD_RELOC_RISCV_LO12_S}"
    and res: "macro_build (Some e) name fmt args gs = Inr gs'"
    and small: "length (image (gs_chain gs)) + 4 < 2 ^ 32"
  shows "adds_word gs r w (X_add_number e) gs'"
proof -
  have "append_insn ((create_insn mo)\<lparr>insn_opcode := bits\<rparr>) (Some e) r gs = Inr gs'"
    using macro_build_insn [of gs name mo "Some e" fmt args "[]" bits r] assms by auto
  from append_insn_const [OF inv _ e r this small] w show ?thesis
    by (simp add: adds_word_def insn_bytes_def insn_length_def)
qed

lemma insn_length_32: "(ucast bits :: u32) AND 0x1f \<noteq> 0x1f \<Longrightarrow> (ucast bits :: u32) AND 3 = 3 \<Longrightarrow> riscv_insn_length bits = 4"
  for bits :: insn_t
proof -
  have "bits AND m = ucast ((ucast bits :: u32) AND ucast m)" if "m \<in> {3, 0x1f}" for m
    using that by (auto simp: word64_eq_iff all_bits bit_simps)
  from this [of 3] this [of "0x1f"] show
   "(ucast bits :: u32) AND 0x1f \<noteq> 0x1f \<Longrightarrow> (ucast bits :: u32) AND 3 = 3 \<Longrightarrow> riscv_insn_length bits = 4"
    by (auto simp: riscv_insn_length_def word64_eq_iff all_bits word32_eq_iff bit_simps)
qed

lemma length_lui: "riscv_insn_length (INSERT_OPERAND F_RD 0x37 reg) = 4"
proof (rule insn_length_32)
  show "(ucast (INSERT_OPERAND F_RD 0x37 reg) :: u32) AND 0x1f \<noteq> 0x1f" "(ucast (INSERT_OPERAND F_RD 0x37 reg) :: u32) AND 3 = 3"
    unfolding insn_words by (simp_all add: lui_word_def word32_eq_iff all_bits word_bits Suc_Suc_0_eq_2)
qed

lemma length_addi: "riscv_insn_length (INSERT_OPERAND F_RS1 (INSERT_OPERAND F_RD 0x13 rd) rs) = 4"
proof (rule insn_length_32)
  show "(ucast (INSERT_OPERAND F_RS1 (INSERT_OPERAND F_RD 0x13 rd) rs) :: u32) AND 0x1f \<noteq> 0x1f"
    "(ucast (INSERT_OPERAND F_RS1 (INSERT_OPERAND F_RD 0x13 rd) rs) :: u32) AND 3 = 3"
    unfolding insn_words by (simp_all add: addi_word_def word32_eq_iff all_bits word_bits Suc_Suc_0_eq_2)
qed

lemma build_lui:
  assumes "tc_started (gs_tc gs)" "frchain_inv (gs_chain gs)" "X_op e = O_constant"
    and "macro_build (Some e) ''lui'' ''d,u'' [Int_arg reg, Reloc_arg BFD_RELOC_RISCV_HI20] gs = Inr gs'"
    and "length (image (gs_chain gs)) + 4 < 2 ^ 32"
  shows "adds_word gs BFD_RELOC_RISCV_HI20 (lui_word reg) (X_add_number e) gs'"
proof -
  obtain mo where mo: "entry_of ''lui'' = Some mo" "op_name mo = ''lui''" "op_match mo = 0x37"
    using entry_lui by auto
  show ?thesis
    by (rule build_word [OF assms(1) mo(1,2) _ insn_words(1) length_lui assms(2,3) _ assms(4,5)])
      (simp_all add: format_step_def format_field_def mo gas_assert_def)
qed

lemma build_addi:
  assumes "tc_started (gs_tc gs)" "frchain_inv (gs_chain gs)" "X_op e = O_constant"
    and "macro_build (Some e) ''addi'' ''d,s,j'' [Int_arg rd, Int_arg rs, Reloc_arg BFD_RELOC_RISCV_LO12_I] gs = Inr gs'"
    and "length (image (gs_chain gs)) + 4 < 2 ^ 32"
  shows "adds_word gs BFD_RELOC_RISCV_LO12_I (addi_word rd rs) (X_add_number e) gs'"
proof -
  obtain mo where mo: "entry_of ''addi'' = Some mo" "op_name mo = ''addi''" "op_match mo = 0x13"
    using entry_addi by auto
  show ?thesis
    by (rule build_word [OF assms(1) mo(1,2) _ insn_words(2) length_addi assms(2,3) _ assms(4,5)])
      (simp_all add: format_step_def format_field_def mo gas_assert_def)
qed

subsection \<open>Applying the fixups\<close>

text \<open>
  What the writing pass does with fixups that have neither symbol: \<open>md_apply_fix\<close> with the
  offset as value, one after the other.
\<close>

fun apply_constant_fixes :: "(nat \<Rightarrow> string) \<Rightarrow> nat list \<Rightarrow> gas_state \<Rightarrow> gas_state res" where
  "apply_constant_fixes names [] gs = Inr gs"
| "apply_constant_fixes names (k # ks) gs =
     and_then (md_apply_fix names k (fx_offset (gs_fixes gs ! k)) gs) (apply_constant_fixes names ks)"

lemma md_apply_fix_word:
  assumes "fix_at gs k (length pre) 4" "frchain_inv (gs_chain gs)"
    and "image (gs_chain gs) = pre @ le_bytes w 4 @ post"
    and "r \<in> {BFD_RELOC_RISCV_HI20, BFD_RELOC_RISCV_LO12_I, BFD_RELOC_RISCV_LO12_S}"
    and "fx_r_type (gs_fixes gs ! k) = r" "fx_addsy (gs_fixes gs ! k) = None" "fx_subsy (gs_fixes gs ! k) = None"
  shows "\<exists>gs'. md_apply_fix names k val gs = Inr gs' \<and> frchain_inv (gs_chain gs') \<and>
    image (gs_chain gs') = pre @ le_bytes (w OR const_bits r val) 4 @ post \<and>
    (\<forall>j. j \<noteq> k \<longrightarrow> gs_fixes gs' ! j = gs_fixes gs ! j) \<and>
    (\<forall>j q n. fix_at gs j q n \<longrightarrow> fix_at gs' j q n)"
proof -
  obtain gs' where "md_apply_fix names k val gs = Inr gs'" "frchain_inv (gs_chain gs')"
    "image (gs_chain gs') = bfd_putl32 (bfd_getl32 (image (gs_chain gs)) (length pre) OR
      const_bits (fx_r_type (gs_fixes gs ! k)) val) (image (gs_chain gs)) (length pre)"
    "gs_fixes gs' = (gs_fixes gs)[k := (gs_fixes gs ! k)\<lparr>fx_addnumber := val, fx_done := True\<rparr>]"
    "\<forall>j q n. fix_at gs j q n \<longrightarrow> fix_at gs' j q n"
    using md_apply_fix_const [OF assms(1,2) _ assms(6,7), of names val] assms(4,5) by blast
  then show ?thesis unfolding assms(3,5) by (intro exI [of _ gs']) (simp add: nth_list_update)
qed

lemma adds_word_simps:
  assumes "adds_word gs r w v gs'"
  shows "image (gs_chain gs') = image (gs_chain gs) @ le_bytes w 4" "frchain_inv (gs_chain gs')"
    "gs_tc gs' = gs_tc gs" "length (gs_fixes gs') = Suc (length (gs_fixes gs))"
    "fx_offset (gs_fixes gs' ! length (gs_fixes gs)) = v" "fx_r_type (gs_fixes gs' ! length (gs_fixes gs)) = r"
    "fx_addsy (gs_fixes gs' ! length (gs_fixes gs)) = None" "fx_subsy (gs_fixes gs' ! length (gs_fixes gs)) = None"
    "fix_at gs' (length (gs_fixes gs)) (length (image (gs_chain gs))) 4"
  using assms by (auto simp: adds_word_def emits_def)

lemma one_word_applied:
  assumes a: "adds_word gs r w v gs'"
    and r: "r \<in> {BFD_RELOC_RISCV_HI20, BFD_RELOC_RISCV_LO12_I, BFD_RELOC_RISCV_LO12_S}"
  shows "\<exists>gs''. apply_constant_fixes names [length (gs_fixes gs)..<length (gs_fixes gs')] gs' = Inr gs'' \<and>
    image (gs_chain gs'') = image (gs_chain gs) @ le_bytes (w OR const_bits r v) 4"
  using md_apply_fix_word [of gs' "length (gs_fixes gs)" "image (gs_chain gs)" w "[]" r names v] adds_word_simps [OF a] r
  by auto

lemma two_words_applied:
  assumes a: "adds_word gs r1 w1 v1 gs1" and b: "adds_word gs1 r2 w2 v2 gs2"
    and r: "r1 \<in> {BFD_RELOC_RISCV_HI20, BFD_RELOC_RISCV_LO12_I, BFD_RELOC_RISCV_LO12_S}"
      "r2 \<in> {BFD_RELOC_RISCV_HI20, BFD_RELOC_RISCV_LO12_I, BFD_RELOC_RISCV_LO12_S}"
  shows "\<exists>gs''. apply_constant_fixes names [length (gs_fixes gs)..<length (gs_fixes gs2)] gs2 = Inr gs'' \<and>
    image (gs_chain gs'') = image (gs_chain gs) @ le_bytes (w1 OR const_bits r1 v1) 4 @
      le_bytes (w2 OR const_bits r2 v2) 4"
proof -
  let ?k = "length (gs_fixes gs)" and ?I = "image (gs_chain gs)"
  note A = adds_word_simps [OF a] and B = adds_word_simps [OF b]
  obtain f where f: "gs_fixes gs2 = gs_fixes gs1 @ [f]" using b by (auto simp: adds_word_def)
  have e: "emits gs1 (le_bytes w2 4) gs2" using b by (simp add: adds_word_def)
  have same: "gs_fixes gs2 ! ?k = gs_fixes gs1 ! ?k" using f A(4) by (simp add: nth_append)
  have "fix_at gs2 ?k (length ?I) 4" using emits_fix_at [OF e A(9) f] by simp
  then obtain gs3 where s1: "md_apply_fix names ?k v1 gs2 = Inr gs3" "frchain_inv (gs_chain gs3)"
    "image (gs_chain gs3) = ?I @ le_bytes (w1 OR const_bits r1 v1) 4 @ le_bytes w2 4"
    "\<And>j. j \<noteq> ?k \<Longrightarrow> gs_fixes gs3 ! j = gs_fixes gs2 ! j" "\<And>j q n. fix_at gs2 j q n \<Longrightarrow> fix_at gs3 j q n"
    using md_apply_fix_word [of gs2 ?k ?I w1 "le_bytes w2 4" r1 names v1] A B r same by auto
  let ?J = "?I @ le_bytes (w1 OR const_bits r1 v1) 4"
  have "fix_at gs3 (Suc ?k) (length ?J) 4" using s1(5) [OF B(9)] A by simp
  then obtain gs4 where s2: "md_apply_fix names (Suc ?k) v2 gs3 = Inr gs4"
    "image (gs_chain gs4) = ?J @ le_bytes (w2 OR const_bits r2 v2) 4"
    using md_apply_fix_word [of gs3 "Suc ?k" ?J w2 "[]" r2 names v2] s1(2,3) s1(4) [of "Suc ?k"] A(4) B r by auto
  have "[?k..<length (gs_fixes gs2)] = [?k, Suc ?k]" using A(4) B(4) by (simp add: upt_rec)
  then show ?thesis using s1(1) s1(4) [of "Suc ?k"] s2 same A(4,5) B(5) by auto
qed

text \<open>
  The theorem of \<open>li\<close>: what \<open>load_const\<close> emits, once its fixups are applied, is one or
  two instructions that put the constant into the register and change nothing else.
\<close>

definition loads_constant :: "byte list \<Rightarrow> u32 \<Rightarrow> u32 \<Rightarrow> bool" where
  "loads_constant code rd v \<longleftrightarrow> (\<forall>s. rv_run (length code div 4) (rv_pc s) code s =
     Some (rv_advance (word_of_nat (length code)) (rv_set rd v s)))"

theorem load_const_loads:
  assumes inv: "frchain_inv (gs_chain gs)" and st: "tc_started (gs_tc gs)" "tc_xlen (gs_tc gs) = 32"
    and e: "X_op e = O_constant" and rd: "rd < 32"
    and res: "load_const rd e gs = Inr gs'"
    and small: "length (image (gs_chain gs)) + 8 < 2 ^ 32"
  shows "\<exists>gs'' code. apply_constant_fixes names [length (gs_fixes gs)..<length (gs_fixes gs')] gs' = Inr gs'' \<and>
    image (gs_chain gs'') = image (gs_chain gs) @ code \<and> length code \<in> {4, 8} \<and>
    loads_constant code rd (X_add_number e)"
proof -
  let ?v = "X_add_number e" and ?rs = "{BFD_RELOC_RISCV_HI20, BFD_RELOC_RISCV_LO12_I, BFD_RELOC_RISCV_LO12_S}"
  define lower where "lower = signed_take_bit 11 ?v"
  let ?lui = "lui_word rd OR const_bits BFD_RELOC_RISCV_HI20 ?v"
  let ?addi = "\<lambda>rs. addi_word rd rs OR const_bits BFD_RELOC_RISCV_LO12_I ?v"
  note lui = step_lui [OF rd, of ?v, folded lower_def] and addi = step_addi [OF rd, of _ ?v, folded lower_def]
  have add: "ADD32_INSN (gs_tc gs) = ''addi''" using st by (simp add: ADD32_INSN_def)
  consider (none) "?v - lower = 0" | (both) "?v - lower \<noteq> 0" "lower \<noteq> 0 \<or> rd = 0" | (upper) "?v - lower \<noteq> 0" "lower = 0" "rd \<noteq> 0"
    by blast
  then show ?thesis
  proof cases
    case none
    then have "macro_build (Some e) ''addi'' ''d,s,j'' [Int_arg rd, Int_arg 0, Reloc_arg BFD_RELOC_RISCV_LO12_I] gs = Inr gs'"
      using res e st add by (simp add: load_const_def Let_def lower_def)
    then have "adds_word gs BFD_RELOC_RISCV_LO12_I (addi_word rd 0) ?v gs'"
      using build_addi [OF st(1) inv e] small by simp
    from one_word_applied [OF this, of names] obtain gs'' where
      "apply_constant_fixes names [length (gs_fixes gs)..<length (gs_fixes gs')] gs' = Inr gs''"
      "image (gs_chain gs'') = image (gs_chain gs) @ le_bytes (?addi 0) 4" by auto
    moreover have lv: "lower = ?v" using none by simp
    moreover have "loads_constant (le_bytes (?addi 0) 4) rd ?v"
      unfolding loads_constant_def
    proof
      fix s show "rv_run (length (le_bytes (?addi 0) 4) div 4) (rv_pc s) (le_bytes (?addi 0) 4) s =
        Some (rv_advance (word_of_nat (length (le_bytes (?addi 0) 4))) (rv_set rd ?v s))"
        using run_one_word [OF addi(1) addi(2), of 0 s] unfolding lv by simp
    qed
    ultimately show ?thesis by (intro exI [of _ gs''] exI [of _ "le_bytes (?addi 0) 4"]) simp
  next
    case upper
    then have "macro_build (Some e) ''lui'' ''d,u'' [Int_arg rd, Reloc_arg BFD_RELOC_RISCV_HI20] gs = Inr gs'"
      using res e st by (simp add: load_const_def Let_def lower_def and_then_Inr_iff)
    then have "adds_word gs BFD_RELOC_RISCV_HI20 (lui_word rd) ?v gs'"
      using build_lui [OF st(1) inv e] small by simp
    from one_word_applied [OF this, of names] obtain gs'' where
      "apply_constant_fixes names [length (gs_fixes gs)..<length (gs_fixes gs')] gs' = Inr gs''"
      "image (gs_chain gs'') = image (gs_chain gs) @ le_bytes ?lui 4" by auto
    moreover have "loads_constant (le_bytes ?lui 4) rd ?v"
      unfolding loads_constant_def
    proof
      fix s show "rv_run (length (le_bytes ?lui 4) div 4) (rv_pc s) (le_bytes ?lui 4) s =
        Some (rv_advance (word_of_nat (length (le_bytes ?lui 4))) (rv_set rd ?v s))"
        using run_one_word [OF lui(1) lui(2), of s] upper by simp
    qed
    ultimately show ?thesis by (intro exI [of _ gs''] exI [of _ "le_bytes ?lui 4"]) simp
  next
    case both
    then obtain gs1 where "macro_build (Some e) ''lui'' ''d,u'' [Int_arg rd, Reloc_arg BFD_RELOC_RISCV_HI20] gs = Inr gs1"
      and b: "macro_build (Some e) (ADD32_INSN (gs_tc gs1)) ''d,s,j'' [Int_arg rd, Int_arg rd, Reloc_arg BFD_RELOC_RISCV_LO12_I] gs1 = Inr gs'"
      using res e st by (auto simp: load_const_def Let_def lower_def and_then_Inr_iff)
    then have a: "adds_word gs BFD_RELOC_RISCV_HI20 (lui_word rd) ?v gs1"
      using build_lui [OF st(1) inv e] small by simp
    note A = adds_word_simps [OF a]
    have "adds_word gs1 BFD_RELOC_RISCV_LO12_I (addi_word rd rd) ?v gs'"
      using build_addi [of gs1 e rd rd gs'] b add st A(1-3) e small by simp
    from two_words_applied [OF a this, of names] obtain gs'' where
      "apply_constant_fixes names [length (gs_fixes gs)..<length (gs_fixes gs')] gs' = Inr gs''"
      "image (gs_chain gs'') = image (gs_chain gs) @ le_bytes ?lui 4 @ le_bytes (?addi rd) 4" by auto
    moreover have "loads_constant (le_bytes ?lui 4 @ le_bytes (?addi rd) 4) rd ?v"
      unfolding loads_constant_def
    proof
      fix s
      let ?s = "rv_advance 4 (rv_set rd (?v - lower) s)"
      have v: "(if rd \<noteq> 0 then ?v - lower else 0) + lower = ?v \<or> rd = 0" by auto
      have "rv_run 2 (rv_pc s) (le_bytes ?lui 4 @ le_bytes (?addi rd) 4) s = rv_step32 (?addi rd) ?s"
        using run_two_words [OF lui(1) lui(2) _ addi(1) [OF rd]] by simp
      also have "\<dots> = Some (rv_advance 8 (rv_set rd ?v s))"
        unfolding addi(2) [OF rd] using v by (cases "rd = 0") (simp_all add: rv_state_ops)
      finally show "rv_run (length (le_bytes ?lui 4 @ le_bytes (?addi rd) 4) div 4) (rv_pc s)
          (le_bytes ?lui 4 @ le_bytes (?addi rd) 4) s =
        Some (rv_advance (word_of_nat (length (le_bytes ?lui 4 @ le_bytes (?addi rd) 4))) (rv_set rd ?v s))"
        by simp
    qed
    ultimately show ?thesis by (intro exI [of _ gs''] exI [of _ "le_bytes ?lui 4 @ le_bytes (?addi rd) 4"]) simp
  qed
qed

subsection \<open>The macro always returns\<close>

lemma append_fixed_returns:
  assumes inv: "frchain_inv (gs_chain gs)" and sz: "fc_frag_size (gs_chain gs) < 2 ^ 16"
    and small: "length (image (gs_chain gs)) + insn_length ip < 2 ^ 32"
  shows "\<exists>gs'. append_fixed ip r gs = Inr gs' \<and> fc_frag_size (gs_chain gs') = fc_frag_size (gs_chain gs)"
proof -
  let ?bs = "insn_bytes ip"
  have "insn_length ip < 0x10000" by (simp add: insn_length_def riscv_insn_length_def)
  then obtain p fc where more: "frag_more (insn_length ip) (gs_chain gs) = Inr (p, fc)"
    "fc_frag_size fc = fc_frag_size (gs_chain gs)" using frag_more_returns [OF inv sz] by blast
  define fc1 where "fc1 = write_literal (frag_now fc) p ?bs fc"
  have more': "frag_more (length ?bs) (gs_chain gs) = Inr (p, fc)" using more(1) by (simp add: length_insn_bytes)
  note w = frag_more_write [OF inv more' fc1_def, unfolded length_insn_bytes, OF small]
  obtain fc2 where fc2: "frag_new 0 (frag_wane_now fc1) = Inr fc2" using frag_close_image [OF w(1)] by blast
  have b: "insn_bytes (ip\<lparr>insn_frag := Some j, insn_where := q\<rparr>) = ?bs" for j q
    by (simp add: insn_bytes_def insn_length_def)
  have sizes: "fc_frag_size fc1 = fc_frag_size (gs_chain gs)" "fc_frag_size fc2 = fc_frag_size (gs_chain gs)"
    using frag_new_frag_size [OF fc2] more(2) by (simp_all add: fc1_def write_literal_frag_size frag_wane_frag_size)
  show ?thesis
    using more(1) fc2 sizes unfolding fc1_def append_fixed_def add_fixed_insn_def
    by (auto simp: move_insn_def Let_def install_insn_def b write_literal_same update_fix_def on_chain_def
        split: option.split)
qed

lemma append_insn_returns:
  assumes inv: "frchain_inv (gs_chain gs)" "fc_frag_size (gs_chain gs) < 2 ^ 16"
    and e: "X_op e = O_constant" and r: "r \<in> {BFD_RELOC_RISCV_HI20, BFD_RELOC_RISCV_LO12_I, BFD_RELOC_RISCV_LO12_S}"
    and small: "length (image (gs_chain gs)) + insn_length ip < 2 ^ 32"
  shows "\<exists>gs'. append_insn ip (Some e) r gs = Inr gs' \<and> fc_frag_size (gs_chain gs') = fc_frag_size (gs_chain gs)"
proof -
  obtain howto where look: "riscv_reloc_type_lookup r = Some howto" "bfd_get_reloc_size howto = Some 4"
    using r reloc_sizes by (auto simp: map_option_case split: option.splits)
  obtain i gs1 where f: "fix_new_exp (insn_frag ip) (insn_where ip) 4 e False r gs = Inr (i, gs1)"
    "gs_chain gs1 = gs_chain gs" using e by (auto simp: fix_new_exp_constant)
  let ?ip = "ip\<lparr>insn_fixp := Some i\<rparr>"
    and ?gs = "update_fix i (\<lambda>f. f\<lparr>fx_tcbit := opt_relax (tc_opts (gs_tc gs1))\<rparr>) gs1"
  have "gs_chain ?gs = gs_chain gs" "insn_length ?ip = insn_length ip"
    using f by (simp_all add: update_fix_def insn_length_def)
  then obtain gs' where "append_fixed ?ip r ?gs = Inr gs'" "fc_frag_size (gs_chain gs') = fc_frag_size (gs_chain gs)"
    using append_fixed_returns [of ?gs ?ip r] inv small by auto
  then show ?thesis using r f(1) look by (auto simp: append_insn_def add_insn_fix_def)
qed

lemma build_word_returns:
  assumes "tc_started (gs_tc gs)" "entry_of name = Some mo" "op_name mo = name"
    and "macro_format True fmt (args, op_match mo, BFD_RELOC_UNUSED) = Inr ([], bits, r)"
    and inv: "frchain_inv (gs_chain gs)" "fc_frag_size (gs_chain gs) < 2 ^ 16" and e: "X_op e = O_constant"
    and r: "r \<in> {BFD_RELOC_RISCV_HI20, BFD_RELOC_RISCV_LO12_I, BFD_RELOC_RISCV_LO12_S}"
    and small: "length (image (gs_chain gs)) + riscv_insn_length bits < 2 ^ 32"
  shows "\<exists>gs'. macro_build (Some e) name fmt args gs = Inr gs' \<and> fc_frag_size (gs_chain gs') = fc_frag_size (gs_chain gs)"
  using macro_build_insn [of gs name mo "Some e" fmt args "[]" bits r] assms
    append_insn_returns [OF inv e r, of "(create_insn mo)\<lparr>insn_opcode := bits\<rparr>"]
  by (auto simp: insn_length_def)

text \<open>The two instructions of a constant, and what both lemmas of a build give together.\<close>

lemma build_lui_returns:
  assumes "tc_started (gs_tc gs)" "frchain_inv (gs_chain gs)" "X_op e = O_constant"
    and "fc_frag_size (gs_chain gs) < 2 ^ 16" and "length (image (gs_chain gs)) + 4 < 2 ^ 32"
  shows "\<exists>gs'. macro_build (Some e) ''lui'' ''d,u'' [Int_arg reg, Reloc_arg BFD_RELOC_RISCV_HI20] gs = Inr gs' \<and>
    fc_frag_size (gs_chain gs') = fc_frag_size (gs_chain gs)"
proof -
  obtain mo where mo: "entry_of ''lui'' = Some mo" "op_name mo = ''lui''" "op_match mo = 0x37"
    using entry_lui by auto
  have fmt: "macro_format True ''d,u'' ([Int_arg reg, Reloc_arg BFD_RELOC_RISCV_HI20], op_match mo, BFD_RELOC_UNUSED) =
      Inr ([], INSERT_OPERAND F_RD 0x37 reg, BFD_RELOC_RISCV_HI20)"
    by (simp add: format_step_def format_field_def mo gas_assert_def)
  show ?thesis
    by (rule build_word_returns [OF assms(1) mo(1,2) fmt assms(2,4,3)]) (use assms(5) in \<open>simp_all add: length_lui\<close>)
qed

lemma build_addi_returns:
  assumes "tc_started (gs_tc gs)" "frchain_inv (gs_chain gs)" "X_op e = O_constant"
    and "fc_frag_size (gs_chain gs) < 2 ^ 16" and "length (image (gs_chain gs)) + 4 < 2 ^ 32"
  shows "\<exists>gs'. macro_build (Some e) ''addi'' ''d,s,j'' [Int_arg rd, Int_arg rs, Reloc_arg BFD_RELOC_RISCV_LO12_I] gs =
    Inr gs'"
proof -
  obtain mo where mo: "entry_of ''addi'' = Some mo" "op_name mo = ''addi''" "op_match mo = 0x13"
    using entry_addi by auto
  have fmt: "macro_format True ''d,s,j'' ([Int_arg rd, Int_arg rs, Reloc_arg BFD_RELOC_RISCV_LO12_I], op_match mo, BFD_RELOC_UNUSED) =
      Inr ([], INSERT_OPERAND F_RS1 (INSERT_OPERAND F_RD 0x13 rd) rs, BFD_RELOC_RISCV_LO12_I)"
    by (simp add: format_step_def format_field_def mo gas_assert_def)
  have "\<exists>gs'. macro_build (Some e) ''addi'' ''d,s,j'' [Int_arg rd, Int_arg rs, Reloc_arg BFD_RELOC_RISCV_LO12_I] gs =
    Inr gs' \<and> fc_frag_size (gs_chain gs') = fc_frag_size (gs_chain gs)"
    by (rule build_word_returns [OF assms(1) mo(1,2) fmt assms(2,4,3)]) (use assms(5) in \<open>simp_all add: length_addi\<close>)
  then show ?thesis by blast
qed

theorem load_const_returns:
  assumes inv: "frchain_inv (gs_chain gs)" and st: "tc_started (gs_tc gs)" "tc_xlen (gs_tc gs) = 32"
    and e: "X_op e = O_constant" and sz: "fc_frag_size (gs_chain gs) < 2 ^ 16"
    and small: "length (image (gs_chain gs)) + 8 < 2 ^ 32"
  shows "\<exists>gs'. load_const rd e gs = Inr gs'"
proof (cases "X_add_number e - signed_take_bit 11 (X_add_number e) = 0")
  case True
  then show ?thesis using build_addi_returns [OF st(1) inv e sz] e st small
    by (simp add: load_const_def Let_def ADD32_INSN_def)
next
  case False
  obtain gs1 where 1: "macro_build (Some e) ''lui'' ''d,u'' [Int_arg rd, Reloc_arg BFD_RELOC_RISCV_HI20] gs = Inr gs1"
    "fc_frag_size (gs_chain gs1) = fc_frag_size (gs_chain gs)"
    using build_lui_returns [OF st(1) inv e sz] small by auto
  have "adds_word gs BFD_RELOC_RISCV_HI20 (lui_word rd) (X_add_number e) gs1"
    using build_lui [OF st(1) inv e 1(1)] small by simp
  note A = adds_word_simps [OF this]
  obtain gs2 where "macro_build (Some e) ''addi'' ''d,s,j'' [Int_arg rd, Int_arg rd, Reloc_arg BFD_RELOC_RISCV_LO12_I] gs1 = Inr gs2"
    using build_addi_returns [of gs1 e rd rd] A(1-3) st e sz small 1(2) by auto
  then show ?thesis using 1(1) False e st A(3) by (auto simp: load_const_def Let_def ADD32_INSN_def)
qed

end
