(* ===== verification/BranchRelax.thy ===== *)
theory BranchRelax
  imports TcFix RvSemantics FragPlaces
begin

text \<open>
  Relaxation is correct: the length chosen for a branch reaches its target, and the code the
  conversion leaves, once its fixup is applied, does what the branch of the source does. The
  branch is described apart from its displacement, as a condition on two registers or a jump
  with a link register.
\<close>

subsection \<open>The relaxation state is a faithful encoding\<close>

lemma bits_small: "len < 16 \<longleftrightarrow> len AND 0xf = len" for len :: u32
  using take_bit_eq_self_word_iff [of 4 len] by (simp add: word_less_def take_bit_eq_mask mask_numeral)

lemma RELAX_BRANCH_roundtrip:
  assumes "len < 16"
  shows "RELAX_BRANCH_P (RELAX_BRANCH_ENCODE uncond rvc len)"
    and "RELAX_BRANCH_LENGTH (RELAX_BRANCH_ENCODE uncond rvc len) = len"
    and "RELAX_BRANCH_RVC (RELAX_BRANCH_ENCODE uncond rvc len) = rvc"
    and "RELAX_BRANCH_UNCOND (RELAX_BRANCH_ENCODE uncond rvc len) = uncond"
proof -
  have b: "len AND 0xf = len" using assms by (simp add: bits_small)
  note defs = RELAX_BRANCH_P_def RELAX_BRANCH_LENGTH_def RELAX_BRANCH_RVC_def RELAX_BRANCH_UNCOND_def
    RELAX_BRANCH_ENCODE_def
  show "RELAX_BRANCH_P (RELAX_BRANCH_ENCODE uncond rvc len)"
    unfolding defs by (subst b [symmetric]) (simp add: word32_eq_iff all_bits word_bits Suc_Suc_0_eq_2)
  show "RELAX_BRANCH_LENGTH (RELAX_BRANCH_ENCODE uncond rvc len) = len"
    unfolding defs by (subst (2) b [symmetric], subst b [symmetric]) (simp add: word32_eq_iff all_bits word_bits Suc_Suc_0_eq_2)
  show "RELAX_BRANCH_RVC (RELAX_BRANCH_ENCODE uncond rvc len) = rvc"
    unfolding defs by (simp add: word32_eq_iff all_bits word_bits Suc_Suc_0_eq_2)
  show "RELAX_BRANCH_UNCOND (RELAX_BRANCH_ENCODE uncond rvc len) = uncond"
    unfolding defs by (simp add: word32_eq_iff all_bits word_bits Suc_Suc_0_eq_2)
qed

subsection \<open>The length chosen reaches the target\<close>

lemma sint_cases: "sint x = (if uint x < 2147483648 then uint x else uint x - 4294967296)" for x :: u32
proof -
  have "sint x = (uint x + 2147483648) mod 4294967296 - 2147483648"
    by (simp add: sint_uint signed_take_bit_eq_take_bit_shift take_bit_eq_mod)
  moreover have x: "0 \<le> uint x" "uint x < 4294967296" using uint_lt2p [of x] by simp_all
  moreover have "(uint x + 2147483648) mod 4294967296 =
    (if uint x < 2147483648 then uint x + 2147483648 else uint x - 2147483648)"
    using x by (auto simp: mod_pos_pos_trivial mod_pos_geq)
  ultimately show ?thesis by simp
qed

lemma within_reach:
  fixes x :: u32
  shows "x + 0x100 < 0x200 \<longleftrightarrow> - 256 \<le> sint x \<and> sint x < 256"
    and "x + 0x800 < 0x1000 \<longleftrightarrow> - 2048 \<le> sint x \<and> sint x < 2048"
    and "x + 0x1000 < 0x2000 \<longleftrightarrow> - 4096 \<le> sint x \<and> sint x < 4096"
proof -
  have x: "0 \<le> uint x" "uint x < 4294967296" using uint_lt2p [of x] by simp_all
  show "x + 0x100 < 0x200 \<longleftrightarrow> - 256 \<le> sint x \<and> sint x < 256"
    and "x + 0x800 < 0x1000 \<longleftrightarrow> - 2048 \<le> sint x \<and> sint x < 2048"
    and "x + 0x1000 < 0x2000 \<longleftrightarrow> - 4096 \<le> sint x \<and> sint x < 4096"
    unfolding word_less_def uint_plus_if' sint_cases using x by (simp_all, linarith+)
qed

lemma reach_values:
  "(ucast RVC_JUMP_REACH :: bfd_vma) = 0x1000" "(ucast RVC_BRANCH_REACH :: bfd_vma) = 0x200"
  "(ucast RISCV_BRANCH_REACH :: bfd_vma) = 0x2000" "(ucast (RISCV_BRANCH_REACH div 2) :: bfd_vma) = 0x1000"
  by (simp_all add:  c_eval)

definition branch_reaches :: "u32 \<Rightarrow> bool \<Rightarrow> bool \<Rightarrow> offsetT \<Rightarrow> bool" where
  "branch_reaches len uncond rvc d \<longleftrightarrow>
     (if len = 2 then rvc \<and> (if uncond then - 2048 \<le> sint d \<and> sint d < 2048 else - 256 \<le> sint d \<and> sint d < 256)
      else if len = 4 then uncond \<or> - 4096 \<le> sint d \<and> sint d < 4096
      else if len = 6 then rvc \<and> \<not> uncond else len = 8 \<and> \<not> uncond)"

lemma relaxed_branch_length_reaches:
  assumes "relaxed_branch_length frags symbols sec update fragp = (len, fragp')"
    and "branch_target frags symbols sec fragp = Some lab"
  shows "branch_reaches len (RELAX_BRANCH_UNCOND (fr_subtype fragp)) (RELAX_BRANCH_RVC (fr_subtype fragp))
    (branch_distance frags lab fragp)"
proof -
  define d where "d = branch_distance frags lab fragp"
  have h: "(0x1000 :: u32) div 2 = 0x800" "(0x200 :: u32) div 2 = 0x100" by simp_all
  show ?thesis
    using assms
    unfolding relaxed_branch_length_def Let_def assms(2) option.case d_def [symmetric] 
    by (cases "RELAX_BRANCH_UNCOND (fr_subtype fragp)"; cases "RELAX_BRANCH_RVC (fr_subtype fragp)")
      (auto simp: reach_values h within_reach branch_reaches_def split: if_splits)
qed

lemma relaxed_branch_length_fst:
  assumes "relaxed_branch_length frags symbols sec update fragp = (len, fragp')"
  shows "len \<in> {2, 4, 6, 8}"
    and "fragp' = (if update then fragp\<lparr>fr_subtype := RELAX_BRANCH_ENCODE (RELAX_BRANCH_UNCOND (fr_subtype fragp))
       (RELAX_BRANCH_RVC (fr_subtype fragp)) len\<rparr> else fragp)"
  using assms by (auto simp: relaxed_branch_length_def Let_def split: option.splits if_splits)

subsection \<open>Branches\<close>

datatype rv_branch = Cond_branch u32 u32 u32 | Jump_link u32

definition branch32 :: "u32 \<Rightarrow> rv_branch option" where
  "branch32 w =
     (if w_opcode w = 0x63 \<and> w_funct3 w \<noteq> 2 \<and> w_funct3 w \<noteq> 3 \<and> w AND 0xfe000f80 = 0
      then Some (Cond_branch (w_funct3 w) (w_rs1 w) (w_rs2 w))
      else if w_opcode w = 0x6f \<and> w AND 0xfffff000 = 0 then Some (Jump_link (w_rd w))
      else None)"

definition branch16 :: "u32 \<Rightarrow> rv_branch option" where
  "branch16 h =
     (if h = 0xa001 then Some (Jump_link 0)
      else if h = 0x2001 then Some (Jump_link 1)
      else if h AND 0xfffffc7f = 0xc001 then Some (Cond_branch 0 (h_rs1 h) 0)
      else if h AND 0xfffffc7f = 0xe001 then Some (Cond_branch 1 (h_rs1 h) 0)
      else None)"

definition branch_effect :: "rv_branch \<Rightarrow> u32 \<Rightarrow> u32 \<Rightarrow> rv_state \<Rightarrow> rv_state" where
  "branch_effect b len target s =
     (case b of
        Jump_link rd \<Rightarrow> rv_jump target (rv_set rd (rv_pc s + len) s)
      | Cond_branch f r q \<Rightarrow>
          (if rv_taken f (rv_get r s) (rv_get q s) = Some True then rv_jump target s
           else rv_advance len s))"

fun is_jump :: "rv_branch \<Rightarrow> bool" where
  "is_jump (Jump_link _) = True" | "is_jump (Cond_branch _ _ _) = False"

subsection \<open>Single steps\<close>

lemma funct3_range: "w_funct3 w < 8"
proof -
  have "w_funct3 w = take_bit 3 (shr w 12)" by (simp add: w_funct3_def take_bit_eq_mask mask_numeral)
  then show ?thesis by (simp add: take_bit_eq_mod word_mod_less_divisor)
qed

lemma funct3_cases:
  assumes "f < (8 :: u32)" "f \<noteq> 2" "f \<noteq> 3"
  shows "f \<in> {0, 1, 4, 5, 6, 7}"
proof -
  have "unat f < 8" using assms(1) by (simp add: word_less_nat_alt)
  then have "unat f \<in> {0, 1, 2, 3, 4, 5, 6, 7}" by auto
  then show ?thesis using assms(2,3) by (auto simp: word_unat_eq_iff)
qed

lemma rv_taken_flip:
  assumes "f < 8" "f \<noteq> 2" "f \<noteq> 3"
  shows "\<exists>t. rv_taken f a b = Some t \<and> rv_taken (f XOR 1) a b = Some (\<not> t)"
  using funct3_cases [OF assms]
  by (auto simp: rv_taken_def word_sle_eq word_sless_alt not_le not_less)

lemma step_branch:
  assumes b: "branch32 w = Some (Cond_branch f r q)" and d: "imm_range (- 4096) 4096 2 d"
  shows "rv_step32 (w OR ENCODE_SBTYPE_IMM d) s = Some (branch_effect (Cond_branch f r q) 4 (rv_pc s + d) s)"
proof -
  have w: "w_opcode w = 0x63" "w_funct3 w = f" "f \<noteq> 2" "f \<noteq> 3" "w_rs1 w = r" "w_rs2 w = q"
    "w AND 0xfe000f80 = 0" using b by (auto simp: branch32_def split: if_splits)
  have imm: "EXTRACT_SBTYPE_IMM (w OR ENCODE_SBTYPE_IMM d) = d"
    using sbtype.insert_extract [of w d] w(7) d by (simp add: encode_all_ones)
  obtain t where "rv_taken f (rv_get r s) (rv_get q s) = Some t"
    using rv_taken_flip funct3_range [of w] w(2-4) by blast
  then show ?thesis
    using w imm by (cases t) (simp_all add: rv_step32_def fields_sbtype branch_effect_def Let_def)
qed

lemma step_jump:
  assumes b: "branch32 w = Some (Jump_link rd)" and d: "imm_range (- 1048576) 1048576 2 d"
  shows "rv_step32 (w OR ENCODE_UJTYPE_IMM d) s = Some (branch_effect (Jump_link rd) 4 (rv_pc s + d) s)"
proof -
  have w: "w_opcode w = 0x6f" "w_rd w = rd" "w AND 0xfffff000 = 0"
    using b by (auto simp: branch32_def split: if_splits)
  have imm: "EXTRACT_UJTYPE_IMM (w OR ENCODE_UJTYPE_IMM d) = d"
    using ujtype.insert_extract [of w d] w(3) d by (simp add: encode_all_ones)
  show ?thesis
    using w imm by (simp add: rv_step32_def fields_ujtype branch_effect_def Let_def)
qed

text \<open>The inverted branch skips the jump that follows it.\<close>

definition flip_branch :: "u32 \<Rightarrow> u32" where "flip_branch w = w XOR 0x1000"

lemma flip_branch_fields:
  "w_opcode (flip_branch w) = w_opcode w" "w_funct3 (flip_branch w) = w_funct3 w XOR 1"
  "w_rs1 (flip_branch w) = w_rs1 w" "w_rs2 (flip_branch w) = w_rs2 w"
  "flip_branch w AND 0xfe000f80 = w AND 0xfe000f80"
  by (simp_all add: flip_branch_def w_fields word32_eq_iff all_bits word_bits Suc_Suc_0_eq_2)

lemma flip_funct3:
  assumes "f < (8::u32)" "f \<noteq> 2" "f \<noteq> 3" shows "f XOR 1 \<noteq> 2" "f XOR 1 \<noteq> 3"
  using funct3_cases [OF assms] by auto

lemma branch32_flip:
  assumes "branch32 w = Some (Cond_branch f r q)"
  shows "branch32 (flip_branch w) = Some (Cond_branch (f XOR 1) r q)"
  using assms flip_funct3 [OF funct3_range [of w]]
  by (auto simp: branch32_def flip_branch_fields split: if_splits)

lemma branch_effect_flip:
  assumes "f < 8" "f \<noteq> 2" "f \<noteq> 3"
  shows "branch_effect (Cond_branch (f XOR 1) r q) len' t' s =
    (if rv_taken f (rv_get r s) (rv_get q s) = Some True then rv_advance len' s else rv_jump t' s)"
  using rv_taken_flip [OF assms, of "rv_get r s" "rv_get q s"] by (auto simp: branch_effect_def)

lemma fields_rvc_b:
  "((h :: u32) OR ENCODE_RVC_B_IMM x) AND 0xe003 = h AND 0xe003" "h_rs1 (h OR ENCODE_RVC_B_IMM x) = h_rs1 h"
  using field_frame [OF rvc_b.enc_within, unfolded encode_all_ones, of "0xe003" 0 h x]
    field_frame [OF rvc_b.enc_within, unfolded encode_all_ones, of 7 7 h x]
  by (simp_all add: h_rs1_def c_eval)

lemma fields_rvc_j: "((h :: u32) OR ENCODE_RVC_J_IMM x) AND 0xe003 = h AND 0xe003"
  using field_frame [OF rvc_j.enc_within, unfolded encode_all_ones, of "0xe003" 0 h x] by (simp add: c_eval)

lemma and_subset:
  fixes h :: "'a::len word"
  assumes "h AND m = v" and "m AND k = k"
  shows "h AND k = v AND k"
  using assms by (metis and.assoc)

lemma step16_branch:
  assumes b: "branch16 h = Some (Cond_branch f r q)" and d: "imm_range (- 256) 256 2 d"
  shows "rv_step16 (h OR ENCODE_RVC_B_IMM d) s = Some (branch_effect (Cond_branch f r q) 2 (rv_pc s + d) s)"
proof -
  obtain v where v: "h AND 0xfffffc7f = v" "v = 0xc001 \<and> f = 0 \<or> v = 0xe001 \<and> f = 1" "r = h_rs1 h" "q = 0"
    using b by (auto simp: branch16_def split: if_splits)
  have op: "h AND 0xe003 = v" and z: "h AND 0x1c7c = 0"
    using and_subset [OF v(1), of "0xe003"] and_subset [OF v(1), of "0x1c7c"] v(2) by auto
  have "EXTRACT_RVC_B_IMM (h OR ENCODE_RVC_B_IMM d) = d"
    using rvc_b.insert_extract [of h d] z d by (simp add: encode_all_ones)
  with op v(2-4) show ?thesis
    by (auto simp: rv_step16_def fields_rvc_b branch_effect_def Let_def rv_taken_def)
qed

lemma step16_jump:
  assumes b: "branch16 h = Some (Jump_link rd)" and d: "imm_range (- 2048) 2048 2 d"
  shows "rv_step16 (h OR ENCODE_RVC_J_IMM d) s = Some (branch_effect (Jump_link rd) 2 (rv_pc s + d) s)"
proof -
  have v: "h = 0xa001 \<and> rd = 0 \<or> h = 0x2001 \<and> rd = 1"
    using b by (auto simp: branch16_def split: if_splits)
  then have "EXTRACT_RVC_J_IMM (h OR ENCODE_RVC_J_IMM d) = d"
    using rvc_j.insert_extract [of h d] d by (auto simp: encode_all_ones)
  with v show ?thesis
    by (auto simp: rv_step16_def fields_rvc_j branch_effect_def Let_def)
qed

text \<open>The compressed branch, inverted.\<close>

definition flip_branch16 :: "u32 \<Rightarrow> u32" where "flip_branch16 h = h XOR 0x2000"

lemma branch16_flip:
  assumes "branch16 h = Some (Cond_branch f r q)"
  shows "branch16 (flip_branch16 h) = Some (Cond_branch (f XOR 1) r q)" and "f < 2"
proof -
  have a: "flip_branch16 h AND 0xfffffc7f = (h AND 0xfffffc7f) XOR 0x2000"
    "shr (flip_branch16 h) 7 AND 7 = shr h 7 AND 7"
    by (simp_all add: flip_branch16_def word32_eq_iff all_bits word_bits Suc_Suc_0_eq_2)
  then have r: "h_rs1 (flip_branch16 h) = h_rs1 h" by (simp add: h_rs1_def)
  have n: "flip_branch16 h \<noteq> 0xa001" "flip_branch16 h \<noteq> 0x2001"
    using a(1) assms by (auto simp: branch16_def split: if_splits)
  show "branch16 (flip_branch16 h) = Some (Cond_branch (f XOR 1) r q)" and "f < 2"
    using assms a(1) r n by (auto simp: branch16_def split: if_splits)
qed

text \<open>The branch an expanded compressed branch is.\<close>

text \<open>A compressed conditional branch is one of sixteen words.\<close>

definition rvc_branch_words :: "u32 list" where
  "rvc_branch_words = [0xc001, 0xc081, 0xc101, 0xc181, 0xc201, 0xc281, 0xc301, 0xc381,
   0xe001, 0xe081, 0xe101, 0xe181, 0xe201, 0xe281, 0xe301, 0xe381]"

lemma branch16_words:
  assumes "branch16 h = Some (Cond_branch f r q)"
  shows "h \<in> set rvc_branch_words"
proof -
  obtain v where v: "h AND 0xfffffc7f = v" "v = 0xc001 \<or> v = 0xe001"
    using assms by (auto simp: branch16_def split: if_splits)
  define i where "i = shr h 7 AND 7"
  have "i = take_bit 3 (shr h 7)" by (simp add: i_def take_bit_eq_mask mask_numeral)
  then have "i < 8" by (simp add: take_bit_eq_mod word_mod_less_divisor)
  then have "unat i \<in> {0, 1, 2, 3, 4, 5, 6, 7}" by (auto simp: word_less_nat_alt)
  then have i: "i \<in> {0, 1, 2, 3, 4, 5, 6, 7}" by (auto simp: word_unat_eq_iff)
  have "h = (h AND 0xfffffc7f) OR shl i 7"
    unfolding i_def by (simp add: word32_eq_iff all_bits word_bits Suc_Suc_0_eq_2)
  then have "h = v OR shl i 7" using v(1) by simp
  with v(2) i show ?thesis by (elim disjE insertE emptyE) (simp_all add: rvc_branch_words_def c_eval)
qed

text \<open>An expanded compressed branch is the same branch.\<close>

lemma expand_rvc_words:
  "list_all (\<lambda>h. map_option (\<lambda>w. branch32 (ucast w)) (expand_rvc_branch (ucast h)) = Some (branch16 h))
    rvc_branch_words"
  by (simp add: rvc_branch_words_def expand_rvc_branch_def OPCODE_MATCHES_def branch32_def branch16_def
      w_fields h_rs1_def c_int_def c_eval)

lemma expand_rvc_branch_correct:
  assumes "branch16 h = Some b"
  shows "\<exists>w. expand_rvc_branch (ucast h) = Some w \<and> branch32 (ucast w) = Some b"
proof (cases b)
  case (Jump_link rd)
  with assms have "h = 0xa001 \<and> rd = 0 \<or> h = 0x2001 \<and> rd = 1"
    by (auto simp: branch16_def split: if_splits)
  with Jump_link show ?thesis
    by (auto simp: expand_rvc_branch_def OPCODE_MATCHES_def branch32_def w_fields c_int_def c_eval)
next
  case (Cond_branch f r q)
  with branch16_words assms have "h \<in> set rvc_branch_words" by blast
  with expand_rvc_words show ?thesis using assms by (auto simp: list_all_iff)
qed

subsection \<open>Fetching\<close>

lemma getl16_getl32: "bfd_getl16 code p = take_bit 16 (bfd_getl32 code p)"
  by (simp add: word32_eq_iff access_bits)

lemma rv_step_32:
  assumes "unat (rv_pc s - base) = p" and "p + 4 \<le> length code" and "bfd_getl32 code p AND 3 = 3"
  shows "rv_step base code s = rv_step32 (bfd_getl32 code p) s"
proof -
  have "bfd_getl16 code p AND 3 = bfd_getl32 code p AND 3"
    unfolding getl16_getl32 by (simp add: word32_eq_iff all_bits word_bits Suc_Suc_0_eq_2)
  with assms show ?thesis by (simp add: rv_step_def Let_def)
qed

lemma rv_step_16:
  assumes "unat (rv_pc s - base) = p" and "p + 2 \<le> length code" and "bfd_getl16 code p AND 3 \<noteq> 3"
  shows "rv_step base code s = rv_step16 (bfd_getl16 code p) s"
  using assms by (simp add: rv_step_def Let_def)

subsection \<open>The fixup of a branch\<close>

definition put_displacement :: "bfd_reloc \<Rightarrow> nat \<Rightarrow> u32 \<Rightarrow> byte list \<Rightarrow> byte list" where
  "put_displacement r p d buf =
     (if r = BFD_RELOC_RISCV_JMP then bfd_putl32 (bfd_getl32 buf p OR ENCODE_UJTYPE_IMM d) buf p
      else if r = BFD_RELOC_12_PCREL then bfd_putl32 (bfd_getl32 buf p OR ENCODE_SBTYPE_IMM d) buf p
      else if r = BFD_RELOC_RISCV_RVC_BRANCH then bfd_putl16 (bfd_getl16 buf p OR ENCODE_RVC_B_IMM d) buf p
      else bfd_putl16 (bfd_getl16 buf p OR ENCODE_RVC_J_IMM d) buf p)"

definition displacement_ok :: "bfd_reloc \<Rightarrow> u32 \<Rightarrow> bool" where
  "displacement_ok r d \<longleftrightarrow>
     (if r = BFD_RELOC_RISCV_JMP then imm_range (- 1048576) 1048576 2 d
      else if r = BFD_RELOC_12_PCREL then imm_range (- 4096) 4096 2 d
      else if r = BFD_RELOC_RISCV_RVC_BRANCH then imm_range (- 256) 256 2 d
      else imm_range (- 2048) 2048 2 d)"

lemma take_bit_16_or: "take_bit 16 (a OR b) = take_bit 16 a OR take_bit 16 b" for a b :: u32
  by (rule take_bit_or)

lemma enc_rvc_16: "take_bit 16 (ENCODE_RVC_B_IMM d) = (ENCODE_RVC_B_IMM d :: u32)"
  "take_bit 16 (ENCODE_RVC_J_IMM d) = (ENCODE_RVC_J_IMM d :: u32)"
  by (simp_all add: format_bits)

lemma reloc_distinct [simp]:
  "BFD_RELOC_12_PCREL \<noteq> BFD_RELOC_RISCV_JMP" "BFD_RELOC_RISCV_JMP \<noteq> BFD_RELOC_12_PCREL"
  "BFD_RELOC_RISCV_RVC_BRANCH \<noteq> BFD_RELOC_RISCV_JMP" "BFD_RELOC_RISCV_RVC_BRANCH \<noteq> BFD_RELOC_12_PCREL"
  "BFD_RELOC_RISCV_RVC_JUMP \<noteq> BFD_RELOC_RISCV_JMP" "BFD_RELOC_RISCV_RVC_JUMP \<noteq> BFD_RELOC_12_PCREL"
  "BFD_RELOC_RISCV_RVC_JUMP \<noteq> BFD_RELOC_RISCV_RVC_BRANCH"
  by simp_all

lemma getl32_put: "p + 4 \<le> length buf \<Longrightarrow> bfd_getl32 (bfd_putl32 v buf p) p = v"
  using l32.get_put [of p buf v] by (simp add: take_bit_word_eq_self)

lemma getl16_put: "p + 2 \<le> length buf \<Longrightarrow> bfd_getl16 (bfd_putl16 v buf p) p = take_bit 16 v"
  using l16.get_put [of p buf v] by (simp del: take_bit_or)

lemma getl16_put32: "q + 2 \<le> p \<Longrightarrow> bfd_getl16 (bfd_putl32 v buf p) q = bfd_getl16 buf q"
  by (rule l16.get_local) (simp add: l32.put_frame)

lemma getl32_put16: "p + 2 \<le> q \<Longrightarrow> bfd_getl32 (bfd_putl16 v buf p) q = bfd_getl32 buf q"
  by (rule l32.get_local) (simp add: l16.put_frame)

lemma getl32_put32: "p + 4 \<le> q \<or> q + 4 \<le> p \<Longrightarrow> bfd_getl32 (bfd_putl32 v buf p) q = bfd_getl32 buf q"
  using l32.get_put_disjoint by blast

lemmas access_simps = getl32_put getl16_put getl16_put32 getl32_put16 getl32_put32 l32.put_length l16.put_length

text \<open>The instruction words that decode as branches.\<close>

lemma branch32_low_bits: "branch32 w = Some b \<Longrightarrow> w AND 3 = 3"
  by (rule opcode_low_bits) (auto simp: branch32_def split: if_splits)

lemma low_bits_or:
  "(w OR ENCODE_SBTYPE_IMM d) AND 3 = w AND 3" "(w OR ENCODE_UJTYPE_IMM d) AND 3 = w AND 3"
  for w :: u32
  using sbtype_field [of 3 0 w d] ujtype_field [of 3 0 w d] by (simp_all add: c_eval)

lemma branch16_low_bits: "branch16 h = Some b \<Longrightarrow> h AND 3 = 1"
  using and_subset [of h "0xfffffc7f" _ 3] by (auto simp: branch16_def split: if_splits)

lemma branch16_small: "branch16 h = Some b \<Longrightarrow> take_bit 16 h = h"
  using branch16_words [of h] by (cases b) (auto simp: branch16_def rvc_branch_words_def split: if_splits)

lemma low_bits_or16:
  "(h OR ENCODE_RVC_B_IMM d) AND 3 = h AND 3" "(h OR ENCODE_RVC_J_IMM d) AND 3 = h AND 3"
  for h :: u32
  using field_frame [OF rvc_b.enc_within, unfolded encode_all_ones, of 3 0 h d]
    field_frame [OF rvc_j.enc_within, unfolded encode_all_ones, of 3 0 h d]
  by (simp_all add: c_eval)

text \<open>A branch kept at its own length, with its displacement put in.\<close>

lemma run_short32:
  assumes b: "branch32 (bfd_getl32 buf p) = Some b" and len: "p + 4 \<le> length buf"
    and r: "r = (if is_jump b then BFD_RELOC_RISCV_JMP else BFD_RELOC_12_PCREL)"
    and ok: "displacement_ok r d" and pc: "unat (rv_pc s - base) = p"
  shows "rv_step base (put_displacement r p d buf) s = Some (branch_effect b 4 (rv_pc s + d) s)"
proof -
  have "\<exists>w. put_displacement r p d buf = bfd_putl32 w buf p \<and> w AND 3 = 3 \<and>
    rv_step32 w s = Some (branch_effect b 4 (rv_pc s + d) s)"
    using b r ok branch32_low_bits [OF b] step_branch step_jump
    by (cases b) (auto simp: put_displacement_def displacement_ok_def low_bits_or)
  with len pc show ?thesis using rv_step_32 [OF pc] by (auto simp: access_simps)
qed

lemma run_short16:
  assumes b: "branch16 (bfd_getl16 buf p) = Some b" and len: "p + 2 \<le> length buf"
    and r: "r = (if is_jump b then BFD_RELOC_RISCV_RVC_JUMP else BFD_RELOC_RISCV_RVC_BRANCH)"
    and ok: "displacement_ok r d" and pc: "unat (rv_pc s - base) = p"
  shows "rv_step base (put_displacement r p d buf) s = Some (branch_effect b 2 (rv_pc s + d) s)"
proof -
  have "\<exists>h. put_displacement r p d buf = bfd_putl16 h buf p \<and> h AND 3 = 1 \<and> take_bit 16 h = h \<and>
    rv_step16 h s = Some (branch_effect b 2 (rv_pc s + d) s)"
    using b r ok branch16_low_bits [OF b] branch16_small [OF b] step16_branch step16_jump
    by (cases b) (auto simp: put_displacement_def displacement_ok_def low_bits_or16 enc_rvc_16)
  with len pc show ?thesis using rv_step_16 [OF pc] by (auto simp: access_simps)
qed

text \<open>The jump behind an inverted branch.\<close>

lemma run_jal:
  assumes w: "bfd_getl32 buf p = MATCH_JAL" and len: "p + 4 \<le> length buf"
    and ok: "displacement_ok BFD_RELOC_RISCV_JMP d" and pc: "unat (rv_pc s - base) = p"
  shows "rv_step base (put_displacement BFD_RELOC_RISCV_JMP p d buf) s = Some (rv_jump (rv_pc s + d) s)"
proof -
  have "branch32 (bfd_getl32 buf p) = Some (Jump_link 0)" by (simp add: w branch32_def w_fields c_eval)
  with run_short32 [OF this len _ ok pc] show ?thesis by (simp add: branch_effect_def)
qed


subsection \<open>The conversion\<close>

lemma ucast_invert_branch: "ucast (invert_branch (ucast w)) = flip_branch w OR ENCODE_SBTYPE_IMM 8"
  for w :: u32
  by (simp add: invert_branch_def flip_branch_def word32_eq_iff all_bits format_defs word_bits
      c_int_def c_eval Suc_Suc_0_eq_2)

lemma ucast_invert_rvc_branch:
  "ucast (invert_rvc_branch (ucast h)) = flip_branch16 h OR ENCODE_RVC_B_IMM 6" for h :: u32
  by (simp add: invert_rvc_branch_def flip_branch16_def word32_eq_iff all_bits format_defs word_bits
      c_int_def c_eval Suc_Suc_0_eq_2)

text \<open>An inverted branch over a jump does what the branch does.\<close>

lemma run_long32:
  assumes w: "branch32 w = Some (Cond_branch f r q)" and len: "8 \<le> length buf"
    and code: "bfd_getl32 buf 0 = flip_branch w OR ENCODE_SBTYPE_IMM 8" "bfd_getl32 buf 4 = MATCH_JAL"
    and ok: "displacement_ok BFD_RELOC_RISCV_JMP d"
  shows "\<exists>n \<in> {1, 2}. rv_run n (rv_pc s) (put_displacement BFD_RELOC_RISCV_JMP 4 d buf) s =
    Some (branch_effect (Cond_branch f r q) 8 (rv_pc s + 4 + d) s)"
proof -
  let ?code = "put_displacement BFD_RELOC_RISCV_JMP 4 d buf"
  have f: "f < 8" "f \<noteq> 2" "f \<noteq> 3" using w funct3_range [of w] by (auto simp: branch32_def split: if_splits)
  note flip = branch32_flip [OF w]
  have g: "bfd_getl32 ?code 0 = flip_branch w OR ENCODE_SBTYPE_IMM 8" "length ?code = length buf"
    by (simp_all add: put_displacement_def access_simps code)
  have "bfd_getl32 ?code 0 AND 3 = 3" using branch32_low_bits [OF flip] by (simp add: g low_bits_or)
  then have step1: "rv_step (rv_pc s) ?code s =
      Some (branch_effect (Cond_branch (f XOR 1) r q) 4 (rv_pc s + 8) s)"
    using rv_step_32 [of s "rv_pc s" 0 ?code] len g step_branch [OF flip, of 8 s] by (simp add: imm_range_def)
  show ?thesis
  proof (cases "rv_taken f (rv_get r s) (rv_get q s) = Some True")
    case True
    have "rv_step (rv_pc s) ?code (rv_advance 4 s) = Some (rv_jump (rv_pc s + 4 + d) (rv_advance 4 s))"
      using run_jal [OF code(2), of d "rv_advance 4 s" "rv_pc s"] len ok by simp
    with True step1 have "rv_run 2 (rv_pc s) ?code s = Some (rv_jump (rv_pc s + 4 + d) s)"
      by (simp add: numeral_2_eq_2 branch_effect_flip [OF f] rv_state_ops)
    with True show ?thesis by (auto simp: branch_effect_def)
  next
    case False
    with step1 have "rv_run 1 (rv_pc s) ?code s = Some (rv_advance 8 s)"
      by (simp add: branch_effect_flip [OF f] rv_state_ops)
    with False show ?thesis by (auto simp: branch_effect_def)
  qed
qed

lemma run_long16:
  assumes h: "branch16 h = Some (Cond_branch f r q)" and len: "6 \<le> length buf"
    and code: "bfd_getl16 buf 0 = flip_branch16 h OR ENCODE_RVC_B_IMM 6" "bfd_getl32 buf 2 = MATCH_JAL"
    and ok: "displacement_ok BFD_RELOC_RISCV_JMP d"
  shows "\<exists>n \<in> {1, 2}. rv_run n (rv_pc s) (put_displacement BFD_RELOC_RISCV_JMP 2 d buf) s =
    Some (branch_effect (Cond_branch f r q) 6 (rv_pc s + 2 + d) s)"
proof -
  let ?code = "put_displacement BFD_RELOC_RISCV_JMP 2 d buf"
  note flip = branch16_flip(1) [OF h]
  have "unat f < 2" using branch16_flip(2) [OF h] by (simp add: word_less_nat_alt)
  then have f: "f < 8" "f \<noteq> 2" "f \<noteq> 3" by (auto simp: word_less_nat_alt)
  have g: "bfd_getl16 ?code 0 = flip_branch16 h OR ENCODE_RVC_B_IMM 6" "length ?code = length buf"
    by (simp_all add: put_displacement_def access_simps code)
  have "bfd_getl16 ?code 0 AND 3 \<noteq> 3" using branch16_low_bits [OF flip] by (simp add: g low_bits_or16)
  then have step1: "rv_step (rv_pc s) ?code s =
      Some (branch_effect (Cond_branch (f XOR 1) r q) 2 (rv_pc s + 6) s)"
    using rv_step_16 [of s "rv_pc s" 0 ?code] len g step16_branch [OF flip, of 6 s] by (simp add: imm_range_def)
  show ?thesis
  proof (cases "rv_taken f (rv_get r s) (rv_get q s) = Some True")
    case True
    have "rv_step (rv_pc s) ?code (rv_advance 2 s) = Some (rv_jump (rv_pc s + 2 + d) (rv_advance 2 s))"
      using run_jal [OF code(2), of d "rv_advance 2 s" "rv_pc s"] len ok by simp
    with True step1 have "rv_run 2 (rv_pc s) ?code s = Some (rv_jump (rv_pc s + 2 + d) s)"
      by (simp add: numeral_2_eq_2 branch_effect_flip [OF f] rv_state_ops)
    with True show ?thesis by (auto simp: branch_effect_def)
  next
    case False
    with step1 have "rv_run 1 (rv_pc s) ?code s = Some (rv_advance 6 s)"
      by (simp add: branch_effect_flip [OF f] rv_state_ops)
    with False show ?thesis by (auto simp: branch_effect_def)
  qed
qed

text \<open>
  The whole conversion. \<open>d\<close> is the distance from the branch to its target, \<open>at\<close> the
  place of the fixup, whose displacement counts from there.
\<close>

lemma convert_branch_cases [consumes 4, case_names kept16 short32 long16 long32]:
  assumes buf: "8 \<le> length buf" and len: "len \<in> {2, 4, 6, 8}" and reach: "branch_reaches len (is_jump b) rvc d"
    and b: "(if rvc then branch16 (bfd_getl16 buf 0) else branch32 (bfd_getl32 buf 0)) = Some b"
  obtains
    (kept16) "len = 2" "rvc" "convert_branch (RELAX_BRANCH_ENCODE (is_jump b) rvc len) buf =
      Inr (buf, 0, 2, if is_jump b then BFD_RELOC_RISCV_RVC_JUMP else BFD_RELOC_RISCV_RVC_BRANCH)"
  | (short32) buf' where "len = 4" "convert_branch (RELAX_BRANCH_ENCODE (is_jump b) rvc len) buf =
      Inr (buf', 0, 4, if is_jump b then BFD_RELOC_RISCV_JMP else BFD_RELOC_12_PCREL)"
      "branch32 (bfd_getl32 buf' 0) = Some b" "length buf' = length buf"
  | (long16) "len = 6" "rvc" "\<not> is_jump b" "convert_branch (RELAX_BRANCH_ENCODE (is_jump b) rvc len) buf =
      Inr (bfd_putl32 MATCH_JAL (bfd_putl16 (flip_branch16 (bfd_getl16 buf 0) OR ENCODE_RVC_B_IMM 6) buf 0) 2,
        2, 4, BFD_RELOC_RISCV_JMP)"
  | (long32) buf' w where "len = 8" "\<not> is_jump b" "branch32 w = Some b" "length buf' = length buf"
      "convert_branch (RELAX_BRANCH_ENCODE (is_jump b) rvc len) buf =
      Inr (bfd_putl32 MATCH_JAL (bfd_putl32 (flip_branch w OR ENCODE_SBTYPE_IMM 8) buf' 0) 4,
        4, 4, BFD_RELOC_RISCV_JMP)"
proof -
  let ?st = "RELAX_BRANCH_ENCODE (is_jump b) rvc len"
  have rt: "RELAX_BRANCH_LENGTH ?st = len" "RELAX_BRANCH_RVC ?st = rvc" "RELAX_BRANCH_UNCOND ?st = is_jump b"
    using len RELAX_BRANCH_roundtrip [of len "is_jump b" rvc] by auto
  note conv = convert_branch_def Let_def rt
  consider (2) "len = 2" | (4) "len = 4" | (6) "len = 6" | (8) "len = 8" using len by blast
  then show thesis
  proof cases
    case 2
    with reach have "rvc" by (simp add: branch_reaches_def)
    with 2 show thesis by (intro kept16) (unfold conv, simp_all add: gas_assert_def)
  next
    case 6
    with reach have v: "rvc" "\<not> is_jump b" by (simp_all add: branch_reaches_def)
    with 6 show thesis by (intro long16) (unfold conv, simp_all add: gas_assert_def ucast_invert_rvc_branch)
  next
    case 4
    show thesis
    proof (cases rvc)
      case True
      with b obtain w where w: "expand_rvc_branch (ucast (bfd_getl16 buf 0)) = Some w" "branch32 (ucast w) = Some b"
        using expand_rvc_branch_correct by fastforce
      show thesis
        by (rule short32 [of "bfd_putl32 (ucast w) buf 0"]) (use 4 True w buf in \<open>unfold conv, simp_all add: gas_assert_def access_simps\<close>)
    next
      case False
      then show thesis by (intro short32 [of buf]) (use 4 b in \<open>unfold conv, simp_all add: gas_assert_def\<close>)
    qed
  next
    case 8
    with reach have u: "\<not> is_jump b" by (simp add: branch_reaches_def)
    show thesis
    proof (cases rvc)
      case True
      with b obtain w where w: "expand_rvc_branch (ucast (bfd_getl16 buf 0)) = Some w" "branch32 (ucast w) = Some b"
        using expand_rvc_branch_correct by fastforce
      show thesis
        by (rule long32 [of "ucast w" "bfd_putl32 (ucast w) buf 0"])
          (use 8 True u w buf in \<open>unfold conv, simp_all add: gas_assert_def access_simps ucast_invert_branch\<close>)
    next
      case False
      then show thesis
        by (intro long32 [of "bfd_getl32 buf 0" buf]) (use 8 u b in \<open>unfold conv, simp_all add: gas_assert_def ucast_invert_branch\<close>)
    qed
  qed
qed

lemma convert_branch_runs:
  assumes len: "len \<in> {2, 4, 6, 8}" and reach: "branch_reaches len (is_jump b) rvc d"
    and buf: "8 \<le> length buf" and even: "even (sint d)"
    and b: "(if rvc then branch16 (bfd_getl16 buf 0) else branch32 (bfd_getl32 buf 0)) = Some b"
    and conv: "convert_branch (RELAX_BRANCH_ENCODE (is_jump b) rvc len) buf = Inr (buf', at, sz, r)"
    and ok: "r = BFD_RELOC_RISCV_JMP \<Longrightarrow> displacement_ok r (d - word_of_nat at)"
  shows "\<exists>n \<in> {1, 2}. rv_run n (rv_pc s) (put_displacement r at (d - word_of_nat at) buf') s =
    Some (branch_effect b len (rv_pc s + d) s)"
  using buf len reach b
proof (cases rule: convert_branch_cases)
  case kept16
  with conv have r: "buf' = buf" "at = 0" "r = (if is_jump b then BFD_RELOC_RISCV_RVC_JUMP else BFD_RELOC_RISCV_RVC_BRANCH)"
    by simp_all
  have "displacement_ok r d"
    using reach even kept16(1) by (simp add: r branch_reaches_def displacement_ok_def imm_range_def)
  then have "rv_step (rv_pc s) (put_displacement r 0 d buf) s = Some (branch_effect b 2 (rv_pc s + d) s)"
    using b kept16(2) buf r(3) by (intro run_short16) simp_all
  then show ?thesis by (intro bexI [of _ 1]) (simp_all add: r(1,2) kept16(1))
next
  case (short32 buf1)
  with conv have r: "buf' = buf1" "at = 0" "r = (if is_jump b then BFD_RELOC_RISCV_JMP else BFD_RELOC_12_PCREL)"
    by simp_all
  have "displacement_ok r d"
    using reach even short32(1) ok r(2) by (cases "is_jump b") (simp_all add: r branch_reaches_def displacement_ok_def imm_range_def)
  then have "rv_step (rv_pc s) (put_displacement r 0 d buf1) s = Some (branch_effect b 4 (rv_pc s + d) s)"
    using short32 buf r(3) by (intro run_short32) simp_all
  then show ?thesis by (intro bexI [of _ 1]) (simp_all add: r(1,2) short32(1))
next
  case long16
  obtain f p q where c: "b = Cond_branch f p q" using long16(3) by (cases b) auto
  let ?code = "bfd_putl32 MATCH_JAL (bfd_putl16 (flip_branch16 (bfd_getl16 buf 0) OR ENCODE_RVC_B_IMM 6) buf 0) 2"
  have r: "buf' = ?code" "at = 2" "r = BFD_RELOC_RISCV_JMP" using conv long16(4) by simp_all
  have h: "branch16 (bfd_getl16 buf 0) = Some (Cond_branch f p q)" using b long16(2) c by simp
  have "take_bit 16 (flip_branch16 (bfd_getl16 buf 0)) = flip_branch16 (bfd_getl16 buf 0)"
    by (rule branch16_small [OF branch16_flip(1) [OF h]])
  then have g: "bfd_getl16 ?code 0 = flip_branch16 (bfd_getl16 buf 0) OR ENCODE_RVC_B_IMM 6"
    "bfd_getl32 ?code 2 = MATCH_JAL" using buf by (simp_all add: access_simps enc_rvc_16)
  show ?thesis
    using run_long16 [OF h _ g, of "d - 2" s] ok buf unfolding r long16(1) c by (simp add: access_simps algebra_simps)
next
  case (long32 buf1 w)
  obtain f p q where c: "b = Cond_branch f p q" using long32(2) by (cases b) auto
  let ?code = "bfd_putl32 MATCH_JAL (bfd_putl32 (flip_branch w OR ENCODE_SBTYPE_IMM 8) buf1 0) 4"
  have r: "buf' = ?code" "at = 4" "r = BFD_RELOC_RISCV_JMP" using conv long32(5) by simp_all
  have g: "bfd_getl32 ?code 0 = flip_branch w OR ENCODE_SBTYPE_IMM 8" "bfd_getl32 ?code 4 = MATCH_JAL"
    using buf long32(4) by (simp_all add: access_simps)
  show ?thesis
    using run_long32 [OF long32(3) [unfolded c] _ g, of "d - 4" s] ok buf long32(4)
    unfolding r long32(1) c by (simp add: access_simps algebra_simps)
qed

subsection \<open>On the state of the assembler\<close>

lemma put_drop:
  "drop p (bfd_putl32 v buf (p + q)) = bfd_putl32 v (drop p buf) q"
  "drop p (bfd_putl16 v buf (p + q)) = bfd_putl16 v (drop p buf) q"
  by (simp_all add: bfd_putl32_def bfd_putl16_def drop_update_swap add.assoc)

lemma get_drop:
  "p \<le> length buf \<Longrightarrow> bfd_getl32 buf (p + q) = bfd_getl32 (drop p buf) q"
  "p \<le> length buf \<Longrightarrow> bfd_getl16 buf (p + q) = bfd_getl16 (drop p buf) q"
  by (simp_all add: bfd_getl32_def bfd_getl16_def nth_drop add.assoc)

lemma put_displacement_drop:
  "p \<le> length buf \<Longrightarrow> drop p (put_displacement r (p + q) d buf) = put_displacement r q d (drop p buf)"
  by (simp add: put_displacement_def put_drop get_drop)

definition branch_reloc :: "bfd_reloc \<Rightarrow> bool" where
  "branch_reloc r \<longleftrightarrow> r \<in> {BFD_RELOC_RISCV_JMP, BFD_RELOC_12_PCREL, BFD_RELOC_RISCV_RVC_BRANCH,
     BFD_RELOC_RISCV_RVC_JUMP}"

text \<open>Applying the fixup of a branch puts the displacement to its symbol in.\<close>

lemma md_apply_fix_branch:
  assumes "k < length (gs_fixes gs)" and "branch_reloc (fx_r_type (gs_fixes gs ! k))"
    and "fx_addsy (gs_fixes gs ! k) = Some sy" and "fx_subsy (gs_fixes gs ! k) = None"
    and "\<not> fx_tcbit (gs_fixes gs ! k)"
  shows "md_apply_fix names k val gs = Inr
    (let f = gs_fixes gs ! k in
     patch_frag (fix_frag gs f) (put_displacement (fx_r_type f) (fx_where f) (fix_delta gs f sy val))
       (update_fix k (\<lambda>f. f\<lparr>fx_addnumber := val\<rparr>) gs))"
proof -
  let ?f = "gs_fixes gs ! k" and ?gs = "update_fix k (\<lambda>f. f\<lparr>fx_addnumber := val\<rparr>) gs"
  have upd: "gs_fixes ?gs ! k = ?f\<lparr>fx_addnumber := val\<rparr>" using assms(1) by (simp add: update_fix_def)
  have same: "fix_frag ?gs (?f\<lparr>fx_addnumber := val\<rparr>) = fix_frag gs ?f"
    "fix_delta ?gs (?f\<lparr>fx_addnumber := val\<rparr>) sy val = fix_delta gs ?f sy val"
    by (simp_all add: fix_frag_def fix_delta_def md_pcrel_from_def gs_frags_def update_fix_def)
  have "apply_fix_case names k val ?gs = Inr (False, patch_frag (fix_frag gs ?f)
      (put_displacement (fx_r_type ?f) (fx_where ?f) (fix_delta gs ?f sy val)) ?gs)"
    using assms(2,3) unfolding apply_fix_case_def Let_def upd
    by (auto simp: branch_reloc_def apply_pcrel32_def apply_pcrel16_def same put_displacement_def [abs_def])
  moreover have "gs_fixes (patch_frag j g ?gs) ! k = ?f\<lparr>fx_addnumber := val\<rparr>" for j g
    by (simp add: patch_frag_def update_gs_frag_def upd)
  ultimately show ?thesis using assms(4,5) by (simp add: md_apply_fix_def Let_def)
qed

lemma convert_branch_shape:
  assumes "8 \<le> length buf" "len \<in> {2, 4, 6, 8}" "branch_reaches len (is_jump b) rvc d"
    "(if rvc then branch16 (bfd_getl16 buf 0) else branch32 (bfd_getl32 buf 0)) = Some b"
  shows "\<exists>buf' at sz r. convert_branch (RELAX_BRANCH_ENCODE (is_jump b) rvc len) buf = Inr (buf', at, sz, r) \<and>
    branch_reloc r \<and> at \<in> {0, 2, 4} \<and> sz < 256 \<and> length buf' = length buf \<and> at + sz = unat len"
  using assms
  by (cases rule: convert_branch_cases)
    (auto simp: branch_reloc_def l32.put_length l16.put_length)

text \<open>
  A fragment with a relaxable branch: its worst case fits behind the fixed part, the branch
  stands there with a zero displacement, and its length is a fixed point of the relaxation.
\<close>

definition branch_frag :: "gas_state \<Rightarrow> segT \<Rightarrow> nat \<Rightarrow> rv_branch \<Rightarrow> bool \<Rightarrow> symbolS \<Rightarrow> bool" where
  "branch_frag gs sec i b rvc lab \<longleftrightarrow>
     (let f = gs_frags gs ! i; code = drop (unat (fr_fix f)) (fr_literal f)
      in i < length (gs_frags gs) \<and> 8 \<le> length code \<and>
         (if rvc then branch16 (bfd_getl16 code 0) else branch32 (bfd_getl32 code 0)) = Some b \<and>
         branch_target (gs_frags gs) (gs_symbols gs) sec f = Some lab \<and>
         fr_subtype f = RELAX_BRANCH_ENCODE (is_jump b) rvc (fr_var f) \<and>
         relaxed_branch_length (gs_frags gs) (gs_symbols gs) sec True f = (fr_var f, f))"

text \<open>The code of fragment \<open>i\<close> from offset \<open>p\<close> on.\<close>

definition code_at :: "gas_state \<Rightarrow> nat \<Rightarrow> nat \<Rightarrow> byte list" where
  "code_at gs i p = drop p (fr_literal (gs_frags gs ! i))"

lemma relaxed_branch_converted:
  assumes bf: "branch_frag gs sec i b rvc lab"
    and d: "d = branch_distance (gs_frags gs) lab (gs_frags gs ! i)"
    and even: "even (sint d)" and range: "imm_range (- 1048576) 1048576 2 (d - 4)"
      "imm_range (- 1048576) 1048576 2 (d - 2)" "imm_range (- 1048576) 1048576 2 d"
  shows "\<exists>gs1 gs2. md_convert_frag i gs = Inr gs1 \<and>
    md_apply_fix names (length (gs_fixes gs)) (fr_offset (gs_frags gs ! i)) gs1 = Inr gs2 \<and>
    (\<forall>s. \<exists>n \<in> {1, 2}. rv_run n (rv_pc s) (code_at gs2 i (unat (fr_fix (gs_frags gs ! i)))) s =
      Some (branch_effect b (fr_var (gs_frags gs ! i)) (rv_pc s + d) s))"
proof -
  let ?f = "gs_frags gs ! i"
  define p where "p = unat (fr_fix ?f)"
  define code where "code = drop p (fr_literal ?f)"
  define len where "len = fr_var ?f"
  have i: "i < length (gs_frags gs)" and code8: "8 \<le> length code"
    and b: "(if rvc then branch16 (bfd_getl16 code 0) else branch32 (bfd_getl32 code 0)) = Some b"
    and tgt: "branch_target (gs_frags gs) (gs_symbols gs) sec ?f = Some lab"
    and st: "fr_subtype ?f = RELAX_BRANCH_ENCODE (is_jump b) rvc len"
    and rel: "relaxed_branch_length (gs_frags gs) (gs_symbols gs) sec True ?f = (len, ?f)"
    using bf by (simp_all only: branch_frag_def Let_def p_def code_def len_def)
  have len: "len \<in> {2, 4, 6, 8}" by (rule relaxed_branch_length_fst(1) [OF rel])
  then have l16: "len < 16" by auto
  note rt = RELAX_BRANCH_roundtrip [OF l16, of "is_jump b" rvc]
  have reach: "branch_reaches len (is_jump b) rvc d"
    using relaxed_branch_length_reaches [OF rel tgt] by (simp add: st rt d)
  obtain sy where sy: "fr_symbol ?f = Some sy" "gs_symbols gs ! sy = lab"
    using tgt by (auto simp: branch_target_def split: option.splits if_splits)
  obtain buf at sz r where cb: "convert_branch (fr_subtype ?f) code = Inr (buf, at, sz, r)"
    and shape: "branch_reloc r" "at \<in> {0, 2, 4}" "sz < 256" "length buf = length code"
    using convert_branch_shape [OF code8 len reach b] unfolding st by blast
  let ?fix = "\<lparr>fx_frag = Some i, fx_where = p + at, fx_size = sz, fx_addsy = Some sy, fx_subsy = None,
    fx_offset = fr_offset ?f, fx_pcrel = False, fx_r_type = r, fx_addnumber = 0, fx_tcbit = False,
    fx_done = False\<rparr>"
  define gs1 where gs1: "gs1 = update_gs_frag i (\<lambda>f. f\<lparr>fr_literal := take p (fr_literal f) @ buf,
      fr_fix := fr_fix f + fr_var f\<rparr>) (gs\<lparr>gs_fixes := gs_fixes gs @ [?fix]\<rparr>)"
  have sub: "RELAX_BRANCH_P (fr_subtype ?f)" "RELAX_BRANCH_LENGTH (fr_subtype ?f) = len"
    by (simp_all only: st rt(1,2))
  have conv: "md_convert_frag i gs = Inr gs1"
    using cb shape(3) sy(1) sub
    by (simp add: gs1 md_convert_frag_def md_convert_frag_branch_def Let_def gas_assert_def
        len_def [symmetric] fix_new_exp_symbol p_def [symmetric] code_def [symmetric] split: if_splits)
  have fr1: "gs_frags gs1 ! i = ?f\<lparr>fr_literal := take p (fr_literal ?f) @ buf, fr_fix := fr_fix ?f + fr_var ?f\<rparr>"
    "length (gs_frags gs1) = length (gs_frags gs)"
    using i by (simp_all add: gs1 gs_frags_def update_gs_frag_def update_frag_def)
  have fx: "gs_fixes gs1 ! length (gs_fixes gs) = ?fix" "length (gs_fixes gs) < length (gs_fixes gs1)"
    by (simp_all add: gs1 update_gs_frag_def)
  have addr: "fr_address (gs_frags gs1 ! j) = fr_address (gs_frags gs ! j)" for j
    using i by (cases "i = j") (simp_all add: gs1 gs_frags_def update_gs_frag_def update_frag_def)
  have "gs_symbols gs1 = gs_symbols gs" by (simp add: gs1 update_gs_frag_def)
  then have delta: "fix_delta gs1 ?fix sy (fr_offset ?f) = d - word_of_nat at"
    by (simp add: fix_delta_def d branch_distance_def label_value_def addr md_pcrel_from_def fix_frag_def
        sy(2) p_def cong: option.case_cong)
  define gs2 where gs2_eq: "gs2 = patch_frag i (put_displacement r (p + at) (d - word_of_nat at))
      (update_fix (length (gs_fixes gs)) (\<lambda>f. f\<lparr>fx_addnumber := fr_offset ?f\<rparr>) gs1)"
  have fixed: "md_apply_fix names (length (gs_fixes gs)) (fr_offset ?f) gs1 = Inr gs2"
    unfolding gs2_eq using md_apply_fix_branch [OF fx(2), of sy names "fr_offset ?f"] shape(1)
    by (simp add: fx Let_def delta fix_frag_def)
  have "code_at gs2 i p = drop p (put_displacement r (p + at) (d - word_of_nat at)
      (take p (fr_literal ?f) @ buf))"
    using i fr1 by (simp add: gs2_eq code_at_def patch_frag_def update_gs_frag_def gs_frags_def update_frag_def update_fix_def)
  moreover have "p \<le> length (fr_literal ?f)" using code8 by (simp add: code_def)
  ultimately have gs2: "code_at gs2 i p = put_displacement r at (d - word_of_nat at) buf"
    by (simp add: put_displacement_drop)
  have "\<exists>n \<in> {1, 2}. rv_run n (rv_pc s) (code_at gs2 i p) s = Some (branch_effect b len (rv_pc s + d) s)" for s
    unfolding gs2
  proof (rule convert_branch_runs [OF len reach code8 even b cb [unfolded st]])
    assume "r = BFD_RELOC_RISCV_JMP"
    then show "displacement_ok r (d - word_of_nat at)"
      using shape(2) range by (auto simp: displacement_ok_def)
  qed
  with conv fixed show ?thesis unfolding p_def len_def by blast
qed

end
