(* ===== verification/NopFill.thy ===== *)
theory NopFill
  imports TcRelax FragPlaces RvSemantics
begin

text \<open>
  Code alignment: the bytes \<open>riscv_make_nops\<close> writes are as many as asked for and, for an
  even number, NOPs; \<open>riscv_frag_align_code\<close> appends the worst case of them and a fixup
  that tells the linker how many there are.
\<close>

subsection \<open>One NOP\<close>

lemma nop_bytes: "le_bytes RISCV_NOP 4 = [0x13, 0, 0, 0]" "le_bytes RVC_NOP 2 = [1, 0]"
  by (simp_all only: le_bytes_4 le_bytes_2) (simp_all add: low_byte_def c_eval)

lemma step_nop4:
  assumes "unat (rv_pc s - base) = length pre"
  shows "rv_step base (pre @ [0x13, 0, 0, 0] @ post) s = Some (rv_advance 4 s)"
  using assms
  by (simp add: rv_step_def Let_def bfd_getl16_def bfd_getl32_def nth_append c_eval
      rv_step32_def w_fields)

lemma step_nop2:
  assumes "unat (rv_pc s - base) = length pre"
  shows "rv_step base (pre @ [1, 0] @ post) s = Some (rv_advance 2 s)"
  using assms
  by (simp add: rv_step_def Let_def bfd_getl16_def nth_append c_eval
      rv_step16_def w_fields)

subsection \<open>Runs of NOPs\<close>

lemma pc_advanced:
  assumes "unat (rv_pc s - base) = n" and "n + k < 2 ^ 32"
  shows "unat (rv_pc (rv_advance (word_of_nat k) s) - base) = n + k"
proof -
  have "rv_pc s - base = word_of_nat n" using assms(1) by (simp flip: assms(1))
  then have pc: "rv_pc (rv_advance (word_of_nat k) s) - base = word_of_nat (n + k)"
    by (simp add: algebra_simps)
  show ?thesis unfolding pc using assms(2) by (simp add: unat_of_nat take_bit_nat_eq_self del: of_nat_add)
qed

lemma run_nops:
  assumes "unat (rv_pc s - base) = length pre" and "length pre + 4 * k < 2 ^ 32"
  shows "rv_run k base (pre @ concat (replicate k [0x13, 0, 0, 0]) @ post) s =
    Some (rv_advance (word_of_nat (4 * k)) s)"
  using assms
proof (induction k arbitrary: pre s)
  case (Suc k)
  let ?s = "rv_advance (word_of_nat 4) s" and ?pre = "pre @ [0x13, 0, 0, 0]"
  have "unat (rv_pc ?s - base) = length ?pre" using pc_advanced [of s base _ 4] Suc.prems by simp
  then have "rv_run k base (?pre @ concat (replicate k [0x13, 0, 0, 0]) @ post) ?s =
      Some (rv_advance (word_of_nat (4 * k)) ?s)" using Suc.prems(2) by (intro Suc.IH) simp_all
  then show ?case
    using step_nop4 [OF Suc.prems(1), of "concat (replicate k [0x13, 0, 0, 0]) @ post"]
    by (simp add: rv_state_ops algebra_simps)
qed (simp add: rv_advance_def)

subsection \<open>What \<open>riscv_make_nops\<close> writes\<close>

lemma nops_from_replicate:
  "nops_from i (4 * k + i) = concat (replicate k [0x13, 0, 0, 0])"
proof (induction k arbitrary: i)
  case 0
  then show ?case by (simp add: nops_from.simps)
next
  case (Suc k)
  from Suc [of "i + 4"] show ?case by (subst nops_from.simps) (simp only: nop_bytes, simp add: algebra_simps)
qed

lemma make_nops_shape:
  "riscv_make_nops n = (if odd n then [0] else []) @ (if n mod 4 \<in> {2, 3} then [1, 0] else []) @
     concat (replicate (n div 4) [0x13, 0, 0, 0])"
proof -
  define k where "k = n div 4"
  consider "n = 4 * k" | "n = 4 * k + 1" | "n = 4 * k + 2" | "n = 4 * k + 3"
    unfolding k_def by linarith
  then show ?thesis
  proof cases
    case 1
    then show ?thesis using nops_from_replicate [of 0 k] by (simp add: riscv_make_nops_def)
  next
    case 2
    have "(4 * k + 1) mod 2 = 1" "(4 * k + 1) mod 4 = 1" "(4 * k + 1) div 4 = k" by presburger+
    then show ?thesis using 2 nops_from_replicate [of 1 k] by (simp add: riscv_make_nops_def)
  next
    case 3
    have "(4 * k + 2) mod 2 = 0" "(4 * k + 2) mod 4 = 2" "(4 * k + 2) div 4 = k" by presburger+
    then show ?thesis using 3 nops_from_replicate [of "Suc (Suc 0)" k] nop_bytes(2) by (simp add: riscv_make_nops_def)
  next
    case 4
    have "(4 * k + 3) mod 2 = 1" "(4 * k + 3) mod 4 = 3" "(4 * k + 2) mod 4 = 2" by presburger+
    moreover have "nops_from (Suc (Suc (Suc 0))) (4 * k + 3) = concat (replicate k [0x13, 0, 0, 0])"
      using nops_from_replicate [of 3 k] by (simp only: numeral_3_eq_3)
    ultimately show ?thesis using 4 nop_bytes(2) by (simp add: riscv_make_nops_def)
  qed
qed

lemma length_make_nops: "length (riscv_make_nops n) = n"
proof -
  have "length (concat (replicate k [0x13, 0, 0, 0 :: byte])) = 4 * k" for k by (induction k) simp_all
  then show ?thesis unfolding make_nops_shape by (simp, presburger)
qed

lemma make_nops_run:
  assumes "even n" and "n < 2 ^ 32"
  shows "\<exists>k. rv_run k (rv_pc s) (riscv_make_nops n) s = Some (rv_advance (word_of_nat n) s)"
proof (cases "n mod 4 = 2")
  case True
  then have n: "n = 4 * (n div 4) + 2" by presburger
  let ?s = "rv_advance (word_of_nat 2) s"
  have "rv_run (n div 4) (rv_pc s) ([1, 0] @ concat (replicate (n div 4) [0x13, 0, 0, 0]) @ []) ?s =
      Some (rv_advance (word_of_nat (4 * (n div 4))) ?s)"
    using n assms(2) pc_advanced [of s "rv_pc s" 0 2] by (intro run_nops) simp_all
  then have "rv_run (Suc (n div 4)) (rv_pc s) (riscv_make_nops n) s = Some (rv_advance (word_of_nat n) s)"
    using step_nop2 [of s "rv_pc s" "[]" "concat (replicate (n div 4) [0x13, 0, 0, 0])"] True assms(1)
    by (subst (2) n) (simp add: make_nops_shape rv_state_ops algebra_simps)
  then show ?thesis by blast
next
  case False
  with assms(1) have n: "n = 4 * (n div 4)" "n mod 4 = 0" by presburger+
  have "rv_run (n div 4) (rv_pc s) ([] @ concat (replicate (n div 4) [0x13, 0, 0, 0]) @ []) s =
      Some (rv_advance (word_of_nat (4 * (n div 4))) s)"
    using n assms(2) by (intro run_nops) simp_all
  with n assms(1) have "rv_run (n div 4) (rv_pc s) (riscv_make_nops n) s = Some (rv_advance (word_of_nat n) s)"
    by (simp add: make_nops_shape)
  then show ?thesis by blast
qed

subsection \<open>Reserving an alignment\<close>

lemma riscv_frag_align_code_image:
  assumes inv: "frchain_inv (gs_chain gs)" and relax: "opt_relax (tc_opts (gs_tc gs))"
    and al: "al = (if opt_rvc (tc_opts (gs_tc gs)) then 2 else 4)" "al < shl 1 n"
    and res: "riscv_frag_align_code n gs = Inr (b, gs')"
    and small: "length (image (gs_chain gs)) + unat (shl 1 n - al :: u32) < 2 ^ 32"
  shows "b" and "image (gs_chain gs') = image (gs_chain gs) @ riscv_make_nops (unat (shl 1 n - al :: u32))"
    and "frchain_inv (gs_chain gs')" and "chain_extends (gs_chain gs) (gs_chain gs')"
    and "\<exists>f. gs_fixes gs' = gs_fixes gs @ [f] \<and> fx_r_type f = BFD_RELOC_RISCV_ALIGN \<and>
      fx_offset f = shl 1 n - al \<and> fx_frag f = Some (frag_now (gs_chain gs')) \<and>
      place_pos (gs_chain gs') (frag_now (gs_chain gs')) (fx_where f) = length (image (gs_chain gs))"
proof -
  let ?n = "unat (shl 1 n - al :: u32)" and ?w = "shl 1 n - al"
  obtain p fc where more: "frag_more ?n (gs_chain gs) = Inr (p, fc)"
    and r: "b" "gs' = gs\<lparr>gs_chain := write_literal (frag_now fc) p (riscv_make_nops ?n) fc,
      gs_fixes := gs_fixes gs @ [\<lparr>fx_frag = Some (frag_now fc), fx_where = p, fx_size = 0,
        fx_addsy = None, fx_subsy = None, fx_offset = ?w, fx_pcrel = False,
        fx_r_type = BFD_RELOC_RISCV_ALIGN, fx_addnumber = 0, fx_tcbit = False, fx_done = False\<rparr>]\<rparr>"
    using res relax al
    by (auto simp: riscv_frag_align_code_def Let_def and_then_Inr_iff not_le [symmetric]
        fix_new_exp_constant write_literal_def)
  note w = frag_more_write [OF inv, of "riscv_make_nops ?n", unfolded length_make_nops, OF more refl small]
  show b by (rule r(1))
  show "image (gs_chain gs') = image (gs_chain gs) @ riscv_make_nops ?n"
    "frchain_inv (gs_chain gs')" "chain_extends (gs_chain gs) (gs_chain gs')"
    using w(1-3) by (simp_all add: r(2))
  show "\<exists>f. gs_fixes gs' = gs_fixes gs @ [f] \<and> fx_r_type f = BFD_RELOC_RISCV_ALIGN \<and>
      fx_offset f = ?w \<and> fx_frag f = Some (frag_now (gs_chain gs')) \<and>
      place_pos (gs_chain gs') (frag_now (gs_chain gs')) (fx_where f) = length (image (gs_chain gs))"
    using w(5,6) by (simp add: r(2))
qed

lemma riscv_frag_align_code_returns:
  assumes inv: "frchain_inv (gs_chain gs)" and sz: "fc_frag_size (gs_chain gs) < 2 ^ 16" and n: "n < 16"
  shows "\<exists>b gs'. riscv_frag_align_code n gs = Inr (b, gs')"
proof -
  let ?al = "if opt_rvc (tc_opts (gs_tc gs)) then 2 else 4 :: u32"
  have "\<exists>p fc. frag_more (unat (shl 1 n - ?al :: u32)) (gs_chain gs) = Inr (p, fc)" if "\<not> shl 1 n \<le> ?al"
  proof -
    have "unat (shl 1 n :: u32) \<le> 2 ^ n"
      unfolding shl_def unsigned_push_bit_eq
      using take_bit_nat_less_eq_self [of 32 "push_bit n (1 :: nat)"] by (simp add: push_bit_eq_mult)
    also have "(2 :: nat) ^ n \<le> 2 ^ 15" using n by (intro power_increasing) simp_all
    finally have "unat (shl 1 n :: u32) \<le> 2 ^ 15" .
    then have "unat (shl 1 n - ?al :: u32) < 0x10000"
      using that unat_sub [of ?al "shl 1 n :: u32"] by (simp add: not_le)
    then show ?thesis using frag_more_returns [OF inv sz] by blast
  qed
  then show ?thesis by (auto simp: riscv_frag_align_code_def Let_def fix_new_exp_constant ex_bool_eq)
qed

end
