(* ===== verification/RelocDiff.thy ===== *)
theory RelocDiff
  imports RiscvHowto
begin

text \<open>
  The ADD and SUB relocations in pairs, as \<open>.word a - b\<close> uses them: what two calls of
  \<open>riscv_elf_add_sub_reloc\<close> leave in the section.
\<close>

definition reloc_target :: "arelent \<Rightarrow> reloc_symbol \<Rightarrow> bfd_vma" where
  "reloc_target e target = rsym_value target + rsym_output_vma target + rsym_output_offset target + rel_addend e"

lemma howto_add_sub_32:
  "ho_type (howto_table ! R_RISCV_ADD32) = R_RISCV_ADD32" "ho_bitsize (howto_table ! R_RISCV_ADD32) = 32"
  "ho_type (howto_table ! R_RISCV_SUB32) = R_RISCV_SUB32" "ho_bitsize (howto_table ! R_RISCV_SUB32) = 32"
  by (simp_all add: howto_tables)

lemma riscv_elf_add_reloc_32:
  assumes "rel_address e = word_of_nat p" and "p < 2 ^ 32" and "rel_howto e = howto_table ! R_RISCV_ADD32"
  shows "riscv_elf_add_sub_reloc e sym1 data off False =
    Inr (Bfd_reloc_ok, e, bfd_putl32 (bfd_getl32 data p + reloc_target e sym1) data p)"
  using assms
  by (simp add: riscv_elf_add_sub_reloc_def howto_add_sub_32 bfd_get_def bfd_put_def Let_def
      unat_of_nat take_bit_nat_eq_self reloc_target_def)

lemma riscv_elf_sub_reloc_32:
  assumes "rel_address e = word_of_nat p" and "p < 2 ^ 32" and "rel_howto e = howto_table ! R_RISCV_SUB32"
  shows "riscv_elf_add_sub_reloc e sym1 data off False =
    Inr (Bfd_reloc_ok, e, bfd_putl32 (bfd_getl32 data p - reloc_target e sym1) data p)"
  using assms
  by (simp add: riscv_elf_add_sub_reloc_def howto_add_sub_32 bfd_get_def bfd_put_def Let_def
      unat_of_nat take_bit_nat_eq_self reloc_target_def)

lemma riscv_elf_add_sub_difference:
  assumes p: "p + 4 \<le> length data" "p < 2 ^ 32"
    and e1: "rel_address e1 = word_of_nat p" "rel_howto e1 = howto_table ! R_RISCV_ADD32"
    and e2: "rel_address e2 = word_of_nat p" "rel_howto e2 = howto_table ! R_RISCV_SUB32"
  shows "\<exists>data1 data2. riscv_elf_add_sub_reloc e1 sym1 data off False = Inr (Bfd_reloc_ok, e1, data1) \<and>
    riscv_elf_add_sub_reloc e2 sym2 data1 off False = Inr (Bfd_reloc_ok, e2, data2) \<and>
    bfd_getl32 data2 p = bfd_getl32 data p + reloc_target e1 sym1 - reloc_target e2 sym2 \<and>
    (\<forall>i. i < p \<or> p + 4 \<le> i \<longrightarrow> data2 ! i = data ! i)"
  using riscv_elf_add_reloc_32 [OF e1(1) p(2) e1(2)] riscv_elf_sub_reloc_32 [OF e2(1) p(2) e2(2)]
    l32.get_put l32.put_length l32.put_frame p(1)
  by (simp add: take_bit_word_eq_self)

end
