(* ===== verification/Samples.thy ===== *)
theory Samples
  imports MacroCode BranchRelax NopFill RelocDiff
begin

text \<open>
  Concrete states for the witnesses: the target after start-up with \<open>-march=rv32imc\<close>, an
  empty text section, and a section whose only fragment holds a relaxable branch to itself.
\<close>

definition start_tc :: tc_state where
  "start_tc = (case md_begin True (initial_tc\<lparr>tc_xlen := 32, tc_abi_xlen := 32,
       tc_subsets := [''c'', ''m'', ''i''], tc_opts := initial_options\<lparr>opt_rvc := True\<rparr>\<rparr>) of
     Inr (st, _) \<Rightarrow> st | Inl _ \<Rightarrow> initial_tc)"

definition constant_expr :: "u32 \<Rightarrow> expressionS" where
  "constant_expr v = \<lparr>X_op = O_constant, X_add_symbol = None, X_op_symbol = None, X_add_number = v,
     X_unsigned = False, X_extrabit = False\<rparr>"

definition start_chain :: "frag list \<Rightarrow> frchain" where
  "start_chain frags = \<lparr>fc_frags = frags, fc_growth = 0, fc_room = 4000, fc_chunk_size = 5000,
     fc_frag_size = 56, fc_alloc = (\<lambda>room chunk. if 56 \<le> room then room - 56 else chunk), fc_total = 0,
     fc_absolute = False, fc_abs_offset = 0\<rparr>"

definition start_gas :: "frag list \<Rightarrow> symbolS list \<Rightarrow> gas_state" where
  "start_gas frags syms = \<lparr>gs_tc = start_tc, gs_seg = Section 0, gs_chain = start_chain frags,
     gs_fixes = [], gs_symbols = syms, gs_symbol_list = [], gs_dot_symbol = 0, gs_sy_hash = hash_new, gs_local_hash = hash_new,
     gs_fb = fb_label_init, gs_dollar = [], gs_bignum = replicate 26 0,
     gs_flonum = \<lparr>fl_littlenums = [], fl_exponent = 0, fl_sign = CHR 0x00\<rparr>, gs_dot = (0, 0),
     gs_finalize_syms = False\<rparr>"

text \<open>The symbol for the location counter is the first one.\<close>

abbreviation dot :: symbolS where "dot \<equiv> plain_symbol ''.'' Undefined_section 0 None False"

definition empty_text :: gas_state where
  "empty_text = start_gas [zero_frag\<lparr>fr_type := Rs_fill\<rparr>] [dot]"

definition branch_text :: gas_state where
  "branch_text = start_gas
     [\<lparr>fr_address = 0, fr_fix = 0, fr_var = 4, fr_offset = 0, fr_symbol = Some 1, fr_opcode = None,
       fr_type = Rs_machine_dependent, fr_subtype = RELAX_BRANCH_ENCODE False False 4,
       fr_literal = le_bytes 0x63 4 @ [0, 0, 0, 0]\<rparr>]
     [dot, plain_symbol ''here'' (Section 0) 0 (Some 0) False]"

text \<open>A symbol at an address, and a relocation at the start of the data.\<close>

definition plain_target :: "bfd_vma \<Rightarrow> reloc_symbol" where
  "plain_target v = \<lparr>rsym_section_sym = False, rsym_value = v, rsym_output_vma = 0, rsym_output_offset = 0\<rparr>"

definition sample_reloc :: "nat \<Rightarrow> arelent" where
  "sample_reloc r_type = \<lparr>rel_address = word_of_nat 0, rel_addend = 8, rel_howto = howto_table ! r_type\<rparr>"

lemma start_tc_started: "tc_started start_tc" and start_tc_xlen: "tc_xlen start_tc = 32"
  and start_tc_options: "tc_opts start_tc = initial_options\<lparr>opt_rvc := True\<rparr>"
  and start_tc_subsets: "tc_subsets start_tc = [''c'', ''m'', ''i'']"
  using md_begin_ok [of True "initial_tc\<lparr>tc_xlen := 32, tc_abi_xlen := 32,
       tc_subsets := [''c'', ''m'', ''i''], tc_opts := initial_options\<lparr>opt_rvc := True\<rparr>\<rparr>"]
  by (auto simp: start_tc_def)

lemmas start_tc_simps [simp] = start_tc_started start_tc_xlen start_tc_options start_tc_subsets

lemma empty_text_simps [simp]:
  "gs_tc empty_text = start_tc" "gs_fixes empty_text = []" "image (gs_chain empty_text) = []"
  "frchain_inv (gs_chain empty_text)" "fc_frag_size (gs_chain empty_text) = 56"
  by (simp_all add: empty_text_def start_gas_def start_chain_def image_def open_bytes_def
      frchain_inv_def)

lemma branch_text_frag:
  "branch_frag branch_text (Section 0) 0 (Cond_branch 0 0 0) False
     (plain_symbol ''here'' (Section 0) 0 (Some 0) False)"
proof -
  have "RELAX_BRANCH_ENCODE False False 4 = 0xc0000010"
    by (simp add: RELAX_BRANCH_ENCODE_def shl_def)
  moreover have "\<not> RELAX_BRANCH_UNCOND 0xc0000010" "\<not> RELAX_BRANCH_RVC 0xc0000010"
    by (simp_all add: RELAX_BRANCH_UNCOND_def RELAX_BRANCH_RVC_def)
  moreover have "bfd_getl32 (le_bytes 0x63 4 @ [0, 0, 0, 0]) 0 = 0x63"
    using getl32_at [of "[]" "0x63" "[0, 0, 0, 0]"] by simp
  moreover have "branch32 0x63 = Some (Cond_branch 0 0 0)"
    by (simp add: branch32_def w_fields shr_def)
  ultimately show ?thesis
    by (simp add: branch_frag_def branch_text_def start_gas_def start_chain_def gs_frags_def
        branch_target_def S_IS_DEFINED_def blank_symbol_def relaxed_branch_length_def branch_distance_def
        label_value_def reach_values)
qed

lemma branch_text_distance:
  "branch_distance (gs_frags branch_text) (plain_symbol ''here'' (Section 0) 0 (Some 0) False)
     (gs_frags branch_text ! 0) = 0"
  by (simp add: branch_distance_def branch_text_def start_gas_def start_chain_def gs_frags_def label_value_def blank_symbol_def)

end
