(* ===== verification/Symbols.thy ===== *)
theory Symbols
  imports GasState
begin

text \<open>
  Symbols, from \<open>gas/symbols.c\<close>: the accessors that see through local symbols, the creation
  and conversion of symbols, and the two hash tables they are found in. A symbol is an index into
  \<open>gs_symbols\<close>. Symbol names are case sensitive and not canonicalised in this configuration,
  \<open>md_undefined_symbol\<close> never knows a name, and local labels are not kept.
\<close>

subsection \<open>Access\<close>

definition update_symbol :: "nat \<Rightarrow> (symbolS \<Rightarrow> symbolS) \<Rightarrow> gas_state \<Rightarrow> gas_state" where
  "update_symbol i f gs = gs\<lparr>gs_symbols := (gs_symbols gs)[i := f (gs_symbols gs ! i)]\<rparr>"

text \<open>
  \<open>LOCAL_SYMBOL_CHECK\<close>: whether the symbol is a local one that has not been converted, and
  the symbol to go on with.
\<close>

definition LOCAL_SYMBOL_CHECK :: "gas_state \<Rightarrow> nat \<Rightarrow> bool \<times> nat" where
  "LOCAL_SYMBOL_CHECK gs i =
     (let s = gs_symbols gs ! i
      in if sy_local s then (case sy_real s of Some r \<Rightarrow> (False, r) | None \<Rightarrow> (True, i)) else (False, i))"

definition real_symbol :: "gas_state \<Rightarrow> nat \<Rightarrow> nat" where
  "real_symbol gs i = snd (LOCAL_SYMBOL_CHECK gs i)"

definition is_local_symbol :: "gas_state \<Rightarrow> nat \<Rightarrow> bool" where
  "is_local_symbol gs i = fst (LOCAL_SYMBOL_CHECK gs i)"

definition the_symbol :: "gas_state \<Rightarrow> nat \<Rightarrow> symbolS" where
  "the_symbol gs i = gs_symbols gs ! real_symbol gs i"

definition S_GET_NAME :: "gas_state \<Rightarrow> nat \<Rightarrow> string" where
  "S_GET_NAME gs i = sy_name (the_symbol gs i)"

definition S_GET_SEGMENT :: "gas_state \<Rightarrow> nat \<Rightarrow> segT" where
  "S_GET_SEGMENT gs i = sy_segment (the_symbol gs i)"

definition S_IS_WEAK :: "gas_state \<Rightarrow> nat \<Rightarrow> bool" where
  "S_IS_WEAK gs i \<longleftrightarrow> \<not> is_local_symbol gs i \<and> sy_weak (the_symbol gs i)"

definition S_IS_EXTERNAL :: "gas_state \<Rightarrow> nat \<Rightarrow> bool" where
  "S_IS_EXTERNAL gs i \<longleftrightarrow> \<not> is_local_symbol gs i \<and> sy_global (the_symbol gs i)"

definition S_IS_COMMON :: "gas_state \<Rightarrow> nat \<Rightarrow> bool" where
  "S_IS_COMMON gs i \<longleftrightarrow> \<not> is_local_symbol gs i \<and> S_GET_SEGMENT gs i = Common_section"

definition S_FORCE_RELOC :: "gas_state \<Rightarrow> nat \<Rightarrow> bool \<Rightarrow> bool" where
  "S_FORCE_RELOC gs i strict \<longleftrightarrow>
     \<not> is_local_symbol gs i \<and>
       (strict \<and> (sy_weak (the_symbol gs i) \<or> sy_global (the_symbol gs i)) \<or> sy_ifunc (the_symbol gs i))
     \<or> S_GET_SEGMENT gs i = Undefined_section \<or> S_GET_SEGMENT gs i = Common_section"

definition SEG_NORMAL :: "segT \<Rightarrow> bool" where
  "SEG_NORMAL seg \<longleftrightarrow> seg \<noteq> Absolute_section \<and> seg \<noteq> Undefined_section \<and> seg \<noteq> Reg_section \<and> seg \<noteq> Expr_section"

definition symbol_equated_p :: "gas_state \<Rightarrow> nat \<Rightarrow> bool" where
  "symbol_equated_p gs i \<longleftrightarrow> \<not> is_local_symbol gs i \<and> X_op (sy_value (the_symbol gs i)) = O_symbol"

definition symbol_constant_p :: "gas_state \<Rightarrow> nat \<Rightarrow> bool" where
  "symbol_constant_p gs i \<longleftrightarrow> is_local_symbol gs i \<or> X_op (sy_value (the_symbol gs i)) = O_constant"

definition symbol_resolved_p :: "gas_state \<Rightarrow> nat \<Rightarrow> bool" where
  "symbol_resolved_p gs i = sy_resolved (the_symbol gs i)"

definition symbol_used_p :: "gas_state \<Rightarrow> nat \<Rightarrow> bool" where
  "symbol_used_p gs i \<longleftrightarrow> is_local_symbol gs i \<or> sy_used (the_symbol gs i)"

definition symbol_get_frag :: "gas_state \<Rightarrow> nat \<Rightarrow> nat option" where
  "symbol_get_frag gs i = sy_frag (the_symbol gs i)"

definition symbol_shadow_p :: "gas_state \<Rightarrow> nat \<Rightarrow> bool" where
  "symbol_shadow_p gs i \<longleftrightarrow> \<not> is_local_symbol gs i \<and> sy_shadow (the_symbol gs i)"

definition symbol_same_p :: "gas_state \<Rightarrow> nat \<Rightarrow> nat \<Rightarrow> bool" where
  "symbol_same_p gs i j \<longleftrightarrow> real_symbol gs i = real_symbol gs j"

definition symbol_mark_used :: "nat \<Rightarrow> gas_state \<Rightarrow> gas_state" where
  "symbol_mark_used i gs =
     (if is_local_symbol gs i then gs else update_symbol (real_symbol gs i) (\<lambda>s. s\<lparr>sy_used := True\<rparr>) gs)"

definition symbol_set_frag :: "nat \<Rightarrow> nat option \<Rightarrow> gas_state \<Rightarrow> gas_state" where
  "symbol_set_frag i frag gs = update_symbol (real_symbol gs i) (\<lambda>s. s\<lparr>sy_frag := frag\<rparr>) gs"

definition S_SET_VALUE :: "nat \<Rightarrow> valueT \<Rightarrow> gas_state \<Rightarrow> gas_state" where
  "S_SET_VALUE i val gs =
     update_symbol (real_symbol gs i) (\<lambda>s. if is_local_symbol gs i
       then s\<lparr>sy_value := constant_value val\<rparr>
       else s\<lparr>sy_value := (sy_value s)\<lparr>X_op := O_constant, X_add_number := val, X_unsigned := False\<rparr>\<rparr>) gs"

subsection \<open>Creation\<close>

text \<open>
  \<open>symbol_create\<close> makes the symbol, \<open>symbol_new\<close> appends it to the chain of the symbols to
  be written as well. Only symbols with a constant value are made this way.
\<close>

definition symbol_create :: "string \<Rightarrow> segT \<Rightarrow> valueT \<Rightarrow> nat option \<Rightarrow> gas_state \<Rightarrow> nat \<times> gas_state" where
  "symbol_create name seg val frag gs = new_symbol (plain_symbol name seg val frag False) gs"

definition symbol_new :: "string \<Rightarrow> segT \<Rightarrow> valueT \<Rightarrow> nat option \<Rightarrow> gas_state \<Rightarrow> nat \<times> gas_state" where
  "symbol_new name seg val frag gs =
     (let (i, gs) = symbol_create name seg val frag gs
      in (i, gs\<lparr>gs_symbol_list := gs_symbol_list gs @ [i]\<rparr>))"

definition symbol_temp_new :: "segT \<Rightarrow> valueT \<Rightarrow> nat option \<Rightarrow> gas_state \<Rightarrow> nat \<times> gas_state" where
  "symbol_temp_new seg val frag gs = symbol_new FAKE_LABEL_NAME seg val frag gs"

definition symbol_temp_new_now :: "gas_state \<Rightarrow> nat \<times> gas_state" where
  "symbol_temp_new_now gs =
     symbol_temp_new (gs_seg gs) (frag_now_fix (gs_chain gs)) (Some (frag_now (gs_chain gs))) gs"

definition symbol_make :: "string \<Rightarrow> gas_state \<Rightarrow> nat \<times> gas_state" where
  "symbol_make name gs = symbol_new name Undefined_section 0 None gs"

definition symbol_temp_make :: "gas_state \<Rightarrow> nat \<times> gas_state" where
  "symbol_temp_make gs = symbol_make FAKE_LABEL_NAME gs"

text \<open>\<open>hash_jam\<close> never fails, so the call of \<open>as_fatal\<close> for its error is dead.\<close>

definition symbol_table_insert :: "nat \<Rightarrow> gas_state \<Rightarrow> gas_state" where
  "symbol_table_insert i gs =
     (if is_local_symbol gs i
      then gs\<lparr>gs_local_hash := snd (hash_jam (gs_local_hash gs) (S_GET_NAME gs i) (Some i))\<rparr>
      else gs\<lparr>gs_sy_hash := snd (hash_jam (gs_sy_hash gs) (S_GET_NAME gs i) (real_symbol gs i))\<rparr>)"

definition local_symbol_convert :: "nat \<Rightarrow> gas_state \<Rightarrow> (nat \<times> gas_state) res" where
  "local_symbol_convert i gs =
     (let l = gs_symbols gs ! i
      in and_then (gas_assert (sy_local l)) (\<lambda>_.
         case sy_real l of
           Some r \<Rightarrow> Inr (r, gs)
         | None \<Rightarrow>
             let (r, gs) = symbol_new (sy_name l) (sy_segment l) (X_add_number (sy_value l)) (sy_frag l) gs;
                 gs = update_symbol r (\<lambda>s. s\<lparr>sy_resolved := sy_resolved l, sy_used := True\<rparr>) gs;
                 gs = symbol_table_insert r gs;
                 gs = update_symbol i (\<lambda>l. l\<lparr>sy_segment := Reg_section, sy_real := Some r\<rparr>) gs
             in Inr (r, gs\<lparr>gs_local_hash := snd (hash_jam (gs_local_hash gs) (sy_name l) None)\<rparr>)))"

text \<open>The symbol itself, or what it is converted to if it is local.\<close>

definition converted_symbol :: "nat \<Rightarrow> gas_state \<Rightarrow> (nat \<times> gas_state) res" where
  "converted_symbol i gs = (if is_local_symbol gs i then local_symbol_convert i gs else Inr (real_symbol gs i, gs))"

definition S_SET_SEGMENT :: "nat \<Rightarrow> segT \<Rightarrow> gas_state \<Rightarrow> gas_state res" where
  "S_SET_SEGMENT i seg gs =
     and_then (if is_local_symbol gs i \<and> seg \<noteq> Reg_section then Inr (i, gs) else converted_symbol i gs) (\<lambda>(i, gs).
     Inr (update_symbol i (\<lambda>s. s\<lparr>sy_segment := seg\<rparr>) gs))"

definition symbol_set_value_expression :: "nat \<Rightarrow> expressionS \<Rightarrow> gas_state \<Rightarrow> gas_state res" where
  "symbol_set_value_expression i e gs =
     and_then (converted_symbol i gs) (\<lambda>(i, gs). Inr (update_symbol i (\<lambda>s. s\<lparr>sy_value := e\<rparr>) gs))"

definition symbol_set_value_now :: "nat \<Rightarrow> gas_state \<Rightarrow> gas_state res" where
  "symbol_set_value_now i gs =
     and_then (S_SET_SEGMENT i (gs_seg gs) gs) (\<lambda>gs.
     Inr (symbol_set_frag i (Some (frag_now (gs_chain gs))) (S_SET_VALUE i (frag_now_fix (gs_chain gs)) gs)))"

definition S_SET_EXTERNAL :: "nat \<Rightarrow> gas_state \<Rightarrow> gas_state res" where
  "S_SET_EXTERNAL i gs =
     and_then (converted_symbol i gs) (\<lambda>(i, gs).
     if sy_weak (gs_symbols gs ! i) then Inr gs
     else if S_GET_SEGMENT gs i = Reg_section
     then Inr (gs_bad (Diag (''can'' @ CHR 0x27 # ''t make register symbol `%s'' @ CHR 0x27 # '' global'')
            [Str (S_GET_NAME gs i)]) gs)
     else Inr (update_symbol i (\<lambda>s. s\<lparr>sy_global := True, sy_weak := False\<rparr>) gs))"

definition S_CLEAR_EXTERNAL :: "nat \<Rightarrow> gas_state \<Rightarrow> gas_state" where
  "S_CLEAR_EXTERNAL i gs =
     (if is_local_symbol gs i \<or> sy_weak (the_symbol gs i) then gs
      else update_symbol (real_symbol gs i) (\<lambda>s. s\<lparr>sy_global := False\<rparr>) gs)"

definition S_SET_WEAK :: "nat \<Rightarrow> gas_state \<Rightarrow> gas_state res" where
  "S_SET_WEAK i gs =
     and_then (converted_symbol i gs) (\<lambda>(i, gs).
     Inr (update_symbol i (\<lambda>s. s\<lparr>sy_weak := True, sy_global := False\<rparr>) gs))"

text \<open>
  A copy of a symbol; with \<open>replace\<close> it takes the place of the original in the chain and in
  the table. The symbol for the location counter is never cloned.
\<close>

definition symbol_clone :: "nat \<Rightarrow> bool \<Rightarrow> gas_state \<Rightarrow> (nat \<times> gas_state) res" where
  "symbol_clone org replace gs =
     and_then (gas_assert (org \<noteq> gs_dot_symbol gs)) (\<lambda>_.
     and_then (converted_symbol org gs) (\<lambda>(org, gs).
     let (new, gs) = new_symbol ((gs_symbols gs ! org)\<lparr>sy_from_expr := False, sy_shadow := \<not> replace\<rparr>) gs
     in if replace
        then Inr (new, symbol_table_insert new (update_symbol org (\<lambda>s. s\<lparr>sy_shadow := True\<rparr>) (S_CLEAR_EXTERNAL org
               (gs\<lparr>gs_symbol_list := map (\<lambda>i. if i = org then new else i) (gs_symbol_list gs)\<rparr>))))
        else Inr (new, S_CLEAR_EXTERNAL new gs)))"

text \<open>
  Only the location counter is a forward reference, so the walk through expression symbols finds
  nothing else to clone: a reference to it becomes a temporary label at the current place.
\<close>

definition symbol_clone_if_forward_ref :: "nat option \<Rightarrow> gas_state \<Rightarrow> nat option \<times> gas_state" where
  "symbol_clone_if_forward_ref i gs =
     (if i = Some (gs_dot_symbol gs) then (let (t, gs) = symbol_temp_new_now gs in (Some t, gs)) else (i, gs))"

subsection \<open>Lookup\<close>

text \<open>The lookups reorder the chains of the tables.\<close>

definition symbol_find_exact :: "string \<Rightarrow> gas_state \<Rightarrow> nat option \<times> gas_state" where
  "symbol_find_exact name gs =
     (let (l, h) = hash_find (gs_local_hash gs) name; gs = gs\<lparr>gs_local_hash := h\<rparr>
      in case l of
           Some (Some i) \<Rightarrow> (Some i, gs)
         | _ \<Rightarrow> (let (r, h) = hash_find (gs_sy_hash gs) name in (r, gs\<lparr>gs_sy_hash := h\<rparr>)))"

definition symbol_find :: "string \<Rightarrow> gas_state \<Rightarrow> nat option \<times> gas_state" where
  "symbol_find name gs = symbol_find_exact name gs"

definition symbol_find_or_make :: "string \<Rightarrow> gas_state \<Rightarrow> nat \<times> gas_state" where
  "symbol_find_or_make name gs =
     (case symbol_find name gs of
        (Some i, gs) \<Rightarrow> (i, gs)
      | (None, gs) \<Rightarrow>
          if bfd_elf_is_local_label_name name then local_symbol_make name Undefined_section 0 None gs
          else let (i, gs) = symbol_make name gs in (i, symbol_table_insert i gs))"

end
