(* ===== verification/SymResolve.thy ===== *)
theory SymResolve
  imports Symbols
begin

text \<open>
  The value of a symbol (\<open>resolve_symbol_value\<close>, \<open>S_GET_VALUE\<close> and \<open>snapshot_symbol\<close> of
  \<open>gas/symbols.c\<close>, \<open>resolve_expression\<close> of \<open>gas/expr.c\<close>) and the definition of a label
  (\<open>colon\<close>). A symbol may stand for an expression over other symbols; \<open>sy_resolving\<close> stops the
  recursion at loops. The recursions take fuel, and one unit per symbol is enough, which is proved.

  A null symbol, a shift by the word size or more and the quotient of the least number by -1 are
  undefined in C and are \<open>Inl Abort\<close> here.
\<close>

subsection \<open>Operators on values\<close>

definition signed_quotient :: "valueT \<Rightarrow> valueT \<Rightarrow> valueT res" where
  "signed_quotient l r = (if r = 0 \<or> l = 0x80000000 \<and> r = - 1 then Inl Abort else Inr (word_of_int (sint l sdiv sint r)))"

definition signed_remainder :: "valueT \<Rightarrow> valueT \<Rightarrow> valueT res" where
  "signed_remainder l r = (if r = 0 \<or> l = 0x80000000 \<and> r = - 1 then Inl Abort else Inr (word_of_int (sint l smod sint r)))"

definition truth :: "bool \<Rightarrow> valueT" where
  "truth b = (if b then - 1 else 0)"

text \<open>
  The operators apart from equality, which compares sections as well; \<open>sh\<close> is the shift
  to the right, arithmetic or logical as the type of the left operand is.
\<close>

definition binary_value :: "(nat \<Rightarrow> valueT \<Rightarrow> valueT) \<Rightarrow> operatorT \<Rightarrow> valueT \<Rightarrow> valueT \<Rightarrow> valueT res" where
  "binary_value sh op l r =
     (case op of
        O_multiply \<Rightarrow> Inr (l * r)
      | O_divide \<Rightarrow> signed_quotient l r
      | O_modulus \<Rightarrow> signed_remainder l r
      | O_left_shift \<Rightarrow> (if r < 32 then Inr (push_bit (unat r) l) else Inl Abort)
      | O_right_shift \<Rightarrow> (if r < 32 then Inr (sh (unat r) l) else Inl Abort)
      | O_bit_inclusive_or \<Rightarrow> Inr (l OR r)
      | O_bit_or_not \<Rightarrow> Inr (l OR NOT r)
      | O_bit_exclusive_or \<Rightarrow> Inr (l XOR r)
      | O_bit_and \<Rightarrow> Inr (l AND r)
      | O_add \<Rightarrow> Inr (l + r)
      | O_subtract \<Rightarrow> Inr (l - r)
      | O_lt \<Rightarrow> Inr (truth (l <s r))
      | O_le \<Rightarrow> Inr (truth (l \<le>s r))
      | O_ge \<Rightarrow> Inr (truth (r \<le>s l))
      | O_gt \<Rightarrow> Inr (truth (r <s l))
      | O_logical_and \<Rightarrow> Inr (of_bool (l \<noteq> 0 \<and> r \<noteq> 0))
      | O_logical_or \<Rightarrow> Inr (of_bool (l \<noteq> 0 \<or> r \<noteq> 0))
      | _ \<Rightarrow> Inl Abort)"

definition unary_value :: "operatorT \<Rightarrow> valueT \<Rightarrow> valueT" where
  "unary_value op l =
     (if op = O_logical_not then of_bool (l = 0) else if op = O_uminus then - l else NOT l)"

definition unary_op :: "operatorT \<Rightarrow> bool" where
  "unary_op op \<longleftrightarrow> op = O_uminus \<or> op = O_bit_not \<or> op = O_logical_not"

definition comparison_op :: "operatorT \<Rightarrow> bool" where
  "comparison_op op \<longleftrightarrow> op = O_lt \<or> op = O_le \<or> op = O_ge \<or> op = O_gt"

definition binary_op :: "operatorT \<Rightarrow> bool" where
  "binary_op op \<longleftrightarrow> op \<in> {O_multiply, O_divide, O_modulus, O_left_shift, O_right_shift, O_bit_inclusive_or,
     O_bit_or_not, O_bit_exclusive_or, O_bit_and, O_add, O_subtract, O_eq, O_ne, O_lt, O_le, O_ge, O_gt,
     O_logical_and, O_logical_or}"

definition frag_at :: "frag list \<Rightarrow> nat option \<Rightarrow> u32" where
  "frag_at frags f = (case f of None \<Rightarrow> 0 | Some i \<Rightarrow> fr_address (frags ! i))"

text \<open>
  The distance of two fragments; \<open>zero_address_frag\<close> is alone, with address 0, and is of type
  \<open>rs_fill\<close> without a next one.
\<close>

definition frag_distance :: "frag list \<Rightarrow> nat option \<Rightarrow> nat option \<Rightarrow> u32 option" where
  "frag_distance frags f g =
     (case (f, g) of
        (Some i, Some j) \<Rightarrow> frag_offset_fixed_p frags i j
      | (None, None) \<Rightarrow> Some 0
      | _ \<Rightarrow> None)"

text \<open>A pointer to a symbol that is followed.\<close>

definition symbol_at :: "gas_state \<Rightarrow> nat option \<Rightarrow> nat res" where
  "symbol_at gs p =
     (case p of Some i \<Rightarrow> if i < length (gs_symbols gs) \<and> real_symbol gs i < length (gs_symbols gs)
                          then Inr i else Inl Abort
              | None \<Rightarrow> Inl Abort)"

subsection \<open>A snapshot of a symbol\<close>

text \<open>The symbol a value is relative to, the value, its section and its fragment.\<close>

type_synonym snapshot = "nat \<times> valueT \<times> segT \<times> nat option"

text \<open>
  The end of \<open>snapshot_symbol\<close>: the symbol may be local after all.
\<close>

definition snapshot_of :: "gas_state \<Rightarrow> nat \<Rightarrow> expressionS \<Rightarrow> snapshot" where
  "snapshot_of gs i e =
     (let (local, j) = LOCAL_SYMBOL_CHECK gs i; s = gs_symbols gs ! j;
          val = (if local then X_add_number (sy_value s) else X_add_number e);
          seg = (if sy_segment s = Expr_section
                 then (if X_op e = O_constant then Absolute_section
                       else if X_op e = O_register then Reg_section else Expr_section)
                 else sy_segment s)
      in (i, val, seg, sy_frag s))"

text \<open>
  The value of an operator application whose operands have been looked at: the new operator,
  the value of the left operand, its section and symbol, and the number to add. The test of the
  code is \<open>operands_ok\<close>, and \<open>fold_absolute\<close> the cases in which one operand is absorbed; the
  distance between two fragments is added to the right operand.
\<close>

datatype folded = Fold_symbol snapshot nat valueT | Fold_value valueT | Fold_fails

definition same_section_ok :: "gas_state \<Rightarrow> operatorT \<Rightarrow> snapshot \<Rightarrow> snapshot \<Rightarrow> u32 option \<Rightarrow> bool" where
  "same_section_ok gs op l r dist =
     (case (l, r) of ((add, left, seg_left, _), (op_sym, right, seg_right, _)) \<Rightarrow>
        (op = O_subtract \<or> comparison_op op) \<and> seg_left = seg_right \<and>
        (gs_finalize_syms gs \<or> dist \<noteq> None) \<and>
        (seg_left \<noteq> Reg_section \<or> left = right) \<and>
        (seg_left \<noteq> Undefined_section \<or> add = op_sym))"

text \<open>
  What is left when the sections of the operands do not fit: \<open>None\<close> when the operator is
  applied to the values after all.
\<close>

definition fold_special :: "operatorT \<Rightarrow> snapshot \<Rightarrow> nat \<Rightarrow> snapshot \<Rightarrow> nat \<Rightarrow> folded option" where
  "fold_special op l orig_l r orig_r =
     (case (l, r) of ((add, left, seg_left, _), (op_sym, right, seg_right, _)) \<Rightarrow>
        let zero_left = (seg_left = Absolute_section \<and> left = 0);
            zero_right = (seg_right = Absolute_section \<and> right = 0)
        in if zero_left \<or> zero_right
           then (if op = O_bit_exclusive_or \<or> op = O_bit_inclusive_or
                 then Some (if zero_right then Fold_symbol l orig_l 0 else Fold_symbol r orig_r 0)
                 else if op = O_left_shift \<or> op = O_right_shift
                 then (if zero_left then None else Some (Fold_symbol l orig_l 0))
                 else if op \<noteq> O_multiply \<and> op \<noteq> O_bit_or_not \<and> op \<noteq> O_bit_and then Some Fold_fails
                 else None)
           else if op = O_multiply \<and> seg_left = Absolute_section \<and> left = 1
           then Some (Fold_symbol r orig_r 0)
           else if (op = O_multiply \<or> op = O_divide) \<and> seg_right = Absolute_section \<and> right = 1
           then Some (Fold_symbol l orig_l 0)
           else if \<not> (left = right \<and>
                  (seg_left = Reg_section \<and> seg_right = Reg_section \<or>
                   seg_left = Undefined_section \<and> seg_right = Undefined_section \<and> add = op_sym))
           then Some Fold_fails
           else if op = O_bit_and \<or> op = O_bit_inclusive_or then Some (Fold_symbol l orig_l 0)
           else if op \<noteq> O_bit_exclusive_or \<and> op \<noteq> O_bit_or_not then Some Fold_fails
           else None)"

definition fold_values :: "gas_state \<Rightarrow> operatorT \<Rightarrow> snapshot \<Rightarrow> snapshot \<Rightarrow> u32 \<Rightarrow> folded res" where
  "fold_values gs op l r frag_off =
     (case (l, r) of ((add, left, seg_left, frag_left), (op_sym, right, seg_right, frag_right)) \<Rightarrow>
        let right = right + frag_off;
            equal = (left = right \<and> seg_left = seg_right \<and> (gs_finalize_syms gs \<or> frag_left = frag_right) \<and>
                     (seg_left \<noteq> Undefined_section \<or> add = op_sym))
        in if (op = O_divide \<or> op = O_modulus) \<and> right = 0 then Inr Fold_fails
           else if op = O_eq then Inr (Fold_value (truth equal))
           else if op = O_ne then Inr (Fold_value (truth (\<not> equal)))
           else and_then (binary_value drop_bit op left right) (\<lambda>v. Inr (Fold_value v)))"

definition fold_binary :: "gas_state \<Rightarrow> operatorT \<Rightarrow> snapshot \<Rightarrow> nat \<Rightarrow> snapshot \<Rightarrow> nat \<Rightarrow> folded res" where
  "fold_binary gs op l orig_l r orig_r =
     (case (l, r) of ((add, left, seg_left, frag_left), (op_sym, right, seg_right, frag_right)) \<Rightarrow>
        if op = O_add \<and> seg_right = Absolute_section then Inr (Fold_symbol l orig_l right)
        else if op = O_add \<and> seg_left = Absolute_section then Inr (Fold_symbol r orig_r left)
        else if op = O_subtract \<and> seg_right = Absolute_section then Inr (Fold_symbol l orig_l (- right))
        else
          let dist = (if (op = O_subtract \<or> comparison_op op) \<and> seg_left = seg_right \<and> \<not> gs_finalize_syms gs
                      then frag_distance (gs_frags gs) frag_left frag_right else None);
              frag_off = (case dist of Some d \<Rightarrow> d | None \<Rightarrow> 0)
          in if \<not> (seg_left = Absolute_section \<and> seg_right = Absolute_section) \<and>
                \<not> (op = O_eq \<or> op = O_ne) \<and> \<not> same_section_ok gs op l r dist
             then (case fold_special op l orig_l r orig_r of
                     Some f \<Rightarrow> Inr f
                   | None \<Rightarrow> fold_values gs op l r frag_off)
             else fold_values gs op l r (if seg_left = Absolute_section \<and> seg_right = Absolute_section
                                         then 0 else frag_off))"


text \<open>The expression when a fold has been found.\<close>

definition resolved_symbol :: "gas_state \<Rightarrow> operatorT \<Rightarrow> snapshot \<Rightarrow> nat \<Rightarrow> valueT \<Rightarrow> expressionS \<Rightarrow> expressionS" where
  "resolved_symbol gs op l orig final_val e =
     (case l of (add, left, seg_left, _) \<Rightarrow>
        if op \<noteq> O_symbol then e\<lparr>X_op := op, X_add_number := final_val\<rparr>
        else if seg_left = Absolute_section
        then e\<lparr>X_op := O_constant, X_add_symbol := Some add, X_add_number := final_val + left\<rparr>
        else if seg_left = Reg_section \<and> final_val = 0
        then e\<lparr>X_op := O_register, X_add_symbol := Some add, X_add_number := final_val + left\<rparr>
        else e\<lparr>X_op := O_symbol, X_add_symbol := Some add,
               X_add_number := (if symbol_same_p gs add orig then final_val else final_val + left)\<rparr>)"

definition folded_expression :: "gas_state \<Rightarrow> expressionS \<Rightarrow> folded \<Rightarrow> expressionS option" where
  "folded_expression gs e f =
     (case f of
        Fold_symbol l orig d \<Rightarrow> Some (resolved_symbol gs O_symbol l orig (X_add_number e + d) e)
      | Fold_value v \<Rightarrow> Some (e\<lparr>X_op := O_constant, X_add_number := X_add_number e + v\<rparr>)
      | Fold_fails \<Rightarrow> None)"

text \<open>
  \<open>resolve_expression\<close> gives \<open>None\<close> for 0. It changes no symbol but for \<open>sy_resolving\<close>, which
  is put back; so the state goes in with the flag set, and none comes out.
\<close>

definition set_resolving :: "bool \<Rightarrow> nat \<Rightarrow> gas_state \<Rightarrow> gas_state" where
  "set_resolving b i gs = update_symbol i (\<lambda>s. s\<lparr>sy_resolving := b\<rparr>) gs"

definition expression_case :: "(nat \<Rightarrow> snapshot option res) \<Rightarrow> expressionS \<Rightarrow> gas_state \<Rightarrow> expressionS option res" where
  "expression_case snapshot e gs =
     (if X_op e = O_constant \<or> X_op e = O_register then Inr (Some e)
      else if X_op e = O_symbol \<or> X_op e = O_symbol_rva
      then and_then (symbol_at gs (X_add_symbol e)) (\<lambda>i.
           and_then (snapshot i) (\<lambda>snap.
           Inr (map_option (\<lambda>l. resolved_symbol gs (X_op e) l i (X_add_number e) e) snap)))
      else if unary_op (X_op e)
      then and_then (symbol_at gs (X_add_symbol e)) (\<lambda>i.
           and_then (snapshot i) (\<lambda>snap.
           Inr (case snap of
                  None \<Rightarrow> None
                | Some (_, left, seg_left, _) \<Rightarrow>
                    if seg_left \<noteq> Absolute_section then None
                    else folded_expression gs e (Fold_value (unary_value (X_op e) left)))))
      else if binary_op (X_op e)
      then and_then (symbol_at gs (X_add_symbol e)) (\<lambda>i.
           and_then (snapshot i) (\<lambda>left.
             case left of
               None \<Rightarrow> Inr None
             | Some l \<Rightarrow>
                 and_then (symbol_at gs (X_op_symbol e)) (\<lambda>j.
                 and_then (snapshot j) (\<lambda>right.
                   case right of
                     None \<Rightarrow> Inr None
                   | Some r \<Rightarrow> and_then (fold_binary gs (X_op e) l i r j) (\<lambda>f.
                       Inr (folded_expression gs e f))))))
      else Inr None)"

fun resolve_expression :: "nat \<Rightarrow> expressionS \<Rightarrow> gas_state \<Rightarrow> expressionS option res"
  and snapshot_symbol :: "nat \<Rightarrow> nat \<Rightarrow> gas_state \<Rightarrow> snapshot option res" where
  "resolve_expression 0 e gs = Inl Out_of_fuel"
| "resolve_expression (Suc n) e gs = expression_case (\<lambda>i. snapshot_symbol n i gs) e gs"
| "snapshot_symbol n i gs =
     (let (local, j) = LOCAL_SYMBOL_CHECK gs i; s = gs_symbols gs ! j; e = sy_value s
      in if local then Inr (Some (i, X_add_number (sy_value s), sy_segment s, sy_frag s))
         else if sy_resolved s \<or> X_op e = O_illegal then Inr (Some (snapshot_of gs j e))
         else if sy_resolving s then Inr None
         else and_then (resolve_expression n e (set_resolving True j gs)) (\<lambda>resolved.
           case resolved of
             None \<Rightarrow> Inr None
           | Some e' \<Rightarrow>
               if (X_op e' = O_constant \<or> X_op e' = O_register) \<and> \<not> symbol_equated_p gs j
               then Inr (Some (snapshot_of gs j e'))
               else if X_op e' = O_constant \<or> X_op e' = O_register \<or> X_op e' = O_symbol \<or> X_op e' = O_symbol_rva
               then and_then (symbol_at gs (X_add_symbol e')) (\<lambda>k. Inr (Some (snapshot_of gs k e')))
               else Inr None))"

declare snapshot_symbol.simps [simp del]

subsection \<open>The value of a symbol\<close>

text \<open>
  What the cases of \<open>resolve_symbol_value\<close> leave: the value, the section, whether the symbol
  is resolved, whether the value is stored (\<open>exit_dont_set_value\<close> skips that), and whether
  \<open>sy_resolving\<close> is cleared.
\<close>

record resolution =
  rs_value :: valueT
  rs_seg :: segT
  rs_resolved :: bool
  rs_set_value :: bool
  rs_clear :: bool

definition resolve_local_value :: "nat \<Rightarrow> gas_state \<Rightarrow> valueT \<times> gas_state" where
  "resolve_local_value i gs =
     (let l = gs_symbols gs ! i; val = X_add_number (sy_value l)
      in if sy_resolved l then (val, gs)
         else let val = val + frag_at (gs_frags gs) (sy_frag l)
              in (val, if gs_finalize_syms gs
                       then update_symbol i (\<lambda>l. l\<lparr>sy_value := constant_value val, sy_resolved := True\<rparr>) gs
                       else gs))"

definition copy_symbol_attributes :: "nat \<Rightarrow> nat \<Rightarrow> gas_state \<Rightarrow> gas_state res" where
  "copy_symbol_attributes dest src gs =
     and_then (converted_symbol dest gs) (\<lambda>(dest, gs).
     and_then (converted_symbol src gs) (\<lambda>(src, gs).
     Inr (update_symbol dest (\<lambda>s. s\<lparr>sy_ifunc := (sy_ifunc s \<or> sy_ifunc (gs_symbols gs ! src))\<rparr>) gs)))"

text \<open>
  The label \<open>do_symbol\<close>: the symbol \<open>i\<close> stands for another one plus a number. If that one is
  undefined or common, or \<open>i\<close> is an expression relative to it, \<open>i\<close> ends up as equated to it.
\<close>

definition equate_symbol :: "nat \<Rightarrow> nat \<Rightarrow> valueT \<Rightarrow> gas_state \<Rightarrow> gas_state" where
  "equate_symbol i add val gs = update_symbol i (\<lambda>s. s\<lparr>sy_value := (sy_value s)\<lparr>X_op := O_symbol,
     X_add_symbol := Some add, X_op_symbol := Some add, X_add_number := val\<rparr>\<rparr>) gs"

definition do_symbol :: "nat \<Rightarrow> nat \<Rightarrow> valueT \<Rightarrow> segT \<Rightarrow> segT \<Rightarrow> valueT \<Rightarrow> gas_state \<Rightarrow>
    (resolution \<times> gas_state) res" where
  "do_symbol i add left seg_left final_seg final_val gs =
     and_then (if gs_finalize_syms gs \<and> final_val = 0
               then and_then (converted_symbol add gs) (\<lambda>(add, gs).
                    and_then (copy_symbol_attributes i add gs) (\<lambda>gs. Inr (add, gs)))
               else Inr (add, gs)) (\<lambda>(add, gs).
     let place = frag_at (gs_frags gs) (sy_frag (gs_symbols gs ! i)) + left
     in if \<not> S_IS_DEFINED (the_symbol gs add) \<or> S_IS_COMMON gs add
        then Inr (\<lparr>rs_value = 0, rs_seg = seg_left, rs_resolved = symbol_resolved_p gs add,
                   rs_set_value = False, rs_clear = True\<rparr>,
                  if gs_finalize_syms gs then equate_symbol i add final_val gs else gs)
        else if gs_finalize_syms gs \<and>
                (final_seg = Expr_section \<and> seg_left \<noteq> Expr_section \<or> symbol_shadow_p gs i)
        then (let gs = equate_symbol i add final_val gs
              in Inr (\<lparr>rs_value = final_val + place, rs_seg = seg_left, rs_resolved = symbol_resolved_p gs add,
                       rs_set_value = False, rs_clear = True\<rparr>, gs))
        else Inr (\<lparr>rs_value = final_val + place,
                   rs_seg = (if final_seg = Expr_section \<or> final_seg = Undefined_section then seg_left else final_seg),
                   rs_resolved = symbol_resolved_p gs add, rs_set_value = True, rs_clear = True\<rparr>, gs))"

text \<open>
  The messages carry the operator and, for a symbol that is no expression, its name; the names
  of the sections are left out.
\<close>

definition op_name_of :: "operatorT \<Rightarrow> string" where
  "op_name_of op =
     (case op of
        O_uminus \<Rightarrow> ''-'' | O_bit_not \<Rightarrow> ''~'' | O_logical_not \<Rightarrow> ''!''
      | O_multiply \<Rightarrow> ''*'' | O_divide \<Rightarrow> ''/'' | O_modulus \<Rightarrow> ''%'' | O_left_shift \<Rightarrow> ''<<''
      | O_right_shift \<Rightarrow> ''>>'' | O_bit_inclusive_or \<Rightarrow> ''|'' | O_bit_or_not \<Rightarrow> ''|~''
      | O_bit_exclusive_or \<Rightarrow> ''^'' | O_bit_and \<Rightarrow> ''&'' | O_add \<Rightarrow> ''+'' | O_subtract \<Rightarrow> ''-''
      | O_eq \<Rightarrow> ''=='' | O_ne \<Rightarrow> ''!='' | O_lt \<Rightarrow> ''<'' | O_le \<Rightarrow> ''<='' | O_ge \<Rightarrow> ''>='' | O_gt \<Rightarrow> ''>''
      | O_logical_and \<Rightarrow> ''&&'' | O_logical_or \<Rightarrow> ''||'' | _ \<Rightarrow> '''')"

definition report_op_error :: "nat \<Rightarrow> bool \<Rightarrow> operatorT \<Rightarrow> gas_state \<Rightarrow> gas_state" where
  "report_op_error i dyadic op gs =
     (let operands = (if dyadic then ''invalid operands (%s and %s sections) for `%s'' @ [CHR 0x27]
                      else ''invalid operand (%s section) for `%s'' @ [CHR 0x27])
      in if sy_from_expr (gs_symbols gs ! i) then gs_bad (Diag operands [Str (op_name_of op)]) gs
         else gs_bad (Diag (operands @ '' when setting `%s'' @ [CHR 0x27])
                [Str (op_name_of op), Str (S_GET_NAME gs i)]) gs)"

text \<open>The operators with one operand.\<close>

definition resolve_unary :: "nat \<Rightarrow> operatorT \<Rightarrow> nat \<Rightarrow> valueT \<Rightarrow> segT \<Rightarrow> valueT \<Rightarrow> gas_state \<Rightarrow>
    resolution \<times> gas_state" where
  "resolve_unary i op add left final_seg final_val gs =
     (\<lparr>rs_value = final_val + (unary_value op left + frag_at (gs_frags gs) (sy_frag (gs_symbols gs ! i))),
       rs_seg = (if final_seg = Expr_section \<or> final_seg = Undefined_section then Absolute_section else final_seg),
       rs_resolved = symbol_resolved_p gs add, rs_set_value = True, rs_clear = True\<rparr>,
      if op \<noteq> O_logical_not \<and> S_GET_SEGMENT gs add \<noteq> Absolute_section \<and> gs_finalize_syms gs
      then report_op_error i False op gs else gs)"

text \<open>
  The operators with two operands, once neither operand is folded into the number. The operator
  to apply is read again; if the symbol has become a constant in the meantime, it is an error,
  and \<open>sy_resolving\<close> stays set.
\<close>

definition operands_fit :: "operatorT \<Rightarrow> nat \<Rightarrow> segT \<Rightarrow> nat \<Rightarrow> segT \<Rightarrow> bool" where
  "operands_fit op add seg_left op_sym seg_right \<longleftrightarrow>
     seg_left = Absolute_section \<and> seg_right = Absolute_section \<or> op = O_eq \<or> op = O_ne \<or>
     (op = O_subtract \<or> comparison_op op) \<and> seg_left = seg_right \<and>
       (seg_left \<noteq> Undefined_section \<or> add = op_sym)"

definition division_by_zero :: "nat \<Rightarrow> gas_state \<Rightarrow> gas_state" where
  "division_by_zero i gs =
     (if sy_from_expr (gs_symbols gs ! i) then gs_bad (Diag ''division by zero'' []) gs
      else gs_bad (Diag (''division by zero when setting `%s'' @ [CHR 0x27]) [Str (S_GET_NAME gs i)]) gs)"

definition resolve_dyadic :: "nat \<Rightarrow> operatorT \<Rightarrow> nat \<Rightarrow> valueT \<Rightarrow> nat \<Rightarrow> valueT \<Rightarrow> segT \<Rightarrow> valueT \<Rightarrow> gas_state \<Rightarrow>
    (resolution \<times> gas_state) res" where
  "resolve_dyadic i op add left op_sym right final_seg final_val gs =
     (let seg_left = S_GET_SEGMENT gs add; seg_right = S_GET_SEGMENT gs op_sym;
          fit = operands_fit op add seg_left op_sym seg_right;
          gs1 = (if \<not> fit \<and> gs_finalize_syms gs then report_op_error i True op gs else gs);
          move = (fit \<or> gs_finalize_syms gs);
          seg = (if move \<and> (final_seg = Expr_section \<or> final_seg = Undefined_section)
                 then Absolute_section else final_seg);
          zero = ((op = O_divide \<or> op = O_modulus) \<and> right = 0);
          gs2 = (if zero \<and> seg_right = Absolute_section \<and> gs_finalize_syms gs then division_by_zero i gs1 else gs1);
          right = (if zero then 1 else right);
          equal = (left = right \<and> seg_left = seg_right \<and> (seg_left \<noteq> Undefined_section \<or> add = op_sym));
          op = X_op (sy_value (gs_symbols gs ! i));
          seg' = (if seg = Expr_section \<or> seg = Undefined_section
                  then (if seg_left = Undefined_section \<or> seg_right = Undefined_section then Undefined_section
                        else if seg_left = Absolute_section then seg_right else seg_left)
                  else seg)
      in if op = O_illegal \<or> op = O_absent \<or> op = O_constant
         then Inr (\<lparr>rs_value = final_val, rs_seg = seg, rs_resolved = False, rs_set_value = False,
                    rs_clear = False\<rparr>, gs_bad (Diag ''Invalid operation on symbol'' []) gs2)
         else and_then (if op = O_eq then Inr (truth equal) else if op = O_ne then Inr (truth (\<not> equal))
                        else binary_value signed_drop_bit op left right) (\<lambda>v.
           Inr (\<lparr>rs_value = final_val + (frag_at (gs_frags gs) (sy_frag (gs_symbols gs ! i)) + v),
                 rs_seg = seg', rs_resolved = (symbol_resolved_p gs add \<and> symbol_resolved_p gs op_sym),
                 rs_set_value = True, rs_clear = True\<rparr>, gs2)))"

definition resolve_binary :: "nat \<Rightarrow> operatorT \<Rightarrow> nat \<Rightarrow> valueT \<Rightarrow> nat \<Rightarrow> valueT \<Rightarrow> segT \<Rightarrow> valueT \<Rightarrow> gas_state \<Rightarrow>
    (resolution \<times> gas_state) res" where
  "resolve_binary i op add left op_sym right final_seg final_val gs =
     (let seg_left = S_GET_SEGMENT gs add; seg_right = S_GET_SEGMENT gs op_sym
      in if op = O_add \<and> seg_right = Absolute_section
         then do_symbol i add left seg_left final_seg (final_val + right) gs
         else if op = O_add \<and> seg_left = Absolute_section
         then do_symbol i op_sym right seg_right final_seg (final_val + left) gs
         else if op = O_subtract \<and> seg_right = Absolute_section
         then do_symbol i add left seg_left final_seg (final_val - right) gs
         else resolve_dyadic i op add left op_sym right final_seg final_val gs)"

text \<open>The end of the function, for a symbol that is not a local one.\<close>

definition finish_resolution :: "nat \<Rightarrow> resolution \<Rightarrow> gas_state \<Rightarrow> valueT \<times> gas_state" where
  "finish_resolution i rs gs =
     (let gs = (if rs_clear rs then set_resolving False i gs else gs);
          gs = (if gs_finalize_syms gs \<and> rs_set_value rs then S_SET_VALUE i (rs_value rs) gs else gs);
          gs = update_symbol i (\<lambda>s. s\<lparr>sy_segment := rs_seg rs\<rparr>) gs;
          unresolved = (\<not> rs_resolved rs \<and> rs_seg rs \<noteq> Expr_section);
          gs' = (if unresolved
                 then gs_bad (Diag (''can'' @ CHR 0x27 # ''t resolve value for symbol `%s'' @ [CHR 0x27])
                        [Str (S_GET_NAME gs i)]) gs
                 else gs)
      in (rs_value rs,
          if gs_finalize_syms gs \<and> (rs_resolved rs \<or> unresolved)
          then update_symbol i (\<lambda>s. s\<lparr>sy_resolved := True\<rparr>) gs' else gs))"

definition resolution_loop :: "nat \<Rightarrow> gas_state \<Rightarrow> valueT \<times> gas_state" where
  "resolution_loop i gs =
     finish_resolution i \<lparr>rs_value = 0, rs_seg = sy_segment (gs_symbols gs ! i), rs_resolved = True,
         rs_set_value = True, rs_clear = False\<rparr>
       (if gs_finalize_syms gs
        then gs_bad (Diag (''symbol definition loop encountered at `%s'' @ [CHR 0x27]) [Str (S_GET_NAME gs i)]) gs
        else gs)"

text \<open>The switch over the operator, with the recursive call as an argument.\<close>

definition resolve_case :: "(nat \<Rightarrow> gas_state \<Rightarrow> (valueT \<times> gas_state) res) \<Rightarrow> nat \<Rightarrow> expressionS \<Rightarrow> segT \<Rightarrow>
    nat option \<Rightarrow> gas_state \<Rightarrow> (resolution \<times> gas_state) res" where
  "resolve_case rec j e final_seg frag gs =
     (let op = X_op e; final_val = X_add_number e
      in if op = O_absent \<or> op = O_constant
         then Inr (\<lparr>rs_value = (if op = O_absent then 0 else final_val) + frag_at (gs_frags gs) frag,
                    rs_seg = (if final_seg = Expr_section then Absolute_section else final_seg),
                    rs_resolved = True, rs_set_value = True, rs_clear = True\<rparr>, gs)
         else if op = O_register \<or> op = O_big \<or> op = O_illegal
         then Inr (\<lparr>rs_value = final_val, rs_seg = final_seg, rs_resolved = (op = O_register),
                    rs_set_value = True, rs_clear = True\<rparr>, gs)
         else if op = O_symbol \<or> op = O_symbol_rva
         then and_then (symbol_at gs (X_add_symbol e)) (\<lambda>add.
              and_then (rec add gs) (\<lambda>(left, gs).
                do_symbol j add left (S_GET_SEGMENT gs add) final_seg final_val
                  (if gs_finalize_syms gs
                   then update_symbol j (\<lambda>s. s\<lparr>sy_value := (sy_value s)\<lparr>X_op_symbol := None\<rparr>\<rparr>) gs else gs)))
         else if unary_op op
         then and_then (symbol_at gs (X_add_symbol e)) (\<lambda>add.
              and_then (rec add gs) (\<lambda>(left, gs).
                Inr (resolve_unary j op add left final_seg final_val gs)))
         else if binary_op op
         then and_then (symbol_at gs (X_add_symbol e)) (\<lambda>add.
              and_then (rec add gs) (\<lambda>(left, gs).
              and_then (symbol_at gs (X_op_symbol e)) (\<lambda>op_sym.
              and_then (rec op_sym gs) (\<lambda>(right, gs).
                resolve_binary j op add left op_sym right final_seg final_val gs))))
         else Inl Abort)"

fun resolve_symbol_value :: "nat \<Rightarrow> nat \<Rightarrow> gas_state \<Rightarrow> (valueT \<times> gas_state) res" where
  "resolve_symbol_value 0 i gs = Inl Out_of_fuel"
| "resolve_symbol_value (Suc n) i gs =
     (let j = real_symbol gs i; s = gs_symbols gs ! j
      in if is_local_symbol gs i then Inr (resolve_local_value i gs)
         else if sy_resolved s then Inr (if X_op (sy_value s) = O_constant then X_add_number (sy_value s) else 0, gs)
         else if sy_resolving s then Inr (resolution_loop j gs)
         else and_then (resolve_case (resolve_symbol_value n) j (sy_value s) (sy_segment s) (sy_frag s)
                          (set_resolving True j gs))
           (\<lambda>(rs, gs). Inr (finish_resolution j rs gs)))"

declare resolve_symbol_value.simps(2) [simp del]

text \<open>One unit of fuel per symbol, and one more.\<close>

definition symbol_fuel :: "gas_state \<Rightarrow> nat" where
  "symbol_fuel gs = Suc (Suc (length (gs_symbols gs)))"

definition S_GET_VALUE :: "nat \<Rightarrow> gas_state \<Rightarrow> (valueT \<times> gas_state) res" where
  "S_GET_VALUE i gs =
     and_then (symbol_at gs (Some i)) (\<lambda>i.
     if is_local_symbol gs i then resolve_symbol_value (symbol_fuel gs) i gs
     else and_then (if sy_resolved (the_symbol gs i) then Inr (0, gs)
                    else resolve_symbol_value (symbol_fuel gs) i gs) (\<lambda>(val, gs').
       if \<not> sy_resolved (the_symbol gs i) \<and> \<not> gs_finalize_syms gs' then Inr (val, gs')
       else let s = the_symbol gs' i
            in Inr (X_add_number (sy_value s),
                 if X_op (sy_value s) \<noteq> O_constant \<and>
                    (\<not> sy_resolved s \<or> X_op (sy_value s) \<noteq> O_symbol \<or> S_IS_DEFINED s \<and> \<not> S_IS_COMMON gs' i)
                 then gs_bad (Diag (''attempt to get value of unresolved symbol `%s'' @ [CHR 0x27])
                        [Str (S_GET_NAME gs' i)]) gs'
                 else gs')))"

text \<open>All local symbols, in the order in which their table is walked.\<close>

definition resolve_local_symbol :: "string \<Rightarrow> nat option \<Rightarrow> gas_state res \<Rightarrow> gas_state res" where
  "resolve_local_symbol key value r =
     and_then r (\<lambda>gs. case value of
         None \<Rightarrow> Inr gs
       | Some i \<Rightarrow> and_then (symbol_at gs (Some i)) (\<lambda>i.
           and_then (resolve_symbol_value (symbol_fuel gs) i gs) (\<lambda>(_, gs). Inr gs)))"

definition resolve_local_symbol_values :: "gas_state \<Rightarrow> gas_state res" where
  "resolve_local_symbol_values gs = hash_traverse (gs_local_hash gs) resolve_local_symbol (Inr gs)"

end
