(* ===== verification/SymFuel.thy ===== *)
theory SymFuel
  imports SymResolve
begin

text \<open>
  The recursions over the graph of symbols end: the symbols that stand for expressions and are
  not being resolved get fewer with every call inside another, so their number bounds the depth.
\<close>

definition compound_op :: "operatorT \<Rightarrow> bool" where
  "compound_op op \<longleftrightarrow> op = O_symbol \<or> op = O_symbol_rva \<or> unary_op op \<or> binary_op op"

definition pending_symbol :: "symbolS \<Rightarrow> bool" where
  "pending_symbol s \<longleftrightarrow> \<not> sy_resolving s \<and> compound_op (X_op (sy_value s))"

definition pending :: "gas_state \<Rightarrow> nat set" where
  "pending gs = {j. j < length (gs_symbols gs) \<and> pending_symbol (gs_symbols gs ! j)}"

lemma compound_op_leaf [simp]: "\<not> compound_op O_constant" "\<not> compound_op O_absent" "\<not> compound_op O_register"
  "\<not> compound_op O_big" "\<not> compound_op O_illegal"
  by (simp_all add: compound_op_def unary_op_def binary_op_def)

lemma pending_finite [simp]: "finite (pending gs)"
  by (simp add: pending_def)

lemma pending_symbols: "gs_symbols gs' = gs_symbols gs \<Longrightarrow> pending gs' = pending gs"
  by (simp add: pending_def)

lemma gs_bad_symbols [simp]: "gs_symbols (gs_bad d gs) = gs_symbols gs" "gs_finalize_syms (gs_bad d gs) = gs_finalize_syms gs"
  by (simp_all add: gs_bad_def)

lemma pending_bad [simp]: "pending (gs_bad d gs) = pending gs"
  by (rule pending_symbols) simp

lemma update_symbol_symbols [simp]:
  "gs_symbols (update_symbol i f gs) = (gs_symbols gs)[i := f (gs_symbols gs ! i)]"
  "gs_finalize_syms (update_symbol i f gs) = gs_finalize_syms gs"
  by (simp_all add: update_symbol_def)

lemma nth_update: "xs[i := x] ! j = (if i = j \<and> j < length xs then x else xs ! j)"
  by (cases "i < length xs") (auto simp: nth_list_update list_update_beyond)

lemma pending_update_insert: "pending (update_symbol i f gs) \<subseteq> insert i (pending gs)"
  by (auto simp: pending_def nth_update)

lemma pending_update:
  "(\<And>s. pending_symbol (f s) \<Longrightarrow> pending_symbol s) \<Longrightarrow> pending (update_symbol i f gs) \<subseteq> pending gs"
  by (auto simp: pending_def nth_update split: if_splits)

lemma pending_set_resolving: "pending (set_resolving True i gs) = pending gs - {i}"
  by (auto simp: pending_def set_resolving_def nth_update pending_symbol_def split: if_splits)

lemma pending_new_symbol: "\<not> pending_symbol s \<Longrightarrow> pending (snd (new_symbol s gs)) = pending gs"
  by (auto simp: pending_def new_symbol_def nth_append less_Suc_eq)

lemma pending_table [simp]:
  "pending (symbol_table_insert i gs) = pending gs" "pending (gs\<lparr>gs_symbol_list := l\<rparr>) = pending gs"
  "pending (gs\<lparr>gs_local_hash := h\<rparr>) = pending gs"
  by (simp_all add: pending_def symbol_table_insert_def)

lemma symbol_new_pending: "pending (snd (symbol_new name seg val frag gs)) = pending gs"
  by (simp add: symbol_new_def symbol_create_def case_prod_beta pending_new_symbol pending_symbol_def
      blank_symbol_def)

lemma local_symbol_convert_pending: "local_symbol_convert i gs = Inr (r, gs') \<Longrightarrow> pending gs' \<subseteq> pending gs"
proof (cases "sy_real (gs_symbols gs ! i)")
  case None
  assume *: "local_symbol_convert i gs = Inr (r, gs')"
  let ?l = "gs_symbols gs ! i"
  let ?g1 = "snd (symbol_new (sy_name ?l) (sy_segment ?l) (X_add_number (sy_value ?l)) (sy_frag ?l) gs)"
  let ?r = "fst (symbol_new (sy_name ?l) (sy_segment ?l) (X_add_number (sy_value ?l)) (sy_frag ?l) gs)"
  let ?g2 = "symbol_table_insert ?r (update_symbol ?r (\<lambda>s. s\<lparr>sy_resolved := sy_resolved ?l, sy_used := True\<rparr>) ?g1)"
  have g': "pending gs' = pending (update_symbol i (\<lambda>l. l\<lparr>sy_segment := Reg_section, sy_real := Some ?r\<rparr>) ?g2)"
    using * None by (auto simp: local_symbol_convert_def Let_def case_prod_beta and_then_Inr_iff)
  also have "\<dots> \<subseteq> pending ?g2" by (rule pending_update) (simp add: pending_symbol_def)
  also have "\<dots> \<subseteq> pending ?g1" by simp (rule pending_update, simp add: pending_symbol_def)
  finally show ?thesis by (simp add: symbol_new_pending)
qed (auto simp: local_symbol_convert_def and_then_Inr_iff Let_def)

lemma converted_symbol_pending: "converted_symbol i gs = Inr (r, gs') \<Longrightarrow> pending gs' \<subseteq> pending gs"
  by (auto simp: converted_symbol_def dest: local_symbol_convert_pending split: if_splits)

lemma copy_symbol_attributes_pending: "copy_symbol_attributes i j gs = Inr gs' \<Longrightarrow> pending gs' \<subseteq> pending gs"
proof -
  assume "copy_symbol_attributes i j gs = Inr gs'"
  then obtain d g1 s g2 where 1: "converted_symbol i gs = Inr (d, g1)" "converted_symbol j g1 = Inr (s, g2)"
    and 2: "gs' = update_symbol d (\<lambda>x. x\<lparr>sy_ifunc := (sy_ifunc x \<or> sy_ifunc (gs_symbols g2 ! s))\<rparr>) g2"
    by (auto simp: copy_symbol_attributes_def and_then_Inr_iff)
  have "pending gs' \<subseteq> pending g2" unfolding 2 by (rule pending_update) (simp add: pending_symbol_def)
  then show ?thesis using 1 [THEN converted_symbol_pending] by blast
qed

lemma do_symbol_pending:
  assumes "do_symbol i add left seg_left seg val gs = Inr (rs, gs')"
  shows "pending gs' \<subseteq> insert i (pending gs)"
proof -
  obtain a g1 where 1: "(if gs_finalize_syms gs \<and> val = 0
               then and_then (converted_symbol add gs) (\<lambda>(add, gs).
                    and_then (copy_symbol_attributes i add gs) (\<lambda>gs. Inr (add, gs)))
               else Inr (add, gs)) = Inr (a, g1)"
    and 2: "gs' = g1 \<or> gs' = equate_symbol i a val g1"
    using assms unfolding do_symbol_def and_then_Inr_iff by (auto simp: Let_def split: if_splits)
  have "pending g1 \<subseteq> pending gs"
    using 1 by (auto simp: and_then_Inr_iff split: if_splits
        dest!: converted_symbol_pending copy_symbol_attributes_pending)
  then show ?thesis using 2 pending_update_insert unfolding equate_symbol_def by blast
qed

lemma report_op_error_pending [simp]: "pending (report_op_error i d op gs) = pending gs"
  by (simp add: report_op_error_def Let_def)

lemma division_by_zero_pending [simp]: "pending (division_by_zero i gs) = pending gs"
  by (simp add: division_by_zero_def)

lemma resolve_unary_pending [simp]: "pending (snd (resolve_unary i op add left seg val gs)) = pending gs"
  by (simp add: resolve_unary_def)

lemma resolve_dyadic_pending: "resolve_dyadic i op add left op_sym right seg val gs = Inr (rs, gs') \<Longrightarrow> pending gs' = pending gs"
  unfolding resolve_dyadic_def Let_def
  by (cases "X_op (sy_value (gs_symbols gs ! i)) = O_illegal \<or> X_op (sy_value (gs_symbols gs ! i)) = O_absent \<or>
      X_op (sy_value (gs_symbols gs ! i)) = O_constant")
    (auto simp: and_then_Inr_iff if_distrib [of pending] cong: if_cong)

lemma resolve_binary_pending:
  "resolve_binary i op add left op_sym right seg val gs = Inr (rs, gs') \<Longrightarrow> pending gs' \<subseteq> insert i (pending gs)"
  by (auto simp: resolve_binary_def Let_def split: if_splits dest: resolve_dyadic_pending dest!: do_symbol_pending)

lemma S_SET_VALUE_pending: "pending (S_SET_VALUE i val gs) \<subseteq> pending gs"
  unfolding S_SET_VALUE_def by (rule pending_update) (auto simp: pending_symbol_def split: if_splits)

lemma finish_resolution_pending:
  "pending (snd (finish_resolution i rs gs)) \<subseteq> pending (if rs_clear rs then set_resolving False i gs else gs)"
proof -
  let ?g0 = "if rs_clear rs then set_resolving False i gs else gs"
  let ?g1 = "if gs_finalize_syms ?g0 \<and> rs_set_value rs then S_SET_VALUE i (rs_value rs) ?g0 else ?g0"
  let ?g2 = "update_symbol i (\<lambda>s. s\<lparr>sy_segment := rs_seg rs\<rparr>) ?g1"
  have 1: "pending ?g1 \<subseteq> pending ?g0" by (simp add: S_SET_VALUE_pending)
  have 2: "pending ?g2 \<subseteq> pending ?g1" by (rule pending_update) (simp add: pending_symbol_def)
  have 3: "pending (update_symbol i (\<lambda>s. s\<lparr>sy_resolved := True\<rparr>) g) \<subseteq> pending g" for g
    by (rule pending_update) (simp add: pending_symbol_def)
  have 4: "pending (update_symbol i (\<lambda>s. s\<lparr>sy_resolved := True\<rparr>) (if b then gs_bad d g else g)) \<subseteq> pending g" for b d g
    using 3 [of "gs_bad d g"] 3 [of g] by simp
  have "pending (snd (finish_resolution i rs gs)) \<subseteq> pending ?g2"
    by (simp only: finish_resolution_def Let_def snd_conv if_split [of "\<lambda>g. pending g \<subseteq> _"] 4 subset_refl simp_thms)
  then show ?thesis using 1 2 by blast
qed

lemma pending_clear: "pending (set_resolving False i gs) \<subseteq> insert i (pending gs)"
  unfolding set_resolving_def by (rule pending_update_insert)

lemma pending_clear_leaf:
  "\<not> compound_op (X_op (sy_value (gs_symbols gs ! i))) \<Longrightarrow> pending (set_resolving False i gs) \<subseteq> pending gs"
  by (auto simp: pending_def set_resolving_def nth_update pending_symbol_def split: if_splits)

lemma resolution_loop_pending: "pending (snd (resolution_loop i gs)) \<subseteq> pending gs"
  unfolding resolution_loop_def by (rule order_trans [OF finish_resolution_pending]) simp

lemma resolve_local_value_pending: "pending (snd (resolve_local_value i gs)) \<subseteq> pending gs"
  unfolding resolve_local_value_def Let_def
  by (auto intro: subsetD [OF pending_update, rotated] simp: pending_symbol_def split: if_splits)

subsection \<open>The recursion of \<open>resolve_symbol_value\<close>\<close>

lemma symbol_at_Inr: "symbol_at gs p = Inr i \<longleftrightarrow> p = Some i \<and> i < length (gs_symbols gs) \<and> real_symbol gs i < length (gs_symbols gs)"
  by (auto simp: symbol_at_def split: option.splits if_splits)

lemma resolve_case_leaf:
  "\<not> compound_op (X_op e) \<Longrightarrow> resolve_case rec j e seg frag gs = Inr (rs, gs') \<Longrightarrow> gs' = gs"
  by (auto simp: resolve_case_def compound_op_def Let_def split: if_splits)

lemma resolve_case_pending:
  assumes rec: "\<And>k g v g'. rec k g = Inr (v, g') \<Longrightarrow> k < length (gs_symbols g) \<Longrightarrow>
      real_symbol g k < length (gs_symbols g) \<Longrightarrow> pending g' \<subseteq> pending g"
    and c: "resolve_case rec j e seg frag gs = Inr (rs, gs')"
  shows "pending gs' \<subseteq> insert j (pending gs)"
proof -
  have drop: "pending (if b then update_symbol j (\<lambda>s. s\<lparr>sy_value := (sy_value s)\<lparr>X_op_symbol := None\<rparr>\<rparr>) g else g) \<subseteq> pending g"
    for b g by (cases b) (simp_all, rule pending_update, simp add: pending_symbol_def)
  consider "\<not> compound_op (X_op e)" | "X_op e = O_symbol \<or> X_op e = O_symbol_rva"
    | "unary_op (X_op e)" | "binary_op (X_op e)"
    by (auto simp: compound_op_def)
  then show ?thesis
  proof cases
    case 1 then show ?thesis using resolve_case_leaf [OF _ c] by blast
  next
    case 2
    then obtain add left g1 where r: "symbol_at gs (X_add_symbol e) = Inr add" "rec add gs = Inr (left, g1)"
      and d: "do_symbol j add left (S_GET_SEGMENT g1 add) seg (X_add_number e)
        (if gs_finalize_syms g1
         then update_symbol j (\<lambda>s. s\<lparr>sy_value := (sy_value s)\<lparr>X_op_symbol := None\<rparr>\<rparr>) g1 else g1) = Inr (rs, gs')"
      using c by (fastforce simp: resolve_case_def Let_def and_then_Inr_iff)
    have "pending g1 \<subseteq> pending gs" using rec [OF r(2)] r(1) by (simp add: symbol_at_Inr)
    then show ?thesis using do_symbol_pending [OF d] drop [of "gs_finalize_syms g1" g1] by blast
  next
    case 3
    then obtain add left g1 where r: "symbol_at gs (X_add_symbol e) = Inr add" "rec add gs = Inr (left, g1)"
      and g': "pending gs' = pending g1"
      using c by (auto simp: resolve_case_def Let_def and_then_Inr_iff unary_op_def binary_op_def)
        (metis resolve_unary_pending snd_conv)+
    then show ?thesis using rec [OF r(2)] r(1) by (auto simp: symbol_at_Inr)
  next
    case 4
    then obtain add left g1 op_sym right g2
      where r: "symbol_at gs (X_add_symbol e) = Inr add" "rec add gs = Inr (left, g1)"
        "symbol_at g1 (X_op_symbol e) = Inr op_sym" "rec op_sym g1 = Inr (right, g2)"
      and b: "resolve_binary j (X_op e) add left op_sym right seg (X_add_number e) g2 = Inr (rs, gs')"
      using c by (auto simp: resolve_case_def Let_def and_then_Inr_iff unary_op_def binary_op_def split: if_splits)
    have "pending g1 \<subseteq> pending gs" "pending g2 \<subseteq> pending g1"
      using rec [OF r(2)] rec [OF r(4)] r(1,3) by (simp_all add: symbol_at_Inr)
    then show ?thesis using resolve_binary_pending [OF b] by blast
  qed
qed

lemma resolve_pending:
  "resolve_symbol_value n i gs = Inr (v, gs') \<Longrightarrow> real_symbol gs i < length (gs_symbols gs) \<Longrightarrow>
    pending gs' \<subseteq> pending gs"
proof (induction n arbitrary: i gs v gs')
  case (Suc n)
  let ?j = "real_symbol gs i" and ?g1 = "set_resolving True (real_symbol gs i) gs"
  let ?s = "gs_symbols gs ! ?j"
  show ?case
  proof (cases "is_local_symbol gs i \<or> sy_resolved ?s \<or> sy_resolving ?s")
    case True
    then show ?thesis using Suc.prems(1) resolve_local_value_pending [of i gs] resolution_loop_pending [of ?j gs]
      by (auto simp: resolve_symbol_value.simps(2) Let_def split: if_splits)
  next
    case False
    with Suc.prems(1) obtain rs g2
      where c: "resolve_case (resolve_symbol_value n) ?j (sy_value ?s) (sy_segment ?s) (sy_frag ?s) ?g1 = Inr (rs, g2)"
        and g': "gs' = snd (finish_resolution ?j rs g2)"
      by (auto simp: resolve_symbol_value.simps(2) Let_def and_then_Inr_iff)
    have fin: "pending gs' \<subseteq> pending (if rs_clear rs then set_resolving False ?j g2 else g2)"
      unfolding g' by (rule finish_resolution_pending)
    show ?thesis
    proof (cases "compound_op (X_op (sy_value ?s))")
      case True
      have j: "?j \<in> pending gs" using True False Suc.prems(2) by (simp add: pending_def pending_symbol_def)
      have "pending g2 \<subseteq> insert ?j (pending ?g1)"
        by (rule resolve_case_pending [OF _ c]) (rule Suc.IH)
      also have "\<dots> = pending gs" using j by (simp add: pending_set_resolving insert_absorb)
      finally have "insert ?j (pending g2) \<subseteq> pending gs" using j by simp
      then show ?thesis using fin pending_clear [of ?j g2] by (auto split: if_splits)
    next
      case leaf: False
      have g2: "g2 = ?g1" by (rule resolve_case_leaf [OF leaf c])
      have "\<not> compound_op (X_op (sy_value (gs_symbols ?g1 ! ?j)))"
        using leaf by (simp add: set_resolving_def nth_update)
      then show ?thesis
        using fin pending_clear_leaf [of ?g1 ?j] unfolding g2 by (auto simp: pending_set_resolving split: if_splits)
    qed
  qed
qed simp

lemma resolve_case_rec:
  assumes "\<And>k g. pending g \<subseteq> pending gs \<Longrightarrow> k < length (gs_symbols g) \<Longrightarrow>
      real_symbol g k < length (gs_symbols g) \<Longrightarrow> rec k g = rec' k g"
    and "\<And>k v g'. rec' k gs = Inr (v, g') \<Longrightarrow> real_symbol gs k < length (gs_symbols gs) \<Longrightarrow> pending g' \<subseteq> pending gs"
  shows "resolve_case rec j e seg frag gs = resolve_case rec' j e seg frag gs"
  unfolding resolve_case_def Let_def
  by (auto simp: symbol_at_Inr intro!: and_then_cong assms(1) dest: assms(2))

theorem resolve_fuel:
  "card (pending gs) < n \<Longrightarrow> real_symbol gs i < length (gs_symbols gs) \<Longrightarrow> n \<le> m \<Longrightarrow>
    resolve_symbol_value m i gs = resolve_symbol_value n i gs"
proof (induction n arbitrary: m i gs)
  case (Suc n)
  from \<open>Suc n \<le> m\<close> obtain m' where m: "m = Suc m'" "n \<le> m'" by (cases m) auto
  let ?j = "real_symbol gs i" and ?g1 = "set_resolving True (real_symbol gs i) gs"
  let ?s = "gs_symbols gs ! ?j"
  have "resolve_case (resolve_symbol_value m') ?j (sy_value ?s) (sy_segment ?s) (sy_frag ?s) ?g1 =
      resolve_case (resolve_symbol_value n) ?j (sy_value ?s) (sy_segment ?s) (sy_frag ?s) ?g1"
    if "\<not> sy_resolving ?s"
  proof (cases "compound_op (X_op (sy_value ?s))")
    case True
    then have "?j \<in> pending gs" using that Suc.prems(2) by (simp add: pending_def pending_symbol_def)
    from card_Diff1_less [OF pending_finite this] Suc.prems(1)
    have less: "card (pending ?g1) < n" by (simp add: pending_set_resolving)
    show ?thesis
    proof (rule resolve_case_rec)
      fix k g
      assume "pending g \<subseteq> pending ?g1" "real_symbol g k < length (gs_symbols g)"
      then show "resolve_symbol_value m' k g = resolve_symbol_value n k g"
        using less card_mono [of "pending ?g1" "pending g"] m(2) by (intro Suc.IH) auto
    qed (rule resolve_pending)
  qed (auto simp: resolve_case_def compound_op_def Let_def)
  then show ?case by (simp add: m(1) resolve_symbol_value.simps(2) Let_def)
qed simp

lemma pending_card: "card (pending gs) \<le> length (gs_symbols gs)"
proof -
  have "card (pending gs) \<le> card {..<length (gs_symbols gs)}"
    by (rule card_mono) (auto simp: pending_def)
  then show ?thesis by simp
qed

subsection \<open>The recursion of \<open>resolve_expression\<close> and \<open>snapshot_symbol\<close>\<close>

lemma expression_case_cong:
  "(\<And>p k. symbol_at gs p = Inr k \<Longrightarrow> snap k = snap' k) \<Longrightarrow> expression_case snap e gs = expression_case snap' e gs"
  unfolding expression_case_def
  by (intro if_cong refl and_then_cong) (auto split: option.split intro!: and_then_cong)

lemma expression_case_leaf:
  "\<not> compound_op (X_op e) \<Longrightarrow> expression_case snap e gs =
    Inr (if X_op e = O_constant \<or> X_op e = O_register then Some e else None)"
  by (simp add: expression_case_def compound_op_def)

text \<open>A call on a compound expression needs a unit more than one on a symbol.\<close>

theorem snapshot_fuel:
  shows "(if compound_op (X_op e) then Suc (card (pending gs)) else 0) < n \<Longrightarrow> n \<le> m \<Longrightarrow>
      resolve_expression m e gs = resolve_expression n e gs"
    and "card (pending gs) < n \<Longrightarrow> real_symbol gs i < length (gs_symbols gs) \<Longrightarrow> n \<le> m \<Longrightarrow>
      snapshot_symbol m i gs = snapshot_symbol n i gs"
proof (induction n e gs and n i gs arbitrary: m and m rule: resolve_expression_snapshot_symbol.induct)
  case (2 n e gs)
  then obtain m' where m: "m = Suc m'" "n \<le> m'" by (cases m) auto
  show ?case
  proof (cases "compound_op (X_op e)")
    case True
    show ?thesis unfolding m(1) resolve_expression.simps
    proof (rule expression_case_cong)
      fix p k assume k: "symbol_at gs p = Inr k"
      show "snapshot_symbol m' k gs = snapshot_symbol n k gs"
      proof (rule "2.IH" [OF _ _ m(2)])
        show "card (pending gs) < n" using "2.prems"(1) True by simp
        show "real_symbol gs k < length (gs_symbols gs)" using k by (simp add: symbol_at_Inr)
      qed
    qed
  next
    case False
    then show ?thesis by (simp add: m(1) expression_case_leaf)
  qed
next
  case (3 n i gs)
  let ?j = "real_symbol gs i" and ?g1 = "set_resolving True (real_symbol gs i) gs"
  let ?s = "gs_symbols gs ! ?j"
  have eq: "resolve_expression m (sy_value ?s) ?g1 = resolve_expression n (sy_value ?s) ?g1"
    if "\<not> is_local_symbol gs i" "\<not> (sy_resolved ?s \<or> X_op (sy_value ?s) = O_illegal)" "\<not> sy_resolving ?s"
  proof -
    have "(if compound_op (X_op (sy_value ?s)) then Suc (card (pending ?g1)) else 0) < n"
    proof (cases "compound_op (X_op (sy_value ?s))")
      case True
      then have "?j \<in> pending gs" using that "3.prems" by (simp add: pending_def pending_symbol_def)
      from card_Diff1_less [OF pending_finite this] "3.prems" True show ?thesis by (simp add: pending_set_resolving)
    qed (use "3.prems" in simp)
    then show ?thesis
      using that "3.prems"(3) unfolding real_symbol_def is_local_symbol_def
      by (intro "3.IH" [OF refl prod.collapse refl refl])
  qed
  then show ?case by (simp add: snapshot_symbol.simps real_symbol_def is_local_symbol_def Let_def case_prod_beta)
qed simp
subsection \<open>The fuel is enough\<close>

lemma binary_value_fueled [simp]: "fueled (binary_value sh op l r)"
  by (cases op) (simp_all add: binary_value_def signed_quotient_def signed_remainder_def)

lemma symbol_at_fueled [simp]: "fueled (symbol_at gs p)"
  by (simp add: symbol_at_def split: option.split)

lemma local_symbol_convert_fueled [simp]: "fueled (local_symbol_convert i gs)"
  by (auto simp: local_symbol_convert_def Let_def case_prod_beta split: option.split intro!: fueled_and_then)

lemma converted_symbol_fueled [simp]: "fueled (converted_symbol i gs)"
  by (simp add: converted_symbol_def)

lemma copy_symbol_attributes_fueled [simp]: "fueled (copy_symbol_attributes i j gs)"
  by (auto simp: copy_symbol_attributes_def intro!: fueled_and_then)

lemma do_symbol_fueled [simp]: "fueled (do_symbol i add left seg_left seg val gs)"
  by (auto simp: do_symbol_def Let_def intro!: fueled_and_then)

lemma resolve_dyadic_fueled [simp]: "fueled (resolve_dyadic i op add left op_sym right seg val gs)"
  unfolding resolve_dyadic_def Let_def
  by (intro fueled_and_then if_split [of fueled, THEN iffD2] conjI impI) simp_all

lemma resolve_binary_fueled [simp]: "fueled (resolve_binary i op add left op_sym right seg val gs)"
  by (simp add: resolve_binary_def Let_def)

lemma resolve_case_fueled:
  assumes "\<And>k g. pending g \<subseteq> pending gs \<Longrightarrow> k < length (gs_symbols g) \<Longrightarrow>
      real_symbol g k < length (gs_symbols g) \<Longrightarrow> fueled (rec k g)"
    and "\<And>k v g'. rec k gs = Inr (v, g') \<Longrightarrow> real_symbol gs k < length (gs_symbols gs) \<Longrightarrow> pending g' \<subseteq> pending gs"
  shows "fueled (resolve_case rec j e seg frag gs)"
  unfolding resolve_case_def Let_def
  by (auto simp: symbol_at_Inr intro!: fueled_and_then assms(1) dest: assms(2))

theorem resolve_fueled:
  "card (pending gs) < n \<Longrightarrow> real_symbol gs i < length (gs_symbols gs) \<Longrightarrow> fueled (resolve_symbol_value n i gs)"
proof (induction n arbitrary: i gs)
  case (Suc n)
  let ?j = "real_symbol gs i" and ?g1 = "set_resolving True (real_symbol gs i) gs"
  let ?s = "gs_symbols gs ! ?j"
  have "fueled (resolve_case (resolve_symbol_value n) ?j (sy_value ?s) (sy_segment ?s) (sy_frag ?s) ?g1)"
    if "\<not> sy_resolving ?s"
  proof (cases "compound_op (X_op (sy_value ?s))")
    case True
    then have "?j \<in> pending gs" using that Suc.prems(2) by (simp add: pending_def pending_symbol_def)
    from card_Diff1_less [OF pending_finite this] Suc.prems(1)
    have less: "card (pending ?g1) < n" by (simp add: pending_set_resolving)
    show ?thesis
    proof (rule resolve_case_fueled)
      fix k g
      assume "pending g \<subseteq> pending ?g1" "real_symbol g k < length (gs_symbols g)"
      then show "fueled (resolve_symbol_value n k g)"
        using less card_mono [of "pending ?g1" "pending g"] by (intro Suc.IH) auto
    qed (rule resolve_pending)
  qed (auto simp: resolve_case_def compound_op_def Let_def)
  then show ?case by (auto simp: resolve_symbol_value.simps(2) Let_def intro!: fueled_and_then)
qed simp

lemma fueled_if: "(b \<Longrightarrow> fueled x) \<Longrightarrow> (\<not> b \<Longrightarrow> fueled y) \<Longrightarrow> fueled (if b then x else y)"
  by simp

lemma fueled_option: "fueled a \<Longrightarrow> (\<And>x. fueled (f x)) \<Longrightarrow> fueled (case z of None \<Rightarrow> a | Some x \<Rightarrow> f x)"
  by (cases z) simp_all

lemma fold_values_fueled [simp]: "fueled (fold_values gs op l r d)"
  by (simp add: fold_values_def Let_def case_prod_beta fueled_and_then)

lemma fold_binary_fueled [simp]: "fueled (fold_binary gs op l i r j)"
  unfolding fold_binary_def Let_def case_prod_beta
  by (intro fueled_if fueled_option fueled_simps(1) fold_values_fueled)

lemma expression_case_fueled:
  assumes "\<And>p k. symbol_at gs p = Inr k \<Longrightarrow> fueled (snap k)"
  shows "fueled (expression_case snap e gs)"
  unfolding expression_case_def
  by (intro fueled_if fueled_and_then fueled_option fueled_simps(1) symbol_at_fueled fold_binary_fueled)
    (erule assms)+

theorem snapshot_fueled:
  shows "(if compound_op (X_op e) then Suc (card (pending gs)) else 0) < n \<Longrightarrow> fueled (resolve_expression n e gs)"
    and "card (pending gs) < n \<Longrightarrow> real_symbol gs i < length (gs_symbols gs) \<Longrightarrow> fueled (snapshot_symbol n i gs)"
proof (induction n e gs and n i gs rule: resolve_expression_snapshot_symbol.induct)
  case (2 n e gs)
  show ?case
  proof (cases "compound_op (X_op e)")
    case True
    show ?thesis unfolding resolve_expression.simps
    proof (rule expression_case_fueled)
      fix p k assume k: "symbol_at gs p = Inr k"
      show "fueled (snapshot_symbol n k gs)"
      proof (rule "2.IH")
        show "card (pending gs) < n" using "2.prems" True by simp
        show "real_symbol gs k < length (gs_symbols gs)" using k by (simp add: symbol_at_Inr)
      qed
    qed
  next
    case False
    then show ?thesis by (simp add: expression_case_leaf)
  qed
next
  case (3 n i gs)
  let ?j = "real_symbol gs i" and ?g1 = "set_resolving True (real_symbol gs i) gs"
  let ?s = "gs_symbols gs ! ?j"
  have "fueled (resolve_expression n (sy_value ?s) ?g1)"
    if "\<not> is_local_symbol gs i" "\<not> (sy_resolved ?s \<or> X_op (sy_value ?s) = O_illegal)" "\<not> sy_resolving ?s"
  proof -
    have "(if compound_op (X_op (sy_value ?s)) then Suc (card (pending ?g1)) else 0) < n"
    proof (cases "compound_op (X_op (sy_value ?s))")
      case True
      then have "?j \<in> pending gs" using that "3.prems" by (simp add: pending_def pending_symbol_def)
      from card_Diff1_less [OF pending_finite this] "3.prems" True show ?thesis by (simp add: pending_set_resolving)
    qed (use "3.prems" in simp)
    then show ?thesis
      using that unfolding real_symbol_def is_local_symbol_def
      by (intro "3.IH" [OF refl prod.collapse refl refl])
  qed
  then show ?case
    by (auto simp: snapshot_symbol.simps real_symbol_def is_local_symbol_def Let_def case_prod_beta
        split: option.split intro!: fueled_and_then)
qed simp

lemma symbol_fuel_enough: "card (pending gs) < symbol_fuel gs" "Suc (card (pending gs)) < symbol_fuel gs"
  using pending_card [of gs] by (simp_all add: symbol_fuel_def)

lemma S_GET_VALUE_fueled [simp]: "fueled (S_GET_VALUE i gs)"
  using symbol_fuel_enough(1)
  by (auto simp: S_GET_VALUE_def symbol_at_Inr Let_def intro!: fueled_and_then resolve_fueled)

lemma resolve_expression_fueled [simp]: "fueled (resolve_expression (symbol_fuel gs) e gs)"
  by (rule snapshot_fueled(1)) (simp add: symbol_fuel_def less_Suc_eq_le pending_card)

end
