(* ===== verification/LabelDefs.thy ===== *)
theory LabelDefs
  imports SymFuel
begin

text \<open>
  Labels: \<open>colon\<close> of \<open>gas/symbols.c\<close>, and what the two tables of symbols promise. A label
  that is not known yet names the current place afterwards, one that has been referenced is
  defined where all its references see it, and a second definition elsewhere is an error
  that leaves the first one in place.
\<close>

subsection \<open>The definition of a label\<close>

text \<open>The sections made at the start, in this order.\<close>

abbreviation (input) text_section :: segT where "text_section \<equiv> Section 0"
abbreviation (input) data_section :: segT where "data_section \<equiv> Section 1"
abbreviation (input) bss_section :: segT where "bss_section \<equiv> Section 2"

definition define_sym_at_dot :: "nat \<Rightarrow> gas_state \<Rightarrow> gas_state res" where
  "define_sym_at_dot i gs =
     S_SET_SEGMENT i (gs_seg gs)
       (S_SET_VALUE i (frag_now_fix (gs_chain gs))
         (update_symbol i (\<lambda>s. s\<lparr>sy_frag := Some (frag_now (gs_chain gs))\<rparr>) gs))"

definition already_defined :: "string \<Rightarrow> gas_state \<Rightarrow> gas_state" where
  "already_defined name gs = gs_bad (Diag (''symbol `%s'' @ CHR 0x27 # '' is already defined'') [Str name]) gs"

text \<open>A local symbol, which holds its section, fragment and value itself.\<close>

definition colon_local :: "string \<Rightarrow> nat \<Rightarrow> gas_state \<Rightarrow> nat \<times> gas_state" where
  "colon_local name i gs =
     (let l = gs_symbols gs ! i; here = Some (frag_now (gs_chain gs)); fix = frag_now_fix (gs_chain gs)
      in if sy_segment l \<noteq> Undefined_section \<and>
            (sy_frag l \<noteq> here \<or> sy_segment l \<noteq> gs_seg gs \<or> X_add_number (sy_value l) \<noteq> fix)
         then (i, already_defined name gs)
         else (i, update_symbol i (\<lambda>l. l\<lparr>sy_segment := gs_seg gs, sy_frag := here,
                    sy_value := constant_value fix\<rparr>) gs))"

text \<open>
  A symbol that is not defined, or common: it may have a size, which \<open>.comm\<close> has given it.
\<close>

definition colon_undefined :: "string \<Rightarrow> nat \<Rightarrow> gas_state \<Rightarrow> gas_state res" where
  "colon_undefined name i gs =
     and_then (S_GET_VALUE i gs) (\<lambda>(val, gs).
     if val = 0 then define_sym_at_dot i gs
     else
       let seg = S_GET_SEGMENT gs i; now = gs_seg gs; fix = frag_now_fix (gs_chain gs)
       in if ((\<not> S_IS_DEFINED (the_symbol gs i) \<or> S_IS_COMMON gs i) \<and> S_IS_EXTERNAL gs i \<or> seg = bss_section) \<and>
             (now = data_section \<or> now = bss_section \<or> now = seg)
          then (if now \<noteq> data_section then Inr (if val < fix then S_SET_VALUE i fix gs else gs)
                else define_sym_at_dot i gs)
          else Inr (gs_bad (Diag (''symbol `%s'' @ CHR 0x27 # '' is already defined as \"%s\"/%s%ld'')
                 [Str name, Num val]) gs))"

definition colon_again :: "string \<Rightarrow> nat \<Rightarrow> gas_state \<Rightarrow> (nat \<times> gas_state) res" where
  "colon_again name i gs =
     and_then (if sy_frag (gs_symbols gs ! i) = Some (frag_now (gs_chain gs))
               then and_then (S_GET_VALUE i gs) (\<lambda>(val, gs).
                      Inr (val = frag_now_fix (gs_chain gs) \<and> S_GET_SEGMENT gs i = gs_seg gs, gs))
               else Inr (False, gs)) (\<lambda>(same, gs).
     if same then Inr (i, gs)
     else and_then (symbol_clone i False (already_defined name gs)) (\<lambda>(j, gs).
          and_then (define_sym_at_dot j gs) (\<lambda>gs. Inr (j, gs))))"

definition colon :: "string \<Rightarrow> gas_state \<Rightarrow> (nat \<times> gas_state) res" where
  "colon name gs =
     (let gs = (if bfd_elf_is_local_label_name name then gs else gs\<lparr>gs_dollar := dollar_label_clear (gs_dollar gs)\<rparr>);
          fix = frag_now_fix (gs_chain gs); here = Some (frag_now (gs_chain gs))
      in case symbol_find name gs of
           (Some i, gs) \<Rightarrow>
             let r = real_symbol gs i
             in if is_local_symbol gs i then Inr (colon_local name i gs)
                else if \<not> (S_IS_DEFINED (the_symbol gs i) \<or> symbol_equated_p gs i) \<or> S_IS_COMMON gs i
                then and_then (colon_undefined name r gs) (\<lambda>gs. Inr (r, gs))
                else colon_again name r gs
         | (None, gs) \<Rightarrow>
             if bfd_elf_is_local_label_name name then Inr (local_symbol_make name (gs_seg gs) fix here gs)
             else let (i, gs) = symbol_new name (gs_seg gs) fix here gs in Inr (i, symbol_table_insert i gs))"

subsection \<open>The tables of symbols\<close>

text \<open>The symbol a name stands for.\<close>

definition symbol_named :: "gas_state \<Rightarrow> string \<Rightarrow> nat option" where
  "symbol_named gs name =
     (case hash_abs (gs_local_hash gs) name of Some (Some i) \<Rightarrow> Some i | _ \<Rightarrow> hash_abs (gs_sy_hash gs) name)"

definition symtab_inv :: "gas_state \<Rightarrow> bool" where
  "symtab_inv gs \<longleftrightarrow> hash_inv (gs_sy_hash gs) \<and> hash_inv (gs_local_hash gs)"

lemma symbol_named_cong:
  "hash_abs (gs_local_hash g) = hash_abs (gs_local_hash gs) \<Longrightarrow> hash_abs (gs_sy_hash g) = hash_abs (gs_sy_hash gs) \<Longrightarrow>
    symbol_named g = symbol_named gs"
  by (rule ext) (simp add: symbol_named_def cong: option.case_cong)

lemma symbol_find_spec:
  assumes "symtab_inv gs" and "symbol_find name gs = (r, gs')"
  shows "r = symbol_named gs name" "symtab_inv gs'" "symbol_named gs' = symbol_named gs"
    "\<exists>l h. gs' = gs\<lparr>gs_local_hash := l, gs_sy_hash := h\<rparr>"
proof -
  have inv: "hash_inv (gs_local_hash gs)" "hash_inv (gs_sy_hash gs)" using assms(1) by (simp_all add: symtab_inv_def)
  obtain r1 l where l: "hash_find (gs_local_hash gs) name = (r1, l)" by fastforce
  obtain r2 h where h: "hash_find (gs_sy_hash gs) name = (r2, h)" by fastforce
  note l' = gas_table.find_result [OF inv(1), of name] gas_table.find_inv [OF inv(1), of name]
    gas_table.find_abs [OF inv(1), of name]
  note h' = gas_table.find_result [OF inv(2), of name] gas_table.find_inv [OF inv(2), of name]
    gas_table.find_abs [OF inv(2), of name]
  have g: "(\<exists>i. r1 = Some (Some i) \<and> r = Some i \<and> gs' = gs\<lparr>gs_local_hash := l\<rparr>) \<or>
      (\<forall>i. r1 \<noteq> Some (Some i)) \<and> r = r2 \<and> gs' = gs\<lparr>gs_local_hash := l, gs_sy_hash := h\<rparr>"
    using assms(2) l h by (auto simp: symbol_find_def symbol_find_exact_def Let_def split: option.splits)
  show "r = symbol_named gs name"
    using g l l' h h' by (auto simp: symbol_named_def split: option.splits)
  show "symtab_inv gs'" "symbol_named gs' = symbol_named gs"
    using g l l' h h' inv by (auto simp: symtab_inv_def intro!: symbol_named_cong)
  show "\<exists>l h. gs' = gs\<lparr>gs_local_hash := l, gs_sy_hash := h\<rparr>"
    using g by (elim disjE exE conjE) (rule exI [of _ l], rule exI [of _ "gs_sy_hash gs"], simp, blast)
qed

lemma local_symbol_make_spec:
  assumes "symtab_inv gs" and "local_symbol_make name seg val frag gs = (i, gs')"
  shows "symtab_inv gs'" and "symbol_named gs' = (symbol_named gs)(name \<mapsto> i)" and "i = length (gs_symbols gs)"
    and "gs_symbols gs' = gs_symbols gs @ [plain_symbol name seg val frag True]"
    and "gs_tc gs' = gs_tc gs" and "gs_seg gs' = gs_seg gs" and "gs_chain gs' = gs_chain gs"
  using assms hash_jam_spec [of "gs_local_hash gs" name "Some (length (gs_symbols gs))"]
  by (auto simp: local_symbol_make_def new_symbol_def Let_def symtab_inv_def symbol_named_def fun_eq_iff
      cong: option.case_cong)

lemma symbol_new_insert_spec:
  assumes "symtab_inv gs" and "symbol_new name seg val frag gs = (i, g1)" and "gs' = symbol_table_insert i g1"
    and "\<nexists>j. hash_abs (gs_local_hash gs) name = Some (Some j)"
  shows "symtab_inv gs'" and "symbol_named gs' = (symbol_named gs)(name \<mapsto> i)" and "i = length (gs_symbols gs)"
    and "gs_symbols gs' = gs_symbols gs @ [plain_symbol name seg val frag False]"
    and "gs_tc gs' = gs_tc gs" and "gs_seg gs' = gs_seg gs" and "gs_chain gs' = gs_chain gs"
proof -
  have g1: "i = length (gs_symbols gs)" "gs_symbols g1 = gs_symbols gs @ [plain_symbol name seg val frag False]"
    "gs_sy_hash g1 = gs_sy_hash gs" "gs_local_hash g1 = gs_local_hash gs" "gs_tc g1 = gs_tc gs" "gs_seg g1 = gs_seg gs"
    "gs_chain g1 = gs_chain gs"
    using assms(2) by (auto simp: symbol_new_def symbol_create_def new_symbol_def)
  then have real: "real_symbol g1 i = i" "\<not> is_local_symbol g1 i" "S_GET_NAME g1 i = name"
    by (simp_all add: real_symbol_def is_local_symbol_def LOCAL_SYMBOL_CHECK_def S_GET_NAME_def the_symbol_def
        nth_append blank_symbol_def)
  have gs': "gs' = g1\<lparr>gs_sy_hash := snd (hash_jam (gs_sy_hash gs) name i)\<rparr>"
    using assms(3) real by (simp add: symbol_table_insert_def g1)
  have inv: "hash_inv (gs_sy_hash gs)" "hash_inv (gs_local_hash gs)" using assms(1) by (simp_all add: symtab_inv_def)
  show "symtab_inv gs'" "i = length (gs_symbols gs)" "gs_tc gs' = gs_tc gs" "gs_seg gs' = gs_seg gs"
    "gs_chain gs' = gs_chain gs" "gs_symbols gs' = gs_symbols gs @ [plain_symbol name seg val frag False]"
    using hash_jam_spec [OF inv(1), of name i] inv g1 by (simp_all add: gs' symtab_inv_def)
  show "symbol_named gs' = (symbol_named gs)(name \<mapsto> i)"
    using hash_jam_spec [OF inv(1), of name i] assms(4)
    by (auto simp: gs' g1 symbol_named_def fun_eq_iff split: option.splits cong: option.case_cong)
qed

lemma symbol_named_None:
  "symbol_named gs name = None \<Longrightarrow> \<nexists>j. hash_abs (gs_local_hash gs) name = Some (Some j)"
  by (auto simp: symbol_named_def)

subsection \<open>What a label does\<close>

text \<open>The place a symbol names, as a section, a fragment and an offset in it.\<close>

definition names_place :: "gas_state \<Rightarrow> nat \<Rightarrow> segT \<Rightarrow> nat option \<Rightarrow> valueT \<Rightarrow> bool" where
  "names_place gs i seg frag val \<longleftrightarrow> i < length (gs_symbols gs) \<and> S_GET_SEGMENT gs i = seg \<and>
     symbol_get_frag gs i = frag \<and> X_op (sy_value (the_symbol gs i)) = O_constant \<and>
     X_add_number (sy_value (the_symbol gs i)) = val"

definition names_here :: "gas_state \<Rightarrow> nat \<Rightarrow> bool" where
  "names_here gs i \<longleftrightarrow> names_place gs i (gs_seg gs) (Some (frag_now (gs_chain gs))) (frag_now_fix (gs_chain gs))"

lemma blank_symbol_simps [simp]:
  "sy_name (blank_symbol n seg e f l) = n" "sy_segment (blank_symbol n seg e f l) = seg"
  "sy_value (blank_symbol n seg e f l) = e" "sy_frag (blank_symbol n seg e f l) = f"
  "sy_local (blank_symbol n seg e f l) = l" "sy_real (blank_symbol n seg e f l) = None"
  "sy_resolved (blank_symbol n seg e f l) = False" "sy_resolving (blank_symbol n seg e f l) = False"
  by (simp_all add: blank_symbol_def)

lemma colon_fresh:
  assumes inv: "symtab_inv gs" and new: "symbol_named gs name = None"
  shows "\<exists>i gs'. colon name gs = Inr (i, gs') \<and> symtab_inv gs' \<and> symbol_named gs' = (symbol_named gs)(name \<mapsto> i) \<and>
    names_here gs' i \<and> gs_tc gs' = gs_tc gs \<and> gs_seg gs' = gs_seg gs \<and> gs_chain gs' = gs_chain gs \<and>
    (\<exists>s. gs_symbols gs' = gs_symbols gs @ [s] \<and> sy_name s = name)"
proof -
  define g where "g = (if bfd_elf_is_local_label_name name then gs else gs\<lparr>gs_dollar := dollar_label_clear (gs_dollar gs)\<rparr>)"
  have g: "symtab_inv g" "symbol_named g = symbol_named gs" "gs_symbols g = gs_symbols gs" "gs_tc g = gs_tc gs"
    "gs_seg g = gs_seg gs" "gs_chain g = gs_chain gs"
    using inv by (auto simp: g_def symtab_inv_def intro!: symbol_named_cong)
  obtain r g1 where find: "symbol_find name g = (r, g1)" by fastforce
  note f = symbol_find_spec [OF g(1) find]
  have r: "r = None" using f(1) g(2) new by simp
  have g1: "gs_symbols g1 = gs_symbols gs" "gs_tc g1 = gs_tc gs" "gs_seg g1 = gs_seg gs" "gs_chain g1 = gs_chain gs"
    "symbol_named g1 = symbol_named gs"
    using f(3,4) g by auto
  let ?here = "Some (frag_now (gs_chain gs))" and ?fix = "frag_now_fix (gs_chain gs)"
  show ?thesis
  proof (cases "bfd_elf_is_local_label_name name")
    case True
    obtain i gs' where l: "local_symbol_make name (gs_seg gs) ?fix ?here g1 = (i, gs')" by fastforce
    have "colon name gs = Inr (i, gs')"
      using find l True r g1 by (simp add: colon_def flip: g_def) (simp add: g g_def)
    then show ?thesis
      using local_symbol_make_spec [OF f(2) l] g1
      by (auto simp: names_here_def names_place_def S_GET_SEGMENT_def symbol_get_frag_def the_symbol_def
          real_symbol_def LOCAL_SYMBOL_CHECK_def nth_append)
  next
    case False
    obtain i g2 where n: "symbol_new name (gs_seg gs) ?fix ?here g1 = (i, g2)" by fastforce
    have "colon name gs = Inr (i, symbol_table_insert i g2)"
      using find n False r g1 by (simp add: colon_def flip: g_def) (simp add: g g_def)
    then show ?thesis
      using symbol_new_insert_spec [OF f(2) n refl symbol_named_None] g1 new
      by (auto simp: names_here_def names_place_def S_GET_SEGMENT_def symbol_get_frag_def the_symbol_def
          real_symbol_def LOCAL_SYMBOL_CHECK_def nth_append)
  qed
qed

text \<open>
  A symbol that is only referenced so far, as \<open>symbol_find_or_make\<close> makes it.
\<close>

definition referenced_only :: "gas_state \<Rightarrow> nat \<Rightarrow> bool" where
  "referenced_only gs i \<longleftrightarrow> i < length (gs_symbols gs) \<and>
     (let s = gs_symbols gs ! i in sy_segment s = Undefined_section \<and> sy_frag s = None \<and> sy_real s = None \<and>
        X_op (sy_value s) = O_constant \<and> X_add_number (sy_value s) = 0 \<and>
        \<not> sy_resolved s \<and> \<not> sy_resolving s)"

lemma symbol_simps [simp]:
  "sy_real (gs_symbols gs ! i) = None \<Longrightarrow> real_symbol gs i = i"
  "sy_real (gs_symbols gs ! i) = None \<Longrightarrow> is_local_symbol gs i = sy_local (gs_symbols gs ! i)"
  "sy_real (gs_symbols gs ! i) = None \<Longrightarrow> the_symbol gs i = gs_symbols gs ! i"
  by (simp_all add: real_symbol_def is_local_symbol_def LOCAL_SYMBOL_CHECK_def the_symbol_def Let_def)

lemma undefined_value:
  assumes "referenced_only gs i" and "\<not> sy_local (gs_symbols gs ! i)" and "\<not> gs_finalize_syms gs"
  shows "S_GET_VALUE i gs = Inr (0, gs)"
proof -
  have res: "resolve_symbol_value (symbol_fuel gs) i gs = Inr (0, gs)"
    using assms by (simp add: symbol_fuel_def resolve_symbol_value.simps(2) referenced_only_def Let_def resolve_case_def
        finish_resolution_def set_resolving_def update_symbol_def frag_at_def list_update_same_conv)
  show ?thesis using assms by (simp add: S_GET_VALUE_def res referenced_only_def symbol_at_def Let_def)
qed

lemma colon_find:
  assumes "symtab_inv gs" and "symbol_named gs name = Some i"
  obtains g where "symbol_find name (if bfd_elf_is_local_label_name name then gs
      else gs\<lparr>gs_dollar := dollar_label_clear (gs_dollar gs)\<rparr>) = (Some i, g)"
    and "gs_symbols g = gs_symbols gs" "gs_tc g = gs_tc gs" "gs_seg g = gs_seg gs" "gs_chain g = gs_chain gs"
    and "symbol_named g = symbol_named gs" "symtab_inv g" "gs_finalize_syms g = gs_finalize_syms gs"
    and "gs_dot_symbol g = gs_dot_symbol gs"
proof -
  let ?g = "if bfd_elf_is_local_label_name name then gs else gs\<lparr>gs_dollar := dollar_label_clear (gs_dollar gs)\<rparr>"
  obtain r g1 where find: "symbol_find name ?g = (r, g1)" by fastforce
  have g: "symtab_inv ?g" "symbol_named ?g = symbol_named gs"
    using assms(1) by (auto simp: symtab_inv_def intro!: symbol_named_cong)
  note f = symbol_find_spec [OF g(1) find]
  show thesis
  proof
    show "symbol_find name ?g = (Some i, g1)" using find f(1) g(2) assms(2) by simp
    show "symbol_named g1 = symbol_named gs" "symtab_inv g1" using f(2,3) g(2) by simp_all
    obtain l h where "g1 = ?g\<lparr>gs_local_hash := l, gs_sy_hash := h\<rparr>" using f(4) by blast
    then show "gs_symbols g1 = gs_symbols gs" "gs_tc g1 = gs_tc gs" "gs_seg g1 = gs_seg gs" "gs_chain g1 = gs_chain gs"
      "gs_finalize_syms g1 = gs_finalize_syms gs" "gs_dot_symbol g1 = gs_dot_symbol gs"
      by simp_all
  qed
qed

lemma update_symbol_keeps [simp]:
  "symbol_named (update_symbol i f gs) = symbol_named gs" "symtab_inv (update_symbol i f gs) = symtab_inv gs"
  "gs_tc (update_symbol i f gs) = gs_tc gs" "gs_seg (update_symbol i f gs) = gs_seg gs"
  "gs_chain (update_symbol i f gs) = gs_chain gs" "gs_dot_symbol (update_symbol i f gs) = gs_dot_symbol gs"
  by (rule symbol_named_cong) (simp_all add: update_symbol_def symtab_inv_def)

lemma define_sym_at_dot_spec:
  assumes "i < length (gs_symbols gs)" and "sy_real (gs_symbols gs ! i) = None" and "\<not> sy_local (gs_symbols gs ! i)"
  shows "define_sym_at_dot i gs = Inr (update_symbol i (\<lambda>s. s\<lparr>sy_frag := Some (frag_now (gs_chain gs)),
    sy_value := (sy_value s)\<lparr>X_op := O_constant, X_add_number := frag_now_fix (gs_chain gs), X_unsigned := False\<rparr>,
    sy_segment := gs_seg gs\<rparr>) gs)"
proof -
  let ?g1 = "update_symbol i (\<lambda>s. s\<lparr>sy_frag := Some (frag_now (gs_chain gs))\<rparr>) gs"
  have 1: "real_symbol ?g1 i = i" "is_local_symbol ?g1 i = False" using assms by simp_all
  let ?g2 = "S_SET_VALUE i (frag_now_fix (gs_chain gs)) ?g1"
  have g2: "?g2 = update_symbol i (\<lambda>s. s\<lparr>sy_value := (sy_value s)\<lparr>X_op := O_constant,
      X_add_number := frag_now_fix (gs_chain gs), X_unsigned := False\<rparr>\<rparr>) ?g1"
    by (simp add: S_SET_VALUE_def 1)
  have 2: "real_symbol ?g2 i = i" "is_local_symbol ?g2 i = False" using assms by (simp_all add: g2)
  show ?thesis
  proof -
    have "define_sym_at_dot i gs = Inr (update_symbol i (\<lambda>s. s\<lparr>sy_segment := gs_seg gs\<rparr>) ?g2)"
      by (simp add: define_sym_at_dot_def S_SET_SEGMENT_def converted_symbol_def 2)
    then show ?thesis unfolding g2 using assms(1) by (simp add: update_symbol_def)
  qed
qed

lemma colon_forward:
  assumes inv: "symtab_inv gs" and named: "symbol_named gs name = Some i" and ref: "referenced_only gs i"
    and fin: "\<not> gs_finalize_syms gs"
  shows "\<exists>gs'. colon name gs = Inr (i, gs') \<and> symtab_inv gs' \<and> symbol_named gs' = symbol_named gs \<and> names_here gs' i \<and>
    gs_tc gs' = gs_tc gs \<and> length (gs_symbols gs') = length (gs_symbols gs) \<and>
    (\<forall>j. j \<noteq> i \<longrightarrow> gs_symbols gs' ! j = gs_symbols gs ! j)"
proof -
  obtain g where find: "symbol_find name (if bfd_elf_is_local_label_name name then gs
      else gs\<lparr>gs_dollar := dollar_label_clear (gs_dollar gs)\<rparr>) = (Some i, g)"
    and g: "gs_symbols g = gs_symbols gs" "gs_tc g = gs_tc gs" "gs_seg g = gs_seg gs" "gs_chain g = gs_chain gs"
      "gs_finalize_syms g = gs_finalize_syms gs" "gs_dot_symbol g = gs_dot_symbol gs"
    and tab: "symbol_named g = symbol_named gs" "symtab_inv g"
    using colon_find [OF inv named] by metis
  have s: "i < length (gs_symbols gs)" "sy_segment (gs_symbols gs ! i) = Undefined_section"
    "sy_real (gs_symbols gs ! i) = None" "X_op (sy_value (gs_symbols gs ! i)) = O_constant"
    using ref by (simp_all add: referenced_only_def Let_def)
  have ref': "referenced_only g i" using ref by (simp add: referenced_only_def g)
  show ?thesis
  proof (cases "sy_local (gs_symbols gs ! i)")
    case True
    have "colon name gs = Inr (colon_local name i g)"
      using find True s by (simp add: colon_def g)
    then show ?thesis
      using s True by (simp add: colon_local_def g Let_def tab names_here_def names_place_def S_GET_SEGMENT_def symbol_get_frag_def)
  next
    case False
    have "colon name gs = and_then (colon_undefined name i g) (\<lambda>gs. Inr (i, gs))"
      using find False s by (simp add: colon_def g S_IS_DEFINED_def symbol_equated_p_def S_IS_COMMON_def S_GET_SEGMENT_def)
    also have "colon_undefined name i g = define_sym_at_dot i g"
      using undefined_value [OF ref'] False fin by (simp add: colon_undefined_def g)
    also have "\<dots> = Inr (update_symbol i (\<lambda>s. s\<lparr>sy_frag := Some (frag_now (gs_chain gs)),
        sy_value := (sy_value s)\<lparr>X_op := O_constant, X_add_number := frag_now_fix (gs_chain gs), X_unsigned := False\<rparr>,
        sy_segment := gs_seg gs\<rparr>) g)"
      using define_sym_at_dot_spec [of i g] s False by (simp add: g)
    finally show ?thesis
      using s False by (simp add: tab names_here_def names_place_def S_GET_SEGMENT_def symbol_get_frag_def g)
  qed
qed

text \<open>A symbol that is defined, as a label or as a constant, in another fragment than the current one.\<close>

definition defined_elsewhere :: "gas_state \<Rightarrow> nat \<Rightarrow> bool" where
  "defined_elsewhere gs i \<longleftrightarrow> i < length (gs_symbols gs) \<and> i \<noteq> gs_dot_symbol gs \<and>
     (let s = gs_symbols gs ! i in S_IS_DEFINED s \<and> sy_segment s \<noteq> Common_section \<and> sy_real s = None \<and>
        sy_frag s \<noteq> Some (frag_now (gs_chain gs)))"

lemma gs_bad_keeps [simp]:
  "symbol_named (gs_bad d gs) = symbol_named gs" "symtab_inv (gs_bad d gs) = symtab_inv gs"
  "gs_seg (gs_bad d gs) = gs_seg gs" "gs_chain (gs_bad d gs) = gs_chain gs" "gs_dot_symbol (gs_bad d gs) = gs_dot_symbol gs"
  "gs_tc (gs_bad d gs) = as_bad d (gs_tc gs)"
  by (rule symbol_named_cong) (simp_all add: gs_bad_def symtab_inv_def)

lemma symbol_clone_spec:
  assumes "i < length (gs_symbols gs)" and "i \<noteq> gs_dot_symbol gs" and "sy_real (gs_symbols gs ! i) = None"
    and "\<not> sy_local (gs_symbols gs ! i)"
  shows "\<exists>gs'. symbol_clone i False gs = Inr (length (gs_symbols gs), gs') \<and>
    (\<exists>s. gs_symbols gs' = gs_symbols gs @ [s] \<and> sy_real s = None \<and> \<not> sy_local s) \<and>
    symbol_named gs' = symbol_named gs \<and> symtab_inv gs' = symtab_inv gs \<and> gs_tc gs' = gs_tc gs"
proof -
  let ?s = "(gs_symbols gs ! i)\<lparr>sy_from_expr := False, sy_shadow := True\<rparr>"
  let ?g = "gs\<lparr>gs_symbols := gs_symbols gs @ [?s]\<rparr>"
  have clone: "symbol_clone i False gs = Inr (length (gs_symbols gs), S_CLEAR_EXTERNAL (length (gs_symbols gs)) ?g)"
    using assms by (simp add: symbol_clone_def converted_symbol_def new_symbol_def)
  have new: "sy_real (gs_symbols ?g ! length (gs_symbols gs)) = None" using assms by (simp add: nth_append)
  have sh: "S_CLEAR_EXTERNAL (length (gs_symbols gs)) ?g =
      (if sy_weak ?s then ?g else update_symbol (length (gs_symbols gs)) (\<lambda>s. s\<lparr>sy_global := False\<rparr>) ?g)"
    using symbol_simps [OF new] assms by (simp add: S_CLEAR_EXTERNAL_def nth_append)
  have tab: "symbol_named ?g = symbol_named gs" by (rule symbol_named_cong) simp_all
  show ?thesis unfolding clone sh using assms tab
    by (auto simp: nth_append list_update_append symtab_inv_def update_symbol_def [of _ _ ?g] intro!: symbol_named_cong)
qed

lemma colon_duplicate:
  assumes inv: "symtab_inv gs" and named: "symbol_named gs name = Some i" and def: "defined_elsewhere gs i"
  shows "\<exists>j gs'. colon name gs = Inr (j, gs') \<and> symtab_inv gs' \<and> symbol_named gs' = symbol_named gs \<and>
    gs_symbols gs' ! i = gs_symbols gs ! i \<and>
    tc_errors (gs_tc gs') = tc_errors (gs_tc gs) @ [Diag (''symbol `%s'' @ CHR 0x27 # '' is already defined'') [Str name]]"
proof -
  obtain g where find: "symbol_find name (if bfd_elf_is_local_label_name name then gs
      else gs\<lparr>gs_dollar := dollar_label_clear (gs_dollar gs)\<rparr>) = (Some i, g)"
    and g: "gs_symbols g = gs_symbols gs" "gs_tc g = gs_tc gs" "gs_seg g = gs_seg gs" "gs_chain g = gs_chain gs"
      "gs_dot_symbol g = gs_dot_symbol gs"
    and tab: "symbol_named g = symbol_named gs" "symtab_inv g"
    using colon_find [OF inv named] by metis
  have s: "i < length (gs_symbols gs)" "S_IS_DEFINED (gs_symbols gs ! i)" "sy_segment (gs_symbols gs ! i) \<noteq> Common_section"
    "sy_real (gs_symbols gs ! i) = None" "sy_frag (gs_symbols gs ! i) \<noteq> Some (frag_now (gs_chain gs))"
    "i \<noteq> gs_dot_symbol gs"
    using def by (simp_all add: defined_elsewhere_def Let_def)
  show ?thesis
  proof (cases "sy_local (gs_symbols gs ! i)")
    case True
    have "colon name gs = Inr (colon_local name i g)"
      using find True s by (simp add: colon_def g)
    then show ?thesis
      using s by (simp add: colon_local_def g Let_def tab S_IS_DEFINED_def already_defined_def as_bad_def)
  next
    case False
    let ?g = "already_defined name g"
    have bad: "gs_symbols ?g = gs_symbols gs" "gs_dot_symbol ?g = gs_dot_symbol gs" "symbol_named ?g = symbol_named gs"
      "symtab_inv ?g" "tc_errors (gs_tc ?g) = tc_errors (gs_tc gs) @
        [Diag (''symbol `%s'' @ CHR 0x27 # '' is already defined'') [Str name]]"
      by (simp_all add: already_defined_def g tab as_bad_def)
    have "colon name gs = colon_again name i g"
      using find False s by (simp add: colon_def g S_IS_COMMON_def S_GET_SEGMENT_def)
    moreover obtain g2 t where c: "symbol_clone i False ?g = Inr (length (gs_symbols gs), g2)"
      and t: "gs_symbols g2 = gs_symbols gs @ [t]" "sy_real t = None" "\<not> sy_local t"
      and g2: "symbol_named g2 = symbol_named gs" "symtab_inv g2" "gs_tc g2 = gs_tc ?g"
      using symbol_clone_spec [of i ?g] s False bad by auto
    moreover have "\<exists>f. define_sym_at_dot (length (gs_symbols gs)) g2 = Inr (update_symbol (length (gs_symbols gs)) f g2)"
      using define_sym_at_dot_spec [of "length (gs_symbols gs)" g2] t by (auto simp: nth_append)
    ultimately show ?thesis
      using s by (auto simp: colon_again_def g bad nth_append)
  qed
qed

end
