(* ===== verification/ExprConst.thy ===== *)
theory ExprConst
  imports LabelDefs
begin

text \<open>
  The numbers of \<open>gas/expr.c\<close>: \<open>integer_constant\<close> with its two ways of reading digits, the
  references to numeric labels it also reads, and \<open>floating_constant\<close>.

  The pointer into the line is the rest of the line. \<open>atof_generic\<close> is an argument: from the text
  and the littlenums it overwrites it makes an error code, the text behind the number, the
  number and the littlenums, which lie in the same array as a big integer.
\<close>

type_synonym atof = "string \<Rightarrow> 16 word list \<Rightarrow> u32 \<times> string \<times> flonum \<times> 16 word list"

abbreviation (input) SIZE_OF_LARGE_NUMBER :: nat where "SIZE_OF_LARGE_NUMBER \<equiv> 20"

subsection \<open>Digits\<close>

definition hex_value :: "char \<Rightarrow> nat" where
  "hex_value c =
     (let n = of_char c :: nat
      in if 48 \<le> n \<and> n \<le> 57 then n - 48
         else if 65 \<le> n \<and> n \<le> 70 then n - 55
         else if 97 \<le> n \<and> n \<le> 102 then n - 87
         else 99)"

definition is_digit :: "nat \<Rightarrow> char \<Rightarrow> bool" where
  "is_digit radix c \<longleftrightarrow> hex_value c < radix"

text \<open>The number in the width of a \<open>valueT\<close>.\<close>

definition digits_valueT :: "nat \<Rightarrow> string \<Rightarrow> valueT" where
  "digits_valueT radix ds = foldl (\<lambda>n c. n * word_of_nat radix + word_of_nat (hex_value c)) 0 ds"

definition too_many_digits :: "nat \<Rightarrow> nat" where
  "too_many_digits radix =
     (if radix = 2 then 32 + 1 else if radix = 8 then (32 + 2) div 3 + 1
      else if radix = 16 then (32 + 3) div 4 + 1 else if radix = 10 then (32 + 11) div 4 else 0)"

text \<open>
  A bignum the hard way, least significant littlenum first: every digit multiplies all littlenums
  in use and adds itself; the last carry makes a new littlenum as long as there is room.
\<close>

fun mul_add :: "nat \<Rightarrow> nat \<Rightarrow> 16 word list \<Rightarrow> 16 word list \<times> nat" where
  "mul_add radix carry [] = ([], carry)"
| "mul_add radix carry (x # xs) =
     (let work = carry + radix * unat x; (ys, c) = mul_add radix (work div 65536) xs
      in (word_of_nat (work mod 65536) # ys, c))"

definition bignum_digit :: "nat \<Rightarrow> 16 word list \<Rightarrow> char \<Rightarrow> 16 word list" where
  "bignum_digit radix xs c =
     (let (ys, carry) = mul_add radix (hex_value c) xs
      in if carry \<noteq> 0 \<and> length ys < SIZE_OF_LARGE_NUMBER then ys @ [word_of_nat carry] else ys)"

definition digits_bignum :: "nat \<Rightarrow> string \<Rightarrow> 16 word list" where
  "digits_bignum radix ds = foldl (bignum_digit radix) [0] ds"

definition generic_bignum_to_int32 :: "16 word list \<Rightarrow> valueT" where
  "generic_bignum_to_int32 big = push_bit 16 (ucast (big ! 1)) OR ucast (big ! 0)"

text \<open>What the digits give: a value of 32 bits, or the number of littlenums of a bignum.\<close>

definition long_number :: "nat \<Rightarrow> string \<Rightarrow> gas_state \<Rightarrow> bool \<times> valueT \<times> gas_state" where
  "long_number radix ds gs =
     (let xs = digits_bignum radix ds; big = xs @ drop (length xs) ([0, 0, 0, 0] @ drop 4 (gs_bignum gs));
          gs = gs\<lparr>gs_bignum := big\<rparr>
      in if length xs \<le> 2 then (True, generic_bignum_to_int32 big, gs) else (False, word_of_nat (length xs), gs))"

subsection \<open>Bignums with underscores\<close>

definition bignum_word :: "nat \<Rightarrow> valueT \<Rightarrow> 16 word list \<Rightarrow> 16 word list" where
  "bignum_word num_little_digits number big =
     (let m = min (num_little_digits + 1) (SIZE_OF_LARGE_NUMBER - 1)
      in [ucast number, ucast (drop_bit 16 number)] @ take (m - 1) big @ drop (m + 1) big)"

lemma dropWhile_shorter: "dropWhile P s = c # r \<Longrightarrow> length r < length s"
  using length_dropWhile_le [of P s] by simp

function underscore_words :: "string \<Rightarrow> nat \<Rightarrow> gas_state \<Rightarrow> string \<times> nat \<times> gas_state" where
  "underscore_words s num_little_digits gs =
     (let ds = takeWhile (is_digit 16) s; rest = dropWhile (is_digit 16) s;
          gs = (if length ds > 8
                then gs_bad (Diag ''a bignum with underscores may not have more than 8 hex digits in any word'' []) gs
                else gs);
          gs = gs\<lparr>gs_bignum := bignum_word num_little_digits (digits_valueT 16 ds) (gs_bignum gs)\<rparr>
      in case rest of
           c # rest' \<Rightarrow> if c = CHR ''_'' then underscore_words rest' (num_little_digits + 2) gs
                        else (rest, num_little_digits + 2, gs)
         | [] \<Rightarrow> (rest, num_little_digits + 2, gs))"
  by pat_completeness auto
termination
  by (relation "measure (\<lambda>(s, n, gs). length s)") (auto dest: dropWhile_shorter [OF sym])

declare underscore_words.simps [simp del]

fun trim_littlenums :: "16 word list \<Rightarrow> nat \<Rightarrow> nat" where
  "trim_littlenums big 0 = 0"
| "trim_littlenums big (Suc n) = (if n \<noteq> 0 \<and> big ! n = 0 then trim_littlenums big n else Suc n)"

definition underscore_number :: "string \<Rightarrow> gas_state \<Rightarrow> (bool \<times> valueT \<times> string \<times> gas_state) res" where
  "underscore_number start gs =
     (let (rest, n, gs) = underscore_words start 0 gs;
          n = (if n > SIZE_OF_LARGE_NUMBER - 1 then SIZE_OF_LARGE_NUMBER - 1 else n)
      in and_then (gas_assert (n \<ge> 4)) (\<lambda>_.
         let gs = (if n \<noteq> 8 then gs_bad (Diag ''a bignum with underscores must have exactly 4 words'' []) gs else gs);
             n = trim_littlenums (gs_bignum gs) n
         in Inr (if n \<le> 2 then (True, generic_bignum_to_int32 (gs_bignum gs), rest, gs)
                 else (False, word_of_nat n, rest, gs))))"

subsection \<open>\<open>integer_constant\<close>\<close>

text \<open>An operand that is empty so far; the fields that are not set are cleaned up by the caller.\<close>

definition absent_expr :: expressionS where
  "absent_expr = \<lparr>X_op = O_absent, X_add_symbol = None, X_op_symbol = None, X_add_number = 0,
     X_unsigned = True, X_extrabit = False\<rparr>"

abbreviation (input) constant_operand :: "valueT \<Rightarrow> expressionS" where
  "constant_operand v \<equiv> absent_expr\<lparr>X_op := O_constant, X_add_number := v\<rparr>"

abbreviation (input) symbol_operand :: "nat option \<Rightarrow> expressionS" where
  "symbol_operand i \<equiv> absent_expr\<lparr>X_op := O_symbol, X_add_symbol := i\<rparr>"

definition backward_label :: "valueT \<Rightarrow> gas_state \<Rightarrow> expressionS \<times> gas_state" where
  "backward_label number gs =
     (case symbol_find (fb_label_name (gs_fb gs) number 0) gs of
        (Some i, gs) \<Rightarrow> if S_IS_DEFINED (the_symbol gs i) then (symbol_operand (Some i), gs)
                        else (constant_operand 0, gs_bad (Diag ''backward ref to unknown label %d:'' [Num number]) gs)
      | (None, gs) \<Rightarrow> (constant_operand 0, gs_bad (Diag ''backward ref to unknown label %d:'' [Num number]) gs))"

definition forward_label :: "valueT \<Rightarrow> gas_state \<Rightarrow> expressionS \<times> gas_state" where
  "forward_label number gs =
     (let (i, gs) = symbol_find_or_make (fb_label_name (gs_fb gs) number 1) gs in (symbol_operand (Some i), gs))"

definition dollar_label :: "valueT \<Rightarrow> gas_state \<Rightarrow> expressionS \<times> gas_state" where
  "dollar_label number gs =
     (if dollar_label_defined (gs_dollar gs) number
      then (let (i, gs) = symbol_find (dollar_label_name (gs_dollar gs) number 0) gs in (symbol_operand i, gs))
      else (let (i, gs) = symbol_find_or_make (dollar_label_name (gs_dollar gs) number 1) gs
            in (symbol_operand (Some i), gs)))"

text \<open>\<open>c\<close>, the character after the digits, is the first one of \<open>rest\<close>.\<close>

definition after_number :: "bool \<Rightarrow> valueT \<Rightarrow> string \<Rightarrow> gas_state \<Rightarrow> expressionS \<times> string \<times> gas_state" where
  "after_number small number rest gs =
     (let rest = (if c_char rest = CHR ''U'' \<or> c_char rest = CHR ''u'' then tl rest else rest);
          rest = dropWhile (\<lambda>c. c = CHR ''L'' \<or> c = CHR ''l'') rest; c = c_char rest
      in if small
         then (if c = CHR ''b'' then (let (e, gs) = backward_label number gs in (e, tl rest, gs))
               else if c = CHR ''f'' then (let (e, gs) = forward_label number gs in (e, tl rest, gs))
               else if c = CHR ''$'' then (let (e, gs) = dollar_label number gs in (e, tl rest, gs))
               else (constant_operand number, rest, gs))
         else (absent_expr\<lparr>X_op := O_big, X_add_number := number\<rparr>, rest, gs))"

definition integer_constant :: "nat \<Rightarrow> string \<Rightarrow> gas_state \<Rightarrow> (expressionS \<times> string \<times> gas_state) res" where
  "integer_constant radix start gs =
     (if is_end_of_line (c_char start) then Inr (absent_expr, start, gs)
      else
        let ds = takeWhile (is_digit radix) start; rest = dropWhile (is_digit radix) start
        in if radix = 16 \<and> c_char rest = CHR ''_''
           then and_then (underscore_number start gs) (\<lambda>(small, number, rest, gs).
                Inr (after_number small number rest gs))
           else if length ds < too_many_digits radix
           then Inr (after_number True (digits_valueT radix ds) rest gs)
           else let (small, number, gs) = long_number radix ds gs in Inr (after_number small number rest gs))"

subsection \<open>\<open>floating_constant\<close>\<close>

definition floating_constant :: "atof \<Rightarrow> string \<Rightarrow> gas_state \<Rightarrow> expressionS \<times> string \<times> gas_state" where
  "floating_constant atof s gs =
     (let (error_code, rest, flo, big) = atof s (gs_bignum gs); gs = gs\<lparr>gs_flonum := flo, gs_bignum := big\<rparr>;
          gs = (if error_code = 0 then gs
                else if error_code = 2
                then gs_bad (Diag ''bad floating-point constant: exponent overflow'' []) gs
                else gs_bad (Diag ''bad floating-point constant: unknown error code=%d'' [Num error_code]) gs)
      in (absent_expr\<lparr>X_op := O_big, X_add_number := - 1\<rparr>, rest, gs))"

end
