(* ===== verification/Expr.thy ===== *)
theory Expr
  imports ExprConst
begin

text \<open>
  The expression parser of \<open>gas/expr.c\<close>: operands, operators with their ranks, and the
  recursive descent \<open>expr\<close>. The recursion takes fuel, and twice the length of the text is
  enough (\<open>ExprFuel\<close>). The address of the symbol \<open>dot_symbol\<close> is \<open>gs_dot_symbol\<close>.

  The comparison \<open>md_allow_local_subtract\<close> is constantly false for the target, which has no
  operators, names or operands of its own, and the index operator is off, so the code for these
  is dead. A name in quotes ends at a quote not preceded by a backslash.
\<close>

subsection \<open>Names\<close>

definition skip_whitespace :: "string \<Rightarrow> string" where
  "skip_whitespace s = (if c_char s = CHR '' '' then tl s else s)"

definition skip_all_whitespace :: "string \<Rightarrow> string" where
  "skip_all_whitespace s = dropWhile (\<lambda>c. c = CHR '' '') s"

fun quoted_name :: "bool \<Rightarrow> string \<Rightarrow> string \<times> string" where
  "quoted_name backslash_seen [] = ([], [])"
| "quoted_name backslash_seen (c # s) =
     (if c = CHR 0x22 \<and> \<not> backslash_seen then ([], c # s)
      else let (name, rest) = quoted_name (c = CHR 0x5C) s in (c # name, rest))"

text \<open>
  The name, and the line from the character behind it on, which \<open>restore_line_pointer\<close> puts
  back and skips if it is a quote. No character ends a name by being part of it.
\<close>

definition get_symbol_name :: "string \<Rightarrow> gas_state \<Rightarrow> string \<times> string \<times> gas_state" where
  "get_symbol_name s gs =
     (case s of
        [] \<Rightarrow> ([], [], gs)
      | c # cs \<Rightarrow>
          if is_name_beginner c then (c # takeWhile is_part_of_name cs, dropWhile is_part_of_name cs, gs)
          else if c = CHR 0x22
          then (let (name, rest) = quoted_name False cs
                in (name, rest, if rest = [] then gs_warn (Diag (''missing closing '' @ [CHR 0x27, CHR 0x22, CHR 0x27]) []) gs
                                else gs))
          else ([], s, gs))"

definition restore_line_pointer :: "string \<Rightarrow> string" where
  "restore_line_pointer rest = (if c_char rest = CHR 0x22 then tl rest else rest)"

subsection \<open>Simple operands\<close>

datatype expr_mode = Expr_evaluate | Expr_normal | Expr_defer

definition current_location :: "gas_state \<Rightarrow> expressionS" where
  "current_location gs =
     (if gs_seg gs = Absolute_section then constant_operand (fc_abs_offset (gs_chain gs))
      else symbol_operand (Some (gs_dot_symbol gs)))"

definition FLT_CHARS :: string where "FLT_CHARS = ''rRsSfFdDxXpP''"

definition float_with_prefix :: "atof \<Rightarrow> char \<Rightarrow> string \<Rightarrow> gas_state \<Rightarrow> expressionS \<times> string \<times> gas_state" where
  "float_with_prefix atof c s gs =
     (let (e, rest, gs) = floating_constant atof s gs
      in (e\<lparr>X_add_number := - word_of_nat (of_char (tolower c))\<rparr>, rest, gs))"

definition zero_default :: "atof \<Rightarrow> string \<Rightarrow> gas_state \<Rightarrow> expressionS \<times> string \<times> gas_state" where
  "zero_default atof s gs =
     (let c = c_char s
      in if c \<noteq> CHR 0x00 \<and> c \<in> set FLT_CHARS then float_with_prefix atof c (tl s) gs
         else (constant_operand 0, s, gs))"

text \<open>
  \<open>0f\<close>: a number if something is read behind it, and that does not look like an expression.
\<close>

definition zero_f :: "atof \<Rightarrow> string \<Rightarrow> string \<Rightarrow> gas_state \<Rightarrow> (expressionS \<times> string \<times> gas_state) res" where
  "zero_f atof zero s gs =
     (if is_end_of_line (c_char (tl s)) then integer_constant 10 zero gs
      else
        let (_, cp, flo, big) = atof (tl s) (gs_bignum gs); gs = gs\<lparr>gs_flonum := flo, gs_bignum := big\<rparr>
        in if cp = tl s \<or> (cp = tl (tl s) \<and> (c_char (tl s) = CHR ''-'' \<or> c_char (tl s) = CHR ''+'')) \<or>
              c_char cp = CHR ''f'' \<or> c_char cp = CHR ''b''
           then integer_constant 10 zero gs
           else Inr (float_with_prefix atof CHR ''f'' (tl s) gs))"

text \<open>After a 0: \<open>zero\<close> is the line from the 0 on, \<open>s\<close> what follows.\<close>

definition zero_operand :: "atof \<Rightarrow> string \<Rightarrow> string \<Rightarrow> gas_state \<Rightarrow> (expressionS \<times> string \<times> gas_state) res" where
  "zero_operand atof zero s gs =
     (let c = c_char s; c1 = c_char (tl s); binary = (c1 = CHR ''0'' \<or> c1 = CHR ''1'')
      in if c = CHR ''x'' \<or> c = CHR ''X'' then integer_constant 16 (tl s) gs
         else if c = CHR ''b'' \<and> \<not> binary then integer_constant 10 zero gs
         else if c = CHR ''b'' \<or> c = CHR ''B''
         then (if binary then integer_constant 2 (tl s) gs else Inr (zero_default atof s gs))
         else if is_digit 8 c then integer_constant 8 s gs
         else if c = CHR ''f'' then zero_f atof zero s gs
         else if c \<in> set ''dDFreEgG'' then Inr (float_with_prefix atof c (tl s) gs)
         else if c = CHR ''$'' then integer_constant 10 s gs
         else Inr (zero_default atof s gs))"

definition symbol_name_operand :: "expr_mode \<Rightarrow> string \<Rightarrow> gas_state \<Rightarrow> (expressionS \<times> string \<times> gas_state) res" where
  "symbol_name_operand mode s gs =
     (let (name, rest, gs) = get_symbol_name s gs; rest = restore_line_pointer rest;
          (i, gs) = symbol_find_or_make name gs; segment = S_GET_SEGMENT gs i
      in if mode \<noteq> Expr_defer \<and> segment = Absolute_section \<and> \<not> S_FORCE_RELOC gs i False
         then and_then (S_GET_VALUE i gs) (\<lambda>(val, gs). Inr (constant_operand val, rest, gs))
         else if mode \<noteq> Expr_defer \<and> segment = Reg_section
         then and_then (S_GET_VALUE i gs) (\<lambda>(val, gs).
              Inr (absent_expr\<lparr>X_op := O_register, X_add_number := val\<rparr>, rest, gs))
         else Inr (symbol_operand (Some i), rest, gs))"

text \<open>
  \<open>.startof.\<close> and \<open>.sizeof.\<close>: \<open>s\<close> is the line behind the first dot. \<open>ignore_rest_of_line\<close>
  goes behind the character that ends the line, which the text has to hold then.
\<close>

definition ignore_rest_of_line :: "string \<Rightarrow> string res" where
  "ignore_rest_of_line s =
     (case dropWhile (\<lambda>c. \<not> is_end_of_line c) s of [] \<Rightarrow> Inl Abort | c # rest \<Rightarrow> Inr rest)"

definition is_startof :: "string \<Rightarrow> bool" where
  "is_startof s \<longleftrightarrow> strcaseeq (take 8 s) ''startof.'' \<and> \<not> is_part_of_name (c_char (drop 8 s))"

definition is_sizeof :: "string \<Rightarrow> bool" where
  "is_sizeof s \<longleftrightarrow> strcaseeq (take 7 s) ''sizeof.'' \<and> \<not> is_part_of_name (c_char (drop 7 s))"

definition startof_operand :: "string \<Rightarrow> gas_state \<Rightarrow> (expressionS \<times> string \<times> gas_state) res" where
  "startof_operand s gs =
     (let start = (c_char (tl s) = CHR ''t'' \<or> c_char (tl s) = CHR ''T'');
          s = skip_whitespace (drop (if start then 8 else 7) s);
          syntax_error = Diag ''syntax error in .startof. or .sizeof.'' []
      in if c_char s \<noteq> CHR ''('' then Inr (absent_expr, s, gs_bad syntax_error gs)
         else
           let (name, rest, gs) = get_symbol_name (skip_whitespace (tl s)) gs
           in if name = []
              then (let gs = gs_bad (Diag ''expected symbol name'' []) gs
                    in if c_char rest \<noteq> CHR '')''
                       then and_then (ignore_rest_of_line (restore_line_pointer rest)) (\<lambda>rest. Inr (absent_expr, rest, gs))
                       else Inr (absent_expr, tl rest, gs))
              else
                let (i, gs) = symbol_make ((if start then ''.startof.'' else ''.sizeof.'') @ name) gs;
                    rest = skip_whitespace (restore_line_pointer rest)
                in if c_char rest \<noteq> CHR '')'' then Inr (symbol_operand (Some i), rest, gs_bad syntax_error gs)
                   else Inr (symbol_operand (Some i), tl rest, gs))"

text \<open>
  The operands without operands of their own. \<open>s\<close> begins with the character the case is for; a
  quote at the end of the text makes its NUL the value, and the pointer leaves the text.
\<close>

definition leaf_operand :: "atof \<Rightarrow> expr_mode \<Rightarrow> string \<Rightarrow> gas_state \<Rightarrow> (expressionS \<times> string \<times> gas_state) res" where
  "leaf_operand atof mode s gs =
     (let c = c_char s; s1 = tl s
      in if is_end_of_line c \<or> c = CHR '','' then Inr (absent_expr, s, gs)
         else if c = CHR ''0'' then zero_operand atof s s1 gs
         else if isdigit c then integer_constant 10 s gs
         else if c = CHR 0x27
         then (case s1 of
                 [] \<Rightarrow> Inl Abort
               | d # s2 \<Rightarrow> Inr (constant_operand (signed_take_bit 7 (of_char d)), s2, gs))
         else if c = CHR ''.'' \<and> \<not> is_part_of_name (c_char s1) then Inr (current_location gs, s1, gs)
         else if c = CHR ''.'' \<and> (is_startof s1 \<or> is_sizeof s1) then startof_operand s1 gs
         else if is_name_beginner c \<or> c = CHR 0x22 then symbol_name_operand mode s gs
         else Inr (constant_operand 0, s1, gs_bad (Diag ''bad expression'' []) gs))"

subsection \<open>The end of an operand\<close>

definition clean_up_expression :: "expressionS \<Rightarrow> expressionS" where
  "clean_up_expression e =
     (if X_op e = O_illegal \<or> X_op e = O_absent then e\<lparr>X_add_number := 0, X_add_symbol := None, X_op_symbol := None\<rparr>
      else if X_op e = O_big \<or> X_op e = O_constant \<or> X_op e = O_register
      then e\<lparr>X_add_symbol := None, X_op_symbol := None\<rparr>
      else if X_op e = O_symbol \<or> X_op e = O_uminus \<or> X_op e = O_bit_not then e\<lparr>X_op_symbol := None\<rparr>
      else e)"

definition mark_used :: "nat option \<Rightarrow> gas_state \<Rightarrow> gas_state" where
  "mark_used p gs = (case p of None \<Rightarrow> gs | Some i \<Rightarrow> symbol_mark_used i gs)"

definition operand_segment :: "expressionS \<Rightarrow> gas_state \<Rightarrow> segT res" where
  "operand_segment e gs =
     (if X_op e = O_symbol then (case X_add_symbol e of None \<Rightarrow> Inl Abort | Some i \<Rightarrow> Inr (S_GET_SEGMENT gs i))
      else if X_op e = O_register then Inr Reg_section
      else Inr Absolute_section)"

definition finish_operand :: "expr_mode \<Rightarrow> expressionS \<times> string \<times> gas_state \<Rightarrow>
    (segT \<times> expressionS \<times> string \<times> gas_state) res" where
  "finish_operand mode r =
     (let (e, s, gs) = r; e = clean_up_expression e; s = skip_all_whitespace s; gs = mark_used (X_add_symbol e) gs;
          (e, gs) = (if mode = Expr_defer then (e, gs)
                     else let (add, gs) = symbol_clone_if_forward_ref (X_add_symbol e) gs;
                              (op_sym, gs) = symbol_clone_if_forward_ref (X_op_symbol e) gs
                          in (e\<lparr>X_add_symbol := add, X_op_symbol := op_sym\<rparr>, gs))
      in and_then (operand_segment e gs) (\<lambda>seg. Inr (seg, e, s, gs)))"

subsection \<open>Unary operators and parentheses\<close>

text \<open>The negation of a bignum: the complement, extended to the size of \<open>.octa\<close>, plus one.\<close>

fun bignum_increment :: "16 word list \<Rightarrow> 16 word list" where
  "bignum_increment [] = []"
| "bignum_increment (x # xs) = (if x + 1 = 0 then 0 # bignum_increment xs else (x + 1) # xs)"

definition complement_bignum :: "nat \<Rightarrow> 16 word list \<Rightarrow> 16 word list" where
  "complement_bignum n big =
     map NOT (take n big) @ replicate (SIZE_OF_LARGE_NUMBER - n) (NOT 0) @ drop (max n SIZE_OF_LARGE_NUMBER) big"

definition negate_bignum :: "char \<Rightarrow> nat \<Rightarrow> 16 word list \<Rightarrow> 16 word list" where
  "negate_bignum c n big =
     (let big = complement_bignum n big; m = max n SIZE_OF_LARGE_NUMBER
      in if c = CHR ''-'' then bignum_increment (take m big) @ drop m big else big)"

definition unary_bignum :: "char \<Rightarrow> expressionS \<Rightarrow> gas_state \<Rightarrow> expressionS \<times> gas_state" where
  "unary_bignum c e gs =
     (let n = unat (X_add_number e)
      in if c = CHR ''~'' \<or> c = CHR ''-''
         then (e\<lparr>X_add_number := word_of_nat (max n SIZE_OF_LARGE_NUMBER)\<rparr>,
               gs\<lparr>gs_bignum := negate_bignum c n (gs_bignum gs)\<rparr>)
         else if c = CHR ''!''
         then (e\<lparr>X_add_number := of_bool (list_all (\<lambda>x. x = 0) (take n (gs_bignum gs))), X_op := O_constant,
                 X_unsigned := True, X_extrabit := False\<rparr>, gs)
         else (e, gs))"

definition unary_apply :: "char \<Rightarrow> expressionS \<Rightarrow> gas_state \<Rightarrow> expressionS \<times> gas_state" where
  "unary_apply c e gs =
     (if X_op e = O_constant
      then (let v = X_add_number e
            in (if c = CHR ''-''
                then e\<lparr>X_add_number := - v, X_unsigned := False, X_extrabit := (X_extrabit e \<noteq> (- v \<noteq> 0))\<rparr>
                else if c = CHR ''~'' then e\<lparr>X_add_number := NOT v\<rparr>
                else if c = CHR ''!'' then e\<lparr>X_add_number := of_bool (v = 0)\<rparr>
                else e, gs))
      else if X_op e = O_big \<and> X_add_number e \<le>s 0 \<and> c = CHR ''-'' \<and>
              (fl_sign (gs_flonum gs) = CHR ''+'' \<or> fl_sign (gs_flonum gs) = CHR ''P'')
      then (e, gs\<lparr>gs_flonum := (gs_flonum gs)\<lparr>fl_sign :=
                 if fl_sign (gs_flonum gs) = CHR ''+'' then CHR ''-'' else CHR ''N''\<rparr>\<rparr>)
      else if X_op e = O_big \<and> 0 <s X_add_number e then unary_bignum c e gs
      else if X_op e \<noteq> O_illegal \<and> X_op e \<noteq> O_absent
      then (if c = CHR ''+'' then (e, gs)
            else let (i, gs) = make_expr_symbol e gs
                 in (e\<lparr>X_add_symbol := i,
                       X_op := (if c = CHR ''-'' then O_uminus else if c = CHR ''~'' then O_bit_not else O_logical_not),
                       X_add_number := 0\<rparr>, gs))
      else (e, gs_warn (Diag ''Unary operator %c ignored because bad operand follows'' [Chr c]) gs))"

definition close_parenthesis :: "char \<Rightarrow> string \<Rightarrow> gas_state \<Rightarrow> string \<times> gas_state" where
  "close_parenthesis c s gs =
     (let closing = (if c = CHR ''('' then CHR '')'' else CHR '']'')
      in if c_char s \<noteq> closing
         then (skip_whitespace s,
               if c_char s \<noteq> CHR 0x00
               then gs_bad (Diag (''found '' @ [CHR 0x27] @ ''%c'' @ [CHR 0x27] @ '', expected: '' @ [CHR 0x27] @ ''%c'' @ [CHR 0x27])
                      [Chr (c_char s), Chr closing]) gs
               else gs_bad (Diag (''missing '' @ [CHR 0x27] @ ''%c'' @ [CHR 0x27]) [Chr closing]) gs)
         else (skip_whitespace (tl s), gs))"

subsection \<open>Operators\<close>

definition op_encoding :: "char \<Rightarrow> operatorT" where
  "op_encoding c =
     (if c = CHR ''!'' then O_bit_or_not else if c = CHR ''%'' then O_modulus else if c = CHR ''&'' then O_bit_and
      else if c = CHR ''*'' then O_multiply else if c = CHR ''+'' then O_add else if c = CHR ''-'' then O_subtract
      else if c = CHR ''/'' then O_divide else if c = CHR ''<'' then O_lt else if c = CHR ''>'' then O_gt
      else if c = CHR ''^'' then O_bit_exclusive_or else if c = CHR ''|'' then O_bit_inclusive_or else O_illegal)"

definition op_rank :: "operatorT \<Rightarrow> nat" where
  "op_rank op =
     (case op of
        O_uminus \<Rightarrow> 9 | O_bit_not \<Rightarrow> 9 | O_logical_not \<Rightarrow> 9
      | O_multiply \<Rightarrow> 8 | O_divide \<Rightarrow> 8 | O_modulus \<Rightarrow> 8 | O_left_shift \<Rightarrow> 8 | O_right_shift \<Rightarrow> 8
      | O_bit_inclusive_or \<Rightarrow> 7 | O_bit_or_not \<Rightarrow> 7 | O_bit_exclusive_or \<Rightarrow> 7 | O_bit_and \<Rightarrow> 7
      | O_add \<Rightarrow> 5 | O_subtract \<Rightarrow> 5
      | O_eq \<Rightarrow> 4 | O_ne \<Rightarrow> 4 | O_lt \<Rightarrow> 4 | O_le \<Rightarrow> 4 | O_ge \<Rightarrow> 4 | O_gt \<Rightarrow> 4
      | O_logical_and \<Rightarrow> 3 | O_logical_or \<Rightarrow> 2 | O_index \<Rightarrow> 1 | _ \<Rightarrow> 0)"

text \<open>The operator and the number of its characters.\<close>

definition operatorf :: "string \<Rightarrow> operatorT \<times> nat" where
  "operatorf s =
     (let c = c_char s; d = c_char (tl s)
      in if is_end_of_line c then (O_illegal, 1)
         else if c = CHR ''<''
         then (if d = CHR ''<'' then (O_left_shift, 2) else if d = CHR ''>'' then (O_ne, 2)
               else if d = CHR ''='' then (O_le, 2) else (op_encoding c, 1))
         else if c = CHR ''='' then (if d = CHR ''='' then (O_eq, 2) else (op_encoding c, 1))
         else if c = CHR ''>''
         then (if d = CHR ''>'' then (O_right_shift, 2) else if d = CHR ''='' then (O_ge, 2) else (op_encoding c, 1))
         else if c = CHR ''!''
         then (if d = CHR ''!'' then (O_bit_exclusive_or, 2) else if d = CHR ''='' then (O_ne, 2) else (op_encoding c, 1))
         else if c = CHR ''|'' then (if d = CHR ''|'' then (O_logical_or, 2) else (op_encoding c, 1))
         else if c = CHR ''&'' then (if d = CHR ''&'' then (O_logical_and, 2) else (op_encoding c, 1))
         else (op_encoding c, 1))"

text \<open>Addition and subtraction with one more bit than the word.\<close>

definition add_to_result :: "expressionS \<Rightarrow> offsetT \<Rightarrow> bool \<Rightarrow> expressionS" where
  "add_to_result e amount rhs_highbit =
     (let ures = X_add_number e
      in e\<lparr>X_add_number := ures + amount,
           X_extrabit := ((X_extrabit e \<noteq> rhs_highbit) \<noteq> (ures + amount < ures))\<rparr>)"

definition subtract_from_result :: "expressionS \<Rightarrow> offsetT \<Rightarrow> bool \<Rightarrow> expressionS" where
  "subtract_from_result e amount rhs_highbit =
     (let ures = X_add_number e
      in e\<lparr>X_add_number := ures - amount,
           X_extrabit := ((X_extrabit e \<noteq> rhs_highbit) \<noteq> (ures < amount))\<rparr>)"

text \<open>A bignum or a float as the operand of an operator.\<close>

definition zero_big :: "string \<Rightarrow> expressionS \<Rightarrow> gas_state \<Rightarrow> expressionS \<times> gas_state" where
  "zero_big side e gs =
     (if X_op e = O_big
      then (e\<lparr>X_op := O_constant, X_add_number := 0, X_add_symbol := None, X_op_symbol := None\<rparr>,
            gs_warn (Diag (side @ (if 0 <s X_add_number e then '' operand is a bignum; integer 0 assumed''
                                   else '' operand is a float; integer 0 assumed'')) []) gs)
      else (e, gs))"

definition shift_op :: "operatorT \<Rightarrow> bool" where
  "shift_op op \<longleftrightarrow> op = O_left_shift \<or> op = O_right_shift"

text \<open>Constant OP constant, apart from sums.\<close>

definition fold_constants :: "operatorT \<Rightarrow> expressionS \<Rightarrow> valueT \<Rightarrow> gas_state \<Rightarrow> (expressionS \<times> gas_state) res" where
  "fold_constants op e v gs =
     (let (v, gs) = (if v = 0 \<and> (op = O_divide \<or> op = O_modulus)
                     then (1, gs_warn (Diag ''division by zero'' []) gs) else (v, gs));
          l = X_add_number e;
          (l, v, gs) = (if \<not> v < 32 \<and> shift_op op
                        then (0, 0, gs_warn (Diag ''%s out of range (%d is not between %d and %d)''
                                 [Str ''shift count'', Num v, Num 0, Num 31]) gs)
                        else (l, v, gs))
      in and_then (if op = O_eq then Inr (truth (l = v)) else if op = O_ne then Inr (truth (l \<noteq> v))
                   else binary_value drop_bit op l v) (\<lambda>x. Inr (e\<lparr>X_add_number := x\<rparr>, gs)))"

text \<open>The segment of the result, from the segments of the operands.\<close>

definition combine_segments :: "operatorT \<Rightarrow> segT \<Rightarrow> segT \<Rightarrow> gas_state \<Rightarrow> segT \<times> gas_state" where
  "combine_segments op retval rightseg gs =
     (if retval = rightseg \<or> retval = Undefined_section then (retval, gs)
      else if rightseg = Undefined_section then (rightseg, gs)
      else if retval = Expr_section then (retval, gs)
      else if rightseg = Expr_section then (rightseg, gs)
      else if retval = Reg_section then (retval, gs)
      else if rightseg = Reg_section then (rightseg, gs)
      else if rightseg = Absolute_section then (retval, gs)
      else if retval = Absolute_section then (rightseg, gs)
      else if op = O_subtract then (retval, gs)
      else (retval, gs_bad (Diag ''operation combines symbols in different segments'' []) gs))"

text \<open>
  The common cases of an operator, and the general one, in which both operands become symbols;
  \<open>None\<close> stands for an operand without symbol where the code follows the pointer.
\<close>

definition general_case :: "operatorT \<Rightarrow> expressionS \<Rightarrow> expressionS \<Rightarrow> gas_state \<Rightarrow> expressionS \<times> gas_state" where
  "general_case op e right gs =
     (let (i, gs) = make_expr_symbol e gs; (j, gs) = make_expr_symbol right gs
      in (e\<lparr>X_add_symbol := i, X_op_symbol := j, X_op := op, X_add_number := 0, X_unsigned := True,
            X_extrabit := False\<rparr>, gs))"

definition forces_reloc :: "gas_state \<Rightarrow> nat option \<Rightarrow> bool" where
  "forces_reloc gs p = (case p of None \<Rightarrow> True | Some i \<Rightarrow> S_FORCE_RELOC gs i False)"

definition symbol_op_symbol :: "operatorT \<Rightarrow> expressionS \<Rightarrow> segT \<Rightarrow> expressionS \<Rightarrow> segT \<Rightarrow> gas_state \<Rightarrow>
    expressionS \<times> segT \<times> segT" where
  "symbol_op_symbol op e retval right rightseg gs =
     (let e' = e\<lparr>X_op := op, X_op_symbol := X_add_symbol right\<rparr>
      in if op = O_add then (add_to_result e' (X_add_number right) (X_extrabit right), retval, rightseg)
         else if op = O_subtract
         then (let e' = subtract_from_result e' (X_add_number right) (X_extrabit right)
               in if retval = rightseg \<and> SEG_NORMAL retval \<and>
                     \<not> forces_reloc gs (X_add_symbol e) \<and> \<not> forces_reloc gs (X_add_symbol right)
                  then (e', Absolute_section, Absolute_section) else (e', retval, rightseg))
         else (e', retval, rightseg))"

definition combine_operands :: "operatorT \<Rightarrow> expressionS \<Rightarrow> segT \<Rightarrow> expressionS \<Rightarrow> segT \<Rightarrow> gas_state \<Rightarrow>
    (expressionS \<times> segT \<times> segT \<times> gas_state) res" where
  "combine_operands op e retval right rightseg gs =
     (if op = O_add \<and> X_op right = O_constant
      then Inr (add_to_result e (X_add_number right) (X_extrabit right), retval, rightseg, gs)
      else if op = O_subtract \<and> X_op right = O_constant
      then Inr (subtract_from_result e (X_add_number right) (X_extrabit right), retval, rightseg, gs)
      else if op = O_add \<and> X_op e = O_constant
      then Inr (add_to_result (e\<lparr>X_op := X_op right, X_add_symbol := X_add_symbol right,
             X_op_symbol := X_op_symbol right\<rparr>) (X_add_number right) (X_extrabit right), rightseg, rightseg, gs)
      else if X_op e = O_constant \<and> X_op right = O_constant
      then and_then (fold_constants op e (X_add_number right) gs) (\<lambda>(e, gs). Inr (e, retval, rightseg, gs))
      else if X_op e = O_symbol \<and> X_op right = O_symbol \<and>
              (op = O_add \<or> op = O_subtract \<or> X_add_number e = 0 \<and> X_add_number right = 0)
      then (let (e, retval, rightseg) = symbol_op_symbol op e retval right rightseg gs
            in Inr (e, retval, rightseg, gs))
      else (let (e, gs) = general_case op e right gs in Inr (e, retval, rightseg, gs)))"

text \<open>What happens between the right operand and the next operator.\<close>

definition apply_operator :: "operatorT \<Rightarrow> expressionS \<Rightarrow> segT \<Rightarrow> expressionS \<Rightarrow> segT \<Rightarrow> gas_state \<Rightarrow>
    (expressionS \<times> segT \<times> gas_state) res" where
  "apply_operator op e retval right rightseg gs =
     (let (right, gs) = (if X_op right = O_absent
            then (right\<lparr>X_op := O_constant, X_add_number := 0, X_add_symbol := None, X_op_symbol := None\<rparr>,
                  gs_warn (Diag ''missing operand; zero assumed'' []) gs)
            else (right, gs));
          (e, gs) = zero_big ''left'' e gs; (right, gs) = zero_big ''right'' right gs
      in and_then (combine_operands op e retval right rightseg gs) (\<lambda>(e, retval, rightseg, gs).
         let (retval, gs) = combine_segments op retval rightseg gs in Inr (e, retval, gs)))"

subsection \<open>The recursion\<close>

definition unary_char :: "char \<Rightarrow> bool" where
  "unary_char c \<longleftrightarrow> c = CHR ''~'' \<or> c = CHR ''!'' \<or> c = CHR ''-'' \<or> c = CHR ''+''"

definition finish_expr :: "nat \<Rightarrow> expr_mode \<Rightarrow> segT \<times> expressionS \<times> string \<times> gas_state \<Rightarrow>
    (segT \<times> expressionS \<times> string \<times> gas_state) res" where
  "finish_expr rank mode r =
     (let (retval, e, s, gs) = r; gs = mark_used (X_add_symbol e) gs
      in and_then (if rank = 0 \<and> mode = Expr_evaluate then resolve_expression (symbol_fuel gs) e gs else Inr (Some e)) (\<lambda>r.
         let e = (case r of Some e' \<Rightarrow> e' | None \<Rightarrow> e)
         in Inr (if X_op e = O_constant then Absolute_section else retval, e, s, gs)))"

text \<open>The current place, kept for the fixups of an expression that refers to \<open>.\<close>.\<close>

definition save_dot :: "nat \<Rightarrow> gas_state \<Rightarrow> gas_state" where
  "save_dot rank gs =
     (if rank = 0 then gs\<lparr>gs_dot := (frag_now (gs_chain gs), frag_now_fix (gs_chain gs))\<rparr> else gs)"

fun operand :: "atof \<Rightarrow> expr_mode \<Rightarrow> nat \<Rightarrow> string \<Rightarrow> gas_state \<Rightarrow> (segT \<times> expressionS \<times> string \<times> gas_state) res"
  and expr :: "atof \<Rightarrow> expr_mode \<Rightarrow> nat \<Rightarrow> nat \<Rightarrow> string \<Rightarrow> gas_state \<Rightarrow>
    (segT \<times> expressionS \<times> string \<times> gas_state) res"
  and expr_loop :: "atof \<Rightarrow> expr_mode \<Rightarrow> nat \<Rightarrow> nat \<Rightarrow> segT \<Rightarrow> expressionS \<Rightarrow> string \<Rightarrow> gas_state \<Rightarrow>
    (segT \<times> expressionS \<times> string \<times> gas_state) res"
where
  "operand atof mode 0 s gs = Inl Out_of_fuel"
| "operand atof mode (Suc n) s gs =
     (let s = skip_whitespace s; c = c_char s
      in if c = CHR ''('' \<or> c = CHR ''[''
         then and_then (expr atof mode n 0 (tl s) gs) (\<lambda>(seg, e, s, gs).
              let (s, gs) = close_parenthesis c s gs in Inr (seg, e, s, gs))
         else if unary_char c
         then and_then (operand atof mode n (tl s) gs) (\<lambda>(_, e, s, gs).
              let (e, gs) = unary_apply c e gs in finish_operand mode (e, s, gs))
         else and_then (leaf_operand atof mode s gs) (finish_operand mode))"
| "expr atof mode 0 rank s gs = Inl Out_of_fuel"
| "expr atof mode (Suc n) rank s gs =
     and_then (operand atof mode n s (save_dot rank gs)) (\<lambda>(retval, e, s, gs).
     and_then (expr_loop atof mode n rank retval e s gs) (finish_expr rank mode))"
| "expr_loop atof mode 0 rank retval e s gs = Inl Out_of_fuel"
| "expr_loop atof mode (Suc n) rank retval e s gs =
     (let (op, op_chars) = operatorf s
      in if op \<noteq> O_illegal \<and> op_rank op > rank
         then and_then (expr atof mode n (op_rank op) (drop op_chars s) gs) (\<lambda>(rightseg, right, s, gs).
              and_then (apply_operator op e retval right rightseg gs) (\<lambda>(e, retval, gs).
              expr_loop atof mode n rank retval e s gs))
         else Inr (retval, e, s, gs))"

text \<open>\<open>expression\<close>, \<open>expression_and_evaluate\<close> and \<open>deferred_expression\<close>, with fuel for the text.\<close>

definition expr_fuel :: "string \<Rightarrow> nat" where
  "expr_fuel s = 2 * length s + 2"

definition parse_expression :: "atof \<Rightarrow> expr_mode \<Rightarrow> string \<Rightarrow> gas_state \<Rightarrow>
    (segT \<times> expressionS \<times> string \<times> gas_state) res" where
  "parse_expression atof mode s gs = expr atof mode (expr_fuel s) 0 s gs"

definition get_single_number :: "atof \<Rightarrow> string \<Rightarrow> gas_state \<Rightarrow> (u32 \<times> string \<times> gas_state) res" where
  "get_single_number atof s gs =
     and_then (operand atof Expr_normal (expr_fuel s) s gs) (\<lambda>(_, e, s, gs). Inr (X_add_number e, s, gs))"

text \<open>Symbols for a constant and for the current place, as debugging information wants them.\<close>

definition expr_build_uconstant :: "offsetT \<Rightarrow> gas_state \<Rightarrow> nat option \<times> gas_state" where
  "expr_build_uconstant v gs = make_expr_symbol (constant_operand v) gs"

definition expr_build_dot :: "gas_state \<Rightarrow> nat option \<times> gas_state" where
  "expr_build_dot gs = (let (i, gs) = make_expr_symbol (current_location gs) gs in symbol_clone_if_forward_ref i gs)"

end
