(* ===== verification/ExprFuel.thy ===== *)
theory ExprFuel
  imports Expr
begin

text \<open>
  The expression parser ends: it never gives text back that it has read, every operator and
  every parenthesis takes a character, and so twice the length of the text is fuel enough.
  \<open>atof_generic\<close> has to move its pointer forward for that.
\<close>

definition atof_ok :: "atof \<Rightarrow> bool" where
  "atof_ok atof \<longleftrightarrow> (\<forall>s big. length (fst (snd (atof s big))) \<le> length s)"

text \<open>A parsed operand and the text behind it, which is a part of the text before it.\<close>

definition reads :: "string \<Rightarrow> ('a \<times> string \<times> gas_state) res \<Rightarrow> bool" where
  "reads s r \<longleftrightarrow> fueled r \<and> (\<forall>e s' gs'. r = Inr (e, s', gs') \<longrightarrow> length s' \<le> length s)"

lemma reads_simps [simp]:
  "reads s (Inr (e, s', gs')) \<longleftrightarrow> length s' \<le> length s" "reads s (Inl err) \<longleftrightarrow> err \<noteq> Out_of_fuel"
  by (auto simp: reads_def)

lemma reads_pair [simp]: "reads s (Inr p) \<longleftrightarrow> length (fst (snd p)) \<le> length s"
  by (cases p) simp

lemma reads_and_then:
  "fueled r \<Longrightarrow> (\<And>a. r = Inr a \<Longrightarrow> reads s (f a)) \<Longrightarrow> reads s (and_then r f)"
  by (cases r) auto

lemma reads_if: "(b \<Longrightarrow> reads s x) \<Longrightarrow> (\<not> b \<Longrightarrow> reads s y) \<Longrightarrow> reads s (if b then x else y)"
  by simp

lemma reads_mono: "reads s r \<Longrightarrow> length s \<le> length t \<Longrightarrow> reads t r"
  by (fastforce simp: reads_def)

lemma tl_le [simp]: "length s \<le> n \<Longrightarrow> length (tl s) \<le> n"
  by simp

lemma length_dropWhile_mono: "length s \<le> n \<Longrightarrow> length (dropWhile P s) \<le> n"
  by (rule order_trans [OF length_dropWhile_le])

lemma skip_whitespace_le [simp]: "length (skip_whitespace s) \<le> length s"
  by (simp add: skip_whitespace_def)

subsection \<open>Operands\<close>

lemma underscore_words_le: "underscore_words s n gs = (s', n', gs') \<Longrightarrow> length s' \<le> length s"
proof (induction s n gs rule: underscore_words.induct)
  case (1 s n gs)
  show ?case
  proof (cases "dropWhile (is_digit 16) s")
    case Nil with 1 show ?thesis by (simp add: underscore_words.simps [of s] Let_def)
  next
    case (Cons c rest)
    then have len: "length rest < length s" by (rule dropWhile_shorter)
    show ?thesis
    proof (cases "c = CHR ''_''")
      case True
      from 1(2) Cons True have "length s' \<le> length rest"
        by (auto simp: underscore_words.simps [of s] Let_def intro: 1(1) [OF refl refl refl refl])
      with len show ?thesis by simp
    next
      case False
      with 1(2) Cons show ?thesis by (auto simp: underscore_words.simps [of s] Let_def length_dropWhile_le)
    qed
  qed
qed

lemma underscore_number_reads: "fueled (underscore_number s gs)"
  "underscore_number s gs = Inr (b, v, s', gs') \<Longrightarrow> length s' \<le> length s"
  by (auto simp: underscore_number_def Let_def and_then_Inr_iff split: prod.splits if_splits
      intro!: fueled_and_then dest: underscore_words_le)

lemma after_number_le [simp]: "length (fst (snd (after_number small v s gs))) \<le> length s"
proof -
  define t where "t = dropWhile (\<lambda>c. c = CHR ''L'' \<or> c = CHR ''l'')
    (if c_char s = CHR ''U'' \<or> c_char s = CHR ''u'' then tl s else s)"
  have t: "length t \<le> length s" unfolding t_def by (rule length_dropWhile_mono) simp
  then show ?thesis
    unfolding after_number_def Let_def t_def [symmetric]
    by (cases small) (auto simp: case_prod_beta)
qed

lemma integer_constant_reads [simp]: "reads s (integer_constant radix s gs)"
proof -
  have le: "length (fst (snd (after_number b v (dropWhile P s) g))) \<le> length s" for b v P g
    by (rule order_trans [OF after_number_le length_dropWhile_le])
  have us: "length (fst (snd (after_number b v s' g))) \<le> length s" if "length s' \<le> length s" for b v s' g
    by (rule order_trans [OF after_number_le that])
  show ?thesis
    by (auto simp: integer_constant_def Let_def case_prod_beta le us underscore_number_reads
        intro!: reads_and_then)
qed

lemma floating_constant_le: "atof_ok atof \<Longrightarrow> length (fst (snd (floating_constant atof s gs))) \<le> length s"
  by (simp add: floating_constant_def Let_def case_prod_beta atof_ok_def)

lemma float_with_prefix_le: "atof_ok atof \<Longrightarrow> length (fst (snd (float_with_prefix atof c s gs))) \<le> length s"
  by (simp add: float_with_prefix_def case_prod_beta floating_constant_le)

lemma zero_default_le: "atof_ok atof \<Longrightarrow> length (fst (snd (zero_default atof s gs))) \<le> length s"
  using float_with_prefix_le [of atof "c_char s" "tl s" gs] by (auto simp: zero_default_def Let_def)

lemma zero_operand_reads:
  assumes "atof_ok atof"
  shows "reads (z # s) (zero_operand atof (z # s) s gs)"
proof -
  have "reads (z # s) (integer_constant r (tl s) g)" "reads (z # s) (integer_constant r s g)"
    "length (fst (snd (float_with_prefix atof c (tl s) g))) \<le> Suc (length s)"
    "length (fst (snd (zero_default atof s g))) \<le> Suc (length s)" for r g c
    using reads_mono [OF integer_constant_reads, of "tl s" "z # s"] reads_mono [OF integer_constant_reads, of s "z # s"]
      float_with_prefix_le [OF assms, of c "tl s" g] zero_default_le [OF assms, of s g] by simp_all
  then show ?thesis by (simp add: zero_operand_def zero_f_def Let_def case_prod_beta)
qed

lemma quoted_name_le: "length (snd (quoted_name b s)) \<le> length s"
  by (induction b s rule: quoted_name.induct) (auto simp: case_prod_beta)

lemma get_symbol_name_le: "length (fst (snd (get_symbol_name s gs))) \<le> length s"
  using quoted_name_le [of False "tl s"]
  by (auto simp: get_symbol_name_def case_prod_beta split: list.split intro!: le_SucI length_dropWhile_le)

lemma restore_line_pointer_le [simp]: "length (restore_line_pointer s) \<le> length s"
  by (simp add: restore_line_pointer_def)

lemma symbol_name_operand_reads: "reads s (symbol_name_operand mode s gs)"
  using order_trans [OF restore_line_pointer_le get_symbol_name_le, of s gs]
  by (auto simp: symbol_name_operand_def Let_def case_prod_beta intro!: reads_and_then)

lemma ignore_rest_of_line_reads: "fueled (ignore_rest_of_line s)" "ignore_rest_of_line s = Inr t \<Longrightarrow> length t \<le> length s"
  by (auto simp: ignore_rest_of_line_def split: list.splits dest!: dropWhile_shorter)

lemma startof_operand_reads: "reads s (startof_operand s gs)"
proof -
  define t where "t = skip_whitespace (drop (if c_char (tl s) = CHR ''t'' \<or> c_char (tl s) = CHR ''T'' then 8 else 7) s)"
  have t: "length t \<le> length s" unfolding t_def by (rule order_trans [OF skip_whitespace_le]) simp
  define g where "g = get_symbol_name (skip_whitespace (tl t)) gs"
  have g: "length (fst (snd g)) \<le> length s"
    unfolding g_def using t by (intro order_trans [OF get_symbol_name_le] order_trans [OF skip_whitespace_le]) simp
  then have r: "length (restore_line_pointer (fst (snd g))) \<le> length s"
    "length (skip_whitespace (restore_line_pointer (fst (snd g)))) \<le> length s"
    by (auto intro: order_trans [OF restore_line_pointer_le] order_trans [OF skip_whitespace_le])
  have i: "length u \<le> length s" if "ignore_rest_of_line (restore_line_pointer (fst (snd g))) = Inr u" for u
    using ignore_rest_of_line_reads(2) [OF that] r(1) by simp
  show ?thesis
    unfolding startof_operand_def Let_def t_def [symmetric] g_def [symmetric] case_prod_beta
    using t g r i by (auto intro!: reads_if reads_and_then ignore_rest_of_line_reads(1))
qed

lemma leaf_operand_reads:
  assumes "atof_ok atof"
  shows "reads s (leaf_operand atof mode s gs)"
proof (cases s)
  case Nil
  then show ?thesis by (simp add: leaf_operand_def is_end_of_line_def)
next
  case (Cons c s1)
  have "reads s (startof_operand s1 gs)" by (rule reads_mono [OF startof_operand_reads]) (simp add: Cons)
  moreover have "reads s (symbol_name_operand mode s gs)" by (rule symbol_name_operand_reads)
  ultimately show ?thesis
    using zero_operand_reads [OF assms, of c s1 gs]
    by (auto simp: leaf_operand_def Cons Let_def split: list.split)
qed

subsection \<open>Operators\<close>

lemma finish_operand_rest:
  "finish_operand mode (e, s, gs) = Inr (seg, e', s', gs') \<Longrightarrow> length s' \<le> length s"
  by (auto simp: finish_operand_def Let_def case_prod_beta and_then_Inr_iff skip_all_whitespace_def length_dropWhile_le
      split: if_splits)

lemma finish_operand_fueled [simp]: "fueled (finish_operand mode r)"
  by (auto simp: finish_operand_def Let_def case_prod_beta operand_segment_def split: option.split intro!: fueled_and_then)

lemma close_parenthesis_le: "length (fst (close_parenthesis c s gs)) \<le> length s"
  using skip_whitespace_le [of s] skip_whitespace_le [of "tl s"] by (auto simp: close_parenthesis_def Let_def)

lemma fold_constants_fueled [simp]: "fueled (fold_constants op e v gs)"
  by (simp add: fold_constants_def Let_def case_prod_beta fueled_and_then)

lemma combine_operands_fueled [simp]: "fueled (combine_operands op e retval right rightseg gs)"
  unfolding combine_operands_def Let_def case_prod_beta
  by (intro fueled_if fueled_and_then fueled_simps(1) fold_constants_fueled)

lemma apply_operator_fueled [simp]: "fueled (apply_operator op e retval right rightseg gs)"
  unfolding apply_operator_def Let_def case_prod_beta
  by (intro fueled_and_then fueled_simps(1) combine_operands_fueled)

lemma finish_expr_fueled [simp]: "fueled (finish_expr rank mode r)"
  by (auto simp: finish_expr_def Let_def case_prod_beta intro!: fueled_and_then)

lemma finish_expr_rest:
  "finish_expr rank mode (seg, e, s, gs) = Inr (seg', e', s', gs') \<Longrightarrow> s' = s"
  by (auto simp: finish_expr_def Let_def and_then_Inr_iff split: if_splits)

lemma operatorf_shorter: "fst (operatorf s) \<noteq> O_illegal \<Longrightarrow> length (drop (snd (operatorf s)) s) < length s"
proof -
  assume "fst (operatorf s) \<noteq> O_illegal"
  then have "s \<noteq> []" by (auto simp: operatorf_def is_end_of_line_def)
  moreover have "snd (operatorf s) \<ge> 1" by (auto simp: operatorf_def Let_def)
  ultimately show ?thesis by (cases s) auto
qed

subsection \<open>The recursion\<close>

lemma parse_rest:
  assumes ok: "atof_ok atof"
  shows "operand atof mode n s gs = Inr (seg', e', s', gs') \<Longrightarrow> length s' \<le> length s"
    and "expr atof mode n rank s gs = Inr (seg', e', s', gs') \<Longrightarrow> length s' \<le> length s"
    and "expr_loop atof mode n rank retval e s gs = Inr (seg', e', s', gs') \<Longrightarrow> length s' \<le> length s"
proof (induction n arbitrary: s gs seg' e' s' gs' rank retval e)
  case (Suc n)
  {
    case 1
    let ?s = "skip_whitespace s"
    have le: "length ?s \<le> length s" "length (tl ?s) \<le> length s"
      using le_trans [OF diff_le_self skip_whitespace_le] by simp_all
    consider (paren) "c_char ?s = CHR ''('' \<or> c_char ?s = CHR ''[''" | (unary) "unary_char (c_char ?s)"
        "\<not> (c_char ?s = CHR ''('' \<or> c_char ?s = CHR ''['')" | (leaf) "\<not> unary_char (c_char ?s)"
        "\<not> (c_char ?s = CHR ''('' \<or> c_char ?s = CHR ''['')" by blast
    then show ?case
    proof cases
      case paren
      with 1 obtain seg e1 s1 g1 where r: "expr atof mode n 0 (tl ?s) gs = Inr (seg, e1, s1, g1)"
        and s': "s' = fst (close_parenthesis (c_char ?s) s1 g1)"
        by (auto simp: Let_def and_then_Inr_iff case_prod_beta)
      show ?thesis unfolding s' by (rule order_trans [OF close_parenthesis_le order_trans [OF Suc.IH(2) [OF r] le(2)]])
    next
      case unary
      with 1 obtain seg e1 s1 g1 where r: "operand atof mode n (tl ?s) gs = Inr (seg, e1, s1, g1)"
        and fin: "finish_operand mode (fst (unary_apply (c_char ?s) e1 g1), s1, snd (unary_apply (c_char ?s) e1 g1)) =
          Inr (seg', e', s', gs')"
        by (auto simp: Let_def and_then_Inr_iff case_prod_beta)
      show ?thesis by (rule order_trans [OF finish_operand_rest [OF fin] order_trans [OF Suc.IH(1) [OF r] le(2)]])
    next
      case leaf
      with 1 obtain e1 s1 g1 where r: "leaf_operand atof mode ?s gs = Inr (e1, s1, g1)"
        and fin: "finish_operand mode (e1, s1, g1) = Inr (seg', e', s', gs')"
        by (auto simp: Let_def and_then_Inr_iff)
      have "length s1 \<le> length ?s" using leaf_operand_reads [OF ok, of ?s mode gs] r by (simp add: reads_def)
      from order_trans [OF finish_operand_rest [OF fin] order_trans [OF this le(1)]] show ?thesis .
    qed
  next
    case 2
    then obtain seg e1 s1 g1 seg2 e2 s2 g2
      where "operand atof mode n s (save_dot rank gs) = Inr (seg, e1, s1, g1)"
        "expr_loop atof mode n rank seg e1 s1 g1 = Inr (seg2, e2, s2, g2)"
        "finish_expr rank mode (seg2, e2, s2, g2) = Inr (seg', e', s', gs')"
      by (auto simp: and_then_Inr_iff)
    then show ?case using Suc.IH(1,3) finish_expr_rest by (metis order_trans)
  next
    case 3
    obtain op k where op: "operatorf s = (op, k)" by fastforce
    show ?case
    proof (cases "op \<noteq> O_illegal \<and> op_rank op > rank")
      case True
      with 3 op obtain seg e1 s1 g1 e2 seg2 g2
        where "expr atof mode n (op_rank op) (drop k s) gs = Inr (seg, e1, s1, g1)"
          "expr_loop atof mode n rank seg2 e2 s1 g2 = Inr (seg', e', s', gs')"
        by (auto simp: and_then_Inr_iff)
      then have "length s1 \<le> length (drop k s)" "length s' \<le> length s1" using Suc.IH(2,3) by blast+
      then show ?thesis using operatorf_shorter [of s] op True by simp
    next
      case False
      with 3 op show ?thesis by (auto split: if_splits)
    qed
  }
qed simp_all

theorem parse_fueled:
  assumes ok: "atof_ok atof"
  shows "2 * length s + 1 \<le> n \<Longrightarrow> fueled (operand atof mode n s gs)"
    and "2 * length s + 2 \<le> n \<Longrightarrow> fueled (expr atof mode n rank s gs)"
    and "2 * length s + 1 \<le> n \<Longrightarrow> fueled (expr_loop atof mode n rank retval e s gs)"
proof (induction n arbitrary: s gs rank retval e)
  case (Suc n)
  {
    case 1
    let ?s = "skip_whitespace s"
    have le: "length ?s \<le> length s" by simp
    have shorter: "2 * length (tl ?s) + 2 \<le> n" if "c_char ?s \<noteq> CHR 0x00"
      using 1 le that by (cases ?s) auto
    show ?case
    proof (cases "c_char ?s = CHR ''('' \<or> c_char ?s = CHR ''[''")
      case True
      then have "fueled (expr atof mode n 0 (tl ?s) gs)" using shorter by (intro Suc.IH(2)) auto
      then show ?thesis using True by (auto simp: Let_def case_prod_beta intro!: fueled_and_then)
    next
      case paren: False
      show ?thesis
      proof (cases "unary_char (c_char ?s)")
        case True
        then have "fueled (operand atof mode n (tl ?s) gs)"
          using shorter by (intro Suc.IH(1)) (auto simp: unary_char_def)
        then show ?thesis using True paren by (auto simp: Let_def case_prod_beta intro!: fueled_and_then)
      next
        case False
        have "fueled (leaf_operand atof mode ?s gs)" using leaf_operand_reads [OF ok, of ?s] by (simp add: reads_def)
        then show ?thesis using False paren by (auto simp: Let_def intro!: fueled_and_then)
      qed
    qed
  next
    case 2
    have "fueled (expr_loop atof mode n rank seg e1 s1 g1)"
      if "operand atof mode n s (save_dot rank gs) = Inr (seg, e1, s1, g1)" for seg e1 s1 g1
      using parse_rest(1) [OF ok that] 2 by (intro Suc.IH(3)) simp
    moreover have "fueled (operand atof mode n s (save_dot rank gs))" using 2 by (intro Suc.IH(1)) simp
    ultimately show ?case by (auto intro!: fueled_and_then)
  next
    case 3
    obtain op k where op: "operatorf s = (op, k)" by fastforce
    show ?case
    proof (cases "op \<noteq> O_illegal \<and> op_rank op > rank")
      case True
      then have less: "length (drop k s) < length s" using operatorf_shorter [of s] op by simp
      then have right: "fueled (expr atof mode n (op_rank op) (drop k s) gs)" using 3 by (intro Suc.IH(2)) linarith
      have "fueled (expr_loop atof mode n rank seg2 e2 s1 g2)"
        if "expr atof mode n (op_rank op) (drop k s) gs = Inr (seg, e1, s1, g1)" for seg e1 s1 g1 seg2 e2 g2
        using parse_rest(2) [OF ok that] less 3 by (intro Suc.IH(3)) linarith
      then show ?thesis using op True right by (auto simp: case_prod_beta intro!: fueled_and_then)
    next
      case False
      with op show ?thesis by auto
    qed
  }
qed simp_all

text \<open>More fuel than enough changes nothing.\<close>

lemma and_then_more:
  "fueled (and_then r f) \<Longrightarrow> (fueled r \<Longrightarrow> r' = r) \<Longrightarrow> (\<And>a. r = Inr a \<Longrightarrow> fueled (f a) \<Longrightarrow> f' a = f a) \<Longrightarrow>
    and_then r' f' = and_then r f"
  by (cases r) (auto simp: fueled_def)

lemmas parse_steps = operand.simps(2) expr.simps(2) expr_loop.simps(2)

theorem parse_more_fuel:
  shows "fueled (operand atof mode n s gs) \<Longrightarrow> operand atof mode (Suc n) s gs = operand atof mode n s gs"
    and "fueled (expr atof mode n rank s gs) \<Longrightarrow> expr atof mode (Suc n) rank s gs = expr atof mode n rank s gs"
    and "fueled (expr_loop atof mode n rank retval e s gs) \<Longrightarrow>
      expr_loop atof mode (Suc n) rank retval e s gs = expr_loop atof mode n rank retval e s gs"
proof (induction n arbitrary: s gs rank retval e)
  case (Suc n)
  {
    case 1
    then show ?case
      unfolding operand.simps(2) [of atof mode "Suc n" s gs] operand.simps(2) [of atof mode n s gs] Let_def
      by (auto simp del: parse_steps split: if_splits intro!: and_then_more Suc.IH(1,2))
  next
    case 2
    then show ?case
      unfolding expr.simps(2) [of atof mode "Suc n" rank s gs] expr.simps(2) [of atof mode n rank s gs]
      by (auto simp del: parse_steps intro!: and_then_more Suc.IH(1,3))
  next
    case 3
    then show ?case
      unfolding expr_loop.simps(2) [of atof mode "Suc n" rank retval e s gs]
        expr_loop.simps(2) [of atof mode n rank retval e s gs] Let_def case_prod_beta
      by (auto simp del: parse_steps split: if_splits intro!: and_then_more Suc.IH(2,3))
  }
qed simp_all

lemma parse_any_fuel:
  assumes ok: "atof_ok atof"
  shows "expr atof mode (expr_fuel s + k) rank s gs = expr atof mode (expr_fuel s) rank s gs"
proof (induction k)
  case (Suc k)
  have "fueled (expr atof mode (expr_fuel s + k) rank s gs)"
    by (rule parse_fueled(2) [OF ok]) (simp add: expr_fuel_def)
  from parse_more_fuel(2) [OF this] Suc show ?case by simp
qed simp

end
