(* ===== verification/TcIp.thy ===== *)
theory TcIp
  imports TcMacro
begin

text \<open>
  The assembly of one instruction, from \<open>gas/config/tc-riscv.c\<close>: the relocation operators,
  the operand parsers, \<open>riscv_ip\<close>, which tries the table entries of a mnemonic one after the
  other, and \<open>md_assemble\<close> and \<open>s_riscv_insn\<close> above it.

  Operands are expressions of the assembler's general parser, \<open>expression ()\<close> of
  \<open>gas/expr.c\<close>; it is the argument \<open>ex\<close> here, a function from the state and the text to
  the expression, the rest of the text and the new state.
\<close>

type_synonym expr_parser = "gas_state \<Rightarrow> string \<Rightarrow> (expressionS \<times> string \<times> gas_state) res"

subsection \<open>State\<close>

text \<open>
  What \<open>riscv_ip\<close> changes while it matches an entry. \<open>ip_end\<close> is the global
  \<open>expr_end\<close>; it is \<open>None\<close> as long as it points to the text of an earlier line.
\<close>

record ip_state =
  ip_s :: string
  ip_bits :: insn_t
  ip_expr :: expressionS
  ip_reloc :: bfd_reloc
  ip_pct :: "(string \<times> bfd_reloc) list"
  ip_end :: "string option"
  ip_gs :: gas_state

text \<open>The result of an operand: whether it matched (\<open>continue\<close> in the source, else \<open>break\<close>).\<close>

type_synonym arg_result = "(bool \<times> ip_state) res"

definition ip_bad :: "diag \<Rightarrow> ip_state \<Rightarrow> ip_state" where
  "ip_bad d st = st\<lparr>ip_gs := gs_bad d (ip_gs st)\<rparr>"

definition ip_const :: "ip_state \<Rightarrow> offsetT" where
  "ip_const st = X_add_number (ip_expr st)"

definition ip_is :: "operatorT \<Rightarrow> ip_state \<Rightarrow> bool" where
  "ip_is op st \<longleftrightarrow> X_op (ip_expr st) = op"

definition ip_set_op :: "operatorT \<Rightarrow> ip_state \<Rightarrow> ip_state" where
  "ip_set_op op st = st\<lparr>ip_expr := (ip_expr st)\<lparr>X_op := op\<rparr>\<rparr>"

definition ip_insert :: "op_field \<Rightarrow> u32 \<Rightarrow> ip_state \<Rightarrow> ip_state" where
  "ip_insert f v st = st\<lparr>ip_bits := INSERT_OPERAND f (ip_bits st) v\<rparr>"

subsection \<open>Relocation operators\<close>

definition percent_op_utype :: "(string \<times> bfd_reloc) list" where
  "percent_op_utype = [(''%tprel_hi'', BFD_RELOC_RISCV_TPREL_HI20),
     (''%pcrel_hi'', BFD_RELOC_RISCV_PCREL_HI20),
     (''%tls_ie_pcrel_hi'', BFD_RELOC_RISCV_TLS_GOT_HI20),
     (''%tls_gd_pcrel_hi'', BFD_RELOC_RISCV_TLS_GD_HI20),
     (''%hi'', BFD_RELOC_RISCV_HI20)]"

definition percent_op_itype :: "(string \<times> bfd_reloc) list" where
  "percent_op_itype = [(''%lo'', BFD_RELOC_RISCV_LO12_I),
     (''%tprel_lo'', BFD_RELOC_RISCV_TPREL_LO12_I),
     (''%pcrel_lo'', BFD_RELOC_RISCV_PCREL_LO12_I)]"

definition percent_op_stype :: "(string \<times> bfd_reloc) list" where
  "percent_op_stype = [(''%lo'', BFD_RELOC_RISCV_LO12_S),
     (''%tprel_lo'', BFD_RELOC_RISCV_TPREL_LO12_S),
     (''%pcrel_lo'', BFD_RELOC_RISCV_PCREL_LO12_S)]"

definition percent_op_rtype :: "(string \<times> bfd_reloc) list" where
  "percent_op_rtype = [(''%tprel_add'', BFD_RELOC_RISCV_TPREL_ADD)]"

text \<open>The operator found, its relocation, and the text behind it.\<close>

fun parse_relocation :: "(string \<times> bfd_reloc) list \<Rightarrow> string \<Rightarrow> (string \<times> bfd_reloc \<times> string) option" where
  "parse_relocation [] s = None"
| "parse_relocation ((name, r) # ops) s =
     (let len = length name; c = c_char (drop len s)
      in if strcaseeq (take len s) name \<and> (isspace c \<or> c = CHR ''('')
         then Some (name, r, drop len s) else parse_relocation ops s)"

definition take_relocation :: "ip_state \<Rightarrow> (string \<times> bfd_reloc \<times> string) \<Rightarrow> ip_state" where
  "take_relocation st = (\<lambda>(name, r, _).
     if r \<noteq> BFD_RELOC_UNUSED \<and> riscv_reloc_type_lookup r = None
     then (ip_bad (Diag (''relocation %s isn'' @ CHR 0x27 # ''t supported by the current ABI'') [Str name]) st)
            \<lparr>ip_reloc := BFD_RELOC_UNUSED\<rparr>
     else st\<lparr>ip_reloc := r\<rparr>)"

subsection \<open>Expressions of an operand\<close>

definition my_getExpression :: "expr_parser \<Rightarrow> string \<Rightarrow> ip_state \<Rightarrow> ip_state res" where
  "my_getExpression ex s st =
     and_then (ex (ip_gs st) s) (\<lambda>(e, rest, gs).
       Inr (st\<lparr>ip_expr := e, ip_end := Some rest, ip_gs := gs\<rparr>))"

text \<open>The blanks and open brackets before an expression, with the count of the brackets.\<close>

fun skip_open :: "string \<Rightarrow> nat \<Rightarrow> string \<times> nat" where
  "skip_open [] d = ([], d)"
| "skip_open (c # s) d =
     (if c = CHR '' '' \<or> c = CHR 0x09 then skip_open s d
      else if c = CHR ''('' then skip_open s (Suc d) else (c # s, d))"

fun close_brackets :: "string \<Rightarrow> nat \<Rightarrow> string \<times> nat" where
  "close_brackets [] d = ([], d)"
| "close_brackets (c # s) d =
     (if d = 0 then (c # s, d)
      else if c = CHR '')'' then close_brackets s (d - 1)
      else if c = CHR '' '' \<or> c = CHR 0x09 then close_brackets s d else (c # s, d))"

text \<open>
  The result is whether a relocation operator was used. A register is accepted as an
  expression of its own, and then \<open>expr_end\<close> keeps its old value.
\<close>

definition my_getSmallExpression :: "expr_parser \<Rightarrow> string \<Rightarrow> ip_state \<Rightarrow> (bool \<times> ip_state) res" where
  "my_getSmallExpression ex s st =
     (case reg_lookup (gs_tc (ip_gs st)) s RCLASS_GPR of
        Some (regno, _) \<Rightarrow>
          Inr (False, st\<lparr>ip_expr := (ip_expr st)\<lparr>X_op := O_register, X_add_number := regno\<rparr>\<rparr>)
      | None \<Rightarrow>
          (let (str, depth) = skip_open s 0;
               op = (if c_char str = CHR ''%'' then parse_relocation (ip_pct st) str else None);
               (crux, crux_depth, st) = (case op of None \<Rightarrow> (s, 0, st)
                 | Some (name, r, rest) \<Rightarrow> (rest, depth, take_relocation st (name, r, rest)))
           in and_then (my_getExpression ex crux st) (\<lambda>st.
                let (str, left) = close_brackets (the (ip_end st)) crux_depth;
                    st = (if left > 0 then ip_bad (Diag (''unclosed '' @ [CHR 0x27, CHR ''('', CHR 0x27]) []) st
                          else st)
                in Inr (op \<noteq> None, st\<lparr>ip_end := Some str\<rparr>))))"

definition my_getOpcodeExpression :: "expr_parser \<Rightarrow> string \<Rightarrow> ip_state \<Rightarrow> (bool \<times> ip_state) res" where
  "my_getOpcodeExpression ex s st =
     (case tc_opcode_names_hash (gs_tc (ip_gs st)) of
        None \<Rightarrow> Inl Abort
      | Some h \<Rightarrow>
          (case opcode_name_lookup h s of (ov, s, e) \<Rightarrow>
             let st = st\<lparr>ip_end := Some e\<rparr>
             in case ov of
                  Some val \<Rightarrow>
                    Inr (False, st\<lparr>ip_expr := (ip_expr st)\<lparr>X_op := O_constant, X_add_number := val\<rparr>\<rparr>)
                | None \<Rightarrow> my_getSmallExpression ex s st))"

definition riscv_handle_implicit_zero_offset :: "string \<Rightarrow> bool" where
  "riscv_handle_implicit_zero_offset s \<longleftrightarrow> c_char s = CHR ''('' \<and> strchr (tl s) (CHR ''('') = None"

definition set_zero_offset :: "ip_state \<Rightarrow> ip_state" where
  "set_zero_offset st = st\<lparr>ip_expr := (ip_expr st)\<lparr>X_op := O_constant, X_add_number := 0\<rparr>\<rparr>"

subsection \<open>Operands\<close>

text \<open>\<open>s = expr_end; continue\<close>; a pointer to an earlier line is not followed.\<close>

definition at_expr_end :: "ip_state \<Rightarrow> arg_result" where
  "at_expr_end st = (case ip_end st of None \<Rightarrow> Inl Abort | Some e \<Rightarrow> Inr (True, st\<lparr>ip_s := e\<rparr>))"

definition no_match :: "ip_state \<Rightarrow> arg_result" where
  "no_match st = Inr (False, st)"

text \<open>A register operand: the registers allowed, and what is done with the number.\<close>

definition reg_arg :: "reg_class \<Rightarrow> (ip_state \<Rightarrow> u32 \<Rightarrow> bool) \<Rightarrow> (u32 \<Rightarrow> ip_state \<Rightarrow> ip_state) \<Rightarrow>
    ip_state \<Rightarrow> arg_result" where
  "reg_arg cls ok put st =
     (case reg_lookup (gs_tc (ip_gs st)) (ip_s st) cls of
        None \<Rightarrow> no_match st
      | Some (regno, rest) \<Rightarrow>
          if ok st regno then Inr (True, put regno (st\<lparr>ip_s := rest\<rparr>))
          else no_match (st\<lparr>ip_s := rest\<rparr>))"

definition skip_space :: "ip_state \<Rightarrow> ip_state" where
  "skip_space st = st\<lparr>ip_s := (case ip_s st of CHR '' '' # s \<Rightarrow> s | s \<Rightarrow> s)\<rparr>"

text \<open>
  A constant operand that is stored in the instruction at once: no relocation operator, a
  constant, in the range.
\<close>

definition const_arg :: "expr_parser \<Rightarrow> (u32 \<Rightarrow> bool) \<Rightarrow> (u32 \<Rightarrow> ip_state \<Rightarrow> ip_state) \<Rightarrow>
    ip_state \<Rightarrow> arg_result" where
  "const_arg ex valid put st =
     and_then (my_getSmallExpression ex (ip_s st) st) (\<lambda>(used, st).
       if used \<or> \<not> ip_is O_constant st \<or> \<not> valid (ip_const st) then no_match st
       else at_expr_end (ip_set_op O_absent (put (ip_const st) st)))"

definition or_bits :: "(u32 \<Rightarrow> u32) \<Rightarrow> u32 \<Rightarrow> ip_state \<Rightarrow> ip_state" where
  "or_bits enc v st = st\<lparr>ip_bits := ip_bits st OR ucast (enc v)\<rparr>"

text \<open>
  The compressed immediates: whether the offset may be left out, the values accepted, and the
  encoder.
\<close>

definition rvc_immediate :: "char \<Rightarrow> (bool \<times> (u32 \<Rightarrow> bool) \<times> (u32 \<Rightarrow> u32)) option" where
  "rvc_immediate c =
     (if c = CHR ''>'' then Some (False, \<lambda>x. 0 <s x \<and> x <s 64, ENCODE_RVC_IMM)
      else if c = CHR ''<'' then Some (False, \<lambda>x. VALID_RVC_IMM x \<and> 0 <s x \<and> x <s 32, ENCODE_RVC_IMM)
      else if c = CHR ''8'' then Some (False, \<lambda>x. VALID_RVC_UIMM8 x \<and> 0 \<le>s x \<and> x <s 256, ENCODE_RVC_UIMM8)
      else if c = CHR ''i'' then Some (False, \<lambda>x. x \<noteq> 0 \<and> VALID_RVC_SIMM3 x, ENCODE_RVC_SIMM3)
      else if c = CHR ''j'' then Some (False, \<lambda>x. x \<noteq> 0 \<and> VALID_RVC_IMM x, ENCODE_RVC_IMM)
      else if c = CHR ''k'' then Some (True, VALID_RVC_LW_IMM, ENCODE_RVC_LW_IMM)
      else if c = CHR ''l'' then Some (True, VALID_RVC_LD_IMM, ENCODE_RVC_LD_IMM)
      else if c = CHR ''m'' then Some (True, VALID_RVC_LWSP_IMM, ENCODE_RVC_LWSP_IMM)
      else if c = CHR ''n'' then Some (True, VALID_RVC_LDSP_IMM, ENCODE_RVC_LDSP_IMM)
      else if c = CHR ''o'' then Some (False, VALID_RVC_IMM, ENCODE_RVC_IMM)
      else if c = CHR ''K'' then Some (False, \<lambda>x. VALID_RVC_ADDI4SPN_IMM x \<and> x \<noteq> 0, ENCODE_RVC_ADDI4SPN_IMM)
      else if c = CHR ''L'' then Some (False, \<lambda>x. VALID_RVC_ADDI16SP_IMM x \<and> x \<noteq> 0, ENCODE_RVC_ADDI16SP_IMM)
      else if c = CHR ''M'' then Some (True, VALID_RVC_SWSP_IMM, ENCODE_RVC_SWSP_IMM)
      else if c = CHR ''N'' then Some (True, VALID_RVC_SDSP_IMM, ENCODE_RVC_SDSP_IMM)
      else None)"

text \<open>The label \<open>rvc_lui\<close>.\<close>

definition rvc_lui_valid :: "u32 \<Rightarrow> bool" where
  "rvc_lui_valid x \<longleftrightarrow> 0 <s x \<and> x <s 0x100000 \<and> \<not> (32 \<le>s x \<and> x <s 0x100000 - 32)"

definition rvc_lui :: "ip_state \<Rightarrow> arg_result" where
  "rvc_lui st = (if \<not> ip_is O_constant st \<or> \<not> rvc_lui_valid (ip_const st) then no_match st
     else at_expr_end (ip_set_op O_absent (or_bits ENCODE_RVC_IMM (ip_const st) st)))"

text \<open>The labels \<open>branch\<close> and \<open>jump\<close>.\<close>

definition branch_arg :: "expr_parser \<Rightarrow> ip_state \<Rightarrow> arg_result" where
  "branch_arg ex st = and_then (my_getExpression ex (ip_s st) (st\<lparr>ip_reloc := BFD_RELOC_12_PCREL\<rparr>)) at_expr_end"

definition jump_arg :: "expr_parser \<Rightarrow> ip_state \<Rightarrow> arg_result" where
  "jump_arg ex st = and_then (my_getExpression ex (ip_s st) st)
     (\<lambda>st. at_expr_end (st\<lparr>ip_reloc := BFD_RELOC_RISCV_JMP\<rparr>))"

definition creg :: "ip_state \<Rightarrow> u32 \<Rightarrow> bool" where
  "creg st regno \<longleftrightarrow> 8 \<le> regno \<and> regno \<le> 15"

definition any_reg :: "ip_state \<Rightarrow> u32 \<Rightarrow> bool" where "any_reg st regno \<longleftrightarrow> True"

text \<open>The operands after a \<open>C\<close>, apart from \<open>CF\<close>.\<close>

definition rvc_arg :: "expr_parser \<Rightarrow> char \<Rightarrow> ip_state \<Rightarrow> arg_result" where
  "rvc_arg ex c st =
     (if c = CHR ''s'' then reg_arg RCLASS_GPR creg (\<lambda>r. ip_insert F_CRS1S (r mod 8)) st
      else if c = CHR ''w''
      then reg_arg RCLASS_GPR (\<lambda>st r. EXTRACT_OPERAND F_CRS1S (ip_bits st) + 8 = ucast r) (\<lambda>r st. st) st
      else if c = CHR ''t'' then reg_arg RCLASS_GPR creg (\<lambda>r. ip_insert F_CRS2S (r mod 8)) st
      else if c = CHR ''x''
      then reg_arg RCLASS_GPR (\<lambda>st r. EXTRACT_OPERAND F_CRS2S (ip_bits st) + 8 = ucast r) (\<lambda>r st. st) st
      else if c = CHR ''U''
      then reg_arg RCLASS_GPR (\<lambda>st r. EXTRACT_OPERAND F_RD (ip_bits st) = ucast r) (\<lambda>r st. st) st
      else if c = CHR ''V'' then reg_arg RCLASS_GPR any_reg (ip_insert F_CRS2) st
      else if c = CHR ''c'' then reg_arg RCLASS_GPR (\<lambda>st r. r = X_SP) (\<lambda>r st. st) st
      else case rvc_immediate c of
             Some (zero_ok, valid, enc) \<Rightarrow>
               if zero_ok \<and> riscv_handle_implicit_zero_offset (ip_s st) then Inr (True, set_zero_offset st)
               else const_arg ex valid (or_bits enc) st
           | None \<Rightarrow>
      if c = CHR ''u'' then
        and_then (my_getSmallExpression ex (ip_s st) (st\<lparr>ip_pct := percent_op_utype\<rparr>)) (\<lambda>(used, st).
          if used then no_match st else rvc_lui st)
      else if c = CHR ''v'' then
        and_then (my_getSmallExpression ex (ip_s st) st) (\<lambda>(used, st).
          if used \<or> ip_const st AND 0xfff \<noteq> 0 then no_match st
          else rvc_lui (st\<lparr>ip_expr := (ip_expr st)\<lparr>X_add_number := shr (ip_const st) 12\<rparr>\<rparr>))
      else if c = CHR ''p'' then branch_arg ex st
      else if c = CHR ''a'' then jump_arg ex st
      else if c = CHR ''S'' then reg_arg RCLASS_FPR creg (\<lambda>r. ip_insert F_CRS1S (r mod 8)) st
      else if c = CHR ''D'' then reg_arg RCLASS_FPR creg (\<lambda>r. ip_insert F_CRS2S (r mod 8)) st
      else if c = CHR ''T'' then reg_arg RCLASS_FPR any_reg (ip_insert F_CRS2) st
      else no_match (ip_bad (Diag (''bad RVC field specifier '' @ CHR 0x27 # ''C%c'' @ [CHR 0x27, CHR 0x0a]) [Chr c]) st))"

text \<open>
  The fields of \<open>.insn\<close>: how the value is read, the values accepted, the field, and the
  message for other values.
\<close>

definition field_arg :: "(string \<Rightarrow> ip_state \<Rightarrow> (bool \<times> ip_state) res) \<Rightarrow> (u32 \<Rightarrow> bool) \<Rightarrow> op_field \<Rightarrow>
    string \<Rightarrow> ip_state \<Rightarrow> arg_result" where
  "field_arg get valid f msg st =
     and_then (get (ip_s st) st) (\<lambda>(used, st).
       if used \<or> \<not> ip_is O_constant st \<or> \<not> valid (ip_const st) then no_match (ip_bad (Diag msg []) st)
       else at_expr_end (ip_set_op O_absent (ip_insert f (ip_const st) st)))"

definition below :: "u32 \<Rightarrow> u32 \<Rightarrow> bool" where "below n x \<longleftrightarrow> 0 \<le>s x \<and> x <s n"

definition rvc_funct_arg :: "expr_parser \<Rightarrow> char \<Rightarrow> ip_state \<Rightarrow> arg_result" where
  "rvc_funct_arg ex c st =
     (if c = CHR ''4'' then field_arg (my_getSmallExpression ex) (below 16) F_CFUNCT4
            ''bad value for funct4 field, value must be 0...15'' st
      else if c = CHR ''3'' then field_arg (my_getSmallExpression ex) (below 8) F_CFUNCT3
            ''bad value for funct3 field, value must be 0...7'' st
      else no_match (ip_bad (Diag (''bad compressed FUNCT field specifier '' @ CHR 0x27 # ''CF%c'' @
             [CHR 0x27, CHR 0x0a]) [Chr c]) st))"

definition funct_arg :: "expr_parser \<Rightarrow> char \<Rightarrow> ip_state \<Rightarrow> arg_result" where
  "funct_arg ex c st =
     (if c = CHR ''7'' then field_arg (my_getSmallExpression ex) (below 128) F_FUNCT7
            ''bad value for funct7 field, value must be 0...127'' st
      else if c = CHR ''3'' then field_arg (my_getSmallExpression ex) (below 8) F_FUNCT3
            ''bad value for funct3 field, value must be 0...7'' st
      else if c = CHR ''2'' then field_arg (my_getSmallExpression ex) (below 4) F_FUNCT2
            ''bad value for funct2 field, value must be 0...3'' st
      else no_match (ip_bad (Diag (''bad FUNCT field specifier '' @ CHR 0x27 # ''F%c'' @
             [CHR 0x27, CHR 0x0a]) [Chr c]) st))"

definition opcode_arg :: "expr_parser \<Rightarrow> char \<Rightarrow> ip_state \<Rightarrow> arg_result" where
  "opcode_arg ex c st =
     (if c = CHR ''4'' then field_arg (my_getOpcodeExpression ex) (\<lambda>x. below 128 x \<and> x AND 0x3 = 3) F_OP
            ''bad value for opcode field, value must be 0...127 and lower 2 bits must be 0x3'' st
      else if c = CHR ''2'' then field_arg (my_getOpcodeExpression ex) (below 3) F_OP2
            ''bad value for opcode field, value must be 0...2'' st
      else no_match (ip_bad (Diag (''bad Opcode field specifier '' @ CHR 0x27 # ''O%c'' @
             [CHR 0x27, CHR 0x0a]) [Chr c]) st))"

text \<open>
  A number that has to be absolute (shift amounts, CSR immediates and addresses): a value out
  of range is reported, and the field is filled all the same.
\<close>

definition absolute_arg :: "expr_parser \<Rightarrow> riscv_opcode \<Rightarrow> bool \<Rightarrow> (tc_state \<Rightarrow> u32 \<Rightarrow> bool) \<Rightarrow> string \<Rightarrow>
    op_field \<Rightarrow> ip_state \<Rightarrow> arg_result" where
  "absolute_arg ex mo maybe_csr ok msg f st =
     and_then (my_getExpression ex (ip_s st) st) (\<lambda>st.
       let (e, gs) = check_absolute_expr mo (ip_expr st) maybe_csr (ip_gs st);
           st = st\<lparr>ip_expr := e, ip_gs := gs\<rparr>;
           st = (if ok (gs_tc gs) (ip_const st) then st else ip_bad (Diag msg [Num (ip_const st)]) st)
       in at_expr_end (ip_set_op O_absent (ip_insert f (ip_const st) st)))"

definition enum_arg :: "string option list \<Rightarrow> op_field \<Rightarrow> ip_state \<Rightarrow> arg_result" where
  "enum_arg names f st = (case arg_lookup (ip_s st) names of None \<Rightarrow> no_match st
     | Some (n, rest) \<Rightarrow> Inr (True, ip_insert f n (st\<lparr>ip_s := rest\<rparr>)))"

definition normalize_arg :: "ip_state \<Rightarrow> ip_state" where
  "normalize_arg st = st\<lparr>ip_expr := normalize_constant_expr (gs_tc (ip_gs st)) (ip_expr st)\<rparr>"

text \<open>The labels \<open>alu_op\<close> and \<open>load_store\<close>.\<close>

definition alu_arg :: "expr_parser \<Rightarrow> char \<Rightarrow> ip_state \<Rightarrow> arg_result" where
  "alu_arg ex c st =
     and_then (my_getSmallExpression ex (ip_s st) st) (\<lambda>(used, st).
       if used then at_expr_end st
       else let st = normalize_arg st
            in if \<not> ip_is O_constant st \<or> c = CHR ''0'' \<and> ip_const st \<noteq> 0
                  \<or> 2048 \<le>s ip_const st \<or> ip_const st <s - 2048
               then no_match st else at_expr_end st)"

definition load_store_arg :: "expr_parser \<Rightarrow> char \<Rightarrow> ip_state \<Rightarrow> arg_result" where
  "load_store_arg ex c st =
     (if riscv_handle_implicit_zero_offset (ip_s st) then Inr (True, set_zero_offset st)
      else alu_arg ex c st)"

definition upper_arg :: "expr_parser \<Rightarrow> ip_state \<Rightarrow> arg_result" where
  "upper_arg ex st =
     and_then (my_getSmallExpression ex (ip_s st) (st\<lparr>ip_pct := percent_op_utype\<rparr>)) (\<lambda>(used, st).
       at_expr_end (if \<not> used \<and> ip_is O_constant st then
           (let st = (if ip_const st <s 0 \<or> 0x100000 \<le>s ip_const st
                      then ip_bad (Diag ''lui expression not in range 0..1048575'' []) st else st)
            in st\<lparr>ip_reloc := BFD_RELOC_RISCV_HI20,
                 ip_expr := (ip_expr st)\<lparr>X_add_number := shl (ip_const st) 12\<rparr>\<rparr>)
         else st))"

definition call_arg :: "expr_parser \<Rightarrow> ip_state \<Rightarrow> arg_result" where
  "call_arg ex st =
     and_then (my_getExpression ex (ip_s st) st) (\<lambda>st.
     and_then (at_expr_end st) (\<lambda>(_, st).
       Inr (True, if ip_s st = ''@plt'' then st\<lparr>ip_reloc := BFD_RELOC_RISCV_CALL_PLT, ip_s := []\<rparr>
                  else st\<lparr>ip_reloc := BFD_RELOC_RISCV_CALL\<rparr>)))"

definition gpr_field :: "char \<Rightarrow> op_field" where
  "gpr_field c = (if c = CHR ''s'' then F_RS1 else if c = CHR ''d'' then F_RD
     else if c = CHR ''t'' then F_RS2 else F_RS3)"

definition put_fpr :: "char \<Rightarrow> u32 \<Rightarrow> ip_state \<Rightarrow> ip_state" where
  "put_fpr c r st =
     (if c = CHR ''D'' then ip_insert F_RD r st
      else if c = CHR ''S'' then ip_insert F_RS1 r st
      else if c = CHR ''U'' then ip_insert F_RS2 r (ip_insert F_RS1 r st)
      else if c = CHR ''T'' then ip_insert F_RS2 r st
      else ip_insert F_RS3 r st)"

text \<open>The operand of one letter, at the first character that is not a blank.\<close>

definition simple_arg :: "expr_parser \<Rightarrow> riscv_opcode \<Rightarrow> char \<Rightarrow> ip_state \<Rightarrow> arg_result" where
  "simple_arg ex mo c st =
     (if c \<in> set '',()[]'' then
        (if c_char (ip_s st) = c then Inr (True, st\<lparr>ip_s := tl (ip_s st)\<rparr>) else no_match st)
      else if c = CHR ''<'' then
        absolute_arg ex mo False (\<lambda>_ x. x \<le> 31) ''Improper shift amount (%lu)'' F_SHAMTW st
      else if c = CHR ''>'' then
        absolute_arg ex mo False (\<lambda>tc x. x < tc_xlen tc) ''Improper shift amount (%lu)'' F_SHAMT st
      else if c = CHR ''Z'' then
        absolute_arg ex mo False (\<lambda>_ x. x \<le> 31) ''Improper CSRxI immediate (%lu)'' F_RS1 st
      else if c = CHR ''E'' then
        (case reg_lookup (gs_tc (ip_gs st)) (ip_s st) RCLASS_CSR of
           Some (regno, rest) \<Rightarrow> Inr (True, ip_insert F_CSR regno (st\<lparr>ip_s := rest\<rparr>))
         | None \<Rightarrow> absolute_arg ex mo True (\<lambda>_ x. x \<le> 0xfff) ''Improper CSR address (%lu)'' F_CSR st)
      else if c = CHR ''m'' then enum_arg riscv_rm F_RM st
      else if c = CHR ''P'' then enum_arg riscv_pred_succ F_PRED st
      else if c = CHR ''Q'' then enum_arg riscv_pred_succ F_SUCC st
      else if c \<in> set ''dstr'' then
        reg_arg RCLASS_GPR any_reg (\<lambda>r st. ip_insert (gpr_field c) r (skip_space st)) st
      else if c \<in> set ''DSTUR'' then reg_arg RCLASS_FPR any_reg (\<lambda>r st. put_fpr c r (skip_space st)) st
      else if c = CHR ''I'' then
        and_then (my_getExpression ex (ip_s st) st) (\<lambda>st.
          if \<not> ip_is O_big st \<and> \<not> ip_is O_constant st then no_match st else at_expr_end (normalize_arg st))
      else if c = CHR ''A'' then
        and_then (my_getExpression ex (ip_s st) st) (\<lambda>st. let st = normalize_arg st
          in if \<not> ip_is O_symbol st then no_match st else at_expr_end (st\<lparr>ip_reloc := BFD_RELOC_32\<rparr>))
      else if c = CHR ''B'' then
        and_then (my_getExpression ex (ip_s st) st) (\<lambda>st. let st = normalize_arg st
          in if \<not> ip_is O_symbol st \<and> \<not> ip_is O_constant st then no_match st
             else at_expr_end (if ip_is O_symbol st then st\<lparr>ip_reloc := BFD_RELOC_32\<rparr> else st))
      else if c = CHR ''j'' then
        alu_arg ex c (st\<lparr>ip_reloc := BFD_RELOC_RISCV_LO12_I, ip_pct := percent_op_itype\<rparr>)
      else if c = CHR ''q'' then
        load_store_arg ex c (st\<lparr>ip_reloc := BFD_RELOC_RISCV_LO12_S, ip_pct := percent_op_stype\<rparr>)
      else if c = CHR ''o'' then
        load_store_arg ex c (st\<lparr>ip_reloc := BFD_RELOC_RISCV_LO12_I, ip_pct := percent_op_itype\<rparr>)
      else if c = CHR ''0'' then
        load_store_arg ex c (st\<lparr>ip_reloc := BFD_RELOC_UNUSED, ip_pct := percent_op_rtype\<rparr>)
      else if c = CHR ''p'' then branch_arg ex st
      else if c = CHR ''u'' then upper_arg ex st
      else if c = CHR ''a'' then jump_arg ex st
      else if c = CHR ''c'' then call_arg ex st
      else if c = CHR ''z'' then const_arg ex (\<lambda>x. x = 0) (\<lambda>_ st. st) st
      else Inl (As_fatal (Diag ''internal error: bad argument type %c'' [Chr c])))"

subsection \<open>Matching an entry\<close>

definition skip_blanks :: "ip_state \<Rightarrow> ip_state" where
  "skip_blanks st = st\<lparr>ip_s := dropWhile (\<lambda>c. c = CHR '' '' \<or> c = CHR 0x09) (ip_s st)\<rparr>"

text \<open>At the end of the format: are the fixed bits right, the length allowed, the text used up?\<close>

definition end_of_args :: "riscv_opcode \<Rightarrow> ip_state \<Rightarrow> bool" where
  "end_of_args mo st \<longleftrightarrow>
     (op_pinfo mo \<noteq> INSN_MACRO \<longrightarrow> match_func mo (ip_bits st) \<and>
        \<not> (riscv_insn_length (if op_match mo = 0 \<and> op_mask mo = 0 then ip_bits st else op_match mo) = 2
            \<and> \<not> opt_rvc (tc_opts (gs_tc (ip_gs st))))) \<and>
     ip_s st = []"

text \<open>
  The letters of the format split into operands: a letter with the one or two letters that
  select its variant, and the rest of the format. A format that ends early reads the
  terminating NUL as the variant.
\<close>

datatype format_arg = Arg_simple char | Arg_rvc char | Arg_rvc_funct char | Arg_opcode char | Arg_funct char

definition split_arg :: "char \<Rightarrow> string \<Rightarrow> format_arg \<times> string" where
  "split_arg c args =
     (if c = CHR ''C'' then
        (if c_char args = CHR ''F'' then (Arg_rvc_funct (c_char (tl args)), tl (tl args))
         else (Arg_rvc (c_char args), tl args))
      else if c = CHR ''O'' then (Arg_opcode (c_char args), tl args)
      else if c = CHR ''F'' then (Arg_funct (c_char args), tl args)
      else (Arg_simple c, args))"

lemma split_arg_shorter: "length (snd (split_arg c args)) \<le> length args"
  by (simp add: split_arg_def)

definition run_arg :: "expr_parser \<Rightarrow> riscv_opcode \<Rightarrow> format_arg \<Rightarrow> ip_state \<Rightarrow> arg_result" where
  "run_arg ex mo a st = (case a of
       Arg_simple c \<Rightarrow> simple_arg ex mo c st
     | Arg_rvc c \<Rightarrow> rvc_arg ex c st
     | Arg_rvc_funct c \<Rightarrow> rvc_funct_arg ex c st
     | Arg_opcode c \<Rightarrow> opcode_arg ex c st
     | Arg_funct c \<Rightarrow> funct_arg ex c st)"

declare and_then_cong [fundef_cong]

function match_args :: "expr_parser \<Rightarrow> riscv_opcode \<Rightarrow> string \<Rightarrow> ip_state \<Rightarrow> arg_result" where
  "match_args ex mo [] st = (let st = skip_blanks st in Inr (end_of_args mo st, st))"
| "match_args ex mo (c # args) st =
     and_then (run_arg ex mo (fst (split_arg c args)) (skip_blanks st)) (\<lambda>(ok, st).
       if ok then match_args ex mo (snd (split_arg c args)) st else Inr (False, st))"
  by pat_completeness auto
termination
  by (relation "measure (\<lambda>(ex, mo, args, st). length args)") (auto simp: split_arg_shorter le_imp_less_Suc)

subsection \<open>Trying the entries\<close>

definition start_entry :: "riscv_opcode \<Rightarrow> string \<Rightarrow> ip_state \<Rightarrow> ip_state" where
  "start_entry mo argsStart st = st\<lparr>ip_s := argsStart, ip_bits := op_match mo,
     ip_expr := (ip_expr st)\<lparr>X_op := O_absent\<rparr>, ip_reloc := BFD_RELOC_UNUSED, ip_pct := percent_op_itype\<rparr>"

text \<open>
  The entries of the mnemonic are consecutive in the table. The result is the entry that
  matched, or \<open>error\<close>, the message for the case that none of the entries left does.
\<close>

fun try_entries :: "expr_parser \<Rightarrow> string \<Rightarrow> string \<Rightarrow> string \<Rightarrow> riscv_opcode list \<Rightarrow> ip_state \<Rightarrow>
    ((string + riscv_opcode) \<times> ip_state) res" where
  "try_entries ex name argsStart error [] st = Inr (Inl error, st)"
| "try_entries ex name argsStart error (mo # mos) st =
     (if op_name mo \<noteq> name then Inr (Inl error, st)
      else if \<not> riscv_subset_supports (gs_tc (ip_gs st)) (op_subset mo)
      then try_entries ex name argsStart error mos st
      else and_then (match_args ex mo (op_args mo) (start_entry mo argsStart st)) (\<lambda>(ok, st).
             if ok then Inr (Inr mo, st) else try_entries ex name argsStart ''illegal operands'' mos st))"

text \<open>
  The state at the start. \<open>imm_expr\<close> is an uninitialised local variable of the caller; nothing
  reads a field of it that has not been set before.
\<close>

definition start_ip :: "gas_state \<Rightarrow> ip_state" where
  "start_ip gs = \<lparr>ip_s = [], ip_bits = 0,
     ip_expr = \<lparr>X_op = O_absent, X_add_symbol = None, X_op_symbol = None, X_add_number = 0,
       X_unsigned = False, X_extrabit = False\<rparr>,
     ip_reloc = BFD_RELOC_UNUSED, ip_pct = percent_op_itype, ip_end = None, ip_gs = gs\<rparr>"

definition insn_name :: "string \<Rightarrow> string" where
  "insn_name str = takeWhile (\<lambda>c. \<not> isspace c) str"

definition insn_operands :: "string \<Rightarrow> string" where
  "insn_operands str = drop 1 (dropWhile (\<lambda>c. \<not> isspace c) str)"

definition riscv_ip :: "expr_parser \<Rightarrow> riscv_opcode list hash_control \<Rightarrow> string \<Rightarrow> gas_state \<Rightarrow>
    ((string + riscv_cl_insn \<times> expressionS \<times> bfd_reloc) \<times> gas_state) res" where
  "riscv_ip ex hash str gs =
     and_then (try_entries ex (insn_name str) (insn_operands str) ''unrecognized opcode''
         (case fst (hash_find hash (insn_name str)) of None \<Rightarrow> [] | Some mos \<Rightarrow> mos) (start_ip gs))
       (\<lambda>(found, st). Inr (case found of
            Inl error \<Rightarrow> Inl error
          | Inr mo \<Rightarrow> Inr ((create_insn mo)\<lparr>insn_opcode := ip_bits st\<rparr>, ip_expr st, ip_reloc st),
          ip_gs st))"

definition ip_error :: "string \<Rightarrow> string \<Rightarrow> diag" where
  "ip_error error str = Diag (''%s `%s'' @ [CHR 0x27]) [Str error, Str str]"

definition md_assemble :: "expr_parser \<Rightarrow> string \<Rightarrow> gas_state \<Rightarrow> gas_state res" where
  "md_assemble ex str gs =
     (case tc_op_hash (gs_tc gs) of
        None \<Rightarrow> Inl Abort
      | Some hash \<Rightarrow>
          and_then (riscv_ip ex hash str gs) (\<lambda>(res, gs).
            case res of
              Inl error \<Rightarrow> Inr (gs_bad (ip_error error str) gs)
            | Inr (insn, imm_expr, imm_reloc) \<Rightarrow>
                if op_pinfo (insn_mo insn) = INSN_MACRO then macro insn imm_expr imm_reloc gs
                else append_insn insn (Some imm_expr) imm_reloc gs))"

text \<open>
  The \<open>.insn\<close> directive: the rest of the line is an instruction of the second table.
\<close>

definition s_riscv_insn :: "expr_parser \<Rightarrow> string \<Rightarrow> gas_state \<Rightarrow> (string \<times> gas_state) res" where
  "s_riscv_insn ex input gs =
     (let str = takeWhile (\<lambda>c. \<not> is_end_of_line c) input; rest = dropWhile (\<lambda>c. \<not> is_end_of_line c) input
      in case tc_insn_type_hash (gs_tc gs) of
           None \<Rightarrow> Inl Abort
         | Some hash \<Rightarrow>
             and_then (riscv_ip ex hash str gs) (\<lambda>(res, gs).
             and_then (case res of
                 Inl error \<Rightarrow> Inr (gs_bad (ip_error error str) gs)
               | Inr (insn, imm_expr, imm_reloc) \<Rightarrow>
                   and_then (gas_assert (op_pinfo (insn_mo insn) \<noteq> INSN_MACRO)) (\<lambda>_.
                   append_insn insn (Some imm_expr) imm_reloc gs))
               (\<lambda>gs. Inr (drop 1 rest, gs))))"

end
