(* ===== verification/IpSound.thy ===== *)
theory IpSound
  imports TcIp
begin

text \<open>
  What \<open>riscv_ip\<close> guarantees. The interface to the expression parser is a locale: a parse
  may report errors, create symbols and change what is known of the symbols, and touches nothing
  else of the assembler. Then
  matching an operand, an entry or all entries does the same, an instruction is accepted only
  with an entry of the mnemonic whose fixed bits it has, and a rejected line leaves the
  emitted code untouched.
\<close>

subsection \<open>What parsing leaves alone\<close>

text \<open>The target state apart from the messages.\<close>

definition tc_core :: "tc_state \<Rightarrow> tc_state" where
  "tc_core st = st\<lparr>tc_errors := [], tc_warnings := []\<rparr>"

definition gs_frame :: "gas_state \<Rightarrow> gas_state \<Rightarrow> bool" where
  "gs_frame gs gs' \<longleftrightarrow> tc_core (gs_tc gs') = tc_core (gs_tc gs) \<and> gs_seg gs' = gs_seg gs \<and>
     gs_chain gs' = gs_chain gs \<and> gs_fixes gs' = gs_fixes gs \<and>
     (\<exists>new. map sy_name (gs_symbols gs') = map sy_name (gs_symbols gs) @ new)"

named_theorems frame_intros "the frame of an operation on the assembler state"

lemma gs_frame_refl [simp, frame_intros]: "gs_frame gs gs"
  by (simp add: gs_frame_def)

lemma gs_frame_trans: "gs_frame a b \<Longrightarrow> gs_frame b c \<Longrightarrow> gs_frame a c"
  by (auto simp: gs_frame_def)

lemma tc_core_fields:
  assumes "tc_core st' = tc_core st"
  shows "tc_xlen st' = tc_xlen st" "tc_opts st' = tc_opts st" "tc_subsets st' = tc_subsets st"
    "tc_op_hash st' = tc_op_hash st" "tc_reg_names_hash st' = tc_reg_names_hash st"
    "tc_opcode_names_hash st' = tc_opcode_names_hash st" "tc_insn_type_hash st' = tc_insn_type_hash st"
    "tc_abi_xlen st' = tc_abi_xlen st"
proof -
  have *: "tc_xlen (tc_core st) = tc_xlen st" "tc_opts (tc_core st) = tc_opts st"
    "tc_subsets (tc_core st) = tc_subsets st" "tc_op_hash (tc_core st) = tc_op_hash st"
    "tc_reg_names_hash (tc_core st) = tc_reg_names_hash st"
    "tc_opcode_names_hash (tc_core st) = tc_opcode_names_hash st"
    "tc_insn_type_hash (tc_core st) = tc_insn_type_hash st" "tc_abi_xlen (tc_core st) = tc_abi_xlen st"
    for st by (simp_all add: tc_core_def)
  show "tc_xlen st' = tc_xlen st" "tc_opts st' = tc_opts st" "tc_subsets st' = tc_subsets st"
    "tc_op_hash st' = tc_op_hash st" "tc_reg_names_hash st' = tc_reg_names_hash st"
    "tc_opcode_names_hash st' = tc_opcode_names_hash st" "tc_insn_type_hash st' = tc_insn_type_hash st"
    "tc_abi_xlen st' = tc_abi_xlen st"
    using assms * [of st] * [of st'] by simp_all
qed

lemma gs_bad_frame [simp]: "gs_frame gs (gs_bad d gs)"
  by (simp add: gs_frame_def gs_bad_def as_bad_def tc_core_def)

lemma gs_frame_bad [frame_intros]: "gs_frame gs gs' \<Longrightarrow> gs_frame gs (gs_bad d gs')"
  by (rule gs_frame_trans [OF _ gs_bad_frame])

abbreviation (input) ip_frame :: "ip_state \<Rightarrow> ip_state \<Rightarrow> bool" where
  "ip_frame st st' \<equiv> gs_frame (ip_gs st) (ip_gs st')"

lemma ip_gs_simps [simp]:
  "ip_gs (ip_bad d st) = gs_bad d (ip_gs st)" "ip_gs (ip_set_op op st) = ip_gs st"
  "ip_gs (ip_insert f v st) = ip_gs st" "ip_gs (or_bits enc v st) = ip_gs st"
  "ip_gs (set_zero_offset st) = ip_gs st" "ip_gs (skip_space st) = ip_gs st"
  "ip_gs (skip_blanks st) = ip_gs st" "ip_gs (normalize_arg st) = ip_gs st"
  "ip_gs (put_fpr c r st) = ip_gs st" "ip_gs (start_entry mo s st) = ip_gs st"
  "ip_gs (start_ip gs) = gs"
  by (simp_all add: ip_bad_def ip_set_op_def ip_insert_def or_bits_def set_zero_offset_def skip_space_def
      skip_blanks_def normalize_arg_def put_fpr_def start_entry_def start_ip_def)

lemma take_relocation_frame [simp]: "gs_frame (ip_gs st) (ip_gs (take_relocation st op))"
  by (auto simp: take_relocation_def frame_intros split: prod.split)

lemma check_absolute_frame: "check_absolute_expr mo e csr gs = (e', gs') \<Longrightarrow> gs_frame gs gs'"
  by (auto simp: check_absolute_expr_def Let_def frame_intros split: if_splits)

lemma at_expr_end_frame: "at_expr_end st = Inr (ok, st') \<Longrightarrow> ip_gs st' = ip_gs st"
  by (auto simp: at_expr_end_def split: option.splits)

lemma no_match_frame: "no_match st = Inr (ok, st') \<Longrightarrow> ip_gs st' = ip_gs st"
  by (auto simp: no_match_def)

lemma no_match_False: "no_match st = Inr (ok, st') \<Longrightarrow> \<not> ok"
  by (auto simp: no_match_def)

subsection \<open>The interface to the expression parser\<close>

locale operand_parser =
  fixes ex :: expr_parser
  assumes parse_frame: "ex gs s = Inr (e, rest, gs') \<Longrightarrow> gs_frame gs gs'"
begin

lemma getExpression_frame: "my_getExpression ex s st = Inr st' \<Longrightarrow> ip_frame st st'"
  by (auto simp: my_getExpression_def and_then_Inr_iff dest: parse_frame)

lemma getSmallExpression_frame: "my_getSmallExpression ex s st = Inr (used, st') \<Longrightarrow> ip_frame st st'"
  by (auto simp: my_getSmallExpression_def and_then_Inr_iff Let_def frame_intros case_prod_beta
      split: option.splits if_splits dest!: getExpression_frame
      intro!: gs_frame_bad intro: gs_frame_trans [OF take_relocation_frame])

lemma getOpcodeExpression_frame: "my_getOpcodeExpression ex s st = Inr (used, st') \<Longrightarrow> ip_frame st st'"
  by (auto simp: my_getOpcodeExpression_def Let_def split: option.splits prod.splits
      dest!: getSmallExpression_frame)

lemmas arg_frames = getExpression_frame getSmallExpression_frame getOpcodeExpression_frame
  at_expr_end_frame no_match_frame

lemma reg_arg_frame: "reg_arg cls ok put st = Inr (r, st') \<Longrightarrow> (\<And>n s. ip_gs (put n s) = ip_gs s) \<Longrightarrow> ip_frame st st'"
  by (auto simp: reg_arg_def split: option.splits if_splits dest!: no_match_frame)

lemma const_arg_frame:
  "const_arg ex valid put st = Inr (r, st') \<Longrightarrow> (\<And>n s. ip_gs (put n s) = ip_gs s) \<Longrightarrow> ip_frame st st'"
  by (auto simp: const_arg_def and_then_Inr_iff split: if_splits dest!: arg_frames)

lemma rvc_lui_frame: "rvc_lui st = Inr (r, st') \<Longrightarrow> ip_gs st' = ip_gs st"
  by (auto simp: rvc_lui_def split: if_splits dest!: arg_frames)

lemma branch_arg_frame: "branch_arg ex st = Inr (r, st') \<Longrightarrow> ip_frame st st'"
  by (auto simp: branch_arg_def and_then_Inr_iff dest!: arg_frames)

lemma jump_arg_frame: "jump_arg ex st = Inr (r, st') \<Longrightarrow> ip_frame st st'"
  by (auto simp: jump_arg_def and_then_Inr_iff dest!: arg_frames)

lemma field_arg_frame:
  assumes "\<And>s st used st'. get s st = Inr (used, st') \<Longrightarrow> ip_frame st st'"
    and "field_arg get valid f msg st = Inr (r, st')"
  shows "ip_frame st st'"
  using assms(2)
  by (auto simp: field_arg_def and_then_Inr_iff frame_intros split: if_splits
      dest!: assms(1) at_expr_end_frame no_match_frame)

lemma absolute_arg_frame: "absolute_arg ex mo csr ok msg f st = Inr (r, st') \<Longrightarrow> ip_frame st st'"
  by (auto simp: absolute_arg_def and_then_Inr_iff Let_def case_prod_beta split: if_splits
      dest!: getExpression_frame at_expr_end_frame
      intro!: gs_frame_bad intro: gs_frame_trans [OF _ check_absolute_frame [OF surjective_pairing]])

lemma enum_arg_frame: "enum_arg names f st = Inr (r, st') \<Longrightarrow> ip_frame st st'"
  by (auto simp: enum_arg_def split: option.splits dest!: no_match_frame)

lemma alu_arg_frame: "alu_arg ex c st = Inr (r, st') \<Longrightarrow> ip_frame st st'"
  by (auto simp: alu_arg_def and_then_Inr_iff Let_def split: if_splits dest!: arg_frames)

lemma load_store_arg_frame: "load_store_arg ex c st = Inr (r, st') \<Longrightarrow> ip_frame st st'"
  by (auto simp: load_store_arg_def split: if_splits dest!: alu_arg_frame)

lemma upper_arg_frame: "upper_arg ex st = Inr (r, st') \<Longrightarrow> ip_frame st st'"
  by (auto simp: upper_arg_def and_then_Inr_iff Let_def frame_intros split: if_splits dest!: arg_frames)

lemma call_arg_frame: "call_arg ex st = Inr (r, st') \<Longrightarrow> ip_frame st st'"
  by (auto simp: call_arg_def and_then_Inr_iff Let_def split: if_splits dest!: arg_frames)

lemmas field_frames = field_arg_frame [of "my_getSmallExpression ex", OF getSmallExpression_frame]
  field_arg_frame [of "my_getOpcodeExpression ex", OF getOpcodeExpression_frame]

lemma getter_args_frame:
  "and_then (my_getExpression ex s st) f = Inr (r, st') \<Longrightarrow>
    (\<And>st. f st = Inr (r, st') \<Longrightarrow> ip_frame st st') \<Longrightarrow> ip_frame st st'"
  by (auto simp: and_then_Inr_iff dest!: getExpression_frame intro: gs_frame_trans)

text \<open>Every branch of an operand function keeps the frame if each of its alternatives does.\<close>

definition framed :: "ip_state \<Rightarrow> arg_result \<Rightarrow> bool" where
  "framed st res \<longleftrightarrow> (\<forall>r st'. res = Inr (r, st') \<longrightarrow> ip_frame st st')"

lemma framed_if: "framed st a \<Longrightarrow> framed st b \<Longrightarrow> framed st (if c then a else b)"
  by simp

lemma framed_option:
  "framed st a \<Longrightarrow> (\<And>x. framed st (f x)) \<Longrightarrow> framed st (case x of None \<Rightarrow> a | Some x \<Rightarrow> f x)"
  by (cases x) simp_all

lemma framed_prod: "(\<And>x y. framed st (f x y)) \<Longrightarrow> framed st (case p of (x, y) \<Rightarrow> f x y)"
  by (cases p) simp

lemma framed_triple: "(\<And>x y z. framed st (f x y z)) \<Longrightarrow> framed st (case p of (x, y, z) \<Rightarrow> f x y z)"
  by (cases p) simp

lemma framed_value: "gs_frame (ip_gs st) (ip_gs st') \<Longrightarrow> framed st (Inr (r, st'))" "framed st (Inl e)"
  by (simp_all add: framed_def)

lemma framed_end:
  "gs_frame (ip_gs st) (ip_gs st') \<Longrightarrow> framed st (no_match st')"
  "gs_frame (ip_gs st) (ip_gs st') \<Longrightarrow> framed st (at_expr_end st')"
  "gs_frame (ip_gs st) (ip_gs st') \<Longrightarrow> framed st (rvc_lui st')"
  by (auto simp: framed_def dest: no_match_frame at_expr_end_frame rvc_lui_frame)

lemma framed_expression:
  assumes "gs_frame (ip_gs st) (ip_gs st0)"
    and "\<And>st1. gs_frame (ip_gs st) (ip_gs st1) \<Longrightarrow> framed st (f st1)"
  shows "framed st (and_then (my_getExpression ex s st0) f)"
proof (cases "my_getExpression ex s st0")
  case (Inr st1)
  then show ?thesis using assms(2) [OF gs_frame_trans [OF assms(1) getExpression_frame]] by simp
qed (simp add: framed_value)

lemma framed_small_expression:
  assumes "gs_frame (ip_gs st) (ip_gs st0)"
    and "\<And>used st1. gs_frame (ip_gs st) (ip_gs st1) \<Longrightarrow> framed st (f used st1)"
  shows "framed st (and_then (my_getSmallExpression ex s st0) (\<lambda>(used, st). f used st))"
proof (cases "my_getSmallExpression ex s st0")
  case (Inr r)
  obtain used st1 where r: "r = (used, st1)" by (cases r)
  show ?thesis using assms(2) [OF gs_frame_trans [OF assms(1) getSmallExpression_frame]] Inr by (simp add: r)
qed (simp add: framed_value)

lemma framedI: "(\<And>r st'. res = Inr (r, st') \<Longrightarrow> ip_frame st st') \<Longrightarrow> framed st res"
  by (simp add: framed_def)

lemma framed_put:
  assumes "\<And>n s. ip_gs (put n s) = ip_gs s"
  shows "framed st (reg_arg cls ok put st)" and "framed st (const_arg ex valid put st)"
  using assms by (auto intro!: framedI elim: reg_arg_frame const_arg_frame)

lemma framed_fields:
  "framed st (field_arg (my_getSmallExpression ex) valid f msg st)"
  "framed st (field_arg (my_getOpcodeExpression ex) valid f msg st)"
  by (rule framedI, erule field_arg_frame [rotated], erule getSmallExpression_frame getOpcodeExpression_frame)+

lemma framed_others:
  "framed st (absolute_arg ex mo csr good msg f st)" "framed st (enum_arg names f st)"
  "framed st (branch_arg ex st)" "framed st (jump_arg ex st)"
  "framed st (upper_arg ex st)" "framed st (call_arg ex st)"
  by (auto intro!: framedI elim: branch_arg_frame jump_arg_frame absolute_arg_frame
    enum_arg_frame upper_arg_frame call_arg_frame)

lemmas framed_groups = framed_put framed_fields framed_others

lemma framed_alu:
  "ip_gs st0 = ip_gs st \<Longrightarrow> framed st (alu_arg ex c st0)"
  "ip_gs st0 = ip_gs st \<Longrightarrow> framed st (load_store_arg ex c st0)"
  using alu_arg_frame [of c st0] load_store_arg_frame [of c st0] by (auto simp: framed_def)

lemmas framed_parse = framed_expression framed_small_expression
lemmas framed_intros = framed_if framed_option framed_triple framed_prod framed_value framed_end framed_parse framed_groups framed_alu

lemma run_arg_framed: "framed st (run_arg ex mo a st)"
proof (cases a)
  case (Arg_simple c)
  show ?thesis unfolding Arg_simple run_arg_def format_arg.case simple_arg_def Let_def
    by (intro framed_intros) (simp_all add: frame_intros)
next
  case (Arg_rvc c)
  show ?thesis unfolding Arg_rvc run_arg_def format_arg.case rvc_arg_def
    by (intro framed_intros) (simp_all add: frame_intros)
next
  case (Arg_rvc_funct c)
  show ?thesis unfolding Arg_rvc_funct run_arg_def format_arg.case rvc_funct_arg_def
    by (intro framed_intros) (simp_all add: frame_intros)
next
  case (Arg_opcode c)
  show ?thesis unfolding Arg_opcode run_arg_def format_arg.case opcode_arg_def
    by (intro framed_intros) (simp_all add: frame_intros)
next
  case (Arg_funct c)
  show ?thesis unfolding Arg_funct run_arg_def format_arg.case funct_arg_def
    by (intro framed_intros) (simp_all add: frame_intros)
qed

lemma match_args_frame: "match_args ex mo args st = Inr (r, st') \<Longrightarrow> ip_frame st st'"
proof (induction "length args" arbitrary: args st r st' rule: less_induct)
  case less
  show ?case
  proof (cases args)
    case Nil
    with less.prems show ?thesis by (auto simp: Let_def)
  next
    case (Cons c rest)
    obtain ok st1 where 1: "run_arg ex mo (fst (split_arg c rest)) (skip_blanks st) = Inr (ok, st1)"
      and 2: "(if ok then match_args ex mo (snd (split_arg c rest)) st1 else Inr (False, st1)) = Inr (r, st')"
      using less.prems Cons by (auto simp: and_then_Inr_iff)
    have "ip_frame st st1" using run_arg_framed 1 by (fastforce simp: framed_def)
    moreover have "ip_frame st1 st'"
      using less.hyps [of "snd (split_arg c rest)" st1 r st'] split_arg_shorter [of c rest] 2 Cons
      by (cases ok) auto
    ultimately show ?thesis by (rule gs_frame_trans)
  qed
qed

lemma try_entries_frame:
  "try_entries ex name str error mos st = Inr (found, st') \<Longrightarrow> ip_frame st st'"
proof (induction mos arbitrary: st error)
  case (Cons mo mos)
  show ?case
  proof (cases "op_name mo \<noteq> name \<or> \<not> riscv_subset_supports (gs_tc (ip_gs st)) (op_subset mo)")
    case True
    with Cons show ?thesis by (auto split: if_splits)
  next
    case False
    with Cons.prems obtain ok st1
      where 1: "match_args ex mo (op_args mo) (start_entry mo str st) = Inr (ok, st1)"
        and 2: "(if ok then Inr (Inr mo, st1) else try_entries ex name str ''illegal operands'' mos st1) = Inr (found, st')"
      by (auto simp: and_then_Inr_iff)
    have "ip_frame st st1" using match_args_frame [OF 1] by simp
    moreover have "ip_frame st1 st'" using 2 Cons.IH by (cases ok) auto
    ultimately show ?thesis by (rule gs_frame_trans)
  qed
qed simp

lemma match_args_end: "match_args ex mo args st = Inr (True, st') \<Longrightarrow> end_of_args mo st'"
proof (induction "length args" arbitrary: args st rule: less_induct)
  case less
  show ?case
  proof (cases args)
    case Nil
    with less.prems show ?thesis by (auto simp: Let_def)
  next
    case (Cons c rest)
    then show ?thesis
      using less.hyps [of "snd (split_arg c rest)"] split_arg_shorter [of c rest] less.prems
      by (auto simp: and_then_Inr_iff split: if_splits)
  qed
qed

text \<open>The entry accepted is one of the mnemonic, of a supported extension, and it fits.\<close>

lemma supports_frame:
  "gs_frame gs gs' \<Longrightarrow> riscv_subset_supports (gs_tc gs') sub \<longleftrightarrow> riscv_subset_supports (gs_tc gs) sub"
  using tc_core_fields(1,3) [of "gs_tc gs'" "gs_tc gs"] by (simp add: gs_frame_def riscv_subset_supports_def)

lemma try_entries_found:
  "try_entries ex name str error mos st = Inr (Inr mo, st') \<Longrightarrow>
    mo \<in> set (takeWhile (\<lambda>mo. op_name mo = name) mos) \<and>
    riscv_subset_supports (gs_tc (ip_gs st)) (op_subset mo) \<and> end_of_args mo st'"
proof (induction mos arbitrary: st error)
  case (Cons m mos)
  then show ?case
    using match_args_frame [of m "op_args m" "start_entry m str st"] match_args_end [of m "op_args m" "start_entry m str st"]
    by (fastforce simp: and_then_Inr_iff supports_frame split: if_splits)
qed simp

theorem riscv_ip_sound:
  assumes "riscv_ip ex hash str gs = Inr (res, gs')"
  shows "gs_frame gs gs'"
    and "res = Inr (insn, e, r) \<Longrightarrow> \<exists>mos. fst (hash_find hash (insn_name str)) = Some mos \<and>
      insn_mo insn \<in> set (takeWhile (\<lambda>mo. op_name mo = insn_name str) mos) \<and>
      riscv_subset_supports (gs_tc gs) (op_subset (insn_mo insn)) \<and>
      (op_pinfo (insn_mo insn) \<noteq> INSN_MACRO \<longrightarrow> match_func (insn_mo insn) (insn_opcode insn))"
proof -
  obtain found st where t: "try_entries ex (insn_name str) (insn_operands str) ''unrecognized opcode''
      (case fst (hash_find hash (insn_name str)) of None \<Rightarrow> [] | Some mos \<Rightarrow> mos) (start_ip gs) = Inr (found, st)"
    and res: "gs' = ip_gs st" "res = (case found of Inl error \<Rightarrow> Inl error
          | Inr mo \<Rightarrow> Inr ((create_insn mo)\<lparr>insn_opcode := ip_bits st\<rparr>, ip_expr st, ip_reloc st))"
    using assms by (auto simp: riscv_ip_def and_then_Inr_iff)
  show "gs_frame gs gs'" using try_entries_frame [OF t] res(1) by simp
  assume "res = Inr (insn, e, r)"
  then obtain mo where mo: "found = Inr mo" "insn = (create_insn mo)\<lparr>insn_opcode := ip_bits st\<rparr>"
    using res(2) by (auto split: sum.splits)
  show "\<exists>mos. fst (hash_find hash (insn_name str)) = Some mos \<and>
      insn_mo insn \<in> set (takeWhile (\<lambda>mo. op_name mo = insn_name str) mos) \<and>
      riscv_subset_supports (gs_tc gs) (op_subset (insn_mo insn)) \<and>
      (op_pinfo (insn_mo insn) \<noteq> INSN_MACRO \<longrightarrow> match_func (insn_mo insn) (insn_opcode insn))"
    using try_entries_found [OF t [unfolded mo(1)]] mo(2)
    by (cases "fst (hash_find hash (insn_name str))") (auto simp: create_insn_def end_of_args_def)
qed

end

end
