(* ===== verification/ExprFrame.thy ===== *)
theory ExprFrame
  imports ExprFuel IpSound
begin

text \<open>
  What parsing an expression leaves alone: the code emitted so far, the fixups, the options of the
  target and the names of the symbols. It provides the interface \<open>operand_parser\<close> of the
  instruction parser for the parser of \<open>Expr\<close>, so that what \<open>IpSound\<close> shows holds of the
  two together.
\<close>

subsection \<open>Symbols\<close>

lemma map_update_same: "g (f (xs ! i)) = g (xs ! i) \<Longrightarrow> map g (xs[i := f (xs ! i)]) = map g xs"
proof (cases "i < length xs")
  case True
  assume "g (f (xs ! i)) = g (xs ! i)"
  then have "map g (xs[i := f (xs ! i)]) = (map g xs)[i := map g xs ! i]" using True by (simp add: map_update)
  then show ?thesis by (simp add: list_update_id)
qed (simp add: list_update_beyond)

lemma frame_update_symbol [frame_intros]:
  "(\<And>s. sy_name (f s) = sy_name s) \<Longrightarrow> gs_frame gs g \<Longrightarrow> gs_frame gs (update_symbol i f g)"
  by (simp add: gs_frame_def update_symbol_def map_update_same)

lemma frame_new_symbol [frame_intros]: "gs_frame gs g \<Longrightarrow> gs_frame gs (snd (new_symbol s g))"
  by (auto simp: gs_frame_def new_symbol_def)

lemma frame_warn [frame_intros]: "gs_frame gs g \<Longrightarrow> gs_frame gs (gs_warn d g)"
  by (simp add: gs_frame_def gs_warn_def as_warn_def tc_core_def)

lemma frame_fields [frame_intros]:
  "gs_frame gs g \<Longrightarrow> gs_frame gs (g\<lparr>gs_local_hash := l\<rparr>)" "gs_frame gs g \<Longrightarrow> gs_frame gs (g\<lparr>gs_sy_hash := h\<rparr>)"
  "gs_frame gs g \<Longrightarrow> gs_frame gs (g\<lparr>gs_symbol_list := is\<rparr>)" "gs_frame gs g \<Longrightarrow> gs_frame gs (g\<lparr>gs_bignum := b\<rparr>)"
  "gs_frame gs g \<Longrightarrow> gs_frame gs (g\<lparr>gs_flonum := f\<rparr>)" "gs_frame gs g \<Longrightarrow> gs_frame gs (g\<lparr>gs_dot := d\<rparr>)"
  by (simp_all add: gs_frame_def)

lemma frame_if: "(b \<Longrightarrow> gs_frame gs x) \<Longrightarrow> (\<not> b \<Longrightarrow> gs_frame gs y) \<Longrightarrow> gs_frame gs (if b then x else y)"
  by simp

lemma frame_symbol_new [frame_intros]: "gs_frame gs g \<Longrightarrow> gs_frame gs (snd (symbol_new name seg val frag g))"
  by (simp add: symbol_new_def symbol_create_def case_prod_beta frame_intros)

lemma frame_symbol_table_insert [frame_intros]: "gs_frame gs g \<Longrightarrow> gs_frame gs (symbol_table_insert i g)"
  by (simp add: symbol_table_insert_def frame_intros)

lemma frame_local_symbol_make [frame_intros]: "gs_frame gs g \<Longrightarrow> gs_frame gs (snd (local_symbol_make name seg val frag g))"
  by (simp add: local_symbol_make_def case_prod_beta Let_def frame_intros)

lemma frame_symbol_find [frame_intros]: "gs_frame gs g \<Longrightarrow> gs_frame gs (snd (symbol_find name g))"
  by (simp add: symbol_find_def symbol_find_exact_def case_prod_beta Let_def frame_intros split: option.split)

lemma frame_symbol_find_or_make [frame_intros]: "gs_frame gs g \<Longrightarrow> gs_frame gs (snd (symbol_find_or_make name g))"
  using frame_symbol_find [of gs g name]
  by (cases "symbol_find name g")
    (auto simp: symbol_find_or_make_def symbol_make_def case_prod_beta intro!: frame_intros split: option.split)

lemma frame_symbol_mark_used [frame_intros]: "gs_frame gs g \<Longrightarrow> gs_frame gs (symbol_mark_used i g)"
  by (simp add: symbol_mark_used_def frame_intros)

lemma frame_mark_used [frame_intros]: "gs_frame gs g \<Longrightarrow> gs_frame gs (mark_used p g)"
  by (simp add: mark_used_def frame_intros split: option.split)

lemma frame_clone [frame_intros]: "gs_frame gs g \<Longrightarrow> gs_frame gs (snd (symbol_clone_if_forward_ref p g))"
  by (simp add: symbol_clone_if_forward_ref_def symbol_temp_new_now_def symbol_temp_new_def case_prod_beta frame_intros)

lemma frame_make_expr_symbol [frame_intros]: "gs_frame gs g \<Longrightarrow> gs_frame gs (snd (make_expr_symbol e g))"
  by (auto simp: make_expr_symbol_def Let_def case_prod_beta intro!: frame_intros)

subsection \<open>Values\<close>

lemma frame_local_symbol_convert: "local_symbol_convert i g = Inr (r, g') \<Longrightarrow> gs_frame g g'"
  by (auto simp: local_symbol_convert_def Let_def case_prod_beta and_then_Inr_iff intro!: frame_intros split: option.splits)

lemma frame_converted_symbol: "converted_symbol i g = Inr (r, g') \<Longrightarrow> gs_frame g g'"
  by (auto simp: converted_symbol_def dest: frame_local_symbol_convert split: if_splits)

lemma frame_copy_symbol_attributes: "copy_symbol_attributes i j g = Inr g' \<Longrightarrow> gs_frame g g'"
  by (auto simp: copy_symbol_attributes_def and_then_Inr_iff intro!: frame_intros
      intro: gs_frame_trans dest!: frame_converted_symbol)

lemma frame_do_symbol: "do_symbol i add left seg_left seg val g = Inr (rs, g') \<Longrightarrow> gs_frame g g'"
  by (auto simp: do_symbol_def equate_symbol_def and_then_Inr_iff Let_def split: if_splits intro!: frame_intros
      intro: gs_frame_trans dest!: frame_converted_symbol frame_copy_symbol_attributes)

lemma frame_report_op_error [frame_intros]: "gs_frame gs g \<Longrightarrow> gs_frame gs (report_op_error i d op g)"
  by (simp add: report_op_error_def Let_def frame_intros)

lemma frame_division_by_zero [frame_intros]: "gs_frame gs g \<Longrightarrow> gs_frame gs (division_by_zero i g)"
  by (simp add: division_by_zero_def frame_intros)

lemma frame_resolve_unary [frame_intros]: "gs_frame gs g \<Longrightarrow> gs_frame gs (snd (resolve_unary i op add left seg val g))"
  by (simp add: resolve_unary_def frame_intros)

lemma frame_S_SET_VALUE [frame_intros]: "gs_frame gs g \<Longrightarrow> gs_frame gs (S_SET_VALUE i val g)"
  by (simp add: S_SET_VALUE_def frame_intros)

lemma frame_set_resolving [frame_intros]: "gs_frame gs g \<Longrightarrow> gs_frame gs (set_resolving b i g)"
  by (simp add: set_resolving_def frame_intros)

lemma frame_resolve_dyadic:
  assumes "resolve_dyadic i op add left op_sym right seg val g = Inr (rs, g')"
  shows "gs_frame g g'"
proof -
  define g1 where "g1 = (if \<not> operands_fit op add (S_GET_SEGMENT g add) op_sym (S_GET_SEGMENT g op_sym) \<and>
    gs_finalize_syms g then report_op_error i True op g else g)"
  define g2 where "g2 = (if ((op = O_divide \<or> op = O_modulus) \<and> right = 0) \<and> S_GET_SEGMENT g op_sym = Absolute_section \<and>
    gs_finalize_syms g then division_by_zero i g1 else g1)"
  have "gs_frame g g1" unfolding g1_def by (intro frame_if frame_intros)
  then have g2: "gs_frame g g2" unfolding g2_def by (intro frame_if frame_intros)
  have "g' = g2 \<or> (\<exists>d. g' = gs_bad d g2)"
    using assms unfolding resolve_dyadic_def Let_def g1_def [symmetric] g2_def [symmetric]
    by (auto simp: and_then_Inr_iff split: if_splits)
  then show ?thesis using g2 by (auto intro: frame_intros)
qed

lemma frame_resolve_binary: "resolve_binary i op add left op_sym right seg val g = Inr (rs, g') \<Longrightarrow> gs_frame g g'"
  by (auto simp: resolve_binary_def Let_def split: if_splits dest: frame_do_symbol frame_resolve_dyadic)

lemma frame_finish_resolution [frame_intros]: "gs_frame gs g \<Longrightarrow> gs_frame gs (snd (finish_resolution i rs g))"
  unfolding finish_resolution_def Let_def snd_conv by (intro frame_if frame_intros) simp_all

lemma frame_resolution_loop [frame_intros]: "gs_frame gs g \<Longrightarrow> gs_frame gs (snd (resolution_loop i g))"
  unfolding resolution_loop_def by (intro frame_intros frame_if)

lemma frame_resolve_local_value [frame_intros]: "gs_frame gs g \<Longrightarrow> gs_frame gs (snd (resolve_local_value i g))"
  by (simp add: resolve_local_value_def Let_def frame_intros)

lemma frame_resolve_case:
  assumes rec: "\<And>k g v g'. rec k g = Inr (v, g') \<Longrightarrow> gs_frame g g'"
    and c: "resolve_case rec j e seg frag g = Inr (rs, g')"
  shows "gs_frame g g'"
proof -
  have drop: "gs_frame g1 g2" if "gs_frame (update_symbol j (\<lambda>s. s\<lparr>sy_value := (sy_value s)\<lparr>X_op_symbol := None\<rparr>\<rparr>) g1) g2"
    for g1 g2 using gs_frame_trans [OF frame_update_symbol [OF _ gs_frame_refl] that] by simp
  have u: "gs_frame g1 g2" if "resolve_unary i op add left seg val g1 = (rs, g2)" for i op add left seg val g1 g2 rs
    using frame_resolve_unary [of g1 g1 i op add left seg val] that by simp
  show ?thesis
    using c unfolding resolve_case_def Let_def
    by (auto simp: and_then_Inr_iff split: if_splits dest!: rec u frame_do_symbol frame_resolve_binary drop
        intro: gs_frame_trans gs_frame_trans [OF gs_frame_trans])
qed

lemma frame_resolve_symbol_value: "resolve_symbol_value n i g = Inr (v, g') \<Longrightarrow> gs_frame g g'"
proof (induction n arbitrary: i g v g')
  case (Suc n)
  let ?j = "real_symbol g i"
  let ?s = "gs_symbols g ! ?j"
  show ?case
  proof (cases "is_local_symbol g i \<or> sy_resolved ?s \<or> sy_resolving ?s")
    case True
    then show ?thesis
      using Suc.prems frame_resolve_local_value [of g g i] frame_resolution_loop [of g g ?j]
      by (auto simp: resolve_symbol_value.simps(2) Let_def split: if_splits)
  next
    case False
    with Suc.prems obtain rs g2
      where c: "resolve_case (resolve_symbol_value n) ?j (sy_value ?s) (sy_segment ?s) (sy_frag ?s)
          (set_resolving True ?j g) = Inr (rs, g2)"
        and g': "g' = snd (finish_resolution ?j rs g2)"
      by (auto simp: resolve_symbol_value.simps(2) Let_def and_then_Inr_iff)
    have "gs_frame (set_resolving True ?j g) g2" by (rule frame_resolve_case [OF Suc.IH c])
    then show ?thesis unfolding g' by (meson frame_finish_resolution frame_set_resolving gs_frame_refl gs_frame_trans)
  qed
qed simp

lemma frame_S_GET_VALUE: "S_GET_VALUE i g = Inr (v, g') \<Longrightarrow> gs_frame g g'"
  by (auto simp: S_GET_VALUE_def and_then_Inr_iff Let_def split: if_splits dest!: frame_resolve_symbol_value intro: frame_intros)

subsection \<open>Operands\<close>

text \<open>A result whose state has the frame of the state before.\<close>

definition frames :: "gas_state \<Rightarrow> ('a \<times> string \<times> gas_state) res \<Rightarrow> bool" where
  "frames gs r \<longleftrightarrow> (\<forall>e s gs'. r = Inr (e, s, gs') \<longrightarrow> gs_frame gs gs')"

lemma frames_Inr [simp]: "frames gs (Inr p) \<longleftrightarrow> gs_frame gs (snd (snd p))" "frames gs (Inl err)"
  by (cases p) (auto simp: frames_def)

lemma frames_if: "(b \<Longrightarrow> frames gs x) \<Longrightarrow> (\<not> b \<Longrightarrow> frames gs y) \<Longrightarrow> frames gs (if b then x else y)"
  by simp

lemma frames_and_then: "(\<And>a. r = Inr a \<Longrightarrow> frames gs (f a)) \<Longrightarrow> frames gs (and_then r f)"
  by (cases r) simp_all

lemma frame_underscore_words: "gs_frame g (snd (snd (underscore_words s n g)))"
proof (induction s n g rule: underscore_words.induct)
  case (1 s n g)
  define g1 where "g1 = (if length (takeWhile (is_digit 16) s) > 8
    then gs_bad (Diag ''a bignum with underscores may not have more than 8 hex digits in any word'' []) g else g)"
  define g2 where "g2 = g1\<lparr>gs_bignum := bignum_word n (digits_valueT 16 (takeWhile (is_digit 16) s)) (gs_bignum g1)\<rparr>"
  have g2: "gs_frame g g2" unfolding g2_def g1_def by (intro frame_intros frame_if)
  show ?case
  proof (cases "dropWhile (is_digit 16) s")
    case Nil
    show ?thesis
      unfolding underscore_words.simps [of s n g] Let_def g1_def [symmetric] g2_def [symmetric] Nil
      using g2 by simp
  next
    case (Cons c rest)
    have "gs_frame g2 (snd (snd (underscore_words rest (n + 2) g2)))" if "c = CHR ''_''"
      unfolding g2_def g1_def using Cons that by (intro "1.IH" [OF refl refl refl refl]) simp_all
    then show ?thesis using g2 Cons
      unfolding underscore_words.simps [of s n g] Let_def g1_def [symmetric] g2_def [symmetric]
      by (auto intro: gs_frame_trans)
  qed
qed

lemma frame_labels [frame_intros]:
  "gs_frame gs g \<Longrightarrow> gs_frame gs (snd (backward_label v g))"
  "gs_frame gs g \<Longrightarrow> gs_frame gs (snd (forward_label v g))"
  "gs_frame gs g \<Longrightarrow> gs_frame gs (snd (dollar_label v g))"
proof -
  assume g: "gs_frame gs g"
  obtain r g1 where find: "symbol_find (fb_label_name (gs_fb g) v 0) g = (r, g1)" by fastforce
  then have "gs_frame gs g1" using frame_symbol_find [OF g, of "fb_label_name (gs_fb g) v 0"] by simp
  then show "gs_frame gs (snd (backward_label v g))"
    by (cases r) (simp_all add: backward_label_def find frame_intros)
  show "gs_frame gs (snd (forward_label v g))" "gs_frame gs (snd (dollar_label v g))"
    using g by (simp_all add: forward_label_def dollar_label_def case_prod_beta frame_intros)
qed

lemma frame_after_number [frame_intros]: "gs_frame gs g \<Longrightarrow> gs_frame gs (snd (snd (after_number small v s g)))"
  by (simp add: after_number_def Let_def case_prod_beta frame_intros)

lemma frame_underscore_number: "underscore_number s g = Inr (b, v, s', g') \<Longrightarrow> gs_frame g g'"
  using frame_underscore_words [of g s 0]
  by (auto simp: underscore_number_def Let_def case_prod_beta and_then_Inr_iff intro: frame_intros split: if_splits)

lemma frames_integer_constant: "frames g (integer_constant radix s g)"
proof -
  have us: "frames g (and_then (underscore_number s g) (\<lambda>(small, number, rest, gs). Inr (after_number small number rest gs)))"
    by (intro frames_and_then) (auto dest!: frame_underscore_number intro: frame_intros)
  show ?thesis unfolding integer_constant_def Let_def using us
    by (auto simp: case_prod_beta long_number_def Let_def intro!: frames_if frame_intros)
qed

lemma frame_floating_constant [frame_intros]: "gs_frame gs g \<Longrightarrow> gs_frame gs (snd (snd (floating_constant atof s g)))"
  by (auto simp: floating_constant_def Let_def case_prod_beta intro!: frame_intros)

lemma frame_float_with_prefix [frame_intros]: "gs_frame gs g \<Longrightarrow> gs_frame gs (snd (snd (float_with_prefix atof c s g)))"
  by (simp add: float_with_prefix_def case_prod_beta frame_intros)

lemma frame_zero_default [frame_intros]: "gs_frame gs g \<Longrightarrow> gs_frame gs (snd (snd (zero_default atof s g)))"
  by (simp add: zero_default_def Let_def frame_intros)

lemma frames_trans: "gs_frame gs g \<Longrightarrow> frames g r \<Longrightarrow> frames gs r"
  by (auto simp: frames_def intro: gs_frame_trans)

lemma frames_zero_operand: "frames g (zero_operand atof z s g)"
proof -
  have "frames g (zero_f atof z s g)"
    by (auto simp: zero_f_def Let_def case_prod_beta frames_integer_constant intro!: frames_if frame_intros
        intro: frames_trans [OF _ frames_integer_constant])
  then show ?thesis
    by (auto simp: zero_operand_def Let_def frames_integer_constant intro!: frames_if frame_intros)
qed

lemma frame_get_symbol_name [frame_intros]: "gs_frame gs g \<Longrightarrow> gs_frame gs (snd (snd (get_symbol_name s g)))"
  by (auto simp: get_symbol_name_def case_prod_beta intro!: frame_intros split: list.split)

lemma frames_symbol_name_operand: "frames g (symbol_name_operand mode s g)"
proof -
  define g1 where "g1 = snd (symbol_find_or_make (fst (get_symbol_name s g)) (snd (snd (get_symbol_name s g))))"
  have g1: "gs_frame g g1" unfolding g1_def by (intro frame_intros)
  show ?thesis unfolding symbol_name_operand_def Let_def case_prod_beta g1_def [symmetric]
    using g1 by (auto intro!: frames_if frames_and_then dest!: frame_S_GET_VALUE intro: gs_frame_trans)
qed

lemma frame_symbol_make [frame_intros]: "gs_frame gs g \<Longrightarrow> gs_frame gs (snd (symbol_make name g))"
  by (simp add: symbol_make_def frame_intros)

lemma frames_startof_operand: "frames g (startof_operand s g)"
  unfolding startof_operand_def Let_def case_prod_beta
  by (intro frames_if frames_and_then) (auto intro!: frame_intros)

lemma frames_leaf_operand: "frames g (leaf_operand atof mode s g)"
  unfolding leaf_operand_def Let_def
  by (auto simp: frames_zero_operand frames_integer_constant frames_startof_operand frames_symbol_name_operand
      intro: frame_intros split: list.split)

lemma frame_finish_operand:
  assumes "finish_operand mode (e, s, g) = Inr (seg, e', s', g')"
  shows "gs_frame g g'"
proof -
  let ?g = "mark_used (X_add_symbol (clean_up_expression e)) g"
  have "g' = ?g \<or> g' = snd (symbol_clone_if_forward_ref (X_op_symbol (clean_up_expression e))
      (snd (symbol_clone_if_forward_ref (X_add_symbol (clean_up_expression e)) ?g)))"
    using assms by (auto simp: finish_operand_def Let_def case_prod_beta and_then_Inr_iff split: if_splits)
  moreover have "gs_frame g ?g" by (intro frame_intros)
  ultimately show ?thesis by (auto intro!: frame_intros)
qed

lemma frame_unary_apply [frame_intros]: "gs_frame gs g \<Longrightarrow> gs_frame gs (snd (unary_apply c e g))"
  unfolding unary_apply_def unary_bignum_def Let_def case_prod_beta if_distrib [of snd] snd_conv
  by (intro frame_if frame_intros)

lemma frame_close_parenthesis [frame_intros]: "gs_frame gs g \<Longrightarrow> gs_frame gs (snd (close_parenthesis c s g))"
  by (simp add: close_parenthesis_def Let_def frame_intros)

subsection \<open>Operators\<close>

lemma frame_zero_big [frame_intros]: "gs_frame gs g \<Longrightarrow> gs_frame gs (snd (zero_big side e g))"
  by (simp add: zero_big_def frame_intros)

lemma frame_fold_constants: "fold_constants op e v g = Inr (e', g') \<Longrightarrow> gs_frame g g'"
  unfolding fold_constants_def Let_def case_prod_beta and_then_Inr_iff if_distrib [of snd] if_distrib [of fst] snd_conv fst_conv
  by (auto intro: frame_intros split: if_splits)

lemma frame_general_case [frame_intros]: "gs_frame gs g \<Longrightarrow> gs_frame gs (snd (general_case op e right g))"
  by (simp add: general_case_def case_prod_beta frame_intros)

lemma frame_combine_operands: "combine_operands op e seg right rseg g = Inr (e', seg', rseg', g') \<Longrightarrow> gs_frame g g'"
  using frame_general_case [of g g op e right]
  by (auto simp: combine_operands_def Let_def case_prod_beta and_then_Inr_iff split: if_splits dest!: frame_fold_constants)

lemma frame_combine_segments [frame_intros]: "gs_frame gs g \<Longrightarrow> gs_frame gs (snd (combine_segments op seg rseg g))"
  by (simp add: combine_segments_def frame_intros)

lemma frame_apply_operator:
  assumes "apply_operator op e seg right rseg g = Inr (e', seg', g')"
  shows "gs_frame g g'"
proof -
  let ?r = "if X_op right = O_absent
            then (right\<lparr>X_op := O_constant, X_add_number := 0, X_add_symbol := None, X_op_symbol := None\<rparr>,
                  gs_warn (Diag ''missing operand; zero assumed'' []) g) else (right, g)"
  let ?g1 = "snd (zero_big ''right'' (fst ?r) (snd (zero_big ''left'' e (snd ?r))))"
  obtain e1 s1 r1 g2 where c: "combine_operands op (fst (zero_big ''left'' e (snd ?r))) seg
      (fst (zero_big ''right'' (fst ?r) (snd (zero_big ''left'' e (snd ?r))))) rseg ?g1 = Inr (e1, s1, r1, g2)"
    and g': "g' = snd (combine_segments op s1 r1 g2)"
    using assms unfolding apply_operator_def Let_def case_prod_beta by (auto simp: and_then_Inr_iff)
  have "gs_frame g (snd ?r)" by (simp add: frame_intros)
  then have "gs_frame g ?g1" by (intro frame_intros)
  then have "gs_frame g g2" using frame_combine_operands [OF c] by (rule gs_frame_trans)
  then show ?thesis unfolding g' by (rule frame_intros)
qed

lemma frame_finish_expr: "finish_expr rank mode (seg, e, s, g) = Inr (seg', e', s', g') \<Longrightarrow> gs_frame g g'"
  by (auto simp: finish_expr_def Let_def and_then_Inr_iff intro: frame_intros split: if_splits)

lemma frame_save_dot [frame_intros]: "gs_frame gs g \<Longrightarrow> gs_frame gs (save_dot rank g)"
  by (simp add: save_dot_def frame_intros)

subsection \<open>The recursion\<close>

lemma parse_frames:
  shows "operand atof mode n s g = Inr (seg', e', s', g') \<Longrightarrow> gs_frame g g'"
    and "expr atof mode n rank s g = Inr (seg', e', s', g') \<Longrightarrow> gs_frame g g'"
    and "expr_loop atof mode n rank retval e s g = Inr (seg', e', s', g') \<Longrightarrow> gs_frame g g'"
proof (induction n arbitrary: s g seg' e' s' g' rank retval e)
  case (Suc n)
  {
    case 1
    let ?s = "skip_whitespace s"
    have paren: "gs_frame g g2" if "expr atof mode n 0 t g = Inr (seg, e1, s1, g1)" "close_parenthesis c s1 g1 = (s2, g2)"
      for c t seg e1 s1 g1 s2 g2 using frame_close_parenthesis [OF Suc.IH(2) [OF that(1)], of c s1] that(2) by simp
    have unary: "gs_frame g g2" if "operand atof mode n t g = Inr (seg, e1, s1, g1)"
      "finish_operand mode (fst (unary_apply c e1 g1), s1, snd (unary_apply c e1 g1)) = Inr (seg2, e2, s2, g2)"
      for c t seg e1 s1 g1 seg2 e2 s2 g2
      using frame_unary_apply [OF Suc.IH(1) [OF that(1)]] frame_finish_operand [OF that(2)] by (rule gs_frame_trans)
    have leaf: "gs_frame g g2" if "leaf_operand atof mode ?s g = Inr (e1, s1, g1)"
      "finish_operand mode (e1, s1, g1) = Inr (seg2, e2, s2, g2)" for e1 s1 g1 seg2 e2 s2 g2
      using frames_leaf_operand [of g atof mode ?s] that(1) frame_finish_operand [OF that(2)]
      by (auto simp: frames_def intro: gs_frame_trans)
    show ?case using 1 paren unary leaf
      by (auto simp: Let_def and_then_Inr_iff case_prod_beta split: if_splits)
  next
    case 2
    then obtain seg e1 s1 g1 seg2 e2 s2 g2
      where "operand atof mode n s (save_dot rank g) = Inr (seg, e1, s1, g1)"
        "expr_loop atof mode n rank seg e1 s1 g1 = Inr (seg2, e2, s2, g2)"
        "finish_expr rank mode (seg2, e2, s2, g2) = Inr (seg', e', s', g')"
      by (auto simp: and_then_Inr_iff)
    then show ?case
      using Suc.IH(1,3) frame_finish_expr frame_save_dot [OF gs_frame_refl, of g rank] by (meson gs_frame_trans)
  next
    case 3
    obtain op k where op: "operatorf s = (op, k)" by fastforce
    show ?case
    proof (cases "op \<noteq> O_illegal \<and> op_rank op > rank")
      case True
      with 3 op obtain seg e1 s1 g1 e2 seg2 g2
        where "expr atof mode n (op_rank op) (drop k s) g = Inr (seg, e1, s1, g1)"
          "apply_operator op e retval e1 seg g1 = Inr (e2, seg2, g2)"
          "expr_loop atof mode n rank seg2 e2 s1 g2 = Inr (seg', e', s', g')"
        by (auto simp: and_then_Inr_iff)
      then show ?thesis using Suc.IH(2,3) frame_apply_operator by (meson gs_frame_trans)
    next
      case False
      with 3 op show ?thesis by (auto split: if_splits)
    qed
  }
qed simp_all

subsection \<open>The interface of the instruction parser\<close>

text \<open>\<open>expression\<close>, as the instruction parser calls it.\<close>

definition expression :: "atof \<Rightarrow> expr_parser" where
  "expression atof gs s =
     and_then (parse_expression atof Expr_normal s gs) (\<lambda>(_, e, rest, gs). Inr (e, rest, gs))"

interpretation gas_expr: operand_parser "expression atof" for atof
  by unfold_locales (auto simp: expression_def parse_expression_def and_then_Inr_iff dest: parse_frames(2))

end
