(* ===== verification/ExprValue.thy ===== *)
theory ExprValue
  imports ExprFuel
begin

text \<open>
  What constant expressions mean: integer literals denote their value, however many digits
  they have, and the parser reads an expression printed with as few parentheses as the ranks
  of the operators allow back to its value.
\<close>

subsection \<open>The value of digits\<close>

definition digits_nat :: "nat \<Rightarrow> string \<Rightarrow> nat" where
  "digits_nat radix ds = foldl (\<lambda>n c. n * radix + hex_value c) 0 ds"

fun littlenums_value :: "16 word list \<Rightarrow> nat" where
  "littlenums_value [] = 0"
| "littlenums_value (x # xs) = unat x + 65536 * littlenums_value xs"

lemma digits_nat_simps [simp]:
  "digits_nat radix [] = 0" "digits_nat radix (ds @ [c]) = digits_nat radix ds * radix + hex_value c"
  by (simp_all add: digits_nat_def)

lemma digits_valueT_nat: "digits_valueT radix ds = word_of_nat (digits_nat radix ds)"
  by (induction ds rule: rev_induct) (simp_all add: digits_valueT_def)

lemma digits_nat_less: "list_all (is_digit radix) ds \<Longrightarrow> digits_nat radix ds < radix ^ length ds"
proof (induction ds rule: rev_induct)
  case (snoc c ds)
  then have c: "hex_value c < radix" and v: "digits_nat radix ds < radix ^ length ds" by (simp_all add: is_digit_def)
  from v have "(digits_nat radix ds + 1) * radix \<le> radix ^ length ds * radix" by (intro mult_right_mono) simp_all
  with c show ?case by (simp add: algebra_simps)
qed simp

lemma littlenums_append [simp]:
  "littlenums_value (xs @ ys) = littlenums_value xs + 65536 ^ length xs * littlenums_value ys"
  by (induction xs) (simp_all add: algebra_simps)

lemma littlenums_less: "littlenums_value xs < 65536 ^ length xs"
proof (induction xs)
  case (Cons x xs)
  have "unat x < 65536" using unsigned_less [of x] by simp
  with Cons show ?case by simp
qed simp

lemma mul_add_value:
  "mul_add radix carry xs = (ys, c) \<Longrightarrow>
    length ys = length xs \<and> littlenums_value ys + 65536 ^ length xs * c = carry + radix * littlenums_value xs"
proof (induction radix carry xs arbitrary: ys c rule: mul_add.induct)
  case (2 radix carry x xs)
  let ?work = "carry + radix * unat x"
  obtain zs d where rec: "mul_add radix (?work div 65536) xs = (zs, d)" by fastforce
  with "2.prems" have ys: "ys = word_of_nat (?work mod 65536) # zs" "c = d" by (auto simp: Let_def)
  have IH: "length zs = length xs" "littlenums_value zs + 65536 ^ length xs * d = ?work div 65536 + radix * littlenums_value xs"
    using "2.IH" [OF refl rec] by simp_all
  have "unat (word_of_nat (?work mod 65536) :: 16 word) = ?work mod 65536"
    by (simp add: unsigned_of_nat take_bit_eq_mod)
  moreover have "?work mod 65536 + 65536 * (?work div 65536) = ?work" by simp
  moreover have "littlenums_value (word_of_nat (?work mod 65536) # zs) + 65536 ^ length (x # xs) * d =
      unat (word_of_nat (?work mod 65536) :: 16 word) + 65536 * (littlenums_value zs + 65536 ^ length xs * d)"
    by (simp add: algebra_simps)
  ultimately have "littlenums_value ys + 65536 ^ length (x # xs) * c =
      ?work mod 65536 + 65536 * (?work div 65536) + 65536 * (radix * littlenums_value xs)"
    using IH(2) by (simp only: ys) simp
  also have "\<dots> = carry + radix * littlenums_value (x # xs)" by (simp add: algebra_simps)
  finally show ?case using IH(1) ys by simp
qed simp

lemma mul_add_carry: "carry < radix \<Longrightarrow> mul_add radix carry xs = (ys, c) \<Longrightarrow> c < radix"
proof (induction radix carry xs arbitrary: ys c rule: mul_add.induct)
  case (2 radix carry x xs)
  let ?work = "carry + radix * unat x"
  obtain zs d where rec: "mul_add radix (?work div 65536) xs = (zs, d)" by fastforce
  have "unat x < 65536" using unsigned_less [of x] by simp
  then have "unat x \<le> 65535" by simp
  then have "radix * unat x \<le> radix * 65535" by (rule mult_left_mono) simp
  then have "?work < 65536 * radix" using "2.prems"(1) by linarith
  then have "?work div 65536 < radix" by (simp add: less_mult_imp_div_less mult.commute)
  from "2.IH" [OF refl this rec] show ?case using rec "2.prems"(2) by (auto simp: Let_def)
qed simp

text \<open>A bignum that is as short as its value allows.\<close>

definition bignum_ok :: "16 word list \<Rightarrow> bool" where
  "bignum_ok xs \<longleftrightarrow> 1 \<le> length xs \<and> length xs \<le> SIZE_OF_LARGE_NUMBER \<and>
     (length xs = 1 \<or> 65536 ^ (length xs - 1) \<le> littlenums_value xs)"

lemma bignum_digit_value:
  assumes ok: "bignum_ok xs" and d: "is_digit radix d" and radix: "radix \<le> 65536"
    and fits: "littlenums_value xs * radix + hex_value d < 65536 ^ SIZE_OF_LARGE_NUMBER"
  shows "bignum_ok (bignum_digit radix xs d)"
    and "littlenums_value (bignum_digit radix xs d) = littlenums_value xs * radix + hex_value d"
proof -
  obtain ys c where m: "mul_add radix (hex_value d) xs = (ys, c)" by fastforce
  have v: "length ys = length xs \<and> littlenums_value ys + 65536 ^ length xs * c = hex_value d + radix * littlenums_value xs"
    by (rule mul_add_value [OF m])
  have d': "hex_value d < radix" using d by (simp add: is_digit_def)
  then have c: "c < radix" using m by (rule mul_add_carry)
  have sum: "littlenums_value ys + 65536 ^ length xs * c = littlenums_value xs * radix + hex_value d"
    using v by (simp add: algebra_simps)
  have room: "length xs < SIZE_OF_LARGE_NUMBER" if "c \<noteq> 0"
  proof (rule ccontr)
    assume "\<not> length xs < SIZE_OF_LARGE_NUMBER"
    then have "(65536 :: nat) ^ SIZE_OF_LARGE_NUMBER \<le> 65536 ^ length xs" by (intro power_increasing) simp_all
    also have "\<dots> \<le> 65536 ^ length xs * c" using that by simp
    finally show False using sum fits by linarith
  qed
  have res: "bignum_digit radix xs d = (if c \<noteq> 0 then ys @ [word_of_nat c] else ys)"
    using m v room by (auto simp: bignum_digit_def)
  have unat: "unat (word_of_nat c :: 16 word) = c" using c radix by (simp add: unsigned_of_nat take_bit_nat_eq_self)
  show val: "littlenums_value (bignum_digit radix xs d) = littlenums_value xs * radix + hex_value d"
    using sum v by (cases "c = 0") (simp_all add: res unat algebra_simps)
  have mono: "littlenums_value xs \<le> littlenums_value xs * radix + hex_value d" using d' by (cases radix) auto
  show "bignum_ok (bignum_digit radix xs d)"
  proof (cases "c = 0")
    case True
    have "littlenums_value xs \<le> littlenums_value ys" using mono val res True by simp
    then show ?thesis using ok v [THEN conjunct1] res True by (auto simp: bignum_ok_def intro: le_trans)
  next
    case False
    then have "65536 ^ length xs \<le> littlenums_value (bignum_digit radix xs d)" using sum val by (cases c) auto
    then show ?thesis using ok v room False res by (simp add: bignum_ok_def)
  qed
qed

lemma digits_nat_mono: "1 \<le> radix \<Longrightarrow> digits_nat radix ds \<le> digits_nat radix (ds @ [c])"
  by (cases radix) auto

lemma digits_bignum_value:
  assumes radix: "1 \<le> radix" "radix \<le> 65536"
  shows "list_all (is_digit radix) ds \<Longrightarrow> digits_nat radix ds < 65536 ^ SIZE_OF_LARGE_NUMBER \<Longrightarrow>
    bignum_ok (digits_bignum radix ds) \<and> littlenums_value (digits_bignum radix ds) = digits_nat radix ds"
proof (induction ds rule: rev_induct)
  case (snoc c ds)
  have "digits_nat radix ds < 65536 ^ SIZE_OF_LARGE_NUMBER"
    using snoc.prems(2) digits_nat_mono [OF radix(1), of ds c] by (rule le_less_trans [rotated])
  with snoc have IH: "bignum_ok (digits_bignum radix ds)" "littlenums_value (digits_bignum radix ds) = digits_nat radix ds"
    by simp_all
  show ?case
    using bignum_digit_value [OF IH(1), of radix c] radix snoc.prems IH(2) by (simp add: digits_bignum_def)
qed (simp add: digits_bignum_def bignum_ok_def)

lemma two_littlenums: "push_bit 16 (ucast b) OR ucast a = (word_of_nat (unat a + 65536 * unat b) :: u32)"
  for a b :: "16 word"
proof -
  have "ucast a AND (push_bit 16 (ucast b) :: u32) = 0"
    by (rule bit_word_eqI) (auto simp: bit_simps dest: bit_imp_le_length)
  then have "push_bit 16 (ucast b) OR ucast a = (ucast a + push_bit 16 (ucast b) :: u32)"
    by (simp add: disjunctive_add_eq_or or.commute)
  then show ?thesis by (simp add: push_bit_eq_mult mult.commute)
qed

lemma bignum_small:
  assumes "bignum_ok xs"
  shows "length xs \<le> 2 \<longleftrightarrow> littlenums_value xs < 2 ^ 32"
proof
  assume "length xs \<le> 2"
  then have "(65536 :: nat) ^ length xs \<le> 65536 ^ 2" by (intro power_increasing) simp_all
  with littlenums_less [of xs] show "littlenums_value xs < 2 ^ 32" by simp
next
  assume less: "littlenums_value xs < 2 ^ 32"
  show "length xs \<le> 2"
  proof (rule ccontr)
    assume long: "\<not> length xs \<le> 2"
    then have "(65536 :: nat) ^ 2 \<le> 65536 ^ (length xs - 1)" by (intro power_increasing) simp_all
    with assms long less show False by (auto simp: bignum_ok_def)
  qed
qed

lemma long_number_value:
  assumes "bignum_ok (digits_bignum radix ds)" and "littlenums_value (digits_bignum radix ds) = v"
  shows "\<exists>number big. long_number radix ds gs = (v < 2 ^ 32, number, gs\<lparr>gs_bignum := big\<rparr>) \<and>
    (if v < 2 ^ 32 then number = word_of_nat v else littlenums_value (take (unat number) big) = v)"
proof -
  let ?xs = "digits_bignum radix ds"
  let ?big = "?xs @ drop (length ?xs) ([0, 0, 0, 0] @ drop 4 (gs_bignum gs))"
  have len: "1 \<le> length ?xs" "length ?xs \<le> 20" using assms(1) by (simp_all add: bignum_ok_def)
  have small: "length ?xs \<le> 2 \<longleftrightarrow> v < 2 ^ 32" using bignum_small [OF assms(1)] assms(2) by simp
  have "generic_bignum_to_int32 ?big = word_of_nat v" if "length ?xs \<le> 2"
  proof (cases "length ?xs = 1")
    case True
    then obtain x where "?xs = [x]" by (auto simp: length_Suc_conv)
    then show ?thesis using assms(2) by (auto simp: generic_bignum_to_int32_def two_littlenums)
  next
    case False
    with that len(1) have "length ?xs = 2" by linarith
    then obtain x y where "?xs = [x, y]" by (auto simp: length_Suc_conv numeral_2_eq_2)
    then show ?thesis using assms(2) by (auto simp: generic_bignum_to_int32_def two_littlenums)
  qed
  moreover have "unat (word_of_nat (length ?xs) :: u32) = length ?xs"
    using len by (simp add: unsigned_of_nat take_bit_nat_eq_self)
  moreover have "take (length ?xs) ?big = ?xs" by simp
  ultimately have val: "if v < 2 ^ 32 then generic_bignum_to_int32 ?big = word_of_nat v
      else littlenums_value (take (unat (word_of_nat (length ?xs) :: u32)) ?big) = v"
    using assms(2) small by simp
  have number: "long_number radix ds gs = (v < 2 ^ 32, if v < 2 ^ 32 then generic_bignum_to_int32 ?big
      else word_of_nat (length ?xs), gs\<lparr>gs_bignum := ?big\<rparr>)"
    using small by (simp add: long_number_def Let_def)
  show ?thesis unfolding number
    by (rule exI, rule exI [of _ ?big], rule conjI, rule refl) (use val in \<open>cases "v < 2 ^ 32"; simp\<close>)
qed

subsection \<open>Integer literals\<close>

text \<open>The text behind a number: no digit, suffix, label or underscore.\<close>

definition number_end :: "nat \<Rightarrow> string \<Rightarrow> bool" where
  "number_end radix rest \<longleftrightarrow> \<not> is_digit radix (c_char rest) \<and> c_char rest \<notin> set ''uUlLbf$_''"

lemma after_number_end:
  "number_end radix rest \<Longrightarrow> after_number small number rest gs =
    (if small then constant_operand number else absent_expr\<lparr>X_op := O_big, X_add_number := number\<rparr>, rest, gs)"
proof -
  assume "number_end radix rest"
  then have c: "c_char rest \<noteq> CHR ''u''" "c_char rest \<noteq> CHR ''U''" "c_char rest \<noteq> CHR ''l''" "c_char rest \<noteq> CHR ''L''"
    "c_char rest \<noteq> CHR ''b''" "c_char rest \<noteq> CHR ''f''" "c_char rest \<noteq> CHR ''$''"
    by (simp_all add: number_end_def)
  have "dropWhile (\<lambda>c. c = CHR ''L'' \<or> c = CHR ''l'') rest = rest" using c by (cases rest) simp_all
  then show ?thesis using c by (simp add: after_number_def)
qed

lemma takeWhile_digits:
  assumes "list_all (is_digit radix) ds" and "number_end radix rest"
  shows "takeWhile (is_digit radix) (ds @ rest) = ds" "dropWhile (is_digit radix) (ds @ rest) = rest"
proof -
  have rest: "\<not> is_digit radix (c_char rest)" using assms(2) by (simp add: number_end_def)
  have "takeWhile (is_digit radix) rest = []" "dropWhile (is_digit radix) rest = rest"
    using rest by (cases rest; simp)+
  then show "takeWhile (is_digit radix) (ds @ rest) = ds" "dropWhile (is_digit radix) (ds @ rest) = rest"
    using assms(1) by (simp_all add: list_all_iff takeWhile_append dropWhile_append)
qed

lemma digit_no_eol: "radix \<le> 99 \<Longrightarrow> is_digit radix c \<Longrightarrow> \<not> is_end_of_line c"
proof -
  have "hex_value CHR 0x00 = 99" "hex_value CHR 0x0a = 99" "hex_value CHR '';'' = 99" by (simp_all add: hex_value_def)
  then show "radix \<le> 99 \<Longrightarrow> is_digit radix c \<Longrightarrow> \<not> is_end_of_line c" by (auto simp: is_digit_def is_end_of_line_def)
qed

text \<open>The number of digits below which the value is taken to fit into 32 bits.\<close>

lemma few_digits:
  assumes "radix \<in> {2, 10, 16}" and "list_all (is_digit radix) ds" and "length ds < too_many_digits radix"
  shows "digits_nat radix ds < 2 ^ 32"
proof -
  have "length ds \<le> too_many_digits radix - 1" using assms(3) by simp
  then have "radix ^ length ds \<le> radix ^ (too_many_digits radix - 1)" using assms(1) by (intro power_increasing) auto
  also have "\<dots> \<le> 2 ^ 32" using assms(1) by (auto simp: too_many_digits_def)
  finally show ?thesis by (rule less_le_trans [OF digits_nat_less [OF assms(2)]])
qed

lemma integer_constant_unfold:
  assumes "radix \<in> {2, 8, 10, 16}" and ds: "ds \<noteq> []" "list_all (is_digit radix) ds" and rest: "number_end radix rest"
  shows "integer_constant radix (ds @ rest) gs =
    (if length ds < too_many_digits radix then Inr (constant_operand (word_of_nat (digits_nat radix ds)), rest, gs)
     else let (small, number, gs) = long_number radix ds gs
          in Inr (if small then constant_operand number else absent_expr\<lparr>X_op := O_big, X_add_number := number\<rparr>, rest, gs))"
proof -
  have "c_char rest \<noteq> CHR ''_''" using rest by (auto simp: number_end_def)
  moreover have "\<not> is_end_of_line (c_char (ds @ rest))"
    using ds digit_no_eol [of radix "hd ds"] assms(1) by (cases ds) auto
  ultimately show ?thesis
    using takeWhile_digits [OF ds(2) rest] after_number_end [OF rest]
    by (simp add: integer_constant_def Let_def digits_valueT_nat case_prod_beta)
qed

lemma integer_constant_value:
  assumes "radix \<in> {2, 10, 16}" and ds: "ds \<noteq> []" "list_all (is_digit radix) ds" and rest: "number_end radix rest"
    and fits: "digits_nat radix ds < 65536 ^ SIZE_OF_LARGE_NUMBER"
  shows "\<exists>e big. integer_constant radix (ds @ rest) gs = Inr (e, rest, gs\<lparr>gs_bignum := big\<rparr>) \<and>
    (if digits_nat radix ds < 2 ^ 32 then e = constant_operand (word_of_nat (digits_nat radix ds))
     else X_op e = O_big \<and> littlenums_value (take (unat (X_add_number e)) big) = digits_nat radix ds)"
proof (cases "length ds < too_many_digits radix")
  case True
  then have "gs\<lparr>gs_bignum := gs_bignum gs\<rparr> = gs" "digits_nat radix ds < 2 ^ 32"
    using few_digits [OF assms(1) ds(2)] by simp_all
  then show ?thesis using True integer_constant_unfold [OF _ ds rest, of gs] assms(1)
    by (intro exI [of _ "constant_operand (word_of_nat (digits_nat radix ds))"] exI [of _ "gs_bignum gs"]) auto
next
  case False
  have radix: "1 \<le> radix" "radix \<le> 65536" using assms(1) by auto
  note ok = digits_bignum_value [OF radix ds(2) fits]
  obtain number big where l: "long_number radix ds gs = (digits_nat radix ds < 2 ^ 32, number, gs\<lparr>gs_bignum := big\<rparr>)"
    "if digits_nat radix ds < 2 ^ 32 then number = word_of_nat (digits_nat radix ds)
     else littlenums_value (take (unat number) big) = digits_nat radix ds"
    using long_number_value [OF ok [THEN conjunct1] ok [THEN conjunct2], of gs] by blast
  then show ?thesis using False integer_constant_unfold [OF _ ds rest, of gs] assms(1) by (auto split: if_splits)
qed

text \<open>
  Octal numbers are the exception: the twelfth digit is the first that counts as too many, but
  eleven digits can stand for a number of 33 bits, whose high bit is lost.
\<close>

lemma octal_truncated:
  assumes "length ds = 11" and "list_all (is_digit 8) ds" and "number_end 8 rest"
  shows "integer_constant 8 (ds @ rest) gs = Inr (constant_operand (word_of_nat (digits_nat 8 ds)), rest, gs)"
  using integer_constant_unfold [of 8 ds rest gs] assms by (cases ds) (simp_all add: too_many_digits_def)

subsection \<open>Constant expressions and their text\<close>

datatype cexp = Lit valueT | Unary char cexp | Binary operatorT cexp cexp

definition unary_constant :: "char \<Rightarrow> valueT \<Rightarrow> valueT" where
  "unary_constant c v =
     (if c = CHR ''-'' then - v else if c = CHR ''~'' then NOT v else if c = CHR ''!'' then of_bool (v = 0) else v)"

text \<open>\<open>None\<close> where the operator has no value: division by zero and the like.\<close>

definition operator_value :: "operatorT \<Rightarrow> valueT \<Rightarrow> valueT \<Rightarrow> valueT option" where
  "operator_value op l r =
     (if op = O_eq then Some (truth (l = r)) else if op = O_ne then Some (truth (l \<noteq> r))
      else case binary_value drop_bit op l r of Inr v \<Rightarrow> Some v | Inl _ \<Rightarrow> None)"

fun cexp_value :: "cexp \<Rightarrow> valueT option" where
  "cexp_value (Lit v) = Some v"
| "cexp_value (Unary c a) = map_option (unary_constant c) (cexp_value a)"
| "cexp_value (Binary op a b) =
     Option.bind (cexp_value a) (\<lambda>l. Option.bind (cexp_value b) (\<lambda>r. operator_value op l r))"

fun cexp_ok :: "cexp \<Rightarrow> bool" where
  "cexp_ok (Lit v) \<longleftrightarrow> True"
| "cexp_ok (Unary c a) \<longleftrightarrow> unary_char c \<and> cexp_ok a"
| "cexp_ok (Binary op a b) \<longleftrightarrow> binary_op op \<and> cexp_ok a \<and> cexp_ok b"

fun decimal :: "nat \<Rightarrow> string" where
  "decimal n = (if n < 10 then [] else decimal (n div 10)) @ [char_of (48 + n mod 10)]"

declare decimal.simps [simp del]

definition op_text :: "operatorT \<Rightarrow> string" where
  "op_text op =
     (case op of
        O_multiply \<Rightarrow> ''*'' | O_divide \<Rightarrow> ''/'' | O_modulus \<Rightarrow> ''%'' | O_left_shift \<Rightarrow> ''<<'' | O_right_shift \<Rightarrow> ''>>''
      | O_bit_inclusive_or \<Rightarrow> ''|'' | O_bit_or_not \<Rightarrow> ''!'' | O_bit_exclusive_or \<Rightarrow> ''^'' | O_bit_and \<Rightarrow> ''&''
      | O_add \<Rightarrow> ''+'' | O_subtract \<Rightarrow> ''-'' | O_eq \<Rightarrow> ''=='' | O_ne \<Rightarrow> ''!='' | O_lt \<Rightarrow> ''<'' | O_le \<Rightarrow> ''<=''
      | O_ge \<Rightarrow> ''>='' | O_gt \<Rightarrow> ''>'' | O_logical_and \<Rightarrow> ''&&'' | O_logical_or \<Rightarrow> ''||'' | _ \<Rightarrow> '''')"

text \<open>
  The text in a place that only takes operators of a rank above \<open>r\<close>: an operator is in
  parentheses where its rank is not, its left operand may have the same rank, the right one not.
\<close>

fun print_cexp :: "nat \<Rightarrow> cexp \<Rightarrow> string" where
  "print_cexp r (Lit v) = decimal (unat v)"
| "print_cexp r (Unary c a) = c # print_cexp 9 a"
| "print_cexp r (Binary op a b) =
     (let s = print_cexp (op_rank op - 1) a @ op_text op @ '' '' @ print_cexp (op_rank op) b
      in if r < op_rank op then s else ''('' @ s @ '')'')"

subsection \<open>Decimal numbers\<close>

lemma hex_value_digit: "d < 10 \<Longrightarrow> hex_value (char_of (48 + d)) = d"
  by (simp add: hex_value_def)

lemma decimal_digits: "list_all (is_digit 10) (decimal n) \<and> digits_nat 10 (decimal n) = n \<and> decimal n \<noteq> []"
proof (induction n rule: decimal.induct)
  case (1 n)
  show ?case using 1
    by (subst (1 2 3) decimal.simps) (auto simp: list_all_iff is_digit_def hex_value_digit)
qed

lemma decimal_head: "n \<noteq> 0 \<Longrightarrow> hd (decimal n) \<noteq> CHR ''0''"
proof (induction n rule: decimal.induct)
  case (1 n)
  show ?case
  proof (cases "n < 10")
    case True
    have "hex_value CHR ''0'' = 0" by (simp add: hex_value_def)
    moreover have "hex_value (char_of (48 + n)) = n" using True by (rule hex_value_digit)
    ultimately have "char_of (48 + n) \<noteq> CHR ''0''" using 1(2) by metis
    then show ?thesis using True by (subst decimal.simps) simp
  next
    case False
    then show ?thesis using 1(1) decimal_digits [of "n div 10"] by (subst decimal.simps) (simp add: hd_append div_eq_0_iff)
  qed
qed

subsection \<open>Parsing with enough fuel\<close>

text \<open>The result for all large amounts of fuel.\<close>

definition eventually_is :: "(nat \<Rightarrow> 'a) \<Rightarrow> 'a \<Rightarrow> bool" where
  "eventually_is f x \<longleftrightarrow> (\<exists>N. \<forall>n \<ge> N. f n = x)"

lemma eventually_const [simp, intro]: "eventually_is (\<lambda>n. x) x"
  by (simp add: eventually_is_def)

lemma eventually_Suc: "eventually_is f x \<Longrightarrow> (\<And>n. g (Suc n) = f n) \<Longrightarrow> eventually_is g x"
  unfolding eventually_is_def by (metis Suc_le_D Suc_le_mono)

lemma eventually_bind:
  "eventually_is f (Inr a) \<Longrightarrow> eventually_is (\<lambda>n. g n a) x \<Longrightarrow> eventually_is (\<lambda>n. and_then (f n) (g n)) x"
  unfolding eventually_is_def
proof (elim exE)
  fix N M assume "\<forall>n\<ge>N. f n = Inr a" "\<forall>n\<ge>M. g n a = x"
  then have "\<forall>n\<ge>max N M. and_then (f n) (g n) = x" by simp
  then show "\<exists>N. \<forall>n\<ge>N. and_then (f n) (g n) = x" ..
qed

lemma eventually_eq: "eventually_is f x \<Longrightarrow> (\<And>n. g (Suc n) = f (Suc n)) \<Longrightarrow> eventually_is g x"
  unfolding eventually_is_def by (metis Suc_le_D Suc_le_mono le_SucI)

text \<open>A constant operand, and a state that differs in what the parser only keeps for itself.\<close>

definition is_constant :: "expressionS \<Rightarrow> valueT \<Rightarrow> bool" where
  "is_constant e v \<longleftrightarrow> X_op e = O_constant \<and> X_add_number e = v \<and> X_add_symbol e = None \<and> X_op_symbol e = None"

definition same_but_scratch :: "gas_state \<Rightarrow> gas_state \<Rightarrow> bool" where
  "same_but_scratch gs gs' \<longleftrightarrow> (\<exists>d b. gs' = gs\<lparr>gs_dot := d, gs_bignum := b\<rparr>)"

lemma same_but_scratch_intros:
  "same_but_scratch gs gs" "same_but_scratch gs (gs\<lparr>gs_bignum := b\<rparr>)" "same_but_scratch gs (save_dot r gs)"
proof -
  have gs: "gs = gs\<lparr>gs_dot := gs_dot gs, gs_bignum := gs_bignum gs\<rparr>" by simp
  then show "same_but_scratch gs gs" unfolding same_but_scratch_def by blast
  have "gs\<lparr>gs_bignum := b\<rparr> = gs\<lparr>gs_dot := gs_dot gs, gs_bignum := b\<rparr>" by simp
  then show "same_but_scratch gs (gs\<lparr>gs_bignum := b\<rparr>)" unfolding same_but_scratch_def by blast
  have "save_dot r gs = gs\<lparr>gs_dot := if r = 0 then (frag_now (gs_chain gs), frag_now_fix (gs_chain gs)) else gs_dot gs,
      gs_bignum := gs_bignum gs\<rparr>" by (simp add: save_dot_def)
  then show "same_but_scratch gs (save_dot r gs)" unfolding same_but_scratch_def by blast
qed

lemma same_but_scratch_trans: "same_but_scratch a b \<Longrightarrow> same_but_scratch b c \<Longrightarrow> same_but_scratch a c"
  unfolding same_but_scratch_def by (elim exE) (rule exI, rule exI, simp)

text \<open>The characters an operand may be followed by.\<close>

definition delimited :: "string \<Rightarrow> bool" where
  "delimited s \<longleftrightarrow> c_char s \<in> {CHR 0x00, CHR 0x0a} \<union> set '';,)!%&*+-/<=>^|''"

lemma delimited_number_end: "delimited s \<Longrightarrow> number_end 10 s"
  by (auto simp: delimited_def number_end_def is_digit_def hex_value_def)

lemma delimited_blank: "delimited s \<Longrightarrow> skip_all_whitespace s = s \<and> skip_whitespace s = s"
  by (cases s) (auto simp: delimited_def skip_all_whitespace_def skip_whitespace_def)

lemma finish_constant:
  assumes "X_op e = O_constant" and "delimited s"
  shows "finish_operand mode (e, s, gs) = Inr (Absolute_section, e\<lparr>X_add_symbol := None, X_op_symbol := None\<rparr>, s, gs)"
  using assms delimited_blank [OF assms(2)]
  by (simp add: finish_operand_def clean_up_expression_def mark_used_def symbol_clone_if_forward_ref_def operand_segment_def
      Let_def)

lemma isdigit_digit: "is_digit 10 c \<Longrightarrow> isdigit c"
  by (auto simp: is_digit_def isdigit_def hex_value_def Let_def split: if_splits)

lemma zero_operand_plain:
  assumes "delimited rest"
  shows "zero_operand atof zero rest gs = Inr (constant_operand 0, rest, gs)"
proof -
  have c: "c_char rest \<in> {CHR 0x00, CHR 0x0a} \<union> set '';,)!%&*+-/<=>^|''" using assms by (simp add: delimited_def)
  then have "c_char rest \<notin> set ''xXbBfdDFreEgG$''" "\<not> is_digit 8 (c_char rest)" "c_char rest \<notin> set FLT_CHARS"
    by (auto simp: FLT_CHARS_def is_digit_def hex_value_def)
  then show ?thesis by (simp add: zero_operand_def zero_default_def)
qed

lemma leaf_decimal:
  assumes v: "v < 2 ^ 32" and rest: "delimited rest"
  shows "\<exists>b. leaf_operand atof mode (decimal v @ rest) gs = Inr (constant_operand (word_of_nat v), rest, gs\<lparr>gs_bignum := b\<rparr>)"
proof (cases "v = 0")
  case True
  have "decimal 0 = ''0''" by (simp add: decimal.simps char_of_def bit_0)
  moreover have "gs\<lparr>gs_bignum := gs_bignum gs\<rparr> = gs" by simp
  moreover have "leaf_operand atof mode (CHR ''0'' # rest) gs = Inr (constant_operand 0, rest, gs)"
    using zero_operand_plain [OF rest] by (simp add: leaf_operand_def is_end_of_line_def)
  ultimately show ?thesis using True by (intro exI [of _ "gs_bignum gs"]) simp
next
  case False
  note d = decimal_digits [of v]
  obtain c cs where ds: "decimal v = c # cs" using d by (cases "decimal v") auto
  have c: "is_digit 10 c" "isdigit c" "c \<noteq> CHR ''0''" using d decimal_head [OF False] isdigit_digit ds by simp_all
  have "(v :: nat) < 65536 ^ SIZE_OF_LARGE_NUMBER" using v by (rule less_trans) simp
  then obtain b where b: "integer_constant 10 (decimal v @ rest) gs = Inr (constant_operand (word_of_nat v), rest, gs\<lparr>gs_bignum := b\<rparr>)"
    using integer_constant_value [of 10 "decimal v" rest gs] d delimited_number_end [OF rest] v by auto
  have "c \<noteq> CHR '',''" "\<not> is_end_of_line c" using c(1) digit_no_eol [of 10 c] by (auto simp: is_digit_def hex_value_def)
  then show ?thesis using b c by (auto simp: leaf_operand_def ds)
qed

lemma operand_decimal:
  assumes "delimited rest"
  shows "\<exists>e b. is_constant e v \<and> (\<forall>n.
    operand atof mode (Suc n) (decimal (unat v) @ rest) gs = Inr (Absolute_section, e, rest, gs\<lparr>gs_bignum := b\<rparr>))"
proof -
  note d = decimal_digits [of "unat v"]
  obtain c cs where ds: "decimal (unat v) = c # cs" using d by (cases "decimal (unat v)") auto
  have "is_digit 10 c" using d ds by simp
  then have c: "c \<noteq> CHR '' ''" "c \<noteq> CHR ''(''" "c \<noteq> CHR ''[''" "\<not> unary_char c"
    by (auto simp: is_digit_def hex_value_def unary_char_def)
  have "unat v < 2 ^ 32" using unsigned_less [of v] by simp
  then obtain b where b: "leaf_operand atof mode (decimal (unat v) @ rest) gs = Inr (constant_operand v, rest, gs\<lparr>gs_bignum := b\<rparr>)"
    using leaf_decimal [OF _ assms] by fastforce
  then show ?thesis
    using c ds finish_constant [OF _ assms, of "constant_operand v" mode]
    by (auto simp: skip_whitespace_def is_constant_def)
qed

subsection \<open>Operators on constants\<close>

lemma unary_apply_constant:
  assumes "is_constant e v" and "unary_char c"
  shows "\<exists>e'. unary_apply c e gs = (e', gs) \<and> is_constant e' (unary_constant c v)"
  using assms by (auto simp: unary_apply_def is_constant_def unary_constant_def unary_char_def Let_def)

lemma apply_operator_constants:
  assumes l: "is_constant e l" and r: "is_constant right r" and v: "operator_value op l r = Some v"
  shows "\<exists>e'. apply_operator op e Absolute_section right Absolute_section gs = Inr (e', Absolute_section, gs) \<and>
    is_constant e' v"
proof -
  have c: "combine_segments op Absolute_section Absolute_section gs = (Absolute_section, gs)"
    by (simp add: combine_segments_def)
  have z: "zero_big side e gs = (e, gs)" "zero_big side right gs = (right, gs)" for side
    using l r by (simp_all add: zero_big_def is_constant_def)
  have "\<exists>e'. combine_operands op e Absolute_section right Absolute_section gs =
      Inr (e', Absolute_section, Absolute_section, gs) \<and> is_constant e' v"
  proof (cases "op = O_add \<or> op = O_subtract")
    case True
    then show ?thesis
      using l r v by (auto simp: combine_operands_def is_constant_def operator_value_def binary_value_def
          add_to_result_def subtract_from_result_def Let_def)
  next
    case False
    have "fold_constants op e r gs = Inr (e\<lparr>X_add_number := v\<rparr>, gs)"
    proof -
      have "\<not> (r = 0 \<and> (op = O_divide \<or> op = O_modulus))" "\<not> (\<not> r < 32 \<and> shift_op op)"
        using v by (auto simp: operator_value_def binary_value_def signed_quotient_def signed_remainder_def shift_op_def)
      moreover have "(if op = O_eq then Inr (truth (l = r)) else if op = O_ne then Inr (truth (l \<noteq> r))
          else binary_value drop_bit op l r) = Inr v"
        using v by (auto simp: operator_value_def split: if_splits sum.splits)
      moreover have "X_add_number e = l" using l by (simp add: is_constant_def)
      ultimately show ?thesis by (simp only: fold_constants_def Let_def if_False prod.case and_then_simps)
    qed
    then show ?thesis using False l r by (simp add: combine_operands_def is_constant_def)
  qed
  then show ?thesis using z c r by (auto simp: apply_operator_def is_constant_def)
qed

lemma finish_expr_constant:
  assumes "is_constant e v"
  shows "finish_expr rank mode (Absolute_section, e, s, gs) = Inr (Absolute_section, e, s, gs)"
proof -
  have "resolve_expression (symbol_fuel gs) e gs = Inr (Some e)"
    using assms by (simp add: symbol_fuel_def expression_case_def is_constant_def)
  then show ?thesis using assms by (simp add: finish_expr_def mark_used_def is_constant_def)
qed

text \<open>The text of an operator is recognised whatever follows the blank.\<close>

lemma operatorf_text:
  assumes "binary_op op"
  shows "operatorf (op_text op @ CHR '' '' # s) = (op, length (op_text op))" and "delimited (op_text op @ s)"
    and "op \<noteq> O_illegal" and "0 < op_rank op" and "op_rank op < 9"
proof -
  have "op \<in> {O_multiply, O_divide, O_modulus, O_left_shift, O_right_shift, O_bit_inclusive_or,
     O_bit_or_not, O_bit_exclusive_or, O_bit_and, O_add, O_subtract, O_eq, O_ne, O_lt, O_le, O_ge, O_gt,
     O_logical_and, O_logical_or}" using assms by (simp only: binary_op_def)
  then show "operatorf (op_text op @ CHR '' '' # s) = (op, length (op_text op))" "delimited (op_text op @ s)"
    "op \<noteq> O_illegal" "0 < op_rank op" "op_rank op < 9"
    by (auto simp: op_text_def operatorf_def is_end_of_line_def op_encoding_def delimited_def op_rank_def)
qed

lemma operand_blank: "c_char s \<noteq> CHR '' '' \<Longrightarrow> operand atof mode n (CHR '' '' # s) gs = operand atof mode n s gs"
  by (cases n) (simp_all add: skip_whitespace_def)

lemma print_cexp_head: "cexp_ok t \<Longrightarrow> c_char (print_cexp r t @ s) \<noteq> CHR '' ''"
proof (induction t arbitrary: r s)
  case (Lit v)
  note d = decimal_digits [of "unat v"]
  then obtain c cs where "decimal (unat v) = c # cs" by (cases "decimal (unat v)") auto
  then show ?case using d by (auto simp: is_digit_def hex_value_def)
next
  case (Unary c a)
  then show ?case by (auto simp: unary_char_def)
next
  case (Binary op a b)
  then show ?case by (simp add: Let_def)
qed

subsection \<open>Reading the text back\<close>

text \<open>
  \<open>s\<close> is an operand with the value \<open>v\<close> and the text \<open>rest\<close> behind it; or the beginning of an
  expression, so that the loop over the operators of a rank above \<open>r\<close> goes on at \<open>rest\<close> with a
  constant \<open>v\<close> on its left.
\<close>

definition reads_operand :: "atof \<Rightarrow> expr_mode \<Rightarrow> string \<Rightarrow> string \<Rightarrow> valueT \<Rightarrow> bool" where
  "reads_operand atof mode s rest v \<longleftrightarrow>
     (\<forall>gs. \<exists>e gs'. is_constant e v \<and> same_but_scratch gs gs' \<and>
        eventually_is (\<lambda>n. operand atof mode n s gs) (Inr (Absolute_section, e, rest, gs')))"

definition reads_left :: "atof \<Rightarrow> expr_mode \<Rightarrow> nat \<Rightarrow> string \<Rightarrow> string \<Rightarrow> valueT \<Rightarrow> bool" where
  "reads_left atof mode r s rest v \<longleftrightarrow>
     (\<forall>gs. \<exists>e gs'. is_constant e v \<and> same_but_scratch gs gs' \<and>
        (\<forall>X. eventually_is (\<lambda>n. expr_loop atof mode n r Absolute_section e rest gs') X \<longrightarrow>
           eventually_is (\<lambda>n. and_then (operand atof mode n s gs)
             (\<lambda>(ret, e, s, gs). expr_loop atof mode n r ret e s gs)) X))"

definition reads_expr :: "atof \<Rightarrow> expr_mode \<Rightarrow> nat \<Rightarrow> string \<Rightarrow> string \<Rightarrow> valueT \<Rightarrow> bool" where
  "reads_expr atof mode r s rest v \<longleftrightarrow>
     (\<forall>gs. \<exists>e gs'. is_constant e v \<and> same_but_scratch gs gs' \<and>
        eventually_is (\<lambda>n. expr atof mode n r s gs) (Inr (Absolute_section, e, rest, gs')))"

lemma reads_left_operand: "reads_operand atof mode s rest v \<Longrightarrow> reads_left atof mode r s rest v"
  unfolding reads_operand_def reads_left_def
proof (intro allI)
  fix gs
  assume "\<forall>gs. \<exists>e gs'. is_constant e v \<and> same_but_scratch gs gs' \<and>
    eventually_is (\<lambda>n. operand atof mode n s gs) (Inr (Absolute_section, e, rest, gs'))"
  then obtain e gs' where e: "is_constant e v" "same_but_scratch gs gs'"
    "eventually_is (\<lambda>n. operand atof mode n s gs) (Inr (Absolute_section, e, rest, gs'))" by blast
  have "eventually_is (\<lambda>n. and_then (operand atof mode n s gs) (\<lambda>(ret, e, s, gs). expr_loop atof mode n r ret e s gs)) X"
    if "eventually_is (\<lambda>n. expr_loop atof mode n r Absolute_section e rest gs') X" for X
    by (rule eventually_bind [OF e(3)]) (simp add: that)
  with e(1,2) show "\<exists>e gs'. is_constant e v \<and> same_but_scratch gs gs' \<and>
      (\<forall>X. eventually_is (\<lambda>n. expr_loop atof mode n r Absolute_section e rest gs') X \<longrightarrow>
        eventually_is (\<lambda>n. and_then (operand atof mode n s gs)
          (\<lambda>(ret, e, s, gs). expr_loop atof mode n r ret e s gs)) X)" by blast
qed

lemma reads_exprI:
  assumes left: "reads_left atof mode k s rest v" and stop: "op_rank (fst (operatorf rest)) \<le> k"
  shows "reads_expr atof mode k s rest v"
  unfolding reads_expr_def
proof
  fix gs
  obtain e gs' where e: "is_constant e v" "same_but_scratch (save_dot k gs) gs'"
    and go: "\<And>X. eventually_is (\<lambda>n. expr_loop atof mode n k Absolute_section e rest gs') X \<Longrightarrow>
      eventually_is (\<lambda>n. and_then (operand atof mode n s (save_dot k gs))
        (\<lambda>(ret, e, s, gs). expr_loop atof mode n k ret e s gs)) X"
    using left unfolding reads_left_def by blast
  have "eventually_is (\<lambda>n. expr_loop atof mode n k Absolute_section e rest gs') (Inr (Absolute_section, e, rest, gs'))"
    by (rule eventually_Suc [OF eventually_const]) (use stop in \<open>simp add: case_prod_beta\<close>)
  note loop = go [OF this]
  have "eventually_is (\<lambda>n. and_then (and_then (operand atof mode n s (save_dot k gs))
      (\<lambda>(ret, e, s, gs). expr_loop atof mode n k ret e s gs)) (finish_expr k mode)) (Inr (Absolute_section, e, rest, gs'))"
    by (rule eventually_bind [OF loop]) (simp add: finish_expr_constant [OF e(1)])
  then have "eventually_is (\<lambda>n. expr atof mode n k s gs) (Inr (Absolute_section, e, rest, gs'))"
    by (rule eventually_Suc) (simp add: and_then_def case_prod_beta split: sum.splits)
  moreover have "same_but_scratch gs gs'" using same_but_scratch_intros(3) e(2) by (rule same_but_scratch_trans)
  ultimately show "\<exists>e gs'. is_constant e v \<and> same_but_scratch gs gs' \<and>
      eventually_is (\<lambda>n. expr atof mode n k s gs) (Inr (Absolute_section, e, rest, gs'))" using e(1) by blast
qed

lemma reads_binary:
  assumes op: "binary_op op" "r < op_rank op" and v: "operator_value op l w = Some v"
    and left: "reads_left atof mode r s (op_text op @ CHR '' '' # s2) l"
    and right: "reads_expr atof mode (op_rank op) s2 rest w" and head: "c_char s2 \<noteq> CHR '' ''"
  shows "reads_left atof mode r s rest v"
  unfolding reads_left_def
proof
  fix gs
  obtain e1 gs1 where e1: "is_constant e1 l" "same_but_scratch gs gs1"
    and go: "\<And>X. eventually_is (\<lambda>n. expr_loop atof mode n r Absolute_section e1 (op_text op @ CHR '' '' # s2) gs1) X \<Longrightarrow>
      eventually_is (\<lambda>n. and_then (operand atof mode n s gs) (\<lambda>(ret, e, s, gs). expr_loop atof mode n r ret e s gs)) X"
    using left unfolding reads_left_def by blast
  obtain e2 gs2 where e2: "is_constant e2 w" "same_but_scratch gs1 gs2"
    "eventually_is (\<lambda>n. expr atof mode n (op_rank op) s2 gs1) (Inr (Absolute_section, e2, rest, gs2))"
    using right unfolding reads_expr_def by blast
  obtain e where e: "apply_operator op e1 Absolute_section e2 Absolute_section gs2 = Inr (e, Absolute_section, gs2)"
    "is_constant e v" using apply_operator_constants [OF e1(1) e2(1) v] by blast
  have blank: "expr atof mode n (op_rank op) (CHR '' '' # s2) gs = expr atof mode n (op_rank op) s2 gs" for n gs
    by (cases n) (simp_all add: operand_blank [OF head])
  have loop: "eventually_is (\<lambda>n. expr_loop atof mode n r Absolute_section e1 (op_text op @ CHR '' '' # s2) gs1) X"
    if rest: "eventually_is (\<lambda>n. expr_loop atof mode n r Absolute_section e rest gs2) X" for X
  proof -
    have "eventually_is (\<lambda>n. and_then (expr atof mode n (op_rank op) s2 gs1) (\<lambda>(rightseg, right, s, gs).
        and_then (apply_operator op e1 Absolute_section right rightseg gs) (\<lambda>(e, retval, gs).
        expr_loop atof mode n r retval e s gs))) X"
      by (rule eventually_bind [OF e2(3)]) (use rest in \<open>simp add: e(1)\<close>)
    then show ?thesis
      by (rule eventually_Suc) (use op(2) operatorf_text(1) [OF op(1), of s2] operatorf_text(3) [OF op(1)] blank in simp)
  qed
  show "\<exists>e gs'. is_constant e v \<and> same_but_scratch gs gs' \<and>
      (\<forall>X. eventually_is (\<lambda>n. expr_loop atof mode n r Absolute_section e rest gs') X \<longrightarrow>
        eventually_is (\<lambda>n. and_then (operand atof mode n s gs) (\<lambda>(ret, e, s, gs). expr_loop atof mode n r ret e s gs)) X)"
    using e(2) same_but_scratch_trans [OF e1(2) e2(2)] go loop by blast
qed

lemma reads_parentheses:
  assumes "reads_expr atof mode 0 s (CHR '')'' # rest) v" and "delimited rest"
  shows "reads_operand atof mode (CHR ''('' # s) rest v"
  unfolding reads_operand_def
proof
  fix gs
  obtain e gs' where e: "is_constant e v" "same_but_scratch gs gs'"
    "eventually_is (\<lambda>n. expr atof mode n 0 s gs) (Inr (Absolute_section, e, CHR '')'' # rest, gs'))"
    using assms(1) unfolding reads_expr_def by blast
  have "eventually_is (\<lambda>n. and_then (expr atof mode n 0 s gs) (\<lambda>(seg, e, s, gs).
      let (s, gs) = close_parenthesis CHR ''('' s gs in Inr (seg, e, s, gs))) (Inr (Absolute_section, e, rest, gs'))"
    by (rule eventually_bind [OF e(3)]) (simp add: close_parenthesis_def delimited_blank [OF assms(2)])
  then have "eventually_is (\<lambda>n. operand atof mode n (CHR ''('' # s) gs) (Inr (Absolute_section, e, rest, gs'))"
    by (rule eventually_Suc) (simp add: skip_whitespace_def)
  with e(1,2) show "\<exists>e gs'. is_constant e v \<and> same_but_scratch gs gs' \<and>
    eventually_is (\<lambda>n. operand atof mode n (CHR ''('' # s) gs) (Inr (Absolute_section, e, rest, gs'))" by blast
qed

lemma reads_unary:
  assumes "reads_operand atof mode s rest v" and "delimited rest" and c: "unary_char c"
  shows "reads_operand atof mode (c # s) rest (unary_constant c v)"
  unfolding reads_operand_def
proof
  fix gs
  obtain e gs' where e: "is_constant e v" "same_but_scratch gs gs'"
    "eventually_is (\<lambda>n. operand atof mode n s gs) (Inr (Absolute_section, e, rest, gs'))"
    using assms(1) unfolding reads_operand_def by blast
  obtain e' where e': "unary_apply c e gs' = (e', gs')" "is_constant e' (unary_constant c v)"
    using unary_apply_constant [OF e(1) c] by blast
  have fin: "finish_operand mode (e', rest, gs') = Inr (Absolute_section, e', rest, gs')"
    using finish_constant [of e' rest mode gs'] e'(2) assms(2) by (cases e') (simp add: is_constant_def)
  have "eventually_is (\<lambda>n. and_then (operand atof mode n s gs) (\<lambda>(_, e, s, gs).
      let (e, gs) = unary_apply c e gs in finish_operand mode (e, s, gs))) (Inr (Absolute_section, e', rest, gs'))"
    by (rule eventually_bind [OF e(3)]) (simp add: e'(1) fin)
  then have "eventually_is (\<lambda>n. operand atof mode n (c # s) gs) (Inr (Absolute_section, e', rest, gs'))"
    by (rule eventually_Suc) (use c in \<open>auto simp: skip_whitespace_def unary_char_def\<close>)
  with e'(2) e(2) show "\<exists>e gs''. is_constant e (unary_constant c v) \<and> same_but_scratch gs gs'' \<and>
    eventually_is (\<lambda>n. operand atof mode n (c # s) gs) (Inr (Absolute_section, e, rest, gs''))" by blast
qed

lemma reads_decimal:
  assumes "delimited rest"
  shows "reads_operand atof mode (decimal (unat v) @ rest) rest v"
  unfolding reads_operand_def
proof
  fix gs
  obtain e b where e: "is_constant e v" and n: "\<And>n. operand atof mode (Suc n) (decimal (unat v) @ rest) gs =
      Inr (Absolute_section, e, rest, gs\<lparr>gs_bignum := b\<rparr>)" using operand_decimal [OF assms] by blast
  have "eventually_is (\<lambda>n. operand atof mode n (decimal (unat v) @ rest) gs) (Inr (Absolute_section, e, rest, gs\<lparr>gs_bignum := b\<rparr>))"
    by (rule eventually_Suc [OF eventually_const]) (rule n)
  with e show "\<exists>e gs'. is_constant e v \<and> same_but_scratch gs gs' \<and>
    eventually_is (\<lambda>n. operand atof mode n (decimal (unat v) @ rest) gs) (Inr (Absolute_section, e, rest, gs'))"
    using same_but_scratch_intros(2) by blast
qed

lemma operatorf_close: "operatorf (CHR '')'' # s) = (O_illegal, 1)"
  by (simp add: operatorf_def op_encoding_def is_end_of_line_def)

lemma delimited_close: "delimited (CHR '')'' # s)"
  by (simp add: delimited_def)

text \<open>
  A printed expression as an operand, and printed at \<open>q\<close> where the loop takes the operators of
  a rank above \<open>r\<close> and the operator behind it has at most the rank that follows \<open>q\<close>.
\<close>

lemma reads_printed:
  assumes "cexp_ok t" and "cexp_value t = Some v" and "delimited rest"
  shows "(9 \<le> q \<longrightarrow> reads_operand atof mode (print_cexp q t @ rest) rest v) \<and>
    (r \<le> q \<longrightarrow> op_rank (fst (operatorf rest)) \<le> q + 1 \<longrightarrow> reads_left atof mode r (print_cexp q t @ rest) rest v)"
  using assms
proof (induction t arbitrary: v rest q r)
  case (Lit w)
  then show ?case using reads_decimal [OF Lit.prems(3)] reads_left_operand by simp
next
  case (Unary c a)
  then obtain w where w: "cexp_value a = Some w" "v = unary_constant c w" by auto
  have "reads_operand atof mode (print_cexp 9 a @ rest) rest w" using Unary w by simp
  from reads_unary [OF this Unary.prems(3)] have "reads_operand atof mode (print_cexp q (Unary c a) @ rest) rest v"
    using Unary.prems(1) w by simp
  then show ?case using reads_left_operand by blast
next
  case (Binary op a b)
  then obtain x y where v: "cexp_value a = Some x" "cexp_value b = Some y" "operator_value op x y = Some v"
    by (auto simp: bind_eq_Some_conv)
  from Binary.prems(1) have ok: "binary_op op" "cexp_ok a" "cexp_ok b" by simp_all
  note rank = operatorf_text [OF ok(1)]
  let ?s = "print_cexp (op_rank op - 1) a @ op_text op @ CHR '' '' # print_cexp (op_rank op) b"
  have open_text: "reads_left atof mode r (?s @ rest) rest v"
    if r: "r < op_rank op" and d: "delimited rest" "op_rank (fst (operatorf rest)) \<le> op_rank op" for r rest
  proof (rule reads_binary [OF ok(1) r v(3)])
    let ?after = "op_text op @ CHR '' '' # print_cexp (op_rank op) b @ rest"
    have "op_rank (fst (operatorf ?after)) \<le> op_rank op - 1 + 1" using rank(1) rank(4) by simp
    then have "reads_left atof mode r (print_cexp (op_rank op - 1) a @ ?after) ?after x"
      using Binary.IH(1) [OF ok(2) v(1) rank(2), of "op_rank op - 1" _ r] r by simp
    then show "reads_left atof mode r (?s @ rest) ?after x" by simp
    show "reads_expr atof mode (op_rank op) (print_cexp (op_rank op) b @ rest) rest y"
      using Binary.IH(2) [OF ok(3) v(2) d(1), of "op_rank op" "op_rank op"] d(2) by (intro reads_exprI) simp_all
    show "c_char (print_cexp (op_rank op) b @ rest) \<noteq> CHR '' ''" by (rule print_cexp_head [OF ok(3)])
  qed
  have parens: "reads_operand atof mode (CHR ''('' # ?s @ CHR '')'' # rest) rest v"
    by (rule reads_parentheses [OF reads_exprI [OF open_text] Binary.prems(3)])
      (use rank(4) in \<open>simp_all add: operatorf_close delimited_close op_rank_def\<close>)
  show ?case
  proof (cases "q < op_rank op")
    case True
    then show ?thesis using open_text [of r rest] Binary.prems(3) rank(5) by (auto simp: Let_def)
  next
    case False
    then show ?thesis using parens reads_left_operand [OF parens] by (simp add: Let_def)
  qed
qed

lemma printed_constant_parsed:
  assumes atof: "atof_ok atof" and t: "cexp_ok t" "cexp_value t = Some v"
    and rest: "c_char rest \<in> {CHR 0x00, CHR 0x0a} \<union> set '';,)''"
  shows "\<exists>e gs'. parse_expression atof mode (print_cexp 0 t @ rest) gs = Inr (Absolute_section, e, rest, gs') \<and>
    is_constant e v \<and> same_but_scratch gs gs'"
proof -
  let ?s = "print_cexp 0 t @ rest"
  have d: "delimited rest" using rest by (auto simp: delimited_def)
  have "operatorf rest = (O_illegal, 1)"
    using rest by (auto simp: operatorf_def op_encoding_def is_end_of_line_def)
  then have stop: "op_rank (fst (operatorf rest)) = 0" by (simp add: op_rank_def)
  have "reads_left atof mode 0 ?s rest v" using reads_printed [OF t d, of 0 atof mode 0] stop by simp
  then have "reads_expr atof mode 0 ?s rest v" by (rule reads_exprI) (simp add: stop)
  then obtain e gs' N where e: "is_constant e v" "same_but_scratch gs gs'"
    and N: "\<forall>n\<ge>N. expr atof mode n 0 ?s gs = Inr (Absolute_section, e, rest, gs')"
    unfolding reads_expr_def eventually_is_def by blast
  have "parse_expression atof mode ?s gs = expr atof mode (expr_fuel ?s + N) 0 ?s gs"
    by (simp add: parse_expression_def parse_any_fuel [OF atof])
  also have "\<dots> = Inr (Absolute_section, e, rest, gs')" using N by simp
  finally show ?thesis using e by blast
qed

end
