(* ===== verification/ElfImage.thy ===== *)
theory ElfImage
  imports BfdBytes CString
begin

text \<open>
  The object file and what the game takes from it: the headers of an ELF file as
  \<open>bfd/elfcode.h\<close> writes them, \<open>parse_elf\<close> of \<open>parse_elf.c\<close>, which looks for the code in
  the file, and \<open>output_bin\<close> of \<open>gas/as.c\<close>, which copies it into a file of its own.

  The target is little-endian and does not sign-extend addresses; seeks, writes and allocations
  succeed, and a gap in a file is filled with zeros. Reading outside of the buffer, which C leaves
  undefined, is \<open>Inl Abort\<close>.
\<close>

subsection \<open>Headers\<close>

record Elf_Internal_Ehdr =
  e_ident :: "byte list"
  e_entry :: u32
  e_phoff :: u32
  e_shoff :: u32
  e_version :: u32
  e_flags :: u32
  e_type :: "16 word"
  e_machine :: "16 word"
  e_ehsize :: u32
  e_phentsize :: u32
  e_phnum :: u32
  e_shentsize :: u32
  e_shnum :: u32
  e_shstrndx :: u32

record Elf_Internal_Shdr =
  sh_name :: u32
  sh_type :: u32
  sh_flags :: u32
  sh_addr :: u32
  sh_offset :: u32
  sh_size :: u32
  sh_link :: u32
  sh_info :: u32
  sh_addralign :: u32
  sh_entsize :: u32

definition EI_NIDENT :: nat where "EI_NIDENT = 16"
definition PN_XNUM :: u32 where "PN_XNUM = 0xffff"
definition SHN_UNDEF :: u32 where "SHN_UNDEF = 0"
definition SHN_LORESERVE :: u32 where "SHN_LORESERVE = - 0x100"
definition SHN_XINDEX :: u32 where "SHN_XINDEX = - 1"

text \<open>A field of an external structure, an array of bytes.\<close>

definition H_PUT_16 :: "u32 \<Rightarrow> byte list" where "H_PUT_16 v = bfd_putl16 v (replicate 2 0) 0"
definition H_PUT_32 :: "u32 \<Rightarrow> byte list" where "H_PUT_32 v = bfd_putl32 v (replicate 4 0) 0"

definition elf_swap_ehdr_out :: "Elf_Internal_Ehdr \<Rightarrow> byte list" where
  "elf_swap_ehdr_out src =
     take EI_NIDENT (e_ident src) @ H_PUT_16 (ucast (e_type src)) @ H_PUT_16 (ucast (e_machine src)) @
     H_PUT_32 (e_version src) @ H_PUT_32 (e_entry src) @ H_PUT_32 (e_phoff src) @ H_PUT_32 (e_shoff src) @
     H_PUT_32 (e_flags src) @ H_PUT_16 (e_ehsize src) @ H_PUT_16 (e_phentsize src) @
     H_PUT_16 (if e_phnum src > PN_XNUM then PN_XNUM else e_phnum src) @ H_PUT_16 (e_shentsize src) @
     H_PUT_16 (if e_shnum src \<ge> SHN_LORESERVE AND 0xffff then SHN_UNDEF else e_shnum src) @
     H_PUT_16 (if e_shstrndx src \<ge> SHN_LORESERVE AND 0xffff then SHN_XINDEX AND 0xffff else e_shstrndx src)"

definition elf_swap_ehdr_in :: "byte list \<Rightarrow> Elf_Internal_Ehdr" where
  "elf_swap_ehdr_in src =
     \<lparr>e_ident = take EI_NIDENT src, e_entry = bfd_getl32 src 24, e_phoff = bfd_getl32 src 28,
      e_shoff = bfd_getl32 src 32, e_version = bfd_getl32 src 20, e_flags = bfd_getl32 src 36,
      e_type = ucast (bfd_getl16 src 16), e_machine = ucast (bfd_getl16 src 18), e_ehsize = bfd_getl16 src 40,
      e_phentsize = bfd_getl16 src 42, e_phnum = bfd_getl16 src 44, e_shentsize = bfd_getl16 src 46,
      e_shnum = bfd_getl16 src 48, e_shstrndx = bfd_getl16 src 50\<rparr>"

definition elf_swap_shdr_out :: "Elf_Internal_Shdr \<Rightarrow> byte list" where
  "elf_swap_shdr_out src =
     H_PUT_32 (sh_name src) @ H_PUT_32 (sh_type src) @ H_PUT_32 (sh_flags src) @ H_PUT_32 (sh_addr src) @
     H_PUT_32 (sh_offset src) @ H_PUT_32 (sh_size src) @ H_PUT_32 (sh_link src) @ H_PUT_32 (sh_info src) @
     H_PUT_32 (sh_addralign src) @ H_PUT_32 (sh_entsize src)"

definition elf_swap_shdr_in :: "byte list \<Rightarrow> Elf_Internal_Shdr" where
  "elf_swap_shdr_in src =
     \<lparr>sh_name = bfd_getl32 src 0, sh_type = bfd_getl32 src 4, sh_flags = bfd_getl32 src 8,
      sh_addr = bfd_getl32 src 12, sh_offset = bfd_getl32 src 16, sh_size = bfd_getl32 src 20,
      sh_link = bfd_getl32 src 24, sh_info = bfd_getl32 src 28, sh_addralign = bfd_getl32 src 32,
      sh_entsize = bfd_getl32 src 36\<rparr>"

subsection \<open>Writing the headers\<close>

definition write_at :: "nat \<Rightarrow> byte list \<Rightarrow> byte list \<Rightarrow> byte list" where
  "write_at pos bs file = take pos file @ replicate (pos - length file) 0 @ bs @ drop (pos + length bs) file"

text \<open>The first section header takes what does not fit into the file header.\<close>

definition overflow_fields :: "Elf_Internal_Ehdr \<Rightarrow> Elf_Internal_Shdr \<Rightarrow> Elf_Internal_Shdr" where
  "overflow_fields ehdr s =
     (let s = (if e_phnum ehdr \<ge> PN_XNUM then s\<lparr>sh_info := e_phnum ehdr\<rparr> else s);
          s = (if e_shnum ehdr \<ge> SHN_LORESERVE AND 0xffff then s\<lparr>sh_size := e_shnum ehdr\<rparr> else s)
      in if e_shstrndx ehdr \<ge> SHN_LORESERVE AND 0xffff then s\<lparr>sh_link := e_shstrndx ehdr\<rparr> else s)"

definition elf_write_shdrs_and_ehdr :: "Elf_Internal_Ehdr \<Rightarrow> Elf_Internal_Shdr list \<Rightarrow> byte list \<Rightarrow>
    Elf_Internal_Shdr list \<times> byte list" where
  "elf_write_shdrs_and_ehdr ehdr shdrs file =
     (let file = write_at 0 (elf_swap_ehdr_out ehdr) file;
          shdrs = shdrs[0 := overflow_fields ehdr (shdrs ! 0)];
          x_shdrp = concat (map elf_swap_shdr_out (take (unat (e_shnum ehdr)) shdrs))
      in (shdrs, write_at (unat (e_shoff ehdr)) x_shdrp file))"

subsection \<open>\<open>parse_elf\<close>\<close>

definition load16 :: "byte list \<Rightarrow> int \<Rightarrow> u32 res" where
  "load16 buf p = (if 0 \<le> p \<and> p + 2 \<le> int (length buf) then Inr (bfd_getl16 buf (nat p)) else Inl Abort)"

definition load32 :: "byte list \<Rightarrow> int \<Rightarrow> u32 res" where
  "load32 buf p = (if 0 \<le> p \<and> p + 4 \<le> int (length buf) then Inr (bfd_getl32 buf (nat p)) else Inl Abort)"

text \<open>\<open>n\<close> section headers from \<open>offset\<close>, an \<open>int\<close>, on; the first one of type 1 counts.\<close>

fun find_code :: "nat \<Rightarrow> byte list \<Rightarrow> u32 \<Rightarrow> u32 \<Rightarrow> (u32 \<times> u32) option res" where
  "find_code 0 buf shentsize offset = Inr None"
| "find_code (Suc n) buf shentsize offset =
     and_then (load32 buf (sint offset + 4)) (\<lambda>sh_type.
     if sh_type = 1
     then and_then (load32 buf (sint offset + 16)) (\<lambda>sh_offset.
          and_then (load32 buf (sint offset + 20)) (\<lambda>sh_size. Inr (Some (sh_offset, sh_size))))
     else find_code n buf shentsize (offset + shentsize))"

definition parse_elf :: "byte list \<Rightarrow> u32 \<Rightarrow> u32 \<times> u32 \<Rightarrow> (u32 \<times> u32 \<times> u32) res" where
  "parse_elf buf len bin =
     (if len < 52 then Inr (- 1, bin)
      else
        and_then (load16 buf 40) (\<lambda>e_ehsize.
        and_then (load16 buf 46) (\<lambda>e_shentsize.
        if e_ehsize \<noteq> 52 \<or> e_shentsize \<noteq> 40 then Inr (- 2, bin)
        else
          and_then (load32 buf 32) (\<lambda>offset.
          and_then (load16 buf 48) (\<lambda>e_shnum.
          and_then (find_code (unat e_shnum) buf e_shentsize offset) (\<lambda>found.
          Inr (0, case found of None \<Rightarrow> bin | Some b \<Rightarrow> b)))))))"

text \<open>
  \<open>output_bin\<close>: the files by name, and whether the output can be opened. The name given is
  cut off at its first dot, also for the caller.
\<close>

definition output_bin :: "(string \<Rightarrow> bool) \<Rightarrow> string \<Rightarrow> (string \<rightharpoonup> byte list) \<Rightarrow>
    (u32 \<times> (string \<rightharpoonup> byte list)) res" where
  "output_bin can_open inname fs =
     (case fs ''a.out'' of
        None \<Rightarrow> Inr (- 1, fs)
      | Some buf \<Rightarrow>
          and_then (parse_elf buf (word_of_nat (length buf)) (0, 0)) (\<lambda>(ret, bin_offs, bin_len).
          if ret \<noteq> 0 then Inr (0, fs)
          else
            let outname = takeWhile (\<lambda>c. c \<noteq> CHR ''.'') inname
            in if \<not> can_open outname then Inr (0, fs)
               else if 0 \<le> sint bin_offs \<and> 0 \<le> sint bin_len \<and> sint bin_offs + sint bin_len \<le> int (length buf)
               then Inr (0, fs(outname \<mapsto> take (unat bin_len) (drop (unat bin_offs) buf)))
               else Inl Abort))"

subsection \<open>Reading back\<close>

lemma length_H_PUT [simp]: "length (H_PUT_16 v) = 2" "length (H_PUT_32 v) = 4"
  by (simp_all add: H_PUT_16_def H_PUT_32_def l16.put_length l32.put_length)

lemma get_H_PUT [simp]:
  "bfd_getl16 (H_PUT_16 v) 0 = take_bit 16 v" "bfd_getl32 (H_PUT_32 v) 0 = v"
  using l16.get_put [of 0 "replicate 2 0" v] l32.get_put [of 0 "replicate 4 0" v]
  by (simp_all add: H_PUT_16_def H_PUT_32_def take_bit_word_eq_self)

lemma get_skip [simp]:
  assumes "length xs \<le> p"
  shows "bfd_getl16 (xs @ ys) p = bfd_getl16 ys (p - length xs)"
    and "bfd_getl32 (xs @ ys) p = bfd_getl32 ys (p - length xs)"
proof -
  obtain q where "p = length xs + q" using assms le_Suc_ex by blast
  moreover have "(xs @ ys) ! Suc (Suc (length xs + q)) = ys ! Suc (Suc q)" by (simp add: nth_append)
  ultimately show "bfd_getl16 (xs @ ys) p = bfd_getl16 ys (p - length xs)"
    and "bfd_getl32 (xs @ ys) p = bfd_getl32 ys (p - length xs)"
    by (simp_all add: bfd_getl16_def bfd_getl32_def add.assoc del: add_Suc_right)
qed

lemma get_front [simp]:
  "p + 2 \<le> length xs \<Longrightarrow> bfd_getl16 (xs @ ys) p = bfd_getl16 xs p"
  "p + 4 \<le> length xs \<Longrightarrow> bfd_getl32 (xs @ ys) p = bfd_getl32 xs p"
  by (simp_all add: bfd_getl16_def bfd_getl32_def nth_append)

lemma length_headers [simp]:
  "length (elf_swap_shdr_out s) = 40"
  "EI_NIDENT \<le> length (e_ident e) \<Longrightarrow> length (elf_swap_ehdr_out e) = 52"
  by (simp_all add: elf_swap_shdr_out_def elf_swap_ehdr_out_def EI_NIDENT_def)

text \<open>The headers are read back as they were, in the ranges of their fields.\<close>

theorem shdr_round_trip: "elf_swap_shdr_in (elf_swap_shdr_out s) = s"
  by (cases s) (simp add: elf_swap_shdr_in_def elf_swap_shdr_out_def)

definition ehdr_fits :: "Elf_Internal_Ehdr \<Rightarrow> bool" where
  "ehdr_fits e \<longleftrightarrow> length (e_ident e) = EI_NIDENT \<and> e_ehsize e < 0x10000 \<and> e_phentsize e < 0x10000 \<and>
     e_phnum e < 0xffff \<and> e_shentsize e < 0x10000 \<and> e_shnum e < 0xff00 \<and> e_shstrndx e < 0xff00"

lemma take_bit_16 [simp]: "v < 0x10000 \<Longrightarrow> take_bit 16 (v :: u32) = v"
proof -
  assume "v < 0x10000"
  then have "take_bit 16 (unat v) = unat v" by (simp add: take_bit_nat_eq_self word_less_nat_alt)
  then have "unat (take_bit 16 v) = unat v" by (simp only: unsigned_take_bit_eq)
  then show ?thesis by (rule word_unat_eq_iff [THEN iffD2])
qed

lemma SHN_LORESERVE_16 [simp]: "SHN_LORESERVE AND 0xffff = 0xff00"
  by (simp add: SHN_LORESERVE_def)

lemma ehdr_fits_out:
  assumes "ehdr_fits e"
  shows "elf_swap_ehdr_out e = e_ident e @ H_PUT_16 (ucast (e_type e)) @ H_PUT_16 (ucast (e_machine e)) @
     H_PUT_32 (e_version e) @ H_PUT_32 (e_entry e) @ H_PUT_32 (e_phoff e) @ H_PUT_32 (e_shoff e) @
     H_PUT_32 (e_flags e) @ H_PUT_16 (e_ehsize e) @ H_PUT_16 (e_phentsize e) @
     H_PUT_16 (e_phnum e) @ H_PUT_16 (e_shentsize e) @ H_PUT_16 (e_shnum e) @ H_PUT_16 (e_shstrndx e)"
proof -
  have "\<not> PN_XNUM < e_phnum e" "\<not> 0xff00 \<le> e_shnum e" "\<not> 0xff00 \<le> e_shstrndx e"
    using assms by (auto simp: ehdr_fits_def PN_XNUM_def not_less not_le less_imp_le)
  then show ?thesis using assms by (simp add: elf_swap_ehdr_out_def ehdr_fits_def)
qed

lemma ehdr_fits_range:
  assumes "ehdr_fits e"
  shows "length (e_ident e) = 16" "e_ehsize e < 0x10000" "e_phentsize e < 0x10000" "e_phnum e < 0x10000"
    "e_shentsize e < 0x10000" "e_shnum e < 0x10000" "e_shstrndx e < 0x10000"
  using assms by (auto simp: ehdr_fits_def EI_NIDENT_def elim: less_trans)

lemma ucast_16 [simp]: "ucast (take_bit 16 (ucast v :: u32)) = (v :: 16 word)"
  by (rule bit_word_eqI) (simp add: bit_simps)

theorem ehdr_round_trip: "ehdr_fits e \<Longrightarrow> elf_swap_ehdr_in (elf_swap_ehdr_out e) = e"
  using ehdr_fits_range [of e]
  by (cases e) (simp add: elf_swap_ehdr_in_def ehdr_fits_out EI_NIDENT_def)

subsection \<open>The code in the file\<close>

lemma write_at_front:
  "pos \<le> length file \<Longrightarrow> write_at pos bs file = take pos file @ bs @ drop (pos + length bs) file"
  by (simp add: write_at_def)

lemma shdr_fields [simp]:
  "bfd_getl32 (elf_swap_shdr_out s) 4 = sh_type s" "bfd_getl32 (elf_swap_shdr_out s) 16 = sh_offset s"
  "bfd_getl32 (elf_swap_shdr_out s) 20 = sh_size s"
  by (simp_all add: elf_swap_shdr_out_def)

lemma find_code_finds:
  assumes "length P + 40 * length ss < 2 ^ 31"
  shows "find_code (length ss) (P @ concat (map elf_swap_shdr_out ss) @ Q) 40 (word_of_nat (length P)) =
    Inr (map_option (\<lambda>s. (sh_offset s, sh_size s)) (find (\<lambda>s. sh_type s = 1) ss))"
  using assms
proof (induction ss arbitrary: P)
  case (Cons s ss)
  let ?buf = "P @ concat (map elf_swap_shdr_out (s # ss)) @ Q"
  have sint: "sint (word_of_nat (length P) :: u32) = int (length P)"
    using Cons.prems by (simp add: signed_of_nat signed_take_bit_int_eq_self)
  have load: "load32 ?buf (sint (word_of_nat (length P) :: u32) + int k) = Inr (bfd_getl32 (elf_swap_shdr_out s) k)"
    if "k + 4 \<le> 40" for k
  proof -
    have "sint (word_of_nat (length P) :: u32) + int k = int (length P + k)" by (simp only: sint of_nat_add)
    then show ?thesis using that by (simp only: load32_def) (simp add: nat_int_add)
  qed
  note l = load [of 4] load [of 16] load [of 20]
  have IH: "find_code (length ss) ?buf 40 (word_of_nat (length P) + 40) =
      Inr (map_option (\<lambda>s. (sh_offset s, sh_size s)) (find (\<lambda>s. sh_type s = 1) ss))"
    using Cons.IH [of "P @ elf_swap_shdr_out s"] Cons.prems by (simp add: add.commute)
  have "length (s # ss) = Suc (length ss)" by simp
  then show ?case using l IH by (simp del: concat.simps list.map append.simps)
qed simp

text \<open>
  The file that is written: the header, what was there, and the table of sections. Its sections
  lie behind the header, the table behind the sections.
\<close>

definition object_ok :: "Elf_Internal_Ehdr \<Rightarrow> Elf_Internal_Shdr list \<Rightarrow> byte list \<Rightarrow> bool" where
  "object_ok e shdrs file \<longleftrightarrow> ehdr_fits e \<and> e_ehsize e = 52 \<and> e_shentsize e = 40 \<and>
     unat (e_shnum e) = length shdrs \<and> 52 \<le> unat (e_shoff e) \<and> unat (e_shoff e) \<le> length file \<and>
     unat (e_shoff e) + 40 * length shdrs < 2 ^ 31 \<and> length file < 2 ^ 31"

lemma object_file:
  assumes "object_ok e shdrs file" and "elf_write_shdrs_and_ehdr e shdrs file = (shdrs', file')"
  shows "shdrs' = shdrs" and "file' = elf_swap_ehdr_out e @ take (unat (e_shoff e) - 52) (drop 52 file) @
    concat (map elf_swap_shdr_out shdrs) @ drop (unat (e_shoff e) + 40 * length shdrs) file"
proof -
  have len: "length (elf_swap_ehdr_out e) = 52"
    using assms(1) by (intro length_headers) (simp add: object_ok_def ehdr_fits_def)
  have sum: "length (concat (map elf_swap_shdr_out shdrs)) = 40 * length shdrs"
    by (induction shdrs) simp_all
  have "overflow_fields e s = s" for s
    using assms(1) by (auto simp: overflow_fields_def object_ok_def ehdr_fits_def PN_XNUM_def not_le)
  then have same: "shdrs[0 := overflow_fields e (shdrs ! 0)] = shdrs" by (simp add: list_update_id)
  show "shdrs' = shdrs" using assms(2) by (simp add: elf_write_shdrs_and_ehdr_def same Let_def)
  have f: "52 \<le> unat (e_shoff e)" "unat (e_shoff e) \<le> length file" "unat (e_shnum e) = length shdrs"
    using assms(1) by (simp_all add: object_ok_def)
  have "write_at 0 (elf_swap_ehdr_out e) file = elf_swap_ehdr_out e @ drop 52 file"
    by (simp add: write_at_front len)
  then show "file' = elf_swap_ehdr_out e @ take (unat (e_shoff e) - 52) (drop 52 file) @
      concat (map elf_swap_shdr_out shdrs) @ drop (unat (e_shoff e) + 40 * length shdrs) file"
    using assms(2) f by (auto simp: elf_write_shdrs_and_ehdr_def same Let_def write_at_front len sum)
qed

lemma object_file_short:
  assumes "object_ok e shdrs file" and "elf_write_shdrs_and_ehdr e shdrs file = (shdrs', file')"
  shows "length file' < 2 ^ 31"
proof -
  have "length (elf_swap_ehdr_out e) = 52"
    using assms(1) by (intro length_headers) (simp add: object_ok_def ehdr_fits_def)
  moreover have "length (concat (map elf_swap_shdr_out shdrs)) = 40 * length shdrs"
    by (induction shdrs) simp_all
  ultimately show ?thesis using assms(1) by (auto simp: object_file(2) [OF assms] object_ok_def)
qed

lemma parse_elf_finds:
  assumes "object_ok e shdrs file" and "elf_write_shdrs_and_ehdr e shdrs file = (shdrs', file')"
  shows "parse_elf file' (word_of_nat (length file')) bin = Inr (0, case find (\<lambda>s. sh_type s = 1) shdrs of
    None \<Rightarrow> bin | Some s \<Rightarrow> (sh_offset s, sh_size s))"
proof -
  let ?P = "elf_swap_ehdr_out e @ take (unat (e_shoff e) - 52) (drop 52 file)"
  note file' = object_file(2) [OF assms(1,2)]
  have o: "ehdr_fits e" "e_ehsize e = 52" "e_shentsize e = 40" "unat (e_shnum e) = length shdrs"
    "52 \<le> unat (e_shoff e)" "unat (e_shoff e) \<le> length file" "unat (e_shoff e) + 40 * length shdrs < 2 ^ 31"
    using assms(1) by (simp_all add: object_ok_def)
  note range = ehdr_fits_range [OF o(1)]
  have len: "length (elf_swap_ehdr_out e) = 52" using range(1) by (intro length_headers) (simp add: EI_NIDENT_def)
  have P: "length ?P = unat (e_shoff e)" using o by (simp add: len)
  have fields: "bfd_getl16 file' 40 = 52" "bfd_getl16 file' 46 = 40" "bfd_getl32 file' 32 = e_shoff e"
    "bfd_getl16 file' 48 = e_shnum e"
    unfolding file' using len range o(2,3) by (simp_all add: ehdr_fits_out [OF o(1)])
  have short: "length file' < 2 ^ 31" by (rule object_file_short [OF assms])
  have big: "52 \<le> length file'" unfolding file' by (simp add: len)
  have "\<not> (word_of_nat (length file') :: u32) < 52"
    using big short by (simp add: word_less_nat_alt unsigned_of_nat take_bit_nat_eq_self)
  moreover have "find_code (length shdrs) file' 40 (e_shoff e) =
      Inr (map_option (\<lambda>s. (sh_offset s, sh_size s)) (find (\<lambda>s. sh_type s = 1) shdrs))"
    using find_code_finds [of ?P shdrs "drop (unat (e_shoff e) + 40 * length shdrs) file"] o(7)
    unfolding P file' by simp
  ultimately show ?thesis
    using big fields by (simp add: parse_elf_def load16_def load32_def o(4) split: option.split)
qed

lemma sint_eq_uint: "uint x < 2 ^ 31 \<Longrightarrow> sint (x :: u32) = uint x"
proof -
  assume "uint x < 2 ^ 31"
  moreover have "- (2 ^ 31) \<le> uint x" by (rule order.trans [of _ 0]) simp_all
  ultimately show ?thesis by (simp add: sint_uint signed_take_bit_int_eq_self_iff)
qed

lemma sint_nonneg: "0 \<le> sint (x :: u32) \<Longrightarrow> sint x = uint x"
proof -
  assume "0 \<le> sint x"
  moreover have "sint x < 2 ^ 31" using sint_lt [of x] by simp
  ultimately have "take_bit 32 (sint x) = sint x" by (simp add: take_bit_int_eq_self)
  with uint_sint [of x] show ?thesis by simp
qed

lemma uint_le_unat: "n \<le> unat x \<longleftrightarrow> int n \<le> uint x" "unat x < n \<longleftrightarrow> uint x < int n"
  by (simp_all only: uint_nat of_nat_le_iff of_nat_less_iff)

lemma output_bin_code:
  assumes ok: "object_ok e shdrs file" and w: "elf_write_shdrs_and_ehdr e shdrs file = (shdrs', file')"
    and code: "find (\<lambda>s. sh_type s = 1) shdrs = Some s" and fs: "fs ''a.out'' = Some file'"
    and open_ok: "can_open (takeWhile (\<lambda>c. c \<noteq> CHR ''.'') inname)"
    and place: "52 \<le> unat (sh_offset s)" "unat (sh_offset s) + unat (sh_size s) \<le> unat (e_shoff e)"
  shows "output_bin can_open inname fs = Inr (0, fs(takeWhile (\<lambda>c. c \<noteq> CHR ''.'') inname \<mapsto>
    take (unat (sh_size s)) (drop (unat (sh_offset s)) file)))"
proof -
  have len: "length (elf_swap_ehdr_out e) = 52"
    using ok by (intro length_headers) (simp add: object_ok_def ehdr_fits_def)
  have o: "unat (e_shoff e) \<le> length file" "unat (e_shoff e) < 2 ^ 31" using ok by (simp_all add: object_ok_def)
  have "unat (sh_offset s) < 2 ^ 31" "unat (sh_size s) < 2 ^ 31" using place o(2) by simp_all
  then have s: "sint (sh_offset s) = uint (sh_offset s)" "sint (sh_size s) = uint (sh_size s)"
    by (simp_all add: sint_eq_uint uint_le_unat(2))
  have bytes: "take (unat (sh_size s)) (drop (unat (sh_offset s)) file') =
      take (unat (sh_size s)) (drop (unat (sh_offset s)) file)"
    unfolding object_file(2) [OF ok w] using place o(1) by (simp add: len drop_take)
  have inside: "unat (sh_offset s) + unat (sh_size s) \<le> length file'"
    unfolding object_file(2) [OF ok w] using place o(1) by (simp add: len)
  then have "uint (sh_offset s) + uint (sh_size s) \<le> int (length file')"
    unfolding uint_nat of_nat_add [symmetric] by (simp only: of_nat_le_iff)
  with inside show ?thesis
    using parse_elf_finds [OF ok w, of "(0, 0)"] code fs open_ok
    by (simp add: output_bin_def s bytes)
qed

text \<open>
  Only the size of the file header is compared with the length of the buffer: a header
  that promises sections behind the end of the file makes \<open>parse_elf\<close> read there.
\<close>

lemma parse_elf_reads_outside:
  assumes "ehdr_fits e" "e_ehsize e = 52" "e_shentsize e = 40" "e_shnum e \<noteq> 0" "48 \<le> unat (e_shoff e)" "unat (e_shoff e) < 2 ^ 31"
  shows "parse_elf (elf_swap_ehdr_out e) 52 bin = Inl Abort"
proof -
  note range = ehdr_fits_range [OF assms(1)]
  have len: "length (elf_swap_ehdr_out e) = 52" using range(1) by (intro length_headers) (simp add: EI_NIDENT_def)
  have fields: "bfd_getl16 (elf_swap_ehdr_out e) 40 = 52" "bfd_getl16 (elf_swap_ehdr_out e) 46 = 40"
    "bfd_getl32 (elf_swap_ehdr_out e) 32 = e_shoff e" "bfd_getl16 (elf_swap_ehdr_out e) 48 = e_shnum e"
    using range assms(2,3) by (simp_all add: ehdr_fits_out [OF assms(1)])
  have "sint (e_shoff e) = uint (e_shoff e)" "48 \<le> uint (e_shoff e)"
    using assms(5,6) by (simp_all add: sint_eq_uint uint_le_unat)
  then have out: "\<not> sint (e_shoff e) + 8 \<le> 52" by simp
  obtain n where "unat (e_shnum e) = Suc n" using assms(4) by (cases "unat (e_shnum e)") (auto simp: unat_eq_0)
  then show ?thesis using out by (simp add: parse_elf_def load16_def load32_def len fields)
qed

end
