(* ===== verification/SymSamples.thy ===== *)
theory SymSamples
  imports Samples ExprFrame ExprValue ElfImage
begin

text \<open>
  Concrete states with a symbol \<open>loop\<close> for the witnesses: one in which it is only referenced so
  far, and one in which it is the label at the start of the fragment before the current one.
  Their numbers have no floating point. And an object file with four bytes of code.
\<close>

definition loop_text :: "symbolS \<Rightarrow> gas_state" where
  "loop_text s = (start_gas [zero_frag\<lparr>fr_type := Rs_fill\<rparr>, zero_frag\<lparr>fr_type := Rs_fill\<rparr>] [dot, s])
     \<lparr>gs_sy_hash := snd (hash_jam hash_new ''loop'' 1)\<rparr>"

abbreviation loop_wanted :: gas_state where
  "loop_wanted \<equiv> loop_text (plain_symbol ''loop'' Undefined_section 0 None False)"

abbreviation loop_defined :: gas_state where
  "loop_defined \<equiv> loop_text (plain_symbol ''loop'' (Section 0) 0 (Some 0) False)"

definition no_float :: atof where
  "no_float s big = (0, s, \<lparr>fl_littlenums = [], fl_exponent = 0, fl_sign = CHR 0x00\<rparr>, big)"

lemma empty_text_tables [simp]: "symtab_inv empty_text" "symbol_named empty_text name = None"
  by (simp_all add: symtab_inv_def symbol_named_def empty_text_def start_gas_def hash_new_inv hash_new_abs)

lemma loop_text_tables [simp]:
  "symtab_inv (loop_text s)" "symbol_named (loop_text s) ''loop'' = Some 1"
  using hash_jam_spec [OF hash_new_inv, of "''loop''" "1 :: nat"]
  by (simp_all add: symtab_inv_def symbol_named_def loop_text_def start_gas_def hash_new_inv hash_new_abs)

lemma loop_wanted_referenced: "referenced_only loop_wanted 1" "\<not> gs_finalize_syms loop_wanted"
  by (simp_all add: referenced_only_def loop_text_def start_gas_def)

lemma loop_defined_elsewhere: "defined_elsewhere loop_defined 1"
  by (simp add: defined_elsewhere_def loop_text_def start_gas_def start_chain_def frag_now_def S_IS_DEFINED_def)

text \<open>\<open>- 3 * (2 - 9)\<close>, which is printed with these parentheses only.\<close>

definition sample_cexp :: cexp where
  "sample_cexp = Binary O_multiply (Unary CHR ''-'' (Lit 3)) (Binary O_subtract (Lit 2) (Lit 9))"

lemma sample_cexp_ok: "cexp_ok sample_cexp" "cexp_value sample_cexp = Some 21"
  by (simp_all add: sample_cexp_def unary_char_def binary_op_def operator_value_def binary_value_def unary_constant_def)

lemma no_float_ok: "atof_ok no_float"
  by (simp add: atof_ok_def no_float_def)

definition object_header :: Elf_Internal_Ehdr where
  "object_header = \<lparr>e_ident = replicate 16 0, e_entry = 0, e_phoff = 0, e_shoff = 56, e_version = 1, e_flags = 0,
     e_type = 1, e_machine = 243, e_ehsize = 52, e_phentsize = 0, e_phnum = 0, e_shentsize = 40, e_shnum = 2,
     e_shstrndx = 0\<rparr>"

definition null_section :: Elf_Internal_Shdr where
  "null_section = \<lparr>sh_name = 0, sh_type = 0, sh_flags = 0, sh_addr = 0, sh_offset = 0, sh_size = 0, sh_link = 0,
     sh_info = 0, sh_addralign = 0, sh_entsize = 0\<rparr>"

definition object_sections :: "Elf_Internal_Shdr list" where
  "object_sections = [null_section, null_section\<lparr>sh_type := 1, sh_offset := 52, sh_size := 4\<rparr>]"

definition object_data :: "byte list" where
  "object_data = replicate 52 0 @ [0x13, 0x05, 0x50, 0x00]"

definition object_file_image :: "byte list" where
  "object_file_image = snd (elf_write_shdrs_and_ehdr object_header object_sections object_data)"

lemma object_sample: "object_ok object_header object_sections object_data"
  by (simp add: object_ok_def ehdr_fits_def object_header_def object_sections_def object_data_def EI_NIDENT_def)

end
