(* ===== verification/ReadLine.thy ===== *)
theory ReadLine
  imports Expr
begin

text \<open>
  What the directives of \<open>gas/read.c\<close> share: the state of the reader, the ends of lines,
  strings, names and absolute expressions. The line is the text from \<open>input_line_pointer\<close> on;
  a directive returns the text that follows what it has read.

  Messages leave out the place they are for, except where another place is given. The sections
  belong to the object file library: their flags and names are functions in the state, and so
  are the switch to another section, the conversion of floating point numbers and
  \<open>check_eh_frame\<close>. The second pass that \<open>need_pass_2\<close> asks for is never asked for.
\<close>

subsection \<open>State\<close>

record file_line =
  fl_file :: string
  fl_line :: u32

record conditional_frame =
  if_file_line :: file_line
  else_file_line :: file_line
  else_seen :: bool
  ignoring :: bool
  dead_tree :: bool
  macro_nest :: int

record reader_state =
  rd_gs :: gas_state
  rd_atof :: atof
  rd_flags :: "segT \<Rightarrow> u32" \<comment> \<open>\<open>bfd_get_section_flags\<close>\<close>
  rd_segment_name :: "segT \<Rightarrow> string"
  rd_text_section :: segT
  rd_subseg_set :: "segT \<Rightarrow> gas_state \<Rightarrow> gas_state"
  rd_check_eh_frame :: "expressionS \<Rightarrow> u32 \<Rightarrow> gas_state \<Rightarrow> bool \<times> expressionS \<times> u32 \<times> gas_state"
  rd_alignment :: "segT \<Rightarrow> nat" \<comment> \<open>\<open>bfd_get_section_alignment\<close>\<close>
  rd_cframes :: "conditional_frame list" \<comment> \<open>the chain from \<open>current_cframe\<close>\<close>
  rd_macro_nest :: int
  rd_where :: file_line \<comment> \<open>\<open>as_where\<close>\<close>

type_synonym 'a rd = "('a \<times> string \<times> reader_state) res"

text \<open>A directive, which leaves the text behind its line.\<close>

type_synonym handler = "string \<Rightarrow> reader_state \<Rightarrow> (string \<times> reader_state) res"

definition on_gs :: "(gas_state \<Rightarrow> gas_state) \<Rightarrow> reader_state \<Rightarrow> reader_state" where
  "on_gs f rs = rs\<lparr>rd_gs := f (rd_gs rs)\<rparr>"

definition lift_gs :: "(gas_state \<Rightarrow> gas_state res) \<Rightarrow> reader_state \<Rightarrow> reader_state res" where
  "lift_gs f rs = and_then (f (rd_gs rs)) (\<lambda>gs. Inr (rs\<lparr>rd_gs := gs\<rparr>))"

definition rd_bad :: "diag \<Rightarrow> reader_state \<Rightarrow> reader_state" where
  "rd_bad d = on_gs (gs_bad d)"

definition rd_warn :: "diag \<Rightarrow> reader_state \<Rightarrow> reader_state" where
  "rd_warn d = on_gs (gs_warn d)"

definition as_bad_where :: "file_line \<Rightarrow> string \<Rightarrow> reader_state \<Rightarrow> reader_state" where
  "as_bad_where fl msg = rd_bad (Diag (''%s:%u: '' @ msg) [Str (fl_file fl), Num (fl_line fl)])"

definition bump_line_counters :: "reader_state \<Rightarrow> reader_state" where
  "bump_line_counters rs = rs\<lparr>rd_where := (rd_where rs)\<lparr>fl_line := fl_line (rd_where rs) + 1\<rparr>\<rparr>"

abbreviation (input) SEC_ALLOC :: u32 where "SEC_ALLOC \<equiv> 0x1"
abbreviation (input) SEC_LOAD :: u32 where "SEC_LOAD \<equiv> 0x2"
abbreviation (input) SEC_CODE :: u32 where "SEC_CODE \<equiv> 0x10"
abbreviation (input) SEC_HAS_CONTENTS :: u32 where "SEC_HAS_CONTENTS \<equiv> 0x100"

definition now_flags :: "reader_state \<Rightarrow> u32" where
  "now_flags rs = rd_flags rs (gs_seg (rd_gs rs))"

definition in_bss :: "reader_state \<Rightarrow> bool" where
  "in_bss rs \<longleftrightarrow> now_flags rs AND SEC_ALLOC \<noteq> 0 \<and> now_flags rs AND (SEC_LOAD OR SEC_HAS_CONTENTS) = 0"

definition subseg_text_p :: "reader_state \<Rightarrow> bool" where
  "subseg_text_p rs \<longleftrightarrow> now_flags rs AND SEC_CODE \<noteq> 0"

definition now_segment_name :: "reader_state \<Rightarrow> string" where
  "now_segment_name rs = rd_segment_name rs (gs_seg (rd_gs rs))"

definition absolute_now :: "reader_state \<Rightarrow> bool" where
  "absolute_now rs \<longleftrightarrow> gs_seg (rd_gs rs) = Absolute_section"

definition record_alignment :: "nat \<Rightarrow> reader_state \<Rightarrow> reader_state" where
  "record_alignment align rs =
     (let seg = gs_seg (rd_gs rs)
      in if seg = Absolute_section then rs
         else if rd_alignment rs seg < align then rs\<lparr>rd_alignment := (rd_alignment rs)(seg := align)\<rparr>
         else rs)"

subsection \<open>Ends of lines\<close>

definition is_it_end_of_statement :: "string \<Rightarrow> bool" where
  "is_it_end_of_statement s \<longleftrightarrow> is_end_of_line (c_char (skip_whitespace s))"

definition isprint :: "char \<Rightarrow> bool" where
  "isprint c \<longleftrightarrow> 32 \<le> (of_char c :: nat) \<and> (of_char c :: nat) \<le> 126"

definition signed_char :: "char \<Rightarrow> u32" where
  "signed_char c = signed_take_bit 7 (of_char c)"

text \<open>\<open>s_ignore\<close> is \<open>ignore_rest_of_line\<close>.\<close>

definition s_ignore :: handler where
  "s_ignore s rs = and_then (ignore_rest_of_line s) (\<lambda>s. Inr (s, rs))"

definition demand_empty_rest_of_line :: handler where
  "demand_empty_rest_of_line s rs =
     (let s = skip_whitespace s; c = c_char s; junk = ''junk at end of line, first unrecognized character ''
      in if is_end_of_line c then (case s of [] \<Rightarrow> Inl Abort | _ # rest \<Rightarrow> Inr (rest, rs))
         else s_ignore s (rd_bad (if isprint c then Diag (junk @ ''is `%c'' @ [CHR 0x27]) [Chr c]
                                  else Diag (junk @ ''valued 0x%x'') [Num (signed_char c)]) rs))"

subsection \<open>Expressions\<close>

definition read_expression :: "expr_mode \<Rightarrow> string \<Rightarrow> reader_state \<Rightarrow> (segT \<times> expressionS) rd" where
  "read_expression mode s rs =
     and_then (parse_expression (rd_atof rs) mode s (rd_gs rs)) (\<lambda>(seg, e, s, gs).
     Inr ((seg, e), s, rs\<lparr>rd_gs := gs\<rparr>))"

definition get_absolute_expr :: "string \<Rightarrow> reader_state \<Rightarrow> expressionS rd" where
  "get_absolute_expr s rs =
     and_then (read_expression Expr_evaluate s rs) (\<lambda>((seg, e), s, rs).
     if X_op e = O_constant then Inr (e, s, rs)
     else Inr (e\<lparr>X_add_number := 0\<rparr>, s,
            if X_op e = O_absent then rs else rd_bad (Diag ''bad or irreducible absolute expression'' []) rs))"

definition get_absolute_expression :: "string \<Rightarrow> reader_state \<Rightarrow> offsetT rd" where
  "get_absolute_expression s rs =
     and_then (get_absolute_expr s rs) (\<lambda>(e, s, rs). Inr (X_add_number e, s, rs))"

definition get_segmented_expression :: "string \<Rightarrow> reader_state \<Rightarrow> (segT \<times> expressionS) rd" where
  "get_segmented_expression s rs =
     and_then (read_expression Expr_normal s rs) (\<lambda>((seg, e), s, rs).
     if X_op e = O_illegal \<or> X_op e = O_absent \<or> X_op e = O_big
     then Inr ((Absolute_section, e\<lparr>X_op := O_constant, X_add_number := 0\<rparr>), s,
            rd_bad (Diag ''expected address expression'' []) rs)
     else Inr ((seg, e), s, rs))"

definition get_known_segmented_expression :: "string \<Rightarrow> reader_state \<Rightarrow> (segT \<times> expressionS) rd" where
  "get_known_segmented_expression s rs =
     and_then (get_segmented_expression s rs) (\<lambda>((seg, e), s, rs).
     if seg = Undefined_section
     then Inr ((Absolute_section, e\<lparr>X_op := O_constant, X_add_number := 0\<rparr>), s,
            rd_warn (case X_add_symbol e of
                Some i \<Rightarrow> if S_GET_SEGMENT (rd_gs rs) i \<noteq> Expr_section
                          then Diag ''symbol \"%s\" undefined; zero assumed'' [Str (S_GET_NAME (rd_gs rs) i)]
                          else Diag ''some symbol undefined; zero assumed'' []
              | None \<Rightarrow> Diag ''some symbol undefined; zero assumed'' []) rs)
     else Inr ((seg, e), s, rs))"

definition get_absolute_expression_and_terminator :: "string \<Rightarrow> reader_state \<Rightarrow> (offsetT \<times> char) rd" where
  "get_absolute_expression_and_terminator s rs =
     and_then (get_absolute_expression s rs) (\<lambda>(val, s, rs).
     case s of [] \<Rightarrow> Inl Abort | c # s \<Rightarrow> Inr ((val, c), s, rs))"

subsection \<open>Strings\<close>

definition isxdigit :: "char \<Rightarrow> bool" where
  "isxdigit c \<longleftrightarrow> hex_value c < 16"

definition char_byte :: "char \<Rightarrow> byte" where
  "char_byte c = of_char c"

definition newline_inserted :: "reader_state \<Rightarrow> reader_state" where
  "newline_inserted rs = bump_line_counters (rd_warn (Diag ''unterminated string; newline inserted'' []) rs)"

text \<open>
  The character behind a backslash: \<open>s\<close> is the line from it on. \<open>None\<close> is \<open>NOT_A_CHAR\<close>. Up to
  three digits make an octal number, in which 8 and 9 count as well; a hexadecimal number has
  any number of digits, of which the last two count.
\<close>

definition string_escape :: "string \<Rightarrow> reader_state \<Rightarrow> byte option \<times> string \<times> reader_state" where
  "string_escape s rs =
     (let c = c_char s
      in if c = CHR 0x00 then (None, s, rs)
         else if c = CHR ''b'' then (Some 8, tl s, rs)
         else if c = CHR ''f'' then (Some 12, tl s, rs)
         else if c = CHR ''n'' then (Some 10, tl s, rs)
         else if c = CHR ''r'' then (Some 13, tl s, rs)
         else if c = CHR ''t'' then (Some 9, tl s, rs)
         else if c = CHR ''v'' then (Some 11, tl s, rs)
         else if isdigit c
         then (let ds = takeWhile isdigit (take 3 s)
               in (Some (word_of_nat (foldl (\<lambda>n d. n * 8 + (of_char d - 48)) 0 ds)), drop (length ds) s, rs))
         else if c = CHR ''x'' \<or> c = CHR ''X''
         then (let ds = takeWhile isxdigit (tl s)
               in (Some (word_of_nat (foldl (\<lambda>n d. n * 16 + hex_value d) 0 ds)), drop (length ds) (tl s), rs))
         else if c = CHR 0x0a then (Some 10, tl s, newline_inserted rs)
         else (Some (char_byte c), tl s, rs))"

definition next_char_of_string :: "string \<Rightarrow> reader_state \<Rightarrow> byte option \<times> string \<times> reader_state" where
  "next_char_of_string s rs =
     (let c = c_char s
      in if c = CHR 0x00 then (None, s, rs)
         else if c = CHR 0x22 then (None, tl s, rs)
         else if c = CHR 0x0a then (Some 10, tl s, newline_inserted rs)
         else if c = CHR 0x5C then string_escape (tl s) rs
         else (Some (char_byte c), tl s, rs))"

text \<open>A character that is read is behind the pointer.\<close>

definition consumes :: "string \<Rightarrow> byte option \<times> string \<times> reader_state \<Rightarrow> bool" where
  "consumes s r \<longleftrightarrow> (case r of (b, s', rs) \<Rightarrow> b \<noteq> None \<longrightarrow> length s' < length s)"

lemma consumes_if: "(c \<Longrightarrow> consumes s a) \<Longrightarrow> (\<not> c \<Longrightarrow> consumes s b) \<Longrightarrow> consumes s (if c then a else b)"
  by simp

lemma consumes_simps [simp]: "consumes s (None, s', rs)" "consumes s (Some b, s', rs) \<longleftrightarrow> length s' < length s"
  by (simp_all add: consumes_def)

lemma string_escape_shorter: "consumes (c # s) (string_escape s rs)"
  unfolding string_escape_def Let_def by (intro consumes_if) (cases s; simp)+

lemma next_char_shorter: "consumes s (next_char_of_string s rs)"
  unfolding next_char_of_string_def Let_def using string_escape_shorter [of "hd s" "tl s" rs]
  by (intro consumes_if) (cases s; simp)+

lemma next_char_Some: "next_char_of_string s rs = (Some b, s', rs') \<Longrightarrow> length s' < length s"
  using next_char_shorter [of s rs] by simp

text \<open>The characters up to the closing quote.\<close>

function string_chars :: "string \<Rightarrow> reader_state \<Rightarrow> byte list \<times> string \<times> reader_state" where
  "string_chars s rs =
     (case next_char_of_string s rs of
        (None, s, rs) \<Rightarrow> ([], s, rs)
      | (Some b, s, rs) \<Rightarrow> let (bs, r) = string_chars s rs in (b # bs, r))"
  by pat_completeness auto
termination
  by (relation "measure (\<lambda>(s, rs). length s)") (auto dest: next_char_Some [OF sym])

declare string_chars.simps [simp del]

definition demand_copy_string :: "string \<Rightarrow> reader_state \<Rightarrow> byte list option rd" where
  "demand_copy_string s rs =
     (let s = skip_whitespace s
      in if c_char s = CHR 0x22 then (let (bs, s, rs) = string_chars (tl s) rs in Inr (Some bs, s, rs))
         else and_then (s_ignore s (rd_bad (Diag ''missing string'' []) rs)) (\<lambda>(s, rs). Inr (None, s, rs)))"

text \<open>
  The loop over the characters of the string looks at the first one each time, so that only a
  NUL in front is found.
\<close>

definition demand_copy_C_string :: "string \<Rightarrow> reader_state \<Rightarrow> byte list option rd" where
  "demand_copy_C_string s rs =
     and_then (demand_copy_string s rs) (\<lambda>(bs, s, rs).
     case bs of
       Some (b # _) \<Rightarrow>
         if b = 0 then Inr (None, s, rd_bad (Diag (''this string may not contain '' @ [CHR 0x27, CHR 0x5C] @ ''0'' @ [CHR 0x27]) []) rs)
         else Inr (bs, s, rs)
     | _ \<Rightarrow> Inr (bs, s, rs))"

text \<open>A string as \<open>printf\<close> or a symbol table sees it: up to the first NUL.\<close>

definition c_string :: "byte list \<Rightarrow> string" where
  "c_string bs = map (\<lambda>b. char_of (unat b)) (takeWhile (\<lambda>b. b \<noteq> 0) bs)"

text \<open>
  The test whether a quoted name is valid in the locale is made on the NUL behind it, and
  always succeeds.
\<close>

definition read_symbol_name :: "string \<Rightarrow> reader_state \<Rightarrow> string option rd" where
  "read_symbol_name s rs =
     (let fail = (\<lambda>s rs. and_then (s_ignore s (rd_bad (Diag ''expected symbol name'' []) rs)) (\<lambda>(s, rs). Inr (None, s, rs)))
      in case s of
           [] \<Rightarrow> Inl Abort
         | c # s \<Rightarrow>
             if c = CHR 0x22
             then (let (bs, s, rs) = string_chars s rs
                   in if bs = [] then fail s rs else Inr (Some (c_string bs), skip_whitespace s, rs))
             else if is_name_beginner c
             then Inr (Some (c # takeWhile is_part_of_name s), skip_whitespace (dropWhile is_part_of_name s), rs)
             else fail s rs)"

end
