(* ===== verification/CondAsm.thy ===== *)
theory CondAsm
  imports ReadLine
begin

text \<open>
  Conditional assembly, from \<open>gas/cond.c\<close>: the stack of conditionals, the directives that push,
  change and pop its top, and the test whether the input is being ignored. The listing is not told
  of lines that are skipped, since \<open>LISTING_SKIP_COND\<close> is off, and there is no MRI mode.
\<close>

subsection \<open>The stack\<close>

definition initialize_cframe :: "reader_state \<Rightarrow> conditional_frame" where
  "initialize_cframe rs =
     \<lparr>if_file_line = rd_where rs, else_file_line = \<lparr>fl_file = '''', fl_line = 0\<rparr>, else_seen = False, ignoring = False,
      dead_tree = (case rd_cframes rs of [] \<Rightarrow> False | f # _ \<Rightarrow> ignoring f), macro_nest = rd_macro_nest rs\<rparr>"

definition push_cframe :: "bool \<Rightarrow> reader_state \<Rightarrow> reader_state" where
  "push_cframe ignore rs =
     (let cframe = initialize_cframe rs
      in rs\<lparr>rd_cframes := cframe\<lparr>ignoring := dead_tree cframe \<or> ignore\<rparr> # rd_cframes rs\<rparr>)"

definition ignoring_now :: "reader_state \<Rightarrow> bool" where
  "ignoring_now rs = (case rd_cframes rs of [] \<Rightarrow> False | f # _ \<Rightarrow> ignoring f)"

text \<open>A conditional further up the stack: its messages say where its parts are.\<close>

definition previous_parts :: "conditional_frame \<Rightarrow> reader_state \<Rightarrow> reader_state" where
  "previous_parts f rs =
     as_bad_where (if_file_line f) ''here is the previous \".if\"''
       (as_bad_where (else_file_line f) ''here is the previous \".else\"'' rs)"

definition skip_to_end :: "string \<Rightarrow> string" where
  "skip_to_end s = dropWhile (\<lambda>c. \<not> is_end_of_line c) s"

subsection \<open>Conditions\<close>

text \<open>The comparison with zero that \<open>op\<close> stands for; for any other operator the code aborts.\<close>

definition condition_holds :: "operatorT \<Rightarrow> offsetT \<Rightarrow> bool res" where
  "condition_holds op v =
     (case op of
        O_eq \<Rightarrow> Inr (v = 0) | O_ne \<Rightarrow> Inr (v \<noteq> 0) | O_lt \<Rightarrow> Inr (v <s 0) | O_le \<Rightarrow> Inr (v \<le>s 0)
      | O_ge \<Rightarrow> Inr (0 \<le>s v) | O_gt \<Rightarrow> Inr (0 <s v) | _ \<Rightarrow> Inl Abort)"

definition read_condition :: "string \<Rightarrow> operatorT \<Rightarrow> string \<Rightarrow> reader_state \<Rightarrow> bool rd" where
  "read_condition directive op s rs =
     and_then (read_expression Expr_evaluate (skip_whitespace s) rs) (\<lambda>((_, e), s, rs).
     and_then (condition_holds op (X_add_number e)) (\<lambda>t.
     Inr (t, s, if X_op e = O_constant then rs
                else rd_bad (Diag (''non-constant expression in \"'' @ directive @ ''\" statement'') []) rs)))"

definition s_if :: "operatorT \<Rightarrow> handler" where
  "s_if op s rs =
     and_then (if ignoring_now rs
               then and_then (condition_holds op 0) (\<lambda>t. Inr (t, skip_to_end (skip_whitespace s), rs))
               else read_condition ''.if'' op s rs) (\<lambda>(t, s, rs).
     demand_empty_rest_of_line s (push_cframe (\<not> t) rs))"

text \<open>
  The symbol has to be defined or equated, and not a register. The argument is 0 for \<open>.ifdef\<close>
  and 1 for \<open>.ifndef\<close>.
\<close>

definition defined_here :: "gas_state \<Rightarrow> nat option \<Rightarrow> bool" where
  "defined_here gs i \<longleftrightarrow>
     (case i of None \<Rightarrow> False
      | Some i \<Rightarrow> (S_IS_DEFINED (the_symbol gs i) \<or> symbol_equated_p gs i) \<and> S_GET_SEGMENT gs i \<noteq> Reg_section)"

definition s_ifdef :: "bool \<Rightarrow> handler" where
  "s_ifdef test_defined s rs =
     (let s = skip_whitespace s
      in if \<not> is_name_beginner (c_char s) \<and> c_char s \<noteq> CHR 0x22
         then s_ignore s (rd_bad (Diag ''invalid identifier for \".ifdef\"'' []) rs)
         else
           let (name, s, gs) = get_symbol_name s (rd_gs rs); (i, gs) = symbol_find name gs
           in demand_empty_rest_of_line (restore_line_pointer s)
                (push_cframe (test_defined = defined_here gs i) (rs\<lparr>rd_gs := gs\<rparr>)))"

definition s_ifb :: "bool \<Rightarrow> handler" where
  "s_ifb test_blank s rs =
     (let dead = ignoring_now rs; s = (if dead then s else skip_whitespace s);
          is_eol = is_end_of_line (c_char s)
      in s_ignore s (push_cframe (test_blank \<noteq> is_eol) rs))"

text \<open>
  The strings of \<open>.ifc\<close>. One in single quotes keeps them, and a quote in it is doubled; another
  one goes up to the terminator and loses the blanks at its end.
\<close>

fun mri_quoted :: "string \<Rightarrow> string \<times> string" where
  "mri_quoted [] = ([], [])"
| "mri_quoted (c # s) =
     (if is_end_of_line c then ([], c # s)
      else if c = CHR 0x27
      then (case s of
              d # s' \<Rightarrow> if d = CHR 0x27 then (let (r, t) = mri_quoted s' in (c # r, t)) else ([c], s)
            | [] \<Rightarrow> ([c], s))
      else (let (r, t) = mri_quoted s in (c # r, t)))"

definition get_mri_string :: "char \<Rightarrow> string \<Rightarrow> string \<times> string" where
  "get_mri_string terminator s =
     (let s = skip_whitespace s
      in if c_char s = CHR 0x27
         then (let (r, t) = mri_quoted (tl s) in (CHR 0x27 # r, skip_whitespace t))
         else
           let inside = (\<lambda>c. c \<noteq> terminator \<and> \<not> is_end_of_line c)
           in (rev (dropWhile (\<lambda>c. c = CHR '' '' \<or> c = CHR 0x09) (rev (takeWhile inside s))), dropWhile inside s))"

definition s_ifc :: "bool \<Rightarrow> handler" where
  "s_ifc arg s rs =
     (let (s1, s) = get_mri_string (CHR '','') s;
          (s, rs) = (if c_char s \<noteq> CHR '','' then (s, rd_bad (Diag ''bad format for ifc or ifnc'' []) rs) else (tl s, rs));
          (s2, s) = get_mri_string (CHR '';'') s
      in demand_empty_rest_of_line s (push_cframe ((s1 = s2) = arg) rs))"

text \<open>Without a string the length is zero and no character is compared.\<close>

definition copied :: "byte list option \<Rightarrow> byte list" where
  "copied bs = (case bs of None \<Rightarrow> [] | Some bs \<Rightarrow> bs)"

definition same_strings :: "byte list option \<Rightarrow> byte list option \<Rightarrow> bool" where
  "same_strings a b \<longleftrightarrow> length (copied a) = length (copied b) \<and> c_string (copied a) = c_string (copied b)"

definition s_ifeqs :: "bool \<Rightarrow> handler" where
  "s_ifeqs arg s rs =
     and_then (demand_copy_C_string s rs) (\<lambda>(s1, s, rs).
     let s = skip_whitespace s
     in if c_char s \<noteq> CHR '','' then s_ignore s (rd_bad (Diag ''.ifeqs syntax error'' []) rs)
        else and_then (demand_copy_C_string (tl s) rs) (\<lambda>(s2, s, rs).
             demand_empty_rest_of_line s (push_cframe (same_strings s1 s2 = arg) rs)))"

subsection \<open>The rest of a conditional\<close>

definition set_top :: "conditional_frame \<Rightarrow> reader_state \<Rightarrow> reader_state" where
  "set_top f rs = rs\<lparr>rd_cframes := f # tl (rd_cframes rs)\<rparr>"

text \<open>The top of the stack when a new branch of it begins: dead once a branch has been taken.\<close>

definition next_branch :: "file_line \<Rightarrow> conditional_frame \<Rightarrow> conditional_frame" where
  "next_branch here f =
     (let dead = (dead_tree f \<or> \<not> ignoring f)
      in f\<lparr>else_file_line := here, dead_tree := dead, ignoring := dead\<rparr>)"

definition s_elseif :: "operatorT \<Rightarrow> handler" where
  "s_elseif op s rs =
     (case rd_cframes rs of
        [] \<Rightarrow> Inr (skip_to_end s, rd_bad (Diag ''\".elseif\" without matching \".if\"'' []) rs)
      | f # _ \<Rightarrow>
          let (f, rs) = (if else_seen f then (f, previous_parts f (rd_bad (Diag ''\".elseif\" after \".else\"'' []) rs))
                         else (let f = next_branch (rd_where rs) f in (f, set_top f rs)))
          in if ignoring f then demand_empty_rest_of_line (skip_to_end s) rs
             else and_then (read_condition ''.elseif'' op s rs) (\<lambda>(t, s, rs).
                  demand_empty_rest_of_line s (set_top (f\<lparr>ignoring := dead_tree f \<or> \<not> t\<rparr>) rs)))"

definition s_endif :: handler where
  "s_endif s rs =
     demand_empty_rest_of_line s
       (case rd_cframes rs of
          [] \<Rightarrow> rd_bad (Diag ''\".endif\" without \".if\"'' []) rs
        | _ # fs \<Rightarrow> rs\<lparr>rd_cframes := fs\<rparr>)"

definition s_else :: handler where
  "s_else s rs =
     demand_empty_rest_of_line s
       (case rd_cframes rs of
          [] \<Rightarrow> rd_bad (Diag ''\".else\" without matching \".if\"'' []) rs
        | f # _ \<Rightarrow>
            if else_seen f then previous_parts f (rd_bad (Diag ''duplicate \".else\"'' []) rs)
            else set_top (f\<lparr>else_file_line := rd_where rs, ignoring := dead_tree f \<or> \<not> ignoring f, else_seen := True\<rparr>) rs)"

subsection \<open>Ignored input and unfinished conditionals\<close>

definition prefix_nocase :: "string \<Rightarrow> string \<Rightarrow> bool" where
  "prefix_nocase p s \<longleftrightarrow> map tolower (take (length p) s) = map tolower p"

text \<open>\<open>prev\<close> is the character before \<open>s\<close>: only behind a dot can there be a conditional.\<close>

definition ignore_input :: "char \<Rightarrow> string \<Rightarrow> reader_state \<Rightarrow> bool" where
  "ignore_input prev s rs \<longleftrightarrow>
     \<not> (prev = CHR ''.'' \<and>
        (c_char s \<in> {CHR ''i'', CHR ''I''} \<and> (prefix_nocase ''if'' s \<or> prefix_nocase ''ifdef'' s \<or> prefix_nocase ''ifndef'' s) \<or>
         c_char s \<in> {CHR ''e'', CHR ''E''} \<and> (prefix_nocase ''else'' s \<or> prefix_nocase ''endif'' s \<or> prefix_nocase ''endc'' s))) \<and>
     ignoring_now rs"

definition cond_finish_check :: "int \<Rightarrow> reader_state \<Rightarrow> reader_state" where
  "cond_finish_check nest rs =
     (case rd_cframes rs of
        [] \<Rightarrow> rs
      | f # _ \<Rightarrow>
          if macro_nest f < nest then rs
          else
            let rs = rd_bad (Diag (if 0 \<le> nest then ''end of macro inside conditional'' else ''end of file inside conditional'') []) rs;
                rs = as_bad_where (if_file_line f) ''here is the start of the unterminated conditional'' rs
            in if else_seen f
               then as_bad_where (else_file_line f) ''here is the \"else\" of the unterminated conditional'' rs else rs)"

definition cond_exit_macro :: "int \<Rightarrow> reader_state \<Rightarrow> reader_state" where
  "cond_exit_macro nest rs = rs\<lparr>rd_cframes := dropWhile (\<lambda>f. nest \<le> macro_nest f) (rd_cframes rs)\<rparr>"

end
