(* ===== verification/CondStruct.thy ===== *)
theory CondStruct
  imports CondAsm
begin

text \<open>
  What the stack of conditionals promises: it stays well formed, and the directives, met one
  after the other, have the effect of the nested conditionals they are the text of.
\<close>

subsection \<open>Well-formed stacks\<close>

text \<open>
  A dead conditional is ignored, and everything inside an ignored one is dead; so the top of
  the stack alone says whether the input is ignored.
\<close>

fun cframes_ok :: "conditional_frame list \<Rightarrow> bool" where
  "cframes_ok [] \<longleftrightarrow> True"
| "cframes_ok (f # fs) \<longleftrightarrow> (dead_tree f \<longrightarrow> ignoring f) \<and>
     (case fs of [] \<Rightarrow> True | g # _ \<Rightarrow> ignoring g \<longrightarrow> dead_tree f) \<and> cframes_ok fs"

lemma cframes_top: "cframes_ok (f # fs) \<Longrightarrow> g \<in> set fs \<Longrightarrow> ignoring g \<Longrightarrow> ignoring f"
proof (induction fs arbitrary: f)
  case (Cons a fs)
  have "ignoring a" using Cons.prems(2,3) Cons.IH [of a] Cons.prems(1) by auto
  then show ?case using Cons.prems(1) by simp
qed simp

lemma ignoring_any:
  assumes "cframes_ok (rd_cframes rs)"
  shows "ignoring_now rs \<longleftrightarrow> (\<exists>f \<in> set (rd_cframes rs). ignoring f)"
  using assms cframes_top by (cases "rd_cframes rs") (auto simp: ignoring_now_def)

subsection \<open>What leaves the stack alone\<close>

lemma rd_frames [simp]:
  "rd_cframes (on_gs f rs) = rd_cframes rs" "rd_cframes (rd_bad d rs) = rd_cframes rs"
  "rd_cframes (rd_warn d rs) = rd_cframes rs" "rd_cframes (bump_line_counters rs) = rd_cframes rs"
  "rd_cframes (as_bad_where w msg rs) = rd_cframes rs" "rd_cframes (newline_inserted rs) = rd_cframes rs"
  "rd_cframes (previous_parts cf rs) = rd_cframes rs"
  by (simp_all add: on_gs_def rd_bad_def rd_warn_def bump_line_counters_def as_bad_where_def newline_inserted_def
      previous_parts_def)

lemma s_ignore_frames: "s_ignore s rs = Inr (s', rs') \<Longrightarrow> rd_cframes rs' = rd_cframes rs"
  by (auto simp: s_ignore_def and_then_Inr_iff)

lemma demand_frames: "demand_empty_rest_of_line s rs = Inr (s', rs') \<Longrightarrow> rd_cframes rs' = rd_cframes rs"
  by (auto simp: demand_empty_rest_of_line_def Let_def split: if_splits list.splits dest!: s_ignore_frames)

lemma read_expression_frames: "read_expression mode s rs = Inr (e, s', rs') \<Longrightarrow> rd_cframes rs' = rd_cframes rs"
  by (auto simp: read_expression_def and_then_Inr_iff)

lemma read_condition_frames: "read_condition d op s rs = Inr (t, s', rs') \<Longrightarrow> rd_cframes rs' = rd_cframes rs"
  by (auto simp: read_condition_def and_then_Inr_iff split: if_splits dest!: read_expression_frames)

lemma string_escape_frames: "rd_cframes (snd (snd (string_escape s rs))) = rd_cframes rs"
  by (simp add: string_escape_def Let_def)

lemma next_char_frames: "next_char_of_string s rs = (b, s', rs') \<Longrightarrow> rd_cframes rs' = rd_cframes rs"
  using string_escape_frames [of "tl s" rs] by (auto simp: next_char_of_string_def Let_def split: if_splits)

lemma string_chars_frames: "string_chars s rs = (bs, s', rs') \<Longrightarrow> rd_cframes rs' = rd_cframes rs"
proof (induction s rs arbitrary: bs s' rs' rule: string_chars.induct)
  case (1 s rs)
  obtain b s1 rs1 where n: "next_char_of_string s rs = (b, s1, rs1)" by (metis surj_pair)
  show ?case
  proof (cases b)
    case None
    with 1 n next_char_frames [OF n] show ?thesis by (simp add: string_chars.simps [of s rs])
  next
    case (Some c)
    obtain cs s2 rs2 where r: "string_chars s1 rs1 = (cs, s2, rs2)" by (metis surj_pair)
    then have "rd_cframes rs2 = rd_cframes rs1" using "1.IH" n Some by auto
    with "1.prems" n Some r next_char_frames [OF n] show ?thesis by (simp add: string_chars.simps [of s rs])
  qed
qed

lemma copy_string_frames: "demand_copy_string s rs = Inr (bs, s', rs') \<Longrightarrow> rd_cframes rs' = rd_cframes rs"
  by (auto simp: demand_copy_string_def Let_def and_then_Inr_iff split: prod.splits if_splits
      dest!: s_ignore_frames string_chars_frames)

lemma copy_frames:
  assumes "demand_copy_C_string s rs = Inr (bs, s', rs')"
  shows "rd_cframes rs' = rd_cframes rs"
proof -
  obtain bs1 s1 rs1 where 1: "demand_copy_string s rs = Inr (bs1, s1, rs1)"
    "(case bs1 of Some (b # _) \<Rightarrow> if b = 0 then Inr (None, s1, rd_bad (Diag (''this string may not contain '' @
        [CHR 0x27, CHR 0x5C] @ ''0'' @ [CHR 0x27]) []) rs1) else Inr (bs1, s1, rs1)
      | _ \<Rightarrow> Inr (bs1, s1, rs1)) = (Inr (bs, s', rs') :: byte list option rd)"
    using assms by (auto simp: demand_copy_C_string_def and_then_Inr_iff)
  have "rd_cframes rs' = rd_cframes rs1"
  proof (cases bs1)
    case (Some b)
    with 1(2) show ?thesis by (cases b) (auto split: if_splits)
  qed (use 1(2) in auto)
  then show ?thesis using copy_string_frames [OF 1(1)] by simp
qed

subsection \<open>The directives keep the stack well formed\<close>

lemma push_ok: "cframes_ok (rd_cframes rs) \<Longrightarrow> cframes_ok (rd_cframes (push_cframe b rs))"
  by (auto simp: push_cframe_def initialize_cframe_def Let_def split: list.splits)

lemma set_top_ok:
  assumes "cframes_ok (rd_cframes rs)" and "rd_cframes rs = f # fs"
    and "dead_tree f \<longrightarrow> dead_tree g" and "dead_tree g \<longrightarrow> ignoring g"
  shows "cframes_ok (rd_cframes (set_top g rs))"
  using assms by (auto simp: set_top_def split: list.splits)

text \<open>The directives of conditional assembly.\<close>

inductive cond_directive :: "handler \<Rightarrow> bool" where
  "cond_directive (s_if op)"
| "cond_directive (s_ifdef b)"
| "cond_directive (s_ifb b)"
| "cond_directive (s_ifc b)"
| "cond_directive (s_ifeqs b)"
| "cond_directive (s_elseif op)"
| "cond_directive s_else"
| "cond_directive s_endif"

lemma cond_directive_ok:
  assumes "cond_directive h" and "h s rs = Inr (s', rs')" and "cframes_ok (rd_cframes rs)"
  shows "cframes_ok (rd_cframes rs')"
  using assms
proof (induction rule: cond_directive.induct)
  case (1 op)
  then show ?case
    by (auto simp: s_if_def and_then_Inr_iff split: if_splits dest!: demand_frames read_condition_frames intro!: push_ok)
next
  case (2 b)
  then show ?case
    by (auto simp: s_ifdef_def Let_def split: if_splits prod.splits dest!: demand_frames s_ignore_frames intro!: push_ok)
next
  case (3 b)
  then show ?case by (auto simp: s_ifb_def Let_def dest!: s_ignore_frames intro!: push_ok)
next
  case (4 b)
  then show ?case by (auto simp: s_ifc_def Let_def split: prod.splits if_splits dest!: demand_frames intro!: push_ok)
next
  case (5 b)
  then show ?case
    by (auto simp: s_ifeqs_def Let_def and_then_Inr_iff split: if_splits
        dest!: demand_frames s_ignore_frames copy_frames intro!: push_ok)
next
  case (6 op)
  show ?case
  proof (cases "rd_cframes rs")
    case Nil
    with 6 show ?thesis by (auto simp: s_elseif_def)
  next
    case (Cons f fs)
    define f1 where "f1 = (if else_seen f then f else next_branch (rd_where rs) f)"
    define rs1 where "rs1 = (if else_seen f then previous_parts f (rd_bad (Diag ''\".elseif\" after \".else\"'' []) rs) else set_top f1 rs)"
    have f1: "rd_cframes rs1 = f1 # fs" "dead_tree f \<longrightarrow> dead_tree f1" "dead_tree f1 \<longrightarrow> ignoring f1"
      using 6(2) Cons by (auto simp: f1_def rs1_def next_branch_def set_top_def Let_def)
    have ok1: "cframes_ok (rd_cframes rs1)" using set_top_ok [OF 6(2) Cons f1(2,3)] f1(1) Cons by (simp add: set_top_def)
    have "s_elseif op s rs = (if ignoring f1 then demand_empty_rest_of_line (skip_to_end s) rs1
        else and_then (read_condition ''.elseif'' op s rs1) (\<lambda>(t, s, rs).
          demand_empty_rest_of_line s (set_top (f1\<lparr>ignoring := dead_tree f1 \<or> \<not> t\<rparr>) rs)))"
      by (simp add: s_elseif_def Cons f1_def rs1_def Let_def)
    with 6(1) have "if ignoring f1 then demand_empty_rest_of_line (skip_to_end s) rs1 = Inr (s', rs')
      else \<exists>t s2 rs2. read_condition ''.elseif'' op s rs1 = Inr (t, s2, rs2) \<and>
        demand_empty_rest_of_line s2 (set_top (f1\<lparr>ignoring := dead_tree f1 \<or> \<not> t\<rparr>) rs2) = Inr (s', rs')"
      by (auto simp: and_then_Inr_iff)
    then consider "rd_cframes rs' = rd_cframes rs1"
      | t rs2 where "rd_cframes rs2 = rd_cframes rs1"
          "rd_cframes rs' = rd_cframes (set_top (f1\<lparr>ignoring := dead_tree f1 \<or> \<not> t\<rparr>) rs2)"
      using demand_frames read_condition_frames by (metis (no_types, lifting))
    then show ?thesis
    proof cases
      case 2
      show ?thesis unfolding 2(2) by (rule set_top_ok [of _ f1 fs]) (use 2(1) ok1 f1(1) in simp_all)
    qed (use ok1 in simp)
  qed
next
  case 7
  show ?case
  proof (cases "rd_cframes rs")
    case (Cons f fs)
    let ?g = "f\<lparr>else_file_line := rd_where rs, ignoring := dead_tree f \<or> \<not> ignoring f, else_seen := True\<rparr>"
    have "rd_cframes rs' = rd_cframes (if else_seen f then rs else set_top ?g rs)"
      using 7(1) Cons by (cases "else_seen f") (auto simp: s_else_def dest!: demand_frames)
    moreover have "cframes_ok (rd_cframes (set_top ?g rs))" by (rule set_top_ok [OF 7(2) Cons]) simp_all
    ultimately show ?thesis using 7(2) by simp
  qed (use 7 in \<open>auto simp: s_else_def dest!: demand_frames\<close>)
next
  case 8
  have "rd_cframes rs' = tl (rd_cframes rs)" using 8(1) by (cases "rd_cframes rs") (auto simp: s_endif_def dest!: demand_frames)
  then show ?case using 8(2) by (cases "rd_cframes rs") simp_all
qed

subsection \<open>Nested conditionals\<close>

text \<open>
  A source text as a tree: lines that are not conditionals, and conditionals with their branches;
  and the lines it is written as.
\<close>

datatype block = Done | Plain string block | Cond operatorT string block branches block
and branches = Endif | Elseif operatorT string block branches | Else block

datatype cond_line = L_plain string | L_if operatorT string | L_elseif operatorT string | L_else | L_endif

fun block_lines :: "block \<Rightarrow> cond_line list" and branch_lines :: "branches \<Rightarrow> cond_line list" where
  "block_lines Done = []"
| "block_lines (Plain l p) = L_plain l # block_lines p"
| "block_lines (Cond op s b t p) = L_if op s # block_lines b @ branch_lines t @ block_lines p"
| "branch_lines Endif = [L_endif]"
| "branch_lines (Elseif op s b t) = L_elseif op s # block_lines b @ branch_lines t"
| "branch_lines (Else b) = L_else # block_lines b @ [L_endif]"

text \<open>
  One line after the other, as the reader meets them: a directive gets the rest of its line, and
  any other line is handed to \<open>f\<close> unless it is ignored.
\<close>

definition end_line :: "string \<Rightarrow> string" where
  "end_line s = s @ [CHR 0x0a]"

definition run_directive :: "handler \<Rightarrow> string \<Rightarrow> reader_state \<Rightarrow> reader_state res" where
  "run_directive h s rs = and_then (h (end_line s) rs) (\<lambda>(_, rs). Inr rs)"

fun run_line :: "(string \<Rightarrow> reader_state \<Rightarrow> reader_state res) \<Rightarrow> cond_line \<Rightarrow> reader_state \<Rightarrow> reader_state res" where
  "run_line f (L_plain l) rs = (if ignore_input (c_char l) (tl l) rs then Inr rs else f l rs)"
| "run_line f (L_if op s) rs = run_directive (s_if op) s rs"
| "run_line f (L_elseif op s) rs = run_directive (s_elseif op) s rs"
| "run_line f L_else rs = run_directive s_else '''' rs"
| "run_line f L_endif rs = run_directive s_endif '''' rs"

fun run_lines :: "(string \<Rightarrow> reader_state \<Rightarrow> reader_state res) \<Rightarrow> cond_line list \<Rightarrow> reader_state \<Rightarrow> reader_state res" where
  "run_lines f [] rs = Inr rs"
| "run_lines f (l # ls) rs = and_then (run_line f l rs) (run_lines f ls)"

text \<open>What the tree means: the first branch whose condition holds, in the state it is met in.\<close>

definition test_condition :: "string \<Rightarrow> operatorT \<Rightarrow> string \<Rightarrow> reader_state \<Rightarrow> (bool \<times> reader_state) res" where
  "test_condition directive op s rs =
     and_then (read_condition directive op (end_line s) rs) (\<lambda>(t, s, rs).
     and_then (demand_empty_rest_of_line s rs) (\<lambda>(_, rs). Inr (t, rs)))"

fun run_block :: "(string \<Rightarrow> reader_state \<Rightarrow> reader_state res) \<Rightarrow> block \<Rightarrow> reader_state \<Rightarrow> reader_state res"
and run_branches :: "(string \<Rightarrow> reader_state \<Rightarrow> reader_state res) \<Rightarrow> branches \<Rightarrow> reader_state \<Rightarrow> reader_state res" where
  "run_block f Done rs = Inr rs"
| "run_block f (Plain l p) rs = and_then (f l rs) (run_block f p)"
| "run_block f (Cond op s b t p) rs =
     and_then (test_condition ''.if'' op s rs) (\<lambda>(c, rs).
     and_then (if c then run_block f b rs else run_branches f t rs) (run_block f p))"
| "run_branches f Endif rs = Inr rs"
| "run_branches f (Elseif op s b t) rs =
     and_then (test_condition ''.elseif'' op s rs) (\<lambda>(c, rs). if c then run_block f b rs else run_branches f t rs)"
| "run_branches f (Else b) rs = run_block f b rs"

text \<open>Lines without an end of line in them, and comparisons the directives know.\<close>

definition text_ok :: "string \<Rightarrow> bool" where
  "text_ok s \<longleftrightarrow> list_all (\<lambda>c. \<not> is_end_of_line c) s"

definition comparison :: "operatorT \<Rightarrow> bool" where
  "comparison op \<longleftrightarrow> op \<in> {O_eq, O_ne, O_lt, O_le, O_ge, O_gt}"

definition plain_line :: "string \<Rightarrow> bool" where
  "plain_line l \<longleftrightarrow> (\<forall>rs. ignore_input (c_char l) (tl l) rs = ignoring_now rs)"

fun block_ok :: "block \<Rightarrow> bool" and branches_ok :: "branches \<Rightarrow> bool" where
  "block_ok Done \<longleftrightarrow> True"
| "block_ok (Plain l p) \<longleftrightarrow> plain_line l \<and> block_ok p"
| "block_ok (Cond op s b t p) \<longleftrightarrow> comparison op \<and> text_ok s \<and> block_ok b \<and> branches_ok t \<and> block_ok p"
| "branches_ok Endif \<longleftrightarrow> True"
| "branches_ok (Elseif op s b t) \<longleftrightarrow> text_ok s \<and> block_ok b \<and> branches_ok t"
| "branches_ok (Else b) \<longleftrightarrow> block_ok b"

text \<open>An operation to which the stack of conditionals does not matter.\<close>

definition with_frames :: "conditional_frame list \<Rightarrow> reader_state \<Rightarrow> reader_state" where
  "with_frames fs rs = rs\<lparr>rd_cframes := fs\<rparr>"

definition blind :: "(reader_state \<Rightarrow> reader_state res) \<Rightarrow> bool" where
  "blind g \<longleftrightarrow> (\<forall>fs rs. g (with_frames fs rs) = and_then (g rs) (\<lambda>rs. Inr (with_frames fs rs)))"

lemma with_frames_simps [simp]:
  "rd_cframes (with_frames fs rs) = fs" "with_frames fs (with_frames gs rs) = with_frames fs rs"
  "with_frames (rd_cframes rs) rs = rs" "rd_gs (with_frames fs rs) = rd_gs rs" "rd_atof (with_frames fs rs) = rd_atof rs"
  "rd_where (with_frames fs rs) = rd_where rs" "rd_macro_nest (with_frames fs rs) = rd_macro_nest rs"
  "rd_bad d (with_frames fs rs) = with_frames fs (rd_bad d rs)" "set_top f (with_frames (g # fs) rs) = with_frames (f # fs) rs"
  "ignoring_now (with_frames (f # fs) rs) = ignoring f"
  by (simp_all add: with_frames_def rd_bad_def on_gs_def set_top_def ignoring_now_def)

lemma blindD: "blind g \<Longrightarrow> g (with_frames fs rs) = and_then (g rs) (\<lambda>rs. Inr (with_frames fs rs))"
  by (simp add: blind_def)

text \<open>Results whose state gets another stack.\<close>

lemma s_ignore_blind: "s_ignore s (with_frames fs rs) = and_then (s_ignore s rs) (\<lambda>(x, rs). Inr (x, with_frames fs rs))"
  by (cases "ignore_rest_of_line s") (simp_all add: s_ignore_def)

lemma demand_blind: "demand_empty_rest_of_line s (with_frames fs rs) =
    and_then (demand_empty_rest_of_line s rs) (\<lambda>(x, rs). Inr (x, with_frames fs rs))"
  by (cases "skip_whitespace s") (simp_all add: demand_empty_rest_of_line_def s_ignore_blind Let_def)

lemma read_expression_blind: "read_expression mode s (with_frames fs rs) =
    and_then (read_expression mode s rs) (\<lambda>(e, x, rs). Inr (e, x, with_frames fs rs))"
proof (cases "parse_expression (rd_atof rs) mode s (rd_gs rs)")
  case (Inr a)
  then show ?thesis by (cases a) (simp add: read_expression_def, simp add: with_frames_def)
qed (simp add: read_expression_def)

lemma read_condition_blind: "read_condition d op s (with_frames fs rs) =
    and_then (read_condition d op s rs) (\<lambda>(t, x, rs). Inr (t, x, with_frames fs rs))"
proof (cases "read_expression Expr_evaluate (skip_whitespace s) rs")
  case (Inr a)
  obtain seg e x rs' where a: "a = ((seg, e), x, rs')" by (metis surj_pair)
  show ?thesis by (cases "condition_holds op (X_add_number e)") (simp_all add: read_condition_def read_expression_blind Inr a)
qed (simp add: read_condition_def read_expression_blind)

lemma test_condition_blind: "test_condition d op s (with_frames fs rs) =
    and_then (test_condition d op s rs) (\<lambda>(t, rs). Inr (t, with_frames fs rs))"
proof (cases "read_condition d op (end_line s) rs")
  case (Inr a)
  obtain t x rs' where a: "a = (t, x, rs')" by (metis surj_pair)
  show ?thesis
    by (cases "demand_empty_rest_of_line x rs'") (auto simp: test_condition_def read_condition_blind demand_blind Inr a)
qed (simp add: test_condition_def read_condition_blind)

lemma run_blind:
  assumes f: "\<And>l. blind (f l)"
  shows "blind (run_block f b)" and "blind (run_branches f t)"
proof (induction b and t rule: block.induct branches.induct)
  case (Plain l p)
  then show ?case by (auto simp: blind_def blindD [OF f] and_then_assoc intro!: and_then_cong)
next
  case (Cond op s b t p)
  show ?case unfolding blind_def
  proof (intro allI)
    fix fs rs
    show "run_block f (Cond op s b t p) (with_frames fs rs) =
        and_then (run_block f (Cond op s b t p) rs) (\<lambda>rs. Inr (with_frames fs rs))"
    proof (cases "test_condition ''.if'' op s rs")
      case (Inr a)
      obtain c rs1 where a: "a = (c, rs1)" by (cases a)
      have "(if c then run_block f b (with_frames fs rs1) else run_branches f t (with_frames fs rs1)) =
          and_then (if c then run_block f b rs1 else run_branches f t rs1) (\<lambda>rs. Inr (with_frames fs rs))"
        using Cond(1,2) by (simp add: blindD)
      then show ?thesis
        by (simp add: test_condition_blind Inr a and_then_assoc blindD [OF Cond(3)] cong: and_then_cong)
    qed (simp add: test_condition_blind)
  qed
next
  case (Elseif op s b t)
  show ?case unfolding blind_def
  proof (intro allI)
    fix fs rs
    show "run_branches f (Elseif op s b t) (with_frames fs rs) =
        and_then (run_branches f (Elseif op s b t) rs) (\<lambda>rs. Inr (with_frames fs rs))"
      by (cases "test_condition ''.elseif'' op s rs")
        (auto simp: test_condition_blind blindD [OF Elseif(1)] blindD [OF Elseif(2)])
  qed
qed (auto simp: blind_def)

lemma blind_frames:
  assumes "blind g" and "g rs = Inr rs'"
  shows "rd_cframes rs' = rd_cframes rs"
proof -
  have "g rs = and_then (g rs) (\<lambda>r. Inr (with_frames (rd_cframes rs) r))"
    using blindD [OF assms(1), of "rd_cframes rs" rs] by simp
  then have "rs' = with_frames (rd_cframes rs) rs'" using assms(2) by simp
  then show ?thesis by (metis with_frames_simps(1))
qed

subsection \<open>Branches that are not taken\<close>

lemma run_lines_append: "run_lines f (xs @ ys) rs = and_then (run_lines f xs rs) (run_lines f ys)"
  by (induction xs arbitrary: rs) (auto simp: and_then_assoc intro!: and_then_cong)

lemma skip_text:
  assumes "text_ok s"
  shows "skip_to_end (end_line s) = [CHR 0x0a]" and "skip_to_end (skip_whitespace (end_line s)) = [CHR 0x0a]"
proof -
  have e: "is_end_of_line CHR 0x0a" by (simp add: is_end_of_line_def)
  show "skip_to_end (end_line s) = [CHR 0x0a]" using assms e
    by (simp add: skip_to_end_def end_line_def text_ok_def list_all_iff dropWhile_append2)
  moreover have "skip_to_end (skip_whitespace (end_line s)) = skip_to_end (end_line s)"
    by (cases s) (auto simp: skip_whitespace_def skip_to_end_def end_line_def is_end_of_line_def)
  ultimately show "skip_to_end (skip_whitespace (end_line s)) = [CHR 0x0a]" by simp
qed

lemma demand_newline [simp]: "demand_empty_rest_of_line [CHR 0x0a] rs = Inr ([], rs)"
  by (simp add: demand_empty_rest_of_line_def skip_whitespace_def is_end_of_line_def)

text \<open>One of the branches has been taken, or none may be.\<close>

definition finished :: "conditional_frame \<Rightarrow> bool" where
  "finished g \<longleftrightarrow> \<not> else_seen g \<and> (dead_tree g \<or> \<not> ignoring g)"

lemma if_ignored:
  assumes "ignoring_now rs" and "comparison op" and "text_ok s"
  shows "\<exists>g. run_directive (s_if op) s rs = Inr (with_frames (g # rd_cframes rs) rs) \<and> finished g \<and> ignoring g"
proof -
  have "\<exists>t. condition_holds op 0 = Inr t" using assms(2) by (auto simp: comparison_def condition_holds_def)
  then obtain t where t: "condition_holds op 0 = Inr t" by blast
  have "dead_tree (initialize_cframe rs)" "\<not> else_seen (initialize_cframe rs)"
    using assms(1) by (simp_all add: initialize_cframe_def ignoring_now_def)
  then show ?thesis
    by (intro exI [of _ "(initialize_cframe rs)\<lparr>ignoring := True\<rparr>"])
      (simp add: run_directive_def s_if_def assms(1) t skip_text [OF assms(3)] push_cframe_def with_frames_def finished_def Let_def)
qed

lemma elseif_ignored:
  assumes "rd_cframes rs = g # fs" and "finished g" and "text_ok s"
  shows "\<exists>g'. run_directive (s_elseif op) s rs = Inr (with_frames (g' # fs) rs) \<and> finished g' \<and> ignoring g'"
  using assms(2)
  by (intro exI [of _ "next_branch (rd_where rs) g"])
    (auto simp: run_directive_def s_elseif_def assms(1) skip_text [OF assms(3)] finished_def next_branch_def Let_def set_top_def with_frames_def)

lemma else_ignored:
  assumes "rd_cframes rs = g # fs" and "finished g"
  shows "\<exists>g'. run_directive s_else '''' rs = Inr (with_frames (g' # fs) rs) \<and> ignoring g'"
  using assms(2)
  by (intro exI [of _ "g\<lparr>else_file_line := rd_where rs, ignoring := True, else_seen := True\<rparr>"])
    (auto simp: run_directive_def s_else_def assms(1) end_line_def finished_def set_top_def with_frames_def)

lemma endif_pops: "run_directive s_endif '''' (with_frames (g # fs) rs) = Inr (with_frames fs rs)"
  by (simp add: run_directive_def s_endif_def end_line_def) (simp add: with_frames_def)

lemma ignored:
  "block_ok b \<Longrightarrow> ignoring_now rs \<Longrightarrow> run_lines f (block_lines b) rs = Inr rs"
  "branches_ok t \<Longrightarrow> finished g \<Longrightarrow> run_lines f (branch_lines t) (with_frames (g # fs) rs) = Inr (with_frames fs rs)"
proof (induction b and t arbitrary: rs and g fs rs rule: block.induct branches.induct)
  case (Plain l p)
  then show ?case by (simp add: plain_line_def)
next
  case (Cond op s b t p)
  then have "comparison op" "text_ok s" by simp_all
  from if_ignored [OF Cond.prems(2) this] obtain g where
    "run_directive (s_if op) s rs = Inr (with_frames (g # rd_cframes rs) rs)" "finished g" "ignoring g" by blast
  then show ?case using Cond by (simp add: run_lines_append)
next
  case (Elseif op s b t)
  then obtain g' where "run_directive (s_elseif op) s (with_frames (g # fs) rs) = Inr (with_frames (g' # fs) rs)"
      "finished g'" "ignoring g'"
    using elseif_ignored [of "with_frames (g # fs) rs" g fs s op] by auto
  then show ?case using Elseif by (simp add: run_lines_append)
next
  case (Else b)
  then obtain g' where "run_directive s_else '''' (with_frames (g # fs) rs) = Inr (with_frames (g' # fs) rs)" "ignoring g'"
    using else_ignored [of "with_frames (g # fs) rs" g fs] by auto
  then show ?case using Else by (simp add: run_lines_append endif_pops)
qed (simp_all add: endif_pops)

subsection \<open>Branches that may be taken\<close>

lemma initialize_with: "initialize_cframe (with_frames fs rs) = (initialize_cframe rs)\<lparr>dead_tree := (case fs of [] \<Rightarrow> False | f # _ \<Rightarrow> ignoring f)\<rparr>"
  by (simp add: initialize_cframe_def with_frames_def)

lemma read_condition_where:
  "read_condition d op s rs = Inr (t, x, rs') \<Longrightarrow> rd_where rs' = rd_where rs \<and> rd_macro_nest rs' = rd_macro_nest rs"
  by (auto simp: read_condition_def read_expression_def and_then_Inr_iff rd_bad_def on_gs_def)

lemma if_tested:
  assumes "\<not> ignoring_now rs"
  shows "run_directive (s_if op) s rs = and_then (test_condition ''.if'' op s rs) (\<lambda>(c, rs').
    Inr (with_frames ((initialize_cframe rs)\<lparr>ignoring := \<not> c\<rparr> # rd_cframes rs) rs'))"
proof (cases "read_condition ''.if'' op (end_line s) rs")
  case (Inr a)
  obtain t x rs' where a: "a = (t, x, rs')" by (metis surj_pair)
  note r = Inr [unfolded a]
  have live: "\<not> dead_tree (initialize_cframe rs)" using assms by (simp add: initialize_cframe_def ignoring_now_def)
  have "initialize_cframe rs' = initialize_cframe rs"
    using read_condition_where [OF r] read_condition_frames [OF r] by (simp add: initialize_cframe_def)
  then have "push_cframe (\<not> t) rs' = with_frames ((initialize_cframe rs)\<lparr>ignoring := \<not> t\<rparr> # rd_cframes rs) rs'"
    using live read_condition_frames [OF r] by (simp add: push_cframe_def with_frames_def)
  then show ?thesis
    by (cases "demand_empty_rest_of_line x rs'")
      (auto simp: run_directive_def s_if_def test_condition_def assms r demand_blind)
qed (simp add: run_directive_def s_if_def test_condition_def assms)

text \<open>No branch has been taken so far, and one may be.\<close>

definition waiting :: "conditional_frame \<Rightarrow> bool" where
  "waiting g \<longleftrightarrow> \<not> else_seen g \<and> \<not> dead_tree g \<and> ignoring g"

lemma elseif_tested:
  assumes "waiting g"
  shows "\<exists>h. (\<forall>c. \<not> else_seen (h c) \<and> \<not> dead_tree (h c) \<and> ignoring (h c) = (\<not> c)) \<and>
    run_directive (s_elseif op) s (with_frames (g # fs) rs) = and_then (test_condition ''.elseif'' op s rs) (\<lambda>(c, rs').
      Inr (with_frames (h c # fs) rs'))"
proof (intro exI conjI allI)
  let ?h = "\<lambda>c. (next_branch (rd_where rs) g)\<lparr>ignoring := \<not> c\<rparr>"
  have g: "\<not> else_seen g" "\<not> dead_tree (next_branch (rd_where rs) g)" "\<not> ignoring (next_branch (rd_where rs) g)"
    using assms by (simp_all add: waiting_def next_branch_def Let_def)
  show "\<not> else_seen (?h c)" "\<not> dead_tree (?h c)" "ignoring (?h c) = (\<not> c)" for c
    using assms by (simp_all add: waiting_def next_branch_def Let_def)
  show "run_directive (s_elseif op) s (with_frames (g # fs) rs) = and_then (test_condition ''.elseif'' op s rs) (\<lambda>(c, rs').
      Inr (with_frames (?h c # fs) rs'))"
  proof (cases "read_condition ''.elseif'' op (end_line s) rs")
    case (Inr a)
    obtain t x rs' where a: "a = (t, x, rs')" by (metis surj_pair)
    show ?thesis
      by (cases "demand_empty_rest_of_line x rs'")
        (auto simp: run_directive_def s_elseif_def test_condition_def g Let_def Inr a read_condition_blind demand_blind)
  qed (simp add: run_directive_def s_elseif_def test_condition_def g Let_def read_condition_blind)
qed

lemma else_taken:
  assumes "waiting g"
  shows "\<exists>g'. run_directive s_else '''' (with_frames (g # fs) rs) = Inr (with_frames (g' # fs) rs) \<and> \<not> ignoring g'"
  using assms
  by (intro exI [of _ "g\<lparr>else_file_line := rd_where rs, ignoring := False, else_seen := True\<rparr>"])
    (simp add: run_directive_def s_else_def end_line_def waiting_def)

lemma taken_branch:
  assumes "blind (run_block f b)" and "\<And>rs. \<not> ignoring_now rs \<Longrightarrow> run_lines f (block_lines b) rs = run_block f b rs"
    and "\<not> ignoring g" and "rd_cframes rs = fs"
    and "\<And>rs. run_lines f ls (with_frames (g # fs) rs) = Inr (with_frames fs rs)"
  shows "run_lines f (block_lines b @ ls) (with_frames (g # fs) rs) = run_block f b rs"
proof -
  have "run_lines f (block_lines b) (with_frames (g # fs) rs) = and_then (run_block f b rs) (\<lambda>rs. Inr (with_frames (g # fs) rs))"
    using assms(2) [of "with_frames (g # fs) rs"] assms(3) blindD [OF assms(1)] by simp
  moreover have "with_frames fs rs' = rs'" if "run_block f b rs = Inr rs'" for rs'
    using blind_frames [OF assms(1) that] assms(4) with_frames_simps(3) [of rs'] by simp
  ultimately show ?thesis by (cases "run_block f b rs") (simp_all add: run_lines_append assms(5))
qed

lemma test_frames: "test_condition d op s rs = Inr (c, rs') \<Longrightarrow> rd_cframes rs' = rd_cframes rs"
  by (auto simp: test_condition_def and_then_Inr_iff dest!: read_condition_frames demand_frames)

lemma same_ignoring: "rd_cframes rs' = rd_cframes rs \<Longrightarrow> ignoring_now rs' = ignoring_now rs"
  by (simp add: ignoring_now_def)

lemma selected:
  assumes f: "\<And>l. blind (f l)"
  shows "block_ok b \<Longrightarrow> \<not> ignoring_now rs \<Longrightarrow> run_lines f (block_lines b) rs = run_block f b rs"
    and "branches_ok t \<Longrightarrow> waiting g \<Longrightarrow> rd_cframes rs = fs \<Longrightarrow> \<not> ignoring_now rs \<Longrightarrow>
      run_lines f (branch_lines t) (with_frames (g # fs) rs) = run_branches f t rs"
proof (induction b and t arbitrary: rs and g fs rs rule: block.induct branches.induct)
  case (Plain l p)
  have "\<not> ignoring_now rs'" if "f l rs = Inr rs'" for rs'
    using blind_frames [OF f that] Plain.prems(2) by (simp add: ignoring_now_def)
  then show ?case using Plain by (cases "f l rs") (simp_all add: plain_line_def)
next
  case (Cond op s b t p)
  show ?case
  proof (cases "test_condition ''.if'' op s rs")
    case (Inr a)
    obtain c rs1 where a: "a = (c, rs1)" by (cases a)
    have fr: "rd_cframes rs1 = rd_cframes rs" by (rule test_frames [OF Inr [unfolded a]])
    have live: "\<not> ignoring_now rs1" using same_ignoring [OF fr] Cond.prems(2) by simp
    define g where "g = (initialize_cframe rs)\<lparr>ignoring := \<not> c\<rparr>"
    have g: "\<not> else_seen g" "\<not> dead_tree g" "ignoring g = (\<not> c)"
      using Cond.prems(2) by (simp_all add: g_def initialize_cframe_def ignoring_now_def)
    have dead: "run_lines f (branch_lines t) (with_frames (g # rd_cframes rs1) rs) = Inr (with_frames (rd_cframes rs1) rs)" if c for rs
      using ignored(2) [of t g] Cond.prems(1) g that by (simp add: finished_def)
    have branches: "run_lines f (block_lines b @ branch_lines t) (with_frames (g # rd_cframes rs) rs1) =
        (if c then run_block f b rs1 else run_branches f t rs1)"
    proof (cases c)
      case True
      then show ?thesis
        using taken_branch [OF run_blind(1) [OF f] Cond.IH(1), where g = g and fs = "rd_cframes rs1"] Cond.prems(1) g dead fr by simp
    next
      case False
      then show ?thesis using Cond.IH(2) [of g rs1] ignored(1) [of b "with_frames (g # rd_cframes rs) rs1"] Cond.prems(1) g fr live
        by (simp add: run_lines_append waiting_def)
    qed
    have "run_lines f (block_lines p) rs2 = run_block f p rs2"
      if "(if c then run_block f b rs1 else run_branches f t rs1) = Inr rs2" for rs2
      using Cond.IH(3) [of rs2] Cond.prems(1) that blind_frames [OF run_blind(1) [OF f]] blind_frames [OF run_blind(2) [OF f]]
        same_ignoring [of rs2 rs1] live by (auto split: if_splits)
    then have "and_then (if c then run_block f b rs1 else run_branches f t rs1) (run_lines f (block_lines p)) =
        and_then (if c then run_block f b rs1 else run_branches f t rs1) (run_block f p)" by (intro and_then_cong) auto
    moreover have "run_lines f (block_lines (Cond op s b t p)) rs =
        and_then (run_lines f (block_lines b @ branch_lines t) (with_frames (g # rd_cframes rs) rs1)) (run_lines f (block_lines p))"
      using Cond.prems(2) by (simp add: if_tested Inr a g_def flip: run_lines_append [of f "block_lines b @ branch_lines t"])
    ultimately show ?thesis by (simp add: Inr a branches)
  qed (use Cond.prems(2) in \<open>simp add: if_tested\<close>)
next
  case (Elseif op s b t)
  obtain h where h: "\<And>c. \<not> else_seen (h c)" "\<And>c. \<not> dead_tree (h c)" "\<And>c. ignoring (h c) = (\<not> c)"
    "run_directive (s_elseif op) s (with_frames (g # fs) rs) = and_then (test_condition ''.elseif'' op s rs) (\<lambda>(c, rs').
      Inr (with_frames (h c # fs) rs'))" using elseif_tested [OF Elseif.prems(2)] by metis
  show ?case
  proof (cases "test_condition ''.elseif'' op s rs")
    case (Inr a)
    obtain c rs1 where a: "a = (c, rs1)" by (cases a)
    have fr: "rd_cframes rs1 = fs" using test_frames [OF Inr [unfolded a]] Elseif.prems(3) by simp
    have live: "\<not> ignoring_now rs1" using same_ignoring [of rs1 rs] fr Elseif.prems(3,4) by simp
    show ?thesis
    proof (cases c)
      case True
      have "run_lines f (branch_lines t) (with_frames (h c # fs) rs) = Inr (with_frames fs rs)" for rs
        using ignored(2) [of t "h c"] Elseif.prems(1) h True by (simp add: finished_def)
      then show ?thesis
        using taken_branch [OF run_blind(1) [OF f] Elseif.IH(1), where g = "h c" and fs = fs] Elseif.prems(1) h fr True Inr a by simp
    next
      case False
      then show ?thesis using Elseif.IH(2) [of "h c" rs1 fs] ignored(1) [of b "with_frames (h c # fs) rs1"] Elseif.prems(1) h fr live Inr a
        by (simp add: run_lines_append waiting_def)
    qed
  qed (simp add: h(4))
next
  case (Else b)
  obtain g' where "run_directive s_else '''' (with_frames (g # fs) rs) = Inr (with_frames (g' # fs) rs)" "\<not> ignoring g'"
    using else_taken [OF Else.prems(2)] by blast
  then show ?case
    using taken_branch [OF run_blind(1) [OF f] Else.IH, where g = g' and fs = fs and ls = "[L_endif]"] Else.prems by (simp add: endif_pops)
qed (auto simp: endif_pops)

end
