(* ===== verification/Leb128.thy ===== *)
theory Leb128
  imports GasState
begin

text \<open>
  LEB128 numbers: how \<open>gas/read.c\<close> writes them, for values of the width of \<open>valueT\<close> and for
  bignums, and how \<open>bfd/libbfd.c\<close> reads them. A buffer that is written to is a list of bytes;
  reading behind the end of one, and a shift by 32 or more, is \<open>Abort\<close>.
\<close>

subsection \<open>Values\<close>

definition low7 :: "valueT \<Rightarrow> byte" where
  "low7 value = ucast (value AND 0x7f)"

function sizeof_sleb128 :: "offsetT \<Rightarrow> nat" where
  "sizeof_sleb128 value =
     (let b = low7 value; value = signed_drop_bit 7 value
      in if value = 0 \<and> b AND 0x40 = 0 \<or> value = - 1 \<and> b AND 0x40 \<noteq> 0 then 1 else sizeof_sleb128 value + 1)"
  by pat_completeness auto

function sizeof_uleb128 :: "valueT \<Rightarrow> nat" where
  "sizeof_uleb128 value =
     (let value = drop_bit 7 value in if value \<noteq> 0 then sizeof_uleb128 value + 1 else 1)"
  by pat_completeness auto

function output_sleb128 :: "offsetT \<Rightarrow> byte list" where
  "output_sleb128 value =
     (let b = low7 value; value = signed_drop_bit 7 value;
          more = (\<not> (value = 0 \<and> b AND 0x40 = 0 \<or> value = - 1 \<and> b AND 0x40 \<noteq> 0))
      in (if more then b OR 0x80 else b) # (if more then output_sleb128 value else []))"
  by pat_completeness auto

function output_uleb128 :: "valueT \<Rightarrow> byte list" where
  "output_uleb128 value =
     (let b = low7 value; value = drop_bit 7 value
      in (if value \<noteq> 0 then b OR 0x80 else b) # (if value \<noteq> 0 then output_uleb128 value else []))"
  by pat_completeness auto

lemma signed_shift_shrinks:
  fixes v :: offsetT
  assumes "\<not> (signed_drop_bit 7 v = 0 \<and> low7 v AND 0x40 = 0 \<or> signed_drop_bit 7 v = - 1 \<and> low7 v AND 0x40 \<noteq> 0)"
  shows "nat \<bar>sint (signed_drop_bit 7 v)\<bar> < nat \<bar>sint v\<bar>"
proof -
  have s: "sint (signed_drop_bit 7 v) = sint v div 128" by (simp add: sint_signed_drop_bit_eq drop_bit_eq_div)
  have "v \<noteq> 0" using assms by (auto simp: low7_def)
  moreover have "v = 0" if "sint v = 0" using that by (intro signed_word_eqI) simp
  ultimately have "sint v \<noteq> 0" by blast
  moreover have "sint v \<noteq> - 1"
  proof
    assume v: "sint v = - 1"
    then have "v = - 1" by (intro signed_word_eqI) simp
    moreover have "signed_drop_bit 7 v = - 1" using s v by (intro signed_word_eqI) simp
    ultimately show False using assms by (simp add: low7_def)
  qed
  ultimately show ?thesis using s by (auto simp: abs_if not_less)
qed

lemma shift_shrinks:
  fixes v :: valueT
  assumes "drop_bit 7 v \<noteq> 0"
  shows "unat (drop_bit 7 v) < unat v"
proof -
  have "unat (drop_bit 7 v) = unat v div 128" by (simp add: drop_bit_eq_div unat_div_distrib)
  moreover have "0 < unat v" using assms by (cases "v = 0") (simp_all add: unat_gt_0)
  ultimately show ?thesis by simp
qed

termination sizeof_sleb128
  by (relation "measure (\<lambda>v. nat \<bar>sint v\<bar>)") (simp_all only: in_measure wf_measure not_False_eq_True signed_shift_shrinks)

termination output_sleb128
  by (relation "measure (\<lambda>v. nat \<bar>sint v\<bar>)") (simp_all only: in_measure wf_measure not_not not_False_eq_True signed_shift_shrinks)

termination sizeof_uleb128
  by (relation "measure unat") (simp_all only: in_measure wf_measure not_False_eq_True shift_shrinks)

termination output_uleb128
  by (relation "measure unat") (simp_all only: in_measure wf_measure not_False_eq_True shift_shrinks)

declare sizeof_sleb128.simps [simp del] sizeof_uleb128.simps [simp del]
  output_sleb128.simps [simp del] output_uleb128.simps [simp del]

definition sizeof_leb128 :: "valueT \<Rightarrow> bool \<Rightarrow> nat" where
  "sizeof_leb128 value sign = (if sign then sizeof_sleb128 value else sizeof_uleb128 value)"

definition output_leb128 :: "valueT \<Rightarrow> bool \<Rightarrow> byte list" where
  "output_leb128 value sign = (if sign then output_sleb128 value else output_uleb128 value)"

subsection \<open>Bignums\<close>

text \<open>
  The littlenums that count; \<open>loaded\<close> is the number of bits of \<open>val\<close> still to be written.
\<close>

fun strip_signs :: "16 word list \<Rightarrow> 16 word list" where
  "strip_signs (x # y # ys) = (if x = - 1 \<and> 0x7fff < y then strip_signs (y # ys) else x # y # ys)"
| "strip_signs xs = xs"

function big_sleb_bytes :: "bool \<Rightarrow> nat \<Rightarrow> valueT \<Rightarrow> byte list \<times> byte \<times> nat \<times> valueT" where
  "big_sleb_bytes left loaded val =
     (let b = low7 val; loaded = loaded - 7; val = drop_bit 7 val;
          b = (if left \<or> val \<noteq> (if b AND 0x40 = 0 then 0 else push_bit loaded 1 - 1) then b OR 0x80 else b)
      in if b AND 0x80 \<noteq> 0 \<and> 7 \<le> loaded
         then (let (bs, r) = big_sleb_bytes left loaded val in (b # bs, r))
         else ([b], b, loaded, val))"
  by pat_completeness auto
termination
  by (relation "measure (\<lambda>(left, loaded, val). loaded)") (simp_all only: in_measure wf_measure prod.case, arith)

declare big_sleb_bytes.simps [simp del]

fun big_sleb_loop :: "valueT \<Rightarrow> nat \<Rightarrow> 16 word list \<Rightarrow> byte list res" where
  "big_sleb_loop val loaded [] = Inl Abort"
| "big_sleb_loop val loaded (x # xs) =
     (let (bs, b, loaded, val) = big_sleb_bytes (xs \<noteq> []) (loaded + 16) (val OR push_bit loaded (ucast x))
      in if xs \<noteq> [] then and_then (big_sleb_loop val loaded xs) (\<lambda>r. Inr (bs @ r))
         else if b AND 0x80 \<noteq> 0
         then Inr (bs @ [low7 (if val AND push_bit (loaded - 1) 1 \<noteq> 0 then val OR push_bit loaded (- 1) else val)])
         else Inr bs)"

definition output_big_sleb128 :: "16 word list \<Rightarrow> byte list res" where
  "output_big_sleb128 bignum = big_sleb_loop 0 0 (rev (strip_signs (rev bignum)))"

function big_uleb_loop :: "valueT \<Rightarrow> int \<Rightarrow> 16 word list \<Rightarrow> byte list" where
  "big_uleb_loop val loaded bignum =
     (let (val, loaded, bignum) =
            (if loaded < 7 \<and> bignum \<noteq> []
             then (val OR push_bit (nat loaded) (ucast (hd bignum)), loaded + 16, tl bignum) else (val, loaded, bignum));
          b = low7 val; loaded = loaded - 7; val = drop_bit 7 val; more = (bignum \<noteq> [] \<or> val \<noteq> 0)
      in (if more then b OR 0x80 else b) # (if more then big_uleb_loop val loaded bignum else []))"
  by pat_completeness auto
termination
proof (relation "measures [\<lambda>(val, loaded, bignum). length bignum,
    \<lambda>(val, loaded, bignum). if bignum = [] then unat val else nat loaded]", goal_cases)
  case (2 val loaded bignum p v q l big b l' v' more)
  then show ?case using shift_shrinks [of v] by (auto split: if_splits simp: Suc_le_eq)
qed simp

declare big_uleb_loop.simps [simp del]

definition output_big_uleb128 :: "16 word list \<Rightarrow> byte list" where
  "output_big_uleb128 bignum = big_uleb_loop 0 0 (rev (dropWhile (\<lambda>x. x = 0) (rev bignum)))"

definition output_big_leb128 :: "16 word list \<Rightarrow> bool \<Rightarrow> byte list res" where
  "output_big_leb128 bignum sign =
     (if sign then output_big_sleb128 bignum else Inr (output_big_uleb128 bignum))"

subsection \<open>Reading\<close>

fun read_leb128_loop :: "byte list \<Rightarrow> bfd_vma \<Rightarrow> nat \<Rightarrow> nat \<Rightarrow> (bfd_vma \<times> nat \<times> byte \<times> nat) res" where
  "read_leb128_loop [] result shift num_read = Inl Abort"
| "read_leb128_loop (b # buf) result shift num_read =
     (if 32 \<le> shift then Inl Abort
      else let result = result OR push_bit shift (ucast b AND 0x7f); shift = shift + 7; num_read = num_read + 1
           in if b AND 0x80 \<noteq> 0 then read_leb128_loop buf result shift num_read
              else Inr (result, shift, b, num_read))"

definition bfd_read_unsigned_leb128 :: "byte list \<Rightarrow> (bfd_vma \<times> nat) res" where
  "bfd_read_unsigned_leb128 buf =
     and_then (read_leb128_loop buf 0 0 0) (\<lambda>(result, shift, b, num_read). Inr (result, num_read))"

definition bfd_read_signed_leb128 :: "byte list \<Rightarrow> (bfd_vma \<times> nat) res" where
  "bfd_read_signed_leb128 buf =
     and_then (read_leb128_loop buf 0 0 0) (\<lambda>(result, shift, b, num_read).
       Inr (if shift < 32 \<and> b AND 0x40 \<noteq> 0 then result OR push_bit shift (- 1) else result, num_read))"

text \<open>The bytes between \<open>data\<close> and \<open>end\<close> are the argument.\<close>

fun safe_read_loop :: "byte list \<Rightarrow> bfd_vma \<Rightarrow> nat \<Rightarrow> byte \<Rightarrow> nat \<Rightarrow> (bfd_vma \<times> nat \<times> byte \<times> nat) res" where
  "safe_read_loop [] result shift last_byte num_read = Inr (result, shift, last_byte, num_read)"
| "safe_read_loop (b # data) result shift last_byte num_read =
     (if 32 \<le> shift then Inl Abort
      else let result = result OR push_bit shift (ucast (b AND 0x7f)); shift = shift + 7; num_read = num_read + 1
           in if b AND 0x80 = 0 then Inr (result, shift, b, num_read)
              else safe_read_loop data result shift b num_read)"

definition bfd_safe_read_leb128 :: "byte list \<Rightarrow> bool \<Rightarrow> (bfd_vma \<times> nat) res" where
  "bfd_safe_read_leb128 data sign =
     and_then (safe_read_loop data 0 0 0 0) (\<lambda>(result, shift, b, num_read).
       Inr (if sign \<and> shift < 32 \<and> b AND 0x40 \<noteq> 0 then result OR - push_bit shift 1 else result, num_read))"

end
