(* ===== verification/ReadEmit.thy ===== *)
theory ReadEmit
  imports ReadLine Leb128
begin

text \<open>
  The directives of \<open>gas/read.c\<close> that put data into the section: numbers, LEB128 numbers,
  strings, space and alignment. The debugging of the listing that \<open>emit_expr\<close> and \<open>stringer\<close>
  do for the sections \<open>.line\<close> and \<open>.debug\<close> is left out.
\<close>

subsection \<open>Storage\<close>

definition frag_alloc_check :: "reader_state \<Rightarrow> reader_state" where
  "frag_alloc_check rs =
     (if fc_chunk_size (gs_chain (rd_gs rs)) = 0
      then on_gs (rd_subseg_set rs (rd_text_section rs))
             (rd_bad (Diag ''attempt to allocate data in absolute section'' []) rs)
      else rs)"

definition on_frags :: "(frchain \<Rightarrow> frchain res) \<Rightarrow> reader_state \<Rightarrow> reader_state res" where
  "on_frags f = lift_gs (on_chain f)"

text \<open>\<open>frag_more\<close>, and bytes stored at the start of what it reserved.\<close>

definition store_more :: "nat \<Rightarrow> byte list \<Rightarrow> frchain \<Rightarrow> frchain res" where
  "store_more n bs fc =
     and_then (frag_more n fc) (\<lambda>(p, fc). Inr (write_literal (frag_now fc) p bs fc))"

definition emit_part :: "nat \<Rightarrow> byte list \<Rightarrow> reader_state \<Rightarrow> reader_state res" where
  "emit_part n bs rs = on_frags (store_more n bs) (frag_alloc_check rs)"

abbreviation emit_bytes :: "byte list \<Rightarrow> reader_state \<Rightarrow> reader_state res" where
  "emit_bytes bs \<equiv> emit_part (length bs) bs"

text \<open>The variable part of a fragment: its first bytes are \<open>bs\<close>.\<close>

definition var_bytes :: "relax_state \<Rightarrow> nat \<Rightarrow> u32 \<Rightarrow> u32 \<Rightarrow> nat option \<Rightarrow> u32 \<Rightarrow> byte list \<Rightarrow> reader_state \<Rightarrow>
    reader_state res" where
  "var_bytes type max_chars var subtype symbol offset bs =
     on_frags (\<lambda>fc. and_then (frag_var type max_chars var subtype symbol offset None fc) (\<lambda>((i, p), fc).
       Inr (write_literal i p bs fc)))"

definition add_abs_offset :: "u32 \<Rightarrow> reader_state \<Rightarrow> reader_state" where
  "add_abs_offset n = on_gs (\<lambda>gs. gs\<lparr>gs_chain := (gs_chain gs)\<lparr>fc_abs_offset := fc_abs_offset (gs_chain gs) + n\<rparr>\<rparr>)"

text \<open>The addresses of the target are as wide as its registers.\<close>

definition address_bytes :: "reader_state \<Rightarrow> nat" where
  "address_bytes rs =
     (let n = (unat (tc_xlen (gs_tc (rd_gs rs))) - 1) div 8; n = n OR (n div 2); n = n OR (n div 4) in n + 1)"

subsection \<open>Numbers\<close>

definition convert_to_bignum :: "expressionS \<Rightarrow> bool \<Rightarrow> gas_state \<Rightarrow> expressionS \<times> gas_state" where
  "convert_to_bignum e sign gs =
     (let v = X_add_number e;
          ds = [ucast v, ucast (drop_bit 16 v)] @
               (if (v <s 0) = (\<not> sign) then [if sign then - 1 else 0] else [])
      in (e\<lparr>X_op := O_big, X_add_number := word_of_nat (length ds)\<rparr>,
          gs\<lparr>gs_bignum := ds @ drop (length ds) (gs_bignum gs)\<rparr>))"

text \<open>A missing value, a floating point number and a register become constants.\<close>

definition plain_operand :: "operatorT \<Rightarrow> expressionS \<Rightarrow> reader_state \<Rightarrow> operatorT \<times> expressionS \<times> reader_state" where
  "plain_operand op e rs =
     (if op = O_absent \<or> op = O_illegal
      then (O_constant, e\<lparr>X_add_number := 0\<rparr>, rd_warn (Diag ''zero assumed for missing expression'' []) rs)
      else if op = O_big \<and> X_add_number e \<le>s 0
      then (O_constant, e\<lparr>X_add_number := 0\<rparr>, rd_bad (Diag ''floating point number invalid'' []) rs)
      else if op = O_register then (O_constant, e, rd_warn (Diag ''register value used as expression'' []) rs)
      else (op, e, rs))"

text \<open>The bignum a minus sign was found in front of when the expression was read.\<close>

definition uminus_bignum :: "expressionS \<Rightarrow> gas_state \<Rightarrow> (expressionS option \<times> gas_state) res" where
  "uminus_bignum e gs =
     (if X_op e = O_uminus \<and> X_add_number e = 0
      then (case X_add_symbol e of
              None \<Rightarrow> Inl Abort
            | Some i \<Rightarrow> and_then (converted_symbol i gs) (\<lambda>(i, gs).
                let v = sy_value (gs_symbols gs ! i)
                in Inr (if X_op v = O_big \<and> 0 <s X_add_number v then Some v else None, gs)))
      else Inr (None, gs))"

definition complement_digits :: "nat \<Rightarrow> gas_state \<Rightarrow> gas_state" where
  "complement_digits n gs =
     gs\<lparr>gs_bignum := bignum_increment (map NOT (take n (gs_bignum gs))) @ drop n (gs_bignum gs)\<rparr>"

definition low_mask :: "nat \<Rightarrow> valueT" where
  "low_mask nbytes = (if 4 \<le> nbytes then - 1 else mask (8 * nbytes))"

text \<open>The bits of \<open>get\<close> that are not stored have to be zero, or all one below a sign bit.\<close>

definition value_truncated :: "nat \<Rightarrow> valueT \<Rightarrow> bool" where
  "value_truncated nbytes get \<longleftrightarrow>
     (let m = NOT (low_mask nbytes)
      in get AND m \<noteq> 0 \<and> (get AND m \<noteq> m \<or> \<not> (nbytes \<noteq> 0 \<and> nbytes \<le> 4 \<and> bit get (8 * nbytes - 1))))"

definition emit_constant :: "valueT \<Rightarrow> nat \<Rightarrow> reader_state \<Rightarrow> reader_state res" where
  "emit_constant get nbytes rs =
     (let keep = get AND low_mask nbytes
      in and_then (emit_bytes (le_bytes keep nbytes) rs) (\<lambda>rs.
         Inr (if value_truncated nbytes get
              then rd_warn (Diag ''value 0x%lx truncated to 0x%lx'' [Num get, Num keep]) rs else rs)))"

text \<open>A bignum of \<open>n\<close> digits loses some if the digits behind the bytes stored do not repeat the sign.\<close>

definition bignum_truncated :: "nat \<Rightarrow> nat \<Rightarrow> 16 word list \<Rightarrow> bool" where
  "bignum_truncated nbytes n big =
     (let i = nbytes div 2
      in if i \<noteq> 0
         then (let sign = (if bit (big ! (i - 1)) 15 then - 1 else 0) in list_ex (\<lambda>x. x \<noteq> sign) (drop i (take n big)))
         else if nbytes = 1
         then (let x = big ! 0; sign = (if bit x 7 then - 1 else 0)
               in x AND 0xff00 \<noteq> sign AND 0xff00 \<or> list_ex (\<lambda>x. x \<noteq> sign) (drop 1 (take n big)))
         else 0 < n)"

text \<open>The words of the bignum, then the words that extend it; the last byte of an odd number is left as it is.\<close>

definition bignum_bytes :: "nat \<Rightarrow> nat \<Rightarrow> valueT \<Rightarrow> 16 word list \<Rightarrow> byte list" where
  "bignum_bytes nbytes n extra_digit big =
     (if nbytes = 1 then le_bytes (ucast (big ! 0) :: valueT) 1
      else
        let stored = min n (nbytes div 2)
        in concat (map (\<lambda>x. le_bytes (ucast x :: valueT) 2) (take stored big)) @
           concat (replicate (nbytes div 2 - stored) (le_bytes extra_digit 2)))"

definition emit_bignum :: "nat \<Rightarrow> nat \<Rightarrow> valueT \<Rightarrow> reader_state \<Rightarrow> reader_state res" where
  "emit_bignum n nbytes extra_digit rs =
     (let big = gs_bignum (rd_gs rs);
          bs = bignum_bytes nbytes n extra_digit big
      in and_then (emit_part nbytes bs rs) (\<lambda>rs.
         Inr (if nbytes < 2 * n \<and> bignum_truncated nbytes n big
              then rd_warn (Diag (if nbytes = 1 then ''bignum truncated to %d byte'' else ''bignum truncated to %d bytes'')
                     [Num (word_of_nat nbytes)]) rs
              else rs)))"

abbreviation (input) BFD_RELOC_24 :: bfd_reloc where "BFD_RELOC_24 \<equiv> BFD_RELOC_OTHER 4"

definition size_reloc :: "nat \<Rightarrow> bfd_reloc option" where
  "size_reloc nbytes =
     (if nbytes = 1 then Some BFD_RELOC_8 else if nbytes = 2 then Some BFD_RELOC_16
      else if nbytes = 3 then Some BFD_RELOC_24 else if nbytes = 4 then Some BFD_RELOC_32
      else if nbytes = 8 then Some BFD_RELOC_64 else None)"

definition emit_expr_fix :: "expressionS \<Rightarrow> nat \<Rightarrow> reader_state \<Rightarrow> reader_state res" where
  "emit_expr_fix e nbytes rs =
     and_then (frag_more nbytes (gs_chain (rd_gs rs))) (\<lambda>(p, fc).
     let rs = rs\<lparr>rd_gs := (rd_gs rs)\<lparr>gs_chain := write_literal (frag_now fc) p (replicate nbytes 0) fc\<rparr>\<rparr>
     in case size_reloc nbytes of
          None \<Rightarrow> Inr (rd_bad (Diag ''unsupported BFD relocation size %u'' [Num (word_of_nat nbytes)]) rs)
        | Some r \<Rightarrow> lift_gs (\<lambda>gs. and_then (fix_new_exp (Some (frag_now fc)) p nbytes e False r gs) (\<lambda>(_, gs). Inr gs)) rs)"

definition not_zero :: "operatorT \<Rightarrow> expressionS \<Rightarrow> bool" where
  "not_zero op e \<longleftrightarrow> op \<noteq> O_constant \<or> X_add_number e \<noteq> 0"

definition no_value_in_bss :: "operatorT \<Rightarrow> expressionS \<Rightarrow> reader_state \<Rightarrow> reader_state" where
  "no_value_in_bss op e rs =
     (if not_zero op e \<and> in_bss rs
      then rd_bad (Diag (''attempt to store non-zero value in section `%s'' @ [CHR 0x27]) [Str (now_segment_name rs)]) rs
      else rs)"

definition no_value_in_absolute :: "operatorT \<Rightarrow> expressionS \<Rightarrow> reader_state \<Rightarrow> reader_state" where
  "no_value_in_absolute op e rs =
     (if not_zero op e then rd_bad (Diag ''attempt to store value in absolute section'' []) rs else rs)"

text \<open>
  The value proper, once the room for it is there. A constant that becomes a bignum stays one in
  the expression of the caller.
\<close>

definition emit_value :: "operatorT \<Rightarrow> expressionS \<Rightarrow> nat \<Rightarrow> valueT \<Rightarrow> reader_state \<Rightarrow>
    (expressionS \<times> reader_state) res" where
  "emit_value op e nbytes extra_digit rs =
     (if op = O_constant \<and> 4 < nbytes
      then (let (b, gs) = convert_to_bignum e (\<not> X_unsigned e) (rd_gs rs)
            in and_then (emit_bignum (unat (X_add_number b)) nbytes (if X_unsigned e then 0 else - 1) (rs\<lparr>rd_gs := gs\<rparr>))
                 (\<lambda>rs. Inr (b, rs)))
      else and_then (if op = O_constant then emit_constant (X_add_number e) nbytes rs
                     else if op = O_big then emit_bignum (unat (X_add_number e)) nbytes extra_digit rs
                     else emit_expr_fix e nbytes (frag_alloc_check rs))
             (\<lambda>rs. Inr (e, rs)))"

definition save_data_dot :: "gas_state \<Rightarrow> gas_state" where
  "save_data_dot gs = gs\<lparr>gs_dot := (frag_now (gs_chain gs), frag_now_fix (gs_chain gs))\<rparr>"

text \<open>The result begins with what the caller's expression is afterwards.\<close>

definition emit_operand :: "expressionS \<Rightarrow> nat \<Rightarrow> valueT \<Rightarrow> operatorT \<Rightarrow> reader_state \<Rightarrow> (expressionS \<times> reader_state) res" where
  "emit_operand e nbytes extra_digit op rs =
     (let (op, e, rs) = plain_operand op e rs
      in if absolute_now rs
         then Inr (e, add_abs_offset (word_of_nat nbytes) (no_value_in_absolute op e rs))
         else emit_value op e nbytes extra_digit (no_value_in_bss op e rs))"

definition emit_checked :: "expressionS \<Rightarrow> nat \<Rightarrow> reader_state \<Rightarrow> (expressionS \<times> reader_state) res" where
  "emit_checked e nbytes rs =
     and_then (uminus_bignum e (rd_gs rs)) (\<lambda>(neg, gs).
     let rs = rs\<lparr>rd_gs := gs\<rparr>
     in case neg of
          None \<Rightarrow> emit_operand e nbytes 0 (X_op e) rs
        | Some v \<Rightarrow>
            and_then (emit_operand v nbytes (- 1) O_big (on_gs (complement_digits (unat (X_add_number v))) rs)) (\<lambda>(_, rs).
            Inr (e, rs)))"

definition emit_expr_with_reloc :: "expressionS \<Rightarrow> nat \<Rightarrow> reader_state \<Rightarrow> (expressionS \<times> reader_state) res" where
  "emit_expr_with_reloc e nbytes rs =
     and_then (on_frags (frag_grow nbytes) rs) (\<lambda>rs.
     let (handled, e, n, gs) = rd_check_eh_frame rs e (word_of_nat nbytes) (save_data_dot (rd_gs rs));
         rs = rs\<lparr>rd_gs := gs\<rparr>
     in if handled then Inr (e, rs) else emit_checked e (unat n) rs)"

definition emit_expr :: "expressionS \<Rightarrow> nat \<Rightarrow> reader_state \<Rightarrow> reader_state res" where
  "emit_expr e nbytes rs = and_then (emit_expr_with_reloc e nbytes rs) (\<lambda>(_, rs). Inr rs)"

text \<open>
  The values of \<open>.byte\<close> and the like, separated by commas: \<open>nbytes = 0\<close> stands for an address.
  The recursion takes fuel for the commas of the line.
\<close>

fun cons_loop :: "nat \<Rightarrow> nat \<Rightarrow> bool \<Rightarrow> handler" where
  "cons_loop 0 nbytes rva s rs = Inl Out_of_fuel"
| "cons_loop (Suc n) nbytes rva s rs =
     and_then (read_expression Expr_normal s rs) (\<lambda>((_, e), s, rs).
     and_then (if \<not> rva then Inr e else if X_op e = O_symbol then Inr (e\<lparr>X_op := O_symbol_rva\<rparr>)
               else Inl (As_fatal (Diag ''rva without symbol'' []))) (\<lambda>e.
     and_then (emit_expr e nbytes rs) (\<lambda>rs.
     if c_char s = CHR '','' then cons_loop n nbytes rva (tl s) rs else Inr (s, rs))))"

definition cons_worker :: "nat \<Rightarrow> bool \<Rightarrow> handler" where
  "cons_worker nbytes rva s rs =
     (if is_it_end_of_statement s then demand_empty_rest_of_line (skip_whitespace s) rs
      else and_then (cons_loop (length s + 1) (if nbytes = 0 then address_bytes rs else nbytes) rva (skip_whitespace s) rs)
             (\<lambda>(s, rs). demand_empty_rest_of_line s rs))"

definition cons :: "nat \<Rightarrow> handler" where
  "cons nbytes = cons_worker nbytes False"

definition s_rva :: "nat \<Rightarrow> handler" where
  "s_rva nbytes = cons_worker nbytes True"

subsection \<open>LEB128 numbers\<close>

definition emit_big_leb128 :: "expressionS \<Rightarrow> bool \<Rightarrow> reader_state \<Rightarrow> reader_state res" where
  "emit_big_leb128 e sign rs =
     (let n = unat (X_add_number e); big = gs_bignum (rd_gs rs);
          extend = (X_unsigned e \<and> n < SIZE_OF_LARGE_NUMBER \<and> big ! (n - 1) = - 1);
          big = (if extend then big[n := 0] else big); n = (if extend then n + 1 else n);
          rs = on_gs (\<lambda>gs. gs\<lparr>gs_bignum := big\<rparr>) rs
      in and_then (output_big_leb128 (take n big) sign) (\<lambda>bs. emit_bytes bs rs))"

text \<open>The value of a signed number whose sign is not the one of its bits is a bignum.\<close>

definition emit_leb128_expr :: "expressionS \<Rightarrow> bool \<Rightarrow> reader_state \<Rightarrow> reader_state res" where
  "emit_leb128_expr e sign rs =
     (let (op, e, rs) = (if X_op e = O_constant \<and> sign \<and> (X_add_number e <s 0) = (\<not> X_extrabit e)
                         then (let (e, gs) = convert_to_bignum e (X_extrabit e) (rd_gs rs) in (O_big, e, rs\<lparr>rd_gs := gs\<rparr>))
                         else plain_operand (X_op e) e rs)
      in if absolute_now rs then Inr (add_abs_offset 1 (no_value_in_absolute op e rs))
         else
           let rs = no_value_in_bss op e rs; (handled, e, _, gs) = rd_check_eh_frame rs e (- 1) (rd_gs rs);
               rs = rs\<lparr>rd_gs := gs\<rparr>
           in if handled then Inl Abort
              else if op = O_constant
              then (let bs = output_leb128 (X_add_number e) sign
                    in if sizeof_leb128 (X_add_number e) sign < length bs then Inl Abort else emit_bytes bs rs)
              else if op = O_big then emit_big_leb128 e sign rs
              else
                let (i, gs) = make_expr_symbol e (rd_gs rs)
                in var_bytes Rs_leb128 (sizeof_uleb128 (- 1)) 0 (of_bool sign) i 0 [] (rs\<lparr>rd_gs := gs\<rparr>))"

fun leb128_loop :: "nat \<Rightarrow> bool \<Rightarrow> handler" where
  "leb128_loop 0 sign s rs = Inl Out_of_fuel"
| "leb128_loop (Suc n) sign s rs =
     and_then (read_expression Expr_defer s rs) (\<lambda>((_, e), s, rs).
     and_then (emit_leb128_expr e sign rs) (\<lambda>rs.
     if c_char s = CHR '','' then leb128_loop n sign (tl s) rs else Inr (s, rs)))"

definition s_leb128 :: "bool \<Rightarrow> handler" where
  "s_leb128 sign s rs =
     and_then (leb128_loop (length s + 1) sign s rs) (\<lambda>(s, rs). demand_empty_rest_of_line s rs)"

subsection \<open>Strings\<close>

fun append_chars :: "byte list \<Rightarrow> reader_state \<Rightarrow> reader_state res" where
  "append_chars [] rs = Inr rs"
| "append_chars (b # bs) rs = and_then (on_frags (frag_append_1_char b) (frag_alloc_check rs)) (append_chars bs)"

definition stringer_append_char :: "u32 \<Rightarrow> nat \<Rightarrow> reader_state \<Rightarrow> reader_state res" where
  "stringer_append_char c bitsize rs =
     (let rs = (if c \<noteq> 0 \<and> in_bss rs
                then rd_bad (Diag (''attempt to store non-empty string in section `%s'' @ [CHR 0x27]) [Str (now_segment_name rs)]) rs
                else rs)
      in and_then (append_chars [ucast c] rs) (\<lambda>rs.
         if bitsize \<in> {8, 16, 32, 64} then append_chars (replicate (bitsize div 8 - 1) 0) rs else Inl Abort))"

function append_string :: "nat \<Rightarrow> handler" where
  "append_string bitsize s rs =
     (case next_char_of_string s rs of
        (None, s, rs) \<Rightarrow> Inr (s, rs)
      | (Some b, s, rs) \<Rightarrow>
          (case stringer_append_char (ucast b) bitsize rs of
             Inl e \<Rightarrow> Inl e
           | Inr rs \<Rightarrow> append_string bitsize s rs))"
  by pat_completeness auto
termination
  by (relation "measure (\<lambda>(bitsize, s, rs). length s)") (auto dest: next_char_Some [OF HOL.sym])

declare append_string.simps [simp del]

text \<open>One of the parts of a string directive: a string, a number in angle brackets or a comma.\<close>

definition stringer_part :: "nat \<Rightarrow> bool \<Rightarrow> handler" where
  "stringer_part bitsize append_zero s rs =
     (let c = c_char s
      in if c = CHR 0x22
         then and_then (append_string bitsize (tl s) rs) (\<lambda>(s, rs).
              and_then (if append_zero then stringer_append_char 0 bitsize rs else Inr rs) (\<lambda>rs. Inr (s, rs)))
         else if c = CHR ''<''
         then and_then (get_single_number (rd_atof rs) (tl s) (rd_gs rs)) (\<lambda>(n, s, gs).
              and_then (stringer_append_char n bitsize (rs\<lparr>rd_gs := gs\<rparr>)) (\<lambda>rs.
              case s of
                [] \<Rightarrow> Inl Abort
              | d # s \<Rightarrow> Inr (s, if d \<noteq> CHR ''>'' then rd_bad (Diag ''expected <nn>'' []) rs else rs)))
         else if c = CHR '','' then Inr (tl s, rs)
         else Inr (s, rs))"

fun stringer_loop :: "nat \<Rightarrow> nat \<Rightarrow> bool \<Rightarrow> handler" where
  "stringer_loop 0 bitsize append_zero s rs = Inl Out_of_fuel"
| "stringer_loop (Suc n) bitsize append_zero s rs =
     and_then (stringer_part bitsize append_zero (skip_whitespace s) rs) (\<lambda>(s, rs).
     let s = skip_whitespace s
     in if c_char s = CHR '','' \<or> c_char s = CHR ''<'' \<or> c_char s = CHR 0x22
        then stringer_loop n bitsize append_zero s rs else Inr (s, rs))"

text \<open>
  With nothing to read, the pointer goes behind the end of the line before the rest of the line
  has to be empty, so it is the next line that has to be.
\<close>

definition stringer :: "nat \<Rightarrow> handler" where
  "stringer bits_appendzero s rs =
     (if absolute_now rs then s_ignore s (rd_bad (Diag ''strings must be placed into a section'' []) rs)
      else if is_it_end_of_statement s
      then (case skip_whitespace s of [] \<Rightarrow> Inl Abort | _ # s \<Rightarrow> demand_empty_rest_of_line s rs)
      else and_then (stringer_loop (length s + 1) (8 * (bits_appendzero div 8)) (odd bits_appendzero) (skip_whitespace s) rs)
             (\<lambda>(s, rs). demand_empty_rest_of_line s rs))"

end
