(* ===== verification/ReadSpace.thy ===== *)
theory ReadSpace
  imports ReadEmit TcIp LabelDefs
begin

text \<open>
  The directives of \<open>gas/read.c\<close> for alignment, space, the location counter, symbols and
  messages, and the ones \<open>tc-riscv.c\<close> adds. The location counter in the absolute section is
  \<open>fc_abs_offset\<close>. There are no MRI common sections.
\<close>

subsection \<open>Alignment\<close>

text \<open>A fill pattern where nothing can be filled: only zeros pass without a warning.\<close>

definition ignored_fill :: "byte list \<Rightarrow> reader_state \<Rightarrow> reader_state" where
  "ignored_fill fill rs =
     (if list_all (\<lambda>b. b = 0) fill then rs
      else rd_warn (if absolute_now rs then Diag ''ignoring fill value in absolute section'' []
                    else Diag (''ignoring fill value in section `%s'' @ [CHR 0x27]) [Str (now_segment_name rs)]) rs)"

definition align_frag :: "nat \<Rightarrow> byte list option \<Rightarrow> u32 \<Rightarrow> reader_state \<Rightarrow> reader_state res" where
  "align_frag n fill max_skip rs =
     (if n = 0 then Inr rs
      else on_frags (case fill of
             None \<Rightarrow> if subseg_text_p rs then frag_align_code n max_skip else frag_align n 0 max_skip
           | Some bs \<Rightarrow> if length bs \<le> 1 then frag_align n (ucast (hd bs)) max_skip
                        else frag_align_pattern n bs max_skip) rs)"

text \<open>In a section of code without a fill pattern, \<open>md_do_align\<close> may do all there is to do.\<close>

definition do_align :: "nat \<Rightarrow> byte list option \<Rightarrow> u32 \<Rightarrow> reader_state \<Rightarrow> reader_state res" where
  "do_align n fill max_skip rs =
     (let none = (absolute_now rs \<or> in_bss rs);
          rs = (case fill of Some bs \<Rightarrow> if none then ignored_fill bs rs else rs | None \<Rightarrow> rs);
          fill = (if none then None else fill)
      in and_then (if n \<noteq> 0 \<and> fill = None \<and> subseg_text_p rs
                   then and_then (riscv_frag_align_code n (rd_gs rs)) (\<lambda>(aligned, gs). Inr (aligned, rs\<lparr>rd_gs := gs\<rparr>))
                   else Inr (False, rs)) (\<lambda>(aligned, rs).
         and_then (if aligned then Inr rs else align_frag n fill max_skip rs) (\<lambda>rs.
         Inr (if n \<noteq> 0 then record_alignment n rs else rs))))"

function even_shifts :: "u32 \<Rightarrow> nat \<Rightarrow> u32 \<times> nat" where
  "even_shifts align i = (if align \<noteq> 0 \<and> align AND 1 = 0 then even_shifts (drop_bit 1 align) (i + 1) else (align, i))"
  by pat_completeness auto
termination
proof (relation "measure (\<lambda>(align, i). unat align)")
  show "((drop_bit 1 align, i + 1), align, i) \<in> measure (\<lambda>(align, i). unat align)" if "align \<noteq> 0 \<and> align AND 1 = 0"
    for align :: u32 and i
  proof -
    have "unat (drop_bit 1 align) = unat align div 2" by (simp add: drop_bit_eq_div unat_div_distrib)
    moreover have "0 < unat align" using that by (simp add: unat_gt_0)
    ultimately show ?thesis by simp
  qed
qed simp

declare even_shifts.simps [simp del]

definition power_of_two :: "u32 \<Rightarrow> reader_state \<Rightarrow> u32 \<times> reader_state" where
  "power_of_two align rs =
     (if align = 0 then (align, rs)
      else let (rest, i) = even_shifts align 0
           in (word_of_nat i, if rest \<noteq> 1 then rd_bad (Diag ''alignment not a power of 2'' []) rs else rs))"

definition limit_align :: "u32 \<Rightarrow> reader_state \<Rightarrow> u32 \<times> reader_state" where
  "limit_align align rs =
     (let align_limit = tc_xlen (gs_tc (rd_gs rs)) - 1
      in if align_limit < align
         then (align_limit, rd_warn (Diag ''alignment too large: %u assumed'' [Num align_limit]) rs) else (align, rs))"

text \<open>The fill value and the most characters to skip, each behind a comma.\<close>

definition align_operands :: "string \<Rightarrow> reader_state \<Rightarrow> (offsetT option \<times> u32) rd" where
  "align_operands s rs =
     (if c_char s \<noteq> CHR '','' then Inr ((None, 0), s, rs)
      else
        let s = tl s
        in and_then (if c_char s = CHR '','' then Inr (None, s, rs)
                     else and_then (get_absolute_expression s rs) (\<lambda>(fill, s, rs). Inr (Some fill, skip_whitespace s, rs)))
             (\<lambda>(fill, s, rs).
           if c_char s \<noteq> CHR '','' then Inr ((fill, 0), s, rs)
           else and_then (get_absolute_expression (tl s) rs) (\<lambda>(max_skip, s, rs). Inr ((fill, max_skip), s, rs))))"

definition fill_pattern :: "int \<Rightarrow> offsetT \<Rightarrow> reader_state \<Rightarrow> byte list \<times> reader_state" where
  "fill_pattern arg fill rs =
     (let fill_len = (if 0 \<le> arg then 1 else nat (- arg))
      in if fill_len \<le> 1 then ([ucast fill], rs)
         else if 16 < fill_len
         then (le_bytes fill 16, rd_warn (Diag ''fill pattern too long, truncating to %u'' [Num 16]) rs)
         else (le_bytes fill fill_len, rs))"

definition s_align :: "int \<Rightarrow> bool \<Rightarrow> handler" where
  "s_align arg bytes_p s rs =
     and_then (if is_end_of_line (c_char s) then Inr (if arg < 0 then 0 else word_of_int arg, s, rs)
               else and_then (get_absolute_expression s rs) (\<lambda>(align, s, rs). Inr (align, skip_whitespace s, rs)))
       (\<lambda>(align, s, rs).
     let (align, rs) = (if bytes_p then power_of_two align rs else (align, rs));
         (align, rs) = limit_align align rs
     in and_then (align_operands s rs) (\<lambda>((fill, max_skip), s, rs).
        let (fill, rs) = (case fill of
              None \<Rightarrow> (None, if arg < 0 then rd_warn (Diag ''expected fill pattern missing'' []) rs else rs)
            | Some v \<Rightarrow> (let (bs, rs) = fill_pattern arg v rs in (Some bs, rs)))
        in and_then (do_align (unat align) fill max_skip rs) (\<lambda>rs. demand_empty_rest_of_line s rs)))"

definition s_align_bytes :: "int \<Rightarrow> handler" where
  "s_align_bytes arg = s_align arg True"

definition s_align_ptwo :: "int \<Rightarrow> handler" where
  "s_align_ptwo arg = s_align arg False"

subsection \<open>Space\<close>

text \<open>An operand of its own behind a comma, if there is one.\<close>

definition optional_absolute :: "offsetT \<Rightarrow> string \<Rightarrow> reader_state \<Rightarrow> (bool \<times> offsetT) rd" where
  "optional_absolute dflt s rs =
     (if c_char s = CHR '',''
      then and_then (get_absolute_expression (tl s) rs) (\<lambda>(v, s, rs). Inr ((True, v), s, rs))
      else Inr ((False, dflt), s, rs))"

definition fill_size :: "expressionS \<Rightarrow> offsetT \<Rightarrow> reader_state \<Rightarrow> offsetT \<times> reader_state" where
  "fill_size rep_exp sz rs =
     (let (sz, rs) = (if 8 <s sz then (8, rd_warn (Diag ''.fill size clamped to %d'' [Num 8]) rs) else (sz, rs))
      in if sz <s 0 then (0, rd_warn (Diag ''size negative; .fill ignored'' []) rs)
         else if X_op rep_exp = O_constant \<and> X_add_number rep_exp \<le>s 0
         then (0, if X_add_number rep_exp <s 0 then rd_warn (Diag ''repeat < 0; .fill ignored'' []) rs else rs)
         else (sz, rs))"

text \<open>In the absolute section the counter advances, and the fragment is made nevertheless.\<close>

definition fill_checked :: "expressionS \<Rightarrow> offsetT \<Rightarrow> offsetT \<Rightarrow> reader_state \<Rightarrow> reader_state" where
  "fill_checked rep_exp sz fill rs =
     (if absolute_now rs
      then add_abs_offset (X_add_number rep_exp * sz)
             (if X_op rep_exp \<noteq> O_constant then rd_bad (Diag ''non-constant fill count for absolute section'' []) rs
              else if fill \<noteq> 0 \<and> X_add_number rep_exp \<noteq> 0
              then rd_bad (Diag ''attempt to fill absolute section with non-zero value'' []) rs else rs)
      else if fill \<noteq> 0 \<and> (X_op rep_exp \<noteq> O_constant \<or> X_add_number rep_exp \<noteq> 0) \<and> in_bss rs
      then rd_bad (Diag (''attempt to fill section `%s'' @ CHR 0x27 # '' with non-zero value'') [Str (now_segment_name rs)]) rs
      else rs)"

definition fill_bytes :: "nat \<Rightarrow> offsetT \<Rightarrow> byte list" where
  "fill_bytes sz fill = le_bytes fill (min sz 4) @ replicate (sz - 4) 0"

definition repeated_symbol :: "expressionS \<Rightarrow> offsetT \<Rightarrow> gas_state \<Rightarrow> nat option \<times> gas_state" where
  "repeated_symbol rep_exp sz gs =
     (let (rep_sym, gs) = make_expr_symbol rep_exp gs
      in if sz = 1 then (rep_sym, gs)
         else let (size_sym, gs) = make_expr_symbol (constant_value sz) gs
              in make_expr_symbol (rep_exp\<lparr>X_op := O_multiply, X_add_symbol := rep_sym, X_op_symbol := size_sym,
                   X_add_number := 0\<rparr>) gs)"

definition s_fill :: handler where
  "s_fill s rs =
     and_then (read_expression Expr_normal s rs) (\<lambda>((_, rep_exp), s, rs).
     and_then (optional_absolute 1 s rs) (\<lambda>((more_operands, sz), s, rs).
     and_then (if more_operands then optional_absolute 0 s rs else Inr ((False, 0), s, rs)) (\<lambda>((_, fill), s, rs).
     let (sz, rs) = fill_size rep_exp sz rs; n = unat sz
     in and_then (if sz = 0 then Inr rs
                  else
                    let rs = fill_checked rep_exp sz fill rs
                    in if X_op rep_exp = O_constant
                       then var_bytes Rs_fill n sz 0 None (X_add_number rep_exp) (fill_bytes n fill) rs
                       else let (i, gs) = repeated_symbol rep_exp sz (rd_gs rs)
                            in var_bytes Rs_space n sz 0 i 0 (fill_bytes n fill) (rs\<lparr>rd_gs := gs\<rparr>)) (\<lambda>rs.
        demand_empty_rest_of_line s rs))))"

fun emit_times :: "nat \<Rightarrow> expressionS \<Rightarrow> nat \<Rightarrow> reader_state \<Rightarrow> reader_state res" where
  "emit_times 0 e nbytes rs = Inr rs"
| "emit_times (Suc n) e nbytes rs = and_then (emit_expr_with_reloc e nbytes rs) (\<lambda>(e, rs). emit_times n e nbytes rs)"

definition resolved_operand :: "expressionS \<Rightarrow> gas_state \<Rightarrow> expressionS res" where
  "resolved_operand e gs =
     and_then (resolve_expression (symbol_fuel gs) e gs) (\<lambda>r. Inr (case r of None \<Rightarrow> e | Some e \<Rightarrow> e))"

text \<open>Space with a fill value that a byte does not hold: the value, as often as it says.\<close>

definition space_values :: "nat \<Rightarrow> expressionS \<Rightarrow> expressionS \<Rightarrow> reader_state \<Rightarrow> reader_state res" where
  "space_values mult e val rs =
     and_then (resolved_operand e (rd_gs rs)) (\<lambda>e.
     if X_op e \<noteq> O_constant then Inr (rd_bad (Diag ''unsupported variable size or fill value'' []) rs)
     else if X_add_number e <s 0 \<or> 1024 <s X_add_number e
     then Inr (rd_bad (Diag ''size value for space directive too large: %lx'' [Num (X_add_number e)]) rs)
     else emit_times (unat (X_add_number e)) val (if mult = 0 then 1 else mult) rs)"

text \<open>The fragment for the space, where one is made: its fill byte is stored unless the section has no data.\<close>

definition space_frag :: "relax_state \<Rightarrow> nat option \<Rightarrow> offsetT \<Rightarrow> expressionS \<Rightarrow> reader_state \<Rightarrow> reader_state res" where
  "space_frag type symbol offset val rs =
     (let ignored = ((X_op val \<noteq> O_constant \<or> X_add_number val \<noteq> 0) \<and> in_bss rs)
      in and_then (var_bytes type 1 1 0 symbol offset (if ignored then [] else [ucast (X_add_number val)]) rs) (\<lambda>rs.
         Inr (if ignored
              then rd_warn (Diag (''ignoring fill value in section `%s'' @ [CHR 0x27]) [Str (now_segment_name rs)]) rs else rs)))"

definition space_bytes :: "nat \<Rightarrow> expressionS \<Rightarrow> expressionS \<Rightarrow> reader_state \<Rightarrow> reader_state res" where
  "space_bytes mult e val rs =
     and_then (if absolute_now rs then resolved_operand e (rd_gs rs) else Inr e) (\<lambda>e.
     if X_op e = O_constant
     then (let repeat = (if mult = 0 then X_add_number e else X_add_number e * word_of_nat mult)
           in if repeat \<le>s 0 then Inr (rd_warn (Diag ''.space repeat count is zero, ignored'' []) rs)
              else if absolute_now rs
              then Inr (add_abs_offset repeat (if X_op val \<noteq> O_constant \<or> X_add_number val \<noteq> 0
                     then rd_warn (Diag ''ignoring fill value in absolute section'' []) rs else rs))
              else space_frag Rs_fill None repeat val rs)
     else
       let rs = (if absolute_now rs
                 then on_gs (rd_subseg_set rs (rd_text_section rs))
                        (rd_bad (Diag ''space allocation too complex in absolute section'' []) rs)
                 else rs);
           (i, gs) = make_expr_symbol e (rd_gs rs)
       in space_frag Rs_space i 0 val (rs\<lparr>rd_gs := gs\<rparr>))"

definition s_space :: "nat \<Rightarrow> handler" where
  "s_space mult s rs =
     and_then (read_expression Expr_normal s rs) (\<lambda>((_, e), s, rs).
     let s = skip_whitespace s
     in and_then (if c_char s = CHR '','' then read_expression Expr_normal (tl s) rs
                  else Inr ((Absolute_section, constant_value 0), s, rs)) (\<lambda>((_, val), s, rs).
        and_then (if (X_op val \<noteq> O_constant \<or> X_add_number val <s - 0x80 \<or> 0xff <s X_add_number val \<or>
                       mult \<noteq> 0 \<and> mult \<noteq> 1 \<and> X_add_number val \<noteq> 0) \<and> \<not> absolute_now rs \<and> \<not> in_bss rs
                  then space_values mult e val rs else space_bytes mult e val rs) (\<lambda>rs.
        demand_empty_rest_of_line s rs)))"

definition s_nops :: handler where
  "s_nops s rs =
     and_then (read_expression Expr_normal s rs) (\<lambda>((_, e), s, rs).
     and_then (if c_char s = CHR '','' then read_expression Expr_normal (tl s) rs
               else Inr ((Absolute_section, constant_value 0), s, rs)) (\<lambda>((_, val), s, rs).
     and_then (if X_op val = O_constant
               then (let (val, rs) = (if X_add_number val <s 0
                            then (val\<lparr>X_add_number := 0\<rparr>, rd_warn (Diag ''negative nop control byte, ignored'' []) rs)
                            else (val, rs));
                         (i, gs) = make_expr_symbol e (rd_gs rs)
                     in var_bytes Rs_space_nop 1 1 0 i 0 [ucast (X_add_number val)] (rs\<lparr>rd_gs := gs\<rparr>))
               else Inr (rd_bad (Diag ''unsupported variable nop control in .nops directive'' []) rs)) (\<lambda>rs.
     demand_empty_rest_of_line s rs)))"

subsection \<open>The location counter\<close>

definition do_org :: "segT \<Rightarrow> expressionS \<Rightarrow> offsetT \<Rightarrow> reader_state \<Rightarrow> reader_state res" where
  "do_org segment e fill rs =
     (let rs = (if segment \<noteq> gs_seg (rd_gs rs) \<and> segment \<noteq> Absolute_section \<and> segment \<noteq> Expr_section
                then rd_bad (Diag ''invalid segment \"%s\"'' [Str (rd_segment_name rs segment)]) rs else rs)
      in if absolute_now rs
         then
           let rs = (if fill \<noteq> 0 then rd_warn (Diag ''ignoring fill value in absolute section'' []) rs else rs);
               (off, rs) = (if X_op e \<noteq> O_constant
                            then (0, rd_bad (Diag ''only constant offsets supported in absolute section'' []) rs)
                            else (X_add_number e, rs))
           in Inr (on_gs (\<lambda>gs. gs\<lparr>gs_chain := (gs_chain gs)\<lparr>fc_abs_offset := off\<rparr>\<rparr>) rs)
         else
           let rs = (if fill \<noteq> 0 \<and> in_bss rs
                     then rd_warn (Diag (''ignoring fill value in section `%s'' @ [CHR 0x27]) [Str (now_segment_name rs)]) rs else rs);
               ((i, off), rs) = (if X_op e \<noteq> O_constant \<and> X_op e \<noteq> O_symbol
                                 then (let (i, gs) = make_expr_symbol e (rd_gs rs) in ((i, 0), rs\<lparr>rd_gs := gs\<rparr>))
                                 else ((X_add_symbol e, X_add_number e), rs))
           in var_bytes Rs_org 1 1 0 i off [ucast fill] rs)"

definition s_org :: handler where
  "s_org s rs =
     and_then (get_known_segmented_expression s rs) (\<lambda>((segment, e), s, rs).
     and_then (optional_absolute 0 s rs) (\<lambda>((_, fill), s, rs).
     and_then (do_org segment e fill rs) (\<lambda>rs. demand_empty_rest_of_line s rs)))"

subsection \<open>Symbols, messages and sections\<close>

text \<open>The names after \<open>.globl\<close>. Where one is missing, the line has been left already.\<close>

fun globl_loop :: "nat \<Rightarrow> handler" where
  "globl_loop 0 s rs = Inl Out_of_fuel"
| "globl_loop (Suc n) s rs =
     and_then (read_symbol_name s rs) (\<lambda>(name, s, rs).
     case name of
       None \<Rightarrow> Inr (s, rs)
     | Some name \<Rightarrow>
         let (i, gs) = symbol_find_or_make name (rd_gs rs)
         in and_then (S_SET_EXTERNAL i gs) (\<lambda>gs.
            let rs = rs\<lparr>rd_gs := gs\<rparr>; s = skip_whitespace s
            in if c_char s = CHR '',''
               then (let s = skip_whitespace (tl s)
                     in if is_end_of_line (c_char s) then demand_empty_rest_of_line s rs else globl_loop n s rs)
               else demand_empty_rest_of_line s rs))"

definition s_globl :: handler where
  "s_globl s rs = globl_loop (length s + 1) s rs"

definition s_err :: handler where
  "s_err s rs = demand_empty_rest_of_line s (rd_bad (Diag ''.err encountered'' []) rs)"

definition s_errwarn :: "bool \<Rightarrow> handler" where
  "s_errwarn err s rs =
     (let say = (if err then rd_bad else rd_warn); s' = skip_whitespace s
      in if is_it_end_of_statement s
         then demand_empty_rest_of_line s' (say (Diag (if err then ''.error directive invoked in source file''
                                                       else ''.warning directive invoked in source file'') []) rs)
         else if c_char s' \<noteq> CHR 0x22
         then s_ignore s' (rd_bad (Diag ''%s argument must be a string'' [Str (if err then ''.error'' else ''.warning'')]) rs)
         else and_then (demand_copy_C_string s' rs) (\<lambda>(bs, s, rs).
              case bs of
                None \<Rightarrow> Inr (s, rs)
              | Some bs \<Rightarrow> demand_empty_rest_of_line s (say (Diag ''%s'' [Str (c_string bs)]) rs)))"

definition s_fail :: handler where
  "s_fail s rs =
     and_then (get_absolute_expression s rs) (\<lambda>(temp, s, rs).
     demand_empty_rest_of_line s ((if 500 \<le>s temp then rd_warn else rd_bad) (Diag ''.fail %ld encountered'' [Num temp]) rs))"

text \<open>
  The directives of the target. \<open>.option\<close> takes the rest of its line as it is; \<open>.dtprelword\<close>
  goes on after its message, on the next line; \<open>.uleb128\<close> reads its line twice.
\<close>

definition s_option_line :: handler where
  "s_option_line s rs =
     demand_empty_rest_of_line (dropWhile (\<lambda>c. \<not> is_end_of_line c) s)
       (on_gs (\<lambda>gs. gs\<lparr>gs_tc := s_riscv_option (takeWhile (\<lambda>c. \<not> is_end_of_line c) s) (gs_tc gs)\<rparr>) rs)"

definition s_dtprel :: "nat \<Rightarrow> handler" where
  "s_dtprel bytes s rs =
     and_then (read_expression Expr_normal s rs) (\<lambda>((_, e), s, rs).
     and_then (if X_op e \<noteq> O_symbol
               then s_ignore s (rd_bad (Diag ''Unsupported use of %s'' [Str (if bytes = 8 then ''.dtpreldword'' else ''.dtprelword'')]) rs)
               else Inr (s, rs)) (\<lambda>(s, rs).
     let rs = frag_alloc_check rs
     in and_then (lift_gs (\<lambda>gs. and_then (frag_more bytes (gs_chain gs)) (\<lambda>(p, fc).
             let fc = write_literal (frag_now fc) p (le_bytes 0 bytes) fc
             in and_then (fix_new_exp (Some (frag_now fc)) p bytes e False
                      (if bytes = 8 then BFD_RELOC_RISCV_TLS_DTPREL64 else BFD_RELOC_RISCV_TLS_DTPREL32) (gs\<lparr>gs_chain := fc\<rparr>))
                  (\<lambda>(_, gs). Inr gs))) rs) (\<lambda>rs.
        demand_empty_rest_of_line s rs)))"

definition s_bss :: handler where
  "s_bss s rs = demand_empty_rest_of_line s (on_gs (rd_subseg_set rs bss_section) rs)"

definition s_riscv_leb128 :: "bool \<Rightarrow> handler" where
  "s_riscv_leb128 sign s rs =
     and_then (read_expression Expr_normal s rs) (\<lambda>((_, e), s', rs).
     and_then (demand_empty_rest_of_line s' (if X_op e \<noteq> O_constant
         then rd_bad (Diag ''non-constant .%cleb128 is not supported'' [Chr (if sign then CHR ''s'' else CHR ''u'')]) rs else rs))
       (\<lambda>(_, rs). s_leb128 sign s rs))"

end
