(* ===== verification/ReadSource.thy ===== *)
theory ReadSource
  imports ReadSpace CondAsm ExprFrame
begin

text \<open>
  The main loop of the reader, \<open>read_a_source_file\<close> of \<open>gas/read.c\<close>, the tables of directives
  it looks its names up in, and the directives that are left. The loop reads one buffer of
  scrubbed text, and the character before the text tells whether a line begins.

  A directive that is not modelled is a function of \<open>outside\<close>, under the name of its C
  function; so is \<open>assign_symbol\<close>. No macro is defined,
  there is no listing and no MRI mode, and labels end in a colon.
\<close>

subsection \<open>What is not modelled\<close>

record outside =
  out_directive :: "string \<Rightarrow> int \<Rightarrow> handler"
  out_assign_symbol :: "string \<Rightarrow> int \<Rightarrow> handler"
  out_app :: handler \<comment> \<open>the text between \<open>#APP\<close> and \<open>#NO_APP\<close>, which is scrubbed again\<close>

text \<open>\<open>.end\<close> is recognised by its handler.\<close>

datatype pseudo = Directive handler | End_of_source

subsection \<open>The rest of the directives\<close>

definition s_abort :: handler where
  "s_abort s rs = Inl (As_fatal (Diag ''.abort detected.  Abandoning ship.'' []))"

definition s_bad_end :: "bool \<Rightarrow> handler" where
  "s_bad_end endr s rs =
     demand_empty_rest_of_line s (rd_warn (Diag ''.end%c encountered without preceding %s''
       [Chr (if endr then CHR ''r'' else CHR ''m''), Str (if endr then ''.rept, .irp, or .irpc'' else ''.macro'')]) rs)"

text \<open>The string goes to the standard output, which is no part of the state.\<close>

definition s_print :: handler where
  "s_print s rs = and_then (demand_copy_C_string s rs) (\<lambda>(_, s, rs). demand_empty_rest_of_line s rs)"

definition expected_comma :: "string \<Rightarrow> reader_state \<Rightarrow> reader_state" where
  "expected_comma name = rd_bad (Diag ''expected comma after \"%s\"'' [Str name])"

definition s_lsym :: handler where
  "s_lsym s rs =
     and_then (read_symbol_name s rs) (\<lambda>(name, s, rs).
     case name of
       None \<Rightarrow> Inr (s, rs)
     | Some name \<Rightarrow>
         if c_char s \<noteq> CHR '','' then s_ignore s (expected_comma name rs)
         else and_then (read_expression Expr_evaluate (tl s) rs) (\<lambda>((_, e), s, rs).
           if X_op e \<noteq> O_constant \<and> X_op e \<noteq> O_register then s_ignore s (rd_bad (Diag ''bad expression'' []) rs)
           else
             let (i, gs) = symbol_find_or_make name (rd_gs rs)
             in if S_GET_SEGMENT gs i = Undefined_section
                then and_then (S_SET_SEGMENT i (if X_op e = O_constant then Absolute_section else Reg_section) gs) (\<lambda>gs.
                     demand_empty_rest_of_line s (rs\<lparr>rd_gs := S_SET_VALUE i (X_add_number e) gs\<rparr>))
                else demand_empty_rest_of_line s
                       (rd_bad (Diag (''symbol `%s'' @ CHR 0x27 # '' is already defined'') [Str name]) (rs\<lparr>rd_gs := gs\<rparr>))))"

definition s_set :: "outside \<Rightarrow> int \<Rightarrow> handler" where
  "s_set out eq s rs =
     and_then (read_symbol_name s rs) (\<lambda>(name, s, rs).
     case name of
       None \<Rightarrow> Inr (s, rs)
     | Some name \<Rightarrow>
         if c_char s \<noteq> CHR '','' then s_ignore s (expected_comma name rs)
         else and_then (out_assign_symbol out name eq (tl s) rs) (\<lambda>(s, rs). demand_empty_rest_of_line s rs))"

text \<open>An assignment with \<open>=\<close> or \<open>==\<close>; the text begins with the character that ended the name.\<close>

definition equals :: "outside \<Rightarrow> string \<Rightarrow> int \<Rightarrow> handler" where
  "equals out sym_name reassign s rs =
     (let s = tl s;
          s = (if c_char s = CHR ''='' then tl s else s);
          s = (if reassign < 0 \<and> c_char s = CHR ''='' then tl s else s)
      in out_assign_symbol out sym_name (if 0 \<le> reassign then of_bool (reassign = 0) else reassign)
           (dropWhile (\<lambda>c. c = CHR '' '' \<or> c = CHR 0x09) s) rs)"

definition s_insn_line :: handler where
  "s_insn_line s rs =
     and_then (s_riscv_insn (expression (rd_atof rs)) s (rd_gs rs)) (\<lambda>(s, gs). Inr (s, rs\<lparr>rd_gs := gs\<rparr>))"

subsection \<open>The tables of directives\<close>

abbreviation (input) other :: "outside \<Rightarrow> string \<Rightarrow> int \<Rightarrow> handler" where "other \<equiv> out_directive"

definition riscv_pseudo_table :: "(string \<times> pseudo) list" where
  "riscv_pseudo_table =
    [(''option'', Directive s_option_line), (''half'', Directive (cons 2)), (''word'', Directive (cons 4)),
     (''dword'', Directive (cons 8)), (''dtprelword'', Directive (s_dtprel 4)),
     (''dtpreldword'', Directive (s_dtprel 8)), (''bss'', Directive s_bss),
     (''uleb128'', Directive (s_riscv_leb128 False)), (''sleb128'', Directive (s_riscv_leb128 True)),
     (''insn'', Directive s_insn_line)]"

definition elf_pseudo_table :: "outside \<Rightarrow> (string \<times> pseudo) list" where
  "elf_pseudo_table out =
    [(''comm'', Directive (other out ''obj_elf_common'' 0)),
     (''common'', Directive (other out ''obj_elf_common'' 1)),
     (''ident'', Directive (other out ''obj_elf_ident'' 0)),
     (''lcomm'', Directive (other out ''obj_elf_lcomm'' 0)),
     (''local'', Directive (other out ''obj_elf_local'' 0)),
     (''previous'', Directive (other out ''obj_elf_previous'' 0)),
     (''section'', Directive (other out ''obj_elf_section'' 0)),
     (''section.s'', Directive (other out ''obj_elf_section'' 0)),
     (''sect'', Directive (other out ''obj_elf_section'' 0)),
     (''sect.s'', Directive (other out ''obj_elf_section'' 0)),
     (''pushsection'', Directive (other out ''obj_elf_section'' 1)),
     (''popsection'', Directive (other out ''obj_elf_popsection'' 0)),
     (''size'', Directive (other out ''obj_elf_size'' 0)),
     (''type'', Directive (other out ''obj_elf_type'' 0)),
     (''version'', Directive (other out ''obj_elf_version'' 0)),
     (''weak'', Directive (other out ''obj_elf_weak'' 0)),
     (''internal'', Directive (other out ''obj_elf_visibility'' 1)),
     (''hidden'', Directive (other out ''obj_elf_visibility'' 2)),
     (''protected'', Directive (other out ''obj_elf_visibility'' 3)),
     (''line'', Directive (other out ''obj_elf_line'' 0)),
     (''symver'', Directive (other out ''obj_elf_symver'' 0)),
     (''subsection'', Directive (other out ''obj_elf_subsection'' 0)),
     (''vtable_inherit'', Directive (other out ''obj_elf_vtable_inherit'' 0)),
     (''vtable_entry'', Directive (other out ''obj_elf_vtable_entry'' 0)),
     (''gnu_attribute'', Directive (other out ''obj_elf_gnu_attribute'' 0)), (''2byte'', Directive (cons 2)),
     (''4byte'', Directive (cons 4)), (''8byte'', Directive (cons 8)),
     (''file'', Directive (other out ''dwarf2_directive_file'' 0)),
     (''loc'', Directive (other out ''dwarf2_directive_loc'' 0)),
     (''loc_mark_labels'', Directive (other out ''dwarf2_directive_loc_mark_labels'' 0)),
     (''data'', Directive (other out ''obj_elf_data'' 0)),
     (''offset'', Directive (other out ''obj_elf_struct'' 0)),
     (''struct'', Directive (other out ''obj_elf_struct'' 0)),
     (''text'', Directive (other out ''obj_elf_text'' 0)),
     (''tls_common'', Directive (other out ''obj_elf_tls_common'' 0))]"

definition potable :: "outside \<Rightarrow> (string \<times> pseudo) list" where
  "potable out =
    [(''abort'', Directive s_abort), (''align'', Directive (s_align_ptwo 0)),
     (''altmacro'', Directive (other out ''s_altmacro'' 1)), (''ascii'', Directive (stringer 8)),
     (''asciz'', Directive (stringer 9)), (''balign'', Directive (s_align_bytes 0)),
     (''balignw'', Directive (s_align_bytes (- 2))), (''balignl'', Directive (s_align_bytes (- 4))),
     (''byte'', Directive (cons 1)), (''comm'', Directive (other out ''s_comm'' 0)),
     (''common'', Directive (other out ''s_mri_common'' 0)),
     (''common.s'', Directive (other out ''s_mri_common'' 1)), (''data'', Directive (other out ''s_data'' 0)),
     (''dc'', Directive (cons 2)), (''dc.a'', Directive (cons 0)), (''dc.b'', Directive (cons 1)),
     (''dc.d'', Directive (other out ''float_cons'' 100)), (''dc.l'', Directive (cons 4)),
     (''dc.s'', Directive (other out ''float_cons'' 102)), (''dc.w'', Directive (cons 2)),
     (''dc.x'', Directive (other out ''float_cons'' 120)), (''dcb'', Directive (s_space 2)),
     (''dcb.b'', Directive (s_space 1)), (''dcb.d'', Directive (other out ''s_float_space'' 100)),
     (''dcb.l'', Directive (s_space 4)), (''dcb.s'', Directive (other out ''s_float_space'' 102)),
     (''dcb.w'', Directive (s_space 2)), (''dcb.x'', Directive (other out ''s_float_space'' 120)),
     (''ds'', Directive (s_space 2)), (''ds.b'', Directive (s_space 1)), (''ds.d'', Directive (s_space 8)),
     (''ds.l'', Directive (s_space 4)), (''ds.p'', Directive (s_space 12)), (''ds.s'', Directive (s_space 4)),
     (''ds.w'', Directive (s_space 2)), (''ds.x'', Directive (s_space 12)), (''debug'', Directive s_ignore),
     (''double'', Directive (other out ''float_cons'' 100)),
     (''eject'', Directive (other out ''listing_eject'' 0)), (''else'', Directive s_else),
     (''elsec'', Directive s_else), (''elseif'', Directive (s_elseif O_ne)), (''end'', End_of_source),
     (''endc'', Directive s_endif), (''endfunc'', Directive (other out ''s_func'' 1)),
     (''endif'', Directive s_endif), (''endm'', Directive (s_bad_end False)),
     (''endr'', Directive (s_bad_end True)), (''equ'', Directive (s_set out 0)),
     (''equiv'', Directive (s_set out 1)), (''eqv'', Directive (s_set out (- 1))), (''err'', Directive s_err),
     (''error'', Directive (s_errwarn True)), (''exitm'', Directive (other out ''s_mexit'' 0)),
     (''extern'', Directive s_ignore), (''appfile'', Directive (other out ''s_app_file'' 1)),
     (''appline'', Directive (other out ''s_app_line'' 1)), (''fail'', Directive s_fail),
     (''file'', Directive (other out ''s_app_file'' 0)), (''fill'', Directive s_fill),
     (''float'', Directive (other out ''float_cons'' 102)), (''format'', Directive s_ignore),
     (''func'', Directive (other out ''s_func'' 0)), (''global'', Directive s_globl),
     (''globl'', Directive s_globl), (''hword'', Directive (cons 2)), (''if'', Directive (s_if O_ne)),
     (''ifb'', Directive (s_ifb True)), (''ifc'', Directive (s_ifc False)),
     (''ifdef'', Directive (s_ifdef False)), (''ifeq'', Directive (s_if O_eq)),
     (''ifeqs'', Directive (s_ifeqs False)), (''ifge'', Directive (s_if O_ge)),
     (''ifgt'', Directive (s_if O_gt)), (''ifle'', Directive (s_if O_le)), (''iflt'', Directive (s_if O_lt)),
     (''ifnb'', Directive (s_ifb False)), (''ifnc'', Directive (s_ifc True)),
     (''ifndef'', Directive (s_ifdef True)), (''ifne'', Directive (s_if O_ne)),
     (''ifnes'', Directive (s_ifeqs True)), (''ifnotdef'', Directive (s_ifdef True)),
     (''incbin'', Directive (other out ''s_incbin'' 0)), (''include'', Directive (other out ''s_include'' 0)),
     (''int'', Directive (cons 4)), (''irp'', Directive (other out ''s_irp'' 0)),
     (''irep'', Directive (other out ''s_irp'' 0)), (''irpc'', Directive (other out ''s_irp'' 1)),
     (''irepc'', Directive (other out ''s_irp'' 1)), (''lcomm'', Directive (other out ''s_lcomm'' 0)),
     (''lflags'', Directive s_ignore), (''linefile'', Directive (other out ''s_app_line'' 0)),
     (''linkonce'', Directive (other out ''s_linkonce'' 0)),
     (''list'', Directive (other out ''listing_list'' 1)),
     (''llen'', Directive (other out ''listing_psize'' 1)), (''long'', Directive (cons 4)),
     (''lsym'', Directive s_lsym), (''macro'', Directive (other out ''s_macro'' 0)),
     (''mexit'', Directive (other out ''s_mexit'' 0)), (''mri'', Directive (other out ''s_mri'' 0)),
     (''.mri'', Directive (other out ''s_mri'' 0)), (''name'', Directive s_ignore),
     (''noaltmacro'', Directive (other out ''s_altmacro'' 0)), (''noformat'', Directive s_ignore),
     (''nolist'', Directive (other out ''listing_list'' 0)),
     (''nopage'', Directive (other out ''listing_nopage'' 0)), (''nops'', Directive s_nops),
     (''octa'', Directive (cons 16)), (''offset'', Directive (other out ''s_struct'' 0)),
     (''org'', Directive s_org), (''p2align'', Directive (s_align_ptwo 0)),
     (''p2alignw'', Directive (s_align_ptwo (- 2))), (''p2alignl'', Directive (s_align_ptwo (- 4))),
     (''page'', Directive (other out ''listing_eject'' 0)),
     (''plen'', Directive (other out ''listing_psize'' 0)), (''print'', Directive s_print),
     (''psize'', Directive (other out ''listing_psize'' 0)),
     (''purgem'', Directive (other out ''s_purgem'' 0)), (''quad'', Directive (cons 8)),
     (''reloc'', Directive (other out ''s_reloc'' 0)), (''rep'', Directive (other out ''s_rept'' 0)),
     (''rept'', Directive (other out ''s_rept'' 0)), (''rva'', Directive (s_rva 4)),
     (''sbttl'', Directive (other out ''listing_title'' 1)), (''set'', Directive (s_set out 0)),
     (''short'', Directive (cons 2)), (''single'', Directive (other out ''float_cons'' 102)),
     (''space'', Directive (s_space 0)), (''skip'', Directive (s_space 0)),
     (''sleb128'', Directive (s_leb128 True)), (''spc'', Directive s_ignore),
     (''stabd'', Directive (other out ''s_stab'' 100)), (''stabn'', Directive (other out ''s_stab'' 110)),
     (''stabs'', Directive (other out ''s_stab'' 115)), (''string'', Directive (stringer 9)),
     (''string8'', Directive (stringer 9)), (''string16'', Directive (stringer 17)),
     (''string32'', Directive (stringer 33)), (''string64'', Directive (stringer 65)),
     (''struct'', Directive (other out ''s_struct'' 0)), (''text'', Directive (other out ''s_text'' 0)),
     (''this_GCC_requires_the_GNU_assembler'', Directive s_ignore),
     (''this_gcc_requires_the_gnu_assembler'', Directive s_ignore),
     (''title'', Directive (other out ''listing_title'' 0)),
     (''ttl'', Directive (other out ''listing_title'' 0)), (''uleb128'', Directive (s_leb128 False)),
     (''xcom'', Directive (other out ''s_comm'' 0)), (''xdef'', Directive s_globl),
     (''xref'', Directive s_ignore), (''xstabs'', Directive (other out ''s_xstab'' 115)),
     (''warning'', Directive (s_errwarn False)), (''weakref'', Directive (other out ''s_weakref'' 0)),
     (''word'', Directive (cons 2)), (''zero'', Directive (s_space 0))]"

definition cfi_pseudo_table :: "outside \<Rightarrow> (string \<times> pseudo) list" where
  "cfi_pseudo_table out =
    [(''cfi_sections'', Directive (other out ''dot_cfi_sections'' 0)),
     (''cfi_startproc'', Directive (other out ''dot_cfi_startproc'' 0)),
     (''cfi_endproc'', Directive (other out ''dot_cfi_endproc'' 0)),
     (''cfi_fde_data'', Directive (other out ''dot_cfi_fde_data'' 0)),
     (''cfi_def_cfa'', Directive (other out ''dot_cfi'' 12)),
     (''cfi_def_cfa_register'', Directive (other out ''dot_cfi'' 13)),
     (''cfi_def_cfa_offset'', Directive (other out ''dot_cfi'' 14)),
     (''cfi_adjust_cfa_offset'', Directive (other out ''dot_cfi'' 0x100)),
     (''cfi_offset'', Directive (other out ''dot_cfi'' 0x80)),
     (''cfi_rel_offset'', Directive (other out ''dot_cfi'' 0x102)),
     (''cfi_register'', Directive (other out ''dot_cfi'' 9)),
     (''cfi_return_column'', Directive (other out ''dot_cfi'' 0x101)),
     (''cfi_restore'', Directive (other out ''dot_cfi'' 0xc0)),
     (''cfi_undefined'', Directive (other out ''dot_cfi'' 7)),
     (''cfi_same_value'', Directive (other out ''dot_cfi'' 8)),
     (''cfi_remember_state'', Directive (other out ''dot_cfi'' 10)),
     (''cfi_restore_state'', Directive (other out ''dot_cfi'' 11)),
     (''cfi_window_save'', Directive (other out ''dot_cfi'' 0x2d)),
     (''cfi_escape'', Directive (other out ''dot_cfi_escape'' 0)),
     (''cfi_signal_frame'', Directive (other out ''dot_cfi'' 0x104)),
     (''cfi_personality'', Directive (other out ''dot_cfi_personality'' 0)),
     (''cfi_personality_id'', Directive (other out ''dot_cfi_personality_id'' 0)),
     (''cfi_lsda'', Directive (other out ''dot_cfi_lsda'' 0)),
     (''cfi_val_encoded_addr'', Directive (other out ''dot_cfi_val_encoded_addr'' 0)),
     (''cfi_inline_lsda'', Directive (other out ''dot_cfi_inline_lsda'' 0)),
     (''cfi_label'', Directive (other out ''dot_cfi_label'' 0)),
     (''cfi_val_offset'', Directive (other out ''dot_cfi'' 0x14))]"

text \<open>A name that is in the table already keeps its meaning, or is an error in the first table.\<close>

fun pop_insert :: "bool \<Rightarrow> string \<Rightarrow> (string \<times> pseudo) list \<Rightarrow> pseudo hash_control \<Rightarrow> pseudo hash_control res" where
  "pop_insert override_ok table_name [] po_hash = Inr po_hash"
| "pop_insert override_ok table_name ((name, pop) # table) po_hash =
     (let (errtxt, po_hash) = hash_insert po_hash name pop
      in case errtxt of
           Some e \<Rightarrow>
             if \<not> override_ok \<or> e \<noteq> ''exists''
             then Inl (As_fatal (Diag ''error constructing %s pseudo-op table: %s'' [Str table_name, Str e]))
             else pop_insert override_ok table_name table po_hash
         | None \<Rightarrow> pop_insert override_ok table_name table po_hash)"

definition pobegin :: "outside \<Rightarrow> pseudo hash_control res" where
  "pobegin out =
     and_then (pop_insert False ''md'' riscv_pseudo_table hash_new) (\<lambda>po_hash.
     and_then (pop_insert True ''obj'' (elf_pseudo_table out) po_hash) (\<lambda>po_hash.
     and_then (pop_insert True ''standard'' (potable out) po_hash) (\<lambda>po_hash.
     pop_insert True ''cfi'' (cfi_pseudo_table out) po_hash)))"

subsection \<open>Lines\<close>

definition iscntrl :: "char \<Rightarrow> bool" where
  "iscntrl c \<longleftrightarrow> (of_char c :: nat) < 32 \<or> (of_char c :: nat) = 127"

text \<open>
  The rest of the line from its end on, whether a quote is open there, and whether a backslash
  is the last character.
\<close>

fun line_end_loop :: "bool \<Rightarrow> bool \<Rightarrow> string \<Rightarrow> string \<times> bool \<times> bool" where
  "line_end_loop inquote inescape [] = ([], inquote, inescape)"
| "line_end_loop inquote inescape (c # s) =
     (if is_end_of_line c \<and> \<not> (inquote \<and> \<not> iscntrl c) then (c # s, inquote, inescape)
      else line_end_loop (if \<not> inescape \<and> c = CHR 0x22 then \<not> inquote else inquote) (\<not> inescape \<and> c = CHR 0x5C) s)"

text \<open>A stray backslash is no matter where the input is ignored.\<close>

definition find_end_of_line :: "bool \<Rightarrow> string \<Rightarrow> reader_state \<Rightarrow> string \<times> reader_state" where
  "find_end_of_line ignored s rs =
     (let (s, inquote, inescape) = line_end_loop False False s;
          rs = (if inquote then rd_warn (Diag (''missing closing `%c'' @ [CHR 0x27]) [Chr CHR 0x22]) rs else rs)
      in (s, if inescape \<and> \<not> ignored then rd_warn (Diag (''stray `'' @ [CHR 0x5C, CHR 0x27]) []) rs else rs))"

text \<open>\<open>HANDLE_CONDITIONAL_ASSEMBLY\<close>: the line from \<open>s\<close> on is passed over.\<close>

definition skip_ignored :: handler where
  "skip_ignored s rs = (let (s, rs) = find_end_of_line True s rs in Inr (tl s, rs))"

subsection \<open>Statements\<close>

text \<open>
  A name has been read and \<open>rest\<close> is the text from the character behind it on, which may be the
  quote that closes it. The name stands in the text in lower case from now on.
\<close>

definition behind_name :: "string \<Rightarrow> string" where
  "behind_name rest = drop (if c_char rest = CHR 0x22 then 2 else 1) rest"

definition read_label :: "string \<Rightarrow> handler" where
  "read_label name rest rs =
     and_then (lift_gs (\<lambda>gs. and_then (colon name gs) (\<lambda>(_, gs). Inr gs)) rs) (\<lambda>rs.
     Inr (skip_whitespace (behind_name rest), rs))"

definition unknown_pseudo :: "string \<Rightarrow> handler" where
  "unknown_pseudo name rest rs =
     and_then (s_ignore (restore_line_pointer rest) rs) (\<lambda>(s, rs).
     Inr (s, rd_bad (Diag (''unknown pseudo-op: `%s'' @ [CHR 0x27]) [Str name]) rs))"

text \<open>The operands of a directive, behind one blank; the flag says that it ends the source.\<close>

definition read_pseudo :: "pseudo hash_control \<Rightarrow> string \<Rightarrow> string \<Rightarrow> reader_state \<Rightarrow> (bool \<times> string \<times> reader_state) res" where
  "read_pseudo po_hash name rest rs =
     (case fst (hash_find po_hash (tl name)) of
        None \<Rightarrow> and_then (unknown_pseudo name rest rs) (\<lambda>(s, rs). Inr (False, s, rs))
      | Some pop \<Rightarrow>
          let s = restore_line_pointer rest;
              s = (if c_char s = CHR '' '' \<or> c_char s = CHR 0x09 then tl s else s)
          in case pop of
               End_of_source \<Rightarrow> Inr (True, s, rs)
             | Directive h \<Rightarrow> and_then (h s rs) (\<lambda>(s, rs). Inr (False, s, rs)))"

definition read_instruction :: "string \<Rightarrow> handler" where
  "read_instruction name rest rs =
     (let (s, rs) = find_end_of_line False (restore_line_pointer rest) rs;
          line = name @ take (length rest - length s) rest
      in and_then (lift_gs (md_assemble (expression (rd_atof rs)) line) rs) (\<lambda>rs. Inr (tl s, rs)))"

definition read_named :: "outside \<Rightarrow> pseudo hash_control \<Rightarrow> string \<Rightarrow> reader_state \<Rightarrow> (bool \<times> string \<times> reader_state) res" where
  "read_named out po_hash s rs =
     (let (name, rest, gs) = get_symbol_name s (rd_gs rs); rs = rs\<lparr>rd_gs := gs\<rparr>;
          next_char = (if c_char rest = CHR 0x22 then c_char (tl rest) else c_char rest);
          after = behind_name rest; blank = (next_char = CHR '' '' \<or> next_char = CHR 0x09);
          go_on = (\<lambda>r. and_then r (\<lambda>(s, rs). Inr (False, s, rs)));
          assign = (\<lambda>reassign. go_on (and_then (equals out name reassign rest rs) (\<lambda>(s, rs). demand_empty_rest_of_line s rs)))
      in if next_char = CHR '':'' then go_on (read_label name rest rs)
         else if next_char = CHR ''='' \<and> c_char after = CHR ''='' \<or>
                 blank \<and> c_char after = CHR ''='' \<and> c_char (tl after) = CHR ''='' then assign (- 1)
         else if next_char = CHR ''='' \<or> blank \<and> c_char after = CHR ''='' then assign 1
         else
           let name = map tolower name
           in if c_char name = CHR ''.'' then read_pseudo po_hash name rest rs else go_on (read_instruction name rest rs))"

text \<open>
  A number and a colon, with a dollar sign between them or not, are a label; anything else that
  begins with a digit is not. The number is an \<open>int\<close>.
\<close>

definition read_number_label :: "string \<Rightarrow> reader_state \<Rightarrow> (string \<times> reader_state) option res" where
  "read_number_label s rs =
     (let temp = read_number (takeWhile isdigit s); s = dropWhile isdigit s; gs = rd_gs rs;
          define_label = (\<lambda>name s gs. and_then (colon name gs) (\<lambda>(_, gs). Inr (Some (s, rs\<lparr>rd_gs := gs\<rparr>))))
      in if c_char s = CHR ''$'' \<and> c_char (tl s) = CHR '':''
         then if dollar_label_defined (gs_dollar gs) temp then Inl (As_fatal (Diag ''label \"%d$\" redefined'' [Num temp]))
              else
                let ls = define_dollar_label temp (gs_dollar gs)
                in define_label (dollar_label_name ls temp 0) (drop 2 s) (gs\<lparr>gs_dollar := ls\<rparr>)
         else if c_char s = CHR '':''
         then let fb = fb_label_instance_inc temp (gs_fb gs)
              in define_label (fb_label_name fb temp 0) (tl s) (gs\<lparr>gs_fb := fb\<rparr>)
         else Inr None)"

definition line_comment_chars :: string where "line_comment_chars = ''#''"

text \<open>A comment is passed over, unless it is the one that asks for scrubbing.\<close>

definition read_comment :: "outside \<Rightarrow> handler" where
  "read_comment out s rs =
     (if take 4 s = ''APP'' @ [CHR 0x0a] then out_app out (drop 4 s) (bump_line_counters rs) else s_ignore s rs)"

text \<open>
  One turn of the loop. At the beginning of a line the symbol for the location counter gets its
  value; of a line that begins with a blank the blanks are passed over.
\<close>

definition begin_line :: "char \<Rightarrow> reader_state \<Rightarrow> reader_state res" where
  "begin_line prev rs =
     (if is_end_of_line prev
      then and_then (lift_gs (\<lambda>gs. symbol_set_value_now (gs_dot_symbol gs) gs) rs) (\<lambda>rs.
           Inr (if prev = CHR 0x0a then bump_line_counters rs else rs))
      else Inr rs)"

definition read_statement :: "outside \<Rightarrow> pseudo hash_control \<Rightarrow> char \<Rightarrow> string \<Rightarrow> reader_state \<Rightarrow>
    (bool \<times> string \<times> reader_state) res" where
  "read_statement out po_hash prev s rs =
     and_then (begin_line prev rs) (\<lambda>rs.
     let s = dropWhile (\<lambda>c. c = CHR 0x09 \<or> c = CHR '' '' \<or> c = CHR 0x0C) s; c = c_char s;
         go_on = (\<lambda>r. and_then r (\<lambda>(s, rs). Inr (False, s, rs)))
     in if is_name_beginner c \<or> c = CHR 0x22
        then if ignore_input c (tl s) rs then go_on (skip_ignored s rs) else read_named out po_hash s rs
        else if is_end_of_line c then Inr (False, tl s, rs)
        else if isdigit c \<and> ignore_input c (tl s) rs then go_on (skip_ignored s rs)
        else and_then (if isdigit c then read_number_label s rs else Inr None) (\<lambda>label.
             case label of
               Some (s, rs) \<Rightarrow> Inr (False, s, rs)
             | None \<Rightarrow>
                 if c \<in> set line_comment_chars then go_on (read_comment out (tl s) rs)
                 else if ignore_input c (tl s) rs then go_on (skip_ignored s rs)
                 else go_on (demand_empty_rest_of_line s rs)))"

subsection \<open>The loop\<close>

text \<open>The character before the text \<open>s'\<close> that is left of \<open>s\<close>.\<close>

definition last_read :: "string \<Rightarrow> string \<Rightarrow> char" where
  "last_read s s' = s ! (length s - length s' - 1)"

definition end_of_source :: "reader_state \<Rightarrow> reader_state res" where
  "end_of_source rs = lift_gs (\<lambda>gs. symbol_set_value_now (gs_dot_symbol gs) gs) rs"

partial_function (option) read_loop :: "outside \<Rightarrow> pseudo hash_control \<Rightarrow> char \<Rightarrow> string \<Rightarrow> reader_state \<Rightarrow>
    reader_state res option" where
  "read_loop out po_hash prev s rs =
     (if s = [] then Some (end_of_source rs)
      else case read_statement out po_hash prev s rs of
             Inl e \<Rightarrow> Some (Inl e)
           | Inr (quit, s', rs) \<Rightarrow>
               if quit then Some (end_of_source rs) else read_loop out po_hash (last_read s s') s' rs)"

text \<open>The buffer begins behind a line feed.\<close>

definition read_a_source_file :: "outside \<Rightarrow> pseudo hash_control \<Rightarrow> string \<Rightarrow> reader_state \<Rightarrow> reader_state res option" where
  "read_a_source_file out po_hash buffer rs = read_loop out po_hash (CHR 0x0a) buffer rs"

end
