(* ===== verification/InsnFuel.thy ===== *)
theory InsnFuel
  imports ExprFrame
begin

text \<open>
  Assembling an instruction ends: whatever the line, \<open>md_assemble\<close> has a result or ends the
  assembly, and no recursion of the model runs out of fuel, if none of the expression parser does.
\<close>

named_theorems fueled_intros "computations that have fuel enough"

lemma fueled_cases [fueled_intros]:
  "(\<And>x y. fueled (f x y)) \<Longrightarrow> fueled (case p of (x, y) \<Rightarrow> f x y)"
  by (simp add: case_prod_beta)

declare fueled_and_then [fueled_intros] fueled_if [fueled_intros] fueled_option [fueled_intros]

lemma fueled_results [fueled_intros]:
  "fueled (Inr a)" "fueled (Inl Abort)" "fueled (Inl Assert_failed)" "fueled (Inl (As_fatal d))" "fueled (gas_assert b)"
  by (simp_all add: gas_assert_def)

lemma fueled_args [fueled_intros]:
  "fueled (at_expr_end st)" "fueled (no_match st)" "fueled (reg_arg cls ok put st)" "fueled (rvc_lui st)" "fueled (enum_arg names f st)"
  by (auto simp: at_expr_end_def no_match_def reg_arg_def rvc_lui_def enum_arg_def intro!: fueled_intros split: option.split)

subsection \<open>Emitting\<close>

lemma frag_new_fueled [fueled_intros]: "fueled (frag_new n fc)"
  by (auto simp: frag_new_def Let_def intro!: fueled_intros)

lemma grow_loop_fueled [fueled_intros]: "fueled (grow_loop n k fc)"
  by (induction n k fc rule: grow_loop.induct) (auto intro!: fueled_intros)

lemma frag_grow_fueled [fueled_intros]: "fueled (frag_grow n fc)"
  by (auto simp: frag_grow_def Let_def cant_extend_frag_def intro!: fueled_intros)

lemma frag_fueled [fueled_intros]:
  "fueled (frag_more n fc)" "fueled (frag_var type max_chars var subtype symbol offset opcode fc)"
  by (auto simp: frag_more_def frag_var_def frag_var_init_def Let_def intro!: fueled_intros)

lemma on_chain_fueled [fueled_intros]: "(\<And>fc. fueled (f fc)) \<Longrightarrow> fueled (on_chain f gs)"
  by (auto simp: on_chain_def intro!: fueled_intros)

lemma fix_new_exp_fueled [fueled_intros]: "fueled (fix_new_exp frag whr sz e pcrel r gs)"
  by (auto simp: fix_new_exp_def fix_new_internal_def Let_def intro!: fueled_intros)

lemma insn_emission_fueled [fueled_intros]:
  "fueled (add_fixed_insn insn gs)" "fueled (add_insn_fix insn e r gs)"
  "fueled (add_relaxed_insn insn max_chars var subtype symbol offset gs)"
  unfolding add_fixed_insn_def add_insn_fix_def add_relaxed_insn_def Let_def by (intro fueled_intros)+

lemma append_fixed_fueled [fueled_intros]: "fueled (append_fixed insn r gs)"
  unfolding append_fixed_def Let_def by (intro fueled_intros)

lemma append_insn_fueled [fueled_intros]: "fueled (append_insn insn e r gs)"
  unfolding append_insn_def Let_def by (intro fueled_intros)

subsection \<open>Macros\<close>

lemma fueled_list: "fueled a \<Longrightarrow> (\<And>x xs. fueled (f x xs)) \<Longrightarrow> fueled (case l of [] \<Rightarrow> a | x # xs \<Rightarrow> f x xs)"
  by (cases l) simp_all

lemma fueled_macro_arg:
  "(\<And>v. fueled (f v)) \<Longrightarrow> (\<And>r. fueled (g r)) \<Longrightarrow> fueled (case a of Int_arg v \<Rightarrow> f v | Reloc_arg r \<Rightarrow> g r)"
  by (cases a) simp_all

lemma macro_format_fueled [fueled_intros]: "fueled (macro_format has_ep fmt s)"
proof (induction fmt arbitrary: s)
  case (Cons c fmt)
  have "fueled (format_step has_ep c s)"
    unfolding format_step_def invalid_macro_def
    by (intro fueled_cases fueled_intros fueled_list fueled_macro_arg)
  with Cons show ?case by (auto intro!: fueled_intros)
qed (simp add: fueled_intros)

lemma macro_build_fueled [fueled_intros]: "fueled (macro_build ep name fmt args gs)"
  unfolding macro_build_def Let_def by (intro fueled_intros)

lemma macro_parts_fueled [fueled_intros]:
  "fueled (load_const reg ep gs)" "fueled (pcrel_load dest temp ep insn hi lo gs)"
  "fueled (pcrel_store dest temp ep insn hi lo gs)" "fueled (riscv_call dest temp ep r gs)"
  unfolding load_const_def pcrel_load_def pcrel_store_def pcrel_access_def riscv_call_def Let_def
  by (intro fueled_intros)+

lemma macro_fueled [fueled_intros]: "fueled (macro insn e r gs)"
  unfolding macro_def Let_def by (intro fueled_intros)

subsection \<open>Operands\<close>

text \<open>The law of the expression parser: it does not run out of fuel.\<close>

definition ending :: "expr_parser \<Rightarrow> bool" where
  "ending ex \<longleftrightarrow> (\<forall>gs s. fueled (ex gs s))"

lemma getters_ends:
  "ending ex \<Longrightarrow> fueled (my_getExpression ex s st)" "ending ex \<Longrightarrow> fueled (my_getSmallExpression ex s st)"
  "ending ex \<Longrightarrow> fueled (my_getOpcodeExpression ex s st)"
  unfolding my_getOpcodeExpression_def my_getSmallExpression_def my_getExpression_def Let_def
  by (intro fueled_intros; simp add: ending_def)+

lemma parts_ends:
  "ending ex \<Longrightarrow> fueled (const_arg ex valid put st)" "ending ex \<Longrightarrow> fueled (branch_arg ex st)"
  "ending ex \<Longrightarrow> fueled (jump_arg ex st)" "ending ex \<Longrightarrow> fueled (alu_arg ex c st)"
  "ending ex \<Longrightarrow> fueled (field_arg (my_getSmallExpression ex) valid f msg st)"
  "ending ex \<Longrightarrow> fueled (field_arg (my_getOpcodeExpression ex) valid f msg st)"
  "ending ex \<Longrightarrow> fueled (absolute_arg ex mo csr good msg f st)" "ending ex \<Longrightarrow> fueled (upper_arg ex st)" "ending ex \<Longrightarrow> fueled (call_arg ex st)"
  unfolding const_arg_def branch_arg_def jump_arg_def alu_arg_def field_arg_def absolute_arg_def upper_arg_def call_arg_def Let_def
  by (intro fueled_intros getters_ends; assumption)+

lemma load_store_ends: "ending ex \<Longrightarrow> fueled (load_store_arg ex c st)"
  unfolding load_store_arg_def by (intro fueled_intros parts_ends)

lemmas arg_ends = fueled_intros getters_ends parts_ends load_store_ends

lemma run_arg_ends: "ending ex \<Longrightarrow> fueled (run_arg ex mo a st)"
  by (cases a; simp only: run_arg_def format_arg.case simple_arg_def rvc_arg_def rvc_funct_arg_def opcode_arg_def
    funct_arg_def Let_def; intro arg_ends; assumption)

lemma match_args_ends: "ending ex \<Longrightarrow> fueled (match_args ex mo args st)"
  by (induction ex mo args st rule: match_args.induct) (auto simp: Let_def intro!: arg_ends run_arg_ends)

lemma try_entries_ends: "ending ex \<Longrightarrow> fueled (try_entries ex name str error mos st)"
  by (induction mos arbitrary: error st) (auto intro!: arg_ends match_args_ends)

lemma riscv_ip_ends: "ending ex \<Longrightarrow> fueled (riscv_ip ex hash str gs)"
  unfolding riscv_ip_def by (intro arg_ends try_entries_ends)

lemma fueled_found: "(\<And>x. fueled (f x)) \<Longrightarrow> (\<And>y. fueled (g y)) \<Longrightarrow> fueled (case r of Inl x \<Rightarrow> f x | Inr y \<Rightarrow> g y)"
  by (cases r) simp_all

lemma md_assemble_ends: "ending ex \<Longrightarrow> fueled (md_assemble ex str gs)"
  unfolding md_assemble_def by (intro arg_ends riscv_ip_ends fueled_found)

lemma s_riscv_insn_ends: "ending ex \<Longrightarrow> fueled (s_riscv_insn ex str gs)"
  unfolding s_riscv_insn_def Let_def by (intro arg_ends riscv_ip_ends fueled_found)

end
