(* ===== verification/ReadEnds.thy ===== *)
theory ReadEnds
  imports ReadSource InsnFuel
begin

text \<open>
  Reading ends. Every directive leaves at most the text it was given, and has a result or ends
  the assembly; so a turn of the main loop, which reads a character at least, leaves less than
  there was, and the loop returns. For this the conversion of floating point numbers has to
  move forward, too.
\<close>

subsection \<open>What a step of the reader promises\<close>

definition rd_ok :: "reader_state \<Rightarrow> bool" where
  "rd_ok rs \<longleftrightarrow> atof_ok (rd_atof rs)"

definition keeps :: "reader_state res \<Rightarrow> bool" where
  "keeps r \<longleftrightarrow> fueled r \<and> (\<forall>rs. r = Inr rs \<longrightarrow> rd_ok rs)"

definition leaves :: "nat \<Rightarrow> (string \<times> reader_state) res \<Rightarrow> bool" where
  "leaves n r \<longleftrightarrow> fueled r \<and> (\<forall>p. r = Inr p \<longrightarrow> length (fst p) \<le> n \<and> rd_ok (snd p))"

definition gives :: "nat \<Rightarrow> 'a rd \<Rightarrow> bool" where
  "gives n r \<longleftrightarrow> fueled r \<and> (\<forall>p. r = Inr p \<longrightarrow> length (fst (snd p)) \<le> n \<and> rd_ok (snd (snd p)))"

named_theorems ends_intros "steps that end and give back no text"

lemma rd_ok_state [simp]:
  "rd_ok (rs\<lparr>rd_gs := gs\<rparr>) = rd_ok rs" "rd_ok (on_gs f rs) = rd_ok rs" "rd_ok (rd_bad d rs) = rd_ok rs"
  "rd_ok (rd_warn d rs) = rd_ok rs" "rd_ok (bump_line_counters rs) = rd_ok rs" "rd_ok (as_bad_where w msg rs) = rd_ok rs"
  "rd_ok (newline_inserted rs) = rd_ok rs" "rd_ok (record_alignment k rs) = rd_ok rs" "rd_ok (frag_alloc_check rs) = rd_ok rs"
  "rd_ok (add_abs_offset v rs) = rd_ok rs" "rd_ok (push_cframe b rs) = rd_ok rs" "rd_ok (set_top cf rs) = rd_ok rs"
  "rd_ok (previous_parts cf rs) = rd_ok rs" "rd_ok (rs\<lparr>rd_cframes := fs\<rparr>) = rd_ok rs"
  by (simp_all add: rd_ok_def on_gs_def rd_bad_def rd_warn_def bump_line_counters_def as_bad_where_def newline_inserted_def
      record_alignment_def frag_alloc_check_def add_abs_offset_def push_cframe_def set_top_def previous_parts_def Let_def)

lemma ends_simps [simp]:
  "keeps (Inr rs) = rd_ok rs" "leaves n (Inr p) \<longleftrightarrow> length (fst p) \<le> n \<and> rd_ok (snd p)"
  "gives n (Inr q) \<longleftrightarrow> length (fst (snd q)) \<le> n \<and> rd_ok (snd (snd q))"
  "keeps (Inl e) \<longleftrightarrow> e \<noteq> Out_of_fuel" "leaves n (Inl e) \<longleftrightarrow> e \<noteq> Out_of_fuel" "gives n (Inl e) \<longleftrightarrow> e \<noteq> Out_of_fuel"
  by (simp_all add: keeps_def leaves_def gives_def)

lemma ends_values [ends_intros]:
  "rd_ok rs \<Longrightarrow> keeps (Inr rs)" "length s \<le> n \<Longrightarrow> rd_ok rs \<Longrightarrow> leaves n (Inr (s, rs))"
  "length s \<le> n \<Longrightarrow> rd_ok rs \<Longrightarrow> gives n (Inr (x, s, rs))"
  "keeps (Inl Abort)" "leaves n (Inl Abort)" "gives n (Inl Abort)"
  "keeps (Inl (As_fatal d))" "leaves n (Inl (As_fatal d))" "gives n (Inl (As_fatal d))"
  by simp_all

lemma keeps_bind [ends_intros]:
  "keeps r \<Longrightarrow> (\<And>rs. rd_ok rs \<Longrightarrow> keeps (f rs)) \<Longrightarrow> keeps (and_then r f)"
  "keeps r \<Longrightarrow> (\<And>rs. rd_ok rs \<Longrightarrow> leaves n (g rs)) \<Longrightarrow> leaves n (and_then r g)"
  "keeps r \<Longrightarrow> (\<And>rs. rd_ok rs \<Longrightarrow> gives n (h rs)) \<Longrightarrow> gives n (and_then r h)"
  by (cases r; simp)+

lemma leaves_bind [ends_intros]:
  "leaves n r \<Longrightarrow> (\<And>p. length (fst p) \<le> n \<Longrightarrow> rd_ok (snd p) \<Longrightarrow> keeps (f p)) \<Longrightarrow> keeps (and_then r f)"
  "leaves n r \<Longrightarrow> (\<And>p. length (fst p) \<le> n \<Longrightarrow> rd_ok (snd p) \<Longrightarrow> leaves n (g p)) \<Longrightarrow> leaves n (and_then r g)"
  "leaves n r \<Longrightarrow> (\<And>p. length (fst p) \<le> n \<Longrightarrow> rd_ok (snd p) \<Longrightarrow> gives n (h p)) \<Longrightarrow> gives n (and_then r h)"
  by (cases r; simp)+

lemma gives_bind [ends_intros]:
  "gives n r \<Longrightarrow> (\<And>p. length (fst (snd p)) \<le> n \<Longrightarrow> rd_ok (snd (snd p)) \<Longrightarrow> leaves n (g p)) \<Longrightarrow> leaves n (and_then r g)"
  "gives n r \<Longrightarrow> (\<And>p. length (fst (snd p)) \<le> n \<Longrightarrow> rd_ok (snd (snd p)) \<Longrightarrow> gives n (h p)) \<Longrightarrow> gives n (and_then r h)"
  by (cases r; simp)+

text \<open>A step that does not touch the text: its value is of another type.\<close>

lemma fueled_bind:
  "fueled r \<Longrightarrow> (\<And>x. keeps (f x)) \<Longrightarrow> keeps (and_then r f)"
  "fueled r \<Longrightarrow> (\<And>x. leaves n (g x)) \<Longrightarrow> leaves n (and_then r g)"
  "fueled r \<Longrightarrow> (\<And>x. gives n (h x)) \<Longrightarrow> gives n (and_then r h)"
  by (cases r; simp)+

lemma ends_if [ends_intros]:
  "(b \<Longrightarrow> keeps x) \<Longrightarrow> (\<not> b \<Longrightarrow> keeps x') \<Longrightarrow> keeps (if b then x else x')"
  "(b \<Longrightarrow> leaves n y) \<Longrightarrow> (\<not> b \<Longrightarrow> leaves n y') \<Longrightarrow> leaves n (if b then y else y')"
  "(b \<Longrightarrow> gives n z) \<Longrightarrow> (\<not> b \<Longrightarrow> gives n z') \<Longrightarrow> gives n (if b then z else z')"
  by simp_all

lemma ends_option [ends_intros]:
  "keeps a \<Longrightarrow> (\<And>x. keeps (f x)) \<Longrightarrow> keeps (case z of None \<Rightarrow> a | Some x \<Rightarrow> f x)"
  "leaves n b \<Longrightarrow> (\<And>x. leaves n (g x)) \<Longrightarrow> leaves n (case z of None \<Rightarrow> b | Some x \<Rightarrow> g x)"
  "gives n c \<Longrightarrow> (\<And>x. gives n (h x)) \<Longrightarrow> gives n (case z of None \<Rightarrow> c | Some x \<Rightarrow> h x)"
  by (cases z; simp)+

lemma ends_list [ends_intros]:
  "leaves n b \<Longrightarrow> (\<And>x xs. l = x # xs \<Longrightarrow> leaves n (g x xs)) \<Longrightarrow> leaves n (case l of [] \<Rightarrow> b | x # xs \<Rightarrow> g x xs)"
  "gives n c \<Longrightarrow> (\<And>x xs. l = x # xs \<Longrightarrow> gives n (h x xs)) \<Longrightarrow> gives n (case l of [] \<Rightarrow> c | x # xs \<Rightarrow> h x xs)"
  by (cases l; simp)+

text \<open>The text behind a part of it.\<close>

lemma shorter_text [simp]:
  "length s \<le> n \<Longrightarrow> length (skip_whitespace s) \<le> n" "length s \<le> n \<Longrightarrow> length (restore_line_pointer s) \<le> n"
  "length s \<le> n \<Longrightarrow> length (skip_to_end s) \<le> n" "length s \<le> n \<Longrightarrow> length (dropWhile P s) \<le> n"
  using length_dropWhile_le [of "\<lambda>c. \<not> is_end_of_line c" s] length_dropWhile_le [of P s]
  by (auto simp: skip_to_end_def intro: order_trans [OF skip_whitespace_le] order_trans [OF restore_line_pointer_le])

lemma minus_one_le [simp]: "m \<le> n \<Longrightarrow> m - Suc 0 \<le> n"
  by simp

lemma shorter_tail [simp]: "length s \<le> n \<Longrightarrow> length (skip_whitespace s) - Suc 0 \<le> n"
  by (rule order_trans [OF diff_le_self shorter_text(1)])

subsection \<open>Lines, expressions and strings\<close>

lemma lift_gs_keeps: "fueled (f (rd_gs rs)) \<Longrightarrow> rd_ok rs \<Longrightarrow> keeps (lift_gs f rs)"
  by (auto simp: lift_gs_def keeps_def and_then_Inr_iff intro!: fueled_and_then)

lemma s_ignore_leaves [ends_intros]: "length s \<le> n \<Longrightarrow> rd_ok rs \<Longrightarrow> leaves n (s_ignore s rs)"
  by (auto simp: s_ignore_def leaves_def and_then_Inr_iff intro!: fueled_and_then ignore_rest_of_line_reads(1)
      dest: ignore_rest_of_line_reads(2))

lemma demand_leaves [ends_intros]: "length s \<le> n \<Longrightarrow> rd_ok rs \<Longrightarrow> leaves n (demand_empty_rest_of_line s rs)"
  unfolding demand_empty_rest_of_line_def Let_def using shorter_text(1) [of s n]
  by (intro ends_intros) (auto simp del: shorter_text)

lemma read_expression_gives [ends_intros]:
  assumes "length s \<le> n" and "rd_ok rs"
  shows "gives n (read_expression mode s rs)"
proof -
  have ok: "atof_ok (rd_atof rs)" using assms(2) by (simp add: rd_ok_def)
  have "fueled (parse_expression (rd_atof rs) mode s (rd_gs rs))"
    using parse_fueled(2) [OF ok, of s "expr_fuel s" mode 0 "rd_gs rs"] by (simp add: parse_expression_def expr_fuel_def)
  then show ?thesis
    using assms parse_rest(2) [OF ok, of mode "expr_fuel s" 0 s "rd_gs rs"]
    by (fastforce simp: read_expression_def gives_def and_then_Inr_iff parse_expression_def intro!: fueled_and_then)
qed

lemma expressions_give [ends_intros]:
  assumes "length s \<le> n" and "rd_ok rs"
  shows "gives n (get_absolute_expr s rs)" "gives n (get_absolute_expression s rs)"
    "gives n (get_segmented_expression s rs)" "gives n (get_known_segmented_expression s rs)"
proof -
  show 1: "gives n (get_absolute_expr s rs)"
    unfolding get_absolute_expr_def case_prod_beta by (intro ends_intros) (simp_all add: assms)
  then show "gives n (get_absolute_expression s rs)"
    unfolding get_absolute_expression_def case_prod_beta by (intro ends_intros) simp_all
  show 2: "gives n (get_segmented_expression s rs)"
    unfolding get_segmented_expression_def case_prod_beta by (intro ends_intros) (simp_all add: assms)
  then show "gives n (get_known_segmented_expression s rs)"
    unfolding get_known_segmented_expression_def case_prod_beta by (intro ends_intros) simp_all
qed

definition sized :: "nat \<Rightarrow> byte option \<times> string \<times> reader_state \<Rightarrow> bool" where
  "sized n p \<longleftrightarrow> length (fst (snd p)) \<le> n \<and> rd_ok (snd (snd p))"

lemma string_escape_ends: "length s \<le> n \<Longrightarrow> rd_ok rs \<Longrightarrow> sized n (string_escape s rs)"
  by (auto simp: string_escape_def Let_def sized_def)

lemma next_char_ends: "length s \<le> n \<Longrightarrow> rd_ok rs \<Longrightarrow> sized n (next_char_of_string s rs)"
  using string_escape_ends [of "tl s" n rs] by (auto simp: next_char_of_string_def Let_def sized_def)

lemma string_chars_ends:
  "length s \<le> n \<Longrightarrow> rd_ok rs \<Longrightarrow> length (fst (snd (string_chars s rs))) \<le> n \<and> rd_ok (snd (snd (string_chars s rs)))"
proof (induction s rs rule: string_chars.induct)
  case (1 s rs)
  obtain b s1 rs1 where n: "next_char_of_string s rs = (b, s1, rs1)" by (metis surj_pair)
  have "length s1 \<le> n" "rd_ok rs1" using next_char_ends [OF 1(2,3)] n by (simp_all add: sized_def)
  then show ?case using 1(1) n by (cases b) (auto simp: string_chars.simps [of s rs] case_prod_beta)
qed

lemma copy_strings_give [ends_intros]:
  assumes "length s \<le> n" and "rd_ok rs"
  shows "gives n (demand_copy_string s rs)" "gives n (demand_copy_C_string s rs)"
proof -
  show 1: "gives n (demand_copy_string s rs)"
    unfolding demand_copy_string_def Let_def case_prod_beta
    using string_chars_ends [of "tl (skip_whitespace s)" n rs] assms shorter_text(1) [of s n]
    by (intro ends_intros) (simp_all del: length_tl)
  then show "gives n (demand_copy_C_string s rs)"
    unfolding demand_copy_C_string_def case_prod_beta by (intro ends_intros) (simp_all split: option.split list.split)
qed

lemma read_symbol_name_gives [ends_intros]:
  assumes "length s \<le> n" and "rd_ok rs"
  shows "gives n (read_symbol_name s rs)"
proof -
  have "length (fst (snd (string_chars t rs))) \<le> n" "rd_ok (snd (snd (string_chars t rs)))" if "s = c # t" for c t
    using string_chars_ends [of t n rs] assms that by auto
  then show ?thesis
    unfolding read_symbol_name_def Let_def case_prod_beta using assms by (intro ends_intros) simp_all
qed

lemma get_symbol_name_short [simp]: "length s \<le> n \<Longrightarrow> length (fst (snd (get_symbol_name s gs))) \<le> n"
  by (rule order_trans [OF get_symbol_name_le])

subsection \<open>Storing data\<close>

lemma symbols_fueled [fueled_intros]:
  "fueled (S_SET_SEGMENT i seg gs)" "fueled (S_SET_EXTERNAL i gs)" "fueled (symbol_set_value_now i gs)"
  "fueled (converted_symbol i gs)" "fueled (S_GET_VALUE i gs)" "fueled (symbol_clone i b gs)"
proof -
  show *: "fueled (S_SET_SEGMENT i seg gs)" for i seg gs
    unfolding S_SET_SEGMENT_def by (intro fueled_intros converted_symbol_fueled)
  show "fueled (symbol_set_value_now i gs)" unfolding symbol_set_value_now_def by (intro fueled_intros *)
qed (unfold S_SET_EXTERNAL_def symbol_clone_def Let_def case_prod_beta,
    (intro fueled_intros converted_symbol_fueled S_GET_VALUE_fueled)+)

lemma colon_fueled [fueled_intros]: "fueled (colon name gs)"
  unfolding colon_def colon_again_def colon_undefined_def define_sym_at_dot_def Let_def by (intro fueled_intros)

lemma frags_fueled [fueled_intros]:
  "fueled (frag_append_1_char b fc)" "fueled (frag_align k c m fc)" "fueled (frag_align_pattern k bs m fc)"
  "fueled (frag_align_code k m fc)" "fueled (riscv_frag_align_code k gs)" "fueled (store_more k bs fc)"
  unfolding frag_append_1_char_def frag_align_def frag_align_pattern_def frag_align_code_def riscv_frag_align_code_def
    store_more_def Let_def case_prod_beta
  by (intro fueled_intros)+

lemma on_frags_keeps [ends_intros]: "(\<And>fc. fueled (f fc)) \<Longrightarrow> rd_ok rs \<Longrightarrow> keeps (on_frags f rs)"
  unfolding on_frags_def by (intro lift_gs_keeps fueled_intros)

lemma storing_keeps [ends_intros]:
  "rd_ok rs \<Longrightarrow> keeps (emit_part k bs rs)" "rd_ok rs \<Longrightarrow> keeps (var_bytes type m var subtype symbol offset bs rs)"
  unfolding emit_part_def var_bytes_def case_prod_beta by (intro ends_intros fueled_intros; simp)+

lemma append_chars_keeps [ends_intros]: "rd_ok rs \<Longrightarrow> keeps (append_chars bs rs)"
  by (induction bs arbitrary: rs) (auto intro!: ends_intros fueled_intros)

subsection \<open>Data directives\<close>

lemma uminus_bignum_fueled [fueled_intros]: "fueled (uminus_bignum e gs)"
  unfolding uminus_bignum_def Let_def by (intro fueled_intros)

lemma emit_constant_keeps [ends_intros]: "rd_ok rs \<Longrightarrow> keeps (emit_constant get nbytes rs)"
  unfolding emit_constant_def Let_def by (intro ends_intros) simp_all

lemma emit_bignum_keeps [ends_intros]: "rd_ok rs \<Longrightarrow> keeps (emit_bignum k nbytes extra rs)"
  unfolding emit_bignum_def Let_def by (intro ends_intros) simp_all

lemma frag_more_bind_keeps [ends_intros]:
  "(\<And>p fc. keeps (f p fc)) \<Longrightarrow> keeps (and_then (frag_more k fc) (\<lambda>(p, fc). f p fc))"
  by (rule fueled_bind) (simp_all add: fueled_intros split: prod.split)

lemma emit_expr_fix_keeps [ends_intros]: "rd_ok rs \<Longrightarrow> keeps (emit_expr_fix e nbytes rs)"
  unfolding emit_expr_fix_def Let_def by (intro ends_intros lift_gs_keeps fueled_intros) simp_all

lemma rd_ok_operand [simp]:
  "rd_ok (no_value_in_bss op e rs) = rd_ok rs" "rd_ok (no_value_in_absolute op e rs) = rd_ok rs"
  "rd_ok (snd (snd (plain_operand op e rs))) = rd_ok rs"
  by (simp_all add: no_value_in_bss_def no_value_in_absolute_def plain_operand_def)

text \<open>A step with a value and no text.\<close>

definition keeps2 :: "('a \<times> reader_state) res \<Rightarrow> bool" where
  "keeps2 r \<longleftrightarrow> fueled r \<and> (\<forall>p. r = Inr p \<longrightarrow> rd_ok (snd p))"

lemma keeps2_simps [simp]: "keeps2 (Inr p) = rd_ok (snd p)" "keeps2 (Inl e) \<longleftrightarrow> e \<noteq> Out_of_fuel"
  by (simp_all add: keeps2_def)

lemma keeps2_bind [ends_intros]:
  "keeps r \<Longrightarrow> (\<And>rs. rd_ok rs \<Longrightarrow> keeps2 (f rs)) \<Longrightarrow> keeps2 (and_then r f)"
  by (cases r; simp)

lemma bind_keeps2 [ends_intros]:
  "keeps2 r2 \<Longrightarrow> (\<And>p. rd_ok (snd p) \<Longrightarrow> keeps2 (g p)) \<Longrightarrow> keeps2 (and_then r2 g)"
  "keeps2 r2 \<Longrightarrow> (\<And>p. rd_ok (snd p) \<Longrightarrow> keeps (h p)) \<Longrightarrow> keeps (and_then r2 h)"
  "keeps2 r2 \<Longrightarrow> (\<And>p. rd_ok (snd p) \<Longrightarrow> leaves n (k p)) \<Longrightarrow> leaves n (and_then r2 k)"
  by (cases r2; simp)+

lemma keeps2_values [ends_intros]:
  "rd_ok rs \<Longrightarrow> keeps2 (Inr (x, rs))" "(b \<Longrightarrow> keeps2 y) \<Longrightarrow> (\<not> b \<Longrightarrow> keeps2 y') \<Longrightarrow> keeps2 (if b then y else y')"
  "keeps2 c \<Longrightarrow> (\<And>x. keeps2 (g x)) \<Longrightarrow> keeps2 (case z of None \<Rightarrow> c | Some x \<Rightarrow> g x)"
  by (simp_all split: option.split)

lemma fueled_bind2: "fueled r \<Longrightarrow> (\<And>x. keeps2 (f x)) \<Longrightarrow> keeps2 (and_then r f)"
  by (cases r; simp)

lemma emit_value_keeps [ends_intros]: "rd_ok rs \<Longrightarrow> keeps2 (emit_value op e nbytes extra rs)"
  unfolding emit_value_def Let_def case_prod_beta by (intro ends_intros) simp_all

lemma emit_operand_keeps [ends_intros]: "rd_ok rs \<Longrightarrow> keeps2 (emit_operand e nbytes extra op rs)"
  unfolding emit_operand_def Let_def case_prod_beta by (intro ends_intros) simp_all

lemma emit_checked_keeps [ends_intros]: "rd_ok rs \<Longrightarrow> keeps2 (emit_checked e nbytes rs)"
  unfolding emit_checked_def Let_def case_prod_beta by (rule fueled_bind2) (intro fueled_intros ends_intros; simp)+

lemma emit_expr_with_reloc_keeps [ends_intros]: "rd_ok rs \<Longrightarrow> keeps2 (emit_expr_with_reloc e nbytes rs)"
  unfolding emit_expr_with_reloc_def Let_def case_prod_beta by (intro ends_intros fueled_intros) simp_all

lemma emit_expr_keeps [ends_intros]: "rd_ok rs \<Longrightarrow> keeps (emit_expr e nbytes rs)"
  unfolding emit_expr_def case_prod_beta by (intro ends_intros) simp_all

text \<open>Every comma takes a character, so the fuel of the loop is enough.\<close>

lemma cons_loop_leaves:
  "length s < k \<Longrightarrow> length s \<le> n \<Longrightarrow> rd_ok rs \<Longrightarrow> leaves n (cons_loop k nbytes rva s rs)"
proof (induction k arbitrary: s rs)
  case (Suc k)
  have rest: "leaves n (if c_char t = CHR '','' then cons_loop k nbytes rva (tl t) rs else Inr (t, rs))"
    if "length t \<le> length s" "rd_ok rs" for t rs
    using that Suc.IH [of "tl t" rs] Suc.prems by (cases t) auto
  obtain r where r: "read_expression Expr_normal s rs = r" by simp
  have g: "gives (length s) r" using read_expression_gives [of s "length s" rs Expr_normal] Suc.prems by (simp add: r)
  show ?case
  proof (cases r)
    case (Inr p)
    obtain seg e t rs1 where p: "p = ((seg, e), t, rs1)" by (metis surj_pair)
    have t: "length t \<le> length s" "rd_ok rs1" using g Inr p by simp_all
    show ?thesis
      unfolding cons_loop.simps r Inr p and_then_simps prod.case
      by (intro fueled_bind(2) [where 'a = expressionS] fueled_intros keeps_bind(2) emit_expr_keeps rest t) simp_all
  qed (use g r in simp)
qed simp

lemma cons_leaves [ends_intros]: "length s \<le> n \<Longrightarrow> rd_ok rs \<Longrightarrow> leaves n (cons_worker nbytes rva s rs)"
  unfolding cons_worker_def case_prod_beta
  by (intro ends_intros cons_loop_leaves) (simp_all add: le_imp_less_Suc)

lemma emit_big_leb128_keeps [ends_intros]: "rd_ok rs \<Longrightarrow> keeps (emit_big_leb128 e sign rs)"
proof -
  have "fueled (big_sleb_loop v l ds)" for v l ds
    by (induction v l ds rule: big_sleb_loop.induct) (auto simp: Let_def intro!: fueled_intros split: prod.split)
  then have "fueled (output_big_leb128 ds sign)" for ds
    by (simp add: output_big_leb128_def output_big_sleb128_def)
  then show "rd_ok rs \<Longrightarrow> keeps (emit_big_leb128 e sign rs)"
    unfolding emit_big_leb128_def Let_def by (intro fueled_bind(1) ends_intros) simp_all
qed

lemma emit_leb128_expr_keeps [ends_intros]: "rd_ok rs \<Longrightarrow> keeps (emit_leb128_expr e sign rs)"
  unfolding emit_leb128_expr_def Let_def case_prod_beta by (intro ends_intros) simp_all

lemma leb128_loop_leaves:
  "length s < k \<Longrightarrow> length s \<le> n \<Longrightarrow> rd_ok rs \<Longrightarrow> leaves n (leb128_loop k sign s rs)"
proof (induction k arbitrary: s rs)
  case (Suc k)
  have rest: "leaves n (if c_char t = CHR '','' then leb128_loop k sign (tl t) rs else Inr (t, rs))"
    if "length t \<le> length s" "rd_ok rs" for t rs
    using that Suc.IH [of "tl t" rs] Suc.prems by (cases t) auto
  obtain r where r: "read_expression Expr_defer s rs = r" by simp
  have g: "gives (length s) r" using read_expression_gives [of s "length s" rs Expr_defer] Suc.prems by (simp add: r)
  show ?case
  proof (cases r)
    case (Inr p)
    obtain seg e t rs1 where p: "p = ((seg, e), t, rs1)" by (metis surj_pair)
    have t: "length t \<le> length s" "rd_ok rs1" using g Inr p by simp_all
    show ?thesis
      unfolding leb128_loop.simps r Inr p and_then_simps prod.case by (intro keeps_bind(2) emit_leb128_expr_keeps rest t)
  qed (use g r in simp)
qed simp

lemma leb128_leaves [ends_intros]: "length s \<le> n \<Longrightarrow> rd_ok rs \<Longrightarrow> leaves n (s_leb128 sign s rs)"
  unfolding s_leb128_def case_prod_beta by (intro ends_intros leb128_loop_leaves) simp_all

lemma stringer_append_char_keeps [ends_intros]: "rd_ok rs \<Longrightarrow> keeps (stringer_append_char c bitsize rs)"
  unfolding stringer_append_char_def Let_def by (intro ends_intros) simp_all

lemma append_string_leaves:
  "length s \<le> n \<Longrightarrow> rd_ok rs \<Longrightarrow> leaves n (append_string bitsize s rs)"
proof (induction bitsize s rs rule: append_string.induct)
  case (1 bitsize s rs)
  obtain b s1 rs1 where c: "next_char_of_string s rs = (b, s1, rs1)" by (metis surj_pair)
  have s1: "length s1 \<le> n" "rd_ok rs1" using next_char_ends [OF 1(2,3)] c by (simp_all add: sized_def)
  show ?case
  proof (cases b)
    case (Some v)
    have "keeps (stringer_append_char (ucast v) bitsize rs1)" using s1(2) by (rule stringer_append_char_keeps)
    then show ?thesis using 1(1) c s1 Some by (auto simp: append_string.simps [of bitsize s rs] split: sum.split)
  qed (use c s1 in \<open>simp add: append_string.simps [of bitsize s rs]\<close>)
qed

lemma get_single_number_reads: "atof_ok atof \<Longrightarrow> reads s (get_single_number atof s gs)"
proof -
  assume ok: "atof_ok atof"
  have "fueled (operand atof Expr_normal (expr_fuel s) s gs)" by (rule parse_fueled(1) [OF ok]) (simp add: expr_fuel_def)
  then show ?thesis
    using parse_rest(1) [OF ok, of Expr_normal "expr_fuel s" s gs]
    by (cases "operand atof Expr_normal (expr_fuel s) s gs") (auto simp: get_single_number_def case_prod_beta)
qed

abbreviation (input) string_part :: "char \<Rightarrow> bool" where
  "string_part c \<equiv> c = CHR '','' \<or> c = CHR ''<'' \<or> c = CHR 0x22"

lemma stringer_part_leaves:
  assumes "length (tl s) \<le> n" and "rd_ok rs" and "string_part (c_char s)"
  shows "leaves n (stringer_part bitsize z s rs)"
proof -
  have rest: "leaves n (and_then (stringer_append_char v bitsize (rs\<lparr>rd_gs := g\<rparr>)) (\<lambda>rs.
      case t of [] \<Rightarrow> Inl Abort
      | d # t \<Rightarrow> Inr (t, if d \<noteq> CHR ''>'' then rd_bad (Diag ''expected <nn>'' []) rs else rs)))"
    if "length t \<le> n" for v t g
    using that assms(2) by (intro ends_intros) auto
  have "leaves n (and_then (get_single_number (rd_atof rs) (tl s) (rd_gs rs)) (\<lambda>(v, t, g).
      and_then (stringer_append_char v bitsize (rs\<lparr>rd_gs := g\<rparr>)) (\<lambda>rs.
      case t of [] \<Rightarrow> Inl Abort
      | d # t \<Rightarrow> Inr (t, if d \<noteq> CHR ''>'' then rd_bad (Diag ''expected <nn>'' []) rs else rs))))"
    using get_single_number_reads [of "rd_atof rs" "tl s" "rd_gs rs"] rest assms
    by (cases "get_single_number (rd_atof rs) (tl s) (rd_gs rs)") (auto simp: rd_ok_def case_prod_beta)
  moreover have "leaves n (append_string bitsize (tl s) rs)" using assms(1,2) by (rule append_string_leaves)
  moreover have "leaves n (and_then (if z then stringer_append_char 0 bitsize rs else Inr rs) (\<lambda>rs. Inr (t, rs)))"
    if "length t \<le> n" "rd_ok rs" for t rs using that by (intro ends_intros) simp_all
  ultimately show ?thesis
    using assms by (auto simp: stringer_part_def Let_def case_prod_beta intro!: leaves_bind(2) simp del: length_tl)
qed

lemma skip_shorter: "skip_whitespace t \<noteq> t \<Longrightarrow> length (skip_whitespace t) < length t"
  by (cases t) (auto simp: skip_whitespace_def split: if_splits)

lemma stringer_loop_leaves:
  "length s < k \<Longrightarrow> length s \<le> n \<Longrightarrow> rd_ok rs \<Longrightarrow> leaves n (stringer_loop k bitsize z s rs)"
proof (induction k arbitrary: s rs)
  case (Suc k)
  let ?t = "skip_whitespace s"
  have t: "length ?t \<le> length s" by simp
  have rest: "leaves n (let s = skip_whitespace u in if string_part (c_char s) then stringer_loop k bitsize z s rs else Inr (s, rs))"
    if "length u \<le> length s" "rd_ok rs" "string_part (c_char (skip_whitespace u)) \<Longrightarrow> length (skip_whitespace u) < length s"
    for u rs
    using that Suc.IH [of "skip_whitespace u" rs] Suc.prems shorter_text(1) [of u n] by (auto simp: Let_def)
  show ?case
  proof (cases "string_part (c_char ?t)")
    case True
    then have ne: "?t \<noteq> []" by auto
    have "leaves (length ?t - 1) (stringer_part bitsize z ?t rs)"
      using True Suc.prems(3) by (intro stringer_part_leaves) simp_all
    note part = this
    have less: "length ?t - 1 < length s" using t ne by (cases ?t) auto
    show ?thesis
    proof (cases "stringer_part bitsize z ?t rs")
      case (Inr p)
      then have "length (fst p) < length s" "rd_ok (snd p)" using part less by auto
      then have "leaves n (let s = skip_whitespace (fst p) in if string_part (c_char s) then stringer_loop k bitsize z s (snd p)
          else Inr (s, snd p))"
        by (intro rest) (auto intro: le_less_trans [OF shorter_text(1) [OF order_refl]])
      then show ?thesis by (simp add: Inr case_prod_beta)
    qed (use part in simp)
  next
    case False
    then have "stringer_part bitsize z ?t rs = Inr (?t, rs)" by (auto simp: stringer_part_def Let_def)
    moreover have "length (skip_whitespace ?t) < length s" if "string_part (c_char (skip_whitespace ?t))"
    proof -
      have "skip_whitespace ?t \<noteq> ?t" using False that by auto
      then have "length (skip_whitespace ?t) < length ?t" by (rule skip_shorter)
      then show ?thesis using t by (rule less_le_trans)
    qed
    ultimately show ?thesis using rest [of ?t rs] Suc.prems by simp
  qed
qed simp

lemma stringer_leaves [ends_intros]: "length s \<le> n \<Longrightarrow> rd_ok rs \<Longrightarrow> leaves n (stringer k s rs)"
  unfolding stringer_def case_prod_beta using shorter_text(1) [of s n]
  by (intro ends_intros stringer_loop_leaves) (auto simp: le_imp_less_Suc simp del: shorter_text)

subsection \<open>Alignment, space and symbols\<close>

lemma gives_values [ends_intros]:
  "(case p of (x, s, rs) \<Rightarrow> length s \<le> n \<and> rd_ok rs) \<Longrightarrow> gives n (Inr p)"
  by (simp add: case_prod_beta)

lemma rd_ok_fills [simp]:
  "rd_ok (ignored_fill bs rs) = rd_ok rs" "rd_ok (snd (power_of_two al rs)) = rd_ok rs" "rd_ok (snd (limit_align al rs)) = rd_ok rs"
  "rd_ok (snd (fill_pattern arg v rs)) = rd_ok rs" "rd_ok (snd (fill_size e sz rs)) = rd_ok rs"
  "rd_ok (fill_checked e sz v rs) = rd_ok rs"
  by (simp_all add: ignored_fill_def power_of_two_def limit_align_def fill_pattern_def fill_size_def fill_checked_def
      Let_def case_prod_beta)

lemma align_frag_keeps [ends_intros]: "rd_ok rs \<Longrightarrow> keeps (align_frag k fill max_skip rs)"
  unfolding align_frag_def by (intro ends_intros) (auto intro!: fueled_intros split: option.split)

lemma align_code_keeps2 [ends_intros]:
  "rd_ok rs \<Longrightarrow> keeps2 (and_then (riscv_frag_align_code k gs) (\<lambda>p. Inr (fst p, rs\<lparr>rd_gs := snd p\<rparr>)))"
  by (auto intro!: fueled_bind2 fueled_intros)

lemma do_align_keeps [ends_intros]: "rd_ok rs \<Longrightarrow> keeps (do_align k fill max_skip rs)"
  unfolding do_align_def Let_def case_prod_beta by (intro ends_intros) (simp_all split: option.split)

lemma align_operands_gives [ends_intros]: "length s \<le> n \<Longrightarrow> rd_ok rs \<Longrightarrow> gives n (align_operands s rs)"
  unfolding align_operands_def Let_def case_prod_beta by (intro ends_intros) simp_all

lemma s_align_leaves [ends_intros]: "length s \<le> n \<Longrightarrow> rd_ok rs \<Longrightarrow> leaves n (s_align arg bytes_p s rs)"
  unfolding s_align_def Let_def case_prod_beta by (intro ends_intros) (simp_all split: option.split)

lemma optional_absolute_gives [ends_intros]: "length s \<le> n \<Longrightarrow> rd_ok rs \<Longrightarrow> gives n (optional_absolute v s rs)"
  unfolding optional_absolute_def case_prod_beta by (intro ends_intros) simp_all

lemma s_fill_leaves [ends_intros]: "length s \<le> n \<Longrightarrow> rd_ok rs \<Longrightarrow> leaves n (s_fill s rs)"
  unfolding s_fill_def Let_def case_prod_beta by (intro ends_intros) simp_all

lemma emit_times_keeps [ends_intros]: "rd_ok rs \<Longrightarrow> keeps (emit_times k e nbytes rs)"
proof (induction k arbitrary: e rs)
  case (Suc k)
  show ?case unfolding emit_times.simps case_prod_beta by (intro bind_keeps2 ends_intros Suc)
qed simp

lemma resolved_operand_fueled [fueled_intros]: "fueled (resolved_operand e gs)"
  unfolding resolved_operand_def by (intro fueled_intros resolve_expression_fueled)

lemma space_keeps [ends_intros]:
  assumes "rd_ok rs"
  shows "keeps (space_values k e v rs)" "keeps (space_bytes k e v rs)"
proof -
  show "keeps (space_values k e v rs)"
    unfolding space_values_def by (intro fueled_bind(1) fueled_intros ends_intros) (simp_all add: assms)
  have frag: "rd_ok rs \<Longrightarrow> keeps (space_frag type symbol offset v rs)" for type symbol offset rs
    unfolding space_frag_def Let_def by (intro ends_intros) simp_all
  show "keeps (space_bytes k e v rs)"
    unfolding space_bytes_def Let_def case_prod_beta
    by (intro fueled_bind(1) fueled_intros ends_if frag ends_values) (simp_all add: assms)
qed

lemma s_space_leaves [ends_intros]: "length s \<le> n \<Longrightarrow> rd_ok rs \<Longrightarrow> leaves n (s_space k s rs)"
  unfolding s_space_def Let_def case_prod_beta by (intro ends_intros) simp_all

lemma s_nops_leaves [ends_intros]: "length s \<le> n \<Longrightarrow> rd_ok rs \<Longrightarrow> leaves n (s_nops s rs)"
  unfolding s_nops_def Let_def case_prod_beta by (intro ends_intros) simp_all

lemma s_org_leaves [ends_intros]: "length s \<le> n \<Longrightarrow> rd_ok rs \<Longrightarrow> leaves n (s_org s rs)"
proof -
  have "rd_ok rs \<Longrightarrow> keeps (do_org seg e v rs)" for seg e v rs
    unfolding do_org_def Let_def case_prod_beta by (intro ends_intros) simp_all
  then show "length s \<le> n \<Longrightarrow> rd_ok rs \<Longrightarrow> leaves n (s_org s rs)"
    unfolding s_org_def case_prod_beta by (intro ends_intros) simp_all
qed

lemma s_org_gives_globl: "rd_ok rs \<Longrightarrow> keeps (lift_gs (S_SET_EXTERNAL i) (rs\<lparr>rd_gs := gs\<rparr>))"
  by (rule lift_gs_keeps) (simp_all add: fueled_intros)

text \<open>A name that is read is at least one character.\<close>

lemma read_symbol_name_shorter:
  assumes "read_symbol_name s rs = Inr (Some name, s', rs')" and "rd_ok rs"
  shows "length s' < length s"
proof (cases s)
  case (Cons c t)
  obtain bs u rs1 where u: "string_chars t rs = (bs, u, rs1)" by (metis surj_pair)
  have "length u \<le> length t" using string_chars_ends [of t "length t" rs] assms(2) u by simp
  then have "length (skip_whitespace u) \<le> length t" "length (skip_whitespace (dropWhile is_part_of_name t)) \<le> length t"
    by simp_all
  then show ?thesis
    using assms(1) u by (auto simp: Cons read_symbol_name_def Let_def and_then_Inr_iff less_Suc_eq_le split: if_splits)
qed (use assms in \<open>simp add: read_symbol_name_def\<close>)

lemma globl_loop_leaves:
  "length s < k \<Longrightarrow> length s \<le> n \<Longrightarrow> rd_ok rs \<Longrightarrow> leaves n (globl_loop k s rs)"
proof (induction k arbitrary: s rs)
  case (Suc k)
  have g: "gives (length s) (read_symbol_name s rs)" using read_symbol_name_gives [of s "length s" rs] Suc.prems by simp
  show ?case
  proof (cases "read_symbol_name s rs")
    case (Inr p)
    obtain name t rs1 where p: "p = (name, t, rs1)" by (metis surj_pair)
    have t: "length t \<le> n" "rd_ok rs1" using g Inr p Suc.prems by simp_all
    show ?thesis
    proof (cases name)
      case (Some nm)
      have less: "length t < length s" using read_symbol_name_shorter [of s rs] Inr p Some Suc.prems by simp
      have ext: "fueled (S_SET_EXTERNAL i gs)" for i gs by (rule fueled_intros)
      have rec: "leaves n (globl_loop k (skip_whitespace (tl (skip_whitespace t))) rs2)" if "rd_ok rs2" for rs2
      proof (rule Suc.IH [OF _ _ that])
        have "length (skip_whitespace (tl (skip_whitespace t))) \<le> length t" by simp
        then show "length (skip_whitespace (tl (skip_whitespace t))) < k" "length (skip_whitespace (tl (skip_whitespace t))) \<le> n"
          using less t Suc.prems by linarith+
      qed
      show ?thesis
        unfolding globl_loop.simps Inr p and_then_simps prod.case Some Let_def case_prod_beta fst_conv snd_conv option.case
        by (intro fueled_bind(2) ext ends_if demand_leaves rec) (simp_all add: t)
    qed (use Inr p t in simp)
  qed (use g in simp)
qed simp

lemma s_globl_leaves [ends_intros]: "length s \<le> n \<Longrightarrow> rd_ok rs \<Longrightarrow> leaves n (s_globl s rs)"
  unfolding s_globl_def by (rule globl_loop_leaves) simp_all

lemma messages_leave [ends_intros]:
  assumes "length s \<le> n" and "rd_ok rs"
  shows "leaves n (s_err s rs)" "leaves n (s_errwarn err s rs)" "leaves n (s_fail s rs)" "leaves n (s_print s rs)"
    "leaves n (s_bad_end b s rs)" "leaves n (s_abort s rs)"
  unfolding s_err_def s_errwarn_def s_fail_def s_print_def s_bad_end_def s_abort_def Let_def case_prod_beta
  by (intro ends_intros; simp add: assms)+

lemma s_lsym_leaves [ends_intros]: "length s \<le> n \<Longrightarrow> rd_ok rs \<Longrightarrow> leaves n (s_lsym s rs)"
proof -
  have "leaves n (and_then (S_SET_SEGMENT i seg gs) (\<lambda>gs. demand_empty_rest_of_line s (rs\<lparr>rd_gs := f gs\<rparr>)))"
    if "length s \<le> n" "rd_ok rs" for i seg gs s rs f
    using that by (intro fueled_bind(2) fueled_intros ends_intros) simp_all
  then show "length s \<le> n \<Longrightarrow> rd_ok rs \<Longrightarrow> leaves n (s_lsym s rs)"
    unfolding s_lsym_def Let_def case_prod_beta by (intro ends_intros) (simp_all add: expected_comma_def)
qed

subsection \<open>Conditionals\<close>

lemma condition_fueled [fueled_intros]: "fueled (condition_holds op v)"
  by (cases op) (simp_all add: condition_holds_def)

lemma read_condition_gives [ends_intros]: "length s \<le> n \<Longrightarrow> rd_ok rs \<Longrightarrow> gives n (read_condition d op s rs)"
proof -
  have "gives n (and_then (condition_holds op v) (\<lambda>t. Inr (t, s, rs)))" if "length s \<le> n" "rd_ok rs" for v s rs
    using that by (intro fueled_bind(3) fueled_intros ends_intros) simp_all
  then show "length s \<le> n \<Longrightarrow> rd_ok rs \<Longrightarrow> gives n (read_condition d op s rs)"
    unfolding read_condition_def case_prod_beta by (intro ends_intros) simp_all
qed

lemma get_mri_string_le [simp]: "length s \<le> n \<Longrightarrow> length (snd (get_mri_string c s)) \<le> n"
proof -
  have q: "length (snd (mri_quoted t)) \<le> length t" for t
  proof (induction t rule: mri_quoted.induct)
    case (2 c t)
    show ?case
    proof (cases "is_end_of_line c")
      case False
      then have "length (snd (mri_quoted t)) \<le> Suc (length t)" if "c \<noteq> CHR 0x27" using 2(2) that by simp
      moreover have "length (snd (mri_quoted (tl t))) \<le> Suc (length t)" if "c = CHR 0x27" "t = CHR 0x27 # u" for u
        using 2(1) False that by simp
      ultimately show ?thesis using False
        by (subst mri_quoted.simps(2)) (auto simp: Let_def case_prod_beta simp del: mri_quoted.simps split: list.split)
    qed simp
  qed simp
  assume n: "length s \<le> n"
  have "length (snd (mri_quoted (tl (skip_whitespace s)))) \<le> n"
    by (rule order_trans [OF q]) (use n in simp)
  then show ?thesis using n by (simp add: get_mri_string_def Let_def case_prod_beta)
qed

lemma conditionals_leave [ends_intros]:
  assumes "length s \<le> n" and "rd_ok rs"
  shows "leaves n (s_if op s rs)" "leaves n (s_ifdef b s rs)" "leaves n (s_ifb b s rs)" "leaves n (s_ifc b s rs)"
    "leaves n (s_ifeqs b s rs)" "leaves n (s_elseif op s rs)" "leaves n (s_endif s rs)" "leaves n (s_else s rs)"
proof -
  have c: "gives n (and_then (condition_holds op 0) (\<lambda>t. Inr (t, s, rs)))" if "length s \<le> n" "rd_ok rs" for s rs
    using that by (intro fueled_bind(3) fueled_intros ends_intros) simp_all
  show "leaves n (s_if op s rs)" unfolding s_if_def case_prod_beta by (intro c ends_intros) (simp_all add: assms)
  show "leaves n (s_ifdef b s rs)" "leaves n (s_ifb b s rs)" "leaves n (s_ifc b s rs)" "leaves n (s_ifeqs b s rs)"
    unfolding s_ifdef_def s_ifb_def s_ifc_def s_ifeqs_def Let_def case_prod_beta
    by (intro ends_intros; simp add: assms)+
  show "leaves n (s_elseif op s rs)" "leaves n (s_endif s rs)" "leaves n (s_else s rs)"
    unfolding s_elseif_def s_endif_def s_else_def Let_def case_prod_beta
    using assms by (auto intro!: ends_intros split: list.split)
qed

end
