(* ===== verification/ReadLoop.thy ===== *)
theory ReadLoop
  imports ReadEnds
begin

text \<open>
  The tables of directives, and the end of the main loop. A directive that is not modelled has to
  read its line as the ones do that are.
\<close>

subsection \<open>Directives\<close>

definition reads_line :: "handler \<Rightarrow> bool" where
  "reads_line h \<longleftrightarrow> (\<forall>s rs. atof_ok (rd_atof rs) \<longrightarrow> leaves (length s) (h s rs))"

lemma reads_lineI: "(\<And>s rs. rd_ok rs \<Longrightarrow> leaves (length s) (h s rs)) \<Longrightarrow> reads_line h"
  by (simp add: reads_line_def rd_ok_def)

lemma leaves_mono: "leaves m r \<Longrightarrow> m \<le> n \<Longrightarrow> leaves n r"
  by (cases r) auto

lemma reads_line_leaves: "reads_line h \<Longrightarrow> length s \<le> n \<Longrightarrow> rd_ok rs \<Longrightarrow> leaves n (h s rs)"
  by (rule leaves_mono [of "length s"]) (simp_all add: reads_line_def rd_ok_def)

locale line_reader =
  fixes h :: handler
  assumes reads: "reads_line h"
begin

text \<open>Its operands may stand behind a blank.\<close>

lemma reads_operands:
  assumes "length rest \<le> n" and "rd_ok rs"
  shows "leaves n (let s = restore_line_pointer rest
    in h (if c_char s = CHR '' '' \<or> c_char s = CHR 0x09 then tl s else s) rs)"
  unfolding Let_def using assms by (intro reads_line_leaves [OF reads]) simp_all

end

interpretation cons_line: line_reader "cons n" for n
  by unfold_locales (rule reads_lineI, simp add: cons_def ends_intros)

interpretation rva_line: line_reader "s_rva n" for n
  by unfold_locales (rule reads_lineI, simp add: s_rva_def ends_intros)

interpretation string_line: line_reader "stringer n" for n
  by unfold_locales (rule reads_lineI, simp add: ends_intros)

interpretation leb128_line: line_reader "s_leb128 sign" for sign
  by unfold_locales (rule reads_lineI, simp add: ends_intros)

interpretation align_bytes_line: line_reader "s_align_bytes arg" for arg
  by unfold_locales (rule reads_lineI, simp add: s_align_bytes_def ends_intros)

interpretation align_ptwo_line: line_reader "s_align_ptwo arg" for arg
  by unfold_locales (rule reads_lineI, simp add: s_align_ptwo_def ends_intros)

interpretation fill_line: line_reader s_fill by unfold_locales (rule reads_lineI, simp add: ends_intros)
interpretation space_line: line_reader "s_space n" for n by unfold_locales (rule reads_lineI, simp add: ends_intros)
interpretation nops_line: line_reader s_nops by unfold_locales (rule reads_lineI, simp add: ends_intros)
interpretation org_line: line_reader s_org by unfold_locales (rule reads_lineI, simp add: ends_intros)
interpretation globl_line: line_reader s_globl by unfold_locales (rule reads_lineI, simp add: ends_intros)
interpretation lsym_line: line_reader s_lsym by unfold_locales (rule reads_lineI, simp add: ends_intros)
interpretation ignore_line: line_reader s_ignore by unfold_locales (rule reads_lineI, simp add: ends_intros)
interpretation err_line: line_reader s_err by unfold_locales (rule reads_lineI, simp add: ends_intros)
interpretation errwarn_line: line_reader "s_errwarn b" for b by unfold_locales (rule reads_lineI, simp add: ends_intros)
interpretation fail_line: line_reader s_fail by unfold_locales (rule reads_lineI, simp add: ends_intros)
interpretation print_line: line_reader s_print by unfold_locales (rule reads_lineI, simp add: ends_intros)
interpretation bad_end_line: line_reader "s_bad_end b" for b by unfold_locales (rule reads_lineI, simp add: ends_intros)
interpretation abort_line: line_reader s_abort by unfold_locales (rule reads_lineI, simp add: ends_intros)

interpretation if_line: line_reader "s_if op" for op by unfold_locales (rule reads_lineI, simp add: ends_intros)
interpretation ifdef_line: line_reader "s_ifdef b" for b by unfold_locales (rule reads_lineI, simp add: ends_intros)
interpretation ifb_line: line_reader "s_ifb b" for b by unfold_locales (rule reads_lineI, simp add: ends_intros)
interpretation ifc_line: line_reader "s_ifc b" for b by unfold_locales (rule reads_lineI, simp add: ends_intros)
interpretation ifeqs_line: line_reader "s_ifeqs b" for b by unfold_locales (rule reads_lineI, simp add: ends_intros)
interpretation elseif_line: line_reader "s_elseif op" for op by unfold_locales (rule reads_lineI, simp add: ends_intros)
interpretation else_line: line_reader s_else by unfold_locales (rule reads_lineI, simp add: ends_intros)
interpretation endif_line: line_reader s_endif by unfold_locales (rule reads_lineI, simp add: ends_intros)

interpretation option_line: line_reader s_option_line
  by unfold_locales (rule reads_lineI, simp add: s_option_line_def ends_intros)

interpretation bss_line: line_reader s_bss
  by unfold_locales (rule reads_lineI, simp add: s_bss_def ends_intros)

lemma s_dtprel_leaves: "length s \<le> n \<Longrightarrow> rd_ok rs \<Longrightarrow> leaves n (s_dtprel k s rs)"
  unfolding s_dtprel_def Let_def case_prod_beta by (intro lift_gs_keeps fueled_intros ends_intros) simp_all

interpretation dtprel_line: line_reader "s_dtprel k" for k
  by unfold_locales (rule reads_lineI, simp add: s_dtprel_leaves)

lemma s_riscv_leb128_leaves: "rd_ok rs \<Longrightarrow> leaves (length s) (s_riscv_leb128 sign s rs)"
  unfolding s_riscv_leb128_def case_prod_beta by (intro ends_intros) simp_all

interpretation riscv_leb128_line: line_reader "s_riscv_leb128 sign" for sign
  by unfold_locales (rule reads_lineI, simp add: s_riscv_leb128_leaves)

lemma expression_ending: "atof_ok atof \<Longrightarrow> ending (expression atof)"
proof -
  assume ok: "atof_ok atof"
  have "fueled (parse_expression atof mode s gs)" for mode s gs
    using parse_fueled(2) [OF ok, of s "expr_fuel s" mode 0 gs] by (simp add: parse_expression_def expr_fuel_def)
  then show ?thesis by (auto simp: ending_def expression_def intro!: fueled_intros)
qed

lemma s_insn_line_leaves: "rd_ok rs \<Longrightarrow> leaves (length s) (s_insn_line s rs)"
proof -
  assume ok: "rd_ok rs"
  then have f: "fueled (s_riscv_insn (expression (rd_atof rs)) s (rd_gs rs))"
    by (intro s_riscv_insn_ends expression_ending) (simp add: rd_ok_def)
  have "length t \<le> length s" if "s_riscv_insn (expression (rd_atof rs)) s (rd_gs rs) = Inr (t, gs)" for t gs
    using that by (auto simp: s_riscv_insn_def Let_def and_then_Inr_iff length_dropWhile_mono split: option.splits)
  then show ?thesis using f ok
    by (cases "s_riscv_insn (expression (rd_atof rs)) s (rd_gs rs)") (auto simp: s_insn_line_def)
qed

interpretation insn_line: line_reader s_insn_line
  by unfold_locales (rule reads_lineI, simp add: s_insn_line_leaves)

subsection \<open>The table\<close>

text \<open>What is asked of the code that is not modelled.\<close>

definition out_reads :: "outside \<Rightarrow> bool" where
  "out_reads out \<longleftrightarrow> (\<forall>name arg. reads_line (out_directive out name arg)) \<and>
     (\<forall>name mode. reads_line (out_assign_symbol out name mode)) \<and>
     reads_line (out_app out)"

lemma s_set_reads: "out_reads out \<Longrightarrow> reads_line (s_set out mode)"
proof (rule reads_lineI)
  fix s rs assume out: "out_reads out" and ok: "rd_ok rs"
  have "leaves n (out_assign_symbol out name mode t rs)" if "length t \<le> n" "rd_ok rs" for name t rs n
    using out that by (intro reads_line_leaves) (simp_all add: out_reads_def)
  then show "leaves (length s) (s_set out mode s rs)"
    unfolding s_set_def case_prod_beta using ok by (intro ends_intros) (simp_all add: expected_comma_def)
qed

lemmas lines_read = cons_line.reads rva_line.reads string_line.reads leb128_line.reads align_bytes_line.reads
  align_ptwo_line.reads fill_line.reads space_line.reads nops_line.reads org_line.reads globl_line.reads lsym_line.reads
  ignore_line.reads err_line.reads errwarn_line.reads fail_line.reads print_line.reads bad_end_line.reads abort_line.reads
  if_line.reads ifdef_line.reads ifb_line.reads ifc_line.reads ifeqs_line.reads elseif_line.reads else_line.reads
  endif_line.reads option_line.reads bss_line.reads dtprel_line.reads riscv_leb128_line.reads insn_line.reads

definition pseudo_reads :: "pseudo \<Rightarrow> bool" where
  "pseudo_reads pop \<longleftrightarrow> (case pop of Directive h \<Rightarrow> reads_line h | End_of_source \<Rightarrow> True)"

lemma pseudo_reads_simps [simp]: "pseudo_reads (Directive h) = reads_line h" "pseudo_reads End_of_source"
  by (simp_all add: pseudo_reads_def)

abbreviation (input) table_reads :: "(string \<times> pseudo) list \<Rightarrow> bool" where
  "table_reads \<equiv> list_all (\<lambda>(name, pop). pseudo_reads pop)"

lemma tables_read:
  assumes "out_reads out"
  shows "table_reads riscv_pseudo_table" "table_reads (elf_pseudo_table out)" "table_reads (potable out)"
    "table_reads (cfi_pseudo_table out)"
proof -
  have out: "reads_line (out_directive out name arg)" for name arg using assms by (simp add: out_reads_def)
  note entry = list.pred_inject pseudo_reads_simps lines_read out s_set_reads [OF assms] prod.case simp_thms
  show "table_reads riscv_pseudo_table" unfolding riscv_pseudo_table_def by (simp only: entry)
  show "table_reads (elf_pseudo_table out)" unfolding elf_pseudo_table_def by (simp only: entry)
  show "table_reads (potable out)" unfolding potable_def by (simp only: entry)
  show "table_reads (cfi_pseudo_table out)" unfolding cfi_pseudo_table_def by (simp only: entry)
qed

text \<open>An entry counts only where its name is new.\<close>

lemma pop_insert_new:
  assumes "hash_inv t" and "\<not> ok \<longrightarrow> distinct (map fst table) \<and> (\<forall>name \<in> fst ` set table. hash_abs t name = None)"
  shows "\<exists>t'. pop_insert ok table_name table t = Inr t' \<and> hash_inv t' \<and> hash_abs t' = map_of table ++ hash_abs t"
  using assms
proof (induction table arbitrary: t)
  case (Cons entry table)
  obtain name pop where e: "entry = (name, pop)" by (cases entry)
  obtain r t1 where ins: "hash_insert t name pop = (r, t1)" by (cases "hash_insert t name pop")
  note spec = hash_insert_cases [OF Cons.prems(1), of name pop, unfolded ins fst_conv snd_conv]
  have abs1: "hash_abs t1 = [name \<mapsto> pop] ++ hash_abs t"
    by (rule ext) (simp add: spec(3) map_add_def split: option.split)
  have "\<not> ok \<longrightarrow> distinct (map fst table) \<and> (\<forall>name \<in> fst ` set table. hash_abs t1 name = None)"
    using Cons.prems(2) e by (auto simp: abs1 map_add_def)
  from Cons.IH [OF spec(1) this] obtain t' where
    t': "pop_insert ok table_name table t1 = Inr t'" "hash_inv t'" "hash_abs t' = map_of table ++ hash_abs t1" by blast
  have "hash_abs t' = map_of (entry # table) ++ hash_abs t" by (simp add: t'(3) abs1 e map_add_assoc)
  moreover have "pop_insert ok table_name (entry # table) t = Inr t'"
    using t'(1) spec(2) Cons.prems(2) by (auto simp: e ins split: option.split if_splits)
  ultimately show ?case using t'(2) by blast
qed simp

definition pseudo_op :: "outside \<Rightarrow> string \<Rightarrow> pseudo option" where
  "pseudo_op out = map_of (riscv_pseudo_table @ elf_pseudo_table out @ potable out @ cfi_pseudo_table out)"

lemma riscv_names_distinct: "distinct (map fst riscv_pseudo_table)"
  by (simp add: riscv_pseudo_table_def)

lemma pobegin_table:
  "\<exists>po_hash. pobegin out = Inr po_hash \<and> hash_inv po_hash \<and> hash_abs po_hash = pseudo_op out"
proof -
  obtain h1 where 1: "pop_insert False ''md'' riscv_pseudo_table hash_new = Inr h1" "hash_inv h1" "hash_abs h1 = map_of riscv_pseudo_table"
    using pop_insert_new [OF hash_new_inv, of False riscv_pseudo_table "''md''"] riscv_names_distinct by (auto simp: hash_new_abs)
  obtain h2 where 2: "pop_insert True ''obj'' (elf_pseudo_table out) h1 = Inr h2" "hash_inv h2"
      "hash_abs h2 = map_of (elf_pseudo_table out) ++ hash_abs h1"
    using pop_insert_new [OF 1(2), of True "elf_pseudo_table out" "''obj''"] by auto
  obtain h3 where 3: "pop_insert True ''standard'' (potable out) h2 = Inr h3" "hash_inv h3"
      "hash_abs h3 = map_of (potable out) ++ hash_abs h2"
    using pop_insert_new [OF 2(2), of True "potable out" "''standard''"] by auto
  obtain h4 where 4: "pop_insert True ''cfi'' (cfi_pseudo_table out) h3 = Inr h4" "hash_inv h4"
      "hash_abs h4 = map_of (cfi_pseudo_table out) ++ hash_abs h3"
    using pop_insert_new [OF 3(2), of True "cfi_pseudo_table out" "''cfi''"] by auto
  have "pobegin out = Inr h4" by (simp add: pobegin_def 1(1) 2(1) 3(1) 4(1))
  moreover have "hash_abs h4 = pseudo_op out"
    by (simp add: pseudo_op_def 1(3) 2(3) 3(3) 4(3) map_add_assoc)
  ultimately show ?thesis using 4(2) by blast
qed

definition po_reads :: "pseudo hash_control \<Rightarrow> bool" where
  "po_reads po_hash \<longleftrightarrow> (\<forall>name pop. fst (hash_find po_hash name) = Some pop \<longrightarrow> pseudo_reads pop)"

lemma pobegin_reads:
  assumes "pobegin out = Inr po_hash" and "out_reads out"
  shows "po_reads po_hash"
proof -
  have po: "hash_inv po_hash" "hash_abs po_hash = pseudo_op out" using pobegin_table [of out] assms(1) by auto
  have "pseudo_reads pop" if "pseudo_op out name = Some pop" for name pop
    using map_of_SomeD [OF that [unfolded pseudo_op_def]] tables_read [OF assms(2)] by (auto simp: list_all_iff)
  then show ?thesis by (simp add: po_reads_def hash_find_cases(2) [OF po(1)] po(2))
qed

subsection \<open>Statements\<close>

lemma line_end_loop_le: "length (fst (line_end_loop q e s)) \<le> length s"
  by (induction q e s rule: line_end_loop.induct) (auto simp: le_SucI)

lemma find_end_of_line_ends [simp]:
  "length s \<le> n \<Longrightarrow> length (fst (find_end_of_line b s rs)) \<le> n" "rd_ok (snd (find_end_of_line b s rs)) = rd_ok rs"
  using order_trans [OF line_end_loop_le [of False False s], of n] by (simp_all add: find_end_of_line_def Let_def case_prod_beta)

lemma skip_ignored_leaves: "length s \<le> Suc n \<Longrightarrow> rd_ok rs \<Longrightarrow> leaves n (skip_ignored s rs)"
  using find_end_of_line_ends(1) [of s "Suc n" True rs]
  by (cases "find_end_of_line True s rs"; cases "fst (find_end_of_line True s rs)")
    (auto simp: skip_ignored_def find_end_of_line_ends(2) [of True s rs, symmetric] simp del: find_end_of_line_ends)

lemma ignore_rest_shorter: "ignore_rest_of_line s = Inr t \<Longrightarrow> length t < length s"
  by (auto simp: ignore_rest_of_line_def split: list.splits dest: dropWhile_shorter)

lemma s_ignore_shorter: "length s \<le> Suc n \<Longrightarrow> rd_ok rs \<Longrightarrow> leaves n (s_ignore s rs)"
  using ignore_rest_of_line_reads(1) [of s]
  by (cases "ignore_rest_of_line s") (auto simp: s_ignore_def dest!: ignore_rest_shorter)

lemma demand_shorter:
  assumes "length s \<le> Suc n" and "rd_ok rs"
  shows "leaves n (demand_empty_rest_of_line s rs)"
  unfolding demand_empty_rest_of_line_def Let_def using assms shorter_text(1) [OF assms(1)]
  by (intro s_ignore_shorter ends_intros) (auto simp del: shorter_text)

lemma behind_name_le [simp]: "length s \<le> n \<Longrightarrow> length (behind_name s) \<le> n"
  by (simp add: behind_name_def)

lemma read_label_leaves: "length rest \<le> n \<Longrightarrow> rd_ok rs \<Longrightarrow> leaves n (read_label name rest rs)"
  unfolding read_label_def case_prod_beta by (intro ends_intros lift_gs_keeps fueled_intros) simp_all

lemma read_instruction_leaves: "length rest \<le> n \<Longrightarrow> rd_ok rs \<Longrightarrow> leaves n (read_instruction name rest rs)"
  unfolding read_instruction_def Let_def case_prod_beta
  by (intro ends_intros lift_gs_keeps md_assemble_ends expression_ending) (simp_all add: rd_ok_def [symmetric])

lemma go_on_gives: "leaves n r \<Longrightarrow> gives n (and_then r (\<lambda>p. Inr (b, fst p, snd p)))"
  by (cases r) auto

lemma read_pseudo_gives:
  assumes "po_reads po_hash" and "length rest \<le> n" and "rd_ok rs"
  shows "gives n (read_pseudo po_hash name rest rs)"
proof -
  let ?t = "restore_line_pointer rest"
  let ?s = "if c_char ?t = CHR '' '' \<or> c_char ?t = CHR 0x09 then tl ?t else ?t"
  have s: "length ?s \<le> n" using assms(2) by simp
  have unknown: "leaves n (unknown_pseudo name rest rs)"
    unfolding unknown_pseudo_def case_prod_beta using assms(2,3) by (intro ends_intros) simp_all
  show ?thesis
  proof (cases "fst (hash_find po_hash (tl name))")
    case None
    then show ?thesis using go_on_gives [OF unknown, of False] by (simp add: read_pseudo_def case_prod_beta')
  next
    case (Some pop)
    then have pop: "pseudo_reads pop" using assms(1) by (simp add: po_reads_def)
    show ?thesis
    proof (cases pop)
      case (Directive h)
      then have "line_reader h" using pop by unfold_locales simp
      from go_on_gives [OF line_reader.reads_operands [OF this assms(2,3)], of False] show ?thesis
        using Some Directive by (simp add: read_pseudo_def Let_def case_prod_beta')
    next
      case End_of_source
      then show ?thesis using Some s assms(3) by (simp add: read_pseudo_def Let_def)
    qed
  qed
qed

lemma equals_leaves: "out_reads out \<Longrightarrow> length rest \<le> n \<Longrightarrow> rd_ok rs \<Longrightarrow> leaves n (equals out name mode rest rs)"
  unfolding equals_def Let_def by (intro reads_line_leaves) (simp_all add: out_reads_def)

lemma name_shorter:
  assumes "is_name_beginner (c_char s) \<or> c_char s = CHR 0x22" and "length s \<le> Suc n"
  shows "length (fst (snd (get_symbol_name s gs))) \<le> n"
proof (cases s)
  case (Cons c t)
  have "length (snd (quoted_name False t)) \<le> n" "length (dropWhile is_part_of_name t) \<le> n"
    using order_trans [OF quoted_name_le] assms(2) Cons by auto
  then show ?thesis using assms(1) Cons by (auto simp: get_symbol_name_def case_prod_beta)
qed (use assms in \<open>simp add: get_symbol_name_def\<close>)

lemma read_named_gives:
  assumes "out_reads out" and "po_reads po_hash" and "is_name_beginner (c_char s) \<or> c_char s = CHR 0x22"
    and "length s \<le> Suc n" and "rd_ok rs"
  shows "gives n (read_named out po_hash s rs)"
proof -
  let ?rest = "fst (snd (get_symbol_name s (rd_gs rs)))"
  have rest: "length ?rest \<le> n" by (rule name_shorter [OF assms(3,4)])
  have assign: "leaves n (and_then (equals out name mode ?rest rs) (\<lambda>p. demand_empty_rest_of_line (fst p) (snd p)))"
    if "rd_ok rs" for name mode rs
    using rest that by (intro leaves_bind(2) equals_leaves [OF assms(1)] ends_intros)
  show ?thesis
    unfolding read_named_def Let_def case_prod_beta
    by (intro ends_if go_on_gives assign read_label_leaves read_pseudo_gives read_instruction_leaves rest assms(2))
      (simp_all add: assms(5))
qed

lemma number_label:
  assumes "rd_ok rs"
  shows "fueled (read_number_label s rs)"
    and "read_number_label s rs = Inr (Some (s', rs')) \<Longrightarrow> length s' < length s \<and> rd_ok rs'"
proof -
  show "fueled (read_number_label s rs)"
    unfolding read_number_label_def Let_def by (intro fueled_intros)
  have shorter: "length (tl (dropWhile isdigit s)) < length s" if "c_char (dropWhile isdigit s) = CHR '':'' \<or> c_char (dropWhile isdigit s) = CHR ''$''"
    using that length_dropWhile_le [of isdigit s] by (cases "dropWhile isdigit s") auto
  then have "length (drop 2 (dropWhile isdigit s)) < length s" if "c_char (dropWhile isdigit s) = CHR ''$''"
    using that by (simp add: less_diff_conv)
  then show "length s' < length s \<and> rd_ok rs'" if "read_number_label s rs = Inr (Some (s', rs'))"
    using that assms shorter by (auto simp: read_number_label_def Let_def and_then_Inr_iff split: if_splits)
qed

lemma begin_line_keeps [ends_intros]: "rd_ok rs \<Longrightarrow> keeps (begin_line prev rs)"
  unfolding begin_line_def by (intro ends_intros lift_gs_keeps fueled_intros) simp_all

lemma read_comment_leaves: "out_reads out \<Longrightarrow> length s \<le> n \<Longrightarrow> rd_ok rs \<Longrightarrow> leaves n (read_comment out s rs)"
  unfolding read_comment_def by (intro ends_if reads_line_leaves s_ignore_leaves) (simp_all add: out_reads_def)

lemma read_statement_gives:
  assumes "out_reads out" and "po_reads po_hash" and "length s \<le> Suc n" and "rd_ok rs"
  shows "gives n (read_statement out po_hash prev s rs)"
proof -
  let ?s = "dropWhile (\<lambda>c. c = CHR 0x09 \<or> c = CHR '' '' \<or> c = CHR 0x0C) s"
  have s: "length ?s \<le> Suc n" by (rule length_dropWhile_mono [OF assms(3)])
  then have t: "length (tl ?s) \<le> n" by simp
  have label: "gives n (and_then (if b then read_number_label ?s rs else Inr None) (\<lambda>label. case label of
      None \<Rightarrow> if c then and_then (read_comment out (tl ?s) rs) (\<lambda>p. Inr (False, fst p, snd p))
             else if d then and_then (skip_ignored ?s rs) (\<lambda>p. Inr (False, fst p, snd p))
             else and_then (demand_empty_rest_of_line ?s rs) (\<lambda>p. Inr (False, fst p, snd p))
    | Some p \<Rightarrow> Inr (False, fst p, snd p)))" (is "gives n (and_then _ ?f)") if "rd_ok rs" for b c d rs
  proof -
    have none: "gives n (?f None)"
      unfolding option.case using that s t assms(1)
      by (intro ends_if(3) go_on_gives read_comment_leaves skip_ignored_leaves demand_shorter)
    show ?thesis
    proof (cases b)
      case True
      have "gives n (?f (Some p))" if "read_number_label ?s rs = Inr (Some p)" for p
        using number_label(2) [OF \<open>rd_ok rs\<close>, of ?s "fst p" "snd p"] that s(1) by simp
      then show ?thesis using True none number_label(1) [OF \<open>rd_ok rs\<close>, of ?s]
        by (cases "read_number_label ?s rs") (auto split: option.split)
    qed (use none in simp)
  qed
  show ?thesis
    unfolding read_statement_def Let_def case_prod_beta
    using assms s t
    by (intro keeps_bind(3) begin_line_keeps ends_if(3) go_on_gives skip_ignored_leaves read_named_gives label ends_values(3))
qed

subsection \<open>The loop\<close>

theorem read_loop_returns:
  assumes "out_reads out" and "po_reads po_hash" and "rd_ok rs"
  shows "\<exists>r. read_loop out po_hash prev s rs = Some r \<and> fueled r"
  using assms(3)
proof (induction "length s" arbitrary: s prev rs rule: less_induct)
  case less
  have fin: "fueled (end_of_source rs)" if "rd_ok rs" for rs
    unfolding end_of_source_def lift_gs_def by (intro fueled_intros)
  show ?case
  proof (cases s)
    case (Cons c t)
    have g: "gives (length t) (read_statement out po_hash prev s rs)"
      using read_statement_gives [OF assms(1,2)] less.prems Cons by simp
    show ?thesis
    proof (cases "read_statement out po_hash prev s rs")
      case (Inr p)
      obtain quit s' rs' where p: "p = (quit, s', rs')" by (metis surj_pair)
      have s': "length s' < length s" "rd_ok rs'" using g Inr p Cons by simp_all
      show ?thesis
        using less.hyps [OF s', of "last_read s s'"] fin s'(2) Inr p Cons by (subst read_loop.simps) auto
    qed (use g Cons in \<open>subst read_loop.simps, simp\<close>)
  qed (use fin less.prems in \<open>subst read_loop.simps, simp\<close>)
qed

end
