(* ===== verification/DataValue.thy ===== *)
theory DataValue
  imports ReadEmit ExprValue FragPlaces
begin

text \<open>
  What the data directives leave in a section that has room for data: the bytes of the values of
  their operands, in order, behind what was there. Nothing else of the state changes, apart from
  the scratch variables of the expression parser.
\<close>

subsection \<open>Sections that take data\<close>

definition takes_data :: "reader_state \<Rightarrow> bool" where
  "takes_data rs \<longleftrightarrow> frchain_inv (gs_chain (rd_gs rs)) \<and> fc_frag_size (gs_chain (rd_gs rs)) < 2 ^ 16 \<and>
     fc_chunk_size (gs_chain (rd_gs rs)) \<noteq> 0 \<and> \<not> absolute_now rs \<and> \<not> in_bss rs \<and>
     rd_check_eh_frame rs = (\<lambda>e n gs. (False, e, n, gs)) \<and> atof_ok (rd_atof rs)"

abbreviation section_bytes :: "reader_state \<Rightarrow> byte list" where
  "section_bytes rs \<equiv> image (gs_chain (rd_gs rs))"

text \<open>The bytes are appended, and only the chain and the scratch variables change.\<close>

definition appends :: "reader_state \<Rightarrow> byte list \<Rightarrow> reader_state \<Rightarrow> bool" where
  "appends rs bs rs' \<longleftrightarrow> takes_data rs' \<and> section_bytes rs' = section_bytes rs @ bs \<and>
     chain_extends (gs_chain (rd_gs rs)) (gs_chain (rd_gs rs')) \<and>
     (\<exists>fc d b. rs' = rs\<lparr>rd_gs := rd_gs rs\<lparr>gs_chain := fc, gs_dot := d, gs_bignum := b\<rparr>\<rparr>)"

lemma appendsI:
  assumes "rs' = rs\<lparr>rd_gs := rd_gs rs\<lparr>gs_chain := fc, gs_dot := d, gs_bignum := b\<rparr>\<rparr>" and "takes_data rs'"
    and "section_bytes rs' = section_bytes rs @ bs" and "chain_extends (gs_chain (rd_gs rs)) (gs_chain (rd_gs rs'))"
  shows "appends rs bs rs'"
  unfolding appends_def using assms by blast

lemma appendsD: "appends rs bs rs' \<Longrightarrow> takes_data rs' \<and> section_bytes rs' = section_bytes rs @ bs"
  by (simp add: appends_def)

lemma appends_trans:
  assumes "appends rs bs rs1" and "appends rs1 cs rs2"
  shows "appends rs (bs @ cs) rs2"
proof -
  obtain fc d b where 1: "rs1 = rs\<lparr>rd_gs := rd_gs rs\<lparr>gs_chain := fc, gs_dot := d, gs_bignum := b\<rparr>\<rparr>"
    using assms(1) by (auto simp: appends_def)
  obtain fc' d' b' where 2: "rs2 = rs1\<lparr>rd_gs := rd_gs rs1\<lparr>gs_chain := fc', gs_dot := d', gs_bignum := b'\<rparr>\<rparr>"
    using assms(2) by (auto simp: appends_def)
  have "rs2 = rs\<lparr>rd_gs := rd_gs rs\<lparr>gs_chain := fc', gs_dot := d', gs_bignum := b'\<rparr>\<rparr>" by (simp add: 1 2)
  moreover have "chain_extends (gs_chain (rd_gs rs)) (gs_chain (rd_gs rs2))"
    using assms chain_extends_trans unfolding appends_def by blast
  ultimately show ?thesis using assms unfolding appends_def by (metis append.assoc)
qed

lemma appends_scratch:
  assumes "takes_data rs" and "same_but_scratch (rd_gs rs) gs"
  shows "appends rs [] (rs\<lparr>rd_gs := gs\<rparr>)"
proof -
  obtain d b where gs: "gs = rd_gs rs\<lparr>gs_dot := d, gs_bignum := b\<rparr>"
    using assms(2) by (auto simp: same_but_scratch_def)
  show ?thesis
  proof (rule appendsI)
    show "rs\<lparr>rd_gs := gs\<rparr> = rs\<lparr>rd_gs := rd_gs rs\<lparr>gs_chain := gs_chain (rd_gs rs), gs_dot := d, gs_bignum := b\<rparr>\<rparr>"
      by (simp add: gs)
  qed (use assms(1) in \<open>simp_all add: gs takes_data_def absolute_now_def in_bss_def now_flags_def
    frchain_inv_def chain_extends_refl\<close>)
qed

lemma takes_data_chain:
  assumes "takes_data rs" and "frchain_inv fc" and "fc_frag_size fc < 2 ^ 16" and "fc_chunk_size fc \<noteq> 0"
  shows "takes_data (rs\<lparr>rd_gs := rd_gs rs\<lparr>gs_chain := fc\<rparr>\<rparr>)"
  using assms by (simp add: takes_data_def absolute_now_def in_bss_def now_flags_def)

lemma on_frags_appends:
  assumes "takes_data rs" and "f (gs_chain (rd_gs rs)) = Inr fc" and "frchain_inv fc"
    and "fc_frag_size fc = fc_frag_size (gs_chain (rd_gs rs))"
    and "fc_chunk_size fc = fc_chunk_size (gs_chain (rd_gs rs))"
    and "image fc = section_bytes rs @ bs" and "chain_extends (gs_chain (rd_gs rs)) fc"
  shows "\<exists>rs'. on_frags f rs = Inr rs' \<and> appends rs bs rs'"
proof (intro exI conjI)
  let ?rs = "rs\<lparr>rd_gs := rd_gs rs\<lparr>gs_chain := fc\<rparr>\<rparr>"
  show "on_frags f rs = Inr ?rs" using assms(2) by (simp add: on_frags_def lift_gs_def on_chain_def)
  show "appends rs bs ?rs"
  proof (rule appendsI)
    show "?rs = rs\<lparr>rd_gs := rd_gs rs\<lparr>gs_chain := fc, gs_dot := gs_dot (rd_gs rs), gs_bignum := gs_bignum (rd_gs rs)\<rparr>\<rparr>"
      by simp
    show "takes_data ?rs" using takes_data_chain [OF assms(1,3)] assms(1,4,5) by (simp add: takes_data_def)
  qed (use assms(6,7) in simp_all)
qed

subsection \<open>Storing\<close>

lemma frag_grow_chunk: "frag_grow n fc = Inr fc' \<Longrightarrow> fc_chunk_size fc' = fc_chunk_size fc"
  by (auto simp: frag_grow_def Let_def and_then_Inr_iff split: if_splits)

lemma store_more_appends:
  assumes "frchain_inv fc" and "fc_frag_size fc < 2 ^ 16" and "length bs < 0x10000"
    and "length (image fc) + length bs < 2 ^ 32"
  shows "\<exists>fc'. store_more (length bs) bs fc = Inr fc' \<and> frchain_inv fc' \<and> image fc' = image fc @ bs \<and>
    chain_extends fc fc' \<and> fc_frag_size fc' = fc_frag_size fc \<and> fc_chunk_size fc' = fc_chunk_size fc"
proof -
  obtain p fc1 where more: "frag_more (length bs) fc = Inr (p, fc1)" and sz: "fc_frag_size fc1 = fc_frag_size fc"
    using frag_more_returns [OF assms(1-3)] by blast
  have "fc_chunk_size fc1 = fc_chunk_size fc"
    using more by (auto simp: frag_more_def and_then_Inr_iff obstack_blank_fast_def dest: frag_grow_chunk)
  with frag_more_write [OF assms(1) more refl assms(4)] more sz show ?thesis
    by (simp add: store_more_def write_literal_frag_size) (simp add: write_literal_def)
qed

lemma ignores_room [simp]:
  "frchain_inv (fc\<lparr>fc_room := r\<rparr>) = frchain_inv fc" "image (fc\<lparr>fc_room := r\<rparr>) = image fc"
  "chain_extends (fc1\<lparr>fc_room := r\<rparr>) fc = chain_extends fc1 fc" "chain_extends fc (fc1\<lparr>fc_room := r\<rparr>) = chain_extends fc fc1"
  "frag_now (fc\<lparr>fc_room := r\<rparr>) = frag_now fc"
  by (simp_all add: frchain_inv_def image_def open_bytes_def chain_extends_def frag_now_def)

lemma store_char_appends:
  assumes "frchain_inv fc" and "length (image fc) + 1 < 2 ^ 32"
  shows "\<exists>fc'. obstack_blank_fast 1 (write_literal (frag_now fc) (fc_growth fc) [b] fc) = fc' \<and> frchain_inv fc' \<and>
    image fc' = image fc @ [b] \<and> chain_extends fc fc'"
proof -
  let ?f = "fc\<lparr>fc_room := 1\<rparr>"
  have more: "frag_more (length [b]) ?f = Inr (fc_growth fc, obstack_blank_fast 1 ?f)"
    by (simp add: frag_more_def frag_grow_def)
  have "length (image ?f) + length [b] < 2 ^ 32" using assms(2) by simp
  note w = frag_more_write [OF _ more refl this]
  have "obstack_blank_fast 1 (write_literal (frag_now fc) (fc_growth fc) [b] fc) =
      (write_literal (frag_now (obstack_blank_fast 1 ?f)) (fc_growth fc) [b] (obstack_blank_fast 1 ?f))\<lparr>fc_room := fc_room fc - 1\<rparr>"
    by (simp add: obstack_blank_fast_def write_literal_def update_frag_def frag_now_def)
  then show ?thesis using w assms(1) by simp
qed

lemma frag_append_1_char_appends:
  assumes "frchain_inv fc" and "length (image fc) + 1 < 2 ^ 32"
  shows "\<exists>fc'. frag_append_1_char b fc = Inr fc' \<and> frchain_inv fc' \<and> image fc' = image fc @ [b] \<and>
    chain_extends fc fc' \<and> fc_frag_size fc' = fc_frag_size fc \<and> fc_chunk_size fc' = fc_chunk_size fc"
proof -
  have "\<exists>fc1. (if fc_room fc \<le> 1 then frag_new 0 (frag_wane_now fc) else Inr fc) = Inr fc1 \<and> frchain_inv fc1 \<and>
      image fc1 = image fc \<and> chain_extends fc fc1 \<and> fc_frag_size fc1 = fc_frag_size fc \<and> fc_chunk_size fc1 = fc_chunk_size fc"
  proof (cases "fc_room fc \<le> 1")
    case True
    obtain fc1 where fc1: "frag_new 0 (frag_wane_now fc) = Inr fc1" "frchain_inv fc1" "image fc1 = image fc"
      "fc_chunk_size fc1 = fc_chunk_size fc" using frag_close_image [OF assms(1)] by blast
    with True frag_close_extends [OF assms(1) fc1(1)] frag_new_frag_size [OF fc1(1)] frag_wane_frag_size [of fc]
    show ?thesis by simp
  next
    case False
    then show ?thesis using assms(1) by (auto simp: frchain_inv_def chain_extends_refl)
  qed
  then obtain fc1 where fc1: "(if fc_room fc \<le> 1 then frag_new 0 (frag_wane_now fc) else Inr fc) = Inr fc1"
    "frchain_inv fc1" "image fc1 = image fc" "chain_extends fc fc1" "fc_frag_size fc1 = fc_frag_size fc"
    "fc_chunk_size fc1 = fc_chunk_size fc" by blast
  from store_char_appends [OF fc1(2), of b] fc1(3) assms(2)
  obtain fc' where fc': "obstack_blank_fast 1 (write_literal (frag_now fc1) (fc_growth fc1) [b] fc1) = fc'"
    "frchain_inv fc'" "image fc' = image fc1 @ [b]" "chain_extends fc1 fc'" by auto
  have "fc_frag_size fc' = fc_frag_size fc1 \<and> fc_chunk_size fc' = fc_chunk_size fc1"
    by (simp add: fc'(1) [symmetric] obstack_blank_fast_def write_literal_def update_frag_def)
  moreover have "chain_extends fc fc'" using chain_extends_trans [OF fc1(4) fc'(4)] .
  moreover have "frag_append_1_char b fc = Inr fc'" 
    using fc'(1) by (simp only: frag_append_1_char_def fc1(1)) simp
  ultimately show ?thesis using fc' fc1 by simp
qed

lemma emit_bytes_appends:
  assumes "takes_data rs" and "length bs < 0x10000" and "length (section_bytes rs) + length bs < 2 ^ 32"
  shows "\<exists>rs'. emit_bytes bs rs = Inr rs' \<and> appends rs bs rs'"
proof -
  obtain fc where "store_more (length bs) bs (gs_chain (rd_gs rs)) = Inr fc" "frchain_inv fc"
    "image fc = section_bytes rs @ bs" "chain_extends (gs_chain (rd_gs rs)) fc"
    "fc_frag_size fc = fc_frag_size (gs_chain (rd_gs rs))" "fc_chunk_size fc = fc_chunk_size (gs_chain (rd_gs rs))"
    using store_more_appends [of "gs_chain (rd_gs rs)" bs] assms by (auto simp: takes_data_def)
  note f = on_frags_appends [where f = "store_more (length bs) bs", OF assms(1) this(1) this(2) this(5) this(6) this(3) this(4)]
  then show ?thesis using assms(1) by (simp add: emit_part_def frag_alloc_check_def takes_data_def)
qed

lemma append_chars_appends:
  assumes "takes_data rs" and "length (section_bytes rs) + length bs < 2 ^ 32"
  shows "\<exists>rs'. append_chars bs rs = Inr rs' \<and> appends rs bs rs'"
  using assms
proof (induction bs arbitrary: rs)
  case Nil
  then show ?case using appends_scratch [OF Nil(1) same_but_scratch_intros(1)] by simp
next
  case (Cons b bs)
  obtain fc where "frag_append_1_char b (gs_chain (rd_gs rs)) = Inr fc" "frchain_inv fc"
    "image fc = section_bytes rs @ [b]" "chain_extends (gs_chain (rd_gs rs)) fc"
    "fc_frag_size fc = fc_frag_size (gs_chain (rd_gs rs))" "fc_chunk_size fc = fc_chunk_size (gs_chain (rd_gs rs))"
    using frag_append_1_char_appends [of "gs_chain (rd_gs rs)" b] Cons.prems by (auto simp: takes_data_def)
  note on_frags_appends [where f = "frag_append_1_char b", OF Cons.prems(1) this(1) this(2) this(5) this(6) this(3) this(4)]
  then obtain rs1 where rs1: "on_frags (frag_append_1_char b) rs = Inr rs1" "appends rs [b] rs1" by blast
  obtain rs' where rs': "append_chars bs rs1 = Inr rs'" "appends rs1 bs rs'"
    using Cons.IH [of rs1] appendsD [OF rs1(2)] Cons.prems(2) by auto
  have "append_chars (b # bs) rs = Inr rs'"
    using rs1(1) rs'(1) Cons.prems(1) by (simp add: frag_alloc_check_def takes_data_def)
  with appends_trans [OF rs1(2) rs'(2)] show ?case by auto
qed

subsection \<open>Numbers\<close>

text \<open>A value that \<open>nbytes\<close> bytes hold, as a signed or an unsigned number.\<close>

definition fits_bytes :: "nat \<Rightarrow> valueT \<Rightarrow> bool" where
  "fits_bytes nbytes v \<longleftrightarrow> uint v < 2 ^ (8 * nbytes) \<or> - (2 ^ (8 * nbytes - 1)) \<le> sint v \<and> sint v < 0"

lemma fits_not_truncated:
  assumes "nbytes \<in> {1, 2, 4}" and "fits_bytes nbytes v"
  shows "\<not> value_truncated nbytes v"
proof (cases "nbytes = 4")
  case False
  let ?k = "8 * nbytes"
  have n: "nbytes < 4" "0 < nbytes" "low_mask nbytes = mask ?k" using False assms(1) by (auto simp: low_mask_def)
  from assms(2) show ?thesis unfolding fits_bytes_def
  proof (elim disjE conjE)
    assume "uint v < 2 ^ ?k"
    then have "v = take_bit ?k v" by (intro word_uint_eqI) (simp add: unsigned_take_bit_eq take_bit_int_eq_self)
    then have "v AND NOT (mask ?k) = 0" by (simp add: bit_eq_iff bit_simps) (metis bit_take_bit_iff)
    then show ?thesis by (simp add: value_truncated_def n)
  next
    assume v: "- (2 ^ (?k - 1)) \<le> sint v" "sint v < 0"
    have hi: "bit v i" if i: "?k - 1 \<le> i" "i < 32" for i
    proof -
      have "take_bit (?k - 1) (NOT (sint v)) = NOT (sint v)" using v by (intro take_bit_int_eq_self) (simp_all add: not_int_def)
      then have "\<not> bit (NOT (sint v)) i" using i(1) by (metis bit_take_bit_iff not_less)
      then show ?thesis using i(2) by (simp add: bit_not_iff bit_sint_iff min_def split: if_splits)
    qed
    then have "v AND NOT (mask ?k) = NOT (mask ?k)" by (intro bit_word_eqI) (auto simp: bit_simps)
    moreover have "bit v (?k - 1)" using hi [of "?k - 1"] n by simp
    ultimately show ?thesis using n by (simp add: value_truncated_def)
  qed
qed (simp add: value_truncated_def low_mask_def)

lemma le_bytes_low_mask: "nbytes \<in> {1, 2, 4} \<Longrightarrow> le_bytes (v AND low_mask nbytes) nbytes = le_bytes v nbytes"
  by (intro nth_equalityI) (auto simp: nth_le_bytes low_mask_def low_byte_def shr_def bit_simps intro!: bit_word_eqI)

lemma frag_grow_appends:
  assumes "takes_data rs" and "n < 0x10000"
  shows "\<exists>rs'. on_frags (frag_grow n) rs = Inr rs' \<and> appends rs [] rs'"
proof -
  note inv = assms(1) [unfolded takes_data_def]
  obtain p fc' where more: "frag_more n (gs_chain (rd_gs rs)) = Inr (p, fc')"
    and sz': "fc_frag_size fc' = fc_frag_size (gs_chain (rd_gs rs))"
    using frag_more_returns [of "gs_chain (rd_gs rs)" n] inv assms(2) by blast
  then obtain fc where fc: "frag_grow n (gs_chain (rd_gs rs)) = Inr fc" by (auto simp: frag_more_def and_then_Inr_iff)
  have sz: "fc_frag_size fc = fc_frag_size (gs_chain (rd_gs rs))"
    using more fc sz' by (auto simp: frag_more_def obstack_blank_fast_def)
  show ?thesis
    using on_frags_appends [where f = "frag_grow n" and bs = "[]", OF assms(1) fc _ sz frag_grow_chunk [OF fc]]
      frag_grow_image [OF _ fc] frag_grow_extends [OF _ fc] inv by simp
qed

lemma emit_expr_constant:
  assumes "takes_data rs" and "is_constant e v" and "nbytes \<in> {1, 2, 4}" and "fits_bytes nbytes v"
    and "length (section_bytes rs) + nbytes < 2 ^ 32"
  shows "\<exists>rs'. emit_expr e nbytes rs = Inr rs' \<and> appends rs (le_bytes v nbytes) rs'"
proof -
  have n: "\<not> 4 < nbytes" using assms(3) by auto
  have e: "X_op e = O_constant" "X_add_number e = v" using assms(2) by (simp_all add: is_constant_def)
  obtain rs1 where rs1: "on_frags (frag_grow nbytes) rs = Inr rs1" "appends rs [] rs1"
    using frag_grow_appends [OF assms(1), of nbytes] assms(3) by auto
  define rs2 where "rs2 = rs1\<lparr>rd_gs := save_data_dot (rd_gs rs1)\<rparr>"
  have "same_but_scratch (rd_gs rs1) (save_data_dot (rd_gs rs1))"
    unfolding same_but_scratch_def save_data_dot_def by (rule exI, rule exI [of _ "gs_bignum (rd_gs rs1)"]) simp
  then have rs2: "appends rs1 [] rs2" using appends_scratch appendsD [OF rs1(2)] by (simp add: rs2_def)
  note ok = appendsD [OF rs2] appendsD [OF rs1(2)]
  obtain rs' where rs': "emit_bytes (le_bytes v nbytes) rs2 = Inr rs'" "appends rs2 (le_bytes v nbytes) rs'"
    using emit_bytes_appends [of rs2 "le_bytes v nbytes"] ok assms(3,5) by auto
  have "emit_constant v nbytes rs2 = Inr rs'"
    using rs'(1) fits_not_truncated [OF assms(3,4)] le_bytes_low_mask [OF assms(3), of v]
    by (simp add: emit_constant_def Let_def)
  then have "emit_checked e nbytes rs2 = Inr (e, rs')"
    using ok n by (simp add: emit_checked_def uminus_bignum_def e emit_operand_def plain_operand_def no_value_in_bss_def
        takes_data_def emit_value_def)
  moreover have "emit_expr_with_reloc e nbytes rs = emit_checked e nbytes rs2"
    using rs1(1) ok(2) assms(3) by (auto simp: emit_expr_with_reloc_def takes_data_def rs2_def)
  ultimately have "emit_expr e nbytes rs = Inr rs'" by (simp add: emit_expr_def)
  moreover have "appends rs (le_bytes v nbytes) rs'"
    using appends_trans [OF rs1(2) appends_trans [OF rs2 rs'(2)]] by simp
  ultimately show ?thesis by auto
qed

lemma print_cexp_no_eol: "cexp_ok t \<Longrightarrow> \<not> is_end_of_line (c_char (print_cexp r t @ s))"
proof (induction t arbitrary: r s)
  case (Lit v)
  note d = decimal_digits [of "unat v"]
  then obtain c cs where "decimal (unat v) = c # cs" by (cases "decimal (unat v)") auto
  then show ?case using d by (auto simp: is_digit_def hex_value_def is_end_of_line_def)
next
  case (Unary c a)
  then show ?case by (auto simp: unary_char_def is_end_of_line_def)
next
  case (Binary op a b)
  then show ?case by (simp add: Let_def is_end_of_line_def)
qed

text \<open>The operands of a directive: constant expressions with commas between them.\<close>

fun print_operands :: "cexp list \<Rightarrow> string" where
  "print_operands [] = ''''"
| "print_operands [t] = print_cexp 0 t"
| "print_operands (t # ts) = print_cexp 0 t @ '','' @ print_operands ts"

definition operand_for :: "nat \<Rightarrow> cexp \<Rightarrow> valueT \<Rightarrow> bool" where
  "operand_for nbytes t v \<longleftrightarrow> cexp_ok t \<and> cexp_value t = Some v \<and> fits_bytes nbytes v"

definition line_end :: "string \<Rightarrow> bool" where
  "line_end s \<longleftrightarrow> c_char s = CHR 0x0a \<or> c_char s = CHR '';''"

lemma line_end_Cons: "line_end s \<Longrightarrow> \<exists>c rest. s = c # rest \<and> is_end_of_line c"
  by (cases s) (auto simp: line_end_def is_end_of_line_def)

lemma demand_line_end: "line_end s \<Longrightarrow> demand_empty_rest_of_line s rs = Inr (tl s, rs)"
  by (cases s) (auto simp: line_end_def demand_empty_rest_of_line_def is_end_of_line_def skip_whitespace_def Let_def)

lemma cons_loop_values:
  assumes "takes_data rs" and "nbytes \<in> {1, 2, 4}" and "list_all2 (operand_for nbytes) ts vs" and "ts \<noteq> []"
    and "line_end s" and "length (section_bytes rs) + nbytes * length ts < 2 ^ 32" and "length ts \<le> n"
  shows "\<exists>rs'. cons_loop n nbytes False (print_operands ts @ s) rs = Inr (s, rs') \<and>
    appends rs (concat (map (\<lambda>v. le_bytes v nbytes) vs)) rs'"
  using assms
proof (induction ts arbitrary: n rs vs)
  case (Cons t ts)
  from Cons.prems(3) obtain v vs' where vs: "vs = v # vs'" "operand_for nbytes t v" "list_all2 (operand_for nbytes) ts vs'"
    by (cases vs) auto
  from Cons.prems(7) obtain m where n: "n = Suc m" by (cases n) auto
  let ?rest = "if ts = [] then s else '','' @ print_operands ts @ s"
  have line: "print_operands (t # ts) @ s = print_cexp 0 t @ ?rest" by (cases ts) simp_all
  have delim: "c_char ?rest \<in> {CHR 0x00, CHR 0x0a} \<union> set '';,)''" using Cons.prems(5) by (auto simp: line_end_def)
  obtain e gs where e: "parse_expression (rd_atof rs) Expr_normal (print_cexp 0 t @ ?rest) (rd_gs rs) =
      Inr (Absolute_section, e, ?rest, gs)" "is_constant e v" "same_but_scratch (rd_gs rs) gs"
    using printed_constant_parsed [OF _ _ _ delim, of "rd_atof rs" t v Expr_normal "rd_gs rs"] vs(2) Cons.prems(1)
    unfolding takes_data_def operand_for_def by blast
  have a1: "appends rs [] (rs\<lparr>rd_gs := gs\<rparr>)" by (rule appends_scratch [OF Cons.prems(1) e(3)])
  obtain rs1 where rs1: "emit_expr e nbytes (rs\<lparr>rd_gs := gs\<rparr>) = Inr rs1" "appends (rs\<lparr>rd_gs := gs\<rparr>) (le_bytes v nbytes) rs1"
    using emit_expr_constant [OF _ e(2) Cons.prems(2), of "rs\<lparr>rd_gs := gs\<rparr>"] appendsD [OF a1] vs(2) Cons.prems(6)
    by (auto simp: operand_for_def)
  have a2: "appends rs (le_bytes v nbytes) rs1" using appends_trans [OF a1 rs1(2)] by simp
  have read: "read_expression Expr_normal (print_operands (t # ts) @ s) rs = Inr ((Absolute_section, e), ?rest, rs\<lparr>rd_gs := gs\<rparr>)"
    unfolding line by (simp add: read_expression_def e(1))
  show ?case
  proof (cases "ts = []")
    case True
    then have "cons_loop n nbytes False (print_operands (t # ts) @ s) rs = Inr (s, rs1)"
      using Cons.prems(5) read rs1(1) by (auto simp: n line_end_def)
    then show ?thesis using a2 vs True by auto
  next
    case False
    obtain rs2 where rs2: "cons_loop m nbytes False (print_operands ts @ s) rs1 = Inr (s, rs2)"
      "appends rs1 (concat (map (\<lambda>v. le_bytes v nbytes) vs')) rs2"
      using Cons.IH [OF _ Cons.prems(2) vs(3) False Cons.prems(5), of rs1 m] appendsD [OF a2] Cons.prems(6,7) n by auto
    have "cons_loop n nbytes False (print_operands (t # ts) @ s) rs = Inr (s, rs2)"
      using False rs2(1) by (simp add: n read rs1(1))
    then show ?thesis using appends_trans [OF a2 rs2(2)] vs by auto
  qed
qed simp

lemma length_operands: "length ts \<le> length (print_operands ts) + 1"
  by (induction ts rule: print_operands.induct) simp_all

lemma data_directive:
  assumes "takes_data rs" and "nbytes \<in> {1, 2, 4}" and "list_all2 (operand_for nbytes) ts vs" and "ts \<noteq> []"
    and "line_end s" and "length (section_bytes rs) + nbytes * length ts < 2 ^ 32"
  shows "\<exists>rs'. cons nbytes (print_operands ts @ s) rs = Inr (tl s, rs') \<and>
    appends rs (concat (map (\<lambda>v. le_bytes v nbytes) vs)) rs'"
proof -
  from assms(3,4) obtain t ts' where ts: "ts = t # ts'" "cexp_ok t" by (cases ts) (auto simp: list_all2_Cons1 operand_for_def)
  obtain r where r: "print_operands ts @ s = print_cexp 0 t @ r" using ts by (cases ts') auto
  note head = print_cexp_head [OF ts(2), of 0 r] print_cexp_no_eol [OF ts(2), of 0 r]
  have "length ts \<le> length (print_operands ts @ s) + 1" using length_operands [of ts] by simp
  from cons_loop_values [OF assms(1-6) this] obtain rs' where
    "cons_loop (length (print_operands ts @ s) + 1) nbytes False (print_operands ts @ s) rs = Inr (s, rs')"
    "appends rs (concat (map (\<lambda>v. le_bytes v nbytes) vs)) rs'" by blast
  moreover have "skip_whitespace (print_operands ts @ s) = print_operands ts @ s" using head by (simp add: r skip_whitespace_def)
  moreover have "\<not> is_it_end_of_statement (print_operands ts @ s)"
    using head by (simp add: is_it_end_of_statement_def skip_whitespace_def r)
  moreover have "nbytes \<noteq> 0" using assms(2) by auto
  ultimately show ?thesis using demand_line_end [OF assms(5)] by (simp add: cons_def cons_worker_def)
qed

subsection \<open>Strings\<close>

text \<open>A byte inside a string: as it is, or as three octal digits behind a backslash.\<close>

definition octal_digit :: "nat \<Rightarrow> char" where
  "octal_digit n = char_of (48 + n mod 8)"

definition escape_byte :: "byte \<Rightarrow> string" where
  "escape_byte b =
     (let n = unat b
      in if 32 \<le> n \<and> n < 127 \<and> n \<noteq> 0x22 \<and> n \<noteq> 0x5C then [char_of n]
         else [CHR 0x5C, octal_digit (n div 64), octal_digit (n div 8), octal_digit n])"

definition quoted :: "byte list \<Rightarrow> string" where
  "quoted bs = [CHR 0x22] @ concat (map escape_byte bs) @ [CHR 0x22]"

fun print_strings :: "byte list list \<Rightarrow> string" where
  "print_strings [] = ''''"
| "print_strings [bs] = quoted bs"
| "print_strings (bs # bss) = quoted bs @ '','' @ print_strings bss"

text \<open>A character of \<open>k\<close> bytes.\<close>

definition wide_char :: "nat \<Rightarrow> byte \<Rightarrow> byte list" where
  "wide_char k b = b # replicate (k - 1) 0"

definition wide_string :: "nat \<Rightarrow> bool \<Rightarrow> byte list \<Rightarrow> byte list" where
  "wide_string k z bs = concat (map (wide_char k) (bs @ (if z then [0] else [])))"

lemma octal_digit_digit: "isdigit (octal_digit n)" "of_char (octal_digit n) = 48 + n mod 8"
proof -
  have "n mod 8 < 8" by simp
  then show "of_char (octal_digit n) = 48 + n mod 8" by (simp add: octal_digit_def)
  then show "isdigit (octal_digit n)" using \<open>n mod 8 < 8\<close> by (simp add: isdigit_def)
qed

lemma isdigit_plain:
  assumes "isdigit d"
  shows "d \<noteq> CHR 0x00 \<and> d \<noteq> CHR ''b'' \<and> d \<noteq> CHR ''f'' \<and> d \<noteq> CHR ''n'' \<and> d \<noteq> CHR ''r'' \<and> d \<noteq> CHR ''t'' \<and> d \<noteq> CHR ''v''"
  using assms by (auto simp: isdigit_def)

lemma next_char_escape: "next_char_of_string (escape_byte b @ s) rs = (Some b, s, rs)"
proof -
  let ?n = "unat b"
  have n: "?n < 256" using unsigned_less [of b] by simp
  show ?thesis
  proof (cases "32 \<le> ?n \<and> ?n < 127 \<and> ?n \<noteq> 0x22 \<and> ?n \<noteq> 0x5C")
    case True
    obtain c where c: "char_of ?n = c" by blast
    then have oc: "of_char c = ?n" using n by auto
    have "c \<noteq> CHR 0x22 \<and> c \<noteq> CHR 0x00 \<and> c \<noteq> CHR 0x0a \<and> c \<noteq> CHR 0x5C" using True oc [symmetric] by auto
    moreover have "char_byte c = b"
    proof -
      have "char_byte c = of_nat (of_char c)" by (simp only: char_byte_def of_nat_of_char)
      then show ?thesis by (simp add: oc)
    qed
    ultimately show ?thesis using True by (simp add: escape_byte_def next_char_of_string_def Let_def c)
  next
    case False
    let ?d = "octal_digit (?n div 64)"
    have "(m div 64 mod 8 * 8 + m div 8 mod 8) * 8 + m mod 8 = m" if "m < 256" for m :: nat
    proof -
      have "m div 64 = m div 8 div 8" by (simp flip: div_mult2_eq)
      moreover have "m div 64 mod 8 = m div 64" using that by (intro mod_less) simp
      ultimately show ?thesis using div_mult_mod_eq [of "m div 8" 8] div_mult_mod_eq [of m 8] by simp
    qed
    from this [OF n] have v: "word_of_nat ((?n div 64 mod 8 * 8 + ?n div 8 mod 8) * 8 + ?n mod 8) = b"
      by (simp only: of_nat_unat unsigned_of_nat ucast_id)
    have esc: "escape_byte b = [CHR 0x5C, ?d, octal_digit (?n div 8), octal_digit ?n]" using False by (simp add: escape_byte_def Let_def)
    have "string_escape (?d # octal_digit (?n div 8) # octal_digit ?n # s) rs = (Some b, s, rs)"
      using isdigit_plain [OF octal_digit_digit(1)] v
      by (simp add: string_escape_def Let_def octal_digit_digit numeral_3_eq_3)
    then show ?thesis by (simp add: esc next_char_of_string_def)
  qed
qed

lemma byte_of_char: "(ucast (ucast b :: u32) :: byte) = b" for b :: byte
  by (intro bit_word_eqI) (auto simp: bit_simps)

lemma stringer_char_appends:
  assumes "takes_data rs" and "k \<in> {1, 2, 4, 8}" and "length (section_bytes rs) + k < 2 ^ 32"
  shows "\<exists>rs'. stringer_append_char (ucast b) (8 * k) rs = Inr rs' \<and> appends rs (wide_char k b) rs'"
proof -
  have len: "length (wide_char k b) = k" using assms(2) by (auto simp: wide_char_def)
  obtain rs1 where rs1: "append_chars [b] rs = Inr rs1" "appends rs [b] rs1"
    using append_chars_appends [OF assms(1), of "[b]"] assms(2,3) by auto
  have "length (section_bytes rs1) + length (replicate (k - 1) (0 :: byte)) < 2 ^ 32"
    using appendsD [OF rs1(2)] assms(2,3) by auto
  then obtain rs2 where rs2: "append_chars (replicate (k - 1) 0) rs1 = Inr rs2" "appends rs1 (replicate (k - 1) 0) rs2"
    using append_chars_appends appendsD [OF rs1(2)] by blast
  have "stringer_append_char (ucast b) (8 * k) rs = Inr rs2"
    using assms(1,2) rs1(1) rs2(1) by (auto simp: stringer_append_char_def takes_data_def Let_def byte_of_char simp del: append_chars.simps)
  then show ?thesis using appends_trans [OF rs1(2) rs2(2)] by (auto simp: wide_char_def)
qed

lemma append_string_appends:
  assumes "takes_data rs" and "k \<in> {1, 2, 4, 8}" and "length (section_bytes rs) + k * length bs < 2 ^ 32"
  shows "\<exists>rs'. append_string (8 * k) (concat (map escape_byte bs) @ CHR 0x22 # s) rs = Inr (s, rs') \<and>
    appends rs (concat (map (wide_char k) bs)) rs'"
  using assms
proof (induction bs arbitrary: rs)
  case Nil
  have "append_string (8 * k) (CHR 0x22 # s) rs = Inr (s, rs)"
    by (subst append_string.simps) (simp add: next_char_of_string_def)
  then show ?case using appends_scratch [OF Nil(1) same_but_scratch_intros(1)] by simp
next
  case (Cons b bs)
  obtain rs1 where rs1: "stringer_append_char (ucast b) (8 * k) rs = Inr rs1" "appends rs (wide_char k b) rs1"
    using stringer_char_appends [OF Cons.prems(1,2)] Cons.prems(3) by auto
  have len: "length (wide_char k b) = k" using Cons.prems(2) by (auto simp: wide_char_def)
  obtain rs' where rs': "append_string (8 * k) (concat (map escape_byte bs) @ CHR 0x22 # s) rs1 = Inr (s, rs')"
    "appends rs1 (concat (map (wide_char k) bs)) rs'"
    using Cons.IH [of rs1] appendsD [OF rs1(2)] Cons.prems len by auto
  have "append_string (8 * k) (concat (map escape_byte (b # bs)) @ CHR 0x22 # s) rs = Inr (s, rs')"
    by (subst append_string.simps) (simp add: next_char_escape rs1(1) rs'(1))
  then show ?case using appends_trans [OF rs1(2) rs'(2)] by auto
qed

lemma length_wide_string: "k \<noteq> 0 \<Longrightarrow> length (wide_string k z bs) = k * (length bs + of_bool z)"
  by (induction bs) (auto simp: wide_string_def wide_char_def)

lemma stringer_part_quoted:
  assumes "takes_data rs" and "k \<in> {1, 2, 4, 8}" and "length (section_bytes rs) + length (wide_string k z bs) < 2 ^ 32"
  shows "\<exists>rs'. stringer_part (8 * k) z (quoted bs @ s) rs = Inr (s, rs') \<and> appends rs (wide_string k z bs) rs'"
proof -
  have k: "k \<noteq> 0" using assms(2) by auto
  have len: "length (wide_string k z bs) = k * length bs + (if z then k else 0)" using length_wide_string [OF k] by (simp add: algebra_simps)
  obtain rs1 where rs1: "append_string (8 * k) (concat (map escape_byte bs) @ CHR 0x22 # s) rs = Inr (s, rs1)"
    "appends rs (concat (map (wide_char k) bs)) rs1"
    using append_string_appends [OF assms(1,2), of bs s] assms(3) len by auto
  have "\<exists>rs2. (if z then stringer_append_char 0 (8 * k) rs1 else Inr rs1) = Inr rs2 \<and>
      appends rs1 (concat (map (wide_char k) (if z then [0] else []))) rs2"
  proof (cases z)
    case True
    have "length (concat (map (wide_char k) bs)) = k * length bs"
      using length_wide_string [OF k, of False bs] by (simp add: wide_string_def)
    then show ?thesis using stringer_char_appends [of rs1 k 0] appendsD [OF rs1(2)] assms(2,3) len True by auto
  next
    case False
    then show ?thesis using appends_scratch [OF _ same_but_scratch_intros(1), of rs1] appendsD [OF rs1(2)] by simp
  qed
  then obtain rs2 where rs2: "(if z then stringer_append_char 0 (8 * k) rs1 else Inr rs1) = Inr rs2"
    "appends rs1 (concat (map (wide_char k) (if z then [0] else []))) rs2" by blast
  have "stringer_part (8 * k) z (quoted bs @ s) rs = Inr (s, rs2)"
    unfolding stringer_part_def Let_def quoted_def by (simp add: rs1(1) rs2(1))
  then show ?thesis using appends_trans [OF rs1(2) rs2(2)] by (auto simp: wide_string_def)
qed

lemma skip_quoted [simp]: "skip_whitespace (quoted bs @ s) = quoted bs @ s" "c_char (quoted bs @ s) = CHR 0x22"
  by (simp_all add: quoted_def skip_whitespace_def)

lemma skip_strings: "bss \<noteq> [] \<Longrightarrow> skip_whitespace (print_strings bss @ s) = print_strings bss @ s \<and> c_char (print_strings bss @ s) = CHR 0x22"
  by (cases bss rule: print_strings.cases) simp_all

lemma stringer_loop_strings:
  assumes "takes_data rs" and "k \<in> {1, 2, 4, 8}" and "bss \<noteq> []" and "line_end s"
    and "length (section_bytes rs) + length (concat (map (wide_string k z) bss)) < 2 ^ 32" and "2 * length bss \<le> n + 1"
  shows "\<exists>rs'. stringer_loop n (8 * k) z (print_strings bss @ s) rs = Inr (s, rs') \<and>
    appends rs (concat (map (wide_string k z) bss)) rs'"
  using assms
proof (induction bss arbitrary: n rs)
  case (Cons bs bss)
  let ?rest = "if bss = [] then s else '','' @ print_strings bss @ s"
  have line: "print_strings (bs # bss) @ s = quoted bs @ ?rest" by (cases bss) simp_all
  obtain rs1 where rs1: "stringer_part (8 * k) z (quoted bs @ ?rest) rs = Inr (?rest, rs1)" "appends rs (wide_string k z bs) rs1"
    using stringer_part_quoted [OF Cons.prems(1,2), of z bs ?rest] Cons.prems(5) by auto
  from Cons.prems(6) obtain m where n: "n = Suc m" by (cases n) auto
  show ?case
  proof (cases "bss = []")
    case True
    have "skip_whitespace s = s \<and> c_char s \<noteq> CHR '','' \<and> c_char s \<noteq> CHR ''<'' \<and> c_char s \<noteq> CHR 0x22"
      using Cons.prems(4) by (auto simp: line_end_def skip_whitespace_def)
    then have "stringer_loop n (8 * k) z (print_strings (bs # bss) @ s) rs = Inr (s, rs1)"
      using rs1(1) True by (simp only: line n stringer_loop.simps skip_quoted) simp
    then show ?thesis using rs1(2) True by auto
  next
    case False
    with Cons.prems(6) n obtain j where m: "m = Suc j" "2 * length bss \<le> j + 1"
      by (cases m; cases bss) auto
    obtain rs2 where rs2: "stringer_loop j (8 * k) z (print_strings bss @ s) rs1 = Inr (s, rs2)"
      "appends rs1 (concat (map (wide_string k z) bss)) rs2"
      using Cons.IH [OF _ Cons.prems(2) False Cons.prems(4) _ m(2), of rs1] appendsD [OF rs1(2)] Cons.prems(5) by auto
    have comma: "stringer_loop m (8 * k) z ('','' @ print_strings bss @ s) rs1 = Inr (s, rs2)"
      using rs2(1) skip_strings [OF False, of s] by (simp add: m(1) stringer_part_def skip_whitespace_def [of "CHR '','' # _"])
    have "stringer_loop n (8 * k) z (print_strings (bs # bss) @ s) rs = Inr (s, rs2)"
      using rs1(1) False comma
      by (simp only: line n stringer_loop.simps skip_quoted) (simp add: skip_whitespace_def [of "CHR '','' # _"])
    then show ?thesis using appends_trans [OF rs1(2) rs2(2)] by auto
  qed
qed simp

lemma length_strings: "2 * length bss \<le> length (print_strings bss) + 1"
  by (induction bss rule: print_strings.induct) (simp_all add: quoted_def)

lemma string_directive:
  assumes "takes_data rs" and "k \<in> {1, 2, 4, 8}" and "bss \<noteq> []" and "line_end s"
    and "length (section_bytes rs) + length (concat (map (wide_string k z) bss)) < 2 ^ 32"
  shows "\<exists>rs'. stringer (8 * k + of_bool z) (print_strings bss @ s) rs = Inr (tl s, rs') \<and>
    appends rs (concat (map (wide_string k z) bss)) rs'"
proof -
  have "2 * length bss \<le> length (print_strings bss @ s) + 1 + 1" using length_strings [of bss] by simp
  from stringer_loop_strings [OF assms(1-5) this] obtain rs' where
    "stringer_loop (length (print_strings bss @ s) + 1) (8 * k) z (print_strings bss @ s) rs = Inr (s, rs')"
    "appends rs (concat (map (wide_string k z) bss)) rs'" by blast
  moreover have "8 * ((8 * k + of_bool z) div 8) = 8 * k" "odd (8 * k + of_bool z) \<longleftrightarrow> z" by auto
  moreover have "\<not> is_it_end_of_statement (print_strings bss @ s)"
    using skip_strings [OF assms(3), of s] by (simp add: is_it_end_of_statement_def is_end_of_line_def)
  moreover have "\<not> absolute_now rs" using assms(1) by (simp add: takes_data_def)
  ultimately show ?thesis using demand_line_end [OF assms(4)] skip_strings [OF assms(3), of s] by (simp add: stringer_def)
qed

end
