(* ===== verification/SourceData.thy ===== *)
theory SourceData
  imports ReadLoop DataValue
begin

text \<open>
  Source text of data directives and the bytes it stands for. The main loop finds the directive
  of each line in the table and runs it, and in the end the section holds the bytes of all lines.
\<close>

subsection \<open>Lines of data\<close>

text \<open>
  The width of the data, in bytes. Strings of other characters than bytes come with a NUL behind
  each.
\<close>

datatype data_line = Numbers nat "cexp list" | Strings nat bool "byte list list"

fun directive_name :: "data_line \<Rightarrow> string" where
  "directive_name (Numbers n ts) = (if n = 1 then ''byte'' else if n = 2 then ''half'' else ''word'')"
| "directive_name (Strings k z bss) =
     (if k = 1 then if z then ''asciz'' else ''ascii''
      else if k = 2 then ''string16'' else if k = 4 then ''string32'' else ''string64'')"

fun line_operands :: "data_line \<Rightarrow> string" where
  "line_operands (Numbers n ts) = print_operands ts"
| "line_operands (Strings k z bss) = print_strings bss"

definition line_text :: "data_line \<Rightarrow> string" where
  "line_text l = [CHR 0x09, CHR ''.''] @ directive_name l @ '' '' @ line_operands l @ [CHR 0x0a]"

definition cexp_number :: "cexp \<Rightarrow> valueT" where "cexp_number t = the (cexp_value t)"

fun line_bytes :: "data_line \<Rightarrow> byte list" where
  "line_bytes (Numbers n ts) = concat (map (\<lambda>t. le_bytes (cexp_number t) n) ts)"
| "line_bytes (Strings k z bss) = concat (map (wide_string k z) bss)"

fun line_ok :: "data_line \<Rightarrow> bool" where
  "line_ok (Numbers n ts) \<longleftrightarrow> n \<in> {1, 2, 4} \<and> ts \<noteq> [] \<and> list_all (\<lambda>t. operand_for n t (cexp_number t)) ts"
| "line_ok (Strings k z bss) \<longleftrightarrow> k \<in> {1, 2, 4, 8} \<and> (k = 1 \<or> z) \<and> bss \<noteq> []"

definition line_handler :: "data_line \<Rightarrow> handler" where
  "line_handler l = (case l of Numbers n ts \<Rightarrow> cons n | Strings k z bss \<Rightarrow> stringer (8 * k + of_bool z))"

lemma line_directive:
  assumes "takes_data rs" and "line_ok l" and "length (section_bytes rs) + length (line_bytes l) < 2 ^ 32"
  shows "\<exists>rs'. line_handler l (line_operands l @ CHR 0x0a # s) rs = Inr (s, rs') \<and> appends rs (line_bytes l) rs'"
proof (cases l)
  case (Numbers n ts)
  have len: "length (concat (map (\<lambda>t. le_bytes (cexp_number t) n) ts)) = n * length ts" for ts
    by (induction ts) simp_all
  have "list_all2 (operand_for n) ts (map cexp_number ts)"
    using assms(2) Numbers by (simp add: list_all2_map2 list_all2_same list_all_iff)
  from data_directive [OF assms(1) _ this, of "CHR 0x0a # s"] show ?thesis
    using assms(2,3) Numbers by (auto simp: line_handler_def line_end_def len o_def)
next
  case (Strings k z bss)
  then show ?thesis
    using string_directive [OF assms(1), of k bss "CHR 0x0a # s" z] assms(2,3)
    by (simp add: line_handler_def line_end_def)
qed

lemma print_cexp_no_equals: "cexp_ok t \<Longrightarrow> c_char (print_cexp r t @ s) \<noteq> CHR ''=''"
proof (induction t arbitrary: r s)
  case (Lit v)
  note d = decimal_digits [of "unat v"]
  then obtain c cs where "decimal (unat v) = c # cs" by (cases "decimal (unat v)") auto
  then show ?case using d by (auto simp: is_digit_def hex_value_def)
qed (auto simp: unary_char_def Let_def)

lemma print_operands_head:
  assumes "ts \<noteq> []" and "list_all cexp_ok ts"
  shows "c_char (print_operands ts @ s) \<noteq> CHR ''=''"
  using assms print_cexp_no_equals by (cases ts rule: print_operands.cases) auto

lemma line_operands_head: "line_ok l \<Longrightarrow> c_char (line_operands l @ s) \<noteq> CHR ''=''"
proof (cases l)
  case (Strings k z bss)
  then show "line_ok l \<Longrightarrow> ?thesis" using skip_strings [of bss s] by simp
next
  case (Numbers n ts)
  moreover have "list_all cexp_ok ts" if "line_ok l"
    using that Numbers by (auto simp: operand_for_def list_all_iff)
  ultimately show "line_ok l \<Longrightarrow> ?thesis" using print_operands_head by auto
qed

subsection \<open>The directive in the table\<close>

lemmas directive_tables = riscv_pseudo_table_def elf_pseudo_table_def potable_def

lemma data_directives:
  "pseudo_op out ''byte'' = Some (Directive (cons 1))" "pseudo_op out ''half'' = Some (Directive (cons 2))"
  "pseudo_op out ''word'' = Some (Directive (cons 4))" "pseudo_op out ''ascii'' = Some (Directive (stringer 8))"
  "pseudo_op out ''asciz'' = Some (Directive (stringer 9))" "pseudo_op out ''string16'' = Some (Directive (stringer 17))"
  "pseudo_op out ''string32'' = Some (Directive (stringer 33))" "pseudo_op out ''string64'' = Some (Directive (stringer 65))"
  unfolding pseudo_op_def directive_tables append.simps map_of.simps
  by (simp_all only: fst_conv snd_conv fun_upd_apply list.inject char.inject if_True if_False simp_thms list.simps)

lemma line_in_table:
  assumes "pobegin out = Inr po_hash" and "line_ok l"
  shows "fst (hash_find po_hash (directive_name l)) = Some (Directive (line_handler l))"
proof -
  have po: "hash_inv po_hash" "hash_abs po_hash = pseudo_op out" using pobegin_table [of out] assms(1) by auto
  have "pseudo_op out (directive_name l) = Some (Directive (line_handler l))"
    using assms(2) by (cases l) (auto simp: data_directives line_handler_def)
  then show ?thesis by (simp add: hash_find_cases(2) [OF po(1)] po(2))
qed

lemma directive_name_chars: "list_all (\<lambda>c. is_part_of_name c \<and> tolower c = c) (directive_name l)"
  by (cases l) (simp_all add: is_part_of_name_def lex_type_def tolower_def)

lemma name_read:
  assumes "list_all (\<lambda>c. is_part_of_name c \<and> tolower c = c) name"
  shows "get_symbol_name (CHR ''.'' # name @ '' '' @ s) gs = (CHR ''.'' # name, '' '' @ s, gs)"
    and "map tolower (CHR ''.'' # name) = CHR ''.'' # name"
proof -
  have "\<not> is_part_of_name CHR '' ''" "is_name_beginner CHR ''.''"
    by (simp_all add: is_part_of_name_def is_name_beginner_def lex_type_def)
  moreover have "takeWhile is_part_of_name name = name" "dropWhile is_part_of_name name = []"
    using assms by (auto simp: list_all_iff)
  ultimately show "get_symbol_name (CHR ''.'' # name @ '' '' @ s) gs = (CHR ''.'' # name, '' '' @ s, gs)"
    using assms by (simp add: get_symbol_name_def list_all_iff takeWhile_append2)
  show "map tolower (CHR ''.'' # name) = CHR ''.'' # name"
    using assms by (simp add: list_all_iff map_idI tolower_def)
qed

subsection \<open>The main loop\<close>

text \<open>A statement that is a directive runs its handler on the operands.\<close>

lemma directive_statement:
  assumes "list_all (\<lambda>c. is_part_of_name c \<and> tolower c = c) name"
    and "fst (hash_find po_hash name) = Some (Directive h)" and "c_char s \<noteq> CHR ''=''"
    and "begin_line prev rs = Inr rs1" and "\<not> ignoring_now rs1"
  shows "read_statement out po_hash prev ([CHR 0x09, CHR ''.''] @ name @ '' '' @ s) rs =
    and_then (h s rs1) (\<lambda>(s, rs). Inr (False, s, rs))"
proof -
  have "is_name_beginner CHR ''.''" by (simp add: is_name_beginner_def lex_type_def)
  moreover have "rs1\<lparr>rd_gs := rd_gs rs1\<rparr> = rs1" by simp
  ultimately show ?thesis
    using assms name_read(1) [OF assms(1), of s "rd_gs rs1"] name_read(2) [OF assms(1)]
    by (simp add: read_statement_def ignore_input_def read_named_def read_pseudo_def behind_name_def
        restore_line_pointer_def Let_def)
qed

text \<open>
  A section that takes data, in input that is not ignored, with a symbol for the location counter
  that is not a local one.
\<close>

definition takes_lines :: "reader_state \<Rightarrow> bool" where
  "takes_lines rs \<longleftrightarrow> takes_data rs \<and> \<not> ignoring_now rs \<and>
     gs_dot_symbol (rd_gs rs) < length (gs_symbols (rd_gs rs)) \<and>
     \<not> sy_local (gs_symbols (rd_gs rs) ! gs_dot_symbol (rd_gs rs))"

text \<open>
  After lines of source: the section has grown, and there is no message, no fixup, and no new
  symbol; only the symbol for the location counter is another one.
\<close>

definition assembled :: "reader_state \<Rightarrow> byte list \<Rightarrow> nat \<Rightarrow> reader_state \<Rightarrow> bool" where
  "assembled rs bs n rs' \<longleftrightarrow>
     takes_lines rs' \<and> section_bytes rs' = section_bytes rs @ bs \<and>
     chain_extends (gs_chain (rd_gs rs)) (gs_chain (rd_gs rs')) \<and>
     gs_tc (rd_gs rs') = gs_tc (rd_gs rs) \<and> gs_fixes (rd_gs rs') = gs_fixes (rd_gs rs) \<and>
     gs_dot_symbol (rd_gs rs') = gs_dot_symbol (rd_gs rs) \<and>
     (\<exists>dot. gs_symbols (rd_gs rs') = (gs_symbols (rd_gs rs))[gs_dot_symbol (rd_gs rs) := dot]) \<and>
     fl_line (rd_where rs') = fl_line (rd_where rs) + of_nat n"

lemma assembled_trans:
  assumes "assembled rs bs m rs1" and "assembled rs1 cs n rs2"
  shows "assembled rs (bs @ cs) (m + n) rs2"
proof -
  obtain d1 d2 where "gs_symbols (rd_gs rs1) = (gs_symbols (rd_gs rs))[gs_dot_symbol (rd_gs rs) := d1]"
    "gs_symbols (rd_gs rs2) = (gs_symbols (rd_gs rs1))[gs_dot_symbol (rd_gs rs1) := d2]"
    "gs_dot_symbol (rd_gs rs1) = gs_dot_symbol (rd_gs rs)" using assms by (auto simp: assembled_def)
  then have "\<exists>dot. gs_symbols (rd_gs rs2) = (gs_symbols (rd_gs rs))[gs_dot_symbol (rd_gs rs) := dot]"
    by auto
  then show ?thesis using assms chain_extends_trans unfolding assembled_def by fastforce
qed

lemma appends_assembled:
  assumes "takes_lines rs" and "appends rs bs rs'"
  shows "assembled rs bs 0 rs'"
proof -
  obtain fc d b where rs': "rs' = rs\<lparr>rd_gs := rd_gs rs\<lparr>gs_chain := fc, gs_dot := d, gs_bignum := b\<rparr>\<rparr>"
    using assms(2) by (auto simp: appends_def)
  have "ignoring_now rs' = ignoring_now rs" by (simp add: rs' ignoring_now_def)
  moreover have "\<exists>dot. gs_symbols (rd_gs rs) = (gs_symbols (rd_gs rs))[gs_dot_symbol (rd_gs rs) := dot]"
    by (metis list_update_id)
  ultimately show ?thesis using assms by (simp add: assembled_def takes_lines_def appends_def) (simp add: rs')
qed

text \<open>The symbol for the location counter gets its value.\<close>

lemma dot_set:
  assumes "takes_lines rs"
  shows "\<exists>rs'. lift_gs (\<lambda>gs. symbol_set_value_now (gs_dot_symbol gs) gs) rs = Inr rs' \<and> assembled rs [] 0 rs'"
proof -
  define gs i where "gs = rd_gs rs" and "i = gs_dot_symbol gs"
  define d where "d = (gs_symbols gs ! i)\<lparr>sy_segment := gs_seg gs,
    sy_value := (sy_value (gs_symbols gs ! i))\<lparr>X_op := O_constant, X_add_number := frag_now_fix (gs_chain gs),
      X_unsigned := False\<rparr>, sy_frag := Some (frag_now (gs_chain gs))\<rparr>"
  let ?rs = "rs\<lparr>rd_gs := gs\<lparr>gs_symbols := (gs_symbols gs)[i := d]\<rparr>\<rparr>"
  have i: "i < length (gs_symbols gs)" "\<not> sy_local (gs_symbols gs ! i)"
    using assms by (simp_all add: takes_lines_def gs_def i_def)
  have "symbol_set_value_now i gs = Inr (gs\<lparr>gs_symbols := (gs_symbols gs)[i := d]\<rparr>)"
    using i by (simp add: symbol_set_value_now_def S_SET_SEGMENT_def converted_symbol_def S_SET_VALUE_def
        symbol_set_frag_def update_symbol_def is_local_symbol_def real_symbol_def LOCAL_SYMBOL_CHECK_def Let_def d_def)
  then have "lift_gs (\<lambda>gs. symbol_set_value_now (gs_dot_symbol gs) gs) rs = Inr ?rs"
    by (simp add: lift_gs_def gs_def i_def)
  moreover have "assembled rs [] 0 ?rs"
    using assms i by (auto simp: assembled_def takes_lines_def takes_data_def absolute_now_def in_bss_def now_flags_def
        ignoring_now_def chain_extends_refl frchain_inv_def gs_def i_def d_def)
  ultimately show ?thesis by blast
qed

lemma line_begun:
  assumes "takes_lines rs"
  shows "\<exists>rs'. begin_line (CHR 0x0a) rs = Inr rs' \<and> assembled rs [] 1 rs'"
proof -
  obtain rs1 where rs1: "lift_gs (\<lambda>gs. symbol_set_value_now (gs_dot_symbol gs) gs) rs = Inr rs1" "assembled rs [] 0 rs1"
    using dot_set [OF assms] by blast
  have "assembled rs [] 1 (bump_line_counters rs1)"
    using rs1(2) by (auto simp: assembled_def takes_lines_def takes_data_def absolute_now_def in_bss_def now_flags_def
        ignoring_now_def bump_line_counters_def)
  then show ?thesis using rs1(1) by (simp add: begin_line_def is_end_of_line_def)
qed

lemma data_line_read:
  assumes "pobegin out = Inr po_hash" and "takes_lines rs" and "line_ok l"
    and "length (section_bytes rs) + length (line_bytes l) < 2 ^ 32"
  shows "\<exists>rs'. read_statement out po_hash (CHR 0x0a) (line_text l @ s) rs = Inr (False, s, rs') \<and>
    assembled rs (line_bytes l) 1 rs'"
proof -
  obtain rs1 where rs1: "begin_line (CHR 0x0a) rs = Inr rs1" "assembled rs [] 1 rs1" using line_begun [OF assms(2)] by blast
  then have takes: "takes_lines rs1" "section_bytes rs1 = section_bytes rs" by (simp_all add: assembled_def)
  obtain rs' where rs': "line_handler l (line_operands l @ CHR 0x0a # s) rs1 = Inr (s, rs')" "appends rs1 (line_bytes l) rs'"
    using line_directive [OF _ assms(3), of rs1 s] takes assms(4) by (auto simp: takes_lines_def)
  have line: "line_text l @ s = [CHR 0x09, CHR ''.''] @ directive_name l @ '' '' @ (line_operands l @ CHR 0x0a # s)"
    by (simp add: line_text_def)
  have "\<not> ignoring_now rs1" using takes(1) by (simp add: takes_lines_def)
  from directive_statement [OF directive_name_chars line_in_table [OF assms(1,3)] line_operands_head [OF assms(3)] rs1(1) this]
  have "read_statement out po_hash (CHR 0x0a) (line_text l @ s) rs = Inr (False, s, rs')"
    unfolding line using rs'(1) by simp
  then show ?thesis using assembled_trans [OF rs1(2) appends_assembled [OF takes(1) rs'(2)]] by auto
qed

lemma last_of_line: "last_read (line_text l @ s) s = CHR 0x0a"
  by (simp add: last_read_def line_text_def nth_append)

theorem data_lines_read:
  assumes "pobegin out = Inr po_hash" and "takes_lines rs" and "list_all line_ok ls"
    and "length (section_bytes rs) + length (concat (map line_bytes ls)) < 2 ^ 32"
  shows "\<exists>rs'. read_loop out po_hash (CHR 0x0a) (concat (map line_text ls)) rs = Some (Inr rs') \<and>
    assembled rs (concat (map line_bytes ls)) (length ls) rs'"
  using assms(2-4)
proof (induction ls arbitrary: rs)
  case Nil
  then show ?case using dot_set [OF Nil(1)] by (subst read_loop.simps) (auto simp: end_of_source_def)
next
  case (Cons l ls)
  let ?s = "concat (map line_text ls)"
  obtain rs1 where rs1: "read_statement out po_hash (CHR 0x0a) (line_text l @ ?s) rs = Inr (False, ?s, rs1)"
      "assembled rs (line_bytes l) 1 rs1"
    using data_line_read [OF assms(1) Cons.prems(1), of l ?s] Cons.prems(2,3) by auto
  obtain rs' where rs': "read_loop out po_hash (CHR 0x0a) ?s rs1 = Some (Inr rs')"
      "assembled rs1 (concat (map line_bytes ls)) (length ls) rs'"
    using Cons.IH [of rs1] rs1(2) Cons.prems(2,3) by (auto simp: assembled_def)
  have "line_text l \<noteq> []" by (simp add: line_text_def)
  then have "read_loop out po_hash (CHR 0x0a) (line_text l @ ?s) rs = Some (Inr rs')"
    using rs1(1) rs'(1) last_of_line [of l ?s] by (subst read_loop.simps) simp
  then show ?case using assembled_trans [OF rs1(2) rs'(2)] by auto
qed

end
