(* ===== verification/ReadSamples.thy ===== *)
theory ReadSamples
  imports SymSamples CondStruct SourceData
begin

text \<open>
  A reader in an empty text section for the witnesses, and lines of source for it.
\<close>

definition sample_reader :: reader_state where
  "sample_reader = \<lparr>rd_gs = empty_text, rd_atof = no_float, rd_flags = (\<lambda>_. 0x13), rd_segment_name = (\<lambda>_. ''.text''),
     rd_text_section = Section 0, rd_subseg_set = (\<lambda>seg gs. gs\<lparr>gs_seg := seg\<rparr>),
     rd_check_eh_frame = (\<lambda>e n gs. (False, e, n, gs)), rd_alignment = (\<lambda>_. 0), rd_cframes = [], rd_macro_nest = 0,
     rd_where = \<lparr>fl_file = ''a.s'', fl_line = 1\<rparr>\<rparr>"

lemma sample_reader_takes_data: "takes_data sample_reader" "section_bytes sample_reader = []"
  by (simp_all add: takes_data_def sample_reader_def absolute_now_def in_bss_def now_flags_def no_float_ok)
    (simp add: empty_text_def start_gas_def start_chain_def)

lemma sample_reader_not_ignoring: "\<not> ignoring_now sample_reader"
  by (simp add: sample_reader_def ignoring_now_def)

lemma sample_operands: "list_all2 (operand_for 2) [sample_cexp, Unary CHR ''-'' (Lit 1)] [21, - 1]"
  by (simp add: operand_for_def sample_cexp_ok fits_bytes_def unary_char_def unary_constant_def)

text \<open>A line is noted in a message; and a conditional with two branches.\<close>

definition note_line :: "string \<Rightarrow> reader_state \<Rightarrow> reader_state res" where
  "note_line l rs = Inr (rd_warn (Diag l []) rs)"

lemma note_line_blind: "blind (note_line l)"
  by (simp add: blind_def note_line_def with_frames_def rd_warn_def on_gs_def)

definition sample_block :: block where
  "sample_block = Plain ''nop'' (Cond O_ne ''1'' (Plain ''ret'' Done) (Else (Plain ''.byte 1'' Done)) Done)"

lemma sample_block_ok: "block_ok sample_block"
  by (simp add: sample_block_def plain_line_def ignore_input_def comparison_def text_ok_def is_end_of_line_def)

text \<open>The directives that are not modelled pass over their lines; and lines of data.\<close>

definition sample_outside :: outside where
  "sample_outside = \<lparr>out_directive = (\<lambda>name arg. s_ignore), out_assign_symbol = (\<lambda>name mode. s_ignore), out_app = s_ignore\<rparr>"

lemma sample_outside_reads: "out_reads sample_outside"
  by (simp add: out_reads_def sample_outside_def ignore_line.reads)

definition sample_lines :: "data_line list" where
  "sample_lines = [Numbers 4 [sample_cexp, Unary CHR ''-'' (Lit 1)], Strings 1 True [[104, 105]], Numbers 1 [Lit 7]]"

lemma sample_lines_ok: "list_all line_ok sample_lines"
  by (simp add: sample_lines_def operand_for_def cexp_number_def sample_cexp_ok fits_bytes_def unary_char_def unary_constant_def)

lemma sample_reader_takes_lines: "takes_lines sample_reader"
  using sample_reader_takes_data(1)
  by (simp add: takes_lines_def sample_reader_not_ignoring) (simp add: sample_reader_def empty_text_def start_gas_def)

end
