(* ===== verification/HashTrace.thy ===== *)
theory HashTrace
  imports GasHash
begin

text \<open>
  The hash table against its abstract specification. Any sequence of operations on a table
  of \<open>hash.c\<close> gives the answers the same sequence gives on a partial map, whatever the
  hash function does and however the searches reorder the chains; and a traversal meets every
  entry exactly once.
\<close>

subsection \<open>Sequences of operations\<close>

datatype 'a hash_op = Op_insert string 'a | Op_jam string 'a | Op_replace string 'a
  | Op_find string | Op_find_n string nat | Op_delete string

text \<open>What an operation tells its caller.\<close>

datatype 'a hash_answer = Ans_error "string option" | Ans_value "'a option" | Ans_abort

fun table_step :: "'a hash_op \<Rightarrow> 'a hash_control \<Rightarrow> 'a hash_answer \<times> 'a hash_control" where
  "table_step (Op_insert k v) t = (let (r, t) = hash_insert t k v in (Ans_error r, t))"
| "table_step (Op_jam k v) t = (let (r, t) = hash_jam t k v in (Ans_error r, t))"
| "table_step (Op_replace k v) t = (let (r, t) = hash_replace t k v in (Ans_value r, t))"
| "table_step (Op_find k) t = (let (r, t) = hash_find t k in (Ans_value r, t))"
| "table_step (Op_find_n k n) t = (let (r, t) = hash_find_n t k n in (Ans_value r, t))"
| "table_step (Op_delete k) t =
     (case hash_delete t k of Inl _ \<Rightarrow> (Ans_abort, t) | Inr (r, t) \<Rightarrow> (Ans_value r, t))"

fun map_step :: "'a hash_op \<Rightarrow> (string \<Rightarrow> 'a option) \<Rightarrow> 'a hash_answer \<times> (string \<Rightarrow> 'a option)" where
  "map_step (Op_insert k v) m =
     (if m k = None then (Ans_error None, m(k \<mapsto> v)) else (Ans_error (Some ''exists''), m))"
| "map_step (Op_jam k v) m = (Ans_error None, m(k \<mapsto> v))"
| "map_step (Op_replace k v) m = (Ans_value (m k), if m k = None then m else m(k \<mapsto> v))"
| "map_step (Op_find k) m = (Ans_value (m k), m)"
| "map_step (Op_find_n k n) m = (Ans_value (m (take n k)), m)"
| "map_step (Op_delete k) m = (Ans_value (m k), m(k := None))"

fun run_steps :: "('op \<Rightarrow> 's \<Rightarrow> 'ans \<times> 's) \<Rightarrow> 'op list \<Rightarrow> 's \<Rightarrow> 'ans list \<times> 's" where
  "run_steps step [] s = ([], s)"
| "run_steps step (x # xs) s =
     (let (a, s) = step x s; (as, s) = run_steps step xs s in (a # as, s))"

lemma hash_replace_spec:
  assumes inv: "hash_inv t"
  shows "fst (hash_replace t key val) = hash_abs t key" and "hash_inv (snd (hash_replace t key val))"
    and "hash_abs (snd (hash_replace t key val)) =
      (if hash_abs t key = None then hash_abs t else (hash_abs t)(key \<mapsto> val))"
proof -
  obtain res t' slot hash where lk: "hash_lookup t key (length key) = (res, t', slot, hash)"
    by (metis prod_cases4)
  note spec = hash_lookup_spec [OF inv lk]
  have "fst (hash_replace t key val) = hash_abs t key \<and> hash_inv (snd (hash_replace t key val)) \<and>
    hash_abs (snd (hash_replace t key val)) =
      (if hash_abs t key = None then hash_abs t else (hash_abs t)(key \<mapsto> val))"
  proof (cases res)
    case None
    with spec(6,8) lk inv show ?thesis by (auto simp: hash_replace_def)
  next
    case (Some p)
    from spec(7) [OF Some] obtain ps where front: "ht_table t' slot = p # ps" "he_string p = key"
      by blast
    have "slot = hash_slot t' (hash_code key)" using spec(1-3) by (simp add: hash_slot_def)
    with set_front_data_spec [OF spec(4) front] spec(5,6) Some lk show ?thesis
      by (auto simp: hash_replace_def)
  qed
  then show "fst (hash_replace t key val) = hash_abs t key" "hash_inv (snd (hash_replace t key val))"
    "hash_abs (snd (hash_replace t key val)) =
      (if hash_abs t key = None then hash_abs t else (hash_abs t)(key \<mapsto> val))"
    by blast+
qed

text \<open>\<open>hash_find_n\<close> is \<open>hash_find\<close> of the prefix.\<close>

lemma hash_find_n_eq: "hash_find_n t key n = hash_find t (take n key)"
proof -
  have "take (length (take n key)) (take n key) = take n key" by (rule take_all) simp
  then show ?thesis by (simp only: hash_find_n_def hash_find_def hash_lookup_def)
qed

lemma table_step_refines:
  assumes inv: "hash_inv t" and step: "table_step x t = (a, t')"
  shows "hash_inv t' \<and> map_step x (hash_abs t) = (a, hash_abs t')"
proof (cases x)
  case (Op_insert k v)
  with step hash_insert_cases [OF inv, of k v] show ?thesis
    by (cases "hash_insert t k v") (auto split: option.splits)
next
  case (Op_jam k v)
  with step hash_jam_spec [OF inv, of k v] show ?thesis by (cases "hash_jam t k v") auto
next
  case (Op_replace k v)
  with step hash_replace_spec [OF inv, of k v] show ?thesis by (cases "hash_replace t k v") auto
next
  case (Op_find k)
  with step hash_find_cases [OF inv, of k] show ?thesis by (cases "hash_find t k") auto
next
  case (Op_find_n k n)
  with step hash_find_cases [OF inv, of "take n k"] show ?thesis
    by (cases "hash_find t (take n k)") (auto simp: hash_find_n_eq)
next
  case (Op_delete k)
  with step hash_delete_spec [OF inv, of k] show ?thesis by auto
qed

lemma table_run_refines:
  "hash_inv t \<Longrightarrow> run_steps table_step xs t = (as, t') \<Longrightarrow>
     hash_inv t' \<and> run_steps map_step xs (hash_abs t) = (as, hash_abs t')"
proof (induction xs arbitrary: t t' as)
  case (Cons x xs)
  obtain a t1 where s: "table_step x t = (a, t1)" by (cases "table_step x t")
  obtain bs t2 where r: "run_steps table_step xs t1 = (bs, t2)" by (cases "run_steps table_step xs t1")
  from table_step_refines [OF Cons.prems(1) s] Cons.IH [OF _ r] Cons.prems(2) s r show ?case by auto
qed simp

subsection \<open>Traversal\<close>

definition hash_entries :: "'a hash_control \<Rightarrow> (string \<times> 'a) list" where
  "hash_entries t = concat (map (\<lambda>i. map (\<lambda>p. (he_string p, he_data p)) (ht_table t i))
     [0..<unat (ht_size t)])"

lemma hash_traverse_entries: "hash_traverse t f s = fold (\<lambda>(k, v). f k v) (hash_entries t) s"
proof -
  have "fold (\<lambda>i. fold (\<lambda>p. f (he_string p) (he_data p)) (ht_table t i)) is s =
      fold (\<lambda>(k, v). f k v) (concat (map (\<lambda>i. map (\<lambda>p. (he_string p, he_data p)) (ht_table t i)) is)) s" for "is"
    by (induction "is" arbitrary: s) (simp_all add: fold_map comp_def)
  then show ?thesis by (simp add: hash_traverse_def hash_entries_def)
qed

lemma hash_slot_less: "hash_inv t \<Longrightarrow> hash_slot t h < unat (ht_size t)"
  by (simp add: hash_slot_def hash_inv_def word_mod_less_divisor unat_mono word_neq_0_conv)

lemma hash_entries_distinct:
  assumes inv: "hash_inv t"
  shows "distinct (map fst (hash_entries t))"
proof -
  have keys: "map fst (hash_entries t) = concat (map (\<lambda>i. map he_string (ht_table t i)) [0..<unat (ht_size t)])"
    by (simp add: hash_entries_def map_concat comp_def)
  have ok: "chain_ok (ht_size t) i (ht_table t i)" for i by (rule hash_inv_chain [OF inv])
  have "distinct (concat (map (\<lambda>i. map he_string (ht_table t i)) is))" if "distinct is" for "is"
    using that
  proof (induction "is")
    case (Cons i "is")
    have "k \<notin> set (map he_string (ht_table t i))" if "j \<in> set is" "k \<in> set (map he_string (ht_table t j))" for j k
      using ok [of i] ok [of j] that Cons.prems by (fastforce simp: chain_ok_def)
    then have "set (map he_string (ht_table t i)) \<inter> set (concat (map (\<lambda>i. map he_string (ht_table t i)) is)) = {}"
      by auto
    with Cons ok [of i] show ?case by (simp add: chain_ok_def)
  qed simp
  then show ?thesis unfolding keys by simp
qed

lemma hash_entries_map:
  assumes inv: "hash_inv t"
  shows "map_of (hash_entries t) = hash_abs t"
proof
  fix k
  let ?s = "hash_slot t (hash_code k)" and ?ps = "\<lambda>i. map (\<lambda>p. (he_string p, he_data p)) (ht_table t i)"
  have other: "map_of (?ps i) k = None" if "i \<noteq> ?s" for i
    using hash_inv_chain [OF inv, of i] that
    by (auto simp: chain_ok_def hash_slot_def map_of_eq_None_iff)
  have "map_of (concat (map ?ps is)) k = (if ?s \<in> set is then map_of (?ps ?s) k else None)" for "is"
  proof (induction "is")
    case (Cons i "is")
    then show ?case using other [of i] by (cases "i = ?s") (auto simp: map_add_def split: option.splits)
  qed simp
  then show "map_of (hash_entries t) k = hash_abs t k"
    using hash_slot_less [OF inv] by (simp add: hash_entries_def hash_abs_def chain_map_def)
qed

end
