(* ===== verification/LebValue.thy ===== *)
theory LebValue
  imports Leb128 ExprValue
begin

text \<open>
  What is written as a LEB128 number is read back: values of 32 bits by the functions of
  \<open>libbfd.c\<close>, bignums as numbers.
\<close>

subsection \<open>Bytes of seven bits\<close>

lemma leb_masks: "(0x7f :: 'a::len word) = mask 7" "(0x80 :: 'a word) = push_bit 7 1" "(0x40 :: 'a word) = push_bit 6 1"
  by (simp_all add: mask_eq_exp_minus_1)

lemma bit_low7: "bit (low7 v) n \<longleftrightarrow> n < 7 \<and> bit v n"
  unfolding low7_def leb_masks by (auto simp: bit_simps)

lemma byte_flags: "b AND 0x80 = 0 \<longleftrightarrow> \<not> bit b 7" "b AND 0x40 = 0 \<longleftrightarrow> \<not> bit b 6" for b :: byte
  using and_exp_eq_0_iff_not_bit [of b 7] and_exp_eq_0_iff_not_bit [of b 6] by simp_all

lemma bit_flag80: "bit (0x80 :: 'a::len word) n \<longleftrightarrow> n = 7 \<and> 7 < LENGTH('a)"
  using bit_exp_iff [where 'a = "'a word", of 7 n] by (auto simp: exp_eq_zero_iff)

lemma leb_byte:
  "ucast (low7 v) AND 0x7f = v AND mask 7" "ucast (low7 v OR 0x80) AND 0x7f = v AND mask 7"
  "ucast (low7 v AND 0x7f) = v AND mask 7" "ucast ((low7 v OR 0x80) AND 0x7f) = v AND mask 7" for v :: valueT
  unfolding leb_masks(1)
  by (rule bit_word_eqI; simp only: bit_and_iff bit_or_iff bit_unsigned_iff bit_mask_iff bit_low7 bit_flag80; auto)+

lemma leb_flags:
  "low7 v AND 0x80 = 0" "(low7 v OR 0x80) AND 0x80 \<noteq> 0" "low7 v AND 0x40 = 0 \<longleftrightarrow> \<not> bit v 6"
  "(low7 v OR 0x80) AND 0x40 = 0 \<longleftrightarrow> \<not> bit v 6"
  by (simp_all only: byte_flags) (simp_all add: bit_low7 bit_or_iff bit_flag80)

lemma shift_parts:
  fixes v :: valueT
  shows "push_bit s (v AND mask 7) OR push_bit (s + 7) (drop_bit 7 v) = push_bit s v"
    and "push_bit s (v AND mask 7) OR push_bit (s + 7) (signed_drop_bit 7 v) = push_bit s v"
proof -
  have n: "7 + (n - (s + 7)) = n - s" if "s + 7 \<le> n" for n using that by simp
  have *: "bit (push_bit s (v AND mask 7) OR push_bit (s + 7) w) n \<longleftrightarrow> bit (push_bit s v) n"
    if "\<And>k. k + 7 < 32 \<Longrightarrow> bit w k = bit v (k + 7)" "n < 32" for w n
    using that(1) [of "n - s - 7"] that(2) by (cases "n < s"; cases "n < s + 7") (auto simp: bit_simps)
  show "push_bit s (v AND mask 7) OR push_bit (s + 7) (drop_bit 7 v) = push_bit s v"
    by (rule bit_word_eqI, rule *) (auto simp: bit_simps ac_simps)
  show "push_bit s (v AND mask 7) OR push_bit (s + 7) (signed_drop_bit 7 v) = push_bit s v"
    by (rule bit_word_eqI, rule *) (auto simp: bit_simps ac_simps)
qed

lemma read_leb128_byte:
  assumes "s < 32"
  shows "read_leb128_loop (low7 v # bs) r s n = Inr (r OR push_bit s (v AND mask 7), s + 7, low7 v, n + 1)"
    and "read_leb128_loop ((low7 v OR 0x80) # bs) r s n = read_leb128_loop bs (r OR push_bit s (v AND mask 7)) (s + 7) (n + 1)"
  using assms by (simp_all only: read_leb128_loop.simps leb_byte leb_flags Let_def not_le if_True if_False simp_thms refl
      if_not_P [of "32 \<le> s"])

lemma output_leb128_bytes:
  "output_uleb128 v = (if drop_bit 7 v = 0 then [low7 v] else (low7 v OR 0x80) # output_uleb128 (drop_bit 7 v))"
  "sizeof_uleb128 v = (if drop_bit 7 v = 0 then 1 else sizeof_uleb128 (drop_bit 7 v) + 1)"
  by (subst output_uleb128.simps sizeof_uleb128.simps, simp add: Let_def)+

lemma output_sleb128_bytes:
  "output_sleb128 v = (if signed_drop_bit 7 v = (if bit v 6 then - 1 else 0) then [low7 v]
     else (low7 v OR 0x80) # output_sleb128 (signed_drop_bit 7 v))"
  "sizeof_sleb128 v = (if signed_drop_bit 7 v = (if bit v 6 then - 1 else 0) then 1
     else sizeof_sleb128 (signed_drop_bit 7 v) + 1)"
proof -
  have "signed_drop_bit 7 v = 0 \<and> low7 v AND 0x40 = 0 \<or> signed_drop_bit 7 v = - 1 \<and> low7 v AND 0x40 \<noteq> 0 \<longleftrightarrow>
    signed_drop_bit 7 v = (if bit v 6 then - 1 else 0)" unfolding leb_flags by (cases "bit v 6") auto
  note * = this
  show "output_sleb128 v = (if signed_drop_bit 7 v = (if bit v 6 then - 1 else 0) then [low7 v]
      else (low7 v OR 0x80) # output_sleb128 (signed_drop_bit 7 v))"
    by (subst output_sleb128.simps) (simp only: Let_def * if_not_P if_P if_True if_False split: if_split, simp)
  show "sizeof_sleb128 v = (if signed_drop_bit 7 v = (if bit v 6 then - 1 else 0) then 1
      else sizeof_sleb128 (signed_drop_bit 7 v) + 1)"
    by (subst sizeof_sleb128.simps) (simp only: Let_def *)
qed

subsection \<open>Values of 32 bits\<close>

lemma drop_7_eq_0: "drop_bit 7 v = 0 \<Longrightarrow> v AND mask 7 = v" for v :: valueT
  by (metis take_bit_eq_mask take_bit_eq_self_iff_drop_bit_eq_0)

lemma unat_drop_7: "unat (drop_bit 7 v) = unat v div 128" for v :: valueT
  by (simp add: drop_bit_eq_div unat_div_distrib)

lemma read_output_uleb128:
  assumes "s < 32" and "unat v < 2 ^ (32 - s)"
  shows "\<exists>t b. read_leb128_loop (output_uleb128 v @ rest) r s n = Inr (r OR push_bit s v, t, b, n + sizeof_uleb128 v)"
  using assms
proof (induction v arbitrary: r s n rule: output_uleb128.induct)
  case (1 v)
  show ?case
  proof (cases "drop_bit 7 v = 0")
    case True
    then have "output_uleb128 v @ rest = low7 v # rest" "sizeof_uleb128 v = 1" by (simp_all add: output_leb128_bytes(1,2) [of v])
    then show ?thesis using read_leb128_byte(1) [OF 1(2), of v rest r n] drop_7_eq_0 [OF True] by simp
  next
    case False
    then have "unat (drop_bit 7 v) \<noteq> 0" by (simp only: unat_eq_zero not_False_eq_True)
    then have big: "128 \<le> unat v" unfolding unat_drop_7 by simp
    have s: "s + 7 < 32"
    proof (rule ccontr)
      assume "\<not> s + 7 < 32"
      then have "(2 :: nat) ^ (32 - s) \<le> 2 ^ 7" by (intro power_increasing) simp_all
      then show False using big 1(3) by simp
    qed
    then have "32 - s = 32 - (s + 7) + 7" by simp
    then have "(2 :: nat) ^ (32 - s) = 2 ^ (32 - (s + 7)) * 128" by (simp only: power_add) simp
    then have "unat (drop_bit 7 v) < 2 ^ (32 - (s + 7))" using 1(3) unat_drop_7 [of v] by (simp only: less_mult_imp_div_less)
    from 1(1) [OF refl refl False s this, of "r OR push_bit s (v AND mask 7)" "n + 1"]
    have "\<exists>t b. read_leb128_loop (output_uleb128 (drop_bit 7 v) @ rest) (r OR push_bit s (v AND mask 7)) (s + 7) (n + 1) =
        Inr (r OR push_bit s v, t, b, n + 1 + sizeof_uleb128 (drop_bit 7 v))"
      by (simp only: or.assoc shift_parts(1))
    moreover have "output_uleb128 v @ rest = (low7 v OR 0x80) # output_uleb128 (drop_bit 7 v) @ rest"
      "sizeof_uleb128 v = sizeof_uleb128 (drop_bit 7 v) + 1" using False by (simp_all add: output_leb128_bytes(1,2) [of v])
    ultimately show ?thesis using read_leb128_byte(2) [OF 1(2)] by simp
  qed
qed

lemma sint_inject: "sint a = sint b \<Longrightarrow> a = b" for a b :: valueT
  by (rule signed_word_eqI)

lemma sign_bit_6:
  fixes v :: valueT
  assumes "- 64 \<le> sint v" and "sint v < 64"
  shows "bit v 6 \<longleftrightarrow> sint v < 0"
proof -
  have "signed_take_bit 6 v = v" using assms by (simp add: signed_take_bit_eq_self_iff)
  then have "bit v 6 \<longleftrightarrow> bit v 31" using bit_signed_take_bit_iff [of 6 v 31] by (simp add: min_def)
  then show ?thesis using bit_last_iff [of v] by simp
qed

lemma signed_read_output_sleb128:
  assumes "s < 32" and "- (2 ^ (31 - s)) \<le> sint v" and "sint v < 2 ^ (31 - s)"
  shows "\<exists>t b x. read_leb128_loop (output_sleb128 v @ rest) r s n = Inr (x, t, b, n + sizeof_sleb128 v) \<and>
    (if t < 32 \<and> b AND 0x40 \<noteq> 0 then x OR push_bit t (- 1) else x) = r OR push_bit s v"
  using assms
proof (induction v arbitrary: r s n rule: output_sleb128.induct)
  case (1 v)
  let ?v = "signed_drop_bit 7 v"
  have sv: "sint ?v = sint v div 128" by (simp add: sint_signed_drop_bit_eq drop_bit_eq_div)
  let ?stop = "?v = (if bit v 6 then - 1 else 0)"
  show ?case
  proof (cases ?stop)
    case True
    then have out: "output_sleb128 v @ rest = low7 v # rest" "sizeof_sleb128 v = 1"
      by (simp_all add: output_sleb128_bytes [of v])
    have parts: "push_bit s (v AND mask 7) OR push_bit (s + 7) (if bit v 6 then - 1 else 0) = push_bit s v"
      using shift_parts(2) [of s v] True by simp
    have far: "push_bit (s + 7) (- 1 :: valueT) = 0" if "\<not> s + 7 < 32"
      using that by (intro bit_word_eqI) (auto simp: bit_simps)
    let ?x = "r OR push_bit s (v AND mask 7)"
    have "(if s + 7 < 32 \<and> low7 v AND 0x40 \<noteq> 0 then ?x OR push_bit (s + 7) (- 1) else ?x) =
        r OR (push_bit s (v AND mask 7) OR push_bit (s + 7) (if bit v 6 then - 1 else 0))"
      by (cases "s + 7 < 32"; cases "bit v 6") (simp_all only: leb_flags far or.assoc push_bit_of_0 or.right_neutral
          if_True if_False simp_thms refl)
    then show ?thesis unfolding out read_leb128_byte(1) [OF 1(2)] parts by blast
  next
    case False
    have s: "s + 7 < 32"
    proof (rule ccontr)
      assume "\<not> s + 7 < 32"
      then have "(2 :: int) ^ (31 - s) \<le> 2 ^ 6" by (intro power_increasing) simp_all
      then have range: "- 64 \<le> sint v" "sint v < 64" using 1(3,4) by simp_all
      have "sint ?v = (if sint v < 0 then - 1 else 0)" using range sv by auto
      then have "?stop" using sign_bit_6 [OF range] by (auto intro: sint_inject)
      then show False using False by blast
    qed
    then have "31 - s = 31 - (s + 7) + 7" by simp
    then have "(2 :: int) ^ (31 - s) = 2 ^ (31 - (s + 7)) * 128" by (simp only: power_add) simp
    then have range: "- (2 ^ (31 - (s + 7))) \<le> sint ?v" "sint ?v < 2 ^ (31 - (s + 7))" using 1(3,4) sv by linarith+
    have go: "\<not> (?v = 0 \<and> low7 v AND 0x40 = 0 \<or> ?v = - 1 \<and> low7 v AND 0x40 \<noteq> 0)"
      using False by (simp only: leb_flags) (auto split: if_splits)
    note IH = 1(1) [OF refl refl refl go s range, of "r OR push_bit s (v AND mask 7)" "n + 1"]
    have "\<exists>t b x. read_leb128_loop (output_sleb128 ?v @ rest) (r OR push_bit s (v AND mask 7)) (s + 7) (n + 1) =
        Inr (x, t, b, n + 1 + sizeof_sleb128 ?v) \<and>
      (if t < 32 \<and> b AND 0x40 \<noteq> 0 then x OR push_bit t (- 1) else x) = r OR push_bit s v"
      using IH unfolding or.assoc shift_parts(2) .
    moreover have "output_sleb128 v @ rest = (low7 v OR 0x80) # output_sleb128 ?v @ rest"
      "n + sizeof_sleb128 v = n + 1 + sizeof_sleb128 ?v" using False by (simp_all add: output_sleb128_bytes [of v])
    ultimately show ?thesis by (simp only: append_Cons read_leb128_byte(2) [OF 1(2)])
  qed
qed

lemma length_output_leb128: "length (output_leb128 v sign) = sizeof_leb128 v sign"
proof -
  have "length (output_uleb128 v) = sizeof_uleb128 v"
    by (induction v rule: output_uleb128.induct) (subst output_leb128_bytes, subst output_leb128_bytes(2), simp)
  moreover have "length (output_sleb128 v) = sizeof_sleb128 v"
  proof (induction v rule: output_sleb128.induct)
    case (1 v)
    have "\<not> (signed_drop_bit 7 v = 0 \<and> low7 v AND 0x40 = 0 \<or> signed_drop_bit 7 v = - 1 \<and> low7 v AND 0x40 \<noteq> 0)"
      if "signed_drop_bit 7 v \<noteq> (if bit v 6 then - 1 else 0)"
      using that unfolding leb_flags by (auto split: if_splits)
    note 1 [OF refl refl refl this]
    then show ?case by (cases "signed_drop_bit 7 v = (if bit v 6 then - 1 else 0)") (simp_all add: output_sleb128_bytes [of v])
  qed
  ultimately show ?thesis by (simp add: output_leb128_def sizeof_leb128_def)
qed

lemma safe_read_agrees:
  "read_leb128_loop bs r s n = Inr (x, t, b, m) \<Longrightarrow> safe_read_loop bs r s l n = Inr (x, t, b, m)"
proof (induction bs r s n arbitrary: l rule: read_leb128_loop.induct)
  case (2 c buf result shift num_read)
  have "ucast c AND 0x7f = (ucast (c AND 0x7f) :: u32)" unfolding leb_masks
    by (rule bit_word_eqI; simp only: bit_and_iff bit_unsigned_iff bit_mask_iff; auto)
  with 2 show ?case by (auto simp: Let_def split: if_splits)
qed simp

lemma leb128_read_back:
  "bfd_read_unsigned_leb128 (output_leb128 v False @ rest) = Inr (v, sizeof_leb128 v False)"
  "bfd_read_signed_leb128 (output_leb128 v True @ rest) = Inr (v, sizeof_leb128 v True)"
  "bfd_safe_read_leb128 (output_leb128 v sign @ rest) sign = Inr (v, sizeof_leb128 v sign)"
proof -
  have "unat v < 2 ^ (32 - 0)" using unsigned_less [of v] by simp
  from read_output_uleb128 [OF _ this, of rest 0 0]
  obtain t b where u: "read_leb128_loop (output_uleb128 v @ rest) 0 0 0 = Inr (v, t, b, sizeof_uleb128 v)" by auto
  have "- (2 ^ (31 - 0)) \<le> sint v" "sint v < 2 ^ (31 - 0)" using sint_greater_eq [of v] sint_less [of v] by simp_all
  from signed_read_output_sleb128 [OF _ this, of rest 0 0] obtain t' b' x where
    s: "read_leb128_loop (output_sleb128 v @ rest) 0 0 0 = Inr (x, t', b', sizeof_sleb128 v)"
    "(if t' < 32 \<and> b' AND 0x40 \<noteq> 0 then x OR push_bit t' (- 1) else x) = v" by auto
  show "bfd_read_unsigned_leb128 (output_leb128 v False @ rest) = Inr (v, sizeof_leb128 v False)"
    by (simp add: bfd_read_unsigned_leb128_def output_leb128_def sizeof_leb128_def u)
  show "bfd_read_signed_leb128 (output_leb128 v True @ rest) = Inr (v, sizeof_leb128 v True)"
    by (simp add: bfd_read_signed_leb128_def output_leb128_def sizeof_leb128_def s)
  show "bfd_safe_read_leb128 (output_leb128 v sign @ rest) sign = Inr (v, sizeof_leb128 v sign)"
    using s(2) by (cases sign; cases "t' < 32 \<and> b' AND 0x40 \<noteq> 0") (auto simp: bfd_safe_read_leb128_def output_leb128_def
        sizeof_leb128_def safe_read_agrees [OF u] safe_read_agrees [OF s(1)] minus_exp_eq_not_mask)
qed

subsection \<open>Bignums\<close>

fun leb_nat :: "byte list \<Rightarrow> nat" where
  "leb_nat [] = 0"
| "leb_nat (b # bs) = unat (b AND 0x7f) + 128 * leb_nat bs"

text \<open>Every byte but the last has its high bit set.\<close>

definition leb_framed :: "byte list \<Rightarrow> bool" where
  "leb_framed bs \<longleftrightarrow> bs \<noteq> [] \<and> list_all (\<lambda>b. bit b 7) (butlast bs) \<and> \<not> bit (last bs) 7"


lemma unat_low7: "unat (low7 v AND 0x7f) = unat v mod 128" "unat ((low7 v OR 0x80) AND 0x7f) = unat v mod 128"
proof -
  have widen: "unat b = unat (ucast b :: valueT)" for b :: byte
  proof -
    have "unat b < 256" using unsigned_less [of b] by simp
    then show ?thesis by (simp add: unsigned_ucast_eq take_bit_nat_eq_self)
  qed
  have "unat (v AND mask 7) = unat v mod 128" by (simp add: unsigned_take_bit_eq flip: take_bit_eq_mask) (simp add: take_bit_eq_mod)
  then show "unat (low7 v AND 0x7f) = unat v mod 128" "unat ((low7 v OR 0x80) AND 0x7f) = unat v mod 128"
    by (simp_all only: widen leb_byte)
qed

lemma bit_7_low7: "\<not> bit (low7 v) 7" "bit (low7 v OR 0x80) 7"
  by (simp_all add: bit_low7 bit_or_iff bit_flag80)

lemma or_shifted:
  fixes v x :: valueT
  assumes "unat v < 2 ^ n" and "unat x < 2 ^ m" and "n + m \<le> 32"
  shows "unat (v OR push_bit n x) = unat v + 2 ^ n * unat x"
proof -
  have "2 ^ n * unat x < 2 ^ n * 2 ^ m" using assms(2) by simp
  also have "\<dots> \<le> 2 ^ 32" using power_increasing [OF assms(3), of "2 :: nat"] by (simp only: power_add)
  finally have x: "unat (push_bit n x) = 2 ^ n * unat x"
    unfolding unsigned_push_bit_eq by (simp add: push_bit_eq_mult take_bit_nat_eq_self mult.commute)
  have "unat (v OR push_bit n x) = unat v OR push_bit n (unat x)"
    using x by (simp add: unsigned_or_eq push_bit_eq_mult mult.commute)
  also have "\<dots> = unat v + push_bit n (unat x)"
  proof (rule disjunctive_add_eq_or [symmetric], rule bit_eqI)
    have "take_bit n (unat v) = unat v" using assms(1) by (simp add: take_bit_nat_eq_self)
    then have "\<not> bit (unat v) k" if "n \<le> k" for k using that by (metis bit_take_bit_iff not_le)
    then show "bit (unat v AND push_bit n (unat x)) k \<longleftrightarrow> bit (0 :: nat) k" for k by (auto simp: bit_simps)
  qed
  finally show ?thesis by (simp add: push_bit_eq_mult mult.commute)
qed

lemma big_uleb_step:
  assumes go: "go = (bignum \<noteq> [] \<or> drop_bit 7 val \<noteq> 0)"
    and rest: "go \<Longrightarrow> leb_nat bs = unat (drop_bit 7 val) + k \<and> leb_framed bs" and k: "\<not> go \<Longrightarrow> k = 0"
  shows "leb_nat ((if go then low7 val OR 0x80 else low7 val) # (if go then bs else [])) = unat val + 128 * k \<and>
    leb_framed ((if go then low7 val OR 0x80 else low7 val) # (if go then bs else []))"
proof (cases go)
  case True
  have "unat val = unat val mod 128 + 128 * (unat val div 128)" by simp
  then show ?thesis using True rest by (simp add: unat_low7 bit_7_low7 unat_drop_7 leb_framed_def algebra_simps)
next
  case False
  then have "unat val div 128 = 0" using go unat_drop_7 [of val] by simp
  then have "unat val mod 128 = unat val" by simp
  then show ?thesis using False k by (simp add: unat_low7 bit_7_low7 leb_framed_def)
qed

lemma big_uleb_value:
  assumes "bignum = [] \<or> 0 \<le> loaded \<and> loaded \<le> 16 \<and> unat val < 2 ^ nat loaded"
  shows "leb_nat (big_uleb_loop val loaded bignum) =
      unat val + (if bignum = [] then 0 else 2 ^ nat loaded * littlenums_value bignum) \<and>
    leb_framed (big_uleb_loop val loaded bignum)"
  using assms
proof (induction val loaded bignum rule: big_uleb_loop.induct)
  case (1 val loaded bignum)
  obtain v l big where load: "(if loaded < 7 \<and> bignum \<noteq> []
      then (val OR push_bit (nat loaded) (ucast (hd bignum)), loaded + 16, tl bignum) else (val, loaded, bignum)) = (v, l, big)"
    by (metis prod_cases3)
  have inv: "big = [] \<or> 7 \<le> l \<and> l \<le> 22 \<and> unat v < 2 ^ nat l"
    and total: "unat v + (if big = [] then 0 else 2 ^ nat l * littlenums_value big) =
      unat val + (if bignum = [] then 0 else 2 ^ nat loaded * littlenums_value bignum)"
  proof -
    have "(big = [] \<or> 7 \<le> l \<and> l \<le> 22 \<and> unat v < 2 ^ nat l) \<and>
      unat v + (if big = [] then 0 else 2 ^ nat l * littlenums_value big) =
      unat val + (if bignum = [] then 0 else 2 ^ nat loaded * littlenums_value bignum)"
    proof (cases "loaded < 7 \<and> bignum \<noteq> []")
      case True
      then obtain x xs where b: "bignum = x # xs" by (cases bignum) auto
      from True 1(2) have ld: "0 \<le> loaded" "unat val < 2 ^ nat loaded" by auto
      have "unat x < 2 ^ 16" using unsigned_less [of x] by simp
      then have x: "unat (ucast x :: valueT) = unat x" "unat x < 2 ^ 16"
        by (simp_all add: unsigned_ucast_eq take_bit_nat_eq_self)
      have v: "unat v = unat val + 2 ^ nat loaded * unat x"
        using or_shifted [OF ld(2), of "ucast x" 16] x True ld load b by auto
      have "nat (loaded + 16) = nat loaded + 16" using ld by simp
      moreover have "unat val + 2 ^ nat loaded * unat x < 2 ^ nat loaded * 2 ^ 16"
      proof -
        have "2 ^ nat loaded * (unat x + 1) \<le> 2 ^ nat loaded * 2 ^ 16" using x(2) by (intro mult_left_mono) simp_all
        then show ?thesis using ld(2) by (simp only: distrib_left)
      qed
      ultimately show ?thesis using True load ld b v by (auto simp: power_add algebra_simps)
    qed (use 1(2) load in auto)
    then show "big = [] \<or> 7 \<le> l \<and> l \<le> 22 \<and> unat v < 2 ^ nat l" "unat v + (if big = [] then 0 else 2 ^ nat l * littlenums_value big) =
      unat val + (if bignum = [] then 0 else 2 ^ nat loaded * littlenums_value bignum)" by blast+
  qed
  let ?more = "big \<noteq> [] \<or> drop_bit 7 v \<noteq> 0"
  let ?k = "if big = [] then 0 else 2 ^ nat (l - 7) * littlenums_value big"
  have IH: "leb_nat (big_uleb_loop (drop_bit 7 v) (l - 7) big) = unat (drop_bit 7 v) + ?k \<and>
      leb_framed (big_uleb_loop (drop_bit 7 v) (l - 7) big)" if ?more
  proof (rule 1(1) [OF load [symmetric] refl refl refl refl refl refl that])
    show "big = [] \<or> 0 \<le> l - 7 \<and> l - 7 \<le> 16 \<and> unat (drop_bit 7 v) < 2 ^ nat (l - 7)"
    proof (cases "big = []")
      case False
      then have l: "7 \<le> l" "l \<le> 22" "unat v < 2 ^ nat l" using inv by auto
      then have "nat l = nat (l - 7) + 7" by simp
      then have "unat v < 2 ^ nat (l - 7) * 128" using l(3) by (simp only: power_add) simp
      then show ?thesis using l by (simp add: unat_drop_7 less_mult_imp_div_less)
    qed simp
  qed
  have "128 * ?k = (if big = [] then 0 else 2 ^ nat l * littlenums_value big)"
  proof (cases "big = []")
    case False
    then have "7 \<le> l" using inv by blast
    then have "nat l = nat (l - 7) + 7" by arith
    then show ?thesis using False by (simp only: power_add) simp
  qed simp
  moreover have "leb_nat ((if ?more then low7 v OR 0x80 else low7 v) # (if ?more then big_uleb_loop (drop_bit 7 v) (l - 7) big else [])) =
      unat v + 128 * ?k \<and>
    leb_framed ((if ?more then low7 v OR 0x80 else low7 v) # (if ?more then big_uleb_loop (drop_bit 7 v) (l - 7) big else []))"
    by (rule big_uleb_step [OF refl IH]) simp_all
  moreover have "big_uleb_loop val loaded bignum =
      (if ?more then low7 v OR 0x80 else low7 v) # (if ?more then big_uleb_loop (drop_bit 7 v) (l - 7) big else [])"
    by (subst big_uleb_loop.simps) (simp only: load Let_def prod.case)
  ultimately show ?case by (simp only: total)
qed

lemma littlenums_strip: "littlenums_value (rev (dropWhile (\<lambda>x. x = 0) (rev xs))) = littlenums_value xs"
  by (induction xs rule: rev_induct) simp_all

lemma output_big_uleb128_value:
  "leb_nat (output_big_uleb128 bignum) = littlenums_value bignum \<and> leb_framed (output_big_uleb128 bignum)"
proof -
  obtain xs where xs: "rev (dropWhile (\<lambda>x. x = 0) (rev bignum)) = xs" by blast
  then have "littlenums_value xs = littlenums_value bignum" using littlenums_strip [of bignum] by simp
  then show ?thesis using big_uleb_value [of xs 0 0] by (cases xs) (auto simp: output_big_uleb128_def xs)
qed

end
