(* ===== verification/WriteRelax.thy ===== *)
theory WriteRelax
  imports SymResolve TcRelax Leb128
begin

text \<open>
  The layout of a section, from \<open>gas/write.c\<close>: \<open>relax_segment\<close> gives every fragment its
  address and its length, \<open>size_seg\<close> turns them into fixed bytes with a fill behind them, and
  \<open>write_contents\<close> writes these out.

  The chain of a section, linked by \<open>fr_next\<close>, is a list of indices of fragments in their order:
  relaxation may put a fragment between two others. \<open>as_bad_where\<close> and \<open>as_warn_where\<close> lose
  the place. \<open>region\<close> and \<open>relax_marker\<close> are only looked at by \<open>relax_frag\<close>, which this target
  does not use. What is done for the fragments of frame and line information is not modelled and
  an argument.
\<close>

record debug_frags =
  eh_frame_estimate_size_before_relax :: "nat \<Rightarrow> gas_state \<Rightarrow> (u32 \<times> gas_state) res"
  eh_frame_relax_frag :: "nat \<Rightarrow> gas_state \<Rightarrow> (u32 \<times> gas_state) res"
  eh_frame_convert_frag :: "nat \<Rightarrow> gas_state \<Rightarrow> gas_state res"
  dwarf2dbg_estimate_size_before_relax :: "nat \<Rightarrow> gas_state \<Rightarrow> (u32 \<times> gas_state) res"
  dwarf2dbg_relax_frag :: "nat \<Rightarrow> gas_state \<Rightarrow> (u32 \<times> gas_state) res"
  dwarf2dbg_convert_frag :: "nat \<Rightarrow> gas_state \<Rightarrow> gas_state res"

definition bad_case :: "'a res" where
  "bad_case = Inl (As_fatal (Diag (''Case value %ld unexpected at line %d of file \"%s\"'' @ [CHR 0x0a]) []))"

subsection \<open>Alignment\<close>

text \<open>\<open>x << n\<close> is undefined for \<open>n\<close> of 32 and more, or below 0.\<close>

definition relax_align :: "u32 \<Rightarrow> u32 \<Rightarrow> u32 res" where
  "relax_align address alignment =
     (if 32 \<le> alignment then Inl Abort
      else let m = NOT (shl (- 1) (unat alignment)) in Inr (((address + m) AND NOT m) - address))"

text \<open>The padding behind \<open>fr_fix\<close>; where it is more than may be skipped there is none.\<close>

definition align_padding :: "u32 \<Rightarrow> frag \<Rightarrow> u32 res" where
  "align_padding address f =
     and_then (relax_align address (fr_offset f)) (\<lambda>offset.
     Inr (if fr_subtype f \<noteq> 0 \<and> offset > fr_subtype f then 0 else offset))"

abbreviation is_align :: "relax_state \<Rightarrow> bool" where
  "is_align type \<equiv> type = Rs_align \<or> type = Rs_align_code \<or> type = Rs_align_test"

abbreviation is_space :: "relax_state \<Rightarrow> bool" where
  "is_space type \<equiv> type = Rs_space \<or> type = Rs_space_nop"

subsection \<open>The first guess\<close>

definition resolve_frag_symbol :: "frag \<Rightarrow> gas_state \<Rightarrow> gas_state res" where
  "resolve_frag_symbol f gs =
     (case fr_symbol f of
        None \<Rightarrow> Inr gs
      | Some s \<Rightarrow> and_then (resolve_symbol_value (symbol_fuel gs) s gs) (\<lambda>(_, gs). Inr gs))"

definition align_guess :: "u32 \<Rightarrow> frag \<Rightarrow> gas_state \<Rightarrow> (u32 \<times> gas_state) res" where
  "align_guess address f gs =
     and_then (align_padding address f) (\<lambda>offset.
     if fr_var f = 0 then Inl Abort
     else if offset mod fr_var f \<noteq> 0
     then Inr (offset - offset mod fr_var f,
            gs_bad (Diag (if offset = 1 then ''alignment padding (%lu byte) not a multiple of %ld''
                          else ''alignment padding (%lu bytes) not a multiple of %ld'')
              [Num offset, Num (fr_var f)]) gs)
     else Inr (offset, gs))"

text \<open>The length of the variable part of fragment \<open>i\<close>, which begins at \<open>address\<close>.\<close>

definition guess_size :: "debug_frags \<Rightarrow> segT \<Rightarrow> u32 \<Rightarrow> nat \<Rightarrow> gas_state \<Rightarrow> (u32 \<times> gas_state) res" where
  "guess_size dbg segment address i gs =
     (let f = gs_frags gs ! i; type = fr_type f
      in if type = Rs_fill then Inr (fr_offset f * fr_var f, gs)
         else if is_align type then align_guess address f gs
         else if type = Rs_org \<or> is_space type then Inr (0, gs)
         else if type = Rs_machine_dependent
         then and_then (resolve_frag_symbol f gs) (\<lambda>gs. Inr (md_estimate_size_before_relax i segment gs))
         else if type = Rs_leb128 then Inr (1, update_gs_frag i (\<lambda>f. f\<lparr>fr_offset := 1\<rparr>) gs)
         else if type = Rs_cfa then eh_frame_estimate_size_before_relax dbg i gs
         else if type = Rs_dwarf2dbg then dwarf2dbg_estimate_size_before_relax dbg i gs
         else bad_case)"

fun first_guess :: "debug_frags \<Rightarrow> segT \<Rightarrow> u32 \<Rightarrow> nat list \<Rightarrow> gas_state \<Rightarrow> gas_state res" where
  "first_guess dbg segment address [] gs = Inr gs"
| "first_guess dbg segment address (i # order) gs =
     (let gs = update_gs_frag i (\<lambda>f. f\<lparr>fr_address := address\<rparr>) gs; fixed = address + fr_fix (gs_frags gs ! i)
      in and_then (guess_size dbg segment fixed i gs) (\<lambda>(size, gs).
         first_guess dbg segment (fixed + size) order gs))"

subsection \<open>One fragment\<close>

text \<open>
  The state of a pass: how far the fragments that follow are moved, whether any has grown in this
  pass, the state of the remedy for LEB128 numbers that do not settle, whether another call of
  \<open>relax_segment\<close> is wanted, and \<open>last_fr_address\<close> of the fragments.
\<close>

record relaxing =
  rx_gs :: gas_state
  rx_stretch :: u32
  rx_stretched :: bool
  rx_fudge :: u32
  rx_again :: bool
  rx_last :: "nat \<Rightarrow> u32"

text \<open>A growth of fragment \<open>i\<close>, with the fragments that are put behind it.\<close>

type_synonym growth = "u32 \<times> nat list \<times> relaxing"

definition no_growth :: "relaxing \<Rightarrow> growth res" where
  "no_growth rx = Inr (0, [], rx)"

definition on_rx :: "(gas_state \<Rightarrow> gas_state) \<Rightarrow> relaxing \<Rightarrow> relaxing" where
  "on_rx f rx = rx\<lparr>rx_gs := f (rx_gs rx)\<rparr>"

text \<open>The fill that is put behind an alignment to end the swinging of a LEB128 number.\<close>

definition padding_frag :: "u32 \<Rightarrow> u32 \<Rightarrow> u32 \<Rightarrow> frag \<Rightarrow> frag res" where
  "padding_frag stretch growth newoff f =
     (if fr_var f = 0 then Inl Abort
      else
        let size = shl 1 (unat (fr_offset f)); count = word_of_int (sint size sdiv sint (fr_var f));
            (count, var) = (if count * fr_var f = size then (count, fr_var f) else (size, 1))
        in Inr (f\<lparr>fr_type := Rs_fill, fr_address := fr_address f + fr_fix f + newoff - (stretch + (growth + size)),
                  fr_fix := 0, fr_offset := count, fr_var := var,
                  fr_literal := take (unat (fr_var f)) (drop (unat (fr_fix f)) (fr_literal f))\<rparr>))"

definition add_frag :: "frag \<Rightarrow> nat \<Rightarrow> relaxing \<Rightarrow> relaxing" where
  "add_frag new i rx =
     (let gs = rx_gs rx
      in rx\<lparr>rx_gs := gs\<lparr>gs_chain := (gs_chain gs)\<lparr>fc_frags := fc_frags (gs_chain gs) @ [new]\<rparr>\<rparr>,
            rx_last := (rx_last rx)(length (gs_frags gs) := rx_last rx i)\<rparr>)"

definition relax_alignment :: "u32 \<Rightarrow> nat \<Rightarrow> relaxing \<Rightarrow> growth res" where
  "relax_alignment was_address i rx =
     (let gs = rx_gs rx; f = gs_frags gs ! i
      in and_then (align_padding (was_address + fr_fix f) f) (\<lambda>oldoff.
         and_then (align_padding (fr_address f + fr_fix f) f) (\<lambda>newoff.
         if sint (newoff - oldoff) < 0 \<and> rx_fudge rx AND 16 \<noteq> 0 \<and> 2 \<le> rx_fudge rx AND 15
         then and_then (padding_frag (rx_stretch rx) (newoff - oldoff) newoff f) (\<lambda>new.
              Inr (newoff - oldoff + fr_offset new * fr_var new, [length (gs_frags gs)],
                   add_frag new i rx))
         else Inr (newoff - oldoff, [], rx))))"

text \<open>\<open>.org\<close>: in the first two calls an origin behind the fragment only asks for another one.\<close>

definition frag_value :: "nat option \<Rightarrow> gas_state \<Rightarrow> (valueT \<times> gas_state) res" where
  "frag_value s gs = (case s of None \<Rightarrow> Inr (0, gs) | Some s \<Rightarrow> S_GET_VALUE s gs)"

definition relax_org :: "nat \<Rightarrow> u32 option \<Rightarrow> nat \<Rightarrow> relaxing \<Rightarrow> growth res" where
  "relax_org pass next_address i rx =
     (let f = gs_frags (rx_gs rx) ! i
      in and_then (frag_value (fr_symbol f) (rx_gs rx)) (\<lambda>(value, gs).
         let rx = rx\<lparr>rx_gs := gs\<rparr>; target = fr_offset f + value
         in case next_address of
              None \<Rightarrow> Inl Abort
            | Some next_addr \<Rightarrow>
                let after = next_addr + rx_stretch rx
                in if fr_address f + fr_fix f > target
                   then if pass < 2 then no_growth (rx\<lparr>rx_again := True\<rparr>)
                        else no_growth (on_rx (\<lambda>gs. update_gs_frag i
                               (\<lambda>f. f\<lparr>fr_type := Rs_align, fr_subtype := 0, fr_offset := 0, fr_fix := after - fr_address f\<rparr>)
                               (gs_bad (Diag ''attempt to move .org backwards'' []) gs)) rx)
                   else Inr (target - after, [], rx)))"

definition forget_symbol :: "nat \<Rightarrow> gas_state \<Rightarrow> gas_state" where
  "forget_symbol i = update_gs_frag i (\<lambda>f. f\<lparr>fr_symbol := None\<rparr>)"

definition relax_space :: "nat \<Rightarrow> u32 option \<Rightarrow> u32 \<Rightarrow> nat \<Rightarrow> relaxing \<Rightarrow> growth res" where
  "relax_space pass next_address was_address i rx =
     (let f = gs_frags (rx_gs rx) ! i
      in case fr_symbol f of
           None \<Rightarrow> no_growth rx
         | Some s \<Rightarrow>
             and_then (S_GET_VALUE s (rx_gs rx)) (\<lambda>(amount, gs).
             let rx = rx\<lparr>rx_gs := gs\<rparr>
             in if S_GET_SEGMENT gs s \<noteq> Absolute_section \<or> S_IS_COMMON gs s \<or> S_GET_SEGMENT gs s = Undefined_section
                then no_growth (on_rx (\<lambda>gs. forget_symbol i (gs_bad (Diag ''.space specifies non-absolute value'' []) gs)) rx)
                else if sint amount < 0
                then if pass < 2 then no_growth (rx\<lparr>rx_again := True\<rparr>)
                     else no_growth (on_rx (\<lambda>gs. forget_symbol i
                            (gs_warn (Diag ''.space, .nops or .fill with negative value, ignored'' []) gs)) rx)
                else case next_address of
                       None \<Rightarrow> Inl Abort
                     | Some next_addr \<Rightarrow> Inr (was_address + fr_fix f + amount - next_addr, [], rx)))"

text \<open>A fragment of another type grows as its handler says.\<close>

definition grown :: "relaxing \<Rightarrow> u32 \<times> gas_state \<Rightarrow> growth res" where
  "grown rx = (\<lambda>(growth, gs). Inr (growth, [], rx\<lparr>rx_gs := gs\<rparr>))"

definition relax_leb128 :: "nat \<Rightarrow> gas_state \<Rightarrow> (u32 \<times> gas_state) res" where
  "relax_leb128 i gs =
     (case fr_symbol (gs_frags gs ! i) of
        None \<Rightarrow> Inl Abort
      | Some s \<Rightarrow>
          and_then (resolve_symbol_value (symbol_fuel gs) s gs) (\<lambda>(value, gs).
          let f = gs_frags gs ! i; size = word_of_nat (sizeof_leb128 value (fr_subtype f \<noteq> 0))
          in Inr (size - fr_offset f, update_gs_frag i (\<lambda>f. f\<lparr>fr_offset := size\<rparr>) gs)))"

definition relax_growth :: "debug_frags \<Rightarrow> segT \<Rightarrow> nat \<Rightarrow> u32 option \<Rightarrow> u32 \<Rightarrow> nat \<Rightarrow> relaxing \<Rightarrow> growth res" where
  "relax_growth dbg segment pass next_address was_address i rx =
     (let type = fr_type (gs_frags (rx_gs rx) ! i)
      in if type = Rs_fill then no_growth rx
         else if is_align type then relax_alignment was_address i rx
         else if type = Rs_org then relax_org pass next_address i rx
         else if is_space type then relax_space pass next_address was_address i rx
         else if type = Rs_machine_dependent then grown rx (riscv_relax_frag segment i (rx_gs rx))
         else if type = Rs_leb128 then and_then (relax_leb128 i (rx_gs rx)) (grown rx)
         else if type = Rs_cfa then and_then (eh_frame_relax_frag dbg i (rx_gs rx)) (grown rx)
         else if type = Rs_dwarf2dbg then and_then (dwarf2dbg_relax_frag dbg i (rx_gs rx)) (grown rx)
         else bad_case)"

subsection \<open>A pass\<close>

text \<open>A growth moves all that follows.\<close>

definition stretch_by :: "u32 \<Rightarrow> relax_state \<Rightarrow> relaxing \<Rightarrow> relaxing" where
  "stretch_by growth type rx =
     (if growth = 0 then rx
      else
        let stretch = rx_stretch rx + growth
        in rx\<lparr>rx_stretch := stretch, rx_stretched := True,
              rx_fudge := (if type = Rs_leb128 \<or> type = Rs_align \<and> rx_fudge rx AND 16 \<noteq> 0 \<and> stretch = 0
                           then rx_fudge rx + 16 else 0)\<rparr>)"

definition move_frag :: "nat \<Rightarrow> relaxing \<Rightarrow> relaxing" where
  "move_frag i rx = on_rx (update_gs_frag i (\<lambda>f. f\<lparr>fr_address := fr_address f + rx_stretch rx\<rparr>)) rx"

text \<open>The fragments put behind \<open>i\<close> are fills, of which only the address changes.\<close>

definition relax_step :: "debug_frags \<Rightarrow> segT \<Rightarrow> nat \<Rightarrow> u32 option \<Rightarrow> nat \<Rightarrow> relaxing \<Rightarrow> (nat list \<times> relaxing) res" where
  "relax_step dbg segment pass next_address i rx =
     and_then (relax_growth dbg segment pass next_address (fr_address (gs_frags (rx_gs rx) ! i)) i (move_frag i rx))
       (\<lambda>(growth, new, rx). Inr (new, fold move_frag new (stretch_by growth (fr_type (gs_frags (rx_gs rx) ! i)) rx)))"

fun relax_pass :: "debug_frags \<Rightarrow> segT \<Rightarrow> nat \<Rightarrow> nat list \<Rightarrow> relaxing \<Rightarrow> (nat list \<times> relaxing) res" where
  "relax_pass dbg segment pass [] rx = Inr ([], rx)"
| "relax_pass dbg segment pass (i # order) rx =
     (let next_address = (case order of [] \<Rightarrow> None | j # _ \<Rightarrow> Some (fr_address (gs_frags (rx_gs rx) ! j)))
      in and_then (relax_step dbg segment pass next_address i rx) (\<lambda>(new, rx).
         and_then (relax_pass dbg segment pass order rx) (\<lambda>(order, rx). Inr (i # new @ order, rx))))"

subsection \<open>The loop\<close>

definition end_pass :: "relaxing \<Rightarrow> relaxing" where
  "end_pass rx = rx\<lparr>rx_fudge :=
     (if rx_stretch rx = 0 \<and> rx_fudge rx AND 16 = 0 \<and> rx_fudge rx AND (- 16) \<noteq> 0 then rx_fudge rx + 1 else 0)\<rparr>"

text \<open>The number is the one of the code: \<open>max_iterations\<close>.\<close>

fun relax_loop :: "nat \<Rightarrow> debug_frags \<Rightarrow> segT \<Rightarrow> nat \<Rightarrow> nat list \<Rightarrow> relaxing \<Rightarrow> (nat list \<times> relaxing) res" where
  "relax_loop 0 dbg segment pass order rx = Inr (order, rx)"
| "relax_loop (Suc n) dbg segment pass order rx =
     and_then (relax_pass dbg segment pass order (rx\<lparr>rx_stretch := 0, rx_stretched := False\<rparr>)) (\<lambda>(order, rx).
     let rx = end_pass rx
     in if rx_stretched rx then relax_loop n dbg segment pass order rx else Inr (order, rx))"

definition max_iterations :: "nat \<Rightarrow> nat" where
  "max_iterations frag_count =
     (let count = word_of_nat frag_count :: u32; square = count * count
      in unat (if square < count then count else square))"

definition infinite_loop :: "string \<Rightarrow> fatal" where
  "infinite_loop name = As_fatal (Diag
     ''Infinite loop encountered whilst attempting to compute the addresses of symbols in section %s'' [Str name])"

text \<open>
  \<open>last_address\<close> is the \<open>last_fr_address\<close> of the fragments. The result tells whether the section has
  to be relaxed again.
\<close>

definition relax_segment :: "debug_frags \<Rightarrow> (segT \<Rightarrow> string) \<Rightarrow> segT \<Rightarrow> nat \<Rightarrow> (nat \<Rightarrow> u32) \<Rightarrow> nat list \<Rightarrow> gas_state \<Rightarrow>
    (bool \<times> (nat \<Rightarrow> u32) \<times> nat list \<times> gas_state) res" where
  "relax_segment dbg segment_name segment pass last_address order gs =
     and_then (first_guess dbg segment 0 order (gs\<lparr>gs_seg := segment\<rparr>)) (\<lambda>gs.
     and_then (relax_loop (max_iterations (length order)) dbg segment pass order
         \<lparr>rx_gs = gs, rx_stretch = 0, rx_stretched = order \<noteq> [], rx_fudge = 0, rx_again = False,
          rx_last = last_address\<rparr>) (\<lambda>(order, rx).
     if rx_stretched rx then Inl (infinite_loop (segment_name segment))
     else
       let address = (\<lambda>i. fr_address (gs_frags (rx_gs rx) ! i));
           moved = (\<exists>i \<in> set order. rx_last rx i \<noteq> address i)
       in Inr (rx_again rx \<or> moved, (\<lambda>i. if i \<in> set order then address i else rx_last rx i), order, rx_gs rx)))"

end
