(* ===== verification/WriteFrags.thy ===== *)
theory WriteFrags
  imports WriteRelax
begin

text \<open>
  The second half of the layout, from \<open>gas/write.c\<close>: after relaxation \<open>size_seg\<close> makes every
  fragment a fill, and \<open>write_contents\<close> writes the fixed bytes and the fill of each to the section.
  \<open>md_section_align\<close> of this target leaves the size as it is. The flags of a section are no part
  of the state.
\<close>

subsection \<open>Conversion\<close>

text \<open>The variable part of fragment \<open>i\<close> becomes a fill up to the next fragment.\<close>

definition fill_to_next :: "u32 option \<Rightarrow> nat \<Rightarrow> gas_state \<Rightarrow> gas_state res" where
  "fill_to_next next_address i gs =
     (let f = gs_frags gs ! i; type = (if fr_type f = Rs_space_nop then Rs_fill_nop else Rs_fill)
      in case next_address of
           None \<Rightarrow> Inl Abort
         | Some next_addr \<Rightarrow>
             if fr_var f = 0 then Inl Abort
             else
               let count = (next_addr - fr_address f - fr_fix f) div fr_var f
               in if sint count < 0
                  then Inr (update_gs_frag i (\<lambda>f. f\<lparr>fr_offset := 0, fr_type := type\<rparr>)
                         (gs_bad (Diag ''attempt to .org/.space/.nops backwards? (%ld)'' [Num count]) gs))
                  else Inr (update_gs_frag i (\<lambda>f. f\<lparr>fr_offset := count, fr_type := type\<rparr>) gs))"

text \<open>\<open>HANDLE_ALIGN\<close> is \<open>riscv_handle_align\<close>.\<close>

definition handle_align :: "u32 option \<Rightarrow> nat \<Rightarrow> gas_state \<Rightarrow> gas_state res" where
  "handle_align next_address i gs =
     (if fr_type (gs_frags gs ! i) = Rs_align_code \<and> \<not> opt_relax (tc_opts (gs_tc gs)) then
        case next_address of
          None \<Rightarrow> Inl Abort
        | Some next_addr \<Rightarrow> Inr (update_gs_frag i (riscv_handle_align False next_addr) gs)
      else Inr gs)"

definition convert_leb128 :: "nat \<Rightarrow> gas_state \<Rightarrow> gas_state res" where
  "convert_leb128 i gs =
     (case fr_symbol (gs_frags gs ! i) of
        None \<Rightarrow> Inl Abort
      | Some s \<Rightarrow>
          and_then (S_GET_VALUE s gs) (\<lambda>(value, gs).
          let gs = (if S_GET_SEGMENT gs s = Undefined_section
                    then gs_bad (Diag ''leb128 operand is an undefined symbol: %s'' [Str (S_GET_NAME gs s)]) gs else gs);
              bytes = output_leb128 value (fr_subtype (gs_frags gs ! i) \<noteq> 0)
          in Inr (update_gs_frag i (\<lambda>f. let p = unat (fr_fix f) in
                 f\<lparr>fr_literal := store_bytes bytes p (ensure_length (p + length bytes) (fr_literal f)),
                   fr_fix := fr_fix f + word_of_nat (length bytes), fr_type := Rs_fill, fr_var := 0, fr_offset := 0,
                   fr_symbol := None\<rparr>) gs)))"

definition frag_wane :: "nat \<Rightarrow> gas_state \<Rightarrow> gas_state" where
  "frag_wane i = update_gs_frag i (\<lambda>f. f\<lparr>fr_type := Rs_fill, fr_offset := 0, fr_var := 0\<rparr>)"

definition convert_machine_dependent :: "u32 option \<Rightarrow> nat \<Rightarrow> gas_state \<Rightarrow> gas_state res" where
  "convert_machine_dependent next_address i gs =
     and_then (md_convert_frag i gs) (\<lambda>gs.
     let f = gs_frags gs ! i
     in and_then (gas_assert (case next_address of None \<Rightarrow> True | Some next_addr \<Rightarrow> next_addr - fr_address f = fr_fix f)) (\<lambda>_.
        Inr (frag_wane i gs)))"

definition cvt_frag_to_fill :: "debug_frags \<Rightarrow> u32 option \<Rightarrow> nat \<Rightarrow> gas_state \<Rightarrow> gas_state res" where
  "cvt_frag_to_fill dbg next_address i gs =
     (let type = fr_type (gs_frags gs ! i)
      in if type = Rs_space_nop then fill_to_next next_address i gs
         else if is_align type \<or> type = Rs_org \<or> type = Rs_space
         then and_then (handle_align next_address i gs) (fill_to_next next_address i)
         else if type = Rs_fill \<or> type = Rs_fill_nop then Inr gs
         else if type = Rs_leb128 then convert_leb128 i gs
         else if type = Rs_cfa then eh_frame_convert_frag dbg i gs
         else if type = Rs_dwarf2dbg then dwarf2dbg_convert_frag dbg i gs
         else if type = Rs_machine_dependent then convert_machine_dependent next_address i gs
         else bad_case)"

fun cvt_frags :: "debug_frags \<Rightarrow> nat list \<Rightarrow> gas_state \<Rightarrow> gas_state res" where
  "cvt_frags dbg [] gs = Inr gs"
| "cvt_frags dbg (i # order) gs =
     and_then (cvt_frag_to_fill dbg (case order of [] \<Rightarrow> None | j # _ \<Rightarrow> Some (fr_address (gs_frags gs ! j))) i gs)
       (cvt_frags dbg order)"

text \<open>The size is where the last fragment ends.\<close>

definition size_seg :: "debug_frags \<Rightarrow> segT \<Rightarrow> nat list \<Rightarrow> gas_state \<Rightarrow> (valueT \<times> gas_state) res" where
  "size_seg dbg segment order gs =
     and_then (cvt_frags dbg order (gs\<lparr>gs_seg := segment\<rparr>)) (\<lambda>gs.
     case order of
       [] \<Rightarrow> Inl Abort
     | _ \<Rightarrow> let f = gs_frags gs ! last order in Inr (fr_address f + fr_fix f, gs))"

subsection \<open>Contents\<close>

text \<open>
  The buffer of 256 bytes with as many copies of the pattern as go into it is written as often as
  necessary; \<open>n\<close> is the number of copies in it.
\<close>

function fill_writes :: "nat \<Rightarrow> nat \<Rightarrow> nat \<Rightarrow> byte list \<Rightarrow> byte list" where
  "fill_writes n count fill_size buf =
     (if count = 0 \<or> n = 0 then []
      else let n = (if n > count then count else n)
           in take (n * fill_size) buf @ fill_writes n (count - n) fill_size buf)"
  by pat_completeness auto
termination by (relation "measure (\<lambda>(n, count, fill_size, buf). count)") auto

declare fill_writes.simps [simp del]

definition write_fill :: "nat \<Rightarrow> nat \<Rightarrow> byte list \<Rightarrow> byte list" where
  "write_fill fill_size count fill_literal =
     (if fill_size = 0 \<or> count = 0 then []
      else if fill_size > 256 then concat (replicate count (take fill_size fill_literal))
      else
        let n_per_buf = (if fill_size = 1 then 256 else 256 div fill_size);
            buf = concat (replicate n_per_buf (take fill_size fill_literal))
        in fill_writes n_per_buf count fill_size buf)"

text \<open>
  What is written for a fragment. The generic \<open>md_generate_nops\<close> only reports that there are no
  such instructions, so that a fill of them has the bytes of memory that nobody has written.
\<close>

definition frag_contents :: "frag \<Rightarrow> gas_state \<Rightarrow> (byte list \<times> gas_state) res" where
  "frag_contents f gs =
     (let p = unat (fr_fix f); fix = take p (ensure_length p (fr_literal f)); n = unat (fr_var f); count = sint (fr_offset f);
          fill_literal = drop p (ensure_length (p + n) (fr_literal f))
      in if fr_type f = Rs_fill_nop
         then and_then (gas_assert (0 \<le> count \<and> fr_var f = 1)) (\<lambda>_.
              Inr (fix @ replicate (nat count) 0,
                   if 0 < count then gs_bad (Diag ''unimplemented .nops directive'' []) gs else gs))
         else and_then (gas_assert (fr_type f = Rs_fill \<and> 0 \<le> count)) (\<lambda>_.
              Inr (fix @ write_fill n (nat count) fill_literal, gs)))"

fun write_contents :: "nat list \<Rightarrow> gas_state \<Rightarrow> (byte list \<times> gas_state) res" where
  "write_contents [] gs = Inr ([], gs)"
| "write_contents (i # order) gs =
     and_then (frag_contents (gs_frags gs ! i) gs) (\<lambda>(bs, gs).
     and_then (write_contents order gs) (\<lambda>(rest, gs). Inr (bs @ rest, gs)))"

end
