(* ===== verification/Layout.thy ===== *)
theory Layout
  imports WriteFrags ExprFrame BranchRelax
begin

text \<open>
  What relaxation settles: fragments that follow each other without gaps, each with the room its
  type asks for where it is, and branches of the length their distance needs.
\<close>

subsection \<open>Fragments\<close>

named_theorems frag_simps "the fragments after an operation"

lemma gs_frags_update [frag_simps]:
  "gs_frags (update_gs_frag i f gs) = (gs_frags gs)[i := f (gs_frags gs ! i)]"
  "gs_symbols (update_gs_frag i f gs) = gs_symbols gs" "gs_frags (gs_bad d gs) = gs_frags gs"
  "gs_frags (gs_warn d gs) = gs_frags gs" "gs_symbols (gs_bad d gs) = gs_symbols gs"
  "gs_frags (gs\<lparr>gs_seg := seg\<rparr>) = gs_frags gs" "gs_symbols (gs\<lparr>gs_seg := seg\<rparr>) = gs_symbols gs"
  by (simp_all add: gs_frags_def update_gs_frag_def update_frag_def gs_bad_def gs_warn_def)

lemma resolve_frags: "resolve_symbol_value n i gs = Inr (v, gs') \<Longrightarrow> gs_frags gs' = gs_frags gs"
  using frame_resolve_symbol_value by (auto simp: gs_frame_def gs_frags_def)

lemma value_frags: "S_GET_VALUE i gs = Inr (v, gs') \<Longrightarrow> gs_frags gs' = gs_frags gs"
  using frame_S_GET_VALUE by (auto simp: gs_frame_def gs_frags_def)

lemma frag_value_frags: "frag_value s gs = Inr (v, gs') \<Longrightarrow> gs_frags gs' = gs_frags gs"
  by (auto simp: frag_value_def dest: value_frags split: option.splits)

text \<open>Fragments whose growth is modelled, with fills of single bytes at alignments.\<close>

definition plain_frag :: "frag \<Rightarrow> bool" where
  "plain_frag f \<longleftrightarrow> fr_type f \<noteq> Rs_cfa \<and> fr_type f \<noteq> Rs_dwarf2dbg \<and>
     (is_align (fr_type f) \<or> fr_type f = Rs_org \<longrightarrow> fr_var f = 1)"

text \<open>The length of the variable part, as far as the type determines it.\<close>

definition room_ok :: "frag \<Rightarrow> u32 \<Rightarrow> bool" where
  "room_ok f r \<longleftrightarrow>
     (fr_type f = Rs_fill \<longrightarrow> r = fr_offset f * fr_var f) \<and>
     (fr_type f = Rs_machine_dependent \<longrightarrow> r = fr_var f) \<and>
     (fr_type f = Rs_leb128 \<longrightarrow> r = fr_offset f) \<and>
     (is_align (fr_type f) \<longrightarrow> align_padding (fr_address f + fr_fix f) f = Inr r)"

text \<open>The fragments of the chain lie one behind the other, from the first address to the second.\<close>

fun laid_out :: "frag list \<Rightarrow> u32 \<Rightarrow> nat list \<Rightarrow> u32 \<Rightarrow> bool" where
  "laid_out frags a [] b \<longleftrightarrow> a = b"
| "laid_out frags a (i # order) b \<longleftrightarrow> fr_address (frags ! i) = a \<and>
     (\<exists>r. room_ok (frags ! i) r \<and> laid_out frags (a + fr_fix (frags ! i) + r) order b)"

lemma laid_out_append: "laid_out frags a (is @ js) c \<longleftrightarrow> (\<exists>b. laid_out frags a is b \<and> laid_out frags b js c)"
  by (induction "is" arbitrary: a) auto

lemma laid_out_cong: "(\<And>i. i \<in> set order \<Longrightarrow> frags ! i = frags' ! i) \<Longrightarrow> laid_out frags a order b = laid_out frags' a order b"
  by (induction order arbitrary: a) auto

definition order_ok :: "frag list \<Rightarrow> nat list \<Rightarrow> bool" where
  "order_ok frags order \<longleftrightarrow> distinct order \<and> (\<forall>i \<in> set order. i < length frags \<and> plain_frag (frags ! i))"

subsection \<open>The first guess\<close>

lemma align_padding_zero: "fr_offset f = 0 \<Longrightarrow> align_padding address f = Inr 0"
  by (simp add: align_padding_def relax_align_def shl_def)

lemma estimate_frags:
  "md_estimate_size_before_relax i seg gs = (len, gs') \<Longrightarrow>
    gs_frags gs' = (gs_frags gs)[i := (gs_frags gs ! i)\<lparr>fr_var := len\<rparr>]"
  by (auto simp: md_estimate_size_before_relax_def frag_simps case_prod_beta dest!: relaxed_branch_length_fst(2))
    (metis prod.collapse relaxed_branch_length_fst(2))

lemma resolve_frag_symbol_frags: "resolve_frag_symbol f gs = Inr gs' \<Longrightarrow> gs_frags gs' = gs_frags gs"
  by (auto simp: resolve_frag_symbol_def and_then_Inr_iff dest: resolve_frags split: option.splits)

lemma guess_size_frags:
  assumes "guess_size dbg seg address i gs = Inr (sz, gs')" and "plain_frag (gs_frags gs ! i)"
    and "address = fr_address (gs_frags gs ! i) + fr_fix (gs_frags gs ! i)" and "i < length (gs_frags gs)"
  shows "\<exists>f. gs_frags gs' = (gs_frags gs)[i := f] \<and> fr_address f = fr_address (gs_frags gs ! i) \<and>
    fr_fix f = fr_fix (gs_frags gs ! i) \<and> plain_frag f \<and> room_ok f sz"
proof -
  let ?f = "gs_frags gs ! i"
  have self: "gs_frags gs = (gs_frags gs)[i := ?f]" by simp
  consider (fill) "fr_type ?f = Rs_fill" | (align) "is_align (fr_type ?f)"
    | (space) "fr_type ?f = Rs_org \<or> is_space (fr_type ?f)" | (machine) "fr_type ?f = Rs_machine_dependent"
    | (leb) "fr_type ?f = Rs_leb128"
    using assms(1,2) by (cases "fr_type ?f") (auto simp: guess_size_def bad_case_def plain_frag_def)
  then show ?thesis
  proof cases
    case fill
    then show ?thesis using assms(1,2) self by (intro exI [of _ ?f]) (auto simp: guess_size_def Let_def room_ok_def)
  next
    case align
    then have v: "fr_var ?f = 1" using assms(2) by (simp add: plain_frag_def)
    have g: "align_guess address ?f gs = Inr (sz, gs')" using assms(1) align by (auto simp: guess_size_def Let_def)
    then have "gs_frags gs' = gs_frags gs \<and> align_padding address ?f = Inr sz"
      by (auto simp: align_guess_def and_then_Inr_iff v)
    then show ?thesis using assms(2,3) align self by (intro exI [of _ ?f]) (auto simp: room_ok_def)
  next
    case space
    then show ?thesis using assms(1,2) self by (intro exI [of _ ?f]) (auto simp: guess_size_def Let_def room_ok_def)
  next
    case machine
    then obtain gs1 where gs1: "resolve_frag_symbol ?f gs = Inr gs1" "md_estimate_size_before_relax i seg gs1 = (sz, gs')"
      using assms(1) by (auto simp: guess_size_def Let_def and_then_Inr_iff)
    show ?thesis
      using estimate_frags [OF gs1(2)] resolve_frag_symbol_frags [OF gs1(1)] machine assms(2)
      by (intro exI [of _ "?f\<lparr>fr_var := sz\<rparr>"]) (auto simp: room_ok_def plain_frag_def)
  next
    case leb
    then show ?thesis using assms(1,2)
      by (intro exI [of _ "?f\<lparr>fr_offset := 1\<rparr>"]) (auto simp: guess_size_def Let_def frag_simps room_ok_def plain_frag_def)
  qed
qed

lemma first_guess_laid_out:
  assumes "first_guess dbg seg a order gs = Inr gs'" and "order_ok (gs_frags gs) order"
  shows "(\<exists>b. laid_out (gs_frags gs') a order b) \<and> order_ok (gs_frags gs') order \<and>
    length (gs_frags gs') = length (gs_frags gs) \<and>
    (\<forall>j. j \<notin> set order \<longrightarrow> gs_frags gs' ! j = gs_frags gs ! j)"
  using assms
proof (induction order arbitrary: a gs)
  case Nil
  then show ?case by (simp add: order_ok_def)
next
  case (Cons i order)
  let ?g = "update_gs_frag i (\<lambda>f. f\<lparr>fr_address := a\<rparr>) gs"
  have i: "i < length (gs_frags gs)" "plain_frag (gs_frags gs ! i)" "i \<notin> set order" "order_ok (gs_frags gs) order"
    using Cons.prems(2) by (auto simp: order_ok_def)
  have gi: "gs_frags ?g ! i = (gs_frags gs ! i)\<lparr>fr_address := a\<rparr>" using i(1) by (simp add: frag_simps)
  define fixed where "fixed = a + fr_fix (gs_frags gs ! i)"
  obtain sz gs1 where gs1: "guess_size dbg seg fixed i ?g = Inr (sz, gs1)"
      "first_guess dbg seg (fixed + sz) order gs1 = Inr gs'"
    using Cons.prems(1) gi by (auto simp: and_then_Inr_iff fixed_def Let_def)
  obtain f where f: "gs_frags gs1 = (gs_frags ?g)[i := f]" "fr_address f = a" "fr_fix f = fr_fix (gs_frags gs ! i)"
      "plain_frag f" "room_ok f sz"
    using guess_size_frags [OF gs1(1)] i(1,2) gi by (auto simp: frag_simps plain_frag_def fixed_def)
  have len: "length (gs_frags gs1) = length (gs_frags gs)" by (simp add: f(1) frag_simps)
  have other: "gs_frags gs1 ! j = gs_frags gs ! j" if "j \<noteq> i" for j using that by (simp add: f(1) frag_simps)
  have "order_ok (gs_frags gs1) order" using i(3,4) len other by (auto simp: order_ok_def) (metis other)
  from Cons.IH [OF gs1(2) this] obtain b where IH: "laid_out (gs_frags gs') (fixed + sz) order b"
      "order_ok (gs_frags gs') order" "length (gs_frags gs') = length (gs_frags gs1)"
      "\<forall>j. j \<notin> set order \<longrightarrow> gs_frags gs' ! j = gs_frags gs1 ! j" by blast
  have fi: "gs_frags gs' ! i = f" using IH(4) i(1,3) by (simp add: f(1) frag_simps)
  have "laid_out (gs_frags gs') a (i # order) b" using fi f IH(1) by (auto simp: fixed_def)
  then show ?case using IH i fi f(4) len other by (auto simp: order_ok_def)
qed

subsection \<open>Growth\<close>

text \<open>
  What has grown: fragment \<open>i\<close> has become \<open>f\<close>, with \<open>new\<close> behind it, and together they end where
  the fragment did, moved by the growth.
\<close>

definition grows :: "nat \<Rightarrow> u32 \<Rightarrow> relaxing \<Rightarrow> u32 \<times> nat list \<times> relaxing \<Rightarrow> bool" where
  "grows i e rx r \<longleftrightarrow>
     (let (g, new, rx') = r; frags = gs_frags (rx_gs rx); c = fr_address (frags ! i)
      in (\<exists>f r. fr_address f = c \<and> plain_frag f \<and> room_ok f r \<and>
           rx_stretch rx' = rx_stretch rx \<and> rx_stretched rx' = rx_stretched rx \<and>
           (new = [] \<and> gs_frags (rx_gs rx') = frags[i := f] \<and> c + fr_fix f + r = e + g \<or>
            (\<exists>n. new = [length frags] \<and> gs_frags (rx_gs rx') = frags[i := f] @ [n] \<and> plain_frag n \<and> fr_type n = Rs_fill \<and>
              fr_fix n = 0 \<and> fr_address n + (rx_stretch rx + g) = c + fr_fix f + r \<and>
              c + fr_fix f + r + fr_offset n * fr_var n = e + g))))"

lemma growsI:
  assumes "gs_frags (rx_gs rx') = (gs_frags (rx_gs rx))[i := f]" and "rx_stretch rx' = rx_stretch rx"
    and "rx_stretched rx' = rx_stretched rx" and "fr_address f = fr_address (gs_frags (rx_gs rx) ! i)" and "plain_frag f" and "room_ok f r"
    and "fr_address f + fr_fix f + r = e + g"
  shows "grows i e rx (g, [], rx')"
  unfolding grows_def Let_def prod.case using assms by (intro exI [of _ f] exI [of _ r]) auto

lemma padding_frag_cases:
  assumes "padding_frag st g newoff f = Inr n"
  shows "fr_type n = Rs_fill \<and> fr_fix n = 0 \<and> fr_offset n * fr_var n = shl 1 (unat (fr_offset f)) \<and>
    fr_address n = fr_address f + fr_fix f + newoff - (st + (g + shl 1 (unat (fr_offset f))))"
  using assms by (auto simp: padding_frag_def Let_def split: if_splits)

lemma add_frag_simps [frag_simps]:
  "gs_frags (rx_gs (add_frag n i rx)) = gs_frags (rx_gs rx) @ [n]" "gs_symbols (rx_gs (add_frag n i rx)) = gs_symbols (rx_gs rx)"
  "rx_stretch (add_frag n i rx) = rx_stretch rx" "rx_stretched (add_frag n i rx) = rx_stretched rx"
  by (simp_all add: add_frag_def Let_def gs_frags_def)

lemma relax_alignment_grows:
  assumes "relax_alignment was i rx = Inr r" and "f = gs_frags (rx_gs rx) ! i" and "is_align (fr_type f)"
    and "plain_frag f" and "align_padding (was + fr_fix f) f = Inr old" and "e = fr_address f + fr_fix f + old"
  shows "grows i e rx r"
proof -
  let ?frags = "gs_frags (rx_gs rx)"
  obtain newoff where newoff: "align_padding (fr_address f + fr_fix f) f = Inr newoff"
    using assms(1,2) by (auto simp: relax_alignment_def Let_def and_then_Inr_iff)
  then have room: "room_ok f newoff" using assms(3) by (auto simp: room_ok_def)
  have self: "?frags[i := f] = ?frags" using assms(2) by simp
  show ?thesis
  proof (cases "sint (newoff - old) < 0 \<and> rx_fudge rx AND 16 \<noteq> 0 \<and> 2 \<le> rx_fudge rx AND 15")
    case False
    then have r: "r = (newoff - old, [], rx)"
      using assms(1) assms(5) newoff by (auto simp: relax_alignment_def Let_def assms(2) [symmetric])
    show ?thesis unfolding r
      by (rule growsI [where f = f and r = newoff]) (use assms(2,4,6) room self in simp_all)
  next
    case True
    then obtain n where n: "padding_frag (rx_stretch rx) (newoff - old) newoff f = Inr n"
      and r: "r = (newoff - old + fr_offset n * fr_var n, [length ?frags],
        add_frag n i rx)"
      using assms(1) assms(5) newoff by (auto simp: relax_alignment_def Let_def and_then_Inr_iff assms(2) [symmetric])
    note nn = padding_frag_cases [OF n]
    have "plain_frag n" using nn by (simp add: plain_frag_def)
    moreover have "gs_frags (rx_gs (add_frag n i rx)) = ?frags[i := f] @ [n]" by (simp add: frag_simps self)
    moreover have "rx_stretch (add_frag n i rx) = rx_stretch rx" "rx_stretched (add_frag n i rx) = rx_stretched rx"
      by (simp_all add: frag_simps)
    ultimately show ?thesis
      unfolding r grows_def Let_def prod.case using nn assms(2,4,6) room
      by (intro exI [of _ f] exI [of _ newoff]) (auto simp: algebra_simps)
  qed
qed

lemma relax_org_grows:
  assumes "relax_org pass next_address i rx = Inr r" and "f = gs_frags (rx_gs rx) ! i" and "fr_type f = Rs_org"
    and "plain_frag f" and "next_address = None \<or> next_address = Some (e - rx_stretch rx)" and "i < length (gs_frags (rx_gs rx))"
  shows "grows i e rx r"
proof -
  obtain v gs where v: "frag_value (fr_symbol f) (rx_gs rx) = Inr (v, gs)"
    using assms(1,2) by (auto simp: relax_org_def Let_def and_then_Inr_iff)
  note frags = frag_value_frags [OF v]
  have next_addr: "next_address = Some (e - rx_stretch rx)"
    using assms(1,2,5) v by (auto simp: relax_org_def Let_def)
  have any: "room_ok f x" for x using assms(3) by (simp add: room_ok_def)
  have self: "(gs_frags (rx_gs rx))[i := f] = gs_frags (rx_gs rx)" using assms(2) by simp
  show ?thesis
  proof (cases "fr_address f + fr_fix f > fr_offset f + v \<and> 2 \<le> pass")
    case True
    let ?f = "f\<lparr>fr_type := Rs_align, fr_subtype := 0, fr_offset := 0, fr_fix := e - fr_address f\<rparr>"
    let ?gs = "update_gs_frag i (\<lambda>f. f\<lparr>fr_type := Rs_align, fr_subtype := 0, fr_offset := 0, fr_fix := e - fr_address f\<rparr>)
      (gs_bad (Diag ''attempt to move .org backwards'' []) gs)"
    have r: "r = (0, [], rx\<lparr>rx_gs := ?gs\<rparr>)"
      using assms(1) v next_addr True by (auto simp: relax_org_def Let_def assms(2) [symmetric] no_growth_def on_rx_def)
    have "plain_frag ?f" using assms(3,4) by (simp add: plain_frag_def)
    then show ?thesis unfolding r
      by (intro growsI [where f = ?f and r = 0])
        (use assms(2) frags in \<open>auto simp: frag_simps room_ok_def align_padding_zero\<close>)
  next
    case False
    then obtain g rx' where r: "r = (g, [], rx')" "gs_frags (rx_gs rx') = gs_frags gs" "rx_stretch rx' = rx_stretch rx"
        "rx_stretched rx' = rx_stretched rx"
      using assms(1) v next_addr
      by (cases r) (auto simp: relax_org_def Let_def assms(2) [symmetric] no_growth_def split: if_splits)
    show ?thesis unfolding r(1)
      by (rule growsI [where f = f and r = "e + g - fr_address f - fr_fix f"])
        (use r assms(2,4) any frags self in simp_all)
  qed
qed

lemma relax_space_grows:
  assumes "relax_space pass next_address was i rx = Inr (g, new, rx')" and "f = gs_frags (rx_gs rx) ! i"
    and "is_space (fr_type f)" and "i < length (gs_frags (rx_gs rx))"
  shows "grows i e rx (g, new, rx')"
proof -
  have plain: "plain_frag (f\<lparr>fr_symbol := s\<rparr>)" "room_ok (f\<lparr>fr_symbol := s\<rparr>) x" for s x
    using assms(3) by (auto simp: plain_frag_def room_ok_def)
  have self: "(gs_frags (rx_gs rx))[i := f] = gs_frags (rx_gs rx)" using assms(2) by simp
  have "new = [] \<and> rx_stretch rx' = rx_stretch rx \<and> rx_stretched rx' = rx_stretched rx \<and>
      (\<exists>s. gs_frags (rx_gs rx') = (gs_frags (rx_gs rx))[i := f\<lparr>fr_symbol := s\<rparr>])"
  proof (cases "fr_symbol f")
    case None
    then have "new = [] \<and> rx' = rx" using assms(1) by (auto simp: relax_space_def Let_def no_growth_def assms(2) [symmetric])
    moreover have "f\<lparr>fr_symbol := None\<rparr> = f" using None by simp
    ultimately show ?thesis using self by metis
  next
    case (Some s)
    then obtain v gs where v: "S_GET_VALUE s (rx_gs rx) = Inr (v, gs)"
      using assms(1) by (auto simp: relax_space_def Let_def and_then_Inr_iff assms(2) [symmetric])
    note frags = value_frags [OF v]
    have f: "f\<lparr>fr_symbol := Some s\<rparr> = f" using Some by simp
    have "new = [] \<and> rx_stretch rx' = rx_stretch rx \<and> rx_stretched rx' = rx_stretched rx \<and>
        (gs_frags (rx_gs rx') = gs_frags gs \<or> gs_frags (rx_gs rx') = (gs_frags gs)[i := (gs_frags gs ! i)\<lparr>fr_symbol := None\<rparr>])"
      using assms(1) Some v
      by (auto simp: relax_space_def Let_def assms(2) [symmetric] no_growth_def on_rx_def forget_symbol_def frag_simps
          split: if_splits option.splits)
    then show ?thesis using frags f self assms(2) by metis
  qed
  then obtain s where n: "new = []" "rx_stretch rx' = rx_stretch rx" "rx_stretched rx' = rx_stretched rx"
      "gs_frags (rx_gs rx') = (gs_frags (rx_gs rx))[i := f\<lparr>fr_symbol := s\<rparr>]" by blast
  show ?thesis unfolding n(1)
    by (rule growsI [OF n(4,2,3), where r = "e + g - fr_address f - fr_fix f"]) (use plain assms(2) in simp_all)
qed

lemma relax_frag_cases:
  assumes "riscv_relax_frag seg i gs = (g, gs')"
  obtains (branch) st len where "RELAX_BRANCH_P (fr_subtype (gs_frags gs ! i))"
      "relaxed_branch_length (gs_frags gs) (gs_symbols gs) seg True (gs_frags gs ! i) = (len, (gs_frags gs ! i)\<lparr>fr_subtype := st\<rparr>)"
      "g = len - fr_var (gs_frags gs ! i)"
      "gs' = update_gs_frag i (\<lambda>f. f\<lparr>fr_subtype := st, fr_var := len\<rparr>) gs"
    | (other) "\<not> RELAX_BRANCH_P (fr_subtype (gs_frags gs ! i))" "g = 0" "gs' = gs"
proof (cases "RELAX_BRANCH_P (fr_subtype (gs_frags gs ! i))")
  case True
  obtain len f where r: "relaxed_branch_length (gs_frags gs) (gs_symbols gs) seg True (gs_frags gs ! i) = (len, f)" by fastforce
  from relaxed_branch_length_fst(2) [OF this] have "\<exists>st. f = (gs_frags gs ! i)\<lparr>fr_subtype := st\<rparr>" by auto
  then obtain st where st: "f = (gs_frags gs ! i)\<lparr>fr_subtype := st\<rparr>" by blast
  have "g = len - fr_var (gs_frags gs ! i) \<and> gs' = update_gs_frag i (\<lambda>_. f\<lparr>fr_var := len\<rparr>) gs"
    using assms True r by (simp add: riscv_relax_frag_def Let_def)
  then show thesis using branch [OF True, of len st] r by (simp add: st update_gs_frag_def update_frag_def gs_frags_def)
qed (use assms in \<open>simp add: riscv_relax_frag_def\<close>)

lemma relax_machine_grows:
  assumes "riscv_relax_frag seg i (rx_gs rx) = (g, gs)" and "f = gs_frags (rx_gs rx) ! i"
    and "fr_type f = Rs_machine_dependent" and "plain_frag f" and "e = fr_address f + fr_fix f + fr_var f"
  shows "grows i e rx (g, [], rx\<lparr>rx_gs := gs\<rparr>)"
  using assms(1)
proof (cases rule: relax_frag_cases)
  case (branch st len)
  then show ?thesis
    by (intro growsI [where f = "f\<lparr>fr_subtype := st, fr_var := len\<rparr>" and r = len])
      (use assms(2-5) in \<open>auto simp: frag_simps plain_frag_def room_ok_def\<close>)
next
  case other
  then show ?thesis
    by (intro growsI [where f = f and r = "fr_var f"]) (use assms(2-5) in \<open>auto simp: room_ok_def\<close>)
qed

lemma relax_leb128_grows:
  assumes "relax_leb128 i (rx_gs rx) = Inr (g, gs)" and "f = gs_frags (rx_gs rx) ! i"
    and "fr_type f = Rs_leb128" and "e = fr_address f + fr_fix f + fr_offset f"
  shows "grows i e rx (g, [], rx\<lparr>rx_gs := gs\<rparr>)"
proof -
  obtain v gs1 sz where v: "gs_frags gs1 = gs_frags (rx_gs rx)" "g = sz - fr_offset f"
      "gs = update_gs_frag i (\<lambda>f. f\<lparr>fr_offset := sz\<rparr>) gs1"
    using assms(1,2) by (auto simp: relax_leb128_def Let_def and_then_Inr_iff dest!: resolve_frags split: option.splits)
  show ?thesis
    by (rule growsI [where f = "f\<lparr>fr_offset := sz\<rparr>" and r = sz])
      (use assms(2-4) v in \<open>auto simp: frag_simps plain_frag_def room_ok_def\<close>)
qed

lemma relax_growth_grows:
  assumes "relax_growth dbg seg pass next_address was i rx = Inr r" and "f = gs_frags (rx_gs rx) ! i" and "plain_frag f"
    and "i < length (gs_frags (rx_gs rx))" and "room_ok (f\<lparr>fr_address := was\<rparr>) old" and "e = fr_address f + fr_fix f + old"
    and "next_address = None \<or> next_address = Some (e - rx_stretch rx)"
  shows "grows i e rx r"
proof -
  have same: "align_padding a (f\<lparr>fr_address := was\<rparr>) = align_padding a f" for a by (simp add: align_padding_def)
  consider (fill) "fr_type f = Rs_fill" | (align) "is_align (fr_type f)" | (org) "fr_type f = Rs_org"
    | (space) "is_space (fr_type f)" | (machine) "fr_type f = Rs_machine_dependent" | (leb) "fr_type f = Rs_leb128"
    using assms(1,3) by (cases "fr_type f") (auto simp: relax_growth_def assms(2) [symmetric] bad_case_def plain_frag_def)
  then show ?thesis
  proof cases
    case fill
    then have "r = (0, [], rx)" using assms(1) by (simp add: relax_growth_def assms(2) [symmetric] no_growth_def)
    then show ?thesis
      using assms(2-6) fill growsI [of rx rx i f old e 0] by (simp add: room_ok_def)
  next
    case align
    then have "relax_alignment was i rx = Inr r" using assms(1) by (auto simp: relax_growth_def assms(2) [symmetric])
    moreover have "align_padding (was + fr_fix f) f = Inr old" using assms(5) align by (auto simp: room_ok_def same)
    ultimately show ?thesis using relax_alignment_grows [OF _ assms(2) align assms(3) _ assms(6)] by blast
  next
    case org
    then show ?thesis using assms(1) relax_org_grows [OF _ assms(2) org assms(3,7,4)]
      by (simp add: relax_growth_def assms(2) [symmetric])
  next
    case space
    then show ?thesis using assms(1) relax_space_grows [OF _ assms(2) space assms(4)]
      by (cases r) (auto simp: relax_growth_def assms(2) [symmetric])
  next
    case machine
    then show ?thesis using assms(1,5,6) relax_machine_grows [OF _ assms(2) machine assms(3)]
      by (cases "riscv_relax_frag seg i (rx_gs rx)")
        (auto simp: relax_growth_def assms(2) [symmetric] grown_def room_ok_def)
  next
    case leb
    then show ?thesis using assms(1,5,6) relax_leb128_grows [OF _ assms(2) leb]
      by (auto simp: relax_growth_def assms(2) [symmetric] grown_def room_ok_def and_then_Inr_iff)
  qed
qed

subsection \<open>A pass\<close>

lemma move_frag_frags [frag_simps]:
  "gs_frags (rx_gs (move_frag i rx)) =
    (gs_frags (rx_gs rx))[i := (gs_frags (rx_gs rx) ! i)\<lparr>fr_address := fr_address (gs_frags (rx_gs rx) ! i) + rx_stretch rx\<rparr>]"
  "rx_stretch (move_frag i rx) = rx_stretch rx" "rx_stretched (move_frag i rx) = rx_stretched rx"
  by (simp_all add: move_frag_def on_rx_def frag_simps)

lemma stretch_by_simps [frag_simps]:
  "rx_gs (stretch_by g type rx) = rx_gs rx" "rx_stretch (stretch_by g type rx) = rx_stretch rx + g"
  "rx_stretched (stretch_by g type rx) = (rx_stretched rx \<or> g \<noteq> 0)"
  by (simp_all add: stretch_by_def Let_def)

lemma relax_step_laid_out:
  assumes "relax_step dbg seg pass next_address i rx = Inr (new, rx')" and "frags = gs_frags (rx_gs rx)"
    and "i < length frags" and "plain_frag (frags ! i)" and "laid_out frags a [i] b"
    and "next_address = None \<or> next_address = Some b"
  shows "laid_out (gs_frags (rx_gs rx')) (a + rx_stretch rx) (i # new) (b + rx_stretch rx') \<and>
    (\<forall>j < length frags. j \<noteq> i \<longrightarrow> gs_frags (rx_gs rx') ! j = frags ! j) \<and>
    order_ok (gs_frags (rx_gs rx')) (i # new) \<and> (\<forall>j \<in> set new. length frags \<le> j) \<and>
    length frags \<le> length (gs_frags (rx_gs rx'))"
proof -
  let ?f = "(frags ! i)\<lparr>fr_address := a + rx_stretch rx\<rparr>"
  let ?m = "move_frag i rx"
  have a: "fr_address (frags ! i) = a" using assms(5) by simp
  obtain old where old: "room_ok (frags ! i) old" "b = a + fr_fix (frags ! i) + old" using assms(5) by auto
  have m: "gs_frags (rx_gs ?m) = frags[i := ?f]" "gs_frags (rx_gs ?m) ! i = ?f" "length (gs_frags (rx_gs ?m)) = length frags"
    using assms(2,3) a by (auto simp: frag_simps)
  obtain g rx1 where step: "relax_growth dbg seg pass next_address a i ?m = Inr (g, new, rx1)"
      "rx' = fold move_frag new (stretch_by g (fr_type (gs_frags (rx_gs rx1) ! i)) rx1)"
    using assms(1,2) a by (auto simp: relax_step_def and_then_Inr_iff)
  have "grows i (b + rx_stretch rx) ?m (g, new, rx1)"
  proof (rule relax_growth_grows [OF step(1) m(2) [symmetric]])
    show "room_ok (?f\<lparr>fr_address := a\<rparr>) old" using old(1) by (simp add: a [symmetric])
    show "b + rx_stretch rx = fr_address ?f + fr_fix ?f + old" using old(2) by simp
    show "next_address = None \<or> next_address = Some (b + rx_stretch rx - rx_stretch ?m)"
      using assms(6) by (simp add: frag_simps)
  qed (use assms(3,4) m(3) in \<open>simp_all add: plain_frag_def\<close>)
  then obtain f r where f: "fr_address f = a + rx_stretch rx" "plain_frag f" "room_ok f r"
    and st: "rx_stretch rx1 = rx_stretch rx"
    and cases: "new = [] \<and> gs_frags (rx_gs rx1) = frags[i := f] \<and> a + rx_stretch rx + fr_fix f + r = b + rx_stretch rx + g \<or>
      (\<exists>n. new = [length frags] \<and> gs_frags (rx_gs rx1) = frags[i := f] @ [n] \<and> plain_frag n \<and> fr_type n = Rs_fill \<and>
        fr_fix n = 0 \<and> fr_address n + (rx_stretch rx + g) = a + rx_stretch rx + fr_fix f + r \<and>
        a + rx_stretch rx + fr_fix f + r + fr_offset n * fr_var n = b + rx_stretch rx + g)"
    unfolding grows_def Let_def prod.case m(2,3) by (auto simp: frag_simps assms(2))
  from cases show ?thesis
  proof (elim disjE exE conjE)
    assume new: "new = []" and gs: "gs_frags (rx_gs rx1) = frags[i := f]"
      and e: "a + rx_stretch rx + fr_fix f + r = b + rx_stretch rx + g"
    have "gs_frags (rx_gs rx') = frags[i := f]" "rx_stretch rx' = rx_stretch rx + g"
      using step(2) new gs st by (simp_all add: frag_simps)
    then show ?thesis using new assms(3) f e by (auto simp: order_ok_def add.assoc)
  next
    fix n
    assume new: "new = [length frags]" and gs: "gs_frags (rx_gs rx1) = frags[i := f] @ [n]"
      and n: "plain_frag n" "fr_type n = Rs_fill" "fr_fix n = 0"
        "fr_address n + (rx_stretch rx + g) = a + rx_stretch rx + fr_fix f + r"
        "a + rx_stretch rx + fr_fix f + r + fr_offset n * fr_var n = b + rx_stretch rx + g"
    let ?n = "n\<lparr>fr_address := fr_address n + (rx_stretch rx + g)\<rparr>"
    have rx': "gs_frags (rx_gs rx') = frags[i := f] @ [?n]" "rx_stretch rx' = rx_stretch rx + g"
      using step(2) new gs st assms(3) by (simp_all add: frag_simps list_update_append nth_append)
    have "plain_frag ?n" "room_ok ?n (fr_offset n * fr_var n)" using n(1,2) by (simp_all add: plain_frag_def room_ok_def)
    moreover have "fr_address ?n = a + rx_stretch rx + fr_fix f + r"
        "a + rx_stretch rx + fr_fix f + r + fr_fix ?n + fr_offset n * fr_var n = b + rx_stretch rx'"
      using n(3,4,5) rx'(2) by (simp_all add: add.assoc)
    moreover have "gs_frags (rx_gs rx') ! i = f" "gs_frags (rx_gs rx') ! length frags = ?n"
      using rx'(1) assms(3) by (simp_all add: nth_append)
    ultimately have "laid_out (gs_frags (rx_gs rx')) (a + rx_stretch rx) (i # new) (b + rx_stretch rx')"
      using f new by (simp only: laid_out.simps) blast
    then show ?thesis using rx' new assms(3) f \<open>plain_frag ?n\<close> by (auto simp: order_ok_def nth_append less_Suc_eq)
  qed
qed

lemma order_ok_cong:
  "(\<And>j. j \<in> set order \<Longrightarrow> frags' ! j = frags ! j) \<Longrightarrow> length frags \<le> length frags' \<Longrightarrow> order_ok frags order \<Longrightarrow> order_ok frags' order"
  by (force simp: order_ok_def)

lemma order_ok_append:
  "order_ok frags (is @ js) \<longleftrightarrow> order_ok frags is \<and> order_ok frags js \<and> set is \<inter> set js = {}"
  by (auto simp: order_ok_def)

lemma relax_pass_laid_out:
  assumes "relax_pass dbg seg pass order rx = Inr (order', rx')" and "order_ok (gs_frags (rx_gs rx)) order"
    and "laid_out (gs_frags (rx_gs rx)) a order b"
  shows "laid_out (gs_frags (rx_gs rx')) (a + rx_stretch rx) order' (b + rx_stretch rx') \<and>
    order_ok (gs_frags (rx_gs rx')) order' \<and> length (gs_frags (rx_gs rx)) \<le> length (gs_frags (rx_gs rx')) \<and>
    (\<forall>j < length (gs_frags (rx_gs rx)). j \<notin> set order \<longrightarrow> gs_frags (rx_gs rx') ! j = gs_frags (rx_gs rx) ! j) \<and>
    (\<forall>j \<in> set order'. j \<in> set order \<or> length (gs_frags (rx_gs rx)) \<le> j)"
  using assms
proof (induction order arbitrary: a rx order' rx')
  case (Cons i order)
  let ?frags = "gs_frags (rx_gs rx)"
  let ?next = "case order of [] \<Rightarrow> None | j # _ \<Rightarrow> Some (fr_address (?frags ! j))"
  have i: "i < length ?frags" "plain_frag (?frags ! i)" "i \<notin> set order" "order_ok ?frags order"
    using Cons.prems(2) by (auto simp: order_ok_def)
  obtain m where m: "laid_out ?frags a [i] m" "laid_out ?frags m order b"
    using Cons.prems(3) laid_out_append [of ?frags a "[i]" order b] by auto
  have nxt: "?next = None \<or> ?next = Some m" using m(2) by (cases order) auto
  obtain new rx1 order1 where step: "relax_step dbg seg pass ?next i rx = Inr (new, rx1)"
    and rest: "relax_pass dbg seg pass order rx1 = Inr (order1, rx')" and order': "order' = i # new @ order1"
    using Cons.prems(1) by (auto simp: and_then_Inr_iff Let_def)
  let ?frags1 = "gs_frags (rx_gs rx1)"
  note s = relax_step_laid_out [OF step refl i(1,2) m(1) nxt]
  have same: "?frags1 ! j = ?frags ! j" if "j \<in> set order" for j
    using s i that by (metis order_ok_def)
  have ok1: "order_ok ?frags1 order" "laid_out ?frags1 m order b"
    using order_ok_cong [OF same _ i(4)] s laid_out_cong [OF same] m(2) by simp_all
  note IH = Cons.IH [OF rest ok1]
  have apart: "j < length ?frags1 \<and> j \<notin> set order" if "j \<in> set (i # new)" for j
  proof
    show "j < length ?frags1" using s that by (auto simp: order_ok_def)
    show "j \<notin> set order"
    proof
      assume "j \<in> set order"
      then have "j < length ?frags" "j \<noteq> i" using i by (auto simp: order_ok_def)
      then show False using that s by auto
    qed
  qed
  then have keep: "gs_frags (rx_gs rx') ! j = ?frags1 ! j" if "j \<in> set (i # new)" for j
    using IH that by blast
  have "laid_out (gs_frags (rx_gs rx')) (a + rx_stretch rx) (i # new) (m + rx_stretch rx1)"
    using s by (simp only: laid_out_cong [OF keep])
  then have "laid_out (gs_frags (rx_gs rx')) (a + rx_stretch rx) order' (b + rx_stretch rx')"
    using IH laid_out_append [of "gs_frags (rx_gs rx')" "a + rx_stretch rx" "i # new" order1 "b + rx_stretch rx'"]
    unfolding order' append_Cons by blast
  moreover have "order_ok (gs_frags (rx_gs rx')) (i # new)" using s IH order_ok_cong [OF keep] by blast
  moreover have "set (i # new) \<inter> set order1 = {}" using IH apart by (meson disjoint_iff leD)
  then have "order_ok (gs_frags (rx_gs rx')) order'"
    using IH calculation(2) order_ok_append [of _ "i # new" order1] unfolding order' append_Cons by blast
  moreover have "\<forall>j < length ?frags. j \<notin> set (i # order) \<longrightarrow> gs_frags (rx_gs rx') ! j = ?frags ! j"
    using IH s by (metis dual_order.strict_trans1 list.set_intros(1) list.set_intros(2))
  moreover have "\<forall>j \<in> set order'. j \<in> set (i # order) \<or> length ?frags \<le> j"
    using IH s order' by (auto intro: order_trans)
  ultimately show ?case using IH s by (meson order_trans)
qed (simp add: order_ok_def)

lemma end_pass_simps [frag_simps]: "rx_gs (end_pass rx) = rx_gs rx" "rx_stretched (end_pass rx) = rx_stretched rx"
  by (simp_all add: end_pass_def)

lemma relax_loop_laid_out:
  assumes "relax_loop n dbg seg pass order rx = Inr (order', rx')" and "order_ok (gs_frags (rx_gs rx)) order"
    and "laid_out (gs_frags (rx_gs rx)) a order b"
  shows "\<exists>b'. laid_out (gs_frags (rx_gs rx')) a order' b' \<and> order_ok (gs_frags (rx_gs rx')) order'"
  using assms
proof (induction n arbitrary: order rx b)
  case 0
  then show ?case by auto
next
  case (Suc n)
  let ?rx = "rx\<lparr>rx_stretch := 0, rx_stretched := False\<rparr>"
  obtain order1 rx1 where p: "relax_pass dbg seg pass order ?rx = Inr (order1, rx1)"
    and l: "(if rx_stretched rx1 then relax_loop n dbg seg pass order1 (end_pass rx1) else Inr (order1, end_pass rx1)) = Inr (order', rx')"
    using Suc.prems(1) by (auto simp: and_then_Inr_iff Let_def frag_simps)
  note gs = end_pass_simps(1)
  have ok: "order_ok (gs_frags (rx_gs rx1)) order1 \<and> laid_out (gs_frags (rx_gs rx1)) a order1 (b + rx_stretch rx1)"
    using relax_pass_laid_out [OF p, of a b] Suc.prems(2,3) by auto
  show ?case
  proof (cases "rx_stretched rx1")
    case True
    then show ?thesis using Suc.IH [of order1 "end_pass rx1" "b + rx_stretch rx1"] l ok by (simp add: gs)
  next
    case False
    then show ?thesis using l ok by (auto simp: gs)
  qed
qed

lemma relax_segment_laid_out:
  assumes "relax_segment dbg names seg pass last_address order gs = Inr (again, last_address', order', gs')"
    and "order_ok (gs_frags gs) order"
  shows "\<exists>b. laid_out (gs_frags gs') 0 order' b \<and> order_ok (gs_frags gs') order'"
proof -
  obtain gs1 rx where g: "first_guess dbg seg 0 order (gs\<lparr>gs_seg := seg\<rparr>) = Inr gs1"
    and l: "relax_loop (max_iterations (length order)) dbg seg pass order
         \<lparr>rx_gs = gs1, rx_stretch = 0, rx_stretched = order \<noteq> [], rx_fudge = 0, rx_again = False, rx_last = last_address\<rparr> = Inr (order', rx)"
    and gs': "gs' = rx_gs rx"
    using assms(1) by (auto simp: relax_segment_def and_then_Inr_iff Let_def split: if_splits)
  have "order_ok (gs_frags (gs\<lparr>gs_seg := seg\<rparr>)) order" using assms(2) by (simp add: frag_simps)
  from first_guess_laid_out [OF g this] obtain b where "laid_out (gs_frags gs1) 0 order b" "order_ok (gs_frags gs1) order"
    by blast
  then show ?thesis using relax_loop_laid_out [OF l, of 0 b] gs' by simp
qed

subsection \<open>The order\<close>

text \<open>Fragments are only put between others.\<close>

lemma relax_pass_keeps_order:
  assumes "relax_pass dbg seg pass order rx = Inr (order', rx')" and "order_ok (gs_frags (rx_gs rx)) order"
    and "laid_out (gs_frags (rx_gs rx)) a order b" and "N \<le> length (gs_frags (rx_gs rx))"
  shows "filter (\<lambda>i. i < N) order' = filter (\<lambda>i. i < N) order"
  using assms
proof (induction order arbitrary: a rx order' rx')
  case (Cons i order)
  let ?frags = "gs_frags (rx_gs rx)"
  let ?next = "case order of [] \<Rightarrow> None | j # _ \<Rightarrow> Some (fr_address (?frags ! j))"
  have i: "i < length ?frags" "plain_frag (?frags ! i)" "i \<notin> set order" "order_ok ?frags order"
    using Cons.prems(2) by (auto simp: order_ok_def)
  obtain m where m: "laid_out ?frags a [i] m" "laid_out ?frags m order b"
    using Cons.prems(3) laid_out_append [of ?frags a "[i]" order b] by auto
  have nxt: "?next = None \<or> ?next = Some m" using m(2) by (cases order) auto
  obtain new rx1 order1 where step: "relax_step dbg seg pass ?next i rx = Inr (new, rx1)"
    and rest: "relax_pass dbg seg pass order rx1 = Inr (order1, rx')" and order': "order' = i # new @ order1"
    using Cons.prems(1) by (auto simp: and_then_Inr_iff Let_def)
  note s = relax_step_laid_out [OF step refl i(1,2) m(1) nxt]
  have same: "gs_frags (rx_gs rx1) ! j = ?frags ! j" if "j \<in> set order" for j
    using s i that by (metis order_ok_def)
  have ok1: "order_ok (gs_frags (rx_gs rx1)) order" "laid_out (gs_frags (rx_gs rx1)) m order b"
    using order_ok_cong [OF same _ i(4)] s laid_out_cong [OF same] m(2) by simp_all
  have "N \<le> length (gs_frags (rx_gs rx1))" using s Cons.prems(4) by linarith
  note IH = Cons.IH [OF rest ok1 this]
  have "filter (\<lambda>i. i < N) new = []" using s Cons.prems(4) by (auto simp: filter_empty_conv)
  then show ?case using IH by (simp add: order')
qed simp

lemma relax_loop_keeps_order:
  assumes "relax_loop n dbg seg pass order rx = Inr (order', rx')" and "order_ok (gs_frags (rx_gs rx)) order"
    and "laid_out (gs_frags (rx_gs rx)) a order b" and "N \<le> length (gs_frags (rx_gs rx))"
  shows "filter (\<lambda>i. i < N) order' = filter (\<lambda>i. i < N) order"
  using assms
proof (induction n arbitrary: order rx b)
  case (Suc n)
  let ?rx = "rx\<lparr>rx_stretch := 0, rx_stretched := False\<rparr>"
  obtain order1 rx1 where p: "relax_pass dbg seg pass order ?rx = Inr (order1, rx1)"
    and l: "(if rx_stretched rx1 then relax_loop n dbg seg pass order1 (end_pass rx1) else Inr (order1, end_pass rx1)) = Inr (order', rx')"
    using Suc.prems(1) by (auto simp: and_then_Inr_iff Let_def frag_simps)
  have rx: "order_ok (gs_frags (rx_gs ?rx)) order" "laid_out (gs_frags (rx_gs ?rx)) a order b"
    "N \<le> length (gs_frags (rx_gs ?rx))" using Suc.prems(2-4) by simp_all
  note ok = relax_pass_laid_out [OF p rx(1,2)]
  note k = relax_pass_keeps_order [OF p rx]
  show ?case
  proof (cases "rx_stretched rx1")
    case True
    then show ?thesis using Suc.IH [of order1 "end_pass rx1" "b + rx_stretch rx1"] l ok k rx(3) by (simp add: frag_simps)
  next
    case False
    then show ?thesis using l k by simp
  qed
qed simp

lemma relax_segment_keeps_order:
  assumes "relax_segment dbg names seg pass last_address order gs = Inr (again, last_address', order', gs')"
    and "order_ok (gs_frags gs) order"
  shows "filter (\<lambda>i. i < length (gs_frags gs)) order' = order"
proof -
  obtain gs1 rx where g: "first_guess dbg seg 0 order (gs\<lparr>gs_seg := seg\<rparr>) = Inr gs1"
    and l: "relax_loop (max_iterations (length order)) dbg seg pass order
         \<lparr>rx_gs = gs1, rx_stretch = 0, rx_stretched = order \<noteq> [], rx_fudge = 0, rx_again = False, rx_last = last_address\<rparr> = Inr (order', rx)"
    using assms(1) by (auto simp: relax_segment_def and_then_Inr_iff Let_def split: if_splits)
  have "order_ok (gs_frags (gs\<lparr>gs_seg := seg\<rparr>)) order" using assms(2) by (simp add: frag_simps)
  from first_guess_laid_out [OF g this] obtain b where "laid_out (gs_frags gs1) 0 order b" "order_ok (gs_frags gs1) order"
    "length (gs_frags gs1) = length (gs_frags gs)" by (auto simp: frag_simps)
  then have "filter (\<lambda>i. i < length (gs_frags gs)) order' = filter (\<lambda>i. i < length (gs_frags gs)) order"
    using relax_loop_keeps_order [OF l, of 0 b] by simp
  then show ?thesis using assms(2) by (simp add: order_ok_def filter_id_conv)
qed

end
