(* ===== verification/BranchLayout.thy ===== *)
theory BranchLayout
  imports Layout
begin

text \<open>
  Code sections: when relaxation stops, its last pass has changed no length, so that every branch
  has the length the final distance to its target asks for.
\<close>

subsection \<open>Code\<close>

definition code_frag :: "frag \<Rightarrow> bool" where
  "code_frag f \<longleftrightarrow> fr_type f = Rs_fill \<or> is_align (fr_type f) \<and> fr_var f = 1 \<or>
     fr_type f = Rs_machine_dependent \<and> RELAX_BRANCH_P (fr_subtype f)"

lemma code_frag_plain: "code_frag f \<Longrightarrow> plain_frag f"
  by (auto simp: code_frag_def plain_frag_def)

definition branch_settled :: "frag list \<Rightarrow> symbolS list \<Rightarrow> segT \<Rightarrow> frag \<Rightarrow> bool" where
  "branch_settled frags symbols seg f \<longleftrightarrow>
     (fr_type f = Rs_machine_dependent \<longrightarrow> relaxed_branch_length frags symbols seg True f = (fr_var f, f))"

text \<open>What the length of a branch depends on: all of a fragment but the length in its state.\<close>

definition branch_view :: "frag \<Rightarrow> frag \<times> bool \<times> bool" where
  "branch_view f = (f\<lparr>fr_subtype := 0\<rparr>, RELAX_BRANCH_UNCOND (fr_subtype f), RELAX_BRANCH_RVC (fr_subtype f))"

definition steady :: "frag list \<Rightarrow> frag list \<Rightarrow> bool" where
  "steady frags frags' \<longleftrightarrow> map branch_view frags' = map branch_view frags"

lemma steady_refl [simp]: "steady frags frags"
  by (simp add: steady_def)

lemma steady_trans: "steady f1 f2 \<Longrightarrow> steady f2 f3 \<Longrightarrow> steady f1 f3"
  by (simp add: steady_def)

lemma steady_length: "steady frags frags' \<Longrightarrow> length frags' = length frags"
  unfolding steady_def using map_eq_imp_length_eq by blast

lemma branch_view_fields:
  assumes "branch_view f' = branch_view f"
  shows "fr_address f' = fr_address f" "fr_fix f' = fr_fix f" "fr_var f' = fr_var f" "fr_offset f' = fr_offset f"
    "fr_symbol f' = fr_symbol f" "fr_type f' = fr_type f"
    "RELAX_BRANCH_UNCOND (fr_subtype f') = RELAX_BRANCH_UNCOND (fr_subtype f)"
    "RELAX_BRANCH_RVC (fr_subtype f') = RELAX_BRANCH_RVC (fr_subtype f)"
  using assms by (cases f; cases f'; simp add: branch_view_def)+

lemma steady_nth: "steady frags frags' \<Longrightarrow> i < length frags \<Longrightarrow> branch_view (frags' ! i) = branch_view (frags ! i)"
  using steady_length [of frags frags'] unfolding steady_def by (metis nth_map)

lemma nth_same_length: "length xs = length ys \<Longrightarrow> \<not> i < length xs \<Longrightarrow> xs ! i = ys ! i"
  by (induction xs ys arbitrary: i rule: list_induct2) (auto simp: nth_Cons split: nat.split)

lemma steady_address: "steady frags frags' \<Longrightarrow> fr_address (frags' ! i) = fr_address (frags ! i)"
  using branch_view_fields(1) [OF steady_nth [of frags frags' i]] steady_length [of frags frags']
    nth_same_length [of frags' frags i] by (cases "i < length frags") auto

lemma length_depends_on_view:
  assumes "steady frags frags'" and "branch_view f' = branch_view f"
  shows "fst (relaxed_branch_length frags' symbols seg u f') = fst (relaxed_branch_length frags symbols seg u' f)"
proof -
  note v = branch_view_fields [OF assms(2)]
  have target: "branch_target frags' symbols seg f' = branch_target frags symbols seg f"
    by (simp add: branch_target_def v cong: option.case_cong)
  have "label_value frags' lab = label_value frags lab" for lab
    by (simp add: label_value_def steady_address [OF assms(1)] split: option.split)
  then show ?thesis
    by (simp add: relaxed_branch_length_def Let_def target v branch_distance_def split: option.split)
qed

lemma settled_steady:
  assumes "branch_settled frags symbols seg f" and "steady frags frags'"
  shows "branch_settled frags' symbols seg f"
proof -
  have "relaxed_branch_length frags' symbols seg True f = (fr_var f, f)" if m: "fr_type f = Rs_machine_dependent"
  proof -
    have f: "relaxed_branch_length frags symbols seg True f = (fr_var f, f)" using assms(1) m by (simp add: branch_settled_def)
    obtain len g where g: "relaxed_branch_length frags' symbols seg True f = (len, g)" by fastforce
    have "len = fr_var f" using length_depends_on_view [OF assms(2) refl, where f = f and symbols = symbols and seg = seg and u = True and u' = True] f g by simp
    then show ?thesis using relaxed_branch_length_fst(2) [OF f] relaxed_branch_length_fst(2) [OF g] g by simp
  qed
  then show ?thesis by (simp add: branch_settled_def)
qed

subsection \<open>A step\<close>

lemma encode_settled:
  assumes "relaxed_branch_length frags symbols seg True f = (len, f\<lparr>fr_subtype := st\<rparr>)"
  shows "RELAX_BRANCH_P st" "RELAX_BRANCH_UNCOND st = RELAX_BRANCH_UNCOND (fr_subtype f)"
    "RELAX_BRANCH_RVC st = RELAX_BRANCH_RVC (fr_subtype f)" "RELAX_BRANCH_LENGTH st = len"
    "st = RELAX_BRANCH_ENCODE (RELAX_BRANCH_UNCOND (fr_subtype f)) (RELAX_BRANCH_RVC (fr_subtype f)) len"
proof -
  have len: "len < 16" using relaxed_branch_length_fst(1) [OF assms] by auto
  have "f\<lparr>fr_subtype := st\<rparr> = f\<lparr>fr_subtype := RELAX_BRANCH_ENCODE (RELAX_BRANCH_UNCOND (fr_subtype f)) (RELAX_BRANCH_RVC (fr_subtype f)) len\<rparr>"
    using relaxed_branch_length_fst(2) [OF assms] by simp
  then have "fr_subtype (f\<lparr>fr_subtype := st\<rparr>) = fr_subtype (f\<lparr>fr_subtype := RELAX_BRANCH_ENCODE (RELAX_BRANCH_UNCOND (fr_subtype f)) (RELAX_BRANCH_RVC (fr_subtype f)) len\<rparr>)"
    by (rule arg_cong)
  then show st: "st = RELAX_BRANCH_ENCODE (RELAX_BRANCH_UNCOND (fr_subtype f)) (RELAX_BRANCH_RVC (fr_subtype f)) len" by simp
  show "RELAX_BRANCH_P st" "RELAX_BRANCH_UNCOND st = RELAX_BRANCH_UNCOND (fr_subtype f)"
    "RELAX_BRANCH_RVC st = RELAX_BRANCH_RVC (fr_subtype f)" "RELAX_BRANCH_LENGTH st = len"
    by (simp_all add: st RELAX_BRANCH_roundtrip [OF len])
qed

lemma padding_frag_symbol: "padding_frag st g newoff f = Inr n \<Longrightarrow> fr_type n = Rs_fill \<and> fr_symbol n = fr_symbol f"
  by (auto simp: padding_frag_def Let_def split: if_splits)

lemma code_growth:
  assumes "relax_growth dbg seg pass next_address was i rx = Inr (g, new, rx')" and "f = gs_frags (rx_gs rx) ! i" and "code_frag f"
    and "i < length (gs_frags (rx_gs rx))"
  shows "rx_stretched rx' = rx_stretched rx \<and> gs_symbols (rx_gs rx') = gs_symbols (rx_gs rx) \<and>
    (\<exists>st v. code_frag (f\<lparr>fr_subtype := st, fr_var := v\<rparr>) \<and>
      (new = [] \<and> gs_frags (rx_gs rx') = (gs_frags (rx_gs rx))[i := f\<lparr>fr_subtype := st, fr_var := v\<rparr>] \<or>
       (\<exists>n. new = [length (gs_frags (rx_gs rx))] \<and> fr_type n = Rs_fill \<and> fr_symbol n = fr_symbol f \<and>
         gs_frags (rx_gs rx') = (gs_frags (rx_gs rx))[i := f\<lparr>fr_subtype := st, fr_var := v\<rparr>] @ [n])))"
proof -
  let ?frags = "gs_frags (rx_gs rx)"
  have self: "?frags[i := f\<lparr>fr_subtype := fr_subtype f, fr_var := fr_var f\<rparr>] = ?frags" using assms(2) by simp
  consider (fill) "fr_type f = Rs_fill" | (align) "is_align (fr_type f)" | (machine) "fr_type f = Rs_machine_dependent"
    using assms(3) by (auto simp: code_frag_def)
  then show ?thesis
  proof cases
    case fill
    then have "new = [] \<and> rx' = rx" using assms(1) by (simp add: relax_growth_def assms(2) [symmetric] no_growth_def)
    then show ?thesis using assms(3) self by (intro conjI exI [of _ "fr_subtype f"] exI [of _ "fr_var f"] disjI1) auto
  next
    case align
    then have a: "relax_alignment was i rx = Inr (g, new, rx')"
      using assms(1) by (auto simp: relax_growth_def assms(2) [symmetric])
    have "new = [] \<and> rx' = rx \<or> (\<exists>n. new = [length ?frags] \<and> fr_type n = Rs_fill \<and> fr_symbol n = fr_symbol f \<and>
        rx' = add_frag n i rx)"
      using a by (auto simp: relax_alignment_def Let_def and_then_Inr_iff assms(2) [symmetric] dest: padding_frag_symbol split: if_splits)
    then show ?thesis
    proof (elim disjE exE conjE)
      assume "new = []" "rx' = rx"
      then show ?thesis using assms(3) self by (intro conjI exI [of _ "fr_subtype f"] exI [of _ "fr_var f"] disjI1) auto
    next
      fix n
      assume n: "new = [length ?frags]" "fr_type n = Rs_fill" "fr_symbol n = fr_symbol f"
        "rx' = add_frag n i rx"
      then have "gs_frags (rx_gs rx') = ?frags @ [n]" by (simp add: frag_simps)
      then show ?thesis using n assms(3) self
        by (intro conjI exI [of _ "fr_subtype f"] exI [of _ "fr_var f"] disjI2 exI [of _ n]) (auto simp: frag_simps)
    qed
  next
    case machine
    obtain gs where gs: "riscv_relax_frag seg i (rx_gs rx) = (g, gs)" "new = []" "rx' = rx\<lparr>rx_gs := gs\<rparr>"
      using assms(1) machine
      by (cases "riscv_relax_frag seg i (rx_gs rx)") (auto simp: relax_growth_def assms(2) [symmetric] grown_def)
    from gs(1) show ?thesis
    proof (cases rule: relax_frag_cases)
      case (branch st len)
      then have "code_frag (f\<lparr>fr_subtype := st, fr_var := len\<rparr>)"
        using machine encode_settled(1) assms(2) by (auto simp: code_frag_def)
      then show ?thesis using branch gs(2,3) assms(2)
        by (intro conjI exI [of _ st] exI [of _ len] disjI1) (auto simp: frag_simps)
    next
      case other
      then show ?thesis using assms(2,3) machine by (auto simp: code_frag_def)
    qed
  qed
qed

lemma code_step:
  assumes "relax_step dbg seg pass next_address i rx = Inr (new, rx')" and "code_frag (gs_frags (rx_gs rx) ! i)"
    and "i < length (gs_frags (rx_gs rx))"
  shows "(rx_stretched rx \<longrightarrow> rx_stretched rx') \<and> gs_symbols (rx_gs rx') = gs_symbols (rx_gs rx) \<and>
    (\<forall>j \<in> set (i # new). code_frag (gs_frags (rx_gs rx') ! j) \<and>
      fr_symbol (gs_frags (rx_gs rx') ! j) = fr_symbol (gs_frags (rx_gs rx) ! i))"
proof -
  let ?m = "move_frag i rx"
  have f: "gs_frags (rx_gs ?m) ! i = (gs_frags (rx_gs rx) ! i)\<lparr>fr_address := fr_address (gs_frags (rx_gs rx) ! i) + rx_stretch rx\<rparr>"
    "length (gs_frags (rx_gs ?m)) = length (gs_frags (rx_gs rx))" "gs_symbols (rx_gs ?m) = gs_symbols (rx_gs rx)"
    using assms(3) by (simp_all add: frag_simps) (simp add: move_frag_def on_rx_def frag_simps)
  have c: "code_frag (gs_frags (rx_gs ?m) ! i)" using assms(2) unfolding f(1) by (simp add: code_frag_def)
  obtain g rx1 where step: "relax_growth dbg seg pass next_address (fr_address (gs_frags (rx_gs rx) ! i)) i ?m = Inr (g, new, rx1)"
      "rx' = fold move_frag new (stretch_by g (fr_type (gs_frags (rx_gs rx1) ! i)) rx1)"
    using assms(1) by (auto simp: relax_step_def and_then_Inr_iff)
  note cg = code_growth [OF step(1) refl c, unfolded f(2), OF assms(3)]
  have mv: "gs_symbols (rx_gs (move_frag j r)) = gs_symbols (rx_gs r)" for j r by (simp add: move_frag_def on_rx_def frag_simps)
  from cg obtain st v where sv: "code_frag ((gs_frags (rx_gs ?m) ! i)\<lparr>fr_subtype := st, fr_var := v\<rparr>)"
    and cases: "new = [] \<and> gs_frags (rx_gs rx1) = (gs_frags (rx_gs ?m))[i := (gs_frags (rx_gs ?m) ! i)\<lparr>fr_subtype := st, fr_var := v\<rparr>] \<or>
       (\<exists>n. new = [length (gs_frags (rx_gs rx))] \<and> fr_type n = Rs_fill \<and> fr_symbol n = fr_symbol (gs_frags (rx_gs ?m) ! i) \<and>
         gs_frags (rx_gs rx1) = (gs_frags (rx_gs ?m))[i := (gs_frags (rx_gs ?m) ! i)\<lparr>fr_subtype := st, fr_var := v\<rparr>] @ [n])" by blast
  have sym: "gs_symbols (rx_gs rx') = gs_symbols (rx_gs rx)" "rx_stretched rx \<longrightarrow> rx_stretched rx'"
    using cases step(2) cg f(3) by (auto simp: mv frag_simps)
  have "\<forall>j \<in> set (i # new). code_frag (gs_frags (rx_gs rx') ! j) \<and>
      fr_symbol (gs_frags (rx_gs rx') ! j) = fr_symbol (gs_frags (rx_gs rx) ! i)"
    using cases
  proof (elim disjE exE conjE)
    assume "new = []" "gs_frags (rx_gs rx1) = (gs_frags (rx_gs ?m))[i := (gs_frags (rx_gs ?m) ! i)\<lparr>fr_subtype := st, fr_var := v\<rparr>]"
    then show ?thesis using step(2) sv assms(3) by (simp add: frag_simps)
  next
    fix n
    assume n: "new = [length (gs_frags (rx_gs rx))]" "fr_type n = Rs_fill" "fr_symbol n = fr_symbol (gs_frags (rx_gs ?m) ! i)"
      "gs_frags (rx_gs rx1) = (gs_frags (rx_gs ?m))[i := (gs_frags (rx_gs ?m) ! i)\<lparr>fr_subtype := st, fr_var := v\<rparr>] @ [n]"
    then show ?thesis using step(2) sv assms(3) f(2)
      by (auto simp: frag_simps nth_append list_update_append code_frag_def)
  qed
  then show ?thesis using sym by blast
qed

lemma settled_step:
  assumes "relax_step dbg seg pass next_address i rx = Inr (new, rx')" and "code_frag (gs_frags (rx_gs rx) ! i)"
    and "i < length (gs_frags (rx_gs rx))" and "rx_stretch rx = 0" and "\<not> rx_stretched rx'"
  shows "new = [] \<and> rx_stretch rx' = 0 \<and> steady (gs_frags (rx_gs rx)) (gs_frags (rx_gs rx')) \<and>
    branch_settled (gs_frags (rx_gs rx')) (gs_symbols (rx_gs rx')) seg (gs_frags (rx_gs rx') ! i)"
proof -
  let ?frags = "gs_frags (rx_gs rx)"
  let ?f = "?frags ! i"
  let ?m = "move_frag i rx"
  have m: "gs_frags (rx_gs ?m) = ?frags" "rx_stretch ?m = 0" using assms(4) by (simp_all add: frag_simps)
  obtain g rx1 where step: "relax_growth dbg seg pass next_address (fr_address ?f) i ?m = Inr (g, new, rx1)"
      "rx' = fold move_frag new (stretch_by g (fr_type (gs_frags (rx_gs rx1) ! i)) rx1)"
    using assms(1) by (auto simp: relax_step_def and_then_Inr_iff)
  have quiet: ?thesis if "new = []" "g = 0" "rx1 = ?m" "fr_type ?f \<noteq> Rs_machine_dependent"
    using step(2) that m by (simp add: stretch_by_def branch_settled_def)
  consider (fill) "fr_type ?f = Rs_fill" | (align) "is_align (fr_type ?f)"
    | (machine) "fr_type ?f = Rs_machine_dependent" "RELAX_BRANCH_P (fr_subtype ?f)"
    using assms(2) by (auto simp: code_frag_def)
  then show ?thesis
  proof cases
    case fill
    then show ?thesis using step(1) quiet m by (simp add: relax_growth_def no_growth_def)
  next
    case align
    then have "relax_alignment (fr_address ?f) i ?m = Inr (g, new, rx1)" using step(1) m by (auto simp: relax_growth_def)
    then have "new = [] \<and> g = 0 \<and> rx1 = ?m" by (auto simp: relax_alignment_def Let_def and_then_Inr_iff m(1))
    then show ?thesis using quiet align by auto
  next
    case machine
    obtain gs where gs: "riscv_relax_frag seg i (rx_gs ?m) = (g, gs)" "new = []" "rx1 = ?m\<lparr>rx_gs := gs\<rparr>"
      using step(1) machine m
      by (cases "riscv_relax_frag seg i (rx_gs ?m)") (auto simp: relax_growth_def grown_def)
    have rx': "rx' = stretch_by g (fr_type (gs_frags (rx_gs rx1) ! i)) rx1" using step(2) gs(2) by simp
    then have g: "g = 0" using assms(5) by (simp add: frag_simps)
    from gs(1) show ?thesis
    proof (cases rule: relax_frag_cases)
      case (branch st len)
      have len: "len = fr_var ?f" using branch(3) g m by simp
      have rel: "relaxed_branch_length ?frags (gs_symbols (rx_gs ?m)) seg True ?f = (fr_var ?f, ?f\<lparr>fr_subtype := st\<rparr>)"
        using branch(2) len m by simp
      note e = encode_settled [OF rel]
      let ?h = "?f\<lparr>fr_subtype := st\<rparr>"
      have h: "gs_frags (rx_gs rx') = ?frags[i := ?h]" "gs_symbols (rx_gs rx') = gs_symbols (rx_gs ?m)"
        using rx' gs(3) branch(4) len m by (simp_all add: frag_simps)
      have view: "branch_view ?h = branch_view ?f" by (simp add: branch_view_def e(2,3))
      then have st: "steady ?frags (?frags[i := ?h])"
        unfolding steady_def using assms(3) by (metis list_update_id map_update)
      obtain len' h' where r: "relaxed_branch_length (?frags[i := ?h]) (gs_symbols (rx_gs ?m)) seg True ?h = (len', h')" by fastforce
      have "len' = fr_var ?f" using length_depends_on_view [OF st view, where symbols = "gs_symbols (rx_gs ?m)" and seg = seg and u = True and u' = True] r rel by simp
      moreover have "h' = ?h" using relaxed_branch_length_fst(2) [OF r] e \<open>len' = fr_var ?f\<close> by simp
      ultimately have "branch_settled (?frags[i := ?h]) (gs_symbols (rx_gs ?m)) seg ?h" using r by (simp add: branch_settled_def)
      then show ?thesis using gs(2) rx' g gs(3) m(2) h st assms(3) by (simp add: frag_simps)
    next
      case other
      then show ?thesis using machine m by simp
    qed
  qed
qed

subsection \<open>Passes\<close>

definition code_chain :: "frag list \<Rightarrow> nat list \<Rightarrow> bool" where
  "code_chain frags order \<longleftrightarrow> distinct order \<and> (\<forall>i \<in> set order. i < length frags \<and> code_frag (frags ! i))"

lemma code_chain_ok: "code_chain frags order \<Longrightarrow> order_ok frags order"
  by (auto simp: code_chain_def order_ok_def code_frag_plain)

lemma relax_pass_code:
  assumes "relax_pass dbg seg pass order rx = Inr (order', rx')" and "code_chain (gs_frags (rx_gs rx)) order"
    and "laid_out (gs_frags (rx_gs rx)) a order b"
  shows "(\<forall>i \<in> set order'. code_frag (gs_frags (rx_gs rx') ! i)) \<and> (rx_stretched rx \<longrightarrow> rx_stretched rx') \<and>
    gs_symbols (rx_gs rx') = gs_symbols (rx_gs rx) \<and>
    (rx_stretch rx = 0 \<and> \<not> rx_stretched rx' \<longrightarrow> order' = order \<and> rx_stretch rx' = 0 \<and>
      steady (gs_frags (rx_gs rx)) (gs_frags (rx_gs rx')) \<and>
      (\<forall>i \<in> set order. branch_settled (gs_frags (rx_gs rx')) (gs_symbols (rx_gs rx')) seg (gs_frags (rx_gs rx') ! i)))"
  using assms
proof (induction order arbitrary: a rx order' rx')
  case (Cons i order)
  let ?frags = "gs_frags (rx_gs rx)"
  let ?next = "case order of [] \<Rightarrow> None | j # _ \<Rightarrow> Some (fr_address (?frags ! j))"
  have i: "i < length ?frags" "code_frag (?frags ! i)" "i \<notin> set order" "code_chain ?frags order"
    using Cons.prems(2) by (auto simp: code_chain_def)
  obtain m where m: "laid_out ?frags a [i] m" "laid_out ?frags m order b"
    using Cons.prems(3) laid_out_append [of ?frags a "[i]" order b] by auto
  have nxt: "?next = None \<or> ?next = Some m" using m(2) by (cases order) auto
  obtain new rx1 order1 where step: "relax_step dbg seg pass ?next i rx = Inr (new, rx1)"
    and rest: "relax_pass dbg seg pass order rx1 = Inr (order1, rx')" and order': "order' = i # new @ order1"
    using Cons.prems(1) by (auto simp: and_then_Inr_iff Let_def)
  let ?frags1 = "gs_frags (rx_gs rx1)"
  note s = relax_step_laid_out [OF step refl i(1) code_frag_plain [OF i(2)] m(1) nxt]
  note c = code_step [OF step i(2,1)]
  have same: "?frags1 ! j = ?frags ! j" if "j \<in> set order" for j
    using s i that by (metis code_chain_def)
  have ok1: "code_chain ?frags1 order" "laid_out ?frags1 m order b"
    using i(4) same s laid_out_cong [OF same] m(2) by (auto simp: code_chain_def)
  note IH = Cons.IH [OF rest ok1]
  note keeps = relax_pass_laid_out [OF rest code_chain_ok [OF ok1(1)] ok1(2)]
  have keep: "gs_frags (rx_gs rx') ! j = ?frags1 ! j" if "j \<in> set (i # new)" for j
  proof -
    have "j < length ?frags1" using s that by (auto simp: order_ok_def)
    moreover have "j \<notin> set order"
    proof
      assume "j \<in> set order"
      then have "j < length ?frags" "j \<noteq> i" using i by (auto simp: code_chain_def)
      then show False using that s by auto
    qed
    ultimately show ?thesis using keeps by blast
  qed
  have "\<forall>j \<in> set order'. code_frag (gs_frags (rx_gs rx') ! j)"
    using IH c keep unfolding order' by (metis Un_iff append_Cons set_append)
  moreover have "order' = i # order \<and> rx_stretch rx' = 0 \<and> steady ?frags (gs_frags (rx_gs rx')) \<and>
      (\<forall>j \<in> set (i # order). branch_settled (gs_frags (rx_gs rx')) (gs_symbols (rx_gs rx')) seg (gs_frags (rx_gs rx') ! j))"
    if "rx_stretch rx = 0" "\<not> rx_stretched rx'"
  proof -
    have "\<not> rx_stretched rx1" using IH that(2) by blast
    from settled_step [OF step i(2,1) that(1) this]
    have st: "new = []" "rx_stretch rx1 = 0" "steady ?frags ?frags1"
      "branch_settled ?frags1 (gs_symbols (rx_gs rx1)) seg (?frags1 ! i)" by simp_all
    have r: "order1 = order" "rx_stretch rx' = 0" "steady ?frags1 (gs_frags (rx_gs rx'))"
      "\<forall>j \<in> set order. branch_settled (gs_frags (rx_gs rx')) (gs_symbols (rx_gs rx')) seg (gs_frags (rx_gs rx') ! j)"
      using IH st(2) that(2) by blast+
    have "branch_settled (gs_frags (rx_gs rx')) (gs_symbols (rx_gs rx')) seg (gs_frags (rx_gs rx') ! i)"
      using settled_steady [OF st(4) r(3)] keep IH by simp
    then show ?thesis using order' st(1) r steady_trans [OF st(3) r(3)] by simp
  qed
  ultimately show ?case using IH c by simp
qed simp

lemma relax_loop_settled:
  assumes "relax_loop n dbg seg pass order rx = Inr (order', rx')" and "code_chain (gs_frags (rx_gs rx)) order"
    and "laid_out (gs_frags (rx_gs rx)) a order b" and "\<not> rx_stretched rx'" and "rx_stretched rx \<or> order = []"
  shows "\<forall>i \<in> set order'. code_frag (gs_frags (rx_gs rx') ! i) \<and>
    branch_settled (gs_frags (rx_gs rx')) (gs_symbols (rx_gs rx')) seg (gs_frags (rx_gs rx') ! i)"
  using assms
proof (induction n arbitrary: order rx b)
  case 0
  then show ?case by auto
next
  case (Suc n)
  let ?rx = "rx\<lparr>rx_stretch := 0, rx_stretched := False\<rparr>"
  obtain order1 rx1 where p: "relax_pass dbg seg pass order ?rx = Inr (order1, rx1)"
    and l: "(if rx_stretched rx1 then relax_loop n dbg seg pass order1 (end_pass rx1) else Inr (order1, end_pass rx1)) = Inr (order', rx')"
    using Suc.prems(1) by (auto simp: and_then_Inr_iff Let_def frag_simps)
  have rx: "code_chain (gs_frags (rx_gs ?rx)) order" "laid_out (gs_frags (rx_gs ?rx)) a order b" using Suc.prems(2,3) by simp_all
  note c = relax_pass_code [OF p rx]
  note ok = relax_pass_laid_out [OF p code_chain_ok [OF rx(1)] rx(2)]
  show ?case
  proof (cases "rx_stretched rx1")
    case True
    have "code_chain (gs_frags (rx_gs rx1)) order1" using c ok by (auto simp: code_chain_def order_ok_def)
    then show ?thesis using Suc.IH [of order1 "end_pass rx1" "b + rx_stretch rx1"] l ok True Suc.prems(4) by (simp add: frag_simps)
  next
    case False
    then have "order' = order1" "rx_gs rx' = rx_gs rx1" using l by (auto simp: frag_simps)
    moreover have "rx_stretch ?rx = 0" by simp
    then have "order1 = order" "\<forall>i \<in> set order. branch_settled (gs_frags (rx_gs rx1)) (gs_symbols (rx_gs rx1)) seg (gs_frags (rx_gs rx1) ! i)"
      "\<forall>i \<in> set order1. code_frag (gs_frags (rx_gs rx1) ! i)" using c False by blast+
    ultimately show ?thesis by simp
  qed
qed

subsection \<open>The section\<close>

lemma guess_size_code:
  assumes "guess_size dbg seg address i gs = Inr (sz, gs')" and "code_frag (gs_frags gs ! i)" and "i < length (gs_frags gs)"
  shows "\<exists>v. gs_frags gs' = (gs_frags gs)[i := (gs_frags gs ! i)\<lparr>fr_var := v\<rparr>] \<and> code_frag ((gs_frags gs ! i)\<lparr>fr_var := v\<rparr>)"
proof -
  let ?f = "gs_frags gs ! i"
  have self: "gs_frags gs = (gs_frags gs)[i := ?f\<lparr>fr_var := fr_var ?f\<rparr>]" "?f\<lparr>fr_var := fr_var ?f\<rparr> = ?f" by simp_all
  consider (fill) "fr_type ?f = Rs_fill" | (align) "is_align (fr_type ?f)" | (machine) "fr_type ?f = Rs_machine_dependent"
    using assms(2) by (auto simp: code_frag_def)
  then show ?thesis
  proof cases
    case fill
    then have "gs_frags gs' = gs_frags gs" using assms(1) by (auto simp: guess_size_def Let_def)
    then show ?thesis using self assms(2) by (metis (no_types))
  next
    case align
    then have "align_guess address ?f gs = Inr (sz, gs')" using assms(1) by (auto simp: guess_size_def Let_def)
    then have "gs_frags gs' = gs_frags gs" by (auto simp: align_guess_def and_then_Inr_iff frag_simps split: if_splits)
    then show ?thesis using self assms(2) by (metis (no_types))
  next
    case machine
    then obtain gs1 where gs1: "resolve_frag_symbol ?f gs = Inr gs1" "md_estimate_size_before_relax i seg gs1 = (sz, gs')"
      using assms(1) by (auto simp: guess_size_def Let_def and_then_Inr_iff)
    show ?thesis
      using estimate_frags [OF gs1(2)] resolve_frag_symbol_frags [OF gs1(1)] machine assms(2)
      by (intro exI [of _ sz]) (auto simp: code_frag_def)
  qed
qed

lemma first_guess_code:
  assumes "first_guess dbg seg a order gs = Inr gs'" and "code_chain (gs_frags gs) order"
  shows "code_chain (gs_frags gs') order"
  using assms
proof (induction order arbitrary: a gs)
  case (Cons i order)
  let ?g = "update_gs_frag i (\<lambda>f. f\<lparr>fr_address := a\<rparr>) gs"
  have i: "i < length (gs_frags gs)" "code_frag (gs_frags gs ! i)" "i \<notin> set order" "code_chain (gs_frags gs) order"
    using Cons.prems(2) by (auto simp: code_chain_def)
  have gi: "gs_frags ?g ! i = (gs_frags gs ! i)\<lparr>fr_address := a\<rparr>" "length (gs_frags ?g) = length (gs_frags gs)"
    using i(1) by (simp_all add: frag_simps)
  obtain sz gs1 where gs1: "guess_size dbg seg (a + fr_fix (gs_frags gs ! i)) i ?g = Inr (sz, gs1)"
      "first_guess dbg seg (a + fr_fix (gs_frags gs ! i) + sz) order gs1 = Inr gs'"
    using Cons.prems(1) gi by (auto simp: and_then_Inr_iff Let_def)
  have "code_frag (gs_frags ?g ! i)" using i(2) by (simp add: gi code_frag_def)
  from guess_size_code [OF gs1(1) this] obtain f where f: "gs_frags gs1 = (gs_frags ?g)[i := f]" "code_frag f"
    using i(1) gi(2) by auto
  have one: "gs_frags gs1 ! j = gs_frags gs ! j" if "j \<noteq> i" for j using that by (simp add: f(1) frag_simps)
  have len: "length (gs_frags gs1) = length (gs_frags gs)" by (simp add: f(1) gi(2))
  have chain: "code_chain (gs_frags gs1) order" using i(3,4) one len by (auto simp: code_chain_def) (metis one)
  have "order_ok (gs_frags gs1) order" by (rule code_chain_ok [OF chain])
  from first_guess_laid_out [OF gs1(2) this]
  have "length (gs_frags gs') = length (gs_frags gs1)" "gs_frags gs' ! i = gs_frags gs1 ! i" using i(3) by auto
  moreover have "gs_frags gs1 ! i = f" using i(1) gi(2) by (simp add: f(1))
  ultimately show ?case using Cons.IH [OF gs1(2) chain] i(1,3) f(2) len by (auto simp: code_chain_def)
qed simp

lemma relax_segment_settled:
  assumes "relax_segment dbg names seg pass last_address order gs = Inr (again, last_address', order', gs')"
    and "code_chain (gs_frags gs) order"
  shows "\<forall>i \<in> set order'. code_frag (gs_frags gs' ! i) \<and> branch_settled (gs_frags gs') (gs_symbols gs') seg (gs_frags gs' ! i)"
proof -
  let ?rx = "\<lambda>gs1. \<lparr>rx_gs = gs1, rx_stretch = 0, rx_stretched = order \<noteq> [], rx_fudge = 0, rx_again = False, rx_last = last_address\<rparr>"
  obtain gs1 rx where g: "first_guess dbg seg 0 order (gs\<lparr>gs_seg := seg\<rparr>) = Inr gs1"
    and l: "relax_loop (max_iterations (length order)) dbg seg pass order (?rx gs1) = Inr (order', rx)"
    and gs': "gs' = rx_gs rx" "\<not> rx_stretched rx"
    using assms(1) by (auto simp: relax_segment_def and_then_Inr_iff Let_def split: if_splits)
  have c: "code_chain (gs_frags (gs\<lparr>gs_seg := seg\<rparr>)) order" using assms(2) by (simp add: frag_simps)
  obtain b where b: "laid_out (gs_frags gs1) 0 order b" using first_guess_laid_out [OF g code_chain_ok [OF c]] by blast
  from relax_loop_settled [OF l, of 0 b] first_guess_code [OF g c] b gs' show ?thesis by simp
qed

end
