(* ===== verification/SectionContents.thy ===== *)
theory SectionContents
  imports BranchLayout
begin

text \<open>
  What is written of a section that has been laid out: the bytes of each fragment stand at its
  address.
\<close>

subsection \<open>Fills\<close>

lemma take_copies:
  assumes "m \<le> n"
  shows "take (m * length pat) (concat (replicate n pat)) = concat (replicate m pat)"
proof -
  have "concat (replicate n pat) = concat (replicate m pat) @ concat (replicate (n - m) pat)"
    using assms by (metis concat_append le_add_diff_inverse replicate_add)
  moreover have "length (concat (replicate m pat)) = m * length pat" by (induction m) simp_all
  ultimately show ?thesis by simp
qed

lemma fill_writes_copies:
  assumes "0 < n" and "n \<le> k" and "length pat = fill_size"
  shows "fill_writes n count fill_size (concat (replicate k pat)) = concat (replicate count pat)"
  using assms
proof (induction count arbitrary: n rule: less_induct)
  case (less count)
  show ?case
  proof (cases "count = 0")
    case True
    then show ?thesis by (subst fill_writes.simps) simp
  next
    case False
    define m where "m = (if n > count then count else n)"
    have m: "0 < m" "m \<le> count" "m \<le> k" using False less.prems by (auto simp: m_def)
    have "fill_writes n count fill_size (concat (replicate k pat)) =
        take (m * fill_size) (concat (replicate k pat)) @ fill_writes m (count - m) fill_size (concat (replicate k pat))"
      using False less.prems(1) by (subst fill_writes.simps) (simp add: Let_def m_def)
    also have "\<dots> = concat (replicate m pat) @ concat (replicate (count - m) pat)"
      using less.IH [of "count - m" m] m less.prems(3) take_copies [OF m(3), of pat] by simp
    also have "\<dots> = concat (replicate count pat)" using m(2) by (metis concat_append le_add_diff_inverse replicate_add)
    finally show ?thesis .
  qed
qed

lemma write_fill_repeats:
  assumes "fill_size \<le> length fill_literal"
  shows "write_fill fill_size count fill_literal = concat (replicate count (take fill_size fill_literal))"
proof -
  have "fill_writes n count fill_size (concat (replicate n (take fill_size fill_literal))) =
      concat (replicate count (take fill_size fill_literal))" if "0 < n" for n
    using fill_writes_copies [OF that order_refl] assms by simp
  moreover have "0 < 256 div fill_size" if "fill_size \<noteq> 0" "fill_size \<le> 256" using that by (simp add: div_greater_zero_iff)
  ultimately show ?thesis by (simp add: write_fill_def Let_def)
qed

definition frag_output :: "frag \<Rightarrow> byte list" where
  "frag_output f =
     (let p = unat (fr_fix f); n = unat (fr_var f)
      in take p (ensure_length p (fr_literal f)) @
         concat (replicate (unat (fr_offset f)) (take n (drop p (ensure_length (p + n) (fr_literal f))))))"

lemma length_copies: "length (concat (replicate n pat)) = n * length pat"
  by (induction n) simp_all

lemma length_frag_output: "length (frag_output f) = unat (fr_fix f) + unat (fr_offset f) * unat (fr_var f)"
  by (simp add: frag_output_def Let_def length_copies)

lemma nat_sint:
  assumes "0 \<le> sint (x :: u32)"
  shows "nat (sint x) = unat x"
proof -
  have b: "\<not> bit (uint x) 31" using assms by (simp add: sint_uint signed_take_bit_nonnegative_iff)
  have "uint x = take_bit (Suc 31) (uint x)" by (simp add: take_bit_int_eq_self uint_lt2p [where 'a = 32, simplified])
  also have "\<dots> = take_bit 31 (uint x)" using b by (simp only: take_bit_Suc_from_most) simp
  also have "\<dots> = sint x" using b by (simp add: sint_uint signed_take_bit_eq_if_positive)
  finally show ?thesis by (simp add: unat_eq_nat_uint)
qed

lemma frag_contents_bytes:
  assumes "frag_contents f gs = Inr (bs, gs')" and "fr_type f = Rs_fill"
  shows "bs = frag_output f \<and> gs' = gs"
proof -
  have "0 \<le> sint (fr_offset f)" using assms by (auto simp: frag_contents_def Let_def and_then_Inr_iff)
  then have "nat (sint (fr_offset f)) = unat (fr_offset f)" by (rule nat_sint)
  then show ?thesis using assms
    by (auto simp: frag_contents_def Let_def and_then_Inr_iff frag_output_def write_fill_repeats)
qed

subsection \<open>Conversion\<close>

lemma relax_align_small:
  assumes "relax_align a n = Inr x"
  shows "uint x < 2 ^ 31"
proof -
  define m where "m = NOT (shl (- 1) (unat n) :: u32)"
  have n: "unat n < 32" using assms by (auto simp: relax_align_def word_le_nat_alt split: if_splits)
  have x: "x = ((a + m) AND NOT m) - a" using assms by (auto simp: relax_align_def m_def Let_def split: if_splits)
  have m: "m = mask (unat n)" by (rule bit_word_eqI) (auto simp: m_def shl_def bit_simps)
  have "((a + m) AND NOT m) + ((a + m) AND m) = a + m"
    by (subst disjunctive_add_eq_or) (auto simp: bit_simps intro: bit_word_eqI)
  then have "x = m - ((a + m) AND m)" by (simp add: x algebra_simps)
  moreover have "(a + m) AND m \<le> m" by (rule word_and_le1)
  ultimately have "x \<le> m" by (simp add: word_sub_le)
  moreover have "uint m < 2 ^ 31"
  proof -
    have "uint m = mask (unat n)" using n by (simp add: m uint_mask_eq min_def)
    moreover have "(2 :: int) ^ unat n \<le> 2 ^ 31" using n by (intro power_increasing) simp_all
    ultimately show ?thesis by (simp add: mask_eq_exp_minus_1)
  qed
  ultimately show ?thesis by (simp add: word_le_def)
qed

lemma small_nonneg:
  assumes "uint x < 2 ^ 31"
  shows "0 \<le> sint (x :: u32)"
proof -
  have "take_bit 31 (uint x) = uint x" using assms by (intro take_bit_int_eq_self) simp_all
  then have "\<not> bit (uint x) 31" by (metis bit_take_bit_iff less_irrefl)
  then show ?thesis by (simp add: sint_uint signed_take_bit_nonnegative_iff)
qed

lemma align_padding_small:
  assumes "align_padding a f = Inr r"
  shows "uint r < 2 ^ 31"
  using assms by (auto simp: align_padding_def and_then_Inr_iff dest: relax_align_small split: if_splits)

lemma md_convert_frags:
  assumes "md_convert_frag i gs = Inr gs'"
  shows "\<exists>lit. gs_frags gs' = (gs_frags gs)[i := (gs_frags gs ! i)\<lparr>fr_literal := lit, fr_fix := fr_fix (gs_frags gs ! i) + fr_var (gs_frags gs ! i)\<rparr>]"
proof -
  have "gs_frags gs2 = gs_frags gs" if "fix_new_exp (Some i) w sz \<lparr>X_op = O_symbol, X_add_symbol = s, X_op_symbol = None,
      X_add_number = n, X_unsigned = False, X_extrabit = False\<rparr> False r gs = Inr (k, gs2)" for gs2 w sz s n r k
    using that by (auto simp: fix_new_exp_def fix_operands_def fix_new_internal_def gs_frags_def split: if_splits)
  then show ?thesis using assms
    by (auto simp: md_convert_frag_def md_convert_frag_branch_def Let_def and_then_Inr_iff frag_simps)
qed

lemma fill_to_next_fills:
  assumes "fill_to_next (Some b) i gs = Inr gs'" and "f = gs_frags gs ! i" and "fr_type f \<noteq> Rs_space_nop"
    and "uint (b - fr_address f - fr_fix f) < 2 ^ 31" and "(b - fr_address f - fr_fix f) mod fr_var f = 0"
  shows "\<exists>c. gs_frags gs' = (gs_frags gs)[i := f\<lparr>fr_offset := c, fr_type := Rs_fill\<rparr>] \<and> fr_address f + fr_fix f + c * fr_var f = b"
proof -
  define x c where "x = b - fr_address f - fr_fix f" and "c = x div fr_var f"
  have "c \<le> x" unfolding c_def by (simp add: word_le_nat_alt unat_div_distrib)
  then have "\<not> sint c < 0" using small_nonneg [of c] assms(4) by (simp add: x_def word_le_def)
  then have "gs_frags gs' = (gs_frags gs)[i := f\<lparr>fr_offset := c, fr_type := Rs_fill\<rparr>]"
    using assms(1,3) unfolding assms(2)
    by (auto simp: fill_to_next_def Let_def frag_simps c_def x_def assms(2) split: if_splits)
  moreover have "c * fr_var f = x" using assms(5) unfolding c_def x_def by (metis div_mult_mod_eq add.right_neutral)
  ultimately show ?thesis by (intro exI [of _ c]) (simp add: x_def algebra_simps)
qed

lemma rest_of_four:
  assumes "uint r < 2 ^ 31"
  shows "(r - word_of_nat (unat r mod 4)) mod 4 = 0" and "uint (r - word_of_nat (unat r mod 4) :: u32) < 2 ^ 31"
proof -
  have e: "word_of_nat (unat r mod 4) = r mod 4" by (simp add: word_arith_nat_mod)
  then have u: "unat (r - r mod 4) = unat r - unat r mod 4" by (simp add: unat_sub word_le_nat_alt unat_mod_distrib)
  then have "unat ((r - r mod 4) mod 4) = 0" unfolding unat_mod_distrib u by (simp add: minus_mod_eq_mult_div)
  then show "(r - word_of_nat (unat r mod 4)) mod 4 = 0" unfolding e by (simp add: unat_eq_0)
  have "r - r mod 4 \<le> r" by (simp add: word_le_nat_alt u)
  then show "uint (r - word_of_nat (unat r mod 4) :: u32) < 2 ^ 31" using assms unfolding e by (simp add: word_le_def)
qed

lemma riscv_handle_align_pads:
  assumes "fr_type f = Rs_align_code" and "b - fr_address f - fr_fix f = r" and "0 < sint r"
  shows "\<exists>lit. riscv_handle_align False b f =
    f\<lparr>fr_literal := lit, fr_fix := fr_fix f + word_of_nat (unat r mod 4), fr_var := 4\<rparr>"
proof -
  have "sint r = int (unat r)" using assms(3) nat_sint [of r] by (metis int_nat_eq less_le)
  then have ex: "nat (sint r mod 4) = unat r mod 4" by (metis nat_int of_nat_mod of_nat_numeral)
  have "\<not> sint r \<le> 0" using assms(3) by simp
  then show ?thesis unfolding riscv_handle_align_def Let_def assms(2) ex by (simp only: assms(1) simp_thms if_True if_False) blast
qed

lemma handle_align_frag:
  assumes "handle_align (Some b) i gs = Inr gs'" and "f = gs_frags gs ! i" and "is_align (fr_type f)" and "fr_var f = 1"
    and "b - fr_address f - fr_fix f = r" and "uint r < 2 ^ 31"
  shows "\<exists>f'. gs_frags gs' = (gs_frags gs)[i := f'] \<and> fr_type f' = fr_type f \<and> fr_address f' = fr_address f \<and>
    (b - fr_address f' - fr_fix f') mod fr_var f' = 0 \<and> uint (b - fr_address f' - fr_fix f') < 2 ^ 31"
proof -
  have self: "gs_frags gs = (gs_frags gs)[i := f]" using assms(2) by simp
  have plain: ?thesis if "gs_frags gs' = (gs_frags gs)[i := f]"
    using that assms(4,5,6) by (intro exI [of _ f]) simp
  show ?thesis
  proof (cases "fr_type f = Rs_align_code \<and> \<not> opt_relax (tc_opts (gs_tc gs)) \<and> 0 < sint r")
    case False
    then have "gs_frags gs' = (gs_frags gs)[i := f]"
      using assms(1,5) self by (auto simp: handle_align_def assms(2) frag_simps riscv_handle_align_def Let_def split: if_splits)
    then show ?thesis by (rule plain)
  next
    case True
    have "gs' = update_gs_frag i (riscv_handle_align False b) gs"
      using True assms(1) by (simp add: handle_align_def assms(2))
    moreover obtain lit where "riscv_handle_align False b f =
        f\<lparr>fr_literal := lit, fr_fix := fr_fix f + word_of_nat (unat r mod 4), fr_var := 4\<rparr>"
      using riscv_handle_align_pads [OF _ assms(5)] True by blast
    ultimately have lit: "gs_frags gs' = (gs_frags gs)[i :=
        f\<lparr>fr_literal := lit, fr_fix := fr_fix f + word_of_nat (unat r mod 4), fr_var := 4\<rparr>]"
      by (simp add: frag_simps assms(2))
    define h where "h = f\<lparr>fr_literal := lit, fr_fix := fr_fix f + word_of_nat (unat r mod 4), fr_var := 4\<rparr>"
    have "b - fr_address h - fr_fix h = r - word_of_nat (unat r mod 4)"
      using assms(5) by (simp add: h_def algebra_simps)
    moreover have "fr_var h = 4" "fr_type h = fr_type f" "fr_address h = fr_address f" by (simp_all add: h_def)
    ultimately show ?thesis using lit [folded h_def] rest_of_four [OF assms(6)] by metis
  qed
qed

lemma cvt_code_frag:
  assumes "cvt_frag_to_fill dbg next_address i gs = Inr gs'" and "f = gs_frags gs ! i" and "code_frag f"
    and "i < length (gs_frags gs)" and "room_ok f r" and "b = fr_address f + fr_fix f + r"
    and "next_address = None \<or> next_address = Some b"
  shows "\<exists>f'. gs_frags gs' = (gs_frags gs)[i := f'] \<and> fr_type f' = Rs_fill \<and> fr_address f' = fr_address f \<and>
    fr_address f + fr_fix f' + fr_offset f' * fr_var f' = b"
proof -
  have self: "gs_frags gs = (gs_frags gs)[i := f]" using assms(2) by simp
  consider (fill) "fr_type f = Rs_fill" | (align) "is_align (fr_type f)" "fr_var f = 1"
    | (machine) "fr_type f = Rs_machine_dependent" using assms(3) by (auto simp: code_frag_def)
  then show ?thesis
  proof cases
    case fill
    then have "gs' = gs" using assms(1) by (auto simp: cvt_frag_to_fill_def assms(2) Let_def)
    then show ?thesis using fill self assms(5,6) by (intro exI [of _ f]) (simp add: room_ok_def)
  next
    case machine
    then obtain gs1 where gs1: "md_convert_frag i gs = Inr gs1" "gs' = frag_wane i gs1"
      using assms(1) by (auto simp: cvt_frag_to_fill_def assms(2) convert_machine_dependent_def Let_def and_then_Inr_iff)
    obtain lit where "gs_frags gs1 = (gs_frags gs)[i := f\<lparr>fr_literal := lit, fr_fix := fr_fix f + fr_var f\<rparr>]"
      using md_convert_frags [OF gs1(1)] assms(2) by auto
    then show ?thesis using gs1(2) machine assms(4,5,6)
      by (auto simp: frag_wane_def frag_simps room_ok_def add.assoc)
  next
    case align
    have small: "uint r < 2 ^ 31" using assms(5) align(1) by (auto simp: room_ok_def dest: align_padding_small)
    obtain gs1 where gs1: "handle_align next_address i gs = Inr gs1" "fill_to_next next_address i gs1 = Inr gs'"
      using assms(1) align(1) by (auto simp: cvt_frag_to_fill_def assms(2) Let_def and_then_Inr_iff)
    from gs1(2) have "next_address \<noteq> None" by (cases next_address) (simp_all add: fill_to_next_def)
    then have nxt: "next_address = Some b" using assms(7) by blast
    have "b - fr_address f - fr_fix f = r" using assms(6) by simp
    from handle_align_frag [OF gs1(1) [unfolded nxt] assms(2) align this small]
    obtain f1 where f1: "gs_frags gs1 = (gs_frags gs)[i := f1]" "fr_type f1 = fr_type f" "fr_address f1 = fr_address f"
      "(b - fr_address f1 - fr_fix f1) mod fr_var f1 = 0" "uint (b - fr_address f1 - fr_fix f1) < 2 ^ 31"
      by (elim exE conjE) (rule that)
    have g: "gs_frags gs1 ! i = f1" using f1(1) assms(4) by simp
    have "fr_type f1 \<noteq> Rs_space_nop" using f1(2) align(1) by (metis relax_state.distinct)
    from fill_to_next_fills [OF gs1(2) [unfolded nxt] g [symmetric] this f1(5,4)] obtain c where
      c: "gs_frags gs' = (gs_frags gs1)[i := f1\<lparr>fr_offset := c, fr_type := Rs_fill\<rparr>]" "fr_address f1 + fr_fix f1 + c * fr_var f1 = b"
      by blast
    have "gs_frags gs' = (gs_frags gs)[i := f1\<lparr>fr_offset := c, fr_type := Rs_fill\<rparr>]" by (simp add: c(1) f1(1))
    then show ?thesis using c(2) f1(3) by (intro exI [of _ "f1\<lparr>fr_offset := c, fr_type := Rs_fill\<rparr>"]) simp
  qed
qed

subsection \<open>The section\<close>

text \<open>Fills that lie one behind the other.\<close>

fun contiguous :: "frag list \<Rightarrow> u32 \<Rightarrow> nat list \<Rightarrow> bool" where
  "contiguous frags a [] \<longleftrightarrow> True"
| "contiguous frags a (i # order) \<longleftrightarrow> fr_type (frags ! i) = Rs_fill \<and> fr_address (frags ! i) = a \<and>
     contiguous frags (a + word_of_nat (length (frag_output (frags ! i)))) order"

lemma contiguous_cong: "(\<And>i. i \<in> set order \<Longrightarrow> frags ! i = frags' ! i) \<Longrightarrow> contiguous frags a order = contiguous frags' a order"
  by (induction order arbitrary: a) auto

lemma frag_output_word: "word_of_nat (length (frag_output f)) = fr_fix f + fr_offset f * fr_var f"
  by (simp add: length_frag_output)

lemma cvt_frags_contiguous:
  assumes "cvt_frags dbg order gs = Inr gs'" and "code_chain (gs_frags gs) order" and "laid_out (gs_frags gs) a order b"
  shows "contiguous (gs_frags gs') a order \<and>
    (\<forall>j. j \<notin> set order \<longrightarrow> gs_frags gs' ! j = gs_frags gs ! j)"
  using assms
proof (induction order arbitrary: a gs)
  case (Cons i order)
  let ?f = "gs_frags gs ! i"
  let ?next = "case order of [] \<Rightarrow> None | j # _ \<Rightarrow> Some (fr_address (gs_frags gs ! j))"
  have i: "i < length (gs_frags gs)" "code_frag ?f" "i \<notin> set order" "code_chain (gs_frags gs) order"
    using Cons.prems(2) by (auto simp: code_chain_def)
  obtain r where r: "fr_address ?f = a" "room_ok ?f r" "laid_out (gs_frags gs) (a + fr_fix ?f + r) order b"
    using Cons.prems(3) by auto
  have nxt: "?next = None \<or> ?next = Some (a + fr_fix ?f + r)" using r(3) by (cases order) auto
  obtain gs1 where gs1: "cvt_frag_to_fill dbg ?next i gs = Inr gs1" "cvt_frags dbg order gs1 = Inr gs'"
    using Cons.prems(1) by (auto simp: and_then_Inr_iff)
  from cvt_code_frag [OF gs1(1) refl i(2,1) r(2) refl] nxt r(1)
  obtain f where f: "gs_frags gs1 = (gs_frags gs)[i := f]" "fr_type f = Rs_fill" "fr_address f = a"
    "a + fr_fix f + fr_offset f * fr_var f = a + fr_fix ?f + r" by auto
  have same: "gs_frags gs1 ! j = gs_frags gs ! j" if "j \<noteq> i" for j using that by (simp add: f(1))
  have chain: "code_chain (gs_frags gs1) order" unfolding code_chain_def using i(3,4) same f(1) by (metis code_chain_def length_list_update)
  have "laid_out (gs_frags gs1) (a + fr_fix ?f + r) order b"
    using r(3) laid_out_cong [of order "gs_frags gs1" "gs_frags gs"] same i(3) by metis
  note IH = Cons.IH [OF gs1(2) chain this]
  have gi: "gs_frags gs' ! i = f" using IH i(1,3) f(1) by simp
  have "contiguous (gs_frags gs') a (i # order)"
    using IH gi f(2-4) by (simp add: frag_output_word add.assoc)
  then show ?case using IH same by auto
qed simp

lemma contiguous_address:
  "contiguous frags a (pre @ i # post) \<Longrightarrow>
    fr_address (frags ! i) = a + word_of_nat (length (concat (map (\<lambda>j. frag_output (frags ! j)) pre)))"
  by (induction pre arbitrary: a) (auto simp: add.assoc)

lemma write_contents_bytes:
  assumes "write_contents order gs = Inr (bs, gs')" and "\<forall>i \<in> set order. fr_type (gs_frags gs ! i) = Rs_fill"
  shows "bs = concat (map (\<lambda>i. frag_output (gs_frags gs ! i)) order) \<and> gs' = gs"
  using assms
proof (induction order arbitrary: bs)
  case (Cons i order)
  then obtain b1 gs1 b2 where b: "frag_contents (gs_frags gs ! i) gs = Inr (b1, gs1)" "write_contents order gs1 = Inr (b2, gs')"
      "bs = b1 @ b2" by (auto simp: and_then_Inr_iff)
  then show ?case using Cons.IH [of b2] Cons.prems(2) frag_contents_bytes [OF b(1)] by auto
qed simp

lemma contiguous_fills: "contiguous frags a order \<Longrightarrow> i \<in> set order \<Longrightarrow> fr_type (frags ! i) = Rs_fill"
  by (induction order arbitrary: a) auto

text \<open>
  Relaxation, conversion and writing of a section of code. Between the last two the fixups are
  applied, which change bytes of fragments and nothing else of them.
\<close>

definition same_layout :: "frag list \<Rightarrow> frag list \<Rightarrow> bool" where
  "same_layout frags frags' \<longleftrightarrow>
     map (\<lambda>f. f\<lparr>fr_literal := []\<rparr>) frags' = map (\<lambda>f. f\<lparr>fr_literal := []\<rparr>) frags"

lemma same_layout_refl [simp]: "same_layout frags frags"
  by (simp add: same_layout_def)

lemma same_layout_patch: "same_layout (gs_frags gs) (gs_frags (patch_frag i g gs))"
  unfolding same_layout_def
  by (cases "i < length (gs_frags gs)") (simp_all add: patch_frag_def frag_simps map_update list_update_same_conv list_update_beyond)

lemma frags_of_fixes [simp]:
  "gs_frags (update_fix k h gs) = gs_frags gs" "gs_frags (insert_after k f gs) = gs_frags gs"
  "gs_frags (S_SET_THREAD_LOCAL s gs) = gs_frags gs"
  by (simp_all add: update_fix_def insert_after_def S_SET_THREAD_LOCAL_def gs_frags_def)

lemma fill_in_same_layout: "fill_in_value k i p val gs = Inr gs' \<Longrightarrow> same_layout (gs_frags gs) (gs_frags gs')"
  by (auto simp: fill_in_value_def Let_def and_then_Inr_iff same_layout_patch split: if_splits)

lemma data_fix_same_layout:
  assumes "apply_data_fix names k val gs = Inr gs'"
  shows "same_layout (gs_frags gs) (gs_frags gs')"
proof (cases "fx_r_type (gs_fixes gs ! k) = BFD_RELOC_32 \<and> eh_frame_difference names gs (gs_fixes gs ! k)")
  case True
  then show ?thesis using assms by (auto simp: apply_data_fix_def Let_def)
next
  case False
  then have "\<exists>gs1 fr p. gs_frags gs1 = gs_frags gs \<and> fill_in_value k fr p val gs1 = Inr gs'"
    using assms by (auto simp: apply_data_fix_def Let_def and_then_Inr_iff split: if_splits)
      (metis frags_of_fixes(1,2))+
  then show ?thesis using fill_in_same_layout by metis
qed

lemma apply_case_same_layout:
  "apply_fix_case names k val gs = Inr (b, gs') \<Longrightarrow> same_layout (gs_frags gs) (gs_frags gs')"
  by (auto simp: apply_fix_case_def Let_def and_then_Inr_iff apply_tls_def apply_pcrel32_def apply_pcrel16_def frag_simps
      same_layout_patch dest: data_fix_same_layout fill_in_same_layout split: if_splits option.splits)

lemma md_apply_fix_same_layout:
  assumes "md_apply_fix names k val gs = Inr gs'"
  shows "same_layout (gs_frags gs) (gs_frags gs')"
proof -
  obtain b gs1 where c: "apply_fix_case names k val (update_fix k (\<lambda>f. f\<lparr>fx_addnumber := val\<rparr>) gs) = Inr (b, gs1)"
    and gs': "gs_frags gs' = gs_frags gs1"
    using assms by (auto simp: md_apply_fix_def Let_def and_then_Inr_iff frag_simps)
  from apply_case_same_layout [OF c] show ?thesis by (simp add: gs')
qed

lemma same_layout_nth:
  assumes "same_layout frags frags'"
  shows "(frags' ! i)\<lparr>fr_literal := []\<rparr> = (frags ! i)\<lparr>fr_literal := []\<rparr>"
proof -
  have len: "length frags' = length frags" using assms unfolding same_layout_def using map_eq_imp_length_eq by blast
  show ?thesis
  proof (cases "i < length frags")
    case True
    then show ?thesis using assms len unfolding same_layout_def by (metis nth_map)
  next
    case False
    then show ?thesis using nth_same_length [OF len] len by simp
  qed
qed

lemma same_layout_fields:
  assumes "same_layout frags frags'"
  shows "fr_address (frags' ! i) = fr_address (frags ! i) \<and> fr_type (frags' ! i) = fr_type (frags ! i) \<and>
    length (frag_output (frags' ! i)) = length (frag_output (frags ! i))"
  using same_layout_nth [OF assms, of i] by (cases "frags ! i"; cases "frags' ! i") (simp add: length_frag_output)

lemma same_layout_contiguous: "same_layout frags frags' \<Longrightarrow> contiguous frags a order \<Longrightarrow> contiguous frags' a order"
  by (induction order arbitrary: a) (simp_all add: same_layout_fields)

lemma written_section:
  assumes "relax_segment dbg names seg pass last_address order gs = Inr (again, last_address', order', gs1)"
    and "code_chain (gs_frags gs) order" and "size_seg dbg seg order' gs1 = Inr (sz, gs2)"
    and "same_layout (gs_frags gs2) (gs_frags gs3)" and "write_contents order' gs3 = Inr (bs, gs4)"
  shows "contiguous (gs_frags gs3) 0 order' \<and> bs = concat (map (\<lambda>i. frag_output (gs_frags gs3 ! i)) order')"
proof -
  from relax_segment_laid_out [OF assms(1) code_chain_ok [OF assms(2)]] obtain b where
    b: "laid_out (gs_frags gs1) 0 order' b" "order_ok (gs_frags gs1) order'" by blast
  have "code_chain (gs_frags (gs1\<lparr>gs_seg := seg\<rparr>)) order'"
    using relax_segment_settled [OF assms(1,2)] b(2) by (auto simp: code_chain_def order_ok_def frag_simps)
  moreover have "cvt_frags dbg order' (gs1\<lparr>gs_seg := seg\<rparr>) = Inr gs2"
    using assms(3) by (cases order') (auto simp: size_seg_def and_then_Inr_iff Let_def)
  moreover have "laid_out (gs_frags (gs1\<lparr>gs_seg := seg\<rparr>)) 0 order' b" using b(1) by (simp add: frag_simps)
  ultimately have "contiguous (gs_frags gs2) 0 order'" using cvt_frags_contiguous by blast
  then have c: "contiguous (gs_frags gs3) 0 order'" by (rule same_layout_contiguous [OF assms(4)])
  then have "\<forall>i \<in> set order'. fr_type (gs_frags gs3 ! i) = Rs_fill" using contiguous_fills by blast
  from write_contents_bytes [OF assms(5) this] c show ?thesis by blast
qed

lemma written_at_address:
  assumes "contiguous frags 0 order" and "bs = concat (map (\<lambda>i. frag_output (frags ! i)) order)"
    and "length bs < 2 ^ 32" and "i \<in> set order"
  shows "take (length (frag_output (frags ! i))) (drop (unat (fr_address (frags ! i))) bs) = frag_output (frags ! i)"
proof -
  obtain pre post where order: "order = pre @ i # post" using split_list [OF assms(4)] by blast
  let ?pre = "concat (map (\<lambda>j. frag_output (frags ! j)) pre)"
  have "length ?pre < 2 ^ 32" using assms(2,3) order by simp
  then have "unat (fr_address (frags ! i)) = length ?pre"
    using contiguous_address [OF assms(1) [unfolded order]] by (simp add: unat_of_nat take_bit_nat_eq_self)
  then show ?thesis using assms(2) order by simp
qed

end
