(* ===== verification/LayoutSamples.thy ===== *)
theory LayoutSamples
  imports SectionContents Samples
begin

text \<open>
  A section of code with a branch over an alignment to its last instruction, before and after its
  layout: the branch is first taken for a long one, and both get their final length.
\<close>

definition no_debug :: debug_frags where
  "no_debug = \<lparr>eh_frame_estimate_size_before_relax = (\<lambda>_ _. Inl Abort), eh_frame_relax_frag = (\<lambda>_ _. Inl Abort),
     eh_frame_convert_frag = (\<lambda>_ _. Inl Abort), dwarf2dbg_estimate_size_before_relax = (\<lambda>_ _. Inl Abort),
     dwarf2dbg_relax_frag = (\<lambda>_ _. Inl Abort), dwarf2dbg_convert_frag = (\<lambda>_ _. Inl Abort)\<rparr>"

definition code_text :: "u32 \<Rightarrow> u32 \<Rightarrow> u32 \<Rightarrow> u32 \<Rightarrow> gas_state" where
  "code_text st len a1 a2 = (start_gas
     [\<lparr>fr_address = 0, fr_fix = 0, fr_var = len, fr_offset = 0, fr_symbol = Some 1, fr_opcode = None,
       fr_type = Rs_machine_dependent, fr_subtype = st, fr_literal = le_bytes 0xc101 2 @ [0, 0, 0, 0, 0, 0]\<rparr>,
      \<lparr>fr_address = a1, fr_fix = 0, fr_var = 1, fr_offset = 3, fr_symbol = None, fr_opcode = None,
       fr_type = Rs_align_code, fr_subtype = 0, fr_literal = [0]\<rparr>,
      \<lparr>fr_address = a2, fr_fix = 2, fr_var = 0, fr_offset = 0, fr_symbol = None, fr_opcode = None,
       fr_type = Rs_fill, fr_subtype = 0, fr_literal = [0x82, 0x80]\<rparr>]
     [dot, plain_symbol ''after'' (Section 0) 0 (Some 2) False])
     \<lparr>gs_tc := start_tc\<lparr>tc_opts := initial_options\<lparr>opt_rvc := True, opt_relax := False\<rparr>\<rparr>\<rparr>"

definition layout_text :: gas_state where
  "layout_text = code_text (RELAX_BRANCH_ENCODE False True 8) 8 0 0"

lemma resolve_label:
  assumes "j = real_symbol gs i" and "\<not> is_local_symbol gs i" and "\<not> sy_resolved (gs_symbols gs ! j)"
    and "\<not> sy_resolving (gs_symbols gs ! j)" and "X_op (sy_value (gs_symbols gs ! j)) = O_constant"
    and "sy_segment (gs_symbols gs ! j) \<noteq> Expr_section" and "\<not> gs_finalize_syms gs" and "j < length (gs_symbols gs)"
  shows "resolve_symbol_value (Suc n) i gs =
    Inr (X_add_number (sy_value (gs_symbols gs ! j)) + frag_at (gs_frags gs) (sy_frag (gs_symbols gs ! j)), gs)"
  using assms by (simp add: resolve_symbol_value.simps resolve_case_def Let_def finish_resolution_def set_resolving_def update_symbol_def gs_frags_def
    list_update_same_conv)

lemmas code_text_simps = code_text_def start_gas_def start_chain_def gs_frags_def update_gs_frag_def update_frag_def blank_symbol_def

lemma align_6: "relax_align 2 3 = Inr 6"
  by (simp add: relax_align_def Let_def shl_def mask_eq_exp_minus_1)

lemma settled_flags:
  "RELAX_BRANCH_P (RELAX_BRANCH_ENCODE False True 8)" "RELAX_BRANCH_RVC (RELAX_BRANCH_ENCODE False True 8)"
  "\<not> RELAX_BRANCH_UNCOND (RELAX_BRANCH_ENCODE False True 8)"
  "RELAX_BRANCH_P (RELAX_BRANCH_ENCODE False True 2)" "RELAX_BRANCH_RVC (RELAX_BRANCH_ENCODE False True 2)"
  "\<not> RELAX_BRANCH_UNCOND (RELAX_BRANCH_ENCODE False True 2)" "RELAX_BRANCH_LENGTH (RELAX_BRANCH_ENCODE False True 2) = 2"
  by (simp_all add: RELAX_BRANCH_roundtrip)

lemmas branch_text_simps = settled_flags relaxed_branch_length_def branch_target_def branch_distance_def
  label_value_def reach_values S_IS_DEFINED_def

lemma layout_first_guess:
  "first_guess no_debug (Section 0) 0 [0, Suc 0, 2] layout_text = Inr (code_text (RELAX_BRANCH_ENCODE False True 8) 2 2 8)"
  by (simp add: layout_text_def Let_def code_text_simps guess_size_def resolve_frag_symbol_def symbol_fuel_def
      resolve_label [OF refl] real_symbol_def is_local_symbol_def LOCAL_SYMBOL_CHECK_def frag_at_def
      md_estimate_size_before_relax_def branch_text_simps align_guess_def align_padding_def align_6)

lemma layout_pass:
  "relax_pass no_debug (Section 0) 2 [0, Suc 0, 2] \<lparr>rx_gs = code_text (RELAX_BRANCH_ENCODE False True 8) 2 2 8,
      rx_stretch = 0, rx_stretched = False, rx_fudge = 0, rx_again = False, rx_last = (\<lambda>_. 0)\<rparr> =
    Inr ([0, Suc 0, 2], \<lparr>rx_gs = code_text (RELAX_BRANCH_ENCODE False True 2) 2 2 8,
      rx_stretch = 0, rx_stretched = False, rx_fudge = 0, rx_again = False, rx_last = (\<lambda>_. 0)\<rparr>)"
  by (simp add: Let_def code_text_simps relax_step_def relax_growth_def move_frag_def on_rx_def riscv_relax_frag_def grown_def
      branch_text_simps stretch_by_def relax_alignment_def align_padding_def align_6 no_growth_def)

lemma layout_relaxed:
  "relax_segment no_debug (\<lambda>_. ''.text'') (Section 0) 2 (\<lambda>_. 0) [0, Suc 0, 2] layout_text =
    Inr (True, (\<lambda>i. if i \<in> {0, Suc 0, 2} then fr_address (gs_frags (code_text 0 0 2 8) ! i) else 0), [0, Suc 0, 2],
      code_text (RELAX_BRANCH_ENCODE False True 2) 2 2 8)"
proof -
  let ?rx = "\<lambda>st b. \<lparr>rx_gs = code_text (RELAX_BRANCH_ENCODE False True st) 2 2 8, rx_stretch = 0,
    rx_stretched = b, rx_fudge = 0, rx_again = False, rx_last = (\<lambda>_. 0)\<rparr>"
  have loop: "relax_loop (Suc n) no_debug (Section 0) 2 [0, Suc 0, 2] (?rx 8 True) = Inr ([0, Suc 0, 2], ?rx 2 False)" for n
    by (subst relax_loop.simps) (simp del: relax_pass.simps add: layout_pass end_pass_def Let_def)
  have "max_iterations (length [0, Suc 0, 2]) = Suc 8" by (simp add: max_iterations_def Let_def)
  note loop = loop [of 8, folded this]
  have seg: "layout_text\<lparr>gs_seg := Section 0\<rparr> = layout_text" by (simp add: layout_text_def code_text_def start_gas_def)
  have "relax_segment no_debug (\<lambda>_. ''.text'') (Section 0) 2 (\<lambda>_. 0) [0, Suc 0, 2] layout_text =
     Inr (\<exists>i \<in> {0, Suc 0, 2}. 0 \<noteq> fr_address (gs_frags (rx_gs (?rx 2 False)) ! i), (\<lambda>i. if i \<in> {0, Suc 0, 2} then
       fr_address (gs_frags (rx_gs (?rx 2 False)) ! i) else 0), [0, Suc 0, 2], rx_gs (?rx 2 False))"
    unfolding relax_segment_def seg layout_first_guess and_then_simps using loop by (simp add: Let_def fun_eq_iff)
  then show ?thesis by (auto simp: code_text_simps fun_eq_iff)
qed

lemma layout_bytes:
  "store_bytes (le_bytes 19 4) 2 (store_bytes (le_bytes 1 2) 0 (0 # replicate 5 0)) = [0x01, 0, 0x13, 0, 0, 0]"
  "le_bytes 0xc101 2 = [0x01, 0xc1]"
proof -
  have "le_bytes 19 4 = [0x13, 0, 0, 0]" "le_bytes 1 2 = [1, 0]" and two: "le_bytes 0xc101 2 = [0x01, 0xc1]"
    by (simp_all only: le_bytes_4 le_bytes_2) (simp_all add: low_byte_def shr_def)
  moreover have "replicate 5 (0 :: byte) = [0, 0, 0, 0, 0]" by (simp add: numeral_eq_Suc)
  ultimately show "store_bytes (le_bytes 19 4) 2 (store_bytes (le_bytes 1 2) 0 (0 # replicate 5 0)) = [0x01, 0, 0x13, 0, 0, 0]"
    by (simp add: store_bytes_def)
  show "le_bytes 0xc101 2 = [0x01, 0xc1]" by (rule two)
qed

lemma layout_sized:
  "\<exists>gs2. size_seg no_debug (Section 0) [0, Suc 0, 2] (code_text (RELAX_BRANCH_ENCODE False True 2) 2 2 8) = Inr (10, gs2) \<and>
    write_contents [0, Suc 0, 2] gs2 = Inr ([0x01, 0xc1, 0x01, 0, 0x13, 0, 0, 0, 0x82, 0x80], gs2)"
  by (simp add: size_seg_def Let_def code_text_simps cvt_frag_to_fill_def convert_machine_dependent_def md_convert_frag_def
    md_convert_frag_branch_def convert_branch_def branch_text_simps fix_new_exp_symbol frag_wane_def handle_align_def riscv_handle_align_def
    fill_to_next_def initial_options_def frag_contents_def ensure_length_def riscv_make_nops_def nops_from.simps
    layout_bytes write_fill_repeats)

lemma code_text_frag:
  "gs_frags (code_text st len a1 a2) ! 0 = \<lparr>fr_address = 0, fr_fix = 0, fr_var = len, fr_offset = 0, fr_symbol = Some 1, fr_opcode = None,
     fr_type = Rs_machine_dependent, fr_subtype = st, fr_literal = le_bytes 0xc101 2 @ [0, 0, 0, 0, 0, 0]\<rparr>"
  by (simp add: code_text_simps)

lemma layout_text_chain: "code_chain (gs_frags layout_text) [0, Suc 0, 2]"
  by (simp add: code_chain_def code_frag_def layout_text_def code_text_simps settled_flags)

end
