(* ===== verification/Spec2Isabelle.thy ===== *)
theory Spec2Isabelle
  imports ReadSamples TcTables HashTrace LebValue LayoutSamples
begin

text \<open>
  A verification development of the RISC-V assembler of corewars-risc-v: GNU gas with its RISC-V
  target, as \<open>src/assembler/riscv\<close> compiles it to the browser. Survivors of the game are
  assembled by \<open>run_gas\<close> with \<open>-march=rv32imc\<close> and read back by
  \<open>parse_elf.c\<close>. The build is a 32-bit one: \<open>int\<close>, \<open>long\<close>,
  \<open>valueT\<close>, \<open>offsetT\<close> and \<open>bfd_vma\<close> have 32 bits, \<open>insn_t\<close> has 64.

  The main loop of the reader (\<open>read.c\<close>) takes labels and directives itself. An instruction
  goes from it to \<open>md_assemble\<close>, which looks the mnemonic up
  (\<open>hash.c\<close>), matches its operands against the entries of the opcode table
  (\<open>riscv_ip\<close>), and appends the instruction or the expansion of the macro to the current
  fragment (\<open>frags.c\<close>) together with fixups (\<open>write.c\<close>). Relaxation
  (\<open>relax_segment\<close>) settles the length of branches and the addresses of fragments,
  \<open>md_convert_frag\<close> expands the branches, \<open>md_apply_fix\<close> puts the values of the fixups into
  the code, and \<open>write_contents\<close> writes the fragments out.

  Theories, in the order they build on each other. Of the model:
  \<^item> \<open>Prelude\<close>: machine integers, results, rule collections.
  \<^item> \<open>RiscvEncoding\<close> (\<open>opcode/riscv.h\<close>): immediate formats, behind the locale
    \<open>imm_format\<close>; \<open>RiscvOpcConst\<close> (\<open>opcode/riscv-opc.h\<close>) and \<open>RiscvOpc\<close>
    (\<open>opcodes/riscv-opc.c\<close>): the constants, the match functions and the opcode tables.
  \<^item> \<open>GasHash\<close> (\<open>gas/hash.c\<close>), with the locale \<open>string_table\<close> its clients use;
    \<open>GasDiag\<close> and \<open>CString\<close>: messages, errors and C string functions.
  \<^item> \<open>TcValidate\<close>, \<open>TcArch\<close>, \<open>RiscvCsr\<close>, \<open>TcRegs\<close>, \<open>TcBegin\<close>
    (\<open>gas/config/tc-riscv.c\<close>): validation of the tables, ISA strings and options, names of
    registers and opcodes, start-up. \<open>TcTables\<close> proves the tables valid.
  \<^item> \<open>BfdBytes\<close> (\<open>bfd/libbfd.c\<close>), with the locale \<open>byte_access\<close>, and
    \<open>RiscvHowto\<close> (\<open>bfd/elfxx-riscv.c\<close>): bytes and relocation descriptions.
  \<^item> \<open>Frags\<close> (\<open>gas/frags.c\<close>), \<open>LocalLabels\<close> (\<open>gas/symbols.c\<close>,
    \<open>bfd/elf.c\<close>), \<open>GasState\<close> (\<open>gas/expr.h\<close>, \<open>gas/symbols.c\<close>,
    \<open>gas/write.c\<close>): the state of the assembler around the target.
  \<^item> \<open>Symbols\<close>, \<open>SymResolve\<close>, \<open>LabelDefs\<close> (\<open>gas/symbols.c\<close>, and
    \<open>resolve_expression\<close> of \<open>gas/expr.c\<close>): symbols and their tables, the values of symbols,
    labels. \<open>ExprConst\<close> and \<open>Expr\<close> (\<open>gas/expr.c\<close>): the expression parser.
  \<^item> \<open>ElfImage\<close> (\<open>bfd/elfcode.h\<close>, \<open>parse_elf.c\<close>, \<open>gas/as.c\<close>): headers of object
    files, and the extraction of the code from one.
  \<^item> \<open>TcRelax\<close>, \<open>TcFix\<close>, \<open>TcMacro\<close>, \<open>TcIp\<close>
    (\<open>gas/config/tc-riscv.c\<close>): relaxation, fixups, emission and macros, the instruction
    parser.
  \<^item> \<open>Leb128\<close> (\<open>gas/read.c\<close>, \<open>bfd/libbfd.c\<close>): LEB128 numbers, written and read;
    \<open>ReadLine\<close> (\<open>gas/read.c\<close>): what the directives of the reader share.
  \<^item> \<open>ReadEmit\<close>, \<open>ReadSpace\<close> (\<open>gas/read.c\<close>, and the directives of \<open>tc-riscv.c\<close>):
    data and string directives; alignment, space and symbols. \<open>CondAsm\<close> (\<open>gas/cond.c\<close>):
    conditional assembly. \<open>ReadSource\<close> (\<open>read_a_source_file\<close>, \<open>pobegin\<close>): the main loop
    of the reader and the tables of directives.
  \<^item> \<open>WriteRelax\<close>, \<open>WriteFrags\<close> (\<open>gas/write.c\<close>): the layout of a section
    (\<open>relax_segment\<close>), the conversion of its fragments to fills and what is written of them.

  Of the proofs: \<open>HashTrace\<close> refines the hash table to a map; \<open>FragPlaces\<close> and
  \<open>FixImage\<close> say where the bytes of a section are and what writing to them changes;
  \<open>RvSemantics\<close> executes the instructions the assembler itself chooses, and on it rest
  \<open>BranchRelax\<close>, \<open>NopFill\<close> and \<open>MacroCode\<close>; \<open>RelocDiff\<close> is about
  label differences, \<open>IpSound\<close> about what parsing an instruction leaves alone, for any
  expression parser that keeps to the contract of the locale \<open>operand_parser\<close>, which
  \<open>ExprFrame\<close> proves for the one of \<open>Expr\<close>; \<open>SymFuel\<close> and \<open>ExprFuel\<close> prove that the
  recursions end; \<open>ExprValue\<close> gives literals and constant expressions
  their value, \<open>LebValue\<close> LEB128 numbers, \<open>DataValue\<close> the data directives. \<open>CondStruct\<close> relates
  the stack of conditionals to nested blocks. \<open>InsnFuel\<close>, \<open>ReadEnds\<close> and \<open>ReadLoop\<close> prove that
  instructions, directives and the main loop end, with the locale \<open>line_reader\<close> for the entries of
  the tables; \<open>SourceData\<close> puts the loop, the table and the data directives together.
  \<open>Layout\<close> proves that relaxation leaves no gaps between fragments, \<open>BranchLayout\<close> that the
  branches fit when it stops, \<open>SectionContents\<close> that the bytes written are where the addresses say.
  \<open>Samples\<close>, \<open>SymSamples\<close>, \<open>ReadSamples\<close> and \<open>LayoutSamples\<close> have the states the
  witnesses use.

  Conventions. Pointers to fragments, symbols and fixups are indices into lists that only grow.
  Messages of \<open>as_bad\<close> and \<open>as_warn\<close> are collected in the target state; \<open>as_fatal\<close>,
  \<open>abort\<close>, failing assertions and what C leaves undefined are values of the left side of a
  result. What \<open>obstack.c\<close> allocates is a function in the chain of fragments, and what
  \<open>atof_generic\<close> reads is an argument of the expression parser.

  Fuel. \<open>frag_grow\<close> runs with fuel \<open>fc_room + 2\<close>, which is enough
  (\<open>frag_grow_room\<close>). The resolution of symbols takes one unit per symbol and two
  (\<open>symbol_fuel\<close>), the expression parser two per character and two (\<open>expr_fuel\<close>); that
  this is enough is proved for all inputs (\<open>symbol_resolution_terminates\<close>,
  \<open>expression_resolution_terminates\<close>, \<open>expression_parser_terminates\<close>). The loops over the
  operands of a directive take one unit per character of the line and one; the main loop is a
  partial function. That neither runs out is \<open>source_reading_returns\<close>. The passes of relaxation
  are bounded by the code itself (\<open>max_iterations\<close>); what runs longer is a fatal error.

  Not modelled: scrubbing, include files and macros, which put other text into the buffer the main
  loop reads; assignments to symbols, sections, common symbols, floating point literals and
  debugging information, whose directives are arguments of the main loop and whose fragments are
  arguments of the layout; the driver of the writing pass (\<open>write_object_file\<close>, the choice and
  resolution of fixups, the relocations of a section), the object file library beyond its byte
  access, its headers and the RISC-V relocations, and the x86 assembler \<open>nasm\<close>. They are generic
  code that the target code is called from, or a program of their own.
\<close>

section \<open>Loading constants\<close>

text \<open>
  C1. \<open>li\<close> loads its constant. In a started 32-bit target with room in the address space,
  \<open>load_const\<close> succeeds; after the fixups it created are applied, the section has grown by
  one or two instructions, and executing these from any machine state puts the constant into
  the register and changes nothing else.
\<close>

theorem load_const_correct:
  assumes "frchain_inv (gs_chain gs)" and "tc_started (gs_tc gs)" and "tc_xlen (gs_tc gs) = 32"
    and "X_op e = O_constant" and "rd < 32" and "fc_frag_size (gs_chain gs) < 2 ^ 16"
    and "length (image (gs_chain gs)) + 8 < 2 ^ 32"
  shows "\<exists>gs' gs'' code. load_const rd e gs = Inr gs' \<and>
    apply_constant_fixes names [length (gs_fixes gs)..<length (gs_fixes gs')] gs' = Inr gs'' \<and>
    image (gs_chain gs'') = image (gs_chain gs) @ code \<and> length code \<in> {4, 8} \<and>
    loads_constant code rd (X_add_number e)"
proof -
  obtain gs' where "load_const rd e gs = Inr gs'" using load_const_returns assms by blast
  then show ?thesis using load_const_loads [where gs' = gs'] assms by blast
qed

theorem load_const_correct_witness:
  "\<exists>gs' gs'' code. load_const 10 (constant_expr 0x12345fff) empty_text = Inr gs' \<and>
    apply_constant_fixes (\<lambda>_. '''') [length (gs_fixes empty_text)..<length (gs_fixes gs')] gs' = Inr gs'' \<and>
    image (gs_chain gs'') = image (gs_chain empty_text) @ code \<and> length code \<in> {4, 8} \<and>
    loads_constant code 10 (X_add_number (constant_expr 0x12345fff))"
  by (rule load_const_correct) (simp_all add: constant_expr_def)

section \<open>Branches\<close>





section \<open>Layout\<close>





text \<open>
  C7. What is written is what has been laid out. A section of code is relaxed, its fragments made
  fills, and its fixups applied, which changes bytes of the fragments only
  (\<open>md_apply_fix_same_layout\<close>); then the bytes written are those of the fragments, each its
  fixed part and the copies of its pattern, and those of a fragment are at the address it has been
  given, as long as the section fits into the address space.
\<close>

theorem written_at_addresses:
  assumes "relax_segment dbg names seg pass last_address order gs = Inr (again, last_address', order', gs1)"
    and "code_chain (gs_frags gs) order" and "size_seg dbg seg order' gs1 = Inr (sz, gs2)"
    and "same_layout (gs_frags gs2) (gs_frags gs3)" and "write_contents order' gs3 = Inr (bs, gs4)"
    and "length bs < 2 ^ 32" and "i \<in> set order'" and "f = gs_frags gs3 ! i"
  shows "bs = concat (map (\<lambda>i. frag_output (gs_frags gs3 ! i)) order') \<and>
    take (length (frag_output f)) (drop (unat (fr_address f)) bs) = frag_output f"
  using written_section [OF assms(1-5)] written_at_address [OF _ _ assms(6,7)] assms(8) by blast

theorem written_at_addresses_witness:
  "\<exists>gs2. size_seg no_debug (Section 0) [0, Suc 0, 2] (code_text (RELAX_BRANCH_ENCODE False True 2) 2 2 8) = Inr (10, gs2) \<and>
    (let bs = [0x01, 0xc1, 0x01, 0, 0x13, 0, 0, 0, 0x82, 0x80]; f = gs_frags gs2 ! Suc 0
     in write_contents [0, Suc 0, 2] gs2 = Inr (bs, gs2) \<and>
        bs = concat (map (\<lambda>i. frag_output (gs_frags gs2 ! i)) [0, Suc 0, 2]) \<and>
        take (length (frag_output f)) (drop (unat (fr_address f)) bs) = frag_output f)"
proof -
  obtain gs2 where gs2: "size_seg no_debug (Section 0) [0, Suc 0, 2] (code_text (RELAX_BRANCH_ENCODE False True 2) 2 2 8) = Inr (10, gs2)"
    "write_contents [0, Suc 0, 2] gs2 = Inr ([0x01, 0xc1, 0x01, 0, 0x13, 0, 0, 0, 0x82, 0x80], gs2)"
    using layout_sized by blast
  have "Suc 0 \<in> set [0, Suc 0, 2]" and "length [0x01, 0xc1, 0x01, 0, 0x13, 0, 0, 0, 0x82, 0x80 :: byte] < 2 ^ 32" by simp_all
  from written_at_addresses [OF layout_relaxed layout_text_chain gs2(1) same_layout_refl gs2(2) this(2,1) refl] gs2
  show ?thesis unfolding Let_def by blast
qed

section \<open>Start-up\<close>

text \<open>
  C8. The start-up of the target code never fails, whatever \<open>bfd_set_arch_mach\<close> answers: every
  entry of both opcode tables passes the validation, no name is entered twice, and the state it
  leaves has all four hash tables filled from the tables (\<open>tc_started\<close>). The default
  alignment of the text section is 2 bytes with compressed instructions and 4 without.
\<close>

theorem md_begin_succeeds:
  "\<exists>st' align. md_begin arch_ok st = Inr (st', align) \<and> tc_started st' \<and>
     align = (if opt_rvc (tc_opts st) then 1 else 2) \<and> tc_opts st' = tc_opts st \<and>
     tc_xlen st' = tc_xlen st \<and> tc_subsets st' = tc_subsets st"
  by (rule md_begin_ok)



text \<open>
  C12. After start-up a register name of a class is found exactly if the tables of names have it
  with that class, with the number the tables give, except that the embedded base has no
  integer register above 15.
\<close>

theorem register_lookup_exact:
  assumes "tc_started st"
  shows "reg_lookup_internal st s cls =
    (case map_of register_names s of
       Some (c, n) \<Rightarrow> if c = cls \<and> \<not> (opt_rve (tc_opts st) \<and> cls = RCLASS_GPR \<and> n > 15)
                      then Some n else None
     | None \<Rightarrow> None)"
  by (rule reg_lookup_internal_started [OF assms])

theorem register_lookup_exact_witness:
  "reg_lookup_internal start_tc ''a0'' RCLASS_GPR =
    (case map_of register_names ''a0'' of
       Some (c, n) \<Rightarrow> if c = RCLASS_GPR \<and> \<not> (opt_rve (tc_opts start_tc) \<and> RCLASS_GPR = RCLASS_GPR \<and> n > 15)
                      then Some n else None
     | None \<Rightarrow> None)"
  by (rule register_lookup_exact) simp

text \<open>
  C13. The letters after the base of an \<open>-march\<close> string come in the canonical order: a string
  of standard letters is accepted by the loop exactly if it is a subsequence of what is left of
  that order, and then each of its letters, and nothing else, is entered as a subset.
\<close>

theorem march_letters_canonical:
  assumes "CHR ''x'' \<notin> set p" and "CHR ''_'' \<notin> set p"
  shows "((\<exists>st'. arch_loop s p order ext st = Inr st') \<longleftrightarrow> subseq p order) \<and>
    (\<forall>st'. arch_loop s p order ext st = Inr st' \<longrightarrow>
      st' = st\<lparr>tc_subsets := rev (map (\<lambda>c. [c]) p) @ tc_subsets st\<rparr>)"
  using arch_loop_standard [OF assms] by blast

theorem march_letters_canonical_witness:
  "\<exists>st'. arch_loop ''rv32imc'' ''imc'' ''imafdqc'' None initial_tc = Inr st' \<and>
    st' = initial_tc\<lparr>tc_subsets := [''c'', ''m'', ''i'']\<rparr>"
proof -
  have "subseq ''imc'' ''imafdqc''" by simp
  then show ?thesis
    using march_letters_canonical [of "''imc''" "''rv32imc''" "''imafdqc''" None initial_tc]
    by (auto simp: initial_tc_def)
qed

section \<open>Hash tables\<close>



text \<open>
  C15. A traversal of a table calls its function once for every key in it, with the key's
  value: it is the fold over a list of entries with distinct keys that is the map of the table.
\<close>

theorem hash_traversal_exact:
  assumes "hash_inv t"
  shows "hash_traverse t f s = fold (\<lambda>(k, v). f k v) (hash_entries t) s \<and>
    distinct (map fst (hash_entries t)) \<and> map_of (hash_entries t) = hash_abs t"
  by (simp add: hash_traverse_entries hash_entries_distinct [OF assms] hash_entries_map [OF assms])

theorem hash_traversal_exact_witness:
  "hash_traverse hash_new (\<lambda>k (v :: nat) s. s + v) 0 = fold (\<lambda>(k, v) s. s + v) (hash_entries hash_new) 0 \<and>
    distinct (map fst (hash_entries (hash_new :: nat hash_control))) \<and>
    map_of (hash_entries (hash_new :: nat hash_control)) = hash_abs hash_new"
  using hash_traversal_exact [OF hash_new_inv, where f = "\<lambda>k (v :: nat) s. s + v" and s = 0] by simp

section \<open>Instruction formats\<close>

text \<open>
  C16. The immediate formats of the base instructions represent exactly the integers of their
  range and alignment: \<open>VALID_*\<close> holds of these and of no other 32-bit value.
\<close>

theorem base_immediates_exact:
  "(VALID_ITYPE_IMM x \<longleftrightarrow> - 2048 \<le> sint x \<and> sint x < 2048) \<and>
   (VALID_STYPE_IMM x \<longleftrightarrow> - 2048 \<le> sint x \<and> sint x < 2048) \<and>
   (VALID_SBTYPE_IMM x \<longleftrightarrow> - 4096 \<le> sint x \<and> sint x < 4096 \<and> even (sint x)) \<and>
   (VALID_UJTYPE_IMM x \<longleftrightarrow> - 1048576 \<le> sint x \<and> sint x < 1048576 \<and> even (sint x))"
  for x :: u32
  unfolding VALID_ITYPE_IMM_def VALID_STYPE_IMM_def VALID_SBTYPE_IMM_def VALID_UJTYPE_IMM_def
    itype.roundtrip stype.roundtrip sbtype.roundtrip ujtype.roundtrip
  by (simp add: imm_range_def)


section \<open>Code in fragments\<close>

text \<open>
  C18. Reserving bytes in the current fragment and writing them appends exactly these bytes to
  the section: with less than 65536 bytes asked for, \<open>frag_more\<close> succeeds, the bytes
  written before stay where they are, and the place it returns is the end of the section.
\<close>

theorem frag_more_appends:
  assumes "frchain_inv fc" and "fc_frag_size fc < 2 ^ 16" and "length bs < 0x10000"
    and "length (image fc) + length bs < 2 ^ 32"
  shows "\<exists>p fc1 fc'. frag_more (length bs) fc = Inr (p, fc1) \<and> fc' = write_literal (frag_now fc1) p bs fc1 \<and>
    frchain_inv fc' \<and> image fc' = image fc @ bs \<and> chain_extends fc fc' \<and>
    place_pos fc' (frag_now fc1) p = length (image fc)"
proof -
  obtain p fc1 where more: "frag_more (length bs) fc = Inr (p, fc1)"
    using frag_more_returns [OF assms(1-3)] by blast
  from frag_more_write [OF assms(1) more refl assms(4)] more show ?thesis by blast
qed

theorem frag_more_appends_witness:
  "\<exists>p fc1 fc'. frag_more (length [1, 2 :: byte]) (gs_chain empty_text) = Inr (p, fc1) \<and>
    fc' = write_literal (frag_now fc1) p [1, 2] fc1 \<and> frchain_inv fc' \<and>
    image fc' = image (gs_chain empty_text) @ [1, 2] \<and> chain_extends (gs_chain empty_text) fc' \<and>
    place_pos fc' (frag_now fc1) p = length (image (gs_chain empty_text))"
  by (rule frag_more_appends) simp_all

text \<open>
  C19. An instruction with a constant for one of the immediate relocations is emitted as its own
  bytes at the end of the section, with one new fixup about exactly these bytes that carries the
  relocation and the constant.
\<close>

theorem append_insn_correct:
  assumes "frchain_inv (gs_chain gs)" and "fc_frag_size (gs_chain gs) < 2 ^ 16" and "insn_length ip = 4"
    and "X_op e = O_constant" and "r \<in> {BFD_RELOC_RISCV_HI20, BFD_RELOC_RISCV_LO12_I, BFD_RELOC_RISCV_LO12_S}"
    and "length (image (gs_chain gs)) + 4 < 2 ^ 32"
  shows "\<exists>gs' f. append_insn ip (Some e) r gs = Inr gs' \<and> emits gs (insn_bytes ip) gs' \<and>
    fix_at gs' (length (gs_fixes gs)) (length (image (gs_chain gs))) 4 \<and>
    gs_fixes gs' = gs_fixes gs @ [f] \<and> fx_r_type f = r \<and> fx_offset f = X_add_number e"
proof -
  have "length (image (gs_chain gs)) + insn_length ip < 2 ^ 32" using assms(3,6) by simp
  then obtain gs' where gs': "append_insn ip (Some e) r gs = Inr gs'"
    using append_insn_returns [OF assms(1,2,4,5)] by blast
  from append_insn_const [OF assms(1,3,4,5) gs' assms(6)] gs' show ?thesis by blast
qed

theorem append_insn_correct_witness:
  "\<exists>gs' f. append_insn (create_insn (OPC ''addi'' ''I'' ''d,s,j'' 0x13 0x707f Match_opcode 0)) (Some (constant_expr 5)) BFD_RELOC_RISCV_LO12_I
      empty_text = Inr gs' \<and> emits empty_text (insn_bytes (create_insn (OPC ''addi'' ''I'' ''d,s,j'' 0x13 0x707f Match_opcode 0))) gs' \<and>
    fix_at gs' (length (gs_fixes empty_text)) (length (image (gs_chain empty_text))) 4 \<and>
    gs_fixes gs' = gs_fixes empty_text @ [f] \<and> fx_r_type f = BFD_RELOC_RISCV_LO12_I \<and>
    fx_offset f = X_add_number (constant_expr 5)"
  by (rule append_insn_correct) (simp_all add: constant_expr_def insn_length_def riscv_insn_length_def create_insn_def)

text \<open>
  C20. The code \<open>riscv_make_nops\<close> fills an even number of bytes with is executed as nothing:
  from any machine state, running it only moves the program counter behind it.
\<close>

theorem nops_do_nothing:
  assumes "even n" and "n < 2 ^ 32"
  shows "\<exists>k. rv_run k (rv_pc s) (riscv_make_nops n) s = Some (rv_advance (word_of_nat n) s)"
  by (rule make_nops_run [OF assms])

theorem nops_do_nothing_witness:
  "\<exists>k. rv_run k 0 (riscv_make_nops 6) \<lparr>rv_pc = 0, rv_x = (\<lambda>_. 0)\<rparr> =
    Some (rv_advance (word_of_nat 6) \<lparr>rv_pc = 0, rv_x = (\<lambda>_. 0)\<rparr>)"
  using nops_do_nothing [of 6 "\<lparr>rv_pc = 0, rv_x = (\<lambda>_. 0)\<rparr>"] by simp

text \<open>
  C21. Aligning code under linker relaxation reserves the worst case: the section grows by
  \<open>2 ^ n\<close> minus the instruction alignment bytes of NOPs, and one \<open>R_RISCV_ALIGN\<close> fixup at
  their start tells the linker their number.
\<close>

theorem align_code_reserves:
  assumes "frchain_inv (gs_chain gs)" and "opt_relax (tc_opts (gs_tc gs))"
    and "al = (if opt_rvc (tc_opts (gs_tc gs)) then 2 else 4)" and "al < shl 1 n"
    and "fc_frag_size (gs_chain gs) < 2 ^ 16" and "n < 16"
    and "length (image (gs_chain gs)) + unat (shl 1 n - al :: u32) < 2 ^ 32"
  shows "\<exists>gs' f. riscv_frag_align_code n gs = Inr (True, gs') \<and>
    image (gs_chain gs') = image (gs_chain gs) @ riscv_make_nops (unat (shl 1 n - al :: u32)) \<and>
    gs_fixes gs' = gs_fixes gs @ [f] \<and> fx_r_type f = BFD_RELOC_RISCV_ALIGN \<and> fx_offset f = shl 1 n - al \<and>
    place_pos (gs_chain gs') (frag_now (gs_chain gs')) (fx_where f) = length (image (gs_chain gs))"
proof -
  obtain b gs' where r: "riscv_frag_align_code n gs = Inr (b, gs')"
    using riscv_frag_align_code_returns [OF assms(1,5,6)] by blast
  note c = riscv_frag_align_code_image [OF assms(1-4) r assms(7)]
  from c(5) obtain f where "gs_fixes gs' = gs_fixes gs @ [f]" "fx_r_type f = BFD_RELOC_RISCV_ALIGN"
    "fx_offset f = shl 1 n - al"
    "place_pos (gs_chain gs') (frag_now (gs_chain gs')) (fx_where f) = length (image (gs_chain gs))" by blast
  with c(1,2) r show ?thesis by (intro exI [of _ gs'] exI [of _ f]) simp
qed

theorem align_code_reserves_witness:
  "\<exists>gs' f. riscv_frag_align_code 2 empty_text = Inr (True, gs') \<and>
    image (gs_chain gs') = image (gs_chain empty_text) @ riscv_make_nops (unat (shl 1 2 - 2 :: u32)) \<and>
    gs_fixes gs' = gs_fixes empty_text @ [f] \<and> fx_r_type f = BFD_RELOC_RISCV_ALIGN \<and> fx_offset f = shl 1 2 - 2 \<and>
    place_pos (gs_chain gs') (frag_now (gs_chain gs')) (fx_where f) = length (image (gs_chain empty_text))"
  by (rule align_code_reserves) (simp_all add: initial_options_def shl_def)

section \<open>Local labels\<close>

text \<open>
  C22. The name built for a numeric label decodes to the number, the instance and the kind it was
  built from, so no two instances of a label and no two labels share a name.
\<close>

theorem local_label_names_decode:
  assumes "n < 2 ^ 31" and "m < 2 ^ 31" and "sep \<in> {DOLLAR_LABEL_CHAR, LOCAL_LABEL_CHAR}"
  shows "decode_local_label_name (local_label_name sep (word_of_nat n) (word_of_nat m)) =
    Some (word_of_nat n, word_of_nat m, if sep = DOLLAR_LABEL_CHAR then ''dollar'' else ''fb'')"
  by (rule local_label_name_roundtrip [OF assms])

theorem local_label_names_decode_witness:
  "decode_local_label_name (local_label_name LOCAL_LABEL_CHAR (word_of_nat 7) (word_of_nat 12)) =
    Some (word_of_nat 7, word_of_nat 12, if LOCAL_LABEL_CHAR = DOLLAR_LABEL_CHAR then ''dollar'' else ''fb'')"
  by (rule local_label_names_decode) simp_all

text \<open>
  C23. Defining a numeric label counts its instances and no others, and a forward reference
  (\<open>1f\<close>) names the label that the next definition makes, which a backward reference
  (\<open>1b\<close>) names from then on.
\<close>

theorem numeric_label_references:
  assumes "fb_ok fb"
  shows "fb_ok (fb_label_instance_inc n fb) \<and>
    fb_label_instance (fb_label_instance_inc n fb) = (fb_label_instance fb)(n := fb_label_instance fb n + 1) \<and>
    fb_label_name fb n 1 = fb_label_name (fb_label_instance_inc n fb) n 0"
  using fb_label_instance_inc_spec [OF assms] fb_forward_reference [OF assms] by blast

theorem numeric_label_references_witness:
  "fb_ok (fb_label_instance_inc 3 fb_label_init) \<and>
    fb_label_instance (fb_label_instance_inc 3 fb_label_init) =
      (fb_label_instance fb_label_init)(3 := fb_label_instance fb_label_init 3 + 1) \<and>
    fb_label_name fb_label_init 3 1 = fb_label_name (fb_label_instance_inc 3 fb_label_init) 3 0"
  by (rule numeric_label_references) (rule fb_label_init_ok)

section \<open>Options\<close>

text \<open>
  C24. \<open>.option push\<close> and \<open>.option pop\<close> bracket: whatever option lines stand between a
  matched pair, themselves matched, the options and the stack are afterwards what they were.
\<close>

theorem option_push_pop_restores:
  assumes "option_block xs"
  shows "tc_opts (fold s_riscv_option (''push'' # xs @ [''pop'']) st) = tc_opts st \<and>
    tc_opts_stack (fold s_riscv_option (''push'' # xs @ [''pop'']) st) = tc_opts_stack st"
  using option_push_pop [OF assms] by blast

theorem option_push_pop_restores_witness:
  "tc_opts (fold s_riscv_option (''push'' # [''norvc'', ''push'', ''rvc'', ''pop''] @ [''pop'']) start_tc) = tc_opts start_tc \<and>
    tc_opts_stack (fold s_riscv_option (''push'' # [''norvc'', ''push'', ''rvc'', ''pop''] @ [''pop'']) start_tc) =
      tc_opts_stack start_tc"
proof (rule option_push_pop_restores)
  have "option_block [''rvc'']" by (intro block_plain block_Nil) simp_all
  from block_nested [OF this block_Nil] have "option_block [''push'', ''rvc'', ''pop'']" by simp
  then show "option_block [''norvc'', ''push'', ''rvc'', ''pop'']" by (rule block_plain) simp_all
qed

section \<open>Bytes and relocations\<close>

text \<open>
  C25. The pair of relocations of a label difference: applying \<open>R_RISCV_ADD32\<close> for one symbol
  and \<open>R_RISCV_SUB32\<close> for another at the same place adds the difference of the two
  addresses to the word there, modulo \<open>2 ^ 32\<close>, and changes no other byte.
\<close>

theorem add_sub_difference:
  assumes "p + 4 \<le> length data" and "p < 2 ^ 32"
    and "rel_address e1 = word_of_nat p" and "rel_howto e1 = howto_table ! R_RISCV_ADD32"
    and "rel_address e2 = word_of_nat p" and "rel_howto e2 = howto_table ! R_RISCV_SUB32"
  shows "\<exists>data1 data2. riscv_elf_add_sub_reloc e1 sym1 data off False = Inr (Bfd_reloc_ok, e1, data1) \<and>
    riscv_elf_add_sub_reloc e2 sym2 data1 off False = Inr (Bfd_reloc_ok, e2, data2) \<and>
    bfd_getl32 data2 p = bfd_getl32 data p + reloc_target e1 sym1 - reloc_target e2 sym2 \<and>
    (\<forall>i. i < p \<or> p + 4 \<le> i \<longrightarrow> data2 ! i = data ! i)"
  by (rule riscv_elf_add_sub_difference [OF assms])

theorem add_sub_difference_witness:
  "\<exists>e1 e2 data1 data2.
    riscv_elf_add_sub_reloc e1 (plain_target 100) [1, 0, 0, 0, 9] 0 False = Inr (Bfd_reloc_ok, e1, data1) \<and>
    riscv_elf_add_sub_reloc e2 (plain_target 60) data1 0 False = Inr (Bfd_reloc_ok, e2, data2) \<and>
    bfd_getl32 data2 0 = bfd_getl32 [1, 0, 0, 0, 9] 0 + reloc_target e1 (plain_target 100) -
      reloc_target e2 (plain_target 60) \<and> data2 ! 4 = 9"
proof -
  obtain data1 data2 where d: "riscv_elf_add_sub_reloc (sample_reloc R_RISCV_ADD32) (plain_target 100)
      [1, 0, 0, 0, 9] 0 False = Inr (Bfd_reloc_ok, sample_reloc R_RISCV_ADD32, data1)"
    "riscv_elf_add_sub_reloc (sample_reloc R_RISCV_SUB32) (plain_target 60) data1 0 False =
      Inr (Bfd_reloc_ok, sample_reloc R_RISCV_SUB32, data2)"
    "bfd_getl32 data2 0 = bfd_getl32 [1, 0, 0, 0, 9] 0 + reloc_target (sample_reloc R_RISCV_ADD32) (plain_target 100) -
      reloc_target (sample_reloc R_RISCV_SUB32) (plain_target 60)"
    "\<forall>i. i < 0 \<or> 0 + 4 \<le> i \<longrightarrow> data2 ! i = [1, 0, 0, 0, 9] ! i"
    using add_sub_difference [of 0 "[1, 0, 0, 0, 9]" "sample_reloc R_RISCV_ADD32" "sample_reloc R_RISCV_SUB32"
        "plain_target 100" 0 "plain_target 60"] by (auto simp: sample_reloc_def)
  from d(4) have "data2 ! 4 = 9" by simp
  with d(1-3) show ?thesis by blast
qed

section \<open>Symbols\<close>

text \<open>
  C26. Symbol values always resolve. However the expressions of symbols refer to each
  other, in cycles as well, \<open>resolve_symbol_value\<close> returns with recursion no deeper than the
  number of symbols and two, and more fuel gives the same result: a symbol that is being resolved is
  marked, and the marked ones stop the recursion.
\<close>

theorem symbol_resolution_terminates:
  assumes "real_symbol gs i < length (gs_symbols gs)"
  shows "resolve_symbol_value (symbol_fuel gs) i gs \<noteq> Inl Out_of_fuel \<and>
    resolve_symbol_value (symbol_fuel gs + k) i gs = resolve_symbol_value (symbol_fuel gs) i gs"
  using resolve_fueled [OF symbol_fuel_enough(1) assms] resolve_fuel [OF symbol_fuel_enough(1) assms, of "symbol_fuel gs + k"]
  by (simp add: fueled_def)

theorem symbol_resolution_terminates_witness:
  "resolve_symbol_value (symbol_fuel loop_defined) 1 loop_defined \<noteq> Inl Out_of_fuel \<and>
    resolve_symbol_value (symbol_fuel loop_defined + 7) 1 loop_defined =
      resolve_symbol_value (symbol_fuel loop_defined) 1 loop_defined"
  by (rule symbol_resolution_terminates) (simp add: loop_text_def start_gas_def real_symbol_def LOCAL_SYMBOL_CHECK_def)

text \<open>
  C27. Folding an expression for the preprocessor-like uses, \<open>resolve_expression\<close> with
  \<open>snapshot_symbol\<close>, returns within the same bound, for any expression and any symbols, and more
  fuel gives the same result.
\<close>

theorem expression_resolution_terminates:
  "resolve_expression (symbol_fuel gs) e gs \<noteq> Inl Out_of_fuel \<and>
    resolve_expression (symbol_fuel gs + k) e gs = resolve_expression (symbol_fuel gs) e gs"
  using resolve_expression_fueled [of gs e] snapshot_fuel(1) [of e gs "symbol_fuel gs" "symbol_fuel gs + k"]
    symbol_fuel_enough [of gs] by (simp add: fueled_def split: if_splits)

text \<open>
  C28. A label whose name is not known yet becomes a symbol that names the current place:
  \<open>colon\<close> succeeds, enters exactly this name in the tables, adds one symbol, whose section,
  fragment and offset are those of the end of the current fragment, and leaves the code alone.
\<close>

theorem fresh_label_names_here:
  assumes "symtab_inv gs" and "symbol_named gs name = None"
  shows "\<exists>i gs'. colon name gs = Inr (i, gs') \<and> symtab_inv gs' \<and> symbol_named gs' = (symbol_named gs)(name \<mapsto> i) \<and>
    names_here gs' i \<and> gs_tc gs' = gs_tc gs \<and> gs_seg gs' = gs_seg gs \<and> gs_chain gs' = gs_chain gs \<and>
    (\<exists>s. gs_symbols gs' = gs_symbols gs @ [s] \<and> sy_name s = name)"
  by (rule colon_fresh [OF assms])

theorem fresh_label_names_here_witness:
  "\<exists>i gs'. colon ''loop'' empty_text = Inr (i, gs') \<and> symtab_inv gs' \<and>
    symbol_named gs' = (symbol_named empty_text)(''loop'' \<mapsto> i) \<and> names_here gs' i \<and> gs_tc gs' = gs_tc empty_text \<and>
    gs_seg gs' = gs_seg empty_text \<and> gs_chain gs' = gs_chain empty_text \<and>
    (\<exists>s. gs_symbols gs' = gs_symbols empty_text @ [s] \<and> sy_name s = ''loop'')"
  by (rule fresh_label_names_here) simp_all

text \<open>
  C29. A label that has been referenced before: \<open>colon\<close> defines the very symbol that the
  references hold, at the current place, and changes no other symbol and no table.
\<close>

theorem forward_label_resolved:
  assumes "symtab_inv gs" and "symbol_named gs name = Some i" and "referenced_only gs i" and "\<not> gs_finalize_syms gs"
  shows "\<exists>gs'. colon name gs = Inr (i, gs') \<and> symtab_inv gs' \<and> symbol_named gs' = symbol_named gs \<and> names_here gs' i \<and>
    gs_tc gs' = gs_tc gs \<and> length (gs_symbols gs') = length (gs_symbols gs) \<and>
    (\<forall>j. j \<noteq> i \<longrightarrow> gs_symbols gs' ! j = gs_symbols gs ! j)"
  by (rule colon_forward [OF assms])

theorem forward_label_resolved_witness:
  "\<exists>gs'. colon ''loop'' loop_wanted = Inr (1, gs') \<and> symtab_inv gs' \<and>
    symbol_named gs' = symbol_named loop_wanted \<and> names_here gs' 1 \<and> gs_tc gs' = gs_tc loop_wanted \<and>
    length (gs_symbols gs') = length (gs_symbols loop_wanted) \<and> gs_symbols gs' ! 0 = gs_symbols loop_wanted ! 0"
  using forward_label_resolved [OF loop_text_tables loop_wanted_referenced] by (metis zero_neq_one)

text \<open>
  C30. A label that is already defined elsewhere is an error: exactly one message is added,
  the first definition keeps its symbol and its value, and the name still stands for it.
\<close>

theorem duplicate_label_reported:
  assumes "symtab_inv gs" and "symbol_named gs name = Some i" and "defined_elsewhere gs i"
  shows "\<exists>j gs'. colon name gs = Inr (j, gs') \<and> symtab_inv gs' \<and> symbol_named gs' = symbol_named gs \<and>
    gs_symbols gs' ! i = gs_symbols gs ! i \<and>
    tc_errors (gs_tc gs') = tc_errors (gs_tc gs) @ [Diag (''symbol `%s'' @ CHR 0x27 # '' is already defined'') [Str name]]"
  by (rule colon_duplicate [OF assms])

theorem duplicate_label_reported_witness:
  "\<exists>j gs'. colon ''loop'' loop_defined = Inr (j, gs') \<and> symtab_inv gs' \<and>
    symbol_named gs' = symbol_named loop_defined \<and> gs_symbols gs' ! 1 = gs_symbols loop_defined ! 1 \<and>
    tc_errors (gs_tc gs') = tc_errors (gs_tc loop_defined) @
      [Diag (''symbol `%s'' @ CHR 0x27 # '' is already defined'') [Str ''loop'']]"
  by (rule duplicate_label_reported [OF loop_text_tables loop_defined_elsewhere])

section \<open>Expressions and instructions\<close>

text \<open>
  C31. The expression parser returns on every text, well-formed or not, with fuel twice
  the length of the text and two; more fuel gives the same result, and the text that is left is
  never longer than what was there. The reader of floating point numbers must not move backwards.
\<close>

theorem expression_parser_terminates:
  assumes "atof_ok atof"
  shows "parse_expression atof mode s gs \<noteq> Inl Out_of_fuel \<and>
    expr atof mode (expr_fuel s + k) 0 s gs = parse_expression atof mode s gs \<and>
    (case parse_expression atof mode s gs of Inr (seg, e, rest, gs') \<Rightarrow> length rest \<le> length s | Inl _ \<Rightarrow> True)"
  using parse_fueled(2) [OF assms, of s "expr_fuel s" mode 0 gs] parse_any_fuel [OF assms, of mode s k 0 gs]
    parse_rest(2) [OF assms, of mode "expr_fuel s" 0 s gs]
  by (auto simp: parse_expression_def fueled_def expr_fuel_def split: sum.split)

theorem expression_parser_terminates_witness:
  "parse_expression no_float Expr_normal ''(1+(2'' empty_text \<noteq> Inl Out_of_fuel \<and>
    expr no_float Expr_normal (expr_fuel ''(1+(2'' + 9) 0 ''(1+(2'' empty_text =
      parse_expression no_float Expr_normal ''(1+(2'' empty_text \<and>
    (case parse_expression no_float Expr_normal ''(1+(2'' empty_text of
       Inr (seg, e, rest, gs') \<Rightarrow> length rest \<le> length ''(1+(2'' | Inl _ \<Rightarrow> True)"
  by (rule expression_parser_terminates [OF no_float_ok])

text \<open>
  C32. Parsing an instruction with the expression parser of gas. Whatever the text,
  \<open>riscv_ip\<close> leaves the code, the fixups, the section, the options and the tables of the target
  and the names of the known symbols alone. An instruction it accepts is an entry of the run the
  hash table has for the mnemonic, of an extension in force, and its bits match the entry.
\<close>

theorem instruction_parser_sound:
  "case riscv_ip (expression atof) hash str gs of
     Inl _ \<Rightarrow> True
   | Inr (Inl error, gs') \<Rightarrow> gs_frame gs gs'
   | Inr (Inr (insn, e, r), gs') \<Rightarrow> gs_frame gs gs' \<and>
       (\<exists>mos. fst (hash_find hash (insn_name str)) = Some mos \<and>
         insn_mo insn \<in> set (takeWhile (\<lambda>mo. op_name mo = insn_name str) mos)) \<and>
       riscv_subset_supports (gs_tc gs) (op_subset (insn_mo insn)) \<and>
       (op_pinfo (insn_mo insn) = INSN_MACRO \<or> match_func (insn_mo insn) (insn_opcode insn))"
proof (cases "riscv_ip (expression atof) hash str gs")
  case (Inr p)
  then obtain res gs' where p: "riscv_ip (expression atof) hash str gs = Inr (res, gs')" by (cases p) auto
  note sound = gas_expr.riscv_ip_sound [OF p]
  show ?thesis
  proof (cases res)
    case (Inr q)
    obtain insn e r where "q = (insn, e, r)" by (cases q) auto
    with sound(1) sound(2) [of insn e r] Inr p show ?thesis by auto
  qed (use sound(1) p in simp)
qed simp

text \<open>
  C34. Binary, decimal and hexadecimal literals have their value, whatever the number of
  digits: as a constant if it fits into 32 bits, else as the digits of \<open>generic_bignum\<close>,
  as long as these suffice. The text behind it is left alone.
\<close>

theorem integer_literal_value:
  assumes "radix \<in> {2, 10, 16}" and "ds \<noteq> []" and "list_all (is_digit radix) ds" and "number_end radix rest"
    and "digits_nat radix ds < 65536 ^ SIZE_OF_LARGE_NUMBER"
  shows "\<exists>e big. integer_constant radix (ds @ rest) gs = Inr (e, rest, gs\<lparr>gs_bignum := big\<rparr>) \<and>
    (if digits_nat radix ds < 2 ^ 32 then e = constant_operand (word_of_nat (digits_nat radix ds))
     else X_op e = O_big \<and> littlenums_value (take (unat (X_add_number e)) big) = digits_nat radix ds)"
  by (rule integer_constant_value [OF assms])

theorem integer_literal_value_witness:
  "\<exists>e big. integer_constant 16 (''123456789A'' @ '';'') empty_text = Inr (e, '';'', empty_text\<lparr>gs_bignum := big\<rparr>) \<and>
    X_op e = O_big \<and> littlenums_value (take (unat (X_add_number e)) big) = 0x123456789A"
  using integer_literal_value [of 16 "''123456789A''" "'';''" empty_text]
  by (simp add: is_digit_def hex_value_def number_end_def digits_nat_def)

text \<open>
  C35. Constant expressions are read back. A tree of literals, unary and binary operators that
  has a value, printed with only the parentheses that the ranks of the operators ask for, is
  parsed to that value by \<open>expression\<close>, up to the delimiter behind it. The state only changes
  in the scratch variables of the parser.
\<close>

theorem constant_expression_read_back:
  assumes "atof_ok atof" and "cexp_ok t" and "cexp_value t = Some v"
    and "c_char rest \<in> {CHR 0x00, CHR 0x0a} \<union> set '';,)''"
  shows "\<exists>e gs'. parse_expression atof mode (print_cexp 0 t @ rest) gs = Inr (Absolute_section, e, rest, gs') \<and>
    is_constant e v \<and> same_but_scratch gs gs'"
  by (rule printed_constant_parsed [OF assms])

theorem constant_expression_read_back_witness:
  "\<exists>e gs'. parse_expression no_float Expr_normal (print_cexp 0 sample_cexp @ '','') empty_text =
      Inr (Absolute_section, e, '','', gs') \<and> is_constant e 21 \<and> same_but_scratch empty_text gs'"
  by (rule constant_expression_read_back [OF no_float_ok sample_cexp_ok]) simp

section \<open>Data\<close>


text \<open>
  C37. Data directives append their values. In a section that takes data, \<open>.byte\<close>, \<open>.half\<close> and
  \<open>.word\<close> with constant expressions that fit append the values in order, low byte first, read the
  line to its end and change nothing else; in particular there is no message and no fixup.
\<close>

theorem data_directive_appends:
  assumes "takes_data rs" and "nbytes \<in> {1, 2, 4}" and "list_all2 (operand_for nbytes) ts vs" and "ts \<noteq> []"
    and "line_end s" and "length (section_bytes rs) + nbytes * length ts < 2 ^ 32"
  shows "\<exists>rs'. cons nbytes (print_operands ts @ s) rs = Inr (tl s, rs') \<and>
    appends rs (concat (map (\<lambda>v. le_bytes v nbytes) vs)) rs'"
  by (rule data_directive [OF assms])

theorem data_directive_appends_witness:
  "\<exists>rs'. cons 2 (print_operands [sample_cexp, Unary CHR ''-'' (Lit 1)] @ '';'') sample_reader = Inr (tl '';'', rs') \<and>
    appends sample_reader (concat (map (\<lambda>v. le_bytes v 2) [21, - 1])) rs'"
  by (rule data_directive_appends [OF sample_reader_takes_data(1) _ sample_operands])
    (simp_all add: line_end_def sample_reader_takes_data)

text \<open>
  C38. String directives append their strings. Any byte strings, printed in quotes with octal
  escapes where that is needed and with commas between them, are put into the section as they
  were, each character widened to the size of the directive and each string with a NUL behind it
  where the directive adds one.
\<close>

theorem string_directive_appends:
  assumes "takes_data rs" and "k \<in> {1, 2, 4, 8}" and "bss \<noteq> []" and "line_end s"
    and "length (section_bytes rs) + length (concat (map (wide_string k z) bss)) < 2 ^ 32"
  shows "\<exists>rs'. stringer (8 * k + of_bool z) (print_strings bss @ s) rs = Inr (tl s, rs') \<and>
    appends rs (concat (map (wide_string k z) bss)) rs'"
  by (rule string_directive [OF assms])

theorem string_directive_appends_witness:
  "\<exists>rs'. stringer (8 * 2 + of_bool True) (print_strings [[104, 34, 10], []] @ '';'') sample_reader = Inr (tl '';'', rs') \<and>
    appends sample_reader (concat (map (wide_string 2 True) [[104, 34, 10], []])) rs'"
  by (rule string_directive_appends [OF sample_reader_takes_data(1)])
    (simp_all add: line_end_def sample_reader_takes_data wide_string_def wide_char_def)

section \<open>Conditional assembly\<close>

text \<open>
  C39. Conditionals nest. Reading the lines of a text with conditionals one after the other,
  where the directives only see the stack of \<open>cond.c\<close>, has the effect of the nested conditionals
  the text stands for: in the state it is met in, the first branch whose condition holds is read
  and the others are not, and the stack is what it was before. Where the input is ignored nothing
  happens. This holds for whatever is done with the other lines, as long as it does not look at
  the stack, and for failures as well.
\<close>

theorem conditionals_nest:
  assumes "\<And>l. blind (f l)" and "block_ok b"
  shows "run_lines f (block_lines b) rs = (if ignoring_now rs then Inr rs else run_block f b rs)"
  using selected(1) [OF assms] ignored(1) [OF assms(2)] by simp

theorem conditionals_nest_witness:
  "run_lines note_line (block_lines sample_block) sample_reader =
    (if ignoring_now sample_reader then Inr sample_reader else run_block note_line sample_block sample_reader)"
  by (rule conditionals_nest [OF note_line_blind sample_block_ok])

text \<open>
  C40. The stack of conditionals stays well formed under all its directives, with errors or
  without: what is dead is ignored, and what is inside an ignored conditional is dead, so that
  the top alone says whether any of the conditionals around the current line is ignored.
\<close>

theorem conditional_stack_well_formed:
  assumes "cond_directive h" and "h s rs = Inr (s', rs')" and "cframes_ok (rd_cframes rs)"
  shows "cframes_ok (rd_cframes rs') \<and> ignoring_now rs' = (\<exists>f \<in> set (rd_cframes rs'). ignoring f)"
  using cond_directive_ok [OF assms] ignoring_any by blast

theorem conditional_stack_well_formed_witness:
  "\<exists>rs'. s_ifb True ''x;'' sample_reader = Inr ('''', rs') \<and> cframes_ok (rd_cframes rs') \<and>
    ignoring_now rs' = (\<exists>f \<in> set (rd_cframes rs'). ignoring f)"
proof -
  have "\<exists>rs'. s_ifb True ''x;'' sample_reader = Inr ('''', rs')"
    by (simp add: s_ifb_def s_ignore_def ignore_rest_of_line_def skip_whitespace_def is_end_of_line_def Let_def)
  moreover have "cframes_ok (rd_cframes sample_reader)" by (simp add: sample_reader_def)
  ultimately show ?thesis using conditional_stack_well_formed [OF cond_directive.intros(3)] by blast
qed

section \<open>Reading the source\<close>

text \<open>
  C3. Source text of data is assembled. The lines of the directives for numbers and strings, with
  any constant expressions that fit and any bytes in the strings, are read by the main loop of the
  reader, which finds each directive in the table of start-up: reading ends without a failure,
  the section has grown by the bytes of the lines in order, the lines are counted, and there is no
  message, no fixup and no symbol but the one for the location counter that is not what it was.
\<close>

theorem data_source_assembled:
  assumes "pobegin out = Inr po_hash" and "takes_lines rs" and "list_all line_ok ls"
    and "length (section_bytes rs) + length (concat (map line_bytes ls)) < 2 ^ 32"
  shows "\<exists>rs'. read_a_source_file out po_hash (concat (map line_text ls)) rs = Some (Inr rs') \<and>
    assembled rs (concat (map line_bytes ls)) (length ls) rs'"
  unfolding read_a_source_file_def by (rule data_lines_read [OF assms])

theorem data_source_assembled_witness:
  "\<exists>po_hash rs'. pobegin sample_outside = Inr po_hash \<and>
    read_a_source_file sample_outside po_hash (concat (map line_text sample_lines)) sample_reader = Some (Inr rs') \<and>
    assembled sample_reader (concat (map line_bytes sample_lines)) (length sample_lines) rs'"
proof -
  obtain po_hash where "pobegin sample_outside = Inr po_hash" using pobegin_table by blast
  moreover have "length (section_bytes sample_reader) + length (concat (map line_bytes sample_lines)) < 2 ^ 32"
    by (simp add: sample_reader_takes_data sample_lines_def wide_string_def wide_char_def)
  ultimately show ?thesis using data_source_assembled [OF _ sample_reader_takes_lines sample_lines_ok] by blast
qed



text \<open>
  C11. The table of directives. It is built without an error, and a name is looked up in it to its
  first entry in the tables of the target, the object format, the assembler itself and the frame
  information, in this order; so the \<open>.word\<close> of the target, which has four bytes, takes the place
  of the one with two.
\<close>

theorem directive_table_first_entry:
  "\<exists>po_hash. pobegin out = Inr po_hash \<and>
    (\<forall>name. fst (hash_find po_hash name) =
      map_of (riscv_pseudo_table @ elf_pseudo_table out @ potable out @ cfi_pseudo_table out) name)"
  using pobegin_table [of out] hash_find_cases(2) unfolding pseudo_op_def by fastforce

section \<open>The object file\<close>

text \<open>
  C33. The game loads the code. When the headers are written around the contents of the sections,
  which lie between the file header and the table of sections, \<open>output_bin\<close> finds the
  first section with contents of the program and writes exactly its bytes to the file named like
  the source up to its first dot.
\<close>

theorem output_bin_extracts_code:
  assumes "object_ok e shdrs file" and "elf_write_shdrs_and_ehdr e shdrs file = (shdrs', file')"
    and "find (\<lambda>s. sh_type s = 1) shdrs = Some s" and "fs ''a.out'' = Some file'"
    and "can_open (takeWhile (\<lambda>c. c \<noteq> CHR ''.'') inname)"
    and "52 \<le> unat (sh_offset s)" and "unat (sh_offset s) + unat (sh_size s) \<le> unat (e_shoff e)"
  shows "output_bin can_open inname fs = Inr (0, fs(takeWhile (\<lambda>c. c \<noteq> CHR ''.'') inname \<mapsto>
    take (unat (sh_size s)) (drop (unat (sh_offset s)) file)))"
  by (rule output_bin_code [where fs = fs and can_open = can_open and inname = inname, OF assms])

theorem output_bin_extracts_code_witness:
  "output_bin (\<lambda>_. True) ''a.s'' [''a.out'' \<mapsto> object_file_image] =
    Inr (0, [''a.out'' \<mapsto> object_file_image, ''a'' \<mapsto> [0x13, 0x05, 0x50, 0x00]])"
  using output_bin_extracts_code [OF object_sample surjective_pairing, of "object_sections ! 1"
      "[''a.out'' \<mapsto> object_file_image]" "\<lambda>_. True" "''a.s''"]
  by (simp add: object_sections_def null_section_def object_header_def object_data_def object_file_image_def)

end
